(* ===== verification/Prelude.thy ===== *)
theory Prelude
  imports Main "HOL-Library.Word"
begin

section \<open>Shared vocabulary of the development\<close>

text \<open>
  What every component of the model uses: Go's \<open>error\<close> values, \<open>time.Time\<close> and
  \<open>time.Duration\<close>, the collections of rewrite rules the component proofs share, and
  the contract \<open>safe_machine\<close> of a component whose operations keep an invariant.

  Conventions of the model: a Go \<open>string\<close> or \<open>[]byte\<close> is a HOL \<open>string\<close> (a list of
  8-bit characters, as in Go); a nil error is \<open>None\<close>; a function returning
  \<open>(T, error)\<close> returns a pair; a method that changes its receiver returns the new
  receiver as the last component of its result.
\<close>

named_theorems os_simps "rewrite rules for one operating-system call"
named_theorems frame_simps "fields an operation leaves alone"

subsection \<open>Errors\<close>

text \<open>
  \<open>Err m\<close> is \<open>errors.New\<close> or a \<open>fmt.Errorf\<close> without \<open>%w\<close>, \<open>ErrWrap m e\<close> is a
  \<open>fmt.Errorf\<close> that wraps \<open>e\<close>. The two typed errors of
  \<^verbatim>\<open>daemon/service/srverrors/errors.go\<close> are constructors of their own, and so is the
  not-exists error the standard library reports (\<open>os.IsNotExist\<close>).
\<close>

datatype gerror =
    Err string
  | ErrWrap string gerror
  | ErrJoin gerror gerror
  | ErrNotExist
  | ErrorNotLoggedIn
  | ErrorBackgroundConnectionNoParams

type_synonym error = "gerror option"

text \<open>The text of an error (\<open>err.Error()\<close>).\<close>

fun error_text :: "gerror \<Rightarrow> string" where
  "error_text (Err m) = m"
| "error_text (ErrWrap m e) = m @ '': '' @ error_text e"
| "error_text (ErrJoin a b) = error_text a @ '' | error='' @ error_text b"
| "error_text ErrNotExist = ''file does not exist''"
| "error_text ErrorNotLoggedIn = ''not logged in; please visit https://www.ivpn.net/ to Sign Up or Log In to get info about your Account ID''"
| "error_text ErrorBackgroundConnectionNoParams = ''parameters for background connection are not defined; please manually connect the VPN once to initialize the default connection settings''"

definition first_error :: "error list \<Rightarrow> error" where
  "first_error es = (case filter (\<lambda>e. e \<noteq> None) es of [] \<Rightarrow> None | e # _ \<Rightarrow> e)"

lemma first_error_Nil [simp]: "first_error [] = None"
  by (simp add: first_error_def)

lemma first_error_Cons [simp]:
  "first_error (e # es) = (if e = None then first_error es else e)"
  by (simp add: first_error_def)

lemma first_error_None_iff: "first_error es = None \<longleftrightarrow> (\<forall>e \<in> set es. e = None)"
  by (induction es) auto

subsection \<open>Time\<close>

text \<open>
  Times and durations are integers of nanoseconds. A time counts from the zero value of
  \<open>time.Time\<close>, so \<open>t.IsZero()\<close> is \<open>t = 0\<close>; the Unix epoch is a fixed number of whole
  seconds later, so differences of \<open>t.Unix()\<close> values are differences of \<open>unix_sec\<close>.
\<close>

type_synonym gotime = int
type_synonym duration = int

definition second :: duration where "second = 1000000000"
definition minute :: duration where "minute = 60 * second"
definition hour :: duration where "hour = 60 * minute"

definition unix_sec :: "gotime \<Rightarrow> int" where
  "unix_sec t = t div second"

lemma second_pos [simp]: "0 < second" "0 \<le> second" "second \<noteq> 0"
  by (simp_all add: second_def)

lemma minute_pos [simp]: "0 < minute" "0 \<le> minute"
  by (simp_all add: minute_def second_def)

lemma hour_pos [simp]: "0 < hour" "0 \<le> hour"
  by (simp_all add: hour_def minute_def second_def)

lemmas time_defs = second_def minute_def hour_def

lemma unix_sec_mono: "s \<le> t \<Longrightarrow> unix_sec s \<le> unix_sec t"
  by (simp add: unix_sec_def zdiv_mono1)

subsection \<open>Generic facts on lists\<close>

lemma length_filter_eq_0_iff: "length (filter P xs) = 0 \<longleftrightarrow> (\<forall>x \<in> set xs. \<not> P x)"
  by (auto simp: filter_empty_conv)

lemma hd_drop_mem: "n < length xs \<Longrightarrow> hd (drop n xs) \<in> set xs"
  by (simp add: hd_drop_conv_nth)

lemma length_takeWhile_take:
  "length (takeWhile P (take n xs)) = min n (length (takeWhile P xs))"
proof (induction xs arbitrary: n)
  case Nil
  then show ?case by simp
next
  case (Cons x xs)
  then show ?case by (cases n) auto
qed

lemma nth_takeWhile_rev:
  "n < length (takeWhile P (rev xs)) \<Longrightarrow> P (xs ! (length xs - Suc n))"
proof -
  assume a: "n < length (takeWhile P (rev xs))"
  then have n: "n < length xs" using length_takeWhile_le [of P "rev xs"] by simp
  have "takeWhile P (rev xs) ! n = rev xs ! n" using a by (simp add: takeWhile_nth)
  moreover have "takeWhile P (rev xs) ! n \<in> set (takeWhile P (rev xs))"
    using a by (rule nth_mem)
  then have "P (takeWhile P (rev xs) ! n)" by (rule set_takeWhileD [THEN conjunct2])
  ultimately have "P (rev xs ! n)" by (simp only:)
  then show ?thesis using n by (simp add: rev_nth)
qed

subsection \<open>The contract of a component that keeps an invariant\<close>

text \<open>
  Every stateful component is driven by a list of operations applied one after the other
  (the mutexes of the code serialise them). \<open>safe_machine step inv\<close> says that one
  operation keeps \<open>inv\<close>; then every run keeps it.
\<close>

locale safe_machine =
  fixes step :: "'e \<Rightarrow> 's \<Rightarrow> 's"
    and inv :: "'s \<Rightarrow> bool"
  assumes step_inv: "inv s \<Longrightarrow> inv (step e s)"
begin

lemma run_inv: "inv s \<Longrightarrow> inv (fold step es s)"
  by (induction es arbitrary: s) (auto intro: step_inv)

lemma run_inv_prefix: "inv s \<Longrightarrow> inv (fold step (take n es) s)"
  by (rule run_inv)

end

end
