(* ===== verification/Go_Strings.thy ===== *)
theory Go_Strings
  imports Prelude "HOL-Library.Sublist"
begin

section \<open>The string functions of Go's standard library the program calls\<close>

text \<open>
  \<open>strings.TrimSpace\<close>, \<open>strings.Trim\<close>, \<open>strings.Split\<close>, \<open>strings.Join\<close>,
  \<open>strings.ToLower\<close>, \<open>strconv.ParseBool\<close> and \<open>strconv.Atoi\<close> on byte strings.
  \<open>trim_space\<close> knows the UTF-8 encodings of every white-space code point of Unicode, as
  \<open>unicode.IsSpace\<close> does; \<open>to_lower\<close> and \<open>equal_fold\<close> fold the letters of ASCII,
  which is what the program's identifiers and host names are made of.
\<close>

subsection \<open>Trimming\<close>

text \<open>The byte sequences of the code points of \<open>unicode.IsSpace\<close>.\<close>

definition space_seqs :: "string list" where
  "space_seqs =
     [[CHR 0x09], [CHR 0x0A], [CHR 0x0B], [CHR 0x0C], [CHR 0x0D], [CHR 0x20],
      [CHR 0xC2, CHR 0x85], [CHR 0xC2, CHR 0xA0], [CHR 0xE1, CHR 0x9A, CHR 0x80],
      [CHR 0xE2, CHR 0x80, CHR 0x80], [CHR 0xE2, CHR 0x80, CHR 0x81],
      [CHR 0xE2, CHR 0x80, CHR 0x82], [CHR 0xE2, CHR 0x80, CHR 0x83],
      [CHR 0xE2, CHR 0x80, CHR 0x84], [CHR 0xE2, CHR 0x80, CHR 0x85],
      [CHR 0xE2, CHR 0x80, CHR 0x86], [CHR 0xE2, CHR 0x80, CHR 0x87],
      [CHR 0xE2, CHR 0x80, CHR 0x88], [CHR 0xE2, CHR 0x80, CHR 0x89],
      [CHR 0xE2, CHR 0x80, CHR 0x8A], [CHR 0xE2, CHR 0x80, CHR 0xA8],
      [CHR 0xE2, CHR 0x80, CHR 0xA9], [CHR 0xE2, CHR 0x80, CHR 0xAF],
      [CHR 0xE2, CHR 0x81, CHR 0x9F], [CHR 0xE3, CHR 0x80, CHR 0x80]]"

text \<open>Dropping leading occurrences of any of the given (non-empty) sequences.\<close>

function drop_seqs :: "string list \<Rightarrow> string \<Rightarrow> string" where
  "drop_seqs ps s =
     (case find (\<lambda>p. p \<noteq> [] \<and> prefix p s) ps of
        None \<Rightarrow> s
      | Some p \<Rightarrow> drop_seqs ps (drop (length p) s))"
  by pat_completeness auto
termination
  by (relation "measure (\<lambda>(ps, s). length s)")
     (auto simp: find_Some_iff prefix_def)

declare drop_seqs.simps [simp del]

definition trim_space :: "string \<Rightarrow> string" where
  "trim_space s = rev (drop_seqs (map rev space_seqs) (rev (drop_seqs space_seqs s)))"

text \<open>\<open>strings.Trim(s, cutset)\<close> for a cutset of ASCII characters.\<close>

definition trim_set :: "string \<Rightarrow> string \<Rightarrow> string" where
  "trim_set s cutset =
     rev (dropWhile (\<lambda>c. c \<in> set cutset) (rev (dropWhile (\<lambda>c. c \<in> set cutset) s)))"

lemma drop_seqs_Nil [simp]: "drop_seqs ps [] = []"
  by (subst drop_seqs.simps) (auto split: option.splits simp: find_Some_iff)

lemma drop_seqs_no_prefix: "\<forall>p \<in> set ps. p \<noteq> [] \<longrightarrow> \<not> prefix p (drop_seqs ps s)"
proof (induction ps s rule: drop_seqs.induct)
  case (1 ps s)
  show ?case
  proof (cases "find (\<lambda>p. p \<noteq> [] \<and> prefix p s) ps")
    case None
    then have "drop_seqs ps s = s" by (subst drop_seqs.simps) simp
    with None show ?thesis by (auto simp: find_None_iff)
  next
    case (Some p)
    with 1 show ?thesis by (subst drop_seqs.simps) auto
  qed
qed

lemma drop_seqs_id: "\<forall>p \<in> set ps. p \<noteq> [] \<longrightarrow> \<not> prefix p s \<Longrightarrow> drop_seqs ps s = s"
  by (subst drop_seqs.simps) (auto split: option.splits simp: find_Some_iff; metis nth_mem)

lemma drop_seqs_suffix: "suffix (drop_seqs ps s) s"
proof (induction ps s rule: drop_seqs.induct)
  case (1 ps s)
  show ?case
  proof (cases "find (\<lambda>p. p \<noteq> [] \<and> prefix p s) ps")
    case None
    then show ?thesis by (subst drop_seqs.simps) auto
  next
    case (Some p)
    have "suffix (drop_seqs ps (drop (length p) s)) (drop (length p) s)"
      using 1 Some by blast
    moreover have "suffix (drop (length p) s) s" by (rule suffix_drop)
    ultimately have "suffix (drop_seqs ps (drop (length p) s)) s"
      by (rule suffix_order.trans)
    then show ?thesis using Some by (subst drop_seqs.simps) simp
  qed
qed

lemma trim_space_Nil [simp]: "trim_space [] = []"
  by (simp add: trim_space_def)

lemma length_trim_space: "length (trim_space s) \<le> length s"
  using drop_seqs_suffix [of "map rev space_seqs" "rev (drop_seqs space_seqs s)"]
    drop_seqs_suffix [of space_seqs s]
  by (auto simp: trim_space_def dest!: suffix_length_le)

text \<open>Trimming is idempotent: what is left starts and ends with no white space.\<close>

lemma trim_space_idem [simp]: "trim_space (trim_space s) = trim_space s"
proof -
  let ?l = "drop_seqs space_seqs s"
  let ?r = "drop_seqs (map rev space_seqs) (rev ?l)"
  have suf: "suffix ?r (rev ?l)" by (rule drop_seqs_suffix)
  then have pre: "prefix (rev ?r) ?l" by (simp add: suffix_to_prefix)
  have "\<forall>p \<in> set space_seqs. p \<noteq> [] \<longrightarrow> \<not> prefix p (rev ?r)"
    using drop_seqs_no_prefix [of space_seqs s] pre prefix_order.trans by blast
  then have "drop_seqs space_seqs (rev ?r) = rev ?r" by (rule drop_seqs_id)
  moreover have "drop_seqs (map rev space_seqs) ?r = ?r"
    using drop_seqs_no_prefix [of "map rev space_seqs" "rev ?l"] by (intro drop_seqs_id) auto
  ultimately show ?thesis by (simp add: trim_space_def)
qed

text \<open>A string of visible ASCII characters has nothing to trim.\<close>

lemma trim_space_plain:
  assumes "\<forall>c \<in> set s. 33 \<le> (of_char c :: nat) \<and> (of_char c :: nat) \<le> 126"
  shows "trim_space s = s"
proof -
  have vis: "\<not> set p \<subseteq> {c. 33 \<le> (of_char c :: nat) \<and> (of_char c :: nat) \<le> 126}"
    if "p \<in> set space_seqs \<union> set (map rev space_seqs)" for p :: string
    using that by (auto simp: space_seqs_def)
  have pre: "\<not> prefix p t"
    if "p \<in> set space_seqs \<union> set (map rev space_seqs)"
      "set t \<subseteq> {c. 33 \<le> (of_char c :: nat) \<and> (of_char c :: nat) \<le> 126}" for p t :: string
    using vis [OF that(1)] that(2) set_mono_prefix [of p t] by blast
  have "drop_seqs space_seqs s = s" using pre assms by (intro drop_seqs_id) blast
  moreover have "drop_seqs (map rev space_seqs) (rev s) = rev s"
    using pre [of _ "rev s"] assms by (intro drop_seqs_id) auto
  ultimately show ?thesis by (simp add: trim_space_def)
qed

subsection \<open>Splitting and joining\<close>

text \<open>\<open>strings.Split(s, [sep])\<close> for a one-byte separator: never the empty list.\<close>

fun split_on :: "char \<Rightarrow> string \<Rightarrow> string list" where
  "split_on sep [] = [[]]"
| "split_on sep (c # cs) =
     (if c = sep then [] # split_on sep cs
      else (case split_on sep cs of [] \<Rightarrow> [[c]] | w # ws \<Rightarrow> (c # w) # ws))"

fun join_with :: "string \<Rightarrow> string list \<Rightarrow> string" where
  "join_with sep [] = []"
| "join_with sep [w] = w"
| "join_with sep (w # v # ws) = w @ sep @ join_with sep (v # ws)"

lemma split_on_not_Nil [simp]: "split_on sep s \<noteq> []"
  by (induction s) (auto split: list.splits)

lemma join_split [simp]: "join_with [sep] (split_on sep s) = s"
proof (induction s)
  case Nil
  then show ?case by simp
next
  case (Cons c s)
  then show ?case
    by (cases "split_on sep s") (auto split: list.splits simp: neq_Nil_conv, (metis append_Cons join_with.simps list.exhaust)+)
qed

lemma split_on_no_sep: "w \<in> set (split_on sep s) \<Longrightarrow> sep \<notin> set w"
  by (induction s arbitrary: w) (auto split: list.splits if_splits)

lemma split_on_single: "sep \<notin> set w \<Longrightarrow> split_on sep w = [w]"
  by (induction w) auto

lemma split_on_append: "sep \<notin> set w \<Longrightarrow> split_on sep (w @ sep # s) = w # split_on sep s"
  by (induction w) auto

lemma split_join:
  "ws \<noteq> [] \<Longrightarrow> \<forall>w \<in> set ws. sep \<notin> set w \<Longrightarrow> split_on sep (join_with [sep] ws) = ws"
  by (induction "[sep]" ws rule: join_with.induct) (auto simp: split_on_single split_on_append)

subsection \<open>Letter case\<close>

definition to_lower_char :: "char \<Rightarrow> char" where
  "to_lower_char c =
     (if 65 \<le> (of_char c :: nat) \<and> (of_char c :: nat) \<le> 90 then char_of (of_char c + 32 :: nat) else c)"

definition to_lower :: "string \<Rightarrow> string" where
  "to_lower s = map to_lower_char s"

definition equal_fold :: "string \<Rightarrow> string \<Rightarrow> bool" where
  "equal_fold a b \<longleftrightarrow> to_lower a = to_lower b"

lemma equal_fold_refl [simp]: "equal_fold a a"
  by (simp add: equal_fold_def)

subsection \<open>Parsing booleans and numbers\<close>

text \<open>\<open>strconv.ParseBool\<close>: \<open>None\<close> is the syntax error.\<close>

definition parse_bool :: "string \<Rightarrow> bool option" where
  "parse_bool s =
     (if s \<in> set [''1'', ''t'', ''T'', ''TRUE'', ''true'', ''True''] then Some True
      else if s \<in> set [''0'', ''f'', ''F'', ''FALSE'', ''false'', ''False''] then Some False
      else None)"

definition is_digit :: "char \<Rightarrow> bool" where
  "is_digit c \<longleftrightarrow> 48 \<le> (of_char c :: nat) \<and> (of_char c :: nat) \<le> 57"

definition digit_val :: "char \<Rightarrow> nat" where
  "digit_val c = of_char c - 48"

definition digits_val :: "string \<Rightarrow> nat" where
  "digits_val s = foldl (\<lambda>n c. 10 * n + digit_val c) 0 s"

text \<open>
  \<open>strconv.Atoi\<close> on a 64-bit platform: an optional sign and at least one decimal digit;
  the value and whether an error is reported. A syntax error gives 0, a value out of
  range the nearest bound of \<open>int64\<close>, as the library documents.
\<close>

definition max_int64 :: int where "max_int64 = 2 ^ 63 - 1"
definition min_int64 :: int where "min_int64 = - (2 ^ 63)"

definition atoi :: "string \<Rightarrow> int \<times> bool" where
  "atoi s =
     (let (neg, ds) = (case s of
            [] \<Rightarrow> (False, s)
          | c # cs \<Rightarrow> if c = CHR ''-'' then (True, cs) else if c = CHR ''+'' then (False, cs)
                     else (False, s))
      in if ds = [] \<or> \<not> list_all is_digit ds then (0, True)
         else let v = (if neg then - int (digits_val ds) else int (digits_val ds))
              in if v < min_int64 then (min_int64, True)
                 else if max_int64 < v then (max_int64, True)
                 else (v, False))"

lemma atoi_bounds: "min_int64 \<le> fst (atoi s) \<and> fst (atoi s) \<le> max_int64"
  by (auto simp: atoi_def Let_def min_int64_def max_int64_def split: prod.splits if_splits)

end
