(* ===== verification/Eaa.thy ===== *)
theory Eaa
  imports Go_Strings
begin

section \<open>Enhanced App Authentication (daemon/protocol/eaa/eaa.go)\<close>

text \<open>
  The secret that guards privileged requests to the daemon, kept in one file, and the
  protection of it from guessing. \<open>eaa\<close> is the receiver \<open>Eaa\<close> together with the part of
  the world it works on: the content of the secret file (\<open>None\<close>: no such file) and the
  number of operating-system calls made so far. Each call of the operating system
  (open, stat, read, remove, write, clock) reads its outcome from \<open>eaa_os\<close> at that
  number, so a theorem for every \<open>eaa_os\<close> covers every pattern of failures and every
  clock. Sleeping changes no state. \<open>WriteFile\<close> and \<open>FileChmod\<close> of
  daemon/helpers/file.go are modelled for the Unix branch.
\<close>

datatype write_outcome =
    W_ok
  | W_open_error gerror
  | W_chmod_error gerror bool  \<comment> \<open>and whether the clean-up \<open>os.Remove\<close> succeeds\<close>
  | W_write_error nat gerror  \<comment> \<open>after that many bytes\<close>
  | W_sync_error gerror

record eaa_os =
  os_open :: "nat \<Rightarrow> error"
  os_stat :: "nat \<Rightarrow> error"
  os_read :: "nat \<Rightarrow> error"
  os_remove :: "nat \<Rightarrow> error"
  os_write :: "nat \<Rightarrow> write_outcome"
  os_now :: "nat \<Rightarrow> gotime"

record eaa =
  secretFile :: string
  lastFailedAttempts :: "gotime list"
  disk :: "string option"
  tick :: nat

definition Init :: "string \<Rightarrow> string option \<Rightarrow> eaa" where
  "Init file content =
     \<lparr>secretFile = file, lastFailedAttempts = [], disk = content, tick = 0\<rparr>"

subsection \<open>Operating-system calls\<close>

definition do_tick :: "eaa \<Rightarrow> eaa" where
  "do_tick e = e\<lparr>tick := Suc (tick e)\<rparr>"

definition time_now :: "eaa_os \<Rightarrow> eaa \<Rightarrow> gotime \<times> eaa" where
  "time_now os e = (os_now os (tick e), do_tick e)"

text \<open>\<open>os.Open\<close>: the reason it fails, or the content of the file it opens.\<close>

definition open_file :: "eaa_os \<Rightarrow> eaa \<Rightarrow> gerror + string" where
  "open_file os e =
     (case os_open os (tick e) of
        Some err \<Rightarrow> Inl err
      | None \<Rightarrow> (case disk e of None \<Rightarrow> Inl ErrNotExist | Some content \<Rightarrow> Inr content))"

definition remove_file :: "eaa_os \<Rightarrow> eaa \<Rightarrow> error \<times> eaa" where
  "remove_file os e =
     (if disk e = None then (Some ErrNotExist, do_tick e)
      else case os_remove os (tick e) of
             Some err \<Rightarrow> (Some err, do_tick e)
           | None \<Rightarrow> (None, do_tick (e\<lparr>disk := None\<rparr>)))"

definition WriteFile :: "eaa_os \<Rightarrow> string \<Rightarrow> eaa \<Rightarrow> error \<times> eaa" where
  "WriteFile os data e =
     (case os_write os (tick e) of
        W_open_error err \<Rightarrow> (Some err, do_tick e)
      | W_chmod_error err removed \<Rightarrow>
          (Some err, do_tick (e\<lparr>disk := (if removed then None else Some [])\<rparr>))
      | W_write_error n err \<Rightarrow> (Some err, do_tick (e\<lparr>disk := Some (take n data)\<rparr>))
      | W_sync_error err \<Rightarrow> (Some err, do_tick (e\<lparr>disk := Some data\<rparr>))
      | W_ok \<Rightarrow> (None, do_tick (e\<lparr>disk := Some data\<rparr>)))"

subsection \<open>The operations\<close>

definition maxSecretFileSize :: nat where "maxSecretFileSize = 1024 * 5"
definition maxFailAttemptsCnt :: nat where "maxFailAttemptsCnt = 6"
definition maxFailDuration :: duration where "maxFailDuration = minute"

definition doGetSecretHash :: "eaa_os \<Rightarrow> eaa \<Rightarrow> (string \<times> error) \<times> eaa" where
  "doGetSecretHash os e =
     (if length (secretFile e) \<le> 0 then (([], None), e)
      else case open_file os e of
        Inl err \<Rightarrow>
          (if err = ErrNotExist then (([], None), do_tick (e\<lparr>lastFailedAttempts := []\<rparr>))
           else (([], Some (ErrWrap ''the EAA file open error'' err)), do_tick e))
      | Inr content \<Rightarrow>
          (case os_stat os (tick e) of
             Some err \<Rightarrow> (([], Some (ErrWrap ''the EAA file status check error'' err)), do_tick e)
           | None \<Rightarrow>
             if length content > maxSecretFileSize
             then (([], Some (Err ''the EAA file too big'')), do_tick e)
             else case os_read os (tick e) of
               Some err \<Rightarrow> (([], Some (ErrWrap ''failed to read EAA file'' err)), do_tick e)
             | None \<Rightarrow> ((content, None), do_tick e)))"

definition doIsEnabled :: "eaa_os \<Rightarrow> eaa \<Rightarrow> bool \<times> eaa" where
  "doIsEnabled os e =
     (let ((secretHash, err), e) = doGetSecretHash os e
      in (err = None \<and> length secretHash > 0, e))"

text \<open>The three attempts to remove the file: the error of the last one made.\<close>

fun remove_retry :: "eaa_os \<Rightarrow> nat \<Rightarrow> error \<Rightarrow> eaa \<Rightarrow> error \<times> eaa" where
  "remove_retry os 0 removeErr e = (removeErr, e)"
| "remove_retry os (Suc n) removeErr e =
     (case remove_file os e of
        (None, e) \<Rightarrow> (None, e)
      | (Some err, e) \<Rightarrow> remove_retry os n (Some err) e)"

definition doForceDisable :: "eaa_os \<Rightarrow> eaa \<Rightarrow> error \<times> eaa" where
  "doForceDisable os e =
     (if length (secretFile e) \<le> 0 then (None, e)
      else case remove_retry os 3 None e of
        (Some err, e) \<Rightarrow> (Some (ErrWrap ''failed to disable EAA'' err), e)
      | (None, e) \<Rightarrow> (None, e\<lparr>lastFailedAttempts := []\<rparr>))"

text \<open>The body of \<open>doCheckSecret\<close>, before its deferred function.\<close>

definition check_body :: "eaa_os \<Rightarrow> string \<Rightarrow> eaa \<Rightarrow> (bool \<times> error) \<times> eaa" where
  "check_body os secretToCheck e =
     (let ((secretHash, err), e) = doGetSecretHash os e;
          isPModeEnabled = (err = None \<and> length secretHash > 0)
      in if \<not> isPModeEnabled then ((True, None), e)
         else
           let cntAttempts = length (lastFailedAttempts e) in
           if cntAttempts \<ge> maxFailAttemptsCnt then
             let e = (if cntAttempts > maxFailAttemptsCnt
                      then e\<lparr>lastFailedAttempts :=
                               drop (cntAttempts - maxFailAttemptsCnt) (lastFailedAttempts e)\<rparr>
                      else e);
                 (now, e) = time_now os e
             in if hd (lastFailedAttempts e) + maxFailDuration > now
                then ((False, Some (Err ''You have exceeded the allowed number of requests. Please wait 1 minute and try again.'')), e)
                else ((secretHash = secretToCheck, None), e)
           else ((secretHash = secretToCheck, None), e))"

definition doCheckSecret :: "eaa_os \<Rightarrow> string \<Rightarrow> eaa \<Rightarrow> (bool \<times> error) \<times> eaa" where
  "doCheckSecret os secretToCheck e =
     (let ((retVal, err), e) = check_body os secretToCheck e
      in if retVal then ((retVal, err), e\<lparr>lastFailedAttempts := []\<rparr>)
         else let (now, e) = time_now os e
              in ((retVal, err), e\<lparr>lastFailedAttempts := lastFailedAttempts e @ [now]\<rparr>))"

text \<open>The part of \<open>doSetSecret\<close> after the current secret has been confirmed.\<close>

definition set_new_secret :: "eaa_os \<Rightarrow> bool \<Rightarrow> string \<Rightarrow> eaa \<Rightarrow> error \<times> eaa" where
  "set_new_secret os isPmEnabled newSecret e =
     (if trim_space newSecret \<noteq> newSecret
      then (Some (Err ''please avoid using space symbols in EAA password''), e)
      else if length newSecret = 0 then
        (if isPmEnabled then
           case doForceDisable os e of
             (Some err, e) \<Rightarrow> (Some (ErrWrap ''failed to disable EAA'' err), e)
           | (None, e) \<Rightarrow> (None, e)
         else (None, e))
      else case WriteFile os newSecret e of
        (Some err, e) \<Rightarrow>
          (let (_, e) = doForceDisable os e
           in (Some (ErrWrap ''failed to enable EAA (FileWrite error)'' err), e))
      | (None, e) \<Rightarrow>
          (let ((isOK, err), e) = doCheckSecret os newSecret e
           in case err of
                Some er \<Rightarrow>
                  (let (_, e) = doForceDisable os e
                   in (Some (ErrWrap ''failed to enable EAA'' er), e))
              | None \<Rightarrow>
                  if \<not> isOK then
                    (let (_, e) = doForceDisable os e
                     in (Some (Err ''failed to enable EAA: internal error during confirmation''), e))
                  else (None, e)))"

definition doSetSecret :: "eaa_os \<Rightarrow> string \<Rightarrow> string \<Rightarrow> eaa \<Rightarrow> error \<times> eaa" where
  "doSetSecret os oldSecret newSecret e =
     (if length (secretFile e) \<le> 0 then (None, e)
      else
        let (isPmEnabled, e) = doIsEnabled os e
        in if isPmEnabled then
             let ((isOK, err), e) = doCheckSecret os oldSecret e
             in case err of
                  Some er \<Rightarrow> (Some er, e)
                | None \<Rightarrow>
                    if isPmEnabled \<and> \<not> isOK
                    then (Some (Err ''the current password for EAA does not match''), e)
                    else set_new_secret os isPmEnabled newSecret e
           else set_new_secret os isPmEnabled newSecret e)"

text \<open>The exported methods: each runs its \<open>do...\<close> function under the mutex.\<close>

definition IsEnabled :: "eaa_os \<Rightarrow> eaa \<Rightarrow> bool \<times> eaa" where
  "IsEnabled os e = doIsEnabled os e"

definition ForceDisable :: "eaa_os \<Rightarrow> eaa \<Rightarrow> error \<times> eaa" where
  "ForceDisable os e = doForceDisable os e"

definition SetSecret :: "eaa_os \<Rightarrow> string \<Rightarrow> string \<Rightarrow> eaa \<Rightarrow> error \<times> eaa" where
  "SetSecret os oldSecret newSecret e = doSetSecret os oldSecret newSecret e"

definition CheckSecret :: "eaa_os \<Rightarrow> string \<Rightarrow> eaa \<Rightarrow> (bool \<times> error) \<times> eaa" where
  "CheckSecret os secretToCheck e = doCheckSecret os secretToCheck e"

datatype eaa_op =
    Op_IsEnabled
  | Op_ForceDisable
  | Op_SetSecret string string
  | Op_CheckSecret string

fun eaa_step :: "eaa_os \<Rightarrow> eaa_op \<Rightarrow> eaa \<Rightarrow> eaa" where
  "eaa_step os Op_IsEnabled e = snd (IsEnabled os e)"
| "eaa_step os Op_ForceDisable e = snd (ForceDisable os e)"
| "eaa_step os (Op_SetSecret old new) e = snd (SetSecret os old new e)"
| "eaa_step os (Op_CheckSecret s) e = snd (CheckSecret os s e)"

subsection \<open>What one operating-system call changes\<close>

lemma do_tick_simps [simp]:
  "secretFile (do_tick e) = secretFile e"
  "lastFailedAttempts (do_tick e) = lastFailedAttempts e"
  "disk (do_tick e) = disk e"
  "tick (do_tick e) = Suc (tick e)"
  by (simp_all add: do_tick_def)

lemma time_now_simps [simp]:
  "fst (time_now os e) = os_now os (tick e)"
  "snd (time_now os e) = do_tick e"
  by (simp_all add: time_now_def)

lemma secretFile_remove_file [frame_simps]: "secretFile (snd (remove_file os e)) = secretFile e"
  by (simp add: remove_file_def split: option.splits)

lemma secretFile_WriteFile [frame_simps]: "secretFile (snd (WriteFile os d e)) = secretFile e"
  by (simp add: WriteFile_def split: write_outcome.splits)

lemma attempts_remove_file [frame_simps]:
  "lastFailedAttempts (snd (remove_file os e)) = lastFailedAttempts e"
  by (simp add: remove_file_def split: option.splits)

lemma attempts_WriteFile [frame_simps]:
  "lastFailedAttempts (snd (WriteFile os d e)) = lastFailedAttempts e"
  by (simp add: WriteFile_def split: write_outcome.splits)

lemma attempts_remove_retry [frame_simps]:
  "lastFailedAttempts (snd (remove_retry os n r e)) = lastFailedAttempts e"
proof (induction n arbitrary: r e)
  case 0
  then show ?case by simp
next
  case (Suc n)
  then show ?case
    using attempts_remove_file [of os e] by (auto split: prod.splits option.splits)
qed

lemma disk_doGetSecretHash [frame_simps]: "disk (snd (doGetSecretHash os e)) = disk e"
  by (simp add: doGetSecretHash_def split: option.splits sum.splits)

lemma secretFile_doGetSecretHash [frame_simps]:
  "secretFile (snd (doGetSecretHash os e)) = secretFile e"
  by (simp add: doGetSecretHash_def split: option.splits sum.splits)

lemma attempts_doGetSecretHash:
  "lastFailedAttempts (snd (doGetSecretHash os e)) \<in> {[], lastFailedAttempts e}"
  by (simp add: doGetSecretHash_def split: option.splits sum.splits)

lemma disk_check_body [frame_simps]: "disk (snd (check_body os s e)) = disk e"
  by (simp add: check_body_def Let_def frame_simps time_now_def split: prod.split)
     (metis disk_doGetSecretHash snd_conv)

lemma disk_doCheckSecret [frame_simps]: "disk (snd (doCheckSecret os s e)) = disk e"
  using disk_check_body [of os s e]
  by (auto simp: doCheckSecret_def Let_def time_now_def split: prod.splits)

lemma disk_doIsEnabled [frame_simps]: "disk (snd (doIsEnabled os e)) = disk e"
  using disk_doGetSecretHash [of os e]
  by (auto simp: doIsEnabled_def Let_def split: prod.splits)

lemma secretFile_check_body [frame_simps]:
  "secretFile (snd (check_body os s e)) = secretFile e"
  using secretFile_doGetSecretHash [of os e]
  by (auto simp: check_body_def Let_def time_now_def split: prod.splits)

lemma secretFile_doCheckSecret [frame_simps]:
  "secretFile (snd (doCheckSecret os s e)) = secretFile e"
  using secretFile_check_body [of os s e]
  by (auto simp: doCheckSecret_def Let_def time_now_def split: prod.splits)

lemma secretFile_doIsEnabled [frame_simps]:
  "secretFile (snd (doIsEnabled os e)) = secretFile e"
  using secretFile_doGetSecretHash [of os e]
  by (auto simp: doIsEnabled_def Let_def split: prod.splits)

subsection \<open>A stored secret that can be read\<close>

definition reads_ok :: "eaa_os \<Rightarrow> bool" where
  "reads_ok os \<longleftrightarrow> (\<forall>n. os_open os n = None \<and> os_stat os n = None \<and> os_read os n = None)"

definition no_faults :: "eaa_os \<Rightarrow> bool" where
  "no_faults os \<longleftrightarrow> reads_ok os \<and> (\<forall>n. os_remove os n = None \<and> os_write os n = W_ok)"

definition guarded :: "string \<Rightarrow> eaa \<Rightarrow> bool" where
  "guarded secret e \<longleftrightarrow>
     secretFile e \<noteq> [] \<and> disk e = Some secret \<and> secret \<noteq> [] \<and> length secret \<le> maxSecretFileSize"

definition kept_attempts :: "eaa \<Rightarrow> gotime list" where
  "kept_attempts e = drop (length (lastFailedAttempts e) - maxFailAttemptsCnt) (lastFailedAttempts e)"

definition locked_out :: "eaa_os \<Rightarrow> eaa \<Rightarrow> bool" where
  "locked_out os e \<longleftrightarrow>
     length (lastFailedAttempts e) \<ge> maxFailAttemptsCnt
     \<and> hd (kept_attempts e) + maxFailDuration > os_now os (Suc (tick e))"

lemma get_guarded [os_simps]:
  "reads_ok os \<Longrightarrow> guarded secret e \<Longrightarrow> doGetSecretHash os e = ((secret, None), do_tick e)"
  by (simp add: reads_ok_def guarded_def doGetSecretHash_def open_file_def)

lemma guarded_Nil [simp]: "\<not> guarded [] e"
  by (simp add: guarded_def)

lemma check_locked_out:
  assumes "reads_ok os" "guarded secret e" "locked_out os e"
  shows "\<exists>err. fst (doCheckSecret os s e) = (False, Some err)"
    and "lastFailedAttempts (snd (doCheckSecret os s e)) =
           kept_attempts e @ [os_now os (Suc (Suc (tick e)))]"
  using assms
  by (auto simp: doCheckSecret_def check_body_def Let_def os_simps locked_out_def
        kept_attempts_def time_now_def)

lemma check_open:
  assumes "reads_ok os" "guarded secret e" "\<not> locked_out os e"
  shows "fst (doCheckSecret os s e) = (secret = s, None)"
    and "lastFailedAttempts (snd (doCheckSecret os s e)) =
           (if secret = s then [] else kept_attempts e @
              [os_now os (if length (lastFailedAttempts e) \<ge> maxFailAttemptsCnt
                          then Suc (Suc (tick e)) else Suc (tick e))])"
  using assms
  by (auto simp: doCheckSecret_def check_body_def Let_def os_simps locked_out_def
        kept_attempts_def time_now_def)

lemma check_guarded [simp]: "guarded secret (snd (doCheckSecret os s e)) = guarded secret e"
  by (simp add: guarded_def frame_simps)

lemma check_fails_on_wrong:
  assumes "reads_ok os" "guarded secret e" "s \<noteq> secret"
  shows "\<not> fst (fst (doCheckSecret os s e))"
  using assms check_locked_out(1) [of os secret e s] check_open(1) [of os secret e s]
  by (cases "locked_out os e") auto

lemma length_kept_attempts: "length (kept_attempts e) = min maxFailAttemptsCnt (length (lastFailedAttempts e))"
  by (simp add: kept_attempts_def)

subsection \<open>Guessing is bounded\<close>

text \<open>
  A client that sends one guess after another, and how many of them the daemon compared
  with the secret (the others it refuses without looking at the guess).
\<close>

fun guess_run :: "eaa_os \<Rightarrow> string list \<Rightarrow> eaa \<Rightarrow> (bool \<times> error) list" where
  "guess_run os [] e = []"
| "guess_run os (g # gs) e =
     fst (CheckSecret os g e) # guess_run os gs (snd (CheckSecret os g e))"

definition evaluated :: "(bool \<times> error) list \<Rightarrow> nat" where
  "evaluated rs = length (filter (\<lambda>(ok, err). err = None) rs)"

text \<open>The failures recorded last, up to the first that is older than \<open>T\<close>.\<close>

definition recent :: "gotime \<Rightarrow> eaa \<Rightarrow> nat" where
  "recent T e = length (takeWhile (\<lambda>t. T \<le> t) (rev (lastFailedAttempts e)))"

lemma recent_kept:
  "length (takeWhile (\<lambda>t. T \<le> t) (rev (kept_attempts e))) = min maxFailAttemptsCnt (recent T e)"
proof -
  have "rev (kept_attempts e) = take maxFailAttemptsCnt (rev (lastFailedAttempts e))"
    by (simp add: kept_attempts_def take_rev)
  then show ?thesis by (simp add: recent_def length_takeWhile_take)
qed

lemma recent_locked_out:
  assumes "recent T e \<ge> maxFailAttemptsCnt" and "os_now os (Suc (tick e)) < T + maxFailDuration"
  shows "locked_out os e"
proof -
  let ?xs = "lastFailedAttempts e"
  have len: "length ?xs \<ge> maxFailAttemptsCnt"
    using assms(1) length_takeWhile_le [of "\<lambda>t. T \<le> t" "rev ?xs"] by (simp add: recent_def)
  then have "hd (kept_attempts e) = ?xs ! (length ?xs - maxFailAttemptsCnt)"
    by (auto simp: kept_attempts_def hd_drop_conv_nth maxFailAttemptsCnt_def)
  moreover have "T \<le> ?xs ! (length ?xs - Suc (maxFailAttemptsCnt - 1))"
    using assms(1) by (intro nth_takeWhile_rev [where P = "\<lambda>t. T \<le> t"]) (simp add: recent_def maxFailAttemptsCnt_def)
  ultimately have "T \<le> hd (kept_attempts e)" by (simp add: maxFailAttemptsCnt_def)
  with assms(2) len show ?thesis by (simp add: locked_out_def)
qed

lemma recent_wrong_guess:
  assumes "reads_ok os" "guarded secret e" "g \<noteq> secret"
    and "\<forall>n. tick e \<le> n \<longrightarrow> T \<le> os_now os n"
  shows "recent T (snd (doCheckSecret os g e)) = Suc (min maxFailAttemptsCnt (recent T e))"
  using assms check_locked_out(2) [of os secret e g] check_open(2) [of os secret e g]
    recent_kept [of T e]
  by (cases "locked_out os e") (auto simp: recent_def)

lemma tick_doCheckSecret: "tick e \<le> tick (snd (doCheckSecret os g e))"
proof -
  have "tick e \<le> tick (snd (doGetSecretHash os e))"
    by (simp add: doGetSecretHash_def split: option.splits sum.splits)
  then show ?thesis
    by (auto simp: doCheckSecret_def check_body_def Let_def time_now_def split: prod.splits)
qed

lemma guess_run_evaluated:
  assumes "reads_ok os" "guarded secret e" "secret \<notin> set gs"
    and "\<forall>n. tick e \<le> n \<longrightarrow> T \<le> os_now os n \<and> os_now os n < T + maxFailDuration"
  shows "evaluated (guess_run os gs e) \<le> maxFailAttemptsCnt - recent T e"
  using assms(2-)
proof (induction gs arbitrary: e)
  case Nil
  then show ?case by (simp add: evaluated_def)
next
  case (Cons g gs)
  let ?e = "snd (doCheckSecret os g e)"
  have r: "recent T ?e = Suc (min maxFailAttemptsCnt (recent T e))"
    using Cons.prems assms(1) by (intro recent_wrong_guess) auto
  have IH: "evaluated (guess_run os gs ?e) \<le> maxFailAttemptsCnt - recent T ?e"
    using Cons.prems tick_doCheckSecret [of e os g] by (intro Cons.IH) (auto intro: order_trans)
  show ?case
  proof (cases "recent T e \<ge> maxFailAttemptsCnt")
    case True
    then have "locked_out os e" using Cons.prems(3) by (intro recent_locked_out) auto
    then have "snd (fst (doCheckSecret os g e)) \<noteq> None"
      using check_locked_out(1) [OF assms(1) Cons.prems(1), of g] by auto
    then show ?thesis using IH r by (auto simp: evaluated_def CheckSecret_def split: prod.splits)
  next
    case False
    then show ?thesis using IH r by (auto simp: evaluated_def CheckSecret_def)
  qed
qed

text \<open>
  C37: Whatever was recorded before, a client that does not know the secret gets at most
  six guesses compared with it while the clock stays within one minute; every further
  guess is refused.
\<close>

theorem eaa_guess_bound:
  assumes "reads_ok os" "guarded secret e" "secret \<notin> set gs"
    and "\<forall>n \<ge> tick e. T \<le> os_now os n \<and> os_now os n < T + minute"
  shows "evaluated (guess_run os gs e) \<le> 6"
  using guess_run_evaluated [OF assms(1-3), of T] assms(4)
  by (auto simp: maxFailAttemptsCnt_def maxFailDuration_def)

definition sample_os :: eaa_os where
  "sample_os =
     \<lparr>os_open = (\<lambda>_. None), os_stat = (\<lambda>_. None), os_read = (\<lambda>_. None), os_remove = (\<lambda>_. None),
      os_write = (\<lambda>_. W_ok), os_now = (\<lambda>_. 1000)\<rparr>"

lemma sample_os_ok [simp]: "reads_ok sample_os" "no_faults sample_os" "os_now sample_os n = 1000"
  by (simp_all add: reads_ok_def no_faults_def sample_os_def)

theorem eaa_guess_bound_witness:
  "evaluated (guess_run sample_os (replicate 20 ''guess'') (Init ''eaa'' (Some ''pwd''))) \<le> 6"
  by (rule eaa_guess_bound [where secret = "''pwd''" and T = 1000])
     (simp_all add: guarded_def Init_def maxSecretFileSize_def)

subsection \<open>Changing the secret\<close>

lemma is_enabled_guarded [os_simps]:
  "reads_ok os \<Longrightarrow> guarded secret e \<Longrightarrow> doIsEnabled os e = (True, do_tick e)"
  using guarded_Nil by (auto simp: doIsEnabled_def os_simps)

lemma guarded_do_tick [simp]: "guarded secret (do_tick e) = guarded secret e"
  by (simp add: guarded_def)

text \<open>
  While authentication is enabled, \<open>SetSecret\<close> without the current secret reports an
  error and leaves the secret file as it was, whatever the new secret is and whatever the
  outcomes of writing and removing files would be.
\<close>

theorem eaa_set_needs_secret:
  assumes "reads_ok os" "guarded secret e" "old \<noteq> secret"
  shows "fst (SetSecret os old new e) \<noteq> None \<and> disk (snd (SetSecret os old new e)) = disk e"
proof -
  let ?c = "doCheckSecret os old (do_tick e)"
  have g: "guarded secret (do_tick e)" using assms(2) by simp
  have "\<not> fst (fst ?c)" using assms g by (intro check_fails_on_wrong)
  moreover have "disk (snd ?c) = disk e" by (simp add: frame_simps)
  moreover have "secretFile e \<noteq> []" using assms(2) by (simp add: guarded_def)
  ultimately show ?thesis
    using assms(1,2)
    by (auto simp: SetSecret_def doSetSecret_def os_simps Let_def split: prod.splits option.splits)
qed

theorem eaa_set_needs_secret_witness:
  "fst (SetSecret sample_os ''x'' ''new'' (Init ''eaa'' (Some ''pwd''))) \<noteq> None
   \<and> disk (snd (SetSecret sample_os ''x'' ''new'' (Init ''eaa'' (Some ''pwd'')))) = Some ''pwd''"
  using eaa_set_needs_secret [where os = sample_os and secret = "''pwd''" and old = "''x''"
      and new = "''new''" and e = "Init ''eaa'' (Some ''pwd'')"]
  by (simp add: guarded_def Init_def maxSecretFileSize_def)

lemma WriteFile_ok [os_simps]:
  "no_faults os \<Longrightarrow> WriteFile os d e = (None, do_tick (e\<lparr>disk := Some d\<rparr>))"
  by (simp add: no_faults_def WriteFile_def)

lemma get_absent [os_simps]:
  "reads_ok os \<Longrightarrow> secretFile e \<noteq> [] \<Longrightarrow> disk e = None \<Longrightarrow>
   doGetSecretHash os e = (([], None), do_tick (e\<lparr>lastFailedAttempts := []\<rparr>))"
  by (simp add: reads_ok_def doGetSecretHash_def open_file_def)

lemma get_too_big [os_simps]:
  "reads_ok os \<Longrightarrow> secretFile e \<noteq> [] \<Longrightarrow> disk e = Some c \<Longrightarrow> maxSecretFileSize < length c \<Longrightarrow>
   doGetSecretHash os e = (([], Some (Err ''the EAA file too big'')), do_tick e)"
  by (simp add: reads_ok_def doGetSecretHash_def open_file_def)

lemma no_faults_reads_ok: "no_faults os \<Longrightarrow> reads_ok os"
  by (simp add: no_faults_def)

lemma set_new_secret_ok:
  assumes "no_faults os" "secretFile e \<noteq> []" "trim_space new = new" "new \<noteq> []"
    and "length new \<le> maxSecretFileSize" "length (lastFailedAttempts e) < maxFailAttemptsCnt"
  shows "fst (set_new_secret os b new e) = None"
    and "guarded new (snd (set_new_secret os b new e))"
    and "lastFailedAttempts (snd (set_new_secret os b new e)) = []"
proof -
  let ?e = "do_tick (e\<lparr>disk := Some new\<rparr>)"
  have g: "guarded new ?e" using assms by (simp add: guarded_def)
  have n: "\<not> locked_out os ?e" using assms(6) by (simp add: locked_out_def)
  note c = check_open [OF no_faults_reads_ok [OF assms(1)] g n, of new]
  have d: "guarded new (snd (doCheckSecret os new ?e))" using g by simp
  obtain ok err e' where eq: "doCheckSecret os new ?e = ((ok, err), e')" by (metis prod.collapse)
  have "fst (set_new_secret os b new e) = None \<and> snd (set_new_secret os b new e) = e'"
    using assms eq c(1) by (simp add: set_new_secret_def os_simps)
  then show "fst (set_new_secret os b new e) = None"
    and "guarded new (snd (set_new_secret os b new e))"
    and "lastFailedAttempts (snd (set_new_secret os b new e)) = []"
    using c(2) d eq by simp_all
qed

lemma set_secret_ok:
  assumes "no_faults os" "secretFile e \<noteq> []" "trim_space new = new" "new \<noteq> []"
    and "length new \<le> maxSecretFileSize"
    and "disk e = None \<or> guarded old e \<and> length (lastFailedAttempts e) < maxFailAttemptsCnt"
  shows "fst (SetSecret os old new e) = None \<and> guarded new (snd (SetSecret os old new e))
     \<and> lastFailedAttempts (snd (SetSecret os old new e)) = []"
proof (cases "disk e = None")
  case True
  let ?e = "do_tick (e\<lparr>lastFailedAttempts := []\<rparr>)"
  have r: "reads_ok os" using assms(1) by (rule no_faults_reads_ok)
  have "SetSecret os old new e = set_new_secret os False new ?e"
    using True assms(2) r by (simp add: SetSecret_def doSetSecret_def doIsEnabled_def os_simps)
  then show ?thesis using set_new_secret_ok [of os ?e new False] assms
    by (simp add: maxFailAttemptsCnt_def)
next
  case False
  with assms(6) have g: "guarded old e" and l: "length (lastFailedAttempts e) < maxFailAttemptsCnt"
    by auto
  have r: "reads_ok os" using assms(1) by (rule no_faults_reads_ok)
  have n: "\<not> locked_out os (do_tick e)" using l by (simp add: locked_out_def)
  have g': "guarded old (do_tick e)" using g by simp
  note c = check_open [OF r g' n, of old]
  obtain e' where eq: "doCheckSecret os old (do_tick e) = ((True, None), e')"
    using c(1) by (metis (mono_tags) prod.collapse)
  have "SetSecret os old new e = set_new_secret os True new e'"
    using assms(2) g r eq by (simp add: SetSecret_def doSetSecret_def os_simps)
  moreover have "secretFile e' \<noteq> []" "lastFailedAttempts e' = []"
    using eq c(2) assms(2) secretFile_doCheckSecret [of os old "do_tick e"] by auto
  ultimately show ?thesis using set_new_secret_ok [of os e' new True] assms
    by (simp add: maxFailAttemptsCnt_def)
qed

text \<open>
  Setting a secret and checking it agree. When no file operation fails, a new secret of
  1 to 5120 bytes without surrounding white space, set by a client that knows the current
  secret or while authentication is off, is accepted, and then exactly that secret passes
  the check.
\<close>

theorem eaa_set_then_check:
  assumes "no_faults os" "secretFile e \<noteq> []" "trim_space new = new" "new \<noteq> []"
    and "length new \<le> 5120"
    and "disk e = None \<or> guarded old e \<and> length (lastFailedAttempts e) < 6"
  shows "fst (SetSecret os old new e) = None
     \<and> fst (IsEnabled os (snd (SetSecret os old new e)))
     \<and> fst (CheckSecret os s (snd (SetSecret os old new e))) = (new = s, None)"
proof -
  let ?e = "snd (SetSecret os old new e)"
  have ok: "fst (SetSecret os old new e) = None" and g: "guarded new ?e"
    and l: "lastFailedAttempts ?e = []"
    using set_secret_ok [of os e new old] assms
    by (simp_all add: maxSecretFileSize_def maxFailAttemptsCnt_def)
  have "\<not> locked_out os ?e" using l by (simp add: locked_out_def maxFailAttemptsCnt_def)
  then show ?thesis
    using ok check_open(1) [OF no_faults_reads_ok [OF assms(1)] g, of s]
      is_enabled_guarded [OF no_faults_reads_ok [OF assms(1)] g]
    by (simp add: CheckSecret_def IsEnabled_def)
qed

lemma trim_pwd: "trim_space ''pwd'' = ''pwd''"
  by code_simp

theorem eaa_set_then_check_witness:
  "fst (CheckSecret sample_os ''pwd'' (snd (SetSecret sample_os [] ''pwd'' (Init ''eaa'' None))))
     = (True, None)"
  using eaa_set_then_check [where os = sample_os and e = "Init ''eaa'' None" and new = "''pwd''"
      and old = "[]" and s = "''pwd''"]
  by (simp add: Init_def trim_pwd)

text \<open>
  A secret longer than 5120 bytes is accepted but protects nothing: \<open>SetSecret\<close>
  reports success (its confirmation step treats the file it can no longer read as
  "authentication off"), afterwards authentication is off and any secret passes the check.
\<close>

theorem eaa_oversized_secret:
  assumes "no_faults os" "secretFile e \<noteq> []" "disk e = None"
    and "trim_space new = new" "5120 < length new"
  shows "fst (SetSecret os old new e) = None
     \<and> \<not> fst (IsEnabled os (snd (SetSecret os old new e)))
     \<and> fst (CheckSecret os s (snd (SetSecret os old new e))) = (True, None)"
proof -
  let ?d = "do_tick (e\<lparr>lastFailedAttempts := []\<rparr>)"
  let ?w = "do_tick (?d\<lparr>disk := Some new\<rparr>)"
  have r: "reads_ok os" using assms(1) by (rule no_faults_reads_ok)
  have big: "maxSecretFileSize < length new" using assms(5) by (simp add: maxSecretFileSize_def)
  have "new \<noteq> []" using assms(5) by auto
  have chk: "doCheckSecret os t x = ((True, None), (do_tick x)\<lparr>lastFailedAttempts := []\<rparr>)"
    if "secretFile x \<noteq> []" "disk x = Some new" for t x
    using r that big by (simp add: doCheckSecret_def check_body_def os_simps)
  have "SetSecret os old new e = set_new_secret os False new ?d"
    using assms(2,3) r by (simp add: SetSecret_def doSetSecret_def doIsEnabled_def os_simps)
  also have "\<dots> = (None, (do_tick ?w)\<lparr>lastFailedAttempts := []\<rparr>)"
    using assms \<open>new \<noteq> []\<close> by (simp add: set_new_secret_def os_simps chk)
  finally show ?thesis
    using assms(2) r big by (simp add: IsEnabled_def CheckSecret_def doIsEnabled_def os_simps chk)
qed

theorem eaa_oversized_secret_witness:
  "fst (CheckSecret sample_os ''anything''
     (snd (SetSecret sample_os [] (replicate 6000 CHR ''x'') (Init ''eaa'' None)))) = (True, None)"
  using eaa_oversized_secret [where os = sample_os and e = "Init ''eaa'' None"
      and new = "replicate 6000 CHR ''x''" and old = "[]" and s = "''anything''"]
  by (simp add: Init_def trim_space_plain)

subsection \<open>The record of failures stays small\<close>

definition eaa_inv :: "eaa \<Rightarrow> bool" where
  "eaa_inv e \<longleftrightarrow> length (lastFailedAttempts e) \<le> Suc maxFailAttemptsCnt"

lemma attempts_check_body:
  assumes "eaa_inv e"
  shows "length (lastFailedAttempts (snd (check_body os s e))) \<le> maxFailAttemptsCnt
     \<or> fst (fst (check_body os s e))"
proof -
  obtain h err e1 where g: "doGetSecretHash os e = ((h, err), e1)" by (metis prod.collapse)
  then show ?thesis
    by (auto simp: check_body_def Let_def time_now_def)
qed

lemma eaa_inv_check: "eaa_inv e \<Longrightarrow> eaa_inv (snd (doCheckSecret os s e))"
  using attempts_check_body [of e os s]
  by (auto simp: doCheckSecret_def eaa_inv_def Let_def time_now_def split: prod.splits)

lemma eaa_inv_isEnabled: "eaa_inv e \<Longrightarrow> eaa_inv (snd (doIsEnabled os e))"
  using attempts_doGetSecretHash [of os e]
  by (auto simp: doIsEnabled_def eaa_inv_def Let_def split: prod.splits)

lemma eaa_inv_forceDisable: "eaa_inv e \<Longrightarrow> eaa_inv (snd (doForceDisable os e))"
  using attempts_remove_retry [of os 3 None e]
  by (auto simp: doForceDisable_def eaa_inv_def simp del: remove_retry.simps
      split: prod.splits option.splits)

lemma eaa_inv_WriteFile: "eaa_inv e \<Longrightarrow> eaa_inv (snd (WriteFile os d e))"
  by (simp add: eaa_inv_def frame_simps)

lemma eaa_inv_results:
  "doCheckSecret os s e = (r, e') \<Longrightarrow> eaa_inv e \<Longrightarrow> eaa_inv e'"
  "doIsEnabled os e = (b, e') \<Longrightarrow> eaa_inv e \<Longrightarrow> eaa_inv e'"
  "doForceDisable os e = (err, e') \<Longrightarrow> eaa_inv e \<Longrightarrow> eaa_inv e'"
  "WriteFile os d e = (err, e') \<Longrightarrow> eaa_inv e \<Longrightarrow> eaa_inv e'"
  by (metis eaa_inv_check snd_conv, metis eaa_inv_isEnabled snd_conv,
      metis eaa_inv_forceDisable snd_conv, metis eaa_inv_WriteFile snd_conv)

lemma eaa_inv_set_new: "eaa_inv e \<Longrightarrow> eaa_inv (snd (set_new_secret os b new e))"
  by (auto simp: set_new_secret_def Let_def dest: eaa_inv_results split: prod.splits option.splits)

lemma eaa_inv_set: "eaa_inv e \<Longrightarrow> eaa_inv (snd (doSetSecret os old new e))"
  by (auto simp: doSetSecret_def Let_def dest: eaa_inv_results intro: eaa_inv_set_new
      split: prod.splits option.splits)

lemma eaa_step_inv: "eaa_inv e \<Longrightarrow> eaa_inv (eaa_step os c e)"
  by (cases c)
     (simp_all add: IsEnabled_def ForceDisable_def SetSecret_def CheckSecret_def
       eaa_inv_check eaa_inv_isEnabled eaa_inv_forceDisable eaa_inv_set)

interpretation eaa_machine: safe_machine "eaa_step os" eaa_inv for os
  by unfold_locales (rule eaa_step_inv)

text \<open>
  However the methods are called and whatever the file system and the clock do, the
  list of recorded failures never grows beyond seven entries.
\<close>

theorem eaa_attempts_bounded:
  "length (lastFailedAttempts (fold (eaa_step os) ops (Init file content))) \<le> 7"
  using eaa_machine.run_inv [of "Init file content" os ops]
  by (simp add: eaa_inv_def Init_def maxFailAttemptsCnt_def)

end
