(* ===== verification/Go_Net.thy ===== *)
theory Go_Net
  imports Go_Strings
begin

unbundle bit_operations_syntax

section \<open>Addresses of Go's net package\<close>

text \<open>
  \<open>net.IP\<close> is a slice of 4 or 16 bytes, nil being the empty slice; \<open>net.IPNet\<close> an address
  with a mask. The functions are those of the standard library the program calls:
  \<open>To4\<close>, \<open>Equal\<close>, \<open>IsUnspecified\<close>, \<open>String\<close>, \<open>ParseIP\<close>, \<open>ParseCIDR\<close>, with the
  parsing rules of package netip (no leading zero in a decimal octet, at most one
  ellipsis, an optional IPv4 tail).
\<close>

type_synonym byte = "8 word"
type_synonym net_ip = "byte list"

record ip_net =
  net_IP :: net_ip
  net_Mask :: "byte list"

subsection \<open>The two forms of an address\<close>

definition v4_prefix :: "byte list" where
  "v4_prefix = replicate 10 0 @ [0xFF, 0xFF]"

definition mk_IPv4 :: "byte \<Rightarrow> byte \<Rightarrow> byte \<Rightarrow> byte \<Rightarrow> net_ip" where
  "mk_IPv4 a b c d = v4_prefix @ [a, b, c, d]"

definition to4 :: "net_ip \<Rightarrow> net_ip" where
  "to4 ip = (if length ip = 4 then ip
             else if length ip = 16 \<and> take 12 ip = v4_prefix then drop 12 ip else [])"

definition ip_equal :: "net_ip \<Rightarrow> net_ip \<Rightarrow> bool" where
  "ip_equal a b =
     (if length a = length b then a = b
      else if length a = 4 \<and> length b = 16 then take 12 b = v4_prefix \<and> a = drop 12 b
      else if length a = 16 \<and> length b = 4 then take 12 a = v4_prefix \<and> drop 12 a = b
      else False)"

definition is_unspecified :: "net_ip \<Rightarrow> bool" where
  "is_unspecified ip \<longleftrightarrow> ip_equal ip (mk_IPv4 0 0 0 0) \<or> ip_equal ip (replicate 16 0)"

lemma length_v4_prefix [simp]: "length v4_prefix = 12"
  by (simp add: v4_prefix_def)

lemma v4_prefix_not_zero [simp]: "v4_prefix @ ip \<noteq> replicate 16 0"
proof
  assume a: "v4_prefix @ ip = replicate 16 0"
  have "(v4_prefix @ ip) ! 10 = (0xFF :: byte)" by (simp add: v4_prefix_def nth_append)
  moreover have "replicate 16 (0 :: byte) ! 10 = 0" by simp
  ultimately show False using a by simp
qed

lemma to4_mk_IPv4 [simp]: "to4 (mk_IPv4 a b c d) = [a, b, c, d]"
  by (simp add: to4_def mk_IPv4_def)

lemma ip_equal_refl [simp]: "ip_equal a a"
  by (simp add: ip_equal_def)

subsection \<open>Printing\<close>

definition digit_char :: "nat \<Rightarrow> char" where
  "digit_char n = char_of (if n < 10 then 48 + n else 87 + n)"

fun show_base :: "nat \<Rightarrow> nat \<Rightarrow> string" where
  "show_base b n = (if n < b \<or> b < 2 then [digit_char n] else show_base b (n div b) @ [digit_char (n mod b)])"

declare show_base.simps [simp del]

definition show_nat :: "nat \<Rightarrow> string" where "show_nat = show_base 10"
definition show_hex :: "nat \<Rightarrow> string" where "show_hex = show_base 16"

definition show_int :: "int \<Rightarrow> string" where
  "show_int i = (if i < 0 then ''-'' @ show_nat (nat (- i)) else show_nat (nat i))"

definition show_byte_hex :: "byte \<Rightarrow> string" where
  "show_byte_hex b = [digit_char (unat b div 16), digit_char (unat b mod 16)]"

definition show_v4 :: "net_ip \<Rightarrow> string" where
  "show_v4 ip = join_with ''.'' (map (\<lambda>b. show_nat (unat b)) ip)"

fun groups16 :: "byte list \<Rightarrow> nat list" where
  "groups16 (h # l # bs) = (256 * unat h + unat l) # groups16 bs"
| "groups16 _ = []"

text \<open>The first longest run of at least two zero groups: its start and end.\<close>

fun zero_run :: "nat \<Rightarrow> nat list \<Rightarrow> nat \<times> nat \<Rightarrow> nat \<times> nat" where
  "zero_run i [] best = best"
| "zero_run i (g # gs) (s, e) =
     (let l = length (takeWhile (\<lambda>x. x = 0) (g # gs))
      in zero_run (Suc i) gs (if l \<ge> 2 \<and> l > e - s then (i, i + l) else (s, e)))"

definition show_v6 :: "net_ip \<Rightarrow> string" where
  "show_v6 ip =
     (let gs = groups16 ip; (s, e) = zero_run 0 gs (255, 255)
      in if s \<ge> 8 then join_with '':'' (map show_hex gs)
         else join_with '':'' (map show_hex (take s gs)) @ ''::''
              @ join_with '':'' (map show_hex (drop e gs)))"

definition ip_string :: "net_ip \<Rightarrow> string" where
  "ip_string ip =
     (if ip = [] then ''<nil>''
      else if length ip \<noteq> 4 \<and> length ip \<noteq> 16 then ''?'' @ concat (map show_byte_hex ip)
      else if to4 ip \<noteq> [] then show_v4 (to4 ip)
      else show_v6 ip)"

subsection \<open>Parsing\<close>

definition parse_octet :: "string \<Rightarrow> byte option" where
  "parse_octet s =
     (if s = [] \<or> \<not> list_all is_digit s \<or> (length s > 1 \<and> hd s = CHR ''0'') \<or> digits_val s > 255
      then None else Some (of_nat (digits_val s)))"

fun parse_octets :: "string list \<Rightarrow> byte list option" where
  "parse_octets [] = Some []"
| "parse_octets (w # ws) =
     (case parse_octet w of None \<Rightarrow> None
      | Some b \<Rightarrow> (case parse_octets ws of None \<Rightarrow> None | Some bs \<Rightarrow> Some (b # bs)))"

definition parse_v4 :: "string \<Rightarrow> byte list option" where
  "parse_v4 s = (let ws = split_on CHR ''.'' s in if length ws = 4 then parse_octets ws else None)"

definition is_hex :: "char \<Rightarrow> bool" where
  "is_hex c \<longleftrightarrow> is_digit c \<or> (97 \<le> (of_char c :: nat) \<and> (of_char c :: nat) \<le> 102)
     \<or> (65 \<le> (of_char c :: nat) \<and> (of_char c :: nat) \<le> 70)"

definition hex_val :: "char \<Rightarrow> nat" where
  "hex_val c = (let n = of_char c in if n \<le> 57 then n - 48 else if n \<le> 70 then n - 55 else n - 87)"

definition hexs_val :: "string \<Rightarrow> nat" where
  "hexs_val s = foldl (\<lambda>n c. 16 * n + hex_val c) 0 s"

text \<open>
  The loop of netip's \<open>parseIPv6\<close>: the bytes written so far and the position of the
  ellipsis; \<open>fuel\<close> is the number of groups still to come, eight at the start.
\<close>

fun parse_v6_loop ::
  "nat \<Rightarrow> string \<Rightarrow> byte list \<Rightarrow> nat option \<Rightarrow> (string \<times> byte list \<times> nat option) option" where
  "parse_v6_loop 0 s ip ell = Some (s, ip, ell)"
| "parse_v6_loop (Suc n) s ip ell =
     (let ds = takeWhile is_hex s; r = dropWhile is_hex s in
      if ds = [] \<or> length ds > 4 then None
      else case r of
        [] \<Rightarrow> Some ([], ip @ [of_nat (hexs_val ds div 256), of_nat (hexs_val ds)], ell)
      | c # r' \<Rightarrow>
          if c = CHR ''.'' then
            (if ell = None \<and> length ip \<noteq> 12 \<or> length ip + 4 > 16 then None
             else case parse_v4 s of None \<Rightarrow> None | Some q \<Rightarrow> Some ([], ip @ q, ell))
          else
            (let ip = ip @ [of_nat (hexs_val ds div 256), of_nat (hexs_val ds)] in
             if c \<noteq> CHR '':'' then None
             else case r' of
               [] \<Rightarrow> None
             | c' # r'' \<Rightarrow>
                 if c' = CHR '':'' then
                   (if ell \<noteq> None then None
                    else if r'' = [] then Some ([], ip, Some (length ip))
                    else parse_v6_loop n r'' ip (Some (length ip)))
                 else parse_v6_loop n r' ip ell))"

definition parse_v6 :: "string \<Rightarrow> byte list option" where
  "parse_v6 s =
     (let (s', ell) = (if take 2 s = ''::'' then (drop 2 s, Some 0) else (s, None)) in
      if take 2 s = ''::'' \<and> s' = [] then Some (replicate 16 0)
      else case parse_v6_loop 8 s' [] ell of
        None \<Rightarrow> None
      | Some (rest, ip, ell) \<Rightarrow>
          if rest \<noteq> [] then None
          else if length ip < 16 then
            (case ell of None \<Rightarrow> None
             | Some p \<Rightarrow> Some (take p ip @ replicate (16 - length ip) 0 @ drop p ip))
          else if ell \<noteq> None then None else Some ip)"

text \<open>\<open>netip.ParseAddr\<close> without a zone: 4 bytes for an IPv4 address, else 16.\<close>

definition parse_addr :: "string \<Rightarrow> byte list option" where
  "parse_addr s =
     (if CHR ''%'' \<in> set s then None
      else case find (\<lambda>c. c = CHR ''.'' \<or> c = CHR '':'') s of
        None \<Rightarrow> None
      | Some c \<Rightarrow> if c = CHR ''.'' then parse_v4 s else parse_v6 s)"

definition as16 :: "byte list \<Rightarrow> net_ip" where
  "as16 bs = (if length bs = 4 then v4_prefix @ bs else bs)"

text \<open>\<open>net.ParseIP\<close>: the 16-byte form, or nil.\<close>

definition parse_ip :: "string \<Rightarrow> net_ip" where
  "parse_ip s = (case parse_addr s of None \<Rightarrow> [] | Some bs \<Rightarrow> as16 bs)"

definition mask_byte :: "nat \<Rightarrow> byte" where
  "mask_byte n = of_nat (256 - 2 ^ (8 - min 8 n))"

fun cidr_mask :: "nat \<Rightarrow> nat \<Rightarrow> byte list" where
  "cidr_mask n 0 = []"
| "cidr_mask n (Suc len) = mask_byte n # cidr_mask (n - 8) len"

definition and_mask :: "byte list \<Rightarrow> byte list \<Rightarrow> byte list" where
  "and_mask ip m = map2 (AND) ip m"

text \<open>\<open>net.ParseCIDR\<close>: the network, or \<open>None\<close> for its parse error.\<close>

definition parse_cidr :: "string \<Rightarrow> ip_net option" where
  "parse_cidr s =
     (let a = takeWhile (\<lambda>c. c \<noteq> CHR ''/'') s; m = drop (Suc (length a)) s in
      if CHR ''/'' \<notin> set s then None
      else case parse_addr a of
        None \<Rightarrow> None
      | Some bs \<Rightarrow>
          if m = [] \<or> \<not> list_all is_digit m \<or> digits_val m > 8 * length bs then None
          else let mask = cidr_mask (digits_val m) (length bs)
               in Some \<lparr>net_IP = and_mask bs mask, net_Mask = mask\<rparr>)"

text \<open>\<open>IPMask\<close>: the number of leading ones when nothing follows them.\<close>

definition simple_mask_length :: "byte list \<Rightarrow> nat option" where
  "simple_mask_length m =
     find (\<lambda>n. cidr_mask n (length m) = m) [0..<Suc (8 * length m)]"

definition ip_net_string :: "ip_net \<Rightarrow> string" where
  "ip_net_string n =
     (let ip = (if to4 (net_IP n) \<noteq> [] then to4 (net_IP n) else net_IP n);
          m = (if length (net_Mask n) = 16 \<and> length ip = 4 then drop 12 (net_Mask n)
               else net_Mask n)
      in if length ip \<noteq> 4 \<and> length ip \<noteq> 16 \<or> length m \<noteq> length ip then ''<nil>''
         else case simple_mask_length m of
           None \<Rightarrow> ip_string ip @ ''/'' @ concat (map show_byte_hex m)
         | Some l \<Rightarrow> ip_string ip @ ''/'' @ show_nat l)"

subsection \<open>Printing and parsing IPv4 addresses agree\<close>

lemma digit_char_props:
  "n < 10 \<Longrightarrow> is_digit (digit_char n) \<and> digit_val (digit_char n) = n"
  by (simp add: is_digit_def digit_val_def digit_char_def)

lemma digits_val_snoc: "digits_val (s @ [c]) = 10 * digits_val s + digit_val c"
  by (simp add: digits_val_def)

lemma show_nat_digits: "list_all is_digit (show_nat n) \<and> show_nat n \<noteq> [] \<and> digits_val (show_nat n) = n"
  unfolding show_nat_def
proof (induction n rule: less_induct)
  case (less n)
  show ?case
  proof (cases "n < 10")
    case True
    then show ?thesis
      by (subst (1 2 3) show_base.simps) (simp add: digit_char_props digits_val_def)
  next
    case False
    with less have IH: "list_all is_digit (show_base 10 (n div 10)) \<and> digits_val (show_base 10 (n div 10)) = n div 10"
      by simp
    have "show_base 10 n = show_base 10 (n div 10) @ [digit_char (n mod 10)]"
      using False by (subst show_base.simps) simp
    then show ?thesis using IH by (simp add: digits_val_snoc digit_char_props)
  qed
qed

lemma hd_show_nat: "0 < n \<Longrightarrow> hd (show_nat n) \<noteq> CHR ''0''"
  unfolding show_nat_def
proof (induction n rule: less_induct)
  case (less n)
  show ?case
  proof (cases "n < 10")
    case True
    have "digit_char n = CHR ''0'' \<Longrightarrow> digit_val (digit_char n) = 0" by (simp add: digit_val_def)
    moreover have "digit_val (digit_char n) = n" using True by (simp add: digit_char_props)
    ultimately have "digit_char n \<noteq> CHR ''0''" using less.prems by auto
    with True show ?thesis by (subst show_base.simps) simp
  next
    case False
    have "show_base 10 (n div 10) \<noteq> []"
      using show_nat_digits [of "n div 10"] by (simp add: show_nat_def)
    then show ?thesis
      using less False by (subst show_base.simps) (simp add: hd_append)
  qed
qed

lemma parse_octet_show: "n \<le> 255 \<Longrightarrow> parse_octet (show_nat n) = Some (of_nat n)"
proof -
  assume n: "n \<le> 255"
  have "length (show_nat n) \<le> 1 \<or> hd (show_nat n) \<noteq> CHR ''0''"
  proof (cases "n = 0")
    case True
    then show ?thesis by (simp add: show_nat_def show_base.simps)
  qed (simp add: hd_show_nat)
  then show ?thesis using show_nat_digits [of n] n by (auto simp: parse_octet_def)
qed

lemma show_nat_no_char: "\<not> is_digit c \<Longrightarrow> c \<notin> set (show_nat n)"
  using show_nat_digits [of n] by (auto simp: list_all_iff)

lemma parse_octets_show:
  "parse_octets (map (\<lambda>b. show_nat (unat b)) bs) = Some (bs :: byte list)"
proof (induction bs)
  case Nil
  then show ?case by simp
next
  case (Cons b bs)
  have "unat b < 2 ^ LENGTH(8)" by (rule unsigned_less)
  then have "unat b \<le> 255" by simp
  with Cons show ?case by (simp add: parse_octet_show)
qed

lemma parse_v4_show:
  assumes "length ip = 4" shows "parse_v4 (show_v4 ip) = Some ip"
proof -
  have nd: "\<not> is_digit CHR ''.''" by (simp add: is_digit_def)
  have "split_on CHR ''.'' (show_v4 ip) = map (\<lambda>b. show_nat (unat b)) ip"
    unfolding show_v4_def using assms show_nat_no_char [OF nd]
    by (intro split_join) auto
  then show ?thesis using assms by (simp add: parse_v4_def parse_octets_show)
qed

lemma v4_string_chars:
  assumes "length ip = 4" "c \<in> set (ip_string ip)" shows "is_digit c \<or> c = CHR ''.''"
proof -
  have "c \<in> set (show_v4 ip)" using assms by (auto simp: ip_string_def to4_def split: if_splits)
  moreover have "set (join_with ''.'' ws) \<subseteq> {CHR ''.''} \<union> (\<Union> (set ` set ws))" for ws
    by (induction "''.''" ws rule: join_with.induct) auto
  ultimately show ?thesis
    using show_nat_digits unfolding show_v4_def list_all_iff by fastforce
qed

lemma v4_string_not_Nil: "length ip = 4 \<Longrightarrow> ip_string ip \<noteq> []"
  using parse_v4_show [of ip] by (auto simp: ip_string_def to4_def parse_v4_def)

lemma parse_addr_v4_string:
  assumes "length ip = 4" shows "parse_addr (ip_string ip) = Some ip"
proof -
  let ?s = "ip_string ip"
  have s: "?s = show_v4 ip" using assms by (auto simp: ip_string_def to4_def)
  have "CHR ''%'' \<notin> set ?s" using v4_string_chars [OF assms, of "CHR ''%''"] by (auto simp: is_digit_def)
  moreover have "CHR ''.'' \<in> set ?s"
  proof (rule ccontr)
    assume "CHR ''.'' \<notin> set ?s"
    then have "split_on CHR ''.'' ?s = [?s]" by (rule split_on_single)
    then show False using parse_v4_show [OF assms] s by (simp add: parse_v4_def)
  qed
  then have "find (\<lambda>c. c = CHR ''.'' \<or> c = CHR '':'') ?s \<noteq> None" by (auto simp: find_None_iff)
  then obtain c where c: "find (\<lambda>c. c = CHR ''.'' \<or> c = CHR '':'') ?s = Some c" by blast
  then have "c \<in> set ?s" "c = CHR ''.'' \<or> c = CHR '':''"
    by (auto simp: find_Some_iff in_set_conv_nth)
  then have "c = CHR ''.''" using v4_string_chars [OF assms, of c] by (auto simp: is_digit_def)
  ultimately show ?thesis
    using c s parse_v4_show [OF assms] by (simp add: parse_addr_def)
qed

lemma parse_ip_v4_string:
  "length ip = 4 \<Longrightarrow> parse_ip (ip_string ip) = v4_prefix @ ip"
  by (simp add: parse_ip_def parse_addr_v4_string as16_def)

lemma trim_v4_string:
  assumes "length ip = 4" shows "trim_space (ip_string ip) = ip_string ip"
proof (rule trim_space_plain)
  show "\<forall>c \<in> set (ip_string ip). 33 \<le> (of_char c :: nat) \<and> (of_char c :: nat) \<le> 126"
  proof
    fix c assume "c \<in> set (ip_string ip)"
    then show "33 \<le> (of_char c :: nat) \<and> (of_char c :: nat) \<le> 126"
      using v4_string_chars [OF assms, of c] by (auto simp: is_digit_def)
  qed
qed

lemma join_with_not_Nil: "sep \<noteq> [] \<Longrightarrow> 2 \<le> length ws \<Longrightarrow> join_with sep ws \<noteq> []"
  by (cases "(sep, ws)" rule: join_with.cases) auto

lemma length_groups16: "length (groups16 bs) = length bs div 2"
  by (induction bs rule: groups16.induct) auto

lemma ip_string_not_Nil [simp]: "ip_string ip \<noteq> []"
proof -
  have "length (to4 ip) = 4" if "to4 ip \<noteq> []" using that by (auto simp: to4_def split: if_splits)
  then have "show_v4 (to4 ip) \<noteq> []" if "to4 ip \<noteq> []"
    using that by (simp add: show_v4_def join_with_not_Nil)
  moreover have "show_v6 ip \<noteq> []" if "length ip = 16"
    using that by (auto simp: show_v6_def Let_def join_with_not_Nil length_groups16 split: prod.splits)
  ultimately show ?thesis by (auto simp: ip_string_def to4_def)
qed

lemma ip_net_string_not_Nil [simp]: "ip_net_string n \<noteq> []"
  by (auto simp: ip_net_string_def Let_def split: option.splits)

lemma not_digit_sign [simp]: "\<not> is_digit CHR ''-''" "\<not> is_digit CHR ''+''"
  by (simp_all add: is_digit_def)

lemma atoi_show_int: "min_int64 \<le> i \<Longrightarrow> i \<le> max_int64 \<Longrightarrow> atoi (show_int i) = (i, False)"
proof -
  assume b: "min_int64 \<le> i" "i \<le> max_int64"
  have d: "list_all is_digit (show_nat n)" "show_nat n \<noteq> []" "digits_val (show_nat n) = n" for n
    using show_nat_digits by blast+
  show ?thesis
  proof (cases "i < 0")
    case True
    then show ?thesis using b d [of "nat (- i)"] by (simp add: atoi_def show_int_def)
  next
    case False
    obtain c cs where s: "show_nat (nat i) = c # cs" using d(2) by (cases "show_nat (nat i)") auto
    then have "is_digit c" using d(1) [of "nat i"] by simp
    then have "c \<noteq> CHR ''-'' \<and> c \<noteq> CHR ''+''" by auto
    then show ?thesis using False b d(1,3) [of "nat i"] s by (simp add: atoi_def show_int_def)
  qed
qed

end
