(* ===== verification/Dns_Settings.thy ===== *)
theory Dns_Settings
  imports Go_Net
begin

section \<open>DNS settings (daemon/service/dns/dns_settings.go)\<close>

text \<open>
  A DNS configuration is a list of servers in order of preference and a mark that tells
  the VPN's own configuration from a user's. \<open>DnsEncryption\<close> is a Go integer type, so
  values outside the three constants exist and are an error of validation.
  \<open>url_parse\<close> is the standard library's \<open>url.Parse\<close>, of which the code uses only the
  error; it is a parameter.
\<close>

type_synonym DnsEncryption = int

definition EncryptionNone :: DnsEncryption where "EncryptionNone = 0"
definition EncryptionDnsOverTls :: DnsEncryption where "EncryptionDnsOverTls = 1"
definition EncryptionDnsOverHttps :: DnsEncryption where "EncryptionDnsOverHttps = 2"

lemmas encryption_defs = EncryptionNone_def EncryptionDnsOverTls_def EncryptionDnsOverHttps_def

record DnsServerConfig =
  Address :: string
  Encryption :: DnsEncryption
  Template :: string

record DnsSettings =
  Servers :: "DnsServerConfig list"
  IsInternalDnsConfig :: bool

definition noDns :: DnsSettings where
  "noDns = \<lparr>Servers = [], IsInternalDnsConfig = False\<rparr>"

subsection \<open>One server\<close>

definition server_Equal :: "DnsServerConfig \<Rightarrow> DnsServerConfig \<Rightarrow> bool" where
  "server_Equal d x =
     (if Encryption d \<noteq> Encryption x \<or> Template d \<noteq> Template x \<or> Address d \<noteq> Address x
      then False else True)"

definition server_Ip :: "DnsServerConfig \<Rightarrow> net_ip" where
  "server_Ip d = parse_ip (Address d)"

definition server_IsIPv6 :: "DnsServerConfig \<Rightarrow> bool" where
  "server_IsIPv6 d = (let ip = server_Ip d in if ip = [] then False else to4 ip = [])"

definition server_IsEmpty :: "DnsServerConfig \<Rightarrow> bool" where
  "server_IsEmpty d =
     (if trim_space (Address d) = [] then True
      else let ip = server_Ip d
           in if ip = [] \<or> ip_equal ip (mk_IPv4 0 0 0 0) \<or> ip_equal ip (mk_IPv4 255 255 255 255)
                 \<or> ip_equal ip (replicate 16 0)
              then True else False)"

definition server_ValidateAndNormalize ::
  "(string \<Rightarrow> error) \<Rightarrow> DnsServerConfig \<Rightarrow> error \<times> DnsServerConfig" where
  "server_ValidateAndNormalize url_parse d0 =
     (let d = d0\<lparr>Address := trim_space (Address d0), Template := trim_space (Template d0)\<rparr> in
      if server_IsEmpty d then (None, d)
      else if parse_ip (Address d) = [] then (Some (Err (''invalid IP address: '' @ Address d)), d)
      else if Encryption d = EncryptionNone then
        (if length (Template d) \<noteq> 0
         then (Some (Err ''template should be empty for 'None' encryption''), d) else (None, d))
      else if Encryption d = EncryptionDnsOverHttps then
        (if length (Template d) = 0 then (Some (Err ''template URL is required for DoH''), d)
         else case url_parse (Template d) of
           Some err \<Rightarrow> (Some (ErrWrap ''invalid template URL for DoH'' err), d)
         | None \<Rightarrow> (None, d))
      else if Encryption d = EncryptionDnsOverTls then
        (if length (Template d) = 0 then (Some (Err ''template is required for DoT''), d)
         else (None, d))
      else (Some (Err ''unsupported encryption type''), d))"

definition server_InfoString :: "DnsServerConfig \<Rightarrow> string" where
  "server_InfoString d =
     (if server_IsEmpty d then ''<none>''
      else let host = trim_space (Address d); template = trim_space (Template d) in
        if Encryption d = EncryptionDnsOverTls then host @ '' (DoT '' @ template @ '')''
        else if Encryption d = EncryptionDnsOverHttps then host @ '' (DoH '' @ template @ '')''
        else if Encryption d = EncryptionNone then host
        else host @ '' (UNKNOWN ENCRYPTION)'')"

subsection \<open>A configuration\<close>

definition DnsSettingsCreate :: "net_ip \<Rightarrow> DnsSettings" where
  "DnsSettingsCreate ip =
     (if ip = [] then noDns
      else \<lparr>Servers = [\<lparr>Address = ip_string ip, Encryption = EncryptionNone, Template = []\<rparr>],
            IsInternalDnsConfig = True\<rparr>)"

definition dns_Equal :: "DnsSettings \<Rightarrow> DnsSettings \<Rightarrow> bool" where
  "dns_Equal d x =
     (if length (Servers d) \<noteq> length (Servers x) then False
      else list_all2 server_Equal (Servers d) (Servers x))"

definition dns_IsEmpty :: "DnsSettings \<Rightarrow> bool" where
  "dns_IsEmpty d = (if length (Servers d) = 0 then True else list_all server_IsEmpty (Servers d))"

definition UseEncryption :: "DnsSettings \<Rightarrow> bool" where
  "UseEncryption d =
     list_ex (\<lambda>srv. Encryption srv \<noteq> EncryptionNone \<and> \<not> server_IsEmpty srv) (Servers d)"

fun unencrypted_loop :: "DnsServerConfig list \<Rightarrow> net_ip list" where
  "unencrypted_loop [] = []"
| "unencrypted_loop (srv # rest) =
     (if Encryption srv = EncryptionNone \<and> \<not> server_IsEmpty srv \<and> server_Ip srv \<noteq> []
      then server_Ip srv # unencrypted_loop rest else unencrypted_loop rest)"

definition GetUnencryptedServersAddresses :: "DnsSettings \<Rightarrow> net_ip list" where
  "GetUnencryptedServersAddresses d = unencrypted_loop (Servers d)"

definition dns_InfoString :: "DnsSettings \<Rightarrow> string" where
  "dns_InfoString d =
     (if dns_IsEmpty d then ''<none>'' else join_with '', '' (map server_InfoString (Servers d)))"

text \<open>
  The loop of \<open>DnsSettings.ValidateAndNormalize\<close>: \<open>srv\<close> is a copy of the list element,
  so what is normalised is dropped and only the first error is kept.
\<close>

fun validate_loop :: "(string \<Rightarrow> error) \<Rightarrow> nat \<Rightarrow> DnsServerConfig list \<Rightarrow> error" where
  "validate_loop url_parse i [] = None"
| "validate_loop url_parse i (srv # rest) =
     (case fst (server_ValidateAndNormalize url_parse srv) of
        Some err \<Rightarrow> Some (ErrWrap (''DNS server '' @ show_nat (i + 1)) err)
      | None \<Rightarrow> validate_loop url_parse (i + 1) rest)"

definition dns_ValidateAndNormalize :: "(string \<Rightarrow> error) \<Rightarrow> DnsSettings \<Rightarrow> error \<times> DnsSettings" where
  "dns_ValidateAndNormalize url_parse d =
     (if dns_IsEmpty d then (None, d) else (validate_loop url_parse 0 (Servers d), d))"

subsection \<open>Basic facts\<close>

lemma server_Equal_iff [simp]: "server_Equal d x \<longleftrightarrow> d = x"
  by (cases d; cases x) (auto simp: server_Equal_def)

lemma dns_Equal_iff: "dns_Equal d x \<longleftrightarrow> Servers d = Servers x"
proof -
  have "server_Equal = (=)" by (intro ext) simp
  then show ?thesis by (auto simp: dns_Equal_def list.rel_eq)
qed

lemma dns_Equal_refl [simp]: "dns_Equal d d"
  by (simp add: dns_Equal_iff)

lemma unencrypted_loop_eq:
  "unencrypted_loop srvs =
     map server_Ip (filter (\<lambda>s. Encryption s = EncryptionNone \<and> \<not> server_IsEmpty s) srvs)"
  by (induction srvs) (auto simp: server_IsEmpty_def Let_def)

lemma dns_IsEmpty_iff: "dns_IsEmpty d \<longleftrightarrow> (\<forall>s \<in> set (Servers d). server_IsEmpty s)"
  by (auto simp: dns_IsEmpty_def list_all_iff)

lemma dns_empty_no_addresses: "dns_IsEmpty d \<Longrightarrow> GetUnencryptedServersAddresses d = []"
  by (auto simp: GetUnencryptedServersAddresses_def unencrypted_loop_eq dns_IsEmpty_iff
      filter_empty_conv)

lemma noDns_IsEmpty [simp]: "dns_IsEmpty noDns"
  by (simp add: dns_IsEmpty_def noDns_def)

text \<open>
  A configuration made from an IPv4 address gives that address back: unless it is the
  unspecified or the broadcast address, it is not empty, uses no encryption, is marked as
  internal and opens exactly this one address in the firewall; a nil address gives the
  empty configuration, which opens none.
\<close>

theorem dns_create_roundtrip:
  "(length ip = 4 \<and> ip \<noteq> [0, 0, 0, 0] \<and> ip \<noteq> [255, 255, 255, 255] \<longrightarrow>
      \<not> dns_IsEmpty (DnsSettingsCreate ip) \<and> \<not> UseEncryption (DnsSettingsCreate ip)
      \<and> IsInternalDnsConfig (DnsSettingsCreate ip)
      \<and> GetUnencryptedServersAddresses (DnsSettingsCreate ip) = [v4_prefix @ ip])
   \<and> (ip = [] \<longrightarrow> dns_IsEmpty (DnsSettingsCreate ip)
      \<and> GetUnencryptedServersAddresses (DnsSettingsCreate ip) = [])"
proof -
  have "\<not> dns_IsEmpty (DnsSettingsCreate ip) \<and> \<not> UseEncryption (DnsSettingsCreate ip)
      \<and> IsInternalDnsConfig (DnsSettingsCreate ip)
      \<and> GetUnencryptedServersAddresses (DnsSettingsCreate ip) = [v4_prefix @ ip]"
    if ip: "length ip = 4" "ip \<noteq> [0, 0, 0, 0]" "ip \<noteq> [255, 255, 255, 255]"
  proof -
    let ?s = "\<lparr>Address = ip_string ip, Encryption = EncryptionNone, Template = []\<rparr>"
    have p: "parse_ip (ip_string ip) = v4_prefix @ ip" using ip(1) by (rule parse_ip_v4_string)
    have t: "trim_space (ip_string ip) = ip_string ip" using ip(1) by (rule trim_v4_string)
    have "\<not> server_IsEmpty ?s"
      using ip p t v4_string_not_Nil [OF ip(1)]
      by (auto simp: server_IsEmpty_def server_Ip_def mk_IPv4_def ip_equal_def)
    then show ?thesis
      using ip p by (auto simp: DnsSettingsCreate_def dns_IsEmpty_def UseEncryption_def
          GetUnencryptedServersAddresses_def server_Ip_def)
  qed
  then show ?thesis by (auto simp: DnsSettingsCreate_def noDns_def dns_IsEmpty_def
        GetUnencryptedServersAddresses_def)
qed

theorem dns_create_roundtrip_witness:
  "GetUnencryptedServersAddresses (DnsSettingsCreate [172, 16, 0, 1]) = [v4_prefix @ [172, 16, 0, 1]]"
  using dns_create_roundtrip [of "[172, 16, 0, 1]"] by simp

text \<open>
  Validation never rejects a malformed address. A server whose (trimmed) address does
  not parse counts as empty, so its check returns before the invalid-address test, which
  no input reaches, and no later requirement on the template or the kind of encryption
  applies to it either.
\<close>

theorem dns_invalid_address_accepted:
  "(parse_ip (trim_space (Address d)) = [] \<longrightarrow>
      fst (server_ValidateAndNormalize url_parse d) = None)
   \<and> fst (server_ValidateAndNormalize url_parse d)
      \<noteq> Some (Err (''invalid IP address: '' @ trim_space (Address d)))"
  by (auto simp: server_ValidateAndNormalize_def Let_def server_IsEmpty_def server_Ip_def
      split: option.splits)

theorem dns_invalid_address_accepted_witness:
  "fst (server_ValidateAndNormalize (\<lambda>_. None)
          \<lparr>Address = ''1.2.3'', Encryption = 7, Template = []\<rparr>) = None"
proof -
  have "parse_ip (trim_space ''1.2.3'') = []" by code_simp
  then show ?thesis
    using dns_invalid_address_accepted [of "\<lparr>Address = ''1.2.3'', Encryption = 7, Template = []\<rparr>"]
    by simp
qed

end
