(* ===== verification/Netinfo.thy ===== *)
theory Netinfo
  imports Go_Net
begin

section \<open>Network interfaces and local address ranges (daemon/netinfo/netinfo.go)\<close>

text \<open>
  The local non-routable and the multicast ranges, the test of an address against them,
  and the searches through the interfaces of the machine. What \<open>net.Interfaces()\<close>
  reports is an argument: an error or the list of interfaces, each with its flags and the
  addresses \<open>Addrs()\<close> gives (\<open>A_IPNet\<close> for a \<open>*net.IPNet\<close>, \<open>A_IPAddr\<close> for a
  \<open>*net.IPAddr\<close>, \<open>A_other\<close> for any other implementation of \<open>net.Addr\<close>).
\<close>

datatype if_addr = A_IPNet ip_net | A_IPAddr net_ip | A_other

record net_if =
  if_name :: string
  if_index :: int
  if_up :: bool
  if_loopback :: bool
  if_addrs :: "if_addr list"

type_synonym interfaces = "gerror + net_if list"

subsection \<open>\<open>IPNet.Contains\<close> of the standard library\<close>

definition network_number_and_mask :: "ip_net \<Rightarrow> (net_ip \<times> byte list) option" where
  "network_number_and_mask n =
     (let ip = (if to4 (net_IP n) \<noteq> [] then to4 (net_IP n)
                else if length (net_IP n) = 16 then net_IP n else []);
          m = net_Mask n
      in if ip = [] then None
         else if length m = 4 then (if length ip = 4 then Some (ip, m) else None)
         else if length m = 16 then Some (ip, if length ip = 4 then drop 12 m else m)
         else None)"

definition net_contains :: "ip_net \<Rightarrow> net_ip \<Rightarrow> bool" where
  "net_contains n ip =
     (case network_number_and_mask n of
        None \<Rightarrow> False
      | Some (nn, m) \<Rightarrow>
          let x = (if to4 ip \<noteq> [] then to4 ip else ip)
          in length x = length nn \<and> and_mask nn m = and_mask x m)"

subsection \<open>The ranges\<close>

text \<open>
  \<open>net.ParseIP\<close> gives the 16-byte form; the bytes are written out here and
  \<open>local_ranges_parsed\<close> below checks them against the strings of the source.
\<close>

definition v4_net :: "byte \<Rightarrow> byte \<Rightarrow> byte \<Rightarrow> byte \<Rightarrow> nat \<Rightarrow> ip_net" where
  "v4_net a b c d n = \<lparr>net_IP = mk_IPv4 a b c d, net_Mask = cidr_mask n 4\<rparr>"

definition v6_net :: "byte \<Rightarrow> byte \<Rightarrow> nat \<Rightarrow> ip_net" where
  "v6_net a b n = \<lparr>net_IP = [a, b] @ replicate 14 0, net_Mask = cidr_mask n 16\<rparr>"

definition localNonRoutableRanges :: "ip_net list" where
  "localNonRoutableRanges =
     [v4_net 10 0 0 0 8, v4_net 172 16 0 0 12, v4_net 192 168 0 0 16, v4_net 169 254 0 0 16,
      v6_net 0xFC 0 7, v6_net 0xFE 0x80 10]"

definition multicastAddresses :: "ip_net list" where
  "multicastAddresses = [v4_net 224 0 0 0 4, v6_net 0xFF 0 8]"

fun contains_loop :: "ip_net list \<Rightarrow> net_ip \<Rightarrow> bool" where
  "contains_loop [] ip = False"
| "contains_loop (r # rs) ip = (if net_contains r ip then True else contains_loop rs ip)"

definition IsLocalNonRoutableIP :: "net_ip \<Rightarrow> bool" where
  "IsLocalNonRoutableIP ip = contains_loop localNonRoutableRanges ip"

definition GetNonRoutableLocalAddrRanges :: "ip_net list" where
  "GetNonRoutableLocalAddrRanges = localNonRoutableRanges"

definition GetMulticastAddresses :: "ip_net list" where
  "GetMulticastAddresses = multicastAddresses"

subsection \<open>Searching the interfaces\<close>

definition addr_ip :: "if_addr \<Rightarrow> net_ip" where
  "addr_ip a = (case a of A_IPNet n \<Rightarrow> net_IP n | A_IPAddr ip \<Rightarrow> ip | A_other \<Rightarrow> [])"

fun by_ip_loop :: "net_if list \<Rightarrow> net_ip \<Rightarrow> net_if option" where
  "by_ip_loop [] ip = None"
| "by_ip_loop (i # is) ip =
     (if list_ex (\<lambda>a. addr_ip a \<noteq> [] \<and> ip_equal (addr_ip a) ip) (if_addrs i) then Some i
      else by_ip_loop is ip)"

definition InterfaceByIPAddr :: "interfaces \<Rightarrow> net_ip \<Rightarrow> gerror + net_if" where
  "InterfaceByIPAddr ifaces localAddr =
     (case ifaces of
        Inl err \<Rightarrow> Inl (ErrWrap ''failed to get network interfaces'' err)
      | Inr is \<Rightarrow> (case by_ip_loop is localAddr of
          Some i \<Rightarrow> Inr i
        | None \<Rightarrow> Inl (Err (''not found network interface with address:'' @ ip_string localAddr))))"

fun loopback_loop :: "net_if list \<Rightarrow> bool \<Rightarrow> net_if option" where
  "loopback_loop [] isIpv6 = None"
| "loopback_loop (i # is) isIpv6 =
     (if \<not> if_loopback i \<or> \<not> if_up i then loopback_loop is isIpv6
      else if list_ex (\<lambda>a. addr_ip a \<noteq> [] \<and> (to4 (addr_ip a) = []) = isIpv6) (if_addrs i)
      then Some i else loopback_loop is isIpv6)"

definition GetLoopbackInterface :: "interfaces \<Rightarrow> bool \<Rightarrow> gerror + net_if" where
  "GetLoopbackInterface ifaces isIpv6 =
     (case ifaces of
        Inl err \<Rightarrow> Inl (ErrWrap ''failed to get network interfaces'' err)
      | Inr is \<Rightarrow> (case loopback_loop is isIpv6 of
          Some i \<Rightarrow> Inr i
        | None \<Rightarrow> Inl (Err ''not found loopback network interface'')))"

definition GetInterfaceByIndex :: "interfaces \<Rightarrow> int \<Rightarrow> gerror + net_if option" where
  "GetInterfaceByIndex ifaces index =
     (case ifaces of
        Inl err \<Rightarrow> Inl (ErrWrap ''failed to get network interfaces'' err)
      | Inr is \<Rightarrow> Inr (find (\<lambda>i. if_index i = index) is))"

datatype ipType = ipTypeAny | ipTypeIPv4 | ipTypeIPv6

fun local_addrs_of :: "ipType \<Rightarrow> if_addr list \<Rightarrow> ip_net list" where
  "local_addrs_of ipVer [] = []"
| "local_addrs_of ipVer (A_IPNet n # as) =
     (if net_IP n = [] \<or> is_unspecified (net_IP n) then local_addrs_of ipVer as
      else if \<not> IsLocalNonRoutableIP (net_IP n) then local_addrs_of ipVer as
      else let isIPv6Addr = (to4 (net_IP n) = []) in
        if ipVer = ipTypeIPv4 \<and> isIPv6Addr then local_addrs_of ipVer as
        else if ipVer = ipTypeIPv6 \<and> \<not> isIPv6Addr then local_addrs_of ipVer as
        else n # local_addrs_of ipVer as)"
| "local_addrs_of ipVer (_ # as) = local_addrs_of ipVer as"

fun local_addrs_loop :: "ipType \<Rightarrow> net_if list \<Rightarrow> ip_net list" where
  "local_addrs_loop ipVer [] = []"
| "local_addrs_loop ipVer (i # is) =
     (if \<not> if_up i then local_addrs_loop ipVer is
      else local_addrs_of ipVer (if_addrs i) @ local_addrs_loop ipVer is)"

definition getAllLocalAddresses ::
  "interfaces \<Rightarrow> net_if list \<Rightarrow> ipType \<Rightarrow> ip_net list \<times> error" where
  "getAllLocalAddresses all ifaces ipVer =
     (if length ifaces = 0 then
        (case all of
           Inl err \<Rightarrow> ([], Some (ErrWrap ''failed to get network interfaces'' err))
         | Inr is \<Rightarrow> (local_addrs_loop ipVer is, None))
      else (local_addrs_loop ipVer ifaces, None))"

definition GetAllLocalV4Addresses :: "interfaces \<Rightarrow> ip_net list \<times> error" where
  "GetAllLocalV4Addresses all = getAllLocalAddresses all [] ipTypeIPv4"

definition GetAllLocalV6Addresses :: "interfaces \<Rightarrow> ip_net list \<times> error" where
  "GetAllLocalV6Addresses all = getAllLocalAddresses all [] ipTypeIPv6"

definition GetAllLocalAddresses :: "interfaces \<Rightarrow> ip_net list \<times> error" where
  "GetAllLocalAddresses all = getAllLocalAddresses all [] ipTypeAny"

subsection \<open>The ranges, byte by byte\<close>

lemma local_ranges_parsed:
  "map net_IP (take 4 localNonRoutableRanges) =
     map parse_ip [''10.0.0.0'', ''172.16.0.0'', ''192.168.0.0'', ''169.254.0.0'']"
  by (simp add: localNonRoutableRanges_def v4_net_def parse_ip_def parse_addr_def parse_v4_def
      as16_def mk_IPv4_def parse_octet_def is_digit_def digits_val_def digit_val_def)

lemma cidr_masks:
  "cidr_mask 8 4 = [255, 0, 0, 0]" "cidr_mask 12 4 = [255, 240, 0, 0]"
  "cidr_mask 16 4 = [255, 255, 0, 0]" "cidr_mask 4 4 = [240, 0, 0, 0]"
  by (simp_all add: mask_byte_def eval_nat_numeral)

lemma byte_and_255 [simp]: "(x::byte) AND 255 = x"
proof -
  have "mask 8 = (255 :: byte)" by (simp add: mask_eq_exp_minus_1)
  then have "x AND 255 = take_bit 8 x" by (simp add: take_bit_eq_mask)
  also have "\<dots> = take_bit LENGTH(8) x" by simp
  also have "\<dots> = x" by (rule take_bit_length_eq)
  finally show ?thesis .
qed

lemma unat_and_240: "unat ((b::byte) AND 240) = 16 * (unat b div 16)"
proof -
  have lt: "unat b < 2 ^ LENGTH(8)" by (rule unsigned_less)
  have "mask 8 = (255 :: byte)" by (simp add: mask_eq_exp_minus_1)
  moreover have "NOT (mask 4) = (240 :: byte)" by (simp add: mask_eq_exp_minus_1)
  ultimately have "b AND 240 = push_bit 4 (take_bit 4 (drop_bit 4 b))"
    using slice_eq_mask [of 4 4 b] by simp
  moreover have "take_bit 8 (unat b) = unat b" using lt by (simp add: take_bit_nat_eq_self)
  ultimately have "unat (b AND 240) = take_bit 8 (push_bit 4 (take_bit 4 (drop_bit 4 (unat b))))"
    by (simp add: unsigned_push_bit_eq unsigned_take_bit_eq unsigned_drop_bit_eq)
  also have "\<dots> = 16 * (unat b div 16 mod 16)"
    by (simp add: take_bit_eq_mod push_bit_eq_mult drop_bit_eq_div)
  also have "\<dots> = 16 * (unat b div 16)" using lt by simp
  finally show ?thesis .
qed

lemma and_240_16: "((b::byte) AND 240 = 16) = (16 \<le> unat b \<and> unat b \<le> 31)"
proof -
  have "(b AND 240 = 16) \<longleftrightarrow> unat (b AND 240) = 16"
    by (simp add: word_unat_eq_iff del: unsigned_and_eq)
  also have "\<dots> \<longleftrightarrow> unat b div 16 = 1" by (simp add: unat_and_240 del: unsigned_and_eq)
  also have "\<dots> \<longleftrightarrow> (16 \<le> unat b \<and> unat b \<le> 31)" by arith
  finally show ?thesis .
qed

definition private_v4 :: "byte \<Rightarrow> byte \<Rightarrow> bool" where
  "private_v4 a b \<longleftrightarrow> a = 10 \<or> a = 172 \<and> 16 \<le> unat b \<and> unat b \<le> 31
     \<or> a = 192 \<and> b = 168 \<or> a = 169 \<and> b = 254"

lemma and_mask_4 [simp]:
  "and_mask [a, b, c, d] [p, q, r, s] = [a AND p, b AND q, c AND r, d AND s]"
  by (simp add: and_mask_def)

lemma v4_net_contains:
  "net_contains (v4_net a b c d n) [w, x, y, z] \<longleftrightarrow>
     and_mask [a, b, c, d] (cidr_mask n 4) = and_mask [w, x, y, z] (cidr_mask n 4)"
  by (simp add: net_contains_def network_number_and_mask_def v4_net_def Let_def to4_def
      mk_IPv4_def eval_nat_numeral)

lemma v6_net_contains_v4 [simp]:
  "a \<noteq> 0 \<Longrightarrow> \<not> net_contains (v6_net a b n) [w, x, y, z]"
  by (auto simp: net_contains_def network_number_and_mask_def v6_net_def Let_def to4_def
      v4_prefix_def eval_nat_numeral split: if_splits)

lemma local_v4_iff: "IsLocalNonRoutableIP [a, b, c, d] \<longleftrightarrow> private_v4 a b"
  by (simp add: IsLocalNonRoutableIP_def localNonRoutableRanges_def v4_net_contains cidr_masks
      private_v4_def and_240_16 eq_commute [of "16 :: byte"] eq_commute [of _ a] eq_commute [of _ b])

lemma local_to4:
  "to4 ip = [a, b, c, d] \<Longrightarrow> IsLocalNonRoutableIP ip = IsLocalNonRoutableIP [a, b, c, d]"
proof -
  assume t: "to4 ip = [a, b, c, d]"
  have "to4 [a, b, c, d] = [a, b, c, d]" by (simp add: to4_def)
  with t have "net_contains r ip = net_contains r [a, b, c, d]" for r
    by (cases "network_number_and_mask r") (auto simp: net_contains_def Let_def)
  then have "contains_loop rs ip = contains_loop rs [a, b, c, d]" for rs
    by (induction rs) auto
  then show ?thesis by (simp add: IsLocalNonRoutableIP_def)
qed

lemma local_addrs_of_sound:
  "n \<in> set (local_addrs_of v as) \<Longrightarrow>
     IsLocalNonRoutableIP (net_IP n) \<and> (v = ipTypeIPv4 \<longrightarrow> to4 (net_IP n) \<noteq> [])
     \<and> (v = ipTypeIPv6 \<longrightarrow> to4 (net_IP n) = []) \<and> A_IPNet n \<in> set as"
  by (induction v as rule: local_addrs_of.induct) (auto simp: Let_def split: if_splits)

lemma local_addrs_loop_sound:
  "n \<in> set (local_addrs_loop v is) \<Longrightarrow>
     IsLocalNonRoutableIP (net_IP n) \<and> (v = ipTypeIPv4 \<longrightarrow> to4 (net_IP n) \<noteq> [])
     \<and> (v = ipTypeIPv6 \<longrightarrow> to4 (net_IP n) = [])
     \<and> (\<exists>i \<in> set is. if_up i \<and> A_IPNet n \<in> set (if_addrs i))"
  by (induction v "is" rule: local_addrs_loop.induct)
     (auto dest: local_addrs_of_sound split: if_splits)

lemma to4_length: "to4 ip \<noteq> [] \<Longrightarrow> length (to4 ip) = 4"
  by (auto simp: to4_def split: if_splits)

text \<open>
  Whatever addresses the interfaces carry, the local IPv4 networks the daemon reports
  (and lets the firewall and the split tunnel treat as local) all lie in 10.0.0.0/8,
  172.16.0.0/12, 192.168.0.0/16 or 169.254.0.0/16 and belong to an interface that is up.
\<close>

theorem local_v4_addresses_private:
  assumes "n \<in> set (fst (GetAllLocalV4Addresses (Inr ifs)))"
  shows "\<exists>a b c d. to4 (net_IP n) = [a, b, c, d]
     \<and> (a = 10 \<or> a = 172 \<and> 16 \<le> unat b \<and> unat b \<le> 31 \<or> a = 192 \<and> b = 168 \<or> a = 169 \<and> b = 254)
     \<and> (\<exists>i \<in> set ifs. if_up i \<and> A_IPNet n \<in> set (if_addrs i))"
proof -
  have l: "IsLocalNonRoutableIP (net_IP n)" and t: "to4 (net_IP n) \<noteq> []"
    and i: "\<exists>i \<in> set ifs. if_up i \<and> A_IPNet n \<in> set (if_addrs i)"
    using assms by (auto simp: GetAllLocalV4Addresses_def getAllLocalAddresses_def
        dest: local_addrs_loop_sound)
  obtain a b c d where q: "to4 (net_IP n) = [a, b, c, d]"
    using to4_length [OF t] by (auto simp: length_Suc_conv eval_nat_numeral)
  then have "private_v4 a b" using l local_to4 local_v4_iff by metis
  with q i show ?thesis by (auto simp: private_v4_def)
qed

definition sample_if :: net_if where
  "sample_if = \<lparr>if_name = ''eth0'', if_index = 2, if_up = True, if_loopback = False,
     if_addrs = [A_IPNet \<lparr>net_IP = [192, 168, 1, 7], net_Mask = [255, 255, 255, 0]\<rparr>,
       A_IPNet \<lparr>net_IP = [8, 8, 8, 8], net_Mask = [255, 255, 255, 255]\<rparr>]\<rparr>"

theorem local_v4_addresses_private_witness:
  "\<exists>a b c d. to4 [192, 168, 1, 7] = [a, b, c, d]
     \<and> (a = 10 \<or> a = 172 \<and> 16 \<le> unat b \<and> unat b \<le> 31 \<or> a = 192 \<and> b = 168 \<or> a = 169 \<and> b = 254)"
  using local_v4_addresses_private
    [of "\<lparr>net_IP = [192, 168, 1, 7], net_Mask = [255, 255, 255, 0]\<rparr>" "[sample_if]"]
  by (auto simp: GetAllLocalV4Addresses_def getAllLocalAddresses_def sample_if_def to4_def
      is_unspecified_def ip_equal_def mk_IPv4_def local_v4_iff private_v4_def)

end
