(* ===== verification/Firewall.thy ===== *)
theory Firewall
  imports Dns_Settings Netinfo
begin

section \<open>The firewall (daemon/service/firewall: firewall.go, firewall_linux.go, helpers.go)\<close>

text \<open>
  The Linux build of the package: the operations of firewall.go over their implementation
  in firewall_linux.go, which drives the script firewall.sh. \<open>fw\<close> holds the package
  variables of both files and, last, the commands given to the script so far, newest
  first. \<open>fw_env\<close> is the world: the outcome of each command as a function of the
  commands before it, the interfaces of the machine, and the order in which Go iterates
  over the keys of a map (any permutation). A Go map is an association list without
  duplicate keys. The background check \<open>ensurePersistant\<close> is a function over the number
  of its rounds; the mutexes serialise the operations.
\<close>

datatype exc_kind = K_dynamic | K_static | K_icmp

datatype fw_cmd =
    Cmd_status
  | Cmd_enable
  | Cmd_disable
  | Cmd_connected string net_ip int net_ip int bool
  | Cmd_disconnected
  | Cmd_set_dns "net_ip list"
  | Cmd_add exc_kind "string list"
  | Cmd_remove exc_kind "string list"
  | Cmd_user_exceptions bool "string list"
  | Cmd_only_dns "net_ip list" "string list"
  | Cmd_only_dns_off

text \<open>The arguments of the script the code builds for each command.\<close>

fun cmd_args :: "fw_cmd \<Rightarrow> string list" where
  "cmd_args Cmd_status = [''-status'']"
| "cmd_args Cmd_enable = [''-enable'']"
| "cmd_args Cmd_disable = [''-disable'']"
| "cmd_args (Cmd_connected ifname clientIP clientPort serverIP serverPort isTCP) =
     [''-connected '' @ ifname @ '' '' @ ip_string clientIP @ '' '' @ show_int clientPort @ '' ''
        @ ip_string serverIP @ '' '' @ show_int serverPort @ '' '' @ (if isTCP then ''tcp'' else ''udp'')]"
| "cmd_args Cmd_disconnected = [''-disconnected'']"
| "cmd_args (Cmd_set_dns addr) = [''-set_dns'', join_with '','' (map ip_string addr)]"
| "cmd_args (Cmd_add k hosts) =
     [case k of K_icmp \<Rightarrow> ''-add_exceptions_icmp'' | K_static \<Rightarrow> ''-add_exceptions_static''
        | K_dynamic \<Rightarrow> ''-add_exceptions'', join_with '','' hosts]"
| "cmd_args (Cmd_remove k hosts) =
     [case k of K_icmp \<Rightarrow> ''-remove_exceptions_icmp'' | K_static \<Rightarrow> ''-remove_exceptions_static''
        | K_dynamic \<Rightarrow> ''-remove_exceptions'', join_with '','' hosts]"
| "cmd_args (Cmd_user_exceptions isIpv4 masks) =
     [if isIpv4 then ''-set_user_exceptions_static'' else ''-set_user_exceptions_static_ipv6'',
      join_with '','' masks]"
| "cmd_args (Cmd_only_dns addr exceptions) =
     [''-only_dns'', join_with '','' (map ip_string addr), join_with '','' exceptions]"
| "cmd_args Cmd_only_dns_off = [''-only_dns_off'']"

record fw_env =
  sh_exec :: "fw_cmd list \<Rightarrow> fw_cmd \<Rightarrow> error"
  sh_exit_code :: "gerror \<Rightarrow> gerror + int"
  fw_interfaces :: interfaces
  map_order :: "string list \<Rightarrow> string list"

record fw =
  allowedHosts :: "(string \<times> bool) list"
  allowedForICMP :: "string list"
  curAllowedLanIPs :: "string list"
  curStateAllowLAN :: bool
  curStateAllowLanMulticast :: bool
  curStateEnabled :: bool
  isPersistant :: bool
  connectedClientInterfaceIP :: net_ip
  connectedClientInterfaceIPv6 :: net_ip
  connectedClientPort :: int
  connectedHostIP :: net_ip
  connectedHostPort :: int
  connectedIsTCP :: bool
  isClientPaused :: bool
  dnsConfig :: "DnsSettings option"
  userExceptions :: "ip_net list"
  stateAllowLan :: bool
  stateAllowLanMulticast :: bool
  cmds :: "fw_cmd list"

definition fw_init :: fw where
  "fw_init =
     \<lparr>allowedHosts = [], allowedForICMP = [], curAllowedLanIPs = [], curStateAllowLAN = False,
      curStateAllowLanMulticast = False, curStateEnabled = False, isPersistant = False,
      connectedClientInterfaceIP = [], connectedClientInterfaceIPv6 = [],
      connectedClientPort = 0, connectedHostIP = [], connectedHostPort = 0,
      connectedIsTCP = False, isClientPaused = False, dnsConfig = None, userExceptions = [],
      stateAllowLan = False, stateAllowLanMulticast = False, cmds = []\<rparr>"

definition shell_Exec :: "fw_env \<Rightarrow> fw_cmd \<Rightarrow> fw \<Rightarrow> error \<times> fw" where
  "shell_Exec env c s = (sh_exec env (cmds s) c, s\<lparr>cmds := c # cmds s\<rparr>)"

subsection \<open>helpers.go\<close>

definition ipNetListToStrings :: "ip_net list \<Rightarrow> string list" where
  "ipNetListToStrings l = map ip_net_string l"

fun filterIPNetList :: "ip_net list \<Rightarrow> bool \<Rightarrow> ip_net list" where
  "filterIPNetList [] isIPv6 = []"
| "filterIPNetList (n # ns) isIPv6 =
     (if isIPv6 \<and> to4 (net_IP n) = [] then n # filterIPNetList ns isIPv6
      else if \<not> isIPv6 \<and> to4 (net_IP n) \<noteq> [] then n # filterIPNetList ns isIPv6
      else filterIPNetList ns isIPv6)"

subsection \<open>The tables of allowed hosts\<close>

definition applyAddHostsToExceptions ::
  "fw_env \<Rightarrow> string list \<Rightarrow> bool \<Rightarrow> bool \<Rightarrow> fw \<Rightarrow> error \<times> fw" where
  "applyAddHostsToExceptions env hostsIPs persistant onlyForICMP s =
     (if length (join_with '','' hostsIPs) > 0 then
        shell_Exec env (Cmd_add (if onlyForICMP then K_icmp else if persistant then K_static
                                 else K_dynamic) hostsIPs) s
      else (None, s))"

definition applyRemoveHostsFromExceptions ::
  "fw_env \<Rightarrow> string list \<Rightarrow> bool \<Rightarrow> bool \<Rightarrow> fw \<Rightarrow> error \<times> fw" where
  "applyRemoveHostsFromExceptions env hostsIPs persistant onlyForICMP s =
     (if length (join_with '','' hostsIPs) > 0 then
        shell_Exec env (Cmd_remove (if onlyForICMP then K_icmp else if persistant then K_static
                                    else K_dynamic) hostsIPs) s
      else (None, s))"

text \<open>The loops over the given addresses: the updated table and what was really added or removed.\<close>

fun add_hosts_loop ::
  "bool \<Rightarrow> string list \<Rightarrow> (string \<times> bool) list \<Rightarrow> (string \<times> bool) list \<times> string list" where
  "add_hosts_loop persistant [] hosts = (hosts, [])"
| "add_hosts_loop persistant (ip # ips) hosts =
     (if map_of hosts ip = None then
        let (hosts', new) = add_hosts_loop persistant ips ((ip, persistant) # hosts)
        in (hosts', ip # new)
      else add_hosts_loop persistant ips hosts)"

fun add_icmp_loop :: "string list \<Rightarrow> string list \<Rightarrow> string list \<times> string list" where
  "add_icmp_loop [] icmp = (icmp, [])"
| "add_icmp_loop (ip # ips) icmp =
     (if ip \<notin> set icmp then
        let (icmp', new) = add_icmp_loop ips (ip # icmp) in (icmp', ip # new)
      else add_icmp_loop ips icmp)"

definition addHostsToExceptions ::
  "fw_env \<Rightarrow> string list \<Rightarrow> bool \<Rightarrow> bool \<Rightarrow> fw \<Rightarrow> error \<times> fw" where
  "addHostsToExceptions env IPs persistant onlyForICMP s =
     (if length IPs = 0 then (None, s)
      else
        let (s, newIPs) =
          (if \<not> onlyForICMP then
             let (hosts, new) = add_hosts_loop persistant IPs (allowedHosts s)
             in (s\<lparr>allowedHosts := hosts\<rparr>, new)
           else
             let (icmp, new) = add_icmp_loop IPs (allowedForICMP s)
             in (s\<lparr>allowedForICMP := icmp\<rparr>, new))
        in if length newIPs = 0 then (None, s)
           else applyAddHostsToExceptions env newIPs persistant onlyForICMP s)"

fun remove_hosts_loop ::
  "bool \<Rightarrow> string list \<Rightarrow> (string \<times> bool) list \<Rightarrow> (string \<times> bool) list \<times> string list" where
  "remove_hosts_loop persistant [] hosts = (hosts, [])"
| "remove_hosts_loop persistant (ip # ips) hosts =
     (case map_of hosts ip of
        Some persVal \<Rightarrow>
          if persVal \<noteq> persistant then remove_hosts_loop persistant ips hosts
          else let (hosts', gone) =
                     remove_hosts_loop persistant ips (filter (\<lambda>(k, v). k \<noteq> ip) hosts)
               in (hosts', ip # gone)
      | None \<Rightarrow> remove_hosts_loop persistant ips hosts)"

fun remove_icmp_loop :: "string list \<Rightarrow> string list \<Rightarrow> string list \<times> string list" where
  "remove_icmp_loop [] icmp = (icmp, [])"
| "remove_icmp_loop (ip # ips) icmp =
     (if ip \<in> set icmp then
        let (icmp', gone) = remove_icmp_loop ips (filter (\<lambda>k. k \<noteq> ip) icmp) in (icmp', ip # gone)
      else remove_icmp_loop ips icmp)"

definition removeHostsFromExceptions ::
  "fw_env \<Rightarrow> string list \<Rightarrow> bool \<Rightarrow> bool \<Rightarrow> fw \<Rightarrow> error \<times> fw" where
  "removeHostsFromExceptions env IPs persistant onlyForICMP s =
     (if length IPs = 0 then (None, s)
      else
        let (s, toRemoveIPs) =
          (if \<not> onlyForICMP then
             let (hosts, gone) = remove_hosts_loop persistant IPs (allowedHosts s)
             in (s\<lparr>allowedHosts := hosts\<rparr>, gone)
           else
             let (icmp, gone) = remove_icmp_loop IPs (allowedForICMP s)
             in (s\<lparr>allowedForICMP := icmp\<rparr>, gone))
        in if length toRemoveIPs = 0 then (None, s)
           else applyRemoveHostsFromExceptions env toRemoveIPs persistant onlyForICMP s)"

definition removeAllHostsFromExceptions :: "fw_env \<Rightarrow> fw \<Rightarrow> error \<times> fw" where
  "removeAllHostsFromExceptions env s =
     removeHostsFromExceptions env (map_order env (map fst (allowedHosts s))) False False s"

text \<open>The prioritized (not persistent) and the persistent hosts, in the order of iteration.\<close>

definition getAllowedIpExceptions :: "fw_env \<Rightarrow> fw \<Rightarrow> string list \<times> string list" where
  "getAllowedIpExceptions env s =
     (let keys = map_order env (map fst (allowedHosts s))
      in (filter (\<lambda>k. map_of (allowedHosts s) k = Some False) keys,
          filter (\<lambda>k. map_of (allowedHosts s) k = Some True) keys))"

fun getUserExceptions :: "ip_net list \<Rightarrow> bool \<Rightarrow> bool \<Rightarrow> ip_net list" where
  "getUserExceptions [] ipv4 ipv6 = []"
| "getUserExceptions (e # es) ipv4 ipv6 =
     (let isIPv6 = (to4 (net_IP e) = []); isIPv4 = (\<not> isIPv6)
      in if \<not> (isIPv4 \<and> ipv4) \<and> \<not> (isIPv6 \<and> ipv6) then getUserExceptions es ipv4 ipv6
         else e # getUserExceptions es ipv4 ipv6)"

subsection \<open>The Linux implementation\<close>

definition implGetEnabled :: "fw_env \<Rightarrow> fw \<Rightarrow> (bool \<times> error) \<times> fw" where
  "implGetEnabled env s =
     (let (err, s) = shell_Exec env Cmd_status s
      in case err of
           None \<Rightarrow> ((True, None), s)
         | Some e \<Rightarrow>
             (case sh_exit_code env e of
                Inl e' \<Rightarrow> ((False, Some (ErrWrap ''failed to get Cmd exit code'' e')), s)
              | Inr exitCode \<Rightarrow> if exitCode = 0 then ((True, None), s) else ((False, None), s)))"

fun not_v4 :: "net_ip list \<Rightarrow> net_ip option" where
  "not_v4 [] = None"
| "not_v4 (ip # ips) = (if to4 ip = [] then Some ip else not_v4 ips)"

definition implOnChangeDNS :: "fw_env \<Rightarrow> net_ip list \<Rightarrow> bool \<Rightarrow> fw \<Rightarrow> error \<times> fw" where
  "implOnChangeDNS env addr isInternal s =
     (case not_v4 addr of
        Some ip \<Rightarrow> (Some (Err (''the '' @ ip_string ip @ '' is not IPv4 DNS address'')), s)
      | None \<Rightarrow> shell_Exec env (Cmd_set_dns addr) s)"

definition apply_user_exceptions :: "fw_env \<Rightarrow> bool \<Rightarrow> fw \<Rightarrow> error \<times> fw" where
  "apply_user_exceptions env isIpv4 s =
     shell_Exec env
       (Cmd_user_exceptions isIpv4
          (map ip_net_string (getUserExceptions (userExceptions s) isIpv4 (\<not> isIpv4)))) s"

definition implOnUserExceptionsUpdated :: "fw_env \<Rightarrow> fw \<Rightarrow> error \<times> fw" where
  "implOnUserExceptionsUpdated env s =
     (let (err, s) = apply_user_exceptions env False s;
          (errIpv6, s) = apply_user_exceptions env True s
      in if err = None \<and> errIpv6 \<noteq> None then (errIpv6, s) else (err, s))"

definition lan_hosts :: "bool \<Rightarrow> string list" where
  "lan_hosts isAllowLanMulticast =
     (let ipV4 = False;
          localRanges = ipNetListToStrings (filterIPNetList GetNonRoutableLocalAddrRanges ipV4);
          multicastRanges = ipNetListToStrings (filterIPNetList GetMulticastAddresses ipV4)
      in if isAllowLanMulticast then localRanges @ multicastRanges else localRanges)"

definition doAllowLAN :: "fw_env \<Rightarrow> bool \<Rightarrow> bool \<Rightarrow> fw \<Rightarrow> error \<times> fw" where
  "doAllowLAN env isAllowLAN isAllowLanMulticast s =
     (let s = s\<lparr>curStateAllowLAN := isAllowLAN, curStateAllowLanMulticast := isAllowLanMulticast\<rparr> in
      if isAllowLAN \<and> \<not> curStateEnabled s then (None, s)
      else
        let s = (if length (curAllowedLanIPs s) > 0
                 then snd (removeHostsFromExceptions env (curAllowedLanIPs s) True False s) else s);
            s = s\<lparr>curAllowedLanIPs := []\<rparr>
        in if \<not> isAllowLAN then (None, s)
           else
             let s = s\<lparr>curAllowedLanIPs := lan_hosts isAllowLanMulticast\<rparr>
             in addHostsToExceptions env (curAllowedLanIPs s) True False s)"

definition implAllowLAN :: "fw_env \<Rightarrow> bool \<Rightarrow> bool \<Rightarrow> fw \<Rightarrow> error \<times> fw" where
  "implAllowLAN env isAllowLAN isAllowLanMulticast s = doAllowLAN env isAllowLAN isAllowLanMulticast s"

definition getDnsIpAddresses :: "fw \<Rightarrow> net_ip list \<times> bool" where
  "getDnsIpAddresses s =
     (case dnsConfig s of
        Some cfg \<Rightarrow> (GetUnencryptedServersAddresses cfg, IsInternalDnsConfig cfg)
      | None \<Rightarrow> ([], False))"

definition reApplyExceptions :: "fw_env \<Rightarrow> fw \<Rightarrow> error \<times> fw" where
  "reApplyExceptions env s =
     (let (allowedIPs, allowedIPsPersistant) = getAllowedIpExceptions env s;
          allowedIPsICMP = map_order env (allowedForICMP s);
          (_, s) = (let (addr, isInternal) = getDnsIpAddresses s
                    in implOnChangeDNS env addr isInternal s);
          (_, s) = applyAddHostsToExceptions env allowedIPsICMP False True s;
          (err, s) = applyAddHostsToExceptions env allowedIPs False False s
      in if err \<noteq> None then (err, s)
         else
           let (_, s) = applyAddHostsToExceptions env allowedIPsPersistant True False s;
               (_, s) = implAllowLAN env (curStateAllowLAN s) (curStateAllowLanMulticast s) s
           in implOnUserExceptionsUpdated env s)"

definition implSetEnabled :: "fw_env \<Rightarrow> bool \<Rightarrow> fw \<Rightarrow> error \<times> fw" where
  "implSetEnabled env isEnabled s =
     (let s = s\<lparr>curStateEnabled := isEnabled\<rparr> in
      if isEnabled then
        (case shell_Exec env Cmd_enable s of
           (Some err, s) \<Rightarrow> (Some (ErrWrap ''failed to execute shell command'' err), s)
         | (None, s) \<Rightarrow> reApplyExceptions env s)
      else
        let s = s\<lparr>curAllowedLanIPs := [], isPersistant := False, allowedForICMP := []\<rparr>
        in shell_Exec env Cmd_disable s)"

text \<open>
  The goroutine started by \<open>implSetPersistant\<close>: \<open>n\<close> rounds of waiting 5 seconds and
  checking; between two rounds the other operations of the package run
  (\<open>between i\<close> is what they do before round \<open>i\<close>).
\<close>

definition delaySec :: nat where "delaySec = 5"

definition ensure_round :: "fw_env \<Rightarrow> fw \<Rightarrow> bool \<times> fw" where
  "ensure_round env s =
     (if \<not> isPersistant s then (False, s)
      else
        let ((enabled, err), s) = implGetEnabled env s
        in if err \<noteq> None then (True, s)
           else if isPersistant s \<and> \<not> enabled then (True, snd (implSetEnabled env True s))
           else (True, s))"

fun ensure_loop :: "fw_env \<Rightarrow> (nat \<Rightarrow> fw \<Rightarrow> fw) \<Rightarrow> nat \<Rightarrow> nat \<Rightarrow> fw \<Rightarrow> fw" where
  "ensure_loop env between i 0 s = s"
| "ensure_loop env between i (Suc n) s =
     (let (go_on, s) = ensure_round env (between i s)
      in if go_on then ensure_loop env between (Suc i) n s else s)"

definition ensurePersistant :: "fw_env \<Rightarrow> (nat \<Rightarrow> fw \<Rightarrow> fw) \<Rightarrow> nat \<Rightarrow> fw \<Rightarrow> fw" where
  "ensurePersistant env between secondsToWait s =
     ensure_loop env between 0 (secondsToWait div delaySec + 1) s"

text \<open>\<open>True\<close> in the result: the goroutine \<open>ensurePersistant(60)\<close> is started.\<close>

definition implSetPersistant :: "fw_env \<Rightarrow> bool \<Rightarrow> fw \<Rightarrow> (error \<times> bool) \<times> fw" where
  "implSetPersistant env persistant s =
     (let s = s\<lparr>isPersistant := persistant\<rparr> in
      if persistant then let (ret, s) = implSetEnabled env True s in ((ret, True), s)
      else ((None, False), s))"

definition implClientConnected ::
  "fw_env \<Rightarrow> net_ip \<Rightarrow> net_ip \<Rightarrow> int \<Rightarrow> net_ip \<Rightarrow> int \<Rightarrow> bool \<Rightarrow> fw \<Rightarrow> error \<times> fw" where
  "implClientConnected env clientLocalIP clientLocalIPv6 clientPort serverIP serverPort isTCP s =
     (case InterfaceByIPAddr (fw_interfaces env) clientLocalIP of
        Inl err \<Rightarrow> (Some (ErrWrap ''failed to get local interface by IP'' err), s)
      | Inr ifc \<Rightarrow>
          (case shell_Exec env
                  (Cmd_connected (if_name ifc) clientLocalIP clientPort serverIP serverPort isTCP) s of
             (Some err, s) \<Rightarrow>
               (Some (ErrWrap ''failed to add rule for current connection directions'' err), s)
           | (None, s) \<Rightarrow> removeHostsFromExceptions env [ip_string serverIP] False False s))"

definition implClientDisconnected :: "fw_env \<Rightarrow> fw \<Rightarrow> error \<times> fw" where
  "implClientDisconnected env s =
     (let (_, s) = removeAllHostsFromExceptions env s in shell_Exec env Cmd_disconnected s)"

definition implAddHostsToExceptions ::
  "fw_env \<Rightarrow> net_ip list \<Rightarrow> bool \<Rightarrow> bool \<Rightarrow> fw \<Rightarrow> error \<times> fw" where
  "implAddHostsToExceptions env IPs onlyForICMP persistant s =
     addHostsToExceptions env
       (map ip_string (filter (\<lambda>ip. \<not> ip_equal ip (mk_IPv4 127 0 0 1)) IPs)) persistant onlyForICMP s"

definition implRemoveHostsFromExceptions ::
  "fw_env \<Rightarrow> net_ip list \<Rightarrow> bool \<Rightarrow> bool \<Rightarrow> fw \<Rightarrow> error \<times> fw" where
  "implRemoveHostsFromExceptions env IPs onlyForICMP persistant s =
     removeHostsFromExceptions env (map ip_string IPs) persistant onlyForICMP s"

definition implSingleDnsRuleOff :: "fw_env \<Rightarrow> fw \<Rightarrow> error \<times> fw" where
  "implSingleDnsRuleOff env s = shell_Exec env Cmd_only_dns_off s"

definition implSingleDnsRuleOn :: "fw_env \<Rightarrow> net_ip list \<Rightarrow> fw \<Rightarrow> error \<times> fw" where
  "implSingleDnsRuleOn env dnsAddr s =
     shell_Exec env (Cmd_only_dns dnsAddr (fst (getAllowedIpExceptions env s))) s"

subsection \<open>firewall.go\<close>

definition fw_SetEnabled :: "fw_env \<Rightarrow> bool \<Rightarrow> fw \<Rightarrow> error \<times> fw" where
  "fw_SetEnabled env enable s =
     (case implSetEnabled env enable s of
        (Some err, s) \<Rightarrow> (Some (ErrWrap ''failed to change firewall state'' err), s)
      | (None, s) \<Rightarrow>
          if enable \<and> connectedClientInterfaceIP s \<noteq> [] \<and> \<not> isClientPaused s then
            let (_, s) = implClientConnected env (connectedClientInterfaceIP s)
                  (connectedClientInterfaceIPv6 s) (connectedClientPort s) (connectedHostIP s)
                  (connectedHostPort s) (connectedIsTCP s) s
            in (None, s)
          else (None, s))"

definition fw_SetPersistant :: "fw_env \<Rightarrow> bool \<Rightarrow> fw \<Rightarrow> (error \<times> bool) \<times> fw" where
  "fw_SetPersistant env persistant s = implSetPersistant env persistant s"

definition fw_GetEnabled :: "fw_env \<Rightarrow> fw \<Rightarrow> (bool \<times> error) \<times> fw" where
  "fw_GetEnabled env s = implGetEnabled env s"

definition fw_GetState :: "fw_env \<Rightarrow> fw \<Rightarrow> (bool \<times> bool \<times> bool \<times> error) \<times> fw" where
  "fw_GetState env s =
     (let ((ret, err), s) = implGetEnabled env s
      in ((ret, stateAllowLan s, stateAllowLanMulticast s, err), s))"

definition fw_SingleDnsRuleOn :: "fw_env \<Rightarrow> net_ip list \<Rightarrow> fw \<Rightarrow> error \<times> fw" where
  "fw_SingleDnsRuleOn env dnsAddr s = implSingleDnsRuleOn env dnsAddr s"

definition fw_SingleDnsRuleOff :: "fw_env \<Rightarrow> fw \<Rightarrow> error \<times> fw" where
  "fw_SingleDnsRuleOff env s = implSingleDnsRuleOff env s"

definition ClientPaused :: "fw \<Rightarrow> fw" where "ClientPaused s = s\<lparr>isClientPaused := True\<rparr>"
definition ClientResumed :: "fw \<Rightarrow> fw" where "ClientResumed s = s\<lparr>isClientPaused := False\<rparr>"

definition ClientConnected ::
  "fw_env \<Rightarrow> net_ip \<Rightarrow> net_ip \<Rightarrow> int \<Rightarrow> net_ip \<Rightarrow> int \<Rightarrow> bool \<Rightarrow> fw \<Rightarrow> error \<times> fw" where
  "ClientConnected env clientLocalIP clientLocalIPv6 clientPort serverIP serverPort isTCP s =
     (let s = ClientResumed s;
          s = s\<lparr>connectedClientInterfaceIP := clientLocalIP,
                connectedClientInterfaceIPv6 := clientLocalIPv6,
                connectedClientPort := clientPort, connectedHostIP := serverIP,
                connectedHostPort := serverPort, connectedIsTCP := isTCP\<rparr>
      in implClientConnected env clientLocalIP clientLocalIPv6 clientPort serverIP serverPort isTCP s)"

definition ClientDisconnected :: "fw_env \<Rightarrow> fw \<Rightarrow> error \<times> fw" where
  "ClientDisconnected env s =
     (let s = ClientResumed s in
      if connectedClientInterfaceIP s \<noteq> [] then
        implClientDisconnected env
          (s\<lparr>connectedClientInterfaceIP := [], connectedClientInterfaceIPv6 := []\<rparr>)
      else (None, s))"

definition fw_AddHostsToExceptions ::
  "fw_env \<Rightarrow> net_ip list \<Rightarrow> bool \<Rightarrow> bool \<Rightarrow> fw \<Rightarrow> error \<times> fw" where
  "fw_AddHostsToExceptions env IPs onlyForICMP persistant s =
     implAddHostsToExceptions env IPs onlyForICMP persistant s"

definition fw_RemoveHostsFromExceptions ::
  "fw_env \<Rightarrow> net_ip list \<Rightarrow> bool \<Rightarrow> bool \<Rightarrow> fw \<Rightarrow> error \<times> fw" where
  "fw_RemoveHostsFromExceptions env IPs onlyForICMP persistant s =
     implRemoveHostsFromExceptions env IPs onlyForICMP persistant s"

definition fw_AllowLAN :: "fw_env \<Rightarrow> bool \<Rightarrow> bool \<Rightarrow> fw \<Rightarrow> error \<times> fw" where
  "fw_AllowLAN env allowLan allowLanMulticast s =
     implAllowLAN env allowLan allowLanMulticast
       (s\<lparr>stateAllowLan := allowLan, stateAllowLanMulticast := allowLanMulticast\<rparr>)"

definition GetDnsInfo :: "fw \<Rightarrow> DnsSettings \<times> bool" where
  "GetDnsInfo s = (case dnsConfig s of None \<Rightarrow> (noDns, False) | Some d \<Rightarrow> (d, True))"

definition OnChangeDNS :: "fw_env \<Rightarrow> DnsSettings option \<Rightarrow> fw \<Rightarrow> error \<times> fw" where
  "OnChangeDNS env newDnsCfg s =
     (let newDnsCfg = (case newDnsCfg of None \<Rightarrow> None
                       | Some d \<Rightarrow> if dns_IsEmpty d then None else Some d) in
      if dnsConfig s = None \<and> newDnsCfg = None
         \<or> (case (dnsConfig s, newDnsCfg) of (Some old, Some new) \<Rightarrow> dns_Equal old new | _ \<Rightarrow> False)
      then (None, s)
      else
        let (addresses, isInternal) =
              (case newDnsCfg of None \<Rightarrow> ([], False)
               | Some d \<Rightarrow> (GetUnencryptedServersAddresses d, IsInternalDnsConfig d));
            (err, s) = implOnChangeDNS env addresses isInternal s
        in if err \<noteq> None then (err, s) else (None, s\<lparr>dnsConfig := newDnsCfg\<rparr>))"

text \<open>
  The characters \<open>splitFunc\<close> keeps: letters, digits, \<open>/\<close>, \<open>.\<close> and \<open>:\<close>. The
  exceptions are text typed by the user, taken here to be ASCII.
\<close>

definition exc_char :: "char \<Rightarrow> bool" where
  "exc_char c \<longleftrightarrow> is_digit c
     \<or> (97 \<le> (of_char c :: nat) \<and> (of_char c :: nat) \<le> 122)
     \<or> (65 \<le> (of_char c :: nat) \<and> (of_char c :: nat) \<le> 90)
     \<or> c = CHR ''/'' \<or> c = CHR ''.'' \<or> c = CHR '':''"

fun exc_fields :: "string \<Rightarrow> string \<Rightarrow> string list" where
  "exc_fields acc [] = (if acc = [] then [] else [acc])"
| "exc_fields acc (c # cs) =
     (if exc_char c then exc_fields (acc @ [c]) cs
      else if acc = [] then exc_fields [] cs else acc # exc_fields [] cs)"

definition parse_exception :: "string \<Rightarrow> ip_net option" where
  "parse_exception exp0 =
     (let exp = trim_space exp0 in
      if CHR ''/'' \<in> set exp then parse_cidr exp
      else let addr = parse_ip exp in
        if addr = [] then None
        else if to4 addr = [] then parse_cidr (ip_string addr @ ''/128'')
        else parse_cidr (ip_string addr @ ''/32''))"

fun parse_exceptions :: "bool \<Rightarrow> string list \<Rightarrow> ip_net list \<Rightarrow> bool \<times> ip_net list" where
  "parse_exceptions ignoreParseErrors [] acc = (True, acc)"
| "parse_exceptions ignoreParseErrors (exp # rest) acc =
     (case parse_exception exp of
        None \<Rightarrow> if \<not> ignoreParseErrors then (False, acc)
                else parse_exceptions ignoreParseErrors rest acc
      | Some n \<Rightarrow> parse_exceptions ignoreParseErrors rest (acc @ [n]))"

definition SetUserExceptions :: "fw_env \<Rightarrow> string \<Rightarrow> bool \<Rightarrow> fw \<Rightarrow> error \<times> fw" where
  "SetUserExceptions env exceptions ignoreParseErrors s =
     (let (ok, nets) = parse_exceptions ignoreParseErrors (exc_fields [] exceptions) [];
          s = s\<lparr>userExceptions := nets\<rparr>
      in if \<not> ok then (Some (Err ''unable to parse firewall exceptions''), s)
         else implOnUserExceptionsUpdated env s)"

end
