(* ===== verification/Firewall_Sync.thy ===== *)
theory Firewall_Sync
  imports Firewall
begin

section \<open>The firewall keeps its tables and the rules of the script in step\<close>

text \<open>
  The abstract view of firewall.sh (daemon/References/Linux/etc): whether it is enabled
  and which addresses each of its exception chains lets through. \<open>sc_run\<close> replays a
  command log (newest first). The refinement is \<open>fw_sync\<close>: with the firewall enabled the
  chains hold exactly the hosts of the tables of the Go code; with it disabled the
  non-static chain is empty. \<open>fw_machine\<close> shows every operation of the package keeps it.
\<close>

record script =
  sc_on :: bool
  sc_rules :: "exc_kind \<Rightarrow> string set"

fun sc_step :: "fw_cmd \<Rightarrow> script \<Rightarrow> script" where
  "sc_step Cmd_enable sc = sc\<lparr>sc_on := True\<rparr>"
| "sc_step Cmd_disable sc = \<lparr>sc_on = False, sc_rules = (\<lambda>_. {})\<rparr>"
| "sc_step Cmd_disconnected sc =
     (if sc_on sc then sc\<lparr>sc_rules := (sc_rules sc)(K_dynamic := {})\<rparr> else sc)"
| "sc_step (Cmd_add k hosts) sc =
     (if k = K_dynamic \<and> \<not> sc_on sc then sc
      else sc\<lparr>sc_rules := (sc_rules sc)(k := sc_rules sc k \<union> set hosts)\<rparr>)"
| "sc_step (Cmd_remove k hosts) sc =
     sc\<lparr>sc_rules := (sc_rules sc)(k := sc_rules sc k - set hosts)\<rparr>"
| "sc_step _ sc = sc"

definition sc_init :: script where "sc_init = \<lparr>sc_on = False, sc_rules = (\<lambda>_. {})\<rparr>"

definition sc_run :: "fw_cmd list \<Rightarrow> script" where "sc_run cs = foldr sc_step cs sc_init"

abbreviation applied :: "fw \<Rightarrow> script" where "applied s \<equiv> sc_run (cmds s)"

lemma sc_run_Nil [simp]: "sc_run [] = sc_init"
  and sc_run_Cons [simp]: "sc_run (c # cs) = sc_step c (sc_run cs)"
  by (simp_all add: sc_run_def)

text \<open>The script reports success, and iterating over a map visits every key.\<close>

definition script_ok :: "fw_env \<Rightarrow> bool" where
  "script_ok env \<longleftrightarrow> (\<forall>cs c. c \<noteq> Cmd_status \<longrightarrow> sh_exec env cs c = None)
     \<and> (\<forall>ks. set (map_order env ks) = set ks)"

definition hosts_of :: "bool \<Rightarrow> fw \<Rightarrow> string set" where
  "hosts_of p s = {h. map_of (allowedHosts s) h = Some p}"

definition fw_weak :: "fw \<Rightarrow> bool" where
  "fw_weak s \<longleftrightarrow>
     [] \<notin> fst ` set (allowedHosts s) \<and> [] \<notin> set (allowedForICMP s) \<and> [] \<notin> set (curAllowedLanIPs s)
     \<and> sc_on (applied s) = curStateEnabled s
     \<and> sc_rules (applied s) K_static \<subseteq> hosts_of True s
     \<and> sc_rules (applied s) K_dynamic \<subseteq> hosts_of False s
     \<and> (\<not> curStateEnabled s \<longrightarrow> sc_rules (applied s) K_dynamic = {})
     \<and> sc_rules (applied s) K_icmp \<subseteq> set (allowedForICMP s)"

definition fw_sync :: "fw \<Rightarrow> bool" where
  "fw_sync s \<longleftrightarrow> fw_weak s \<and> sc_rules (applied s) K_icmp = set (allowedForICMP s)
     \<and> (curStateEnabled s \<longrightarrow> sc_rules (applied s) K_static = hosts_of True s
                              \<and> sc_rules (applied s) K_dynamic = hosts_of False s)"

subsection \<open>The loops over the tables\<close>

lemma map_of_Some_key: "map_of hosts ip = Some v \<Longrightarrow> ip \<in> fst ` set hosts"
  by (metis domI dom_map_of_conv_image_fst)

lemma add_hosts_loop_map:
  "map_of (fst (add_hosts_loop p ips hosts)) h =
     (if h \<in> set ips \<and> map_of hosts h = None then Some p else map_of hosts h)"
  by (induction p ips hosts rule: add_hosts_loop.induct) (auto simp: case_prod_unfold Let_def)

lemma add_hosts_loop_new:
  "x \<in> set (snd (add_hosts_loop p ips hosts)) \<longleftrightarrow> x \<in> set ips \<and> map_of hosts x = None"
  by (induction p ips hosts rule: add_hosts_loop.induct) (auto simp: case_prod_unfold Let_def)

lemma add_hosts_loop_keys:
  "fst ` set (fst (add_hosts_loop p ips hosts)) = fst ` set hosts \<union> set ips"
  by (induction p ips hosts rule: add_hosts_loop.induct)
     (auto simp: case_prod_unfold Let_def map_of_Some_key)

lemma add_icmp_loop_spec:
  "set (fst (add_icmp_loop ips icmp)) = set icmp \<union> set ips"
  "set (snd (add_icmp_loop ips icmp)) = set ips - set icmp"
  by (induction ips icmp rule: add_icmp_loop.induct) (auto simp: case_prod_unfold Let_def)

lemma map_of_filter_key:
  "map_of (filter (\<lambda>(k, v). k \<noteq> ip) hosts) h = (if h = ip then None else map_of hosts h)"
  "map_of (filter (\<lambda>kv. fst kv \<noteq> ip) hosts) h = (if h = ip then None else map_of hosts h)"
  by (induction hosts) auto

lemma remove_hosts_loop_map:
  "map_of (fst (remove_hosts_loop p ips hosts)) h =
     (if h \<in> set ips \<and> map_of hosts h = Some p then None else map_of hosts h)"
proof (induction p ips hosts rule: remove_hosts_loop.induct)
  case (2 p ip ips hosts)
  consider "map_of hosts ip = None" | v where "map_of hosts ip = Some v" "v \<noteq> p"
    | "map_of hosts ip = Some p" by fastforce
  then show ?case
  proof cases
    case 1
    then show ?thesis using 2(1) by auto
  next
    case 2
    then show ?thesis using "2.IH"(2) by auto
  next
    case 3
    then show ?thesis using "2.IH"(3) by (simp add: case_prod_unfold Let_def map_of_filter_key)
  qed
qed simp

lemma remove_hosts_loop_gone:
  "x \<in> set (snd (remove_hosts_loop p ips hosts)) \<longleftrightarrow> x \<in> set ips \<and> map_of hosts x = Some p"
  by (induction p ips hosts rule: remove_hosts_loop.induct)
     (auto simp add: case_prod_unfold Let_def map_of_filter_key
       split: option.split)

lemma remove_hosts_loop_keys:
  "x \<in> set (fst (remove_hosts_loop p ips hosts)) \<Longrightarrow> x \<in> set hosts"
  by (induction p ips hosts rule: remove_hosts_loop.induct)
     (auto simp add: case_prod_unfold Let_def split: option.splits if_splits)

lemma remove_icmp_loop_spec:
  "set (fst (remove_icmp_loop ips icmp)) = set icmp - set ips"
  "set (snd (remove_icmp_loop ips icmp)) = set ips \<inter> set icmp"
  by (induction ips icmp rule: remove_icmp_loop.induct) (auto simp: case_prod_unfold Let_def)

subsection \<open>The operations on the tables\<close>

lemma shell_Exec_ok:
  "script_ok env \<Longrightarrow> c \<noteq> Cmd_status \<Longrightarrow> shell_Exec env c s = (None, s\<lparr>cmds := c # cmds s\<rparr>)"
  by (simp add: shell_Exec_def script_ok_def)

lemma join_nonempty: "[] \<notin> set hs \<Longrightarrow> 0 < length (join_with sep hs) \<longleftrightarrow> hs \<noteq> []"
  by (cases "(sep, hs)" rule: join_with.cases) auto

definition kind_of :: "bool \<Rightarrow> bool \<Rightarrow> exc_kind" where
  "kind_of persistant onlyForICMP =
     (if onlyForICMP then K_icmp else if persistant then K_static else K_dynamic)"

lemma applyAdd_ok:
  "script_ok env \<Longrightarrow> [] \<notin> set hs \<Longrightarrow>
     applyAddHostsToExceptions env hs p i s =
       (None, if hs = [] then s else s\<lparr>cmds := Cmd_add (kind_of p i) hs # cmds s\<rparr>)"
  by (simp add: applyAddHostsToExceptions_def join_nonempty shell_Exec_ok kind_of_def
      del: length_greater_0_conv)

lemma applyRemove_ok:
  "script_ok env \<Longrightarrow> [] \<notin> set hs \<Longrightarrow>
     applyRemoveHostsFromExceptions env hs p i s =
       (None, if hs = [] then s else s\<lparr>cmds := Cmd_remove (kind_of p i) hs # cmds s\<rparr>)"
  by (simp add: applyRemoveHostsFromExceptions_def join_nonempty shell_Exec_ok kind_of_def
      del: length_greater_0_conv)


lemma sc_step_add_Nil [simp]: "sc_step (Cmd_add k []) sc = sc"
  and sc_step_remove_Nil [simp]: "sc_step (Cmd_remove k []) sc = sc"
  by simp_all

text \<open>The effect of the two operations on the tables and, through the log, on the script.\<close>

lemma add_effect:
  assumes ok: "script_ok env" and h: "[] \<notin> set hs"
    and r: "addHostsToExceptions env hs p i s = (e, s')"
  shows "e = None"
    and "allowedHosts s' = (if i then allowedHosts s else fst (add_hosts_loop p hs (allowedHosts s)))"
    and "allowedForICMP s' = (if i then fst (add_icmp_loop hs (allowedForICMP s)) else allowedForICMP s)"
    and "applied s' = sc_step (Cmd_add (kind_of p i)
           (if i then snd (add_icmp_loop hs (allowedForICMP s))
            else snd (add_hosts_loop p hs (allowedHosts s)))) (applied s)"
    and "s'\<lparr>allowedHosts := allowedHosts s, allowedForICMP := allowedForICMP s, cmds := cmds s\<rparr> = s"
proof -
  have ne: "[] \<notin> set (snd (add_hosts_loop p hs (allowedHosts s)))"
    "[] \<notin> set (snd (add_icmp_loop hs (allowedForICMP s)))"
    using h by (auto simp: add_hosts_loop_new add_icmp_loop_spec)
  note defs = addHostsToExceptions_def case_prod_unfold Let_def applyAdd_ok [OF ok]
  show "e = None" "allowedHosts s' = (if i then allowedHosts s else fst (add_hosts_loop p hs (allowedHosts s)))"
    "allowedForICMP s' = (if i then fst (add_icmp_loop hs (allowedForICMP s)) else allowedForICMP s)"
    "s'\<lparr>allowedHosts := allowedHosts s, allowedForICMP := allowedForICMP s, cmds := cmds s\<rparr> = s"
    "applied s' = sc_step (Cmd_add (kind_of p i)
           (if i then snd (add_icmp_loop hs (allowedForICMP s))
            else snd (add_hosts_loop p hs (allowedHosts s)))) (applied s)"
    using ne r by (auto simp add: defs simp del: sc_step.simps(4) split: if_splits)
qed

lemma remove_effect:
  assumes ok: "script_ok env" and h: "[] \<notin> fst ` set (allowedHosts s)" "[] \<notin> set (allowedForICMP s)"
    and r: "removeHostsFromExceptions env hs p i s = (e, s')"
  shows "e = None"
    and "allowedHosts s' =
           (if i then allowedHosts s else fst (remove_hosts_loop p hs (allowedHosts s)))"
    and "allowedForICMP s' =
           (if i then fst (remove_icmp_loop hs (allowedForICMP s)) else allowedForICMP s)"
    and "applied s' = sc_step (Cmd_remove (kind_of p i)
           (if i then snd (remove_icmp_loop hs (allowedForICMP s))
            else snd (remove_hosts_loop p hs (allowedHosts s)))) (applied s)"
    and "s'\<lparr>allowedHosts := allowedHosts s, allowedForICMP := allowedForICMP s, cmds := cmds s\<rparr> = s"
proof -
  have ne: "[] \<notin> set (snd (remove_hosts_loop p hs (allowedHosts s)))"
    "[] \<notin> set (snd (remove_icmp_loop hs (allowedForICMP s)))"
    using h by (auto simp: remove_hosts_loop_gone remove_icmp_loop_spec map_of_Some_key)
  note defs = removeHostsFromExceptions_def case_prod_unfold Let_def applyRemove_ok [OF ok]
  show "e = None" "allowedHosts s' =
           (if i then allowedHosts s else fst (remove_hosts_loop p hs (allowedHosts s)))"
    "allowedForICMP s' =
           (if i then fst (remove_icmp_loop hs (allowedForICMP s)) else allowedForICMP s)"
    "s'\<lparr>allowedHosts := allowedHosts s, allowedForICMP := allowedForICMP s, cmds := cmds s\<rparr> = s"
    "applied s' = sc_step (Cmd_remove (kind_of p i)
           (if i then snd (remove_icmp_loop hs (allowedForICMP s))
            else snd (remove_hosts_loop p hs (allowedHosts s)))) (applied s)"
    using ne r by (auto simp add: defs simp del: sc_step.simps(5) split: if_splits)
qed

lemma table_frame:
  assumes "s'\<lparr>allowedHosts := allowedHosts s, allowedForICMP := allowedForICMP s, cmds := cmds s\<rparr> = s"
  shows "curStateEnabled s' = curStateEnabled s" "curAllowedLanIPs s' = curAllowedLanIPs s"
    "isPersistant s' = isPersistant s" "userExceptions s' = userExceptions s"
    "dnsConfig s' = dnsConfig s" "curStateAllowLAN s' = curStateAllowLAN s"
    "curStateAllowLanMulticast s' = curStateAllowLanMulticast s"
    "connectedClientInterfaceIP s' = connectedClientInterfaceIP s"
    "stateAllowLan s' = stateAllowLan s"
  using assms by (cases s; cases s'; simp)+

lemma add_hosts_table:
  assumes "script_ok env" "[] \<notin> set hs" "addHostsToExceptions env hs p i s = (e, s')"
  shows "hosts_of q s' = (if \<not> i \<and> q = p then hosts_of p s \<union> (set hs - hosts_of (\<not> p) s) else hosts_of q s)"
    and "set (allowedForICMP s') = (if i then set (allowedForICMP s) \<union> set hs else set (allowedForICMP s))"
    and "sc_on (applied s') = sc_on (applied s)"
    and "sc_rules (applied s') k =
           (if k = kind_of p i \<and> (k = K_dynamic \<longrightarrow> sc_on (applied s))
            then sc_rules (applied s) k \<union> (if i then set hs - set (allowedForICMP s)
                   else {h \<in> set hs. map_of (allowedHosts s) h = None})
            else sc_rules (applied s) k)"
    and "fst ` set (allowedHosts s') = (if i then fst ` set (allowedHosts s)
           else fst ` set (allowedHosts s) \<union> set hs)"
  using add_effect [OF assms]
  by (auto simp: hosts_of_def add_hosts_loop_map add_hosts_loop_new add_icmp_loop_spec
      add_hosts_loop_keys kind_of_def split: if_splits)

lemma remove_hosts_table:
  assumes "script_ok env" "[] \<notin> fst ` set (allowedHosts s)" "[] \<notin> set (allowedForICMP s)"
    "removeHostsFromExceptions env hs p i s = (e, s')"
  shows "hosts_of q s' = (if \<not> i \<and> q = p then hosts_of p s - set hs else hosts_of q s)"
    and "set (allowedForICMP s') = (if i then set (allowedForICMP s) - set hs else set (allowedForICMP s))"
    and "sc_on (applied s') = sc_on (applied s)"
    and "sc_rules (applied s') k =
           (if k = kind_of p i
            then sc_rules (applied s) k - (if i then set hs \<inter> set (allowedForICMP s)
                   else set hs \<inter> hosts_of p s)
            else sc_rules (applied s) k)"
    and "fst ` set (allowedHosts s') \<subseteq> fst ` set (allowedHosts s)"
  using remove_effect [OF assms]
  by (auto simp: hosts_of_def remove_hosts_loop_map remove_hosts_loop_gone remove_icmp_loop_spec
      kind_of_def split: if_splits dest: remove_hosts_loop_keys)

lemma hosts_of_disjoint: "hosts_of True s \<inter> hosts_of False s = {}"
  by (auto simp: hosts_of_def)

lemma hosts_of_None: "map_of (allowedHosts s) h = None \<longleftrightarrow> h \<notin> hosts_of True s \<and> h \<notin> hosts_of False s"
  by (cases "map_of (allowedHosts s) h") (auto simp: hosts_of_def)

lemma add_keeps:
  assumes "script_ok env" "[] \<notin> set hs" "addHostsToExceptions env hs p i s = (e, s')" "fw_weak s"
  shows "fw_weak s'" and "fw_sync s \<Longrightarrow> fw_sync s'"
proof -
  note eff = add_hosts_table [OF assms(1-3)] table_frame [OF add_effect(5) [OF assms(1-3)]]
  show w: "fw_weak s'"
    using assms(2,4) hosts_of_disjoint [of s]
    by (cases i; cases p) (auto simp: fw_weak_def eff kind_of_def hosts_of_None)
  show "fw_sync s'" if "fw_sync s"
    using that w hosts_of_disjoint [of s]
    by (cases i; cases p) (auto simp: fw_sync_def fw_weak_def eff kind_of_def hosts_of_None)
qed

lemma remove_keeps:
  assumes "script_ok env" "removeHostsFromExceptions env hs p i s = (e, s')" "fw_weak s"
  shows "fw_weak s'" and "fw_sync s \<Longrightarrow> fw_sync s'"
proof -
  have ne: "[] \<notin> fst ` set (allowedHosts s)" "[] \<notin> set (allowedForICMP s)"
    using assms(3) by (auto simp: fw_weak_def)
  note eff = remove_hosts_table [OF assms(1) ne assms(2)]
    table_frame [OF remove_effect(5) [OF assms(1) ne assms(2)]]
  have keys: "[] \<notin> fst ` set (allowedHosts s')" using ne eff(5) by blast
  show w: "fw_weak s'"
    using assms(3) hosts_of_disjoint [of s] keys
    by (cases i; cases p) (auto simp: fw_weak_def eff kind_of_def)
  show "fw_sync s'" if "fw_sync s"
    using that w hosts_of_disjoint [of s]
    by (cases i; cases p) (auto simp: fw_sync_def fw_weak_def eff kind_of_def)
qed

subsection \<open>Every operation keeps the tables and the script in step\<close>

lemma fw_weak_upd [simp]:
  "fw_weak (s\<lparr>curStateAllowLAN := b\<rparr>) = fw_weak s"
  "fw_weak (s\<lparr>curStateAllowLanMulticast := b\<rparr>) = fw_weak s"
  "fw_weak (s\<lparr>stateAllowLan := b\<rparr>) = fw_weak s"
  "fw_weak (s\<lparr>stateAllowLanMulticast := b\<rparr>) = fw_weak s"
  "fw_weak (s\<lparr>isPersistant := b\<rparr>) = fw_weak s"
  "fw_weak (s\<lparr>isClientPaused := b\<rparr>) = fw_weak s"
  "fw_weak (s\<lparr>dnsConfig := d\<rparr>) = fw_weak s"
  "fw_weak (s\<lparr>userExceptions := u\<rparr>) = fw_weak s"
  "fw_weak (s\<lparr>connectedClientInterfaceIP := a\<rparr>) = fw_weak s"
  "fw_weak (s\<lparr>connectedClientInterfaceIPv6 := a\<rparr>) = fw_weak s"
  "fw_weak (s\<lparr>connectedClientPort := n\<rparr>) = fw_weak s"
  "fw_weak (s\<lparr>connectedHostIP := a\<rparr>) = fw_weak s"
  "fw_weak (s\<lparr>connectedHostPort := n\<rparr>) = fw_weak s"
  "fw_weak (s\<lparr>connectedIsTCP := b\<rparr>) = fw_weak s"
  by (simp_all add: fw_weak_def hosts_of_def)

lemma fw_sync_upd [simp]:
  "fw_sync (s\<lparr>curStateAllowLAN := b\<rparr>) = fw_sync s"
  "fw_sync (s\<lparr>curStateAllowLanMulticast := b\<rparr>) = fw_sync s"
  "fw_sync (s\<lparr>stateAllowLan := b\<rparr>) = fw_sync s"
  "fw_sync (s\<lparr>stateAllowLanMulticast := b\<rparr>) = fw_sync s"
  "fw_sync (s\<lparr>isPersistant := b\<rparr>) = fw_sync s"
  "fw_sync (s\<lparr>isClientPaused := b\<rparr>) = fw_sync s"
  "fw_sync (s\<lparr>dnsConfig := d\<rparr>) = fw_sync s"
  "fw_sync (s\<lparr>userExceptions := u\<rparr>) = fw_sync s"
  "fw_sync (s\<lparr>connectedClientInterfaceIP := a\<rparr>) = fw_sync s"
  "fw_sync (s\<lparr>connectedClientInterfaceIPv6 := a\<rparr>) = fw_sync s"
  "fw_sync (s\<lparr>connectedClientPort := n\<rparr>) = fw_sync s"
  "fw_sync (s\<lparr>connectedHostIP := a\<rparr>) = fw_sync s"
  "fw_sync (s\<lparr>connectedHostPort := n\<rparr>) = fw_sync s"
  "fw_sync (s\<lparr>connectedIsTCP := b\<rparr>) = fw_sync s"
  by (simp_all add: fw_sync_def hosts_of_def)

lemma fw_lan_upd:
  "[] \<notin> set l \<Longrightarrow> fw_weak s \<Longrightarrow> fw_weak (s\<lparr>curAllowedLanIPs := l\<rparr>)"
  "[] \<notin> set l \<Longrightarrow> fw_sync s \<Longrightarrow> fw_sync (s\<lparr>curAllowedLanIPs := l\<rparr>)"
  by (simp_all add: fw_sync_def fw_weak_def hosts_of_def)

text \<open>A command that leaves the exception chains alone.\<close>

definition neutral :: "fw_cmd \<Rightarrow> bool" where "neutral c \<longleftrightarrow> (\<forall>sc. sc_step c sc = sc)"

lemma neutral_simps [simp]:
  "neutral Cmd_status" "neutral (Cmd_connected a b c d e f)" "neutral (Cmd_set_dns l)"
  "neutral (Cmd_user_exceptions v ms)" "neutral (Cmd_only_dns l ms)" "neutral Cmd_only_dns_off"
  by (simp_all add: neutral_def)

lemma neutral_keeps [simp]:
  "neutral c \<Longrightarrow> fw_weak (s\<lparr>cmds := c # cmds s\<rparr>) = fw_weak s"
  "neutral c \<Longrightarrow> fw_sync (s\<lparr>cmds := c # cmds s\<rparr>) = fw_sync s"
  by (simp_all add: neutral_def fw_weak_def fw_sync_def hosts_of_def)

lemma exec_keeps:
  assumes "neutral c" "shell_Exec env c s = (e, s')"
  shows "fw_weak s' = fw_weak s" "fw_sync s' = fw_sync s" "curStateEnabled s' = curStateEnabled s"
    "allowedHosts s' = allowedHosts s" "allowedForICMP s' = allowedForICMP s"
  using assms neutral_keeps [OF assms(1), of s] by (auto simp: shell_Exec_def)

lemma lan_hosts_not_Nil [simp]: "[] \<notin> set (lan_hosts m)"
  by (auto simp: lan_hosts_def ipNetListToStrings_def Let_def ip_net_string_not_Nil [symmetric])

lemma doAllowLAN_keeps:
  assumes ok: "script_ok env" and w: "fw_weak s"
  shows "fw_weak (snd (doAllowLAN env a m s))"
    and "fw_sync s \<Longrightarrow> fw_sync (snd (doAllowLAN env a m s))"
proof -
  let ?s1 = "s\<lparr>curStateAllowLAN := a, curStateAllowLanMulticast := m\<rparr>"
  let ?s2 = "if length (curAllowedLanIPs ?s1) > 0
             then snd (removeHostsFromExceptions env (curAllowedLanIPs ?s1) True False ?s1) else ?s1"
  let ?s3 = "?s2\<lparr>curAllowedLanIPs := []\<rparr>"
  have w2: "fw_weak ?s2"
    using remove_keeps(1) [OF ok prod.collapse [symmetric], of ?s1] w by simp
  have s2: "fw_sync ?s2" if "fw_sync s"
    using remove_keeps(2) [OF ok prod.collapse [symmetric], of ?s1] w that by simp
  have w3: "fw_weak ?s3" by (rule fw_lan_upd(1) [OF _ w2]) simp
  have s3: "fw_sync ?s3" if "fw_sync s" by (rule fw_lan_upd(2) [OF _ s2 [OF that]]) simp
  let ?s4 = "?s3\<lparr>curAllowedLanIPs := lan_hosts m\<rparr>"
  have w4: "fw_weak ?s4" by (rule fw_lan_upd(1) [OF lan_hosts_not_Nil w3])
  have s4: "fw_sync ?s4" if "fw_sync s"
    by (rule fw_lan_upd(2) [OF lan_hosts_not_Nil s3 [OF that]])
  have e: "doAllowLAN env a m s =
     (if a \<and> \<not> curStateEnabled s then (None, ?s1)
      else if \<not> a then (None, ?s3) else addHostsToExceptions env (lan_hosts m) True False ?s4)"
    by (simp add: doAllowLAN_def Let_def del: length_greater_0_conv)
  show "fw_weak (snd (doAllowLAN env a m s))"
    using e w w3 add_keeps(1) [OF ok _ prod.collapse [symmetric] w4, of "lan_hosts m"]
    by (simp del: length_greater_0_conv)
  show "fw_sync (snd (doAllowLAN env a m s))" if "fw_sync s"
    using e that s3 add_keeps(2) [OF ok _ prod.collapse [symmetric] w4 s4, of "lan_hosts m"]
    by (simp del: length_greater_0_conv)
qed

lemma implOnChangeDNS_keeps:
  "implOnChangeDNS env addr b s = (e, s') \<Longrightarrow> fw_weak s' = fw_weak s"
  "implOnChangeDNS env addr b s = (e, s') \<Longrightarrow> fw_sync s' = fw_sync s"
  "implOnChangeDNS env addr b s = (e, s') \<Longrightarrow> curStateEnabled s' = curStateEnabled s"
  "implOnChangeDNS env addr b s = (e, s') \<Longrightarrow> allowedHosts s' = allowedHosts s"
  "implOnChangeDNS env addr b s = (e, s') \<Longrightarrow> allowedForICMP s' = allowedForICMP s"
  using exec_keeps [of "Cmd_set_dns addr" env s e s']
  by (auto simp: implOnChangeDNS_def split: option.splits)

lemma implOnUserExceptionsUpdated_keeps:
  assumes "implOnUserExceptionsUpdated env s = (e, s')"
  shows "fw_weak s' = fw_weak s" "fw_sync s' = fw_sync s"
proof -
  obtain e1 s1 e2 where 1: "apply_user_exceptions env False s = (e1, s1)"
    and 2: "apply_user_exceptions env True s1 = (e2, s')"
    using assms by (auto simp: implOnUserExceptionsUpdated_def Let_def split: prod.splits if_splits)
  show "fw_weak s' = fw_weak s" "fw_sync s' = fw_sync s"
    using exec_keeps(1,2) [OF _ 1 [unfolded apply_user_exceptions_def]]
      exec_keeps(1,2) [OF _ 2 [unfolded apply_user_exceptions_def]] by simp_all
qed

text \<open>Giving the script a whole table again.\<close>

lemma reapply_table:
  assumes ok: "script_ok env" and w: "fw_weak s" and on: "curStateEnabled s" and ne: "[] \<notin> set hs"
    and hs: "set hs = (if i then set (allowedForICMP s) else hosts_of p s)"
    and r: "applyAddHostsToExceptions env hs p i s = (e, s')"
  shows "e = None" "fw_weak s'" "curStateEnabled s'" "allowedHosts s' = allowedHosts s"
    "allowedForICMP s' = allowedForICMP s"
    "sc_rules (applied s') k =
       (if k = kind_of p i then sc_rules (applied s) k \<union> set hs else sc_rules (applied s) k)"
proof -
  have e: "(e, s') = (None, if hs = [] then s else s\<lparr>cmds := Cmd_add (kind_of p i) hs # cmds s\<rparr>)"
    using applyAdd_ok [OF ok ne] r by simp
  then show "e = None" "curStateEnabled s'" "allowedHosts s' = allowedHosts s"
    "allowedForICMP s' = allowedForICMP s"
    using on by (auto split: if_splits)
  have on': "sc_on (applied s)" using w on by (simp add: fw_weak_def)
  show rules: "sc_rules (applied s') k =
       (if k = kind_of p i then sc_rules (applied s) k \<union> set hs else sc_rules (applied s) k)" for k
    using e on' by (auto split: if_splits)
  have h: "hosts_of q s' = hosts_of q s" for q using e by (simp add: hosts_of_def)
  have on2: "sc_on (applied s')" using e on' by (auto split: if_splits)
  have l: "curAllowedLanIPs s' = curAllowedLanIPs s" using e by simp
  show "fw_weak s'"
    using w hs on on2 e l unfolding fw_weak_def rules h
    by (cases i; cases p) (auto simp: kind_of_def)
qed

lemma hosts_of_keys: "hosts_of p s \<subseteq> fst ` set (allowedHosts s)"
  by (auto simp: hosts_of_def map_of_Some_key)

lemma getAllowedIpExceptions_sets:
  assumes "script_ok env"
  shows "set (fst (getAllowedIpExceptions env s)) = hosts_of False s"
    and "set (snd (getAllowedIpExceptions env s)) = hosts_of True s"
proof -
  have k: "set (map_order env ks) = set ks" for ks using assms by (simp add: script_ok_def)
  show "set (fst (getAllowedIpExceptions env s)) = hosts_of False s"
    "set (snd (getAllowedIpExceptions env s)) = hosts_of True s"
    using hosts_of_keys [of False s] hosts_of_keys [of True s]
    by (auto simp: getAllowedIpExceptions_def Let_def k hosts_of_def)
qed

lemma reApply_sync:
  assumes ok: "script_ok env" and w: "fw_weak s" and on: "curStateEnabled s"
  shows "fw_sync (snd (reApplyExceptions env s))"
proof -
  obtain ips pers where g: "getAllowedIpExceptions env s = (ips, pers)" by fastforce
  define icmp where "icmp = map_order env (allowedForICMP s)"
  have sets: "set ips = hosts_of False s" "set pers = hosts_of True s" "set icmp = set (allowedForICMP s)"
    using getAllowedIpExceptions_sets [OF ok, of s] g ok by (simp_all add: icmp_def script_ok_def)
  have nes: "[] \<notin> fst ` set (allowedHosts s)" "[] \<notin> set (allowedForICMP s)"
    using w by (simp_all add: fw_weak_def)
  have ne: "[] \<notin> set ips" "[] \<notin> set pers" "[] \<notin> set icmp"
    using sets nes hosts_of_keys [of False s] hosts_of_keys [of True s] by blast+
  obtain d dn where da: "getDnsIpAddresses s = (d, dn)" by fastforce
  obtain e1 s1 where 1: "implOnChangeDNS env d dn s = (e1, s1)" by fastforce
  note k1 = implOnChangeDNS_keeps [OF 1]
  have w1: "fw_weak s1" and on1: "curStateEnabled s1" using k1 w on by simp_all
  obtain e2 s2 where 2: "applyAddHostsToExceptions env icmp False True s1 = (e2, s2)" by fastforce
  note k2 = reapply_table [OF ok w1 on1 ne(3) _ 2]
  have w2: "fw_weak s2" and on2: "curStateEnabled s2" and h2: "allowedHosts s2 = allowedHosts s"
    using k2 k1 sets by simp_all
  obtain e3 s3 where 3: "applyAddHostsToExceptions env ips False False s2 = (e3, s3)" by fastforce
  have h2': "hosts_of p s2 = hosts_of p s" for p using h2 by (simp add: hosts_of_def)
  note k3 = reapply_table [OF ok w2 on2 ne(1) _ 3]
  have w3: "fw_weak s3" and on3: "curStateEnabled s3" and h3: "allowedHosts s3 = allowedHosts s"
    and e3: "e3 = None" and dyn3: "hosts_of False s \<subseteq> sc_rules (applied s3) K_dynamic"
    and i3: "sc_rules (applied s3) K_icmp = sc_rules (applied s2) K_icmp"
      "set (allowedForICMP s3) = set (allowedForICMP s)"
    using k3 h2 h2' sets k2(5) k1(5) by (simp_all add: kind_of_def)
  obtain e4 s4 where 4: "applyAddHostsToExceptions env pers True False s3 = (e4, s4)" by fastforce
  have h3': "hosts_of p s3 = hosts_of p s" for p using h3 by (simp add: hosts_of_def)
  note k4 = reapply_table [OF ok w3 on3 ne(2) _ 4]
  have w4: "fw_weak s4" and h4: "hosts_of p s4 = hosts_of p s" for p
    using k4 h3 h3' sets by (simp_all add: hosts_of_def)
  have "hosts_of False s \<subseteq> sc_rules (applied s4) K_dynamic"
    "hosts_of True s \<subseteq> sc_rules (applied s4) K_static"
    using k4(6) dyn3 h3' sets by (auto simp: kind_of_def)
  moreover have "set (allowedForICMP s4) \<subseteq> sc_rules (applied s4) K_icmp"
    using k4(5,6) i3 k2(6) sets k1(5) h3' by (simp add: kind_of_def)
  ultimately have s4: "fw_sync s4" using w4 by (auto simp: fw_sync_def fw_weak_def h4)
  obtain e5 s5 where 5: "implAllowLAN env (curStateAllowLAN s4) (curStateAllowLanMulticast s4) s4 = (e5, s5)"
    by fastforce
  have s5: "fw_sync s5" using doAllowLAN_keeps(2) [OF ok w4 s4] 5 by (metis implAllowLAN_def snd_conv)
  have "snd (reApplyExceptions env s) = snd (implOnUserExceptionsUpdated env s5)"
    by (simp add: reApplyExceptions_def g da icmp_def [symmetric] 1 2 3 4 5 e3)
  then show ?thesis using implOnUserExceptionsUpdated_keeps(2) [OF prod.collapse [symmetric]] s5
    by metis
qed

lemma fw_sync_weak: "fw_sync s \<Longrightarrow> fw_weak s"
  by (simp add: fw_sync_def)

lemma enable_weak:
  "fw_weak s \<Longrightarrow> fw_weak (s\<lparr>curStateEnabled := True, cmds := Cmd_enable # cmds s\<rparr>)"
  by (auto simp: fw_weak_def hosts_of_def)

text \<open>Somebody else has run the script with \<open>-disable\<close> since: the same holds.\<close>

lemma enable_weak_after_disable:
  "fw_weak s \<Longrightarrow> fw_weak (s\<lparr>curStateEnabled := True, cmds := Cmd_enable # Cmd_disable # cmds s\<rparr>)"
  by (auto simp: fw_weak_def hosts_of_def)

lemma disable_sync:
  "fw_weak s \<Longrightarrow> fw_sync (s\<lparr>curStateEnabled := False, curAllowedLanIPs := [], isPersistant := False,
     allowedForICMP := [], cmds := Cmd_disable # cmds s\<rparr>)"
  by (auto simp: fw_weak_def fw_sync_def hosts_of_def)

lemma implSetEnabled_sync:
  assumes ok: "script_ok env" and w: "fw_weak s"
  shows "fw_sync (snd (implSetEnabled env b s))"
proof (cases b)
  case True
  then have "implSetEnabled env b s =
      reApplyExceptions env (s\<lparr>curStateEnabled := True, cmds := Cmd_enable # cmds s\<rparr>)"
    by (simp add: implSetEnabled_def shell_Exec_ok [OF ok])
  then show ?thesis using reApply_sync [OF ok enable_weak [OF w]] by simp
next
  case False
  then have "snd (implSetEnabled env b s) = s\<lparr>curStateEnabled := False, curAllowedLanIPs := [],
      isPersistant := False, allowedForICMP := [], cmds := Cmd_disable # cmds s\<rparr>"
    by (simp add: implSetEnabled_def shell_Exec_ok [OF ok])
  then show ?thesis using disable_sync [OF w] by simp
qed

lemma implClientConnected_sync:
  assumes ok: "script_ok env" and s: "fw_sync s"
  shows "fw_sync (snd (implClientConnected env a b p d q t s))"
proof (cases "InterfaceByIPAddr (fw_interfaces env) a")
  case (Inr ifc)
  let ?c = "Cmd_connected (if_name ifc) a p d q t"
  have "fw_sync (s\<lparr>cmds := ?c # cmds s\<rparr>)" using s by simp
  then show ?thesis
    using Inr remove_keeps(2) [OF ok prod.collapse [symmetric] fw_sync_weak]
    by (simp add: implClientConnected_def shell_Exec_ok [OF ok])
qed (simp add: implClientConnected_def s)

lemma implClientDisconnected_sync:
  assumes ok: "script_ok env" and s: "fw_sync s"
  shows "fw_sync (snd (implClientDisconnected env s))"
proof -
  let ?keys = "map_order env (map fst (allowedHosts s))"
  obtain e s1 where r: "removeHostsFromExceptions env ?keys False False s = (e, s1)" by fastforce
  have w: "fw_weak s1" by (rule remove_keeps(1) [OF ok r fw_sync_weak [OF s]])
  have s1: "fw_sync s1" by (rule remove_keeps(2) [OF ok r fw_sync_weak [OF s] s])
  have ne: "[] \<notin> fst ` set (allowedHosts s)" "[] \<notin> set (allowedForICMP s)"
    using s by (simp_all add: fw_sync_def fw_weak_def)
  have "set ?keys = fst ` set (allowedHosts s)" using ok by (simp add: script_ok_def)
  then have "hosts_of False s1 = {}"
    using remove_hosts_table(1) [OF ok ne r] hosts_of_keys [of False s] by auto
  then have "fw_sync (s1\<lparr>cmds := Cmd_disconnected # cmds s1\<rparr>)"
    using s1 by (auto simp: fw_sync_def fw_weak_def hosts_of_def)
  then show ?thesis
    by (simp add: implClientDisconnected_def removeAllHostsFromExceptions_def r shell_Exec_ok [OF ok])
qed

lemma implGetEnabled_sync:
  "fw_sync (snd (implGetEnabled env s)) = fw_sync s"
  by (auto simp: implGetEnabled_def shell_Exec_def split: option.splits sum.splits)

text \<open>The operations of the package (and one round of its background check).\<close>

datatype fw_op =
    Op_SetEnabled bool
  | Op_SetPersistant bool
  | Op_GetEnabled
  | Op_SingleDnsRuleOn "net_ip list"
  | Op_SingleDnsRuleOff
  | Op_ClientPaused
  | Op_ClientResumed
  | Op_ClientConnected net_ip net_ip int net_ip int bool
  | Op_ClientDisconnected
  | Op_AddHosts "net_ip list" bool bool
  | Op_RemoveHosts "net_ip list" bool bool
  | Op_AllowLAN bool bool
  | Op_OnChangeDNS "DnsSettings option"
  | Op_SetUserExceptions string bool
  | Op_EnsureRound

fun fw_step :: "fw_env \<Rightarrow> fw_op \<Rightarrow> fw \<Rightarrow> fw" where
  "fw_step env (Op_SetEnabled b) s = snd (fw_SetEnabled env b s)"
| "fw_step env (Op_SetPersistant b) s = snd (fw_SetPersistant env b s)"
| "fw_step env Op_GetEnabled s = snd (fw_GetEnabled env s)"
| "fw_step env (Op_SingleDnsRuleOn a) s = snd (fw_SingleDnsRuleOn env a s)"
| "fw_step env Op_SingleDnsRuleOff s = snd (fw_SingleDnsRuleOff env s)"
| "fw_step env Op_ClientPaused s = ClientPaused s"
| "fw_step env Op_ClientResumed s = ClientResumed s"
| "fw_step env (Op_ClientConnected a b p d q t) s = snd (ClientConnected env a b p d q t s)"
| "fw_step env Op_ClientDisconnected s = snd (ClientDisconnected env s)"
| "fw_step env (Op_AddHosts ips i p) s = snd (fw_AddHostsToExceptions env ips i p s)"
| "fw_step env (Op_RemoveHosts ips i p) s = snd (fw_RemoveHostsFromExceptions env ips i p s)"
| "fw_step env (Op_AllowLAN a m) s = snd (fw_AllowLAN env a m s)"
| "fw_step env (Op_OnChangeDNS d) s = snd (OnChangeDNS env d s)"
| "fw_step env (Op_SetUserExceptions x b) s = snd (SetUserExceptions env x b s)"
| "fw_step env Op_EnsureRound s = snd (ensure_round env s)"

lemma SetEnabled_sync:
  assumes "script_ok env" "fw_sync s"
  shows "fw_sync (snd (fw_SetEnabled env b s))"
proof -
  have "fw_sync (snd (implSetEnabled env b s))"
    using assms by (simp add: implSetEnabled_sync fw_sync_weak)
  then show ?thesis using implClientConnected_sync [OF assms(1)]
    by (auto simp: fw_SetEnabled_def case_prod_unfold Let_def split: option.split)
qed

lemma OnChangeDNS_sync:
  assumes "fw_sync s"
  shows "fw_sync (snd (OnChangeDNS env d s))"
  using assms implOnChangeDNS_keeps(2) [OF prod.collapse [symmetric]]
  by (simp add: OnChangeDNS_def Let_def case_prod_unfold)

lemma ensure_round_sync:
  assumes "script_ok env" "fw_sync s"
  shows "fw_sync (snd (ensure_round env s))"
proof -
  have "fw_sync (snd (implGetEnabled env s))" using assms by (simp add: implGetEnabled_sync)
  then show ?thesis using assms implSetEnabled_sync [OF assms(1) fw_sync_weak]
    by (simp add: ensure_round_def case_prod_unfold Let_def)
qed

lemma step_sync:
  assumes ok: "script_ok env" and s: "fw_sync s"
  shows "fw_sync (fw_step env op s)"
proof (cases op)
  case (Op_SetPersistant b)
  then show ?thesis using s implSetEnabled_sync [OF ok, of "s\<lparr>isPersistant := True\<rparr>" True]
    by (simp add: fw_SetPersistant_def implSetPersistant_def Let_def case_prod_unfold fw_sync_weak)
next
  case (Op_ClientConnected a b p d q t)
  then show ?thesis using s implClientConnected_sync [OF ok]
    by (simp add: ClientConnected_def ClientResumed_def)
next
  case Op_ClientDisconnected
  then show ?thesis using s implClientDisconnected_sync [OF ok]
    by (simp add: ClientDisconnected_def ClientResumed_def Let_def)
next
  case (Op_AddHosts ips i p)
  have "[] \<notin> set (map ip_string l)" for l
    using ip_string_not_Nil by (metis ex_map_conv)
  then show ?thesis using Op_AddHosts s add_keeps(2) [OF ok _ prod.collapse [symmetric] fw_sync_weak]
    by (simp del: set_map add: fw_AddHostsToExceptions_def implAddHostsToExceptions_def)
next
  case (Op_RemoveHosts ips i p)
  then show ?thesis using s remove_keeps(2) [OF ok prod.collapse [symmetric] fw_sync_weak]
    by (simp add: fw_RemoveHostsFromExceptions_def implRemoveHostsFromExceptions_def)
next
  case (Op_AllowLAN a m)
  then show ?thesis using s doAllowLAN_keeps(2) [OF ok fw_sync_weak]
    by (simp add: fw_AllowLAN_def implAllowLAN_def)
next
  case (Op_SetUserExceptions x b)
  then show ?thesis
    using s implOnUserExceptionsUpdated_keeps(2) [OF prod.collapse [symmetric]]
    by (simp add: SetUserExceptions_def case_prod_unfold Let_def)
qed (use s SetEnabled_sync [OF ok s] OnChangeDNS_sync [OF s] ensure_round_sync [OF ok s] in
  \<open>simp_all add: fw_GetEnabled_def implGetEnabled_sync fw_SingleDnsRuleOn_def implSingleDnsRuleOn_def
     fw_SingleDnsRuleOff_def implSingleDnsRuleOff_def ClientPaused_def ClientResumed_def shell_Exec_def\<close>)

interpretation fw_machine: safe_machine "fw_step env" "\<lambda>s. script_ok env \<longrightarrow> fw_sync s" for env
  by unfold_locales (use step_sync in blast)

lemma fw_init_sync [simp]: "fw_sync fw_init"
  by (simp add: fw_init_def fw_sync_def fw_weak_def hosts_of_def sc_init_def)

lemma fw_run_sync: "script_ok env \<Longrightarrow> fw_sync (fold (fw_step env) ops fw_init)"
  using fw_machine.run_inv [of env fw_init ops] by simp

subsection \<open>What the firewall lets through\<close>


definition sample_env :: fw_env where
  "sample_env = \<lparr>sh_exec = (\<lambda>_ _. None), sh_exit_code = (\<lambda>_. Inr 1),
     fw_interfaces = Inr [sample_if], map_order = (\<lambda>ks. ks)\<rparr>"

lemma sample_env_ok [simp]: "script_ok sample_env"
  by (simp add: script_ok_def sample_env_def)


lemma removeAll_effect:
  assumes "script_ok env" "fw_sync s"
  shows "hosts_of False (snd (removeAllHostsFromExceptions env s)) = {}"
    and "hosts_of True (snd (removeAllHostsFromExceptions env s)) = hosts_of True s"
    and "curStateEnabled (snd (removeAllHostsFromExceptions env s)) = curStateEnabled s"
proof -
  let ?keys = "map_order env (map fst (allowedHosts s))"
  obtain e s1 where r: "removeHostsFromExceptions env ?keys False False s = (e, s1)" by fastforce
  have ne: "[] \<notin> fst ` set (allowedHosts s)" "[] \<notin> set (allowedForICMP s)"
    using assms by (simp_all add: fw_sync_def fw_weak_def)
  have k: "set ?keys = fst ` set (allowedHosts s)" using assms(1) by (simp add: script_ok_def)
  show "hosts_of False (snd (removeAllHostsFromExceptions env s)) = {}"
    "hosts_of True (snd (removeAllHostsFromExceptions env s)) = hosts_of True s"
    "curStateEnabled (snd (removeAllHostsFromExceptions env s)) = curStateEnabled s"
    using remove_hosts_table(1) [OF assms(1) ne r] hosts_of_keys [of False s] k
      table_frame(1) [OF remove_effect(5) [OF assms(1) ne r]]
    by (auto simp: removeAllHostsFromExceptions_def r)
qed

text \<open>
  After a disconnection no host added for the connection is let through any more,
  while every persistent exception stays as it was.
\<close>

theorem fw_disconnect_keeps_persistent:
  assumes "script_ok env" and "fw_sync s" and "connectedClientInterfaceIP s \<noteq> []"
  shows "let s' = snd (ClientDisconnected env s) in
     (\<forall>h. map_of (allowedHosts s') h \<noteq> Some False)
     \<and> sc_rules (sc_run (cmds s')) K_dynamic = {}
     \<and> (\<forall>h. map_of (allowedHosts s') h = Some True \<longleftrightarrow> map_of (allowedHosts s) h = Some True)
     \<and> sc_rules (sc_run (cmds s')) K_static = sc_rules (sc_run (cmds s)) K_static
     \<and> connectedClientInterfaceIP s' = [] \<and> \<not> isClientPaused s'"
proof -
  let ?s0 = "s\<lparr>isClientPaused := False, connectedClientInterfaceIP := [],
               connectedClientInterfaceIPv6 := []\<rparr>"
  have s0: "fw_sync ?s0" using assms(2) by simp
  obtain e s1 where r: "removeHostsFromExceptions env (map_order env (map fst (allowedHosts ?s0)))
      False False ?s0 = (e, s1)" by fastforce
  have ne: "[] \<notin> fst ` set (allowedHosts ?s0)" "[] \<notin> set (allowedForICMP ?s0)"
    using s0 by (simp_all add: fw_sync_def fw_weak_def)
  have e: "snd (ClientDisconnected env s) = s1\<lparr>cmds := Cmd_disconnected # cmds s1\<rparr>"
    using assms(3) r by (simp add: ClientDisconnected_def ClientResumed_def implClientDisconnected_def
        removeAllHostsFromExceptions_def shell_Exec_ok [OF assms(1)])
  have h: "hosts_of False s1 = {}" "hosts_of True s1 = hosts_of True s"
    using removeAll_effect(1,2) [OF assms(1) s0] r
    by (simp_all add: removeAllHostsFromExceptions_def hosts_of_def)
  have st: "sc_rules (applied s1) K_static = sc_rules (applied s) K_static"
    using remove_hosts_table(4) [OF assms(1) ne r, of K_static] by (simp add: kind_of_def)
  have s1: "fw_sync s1" by (rule remove_keeps(2) [OF assms(1) r fw_sync_weak [OF s0] s0])
  have f: "connectedClientInterfaceIP s1 = []" "\<not> isClientPaused s1"
    using remove_effect(5) [OF assms(1) ne r] by (cases s1; cases s; simp)+
  have "sc_rules (applied s1) K_dynamic = {}"
    using s1 h(1) by (cases "curStateEnabled s1") (auto simp: fw_sync_def fw_weak_def)
  then show ?thesis
    using h st f by (auto simp: e Let_def hosts_of_def)
qed

text \<open>A firewall that is on, with a connection over \<open>10.0.0.2\<close> and no tables yet.\<close>

definition sample_fw :: fw where
  "sample_fw = fw_init\<lparr>curStateEnabled := True, cmds := [Cmd_enable],
     connectedClientInterfaceIP := [10, 0, 0, 2]\<rparr>"

lemma sample_fw_sync [simp]: "fw_sync sample_fw"
  by (simp add: sample_fw_def fw_sync_def fw_weak_def fw_init_def hosts_of_def sc_init_def)

theorem fw_disconnect_keeps_persistent_witness:
  "sc_rules (sc_run (cmds (snd (ClientDisconnected sample_env sample_fw)))) K_dynamic = {}"
  using fw_disconnect_keeps_persistent [OF sample_env_ok sample_fw_sync]
  by (simp add: sample_fw_def fw_init_def Let_def)

lemma hosts_of_upd [simp]:
  "hosts_of p (s\<lparr>curAllowedLanIPs := l\<rparr>) = hosts_of p s"
  "hosts_of p (s\<lparr>curStateAllowLAN := a\<rparr>) = hosts_of p s"
  "hosts_of p (s\<lparr>curStateAllowLanMulticast := a\<rparr>) = hosts_of p s"
  "hosts_of p (s\<lparr>stateAllowLan := a\<rparr>) = hosts_of p s"
  "hosts_of p (s\<lparr>stateAllowLanMulticast := a\<rparr>) = hosts_of p s"
  by (simp_all add: hosts_of_def)

text \<open>The persistent hosts after the LAN was allowed or forbidden on an enabled firewall.\<close>

lemma doAllowLAN_hosts:
  assumes ok: "script_ok env" and s: "fw_sync s" and on: "curStateEnabled s"
    and r: "doAllowLAN env a m s = (e, s')"
  shows "curStateEnabled s'" and "hosts_of False s' = hosts_of False s"
    and "curAllowedLanIPs s' = (if a then lan_hosts m else [])"
    and "hosts_of True s' = hosts_of True s - set (curAllowedLanIPs s)
           \<union> (if a then set (lan_hosts m) - hosts_of False s else {})"
proof -
  define s1 where "s1 = s\<lparr>curStateAllowLAN := a, curStateAllowLanMulticast := m\<rparr>"
  define s2 where "s2 = (if length (curAllowedLanIPs s1) > 0
             then snd (removeHostsFromExceptions env (curAllowedLanIPs s1) True False s1) else s1)"
  define s4 where "s4 = s2\<lparr>curAllowedLanIPs := lan_hosts m\<rparr>"
  have ne: "[] \<notin> fst ` set (allowedHosts s1)" "[] \<notin> set (allowedForICMP s1)"
    using s by (simp_all add: s1_def fw_sync_def fw_weak_def)
  note eff = remove_hosts_table(1) [OF ok ne prod.collapse [symmetric]]
    table_frame(1) [OF remove_effect(5) [OF ok ne prod.collapse [symmetric]]]
  have h2: "hosts_of False s2 = hosts_of False s"
    "hosts_of True s2 = hosts_of True s - set (curAllowedLanIPs s)" "curStateEnabled s2"
    using eff on by (auto simp: s2_def s1_def)
  have split: "doAllowLAN env a m s = (if \<not> a then (None, s2\<lparr>curAllowedLanIPs := []\<rparr>)
      else addHostsToExceptions env (lan_hosts m) True False s4)"
    using on by (simp add: doAllowLAN_def Let_def s1_def s2_def s4_def del: length_greater_0_conv)
  have "curStateEnabled s' \<and> hosts_of False s' = hosts_of False s
    \<and> curAllowedLanIPs s' = (if a then lan_hosts m else [])
    \<and> hosts_of True s' = hosts_of True s - set (curAllowedLanIPs s)
           \<union> (if a then set (lan_hosts m) - hosts_of False s else {})"
  proof (cases a)
    case True
    then have r2: "addHostsToExceptions env (lan_hosts m) True False s4 = (e, s')"
      using r split by simp
    then show ?thesis
      using add_hosts_table(1) [OF ok lan_hosts_not_Nil r2]
        table_frame(1,2) [OF add_effect(5) [OF ok lan_hosts_not_Nil r2]] h2 True
      by (simp add: s4_def)
  next
    case False
    then show ?thesis using r split h2 by auto
  qed
  then show "curStateEnabled s'" "hosts_of False s' = hosts_of False s"
    "curAllowedLanIPs s' = (if a then lan_hosts m else [])"
    "hosts_of True s' = hosts_of True s - set (curAllowedLanIPs s)
           \<union> (if a then set (lan_hosts m) - hosts_of False s else {})"
    by blast+
qed

lemma static_rules: "fw_sync s \<Longrightarrow> curStateEnabled s \<Longrightarrow> sc_rules (applied s) K_static = hosts_of True s"
  by (simp add: fw_sync_def)

text \<open>
  With the firewall enabled, forbidding the LAN after allowing it removes every LAN
  range from the exceptions in force, and leaves the exceptions that are not LAN ranges
  as they were.
\<close>

theorem fw_lan_off_blocks:
  assumes "script_ok env" and "fw_sync s" and "curStateEnabled s"
  shows "let s1 = snd (fw_AllowLAN env True m s); s2 = snd (fw_AllowLAN env False m' s1) in
     sc_rules (sc_run (cmds s2)) K_static \<inter> set (lan_hosts m) = {}
     \<and> (\<forall>h. h \<notin> set (lan_hosts m) \<longrightarrow> h \<notin> set (curAllowedLanIPs s) \<longrightarrow>
          (h \<in> sc_rules (sc_run (cmds s2)) K_static \<longleftrightarrow> h \<in> sc_rules (sc_run (cmds s)) K_static))
     \<and> curAllowedLanIPs s2 = []"
proof -
  let ?s0 = "s\<lparr>stateAllowLan := True, stateAllowLanMulticast := m\<rparr>"
  obtain e1 s1 where 1: "doAllowLAN env True m ?s0 = (e1, s1)" by fastforce
  let ?s1 = "s1\<lparr>stateAllowLan := False, stateAllowLanMulticast := m'\<rparr>"
  obtain e2 s2 where 2: "doAllowLAN env False m' ?s1 = (e2, s2)" by fastforce
  have s0: "fw_sync ?s0" using assms(2) by simp
  note h1 = doAllowLAN_hosts [OF assms(1) s0 _ 1]
  have s1: "fw_sync ?s1" using doAllowLAN_keeps(2) [OF assms(1) fw_sync_weak [OF s0] s0, of True m] 1
    by simp
  have on1: "curStateEnabled ?s1" using h1(1) assms(3) by simp
  note h2 = doAllowLAN_hosts [OF assms(1) s1 on1 2]
  have s2: "fw_sync s2" using doAllowLAN_keeps(2) [OF assms(1) fw_sync_weak [OF s1] s1, of False m'] 2
    by simp
  have "hosts_of True s2 = hosts_of True s - set (curAllowedLanIPs s) - set (lan_hosts m)"
    using h1(3,4) h2(4) assms(3) by auto
  moreover have "curAllowedLanIPs s2 = []" using h2(3) by simp
  ultimately show ?thesis
    using static_rules [OF s2 h2(1)] static_rules [OF assms(2,3)]
    by (auto simp: fw_AllowLAN_def implAllowLAN_def Let_def 1 2)
qed

theorem fw_lan_off_blocks_witness:
  "sc_rules (sc_run (cmds (snd (fw_AllowLAN sample_env False False
     (snd (fw_AllowLAN sample_env True False sample_fw)))))) K_static \<inter> set (lan_hosts False) = {}"
  using fw_lan_off_blocks [OF sample_env_ok sample_fw_sync, where m = False and m' = False]
  by (simp add: sample_fw_def Let_def)

text \<open>Operations that only give commands.\<close>

definition only_cmds :: "fw \<Rightarrow> fw \<Rightarrow> bool" where
  "only_cmds s s' \<longleftrightarrow> s'\<lparr>cmds := cmds s\<rparr> = s"

lemma only_cmds_fields:
  assumes "only_cmds s s'"
  shows "allowedHosts s' = allowedHosts s" "allowedForICMP s' = allowedForICMP s"
    "curAllowedLanIPs s' = curAllowedLanIPs s" "curStateAllowLAN s' = curStateAllowLAN s"
    "curStateAllowLanMulticast s' = curStateAllowLanMulticast s"
    "curStateEnabled s' = curStateEnabled s" "stateAllowLan s' = stateAllowLan s"
    "isPersistant s' = isPersistant s" "dnsConfig s' = dnsConfig s"
    "connectedClientInterfaceIP s' = connectedClientInterfaceIP s"
  using assms by (cases s; cases s'; simp add: only_cmds_def)+

lemma only_cmds_refl [simp]: "only_cmds s s"
  by (simp add: only_cmds_def)

lemma only_cmds_trans: "only_cmds s t \<Longrightarrow> only_cmds t u \<Longrightarrow> only_cmds s u"
  by (cases s; cases t; cases u) (simp add: only_cmds_def)

lemma only_cmds_exec [simp]: "only_cmds s (snd (shell_Exec env c s))"
  by (simp add: only_cmds_def shell_Exec_def)

lemma only_cmds_ops [simp]:
  "only_cmds s (snd (implOnChangeDNS env addr b s))"
  "only_cmds s (snd (applyAddHostsToExceptions env hs p i s))"
  "only_cmds s (snd (applyRemoveHostsFromExceptions env hs p i s))"
  "only_cmds s (snd (apply_user_exceptions env v s))"
  by (auto simp: implOnChangeDNS_def applyAddHostsToExceptions_def applyRemoveHostsFromExceptions_def
      apply_user_exceptions_def split: option.split)

lemma only_cmds_user [simp]: "only_cmds s (snd (implOnUserExceptionsUpdated env s))"
  using only_cmds_trans [OF only_cmds_ops(4) [of s env False] only_cmds_ops(4)]
  by (simp add: implOnUserExceptionsUpdated_def case_prod_unfold Let_def)

text \<open>With the script succeeding, enabling gives only commands but for the LAN step.\<close>

lemma enable_decomposed:
  assumes ok: "script_ok env" and w: "fw_weak s"
  shows "\<exists>s4. only_cmds (s\<lparr>curStateEnabled := True\<rparr>) s4
     \<and> only_cmds (snd (doAllowLAN env (curStateAllowLAN s) (curStateAllowLanMulticast s) s4))
         (snd (implSetEnabled env True s))"
proof -
  let ?s0 = "s\<lparr>curStateEnabled := True, cmds := Cmd_enable # cmds s\<rparr>"
  obtain ips pers where g: "getAllowedIpExceptions env ?s0 = (ips, pers)" by fastforce
  define icmp where "icmp = map_order env (allowedForICMP s)"
  obtain d dn where da: "getDnsIpAddresses ?s0 = (d, dn)" by fastforce
  define s1 where "s1 = snd (implOnChangeDNS env d dn ?s0)"
  define s2 where "s2 = snd (applyAddHostsToExceptions env icmp False True s1)"
  obtain e3 s3 where 3: "applyAddHostsToExceptions env ips False False s2 = (e3, s3)" by fastforce
  define s4 where "s4 = snd (applyAddHostsToExceptions env pers True False s3)"
  have "set ips = hosts_of False ?s0" using getAllowedIpExceptions_sets(1) [OF ok, of ?s0] g by simp
  moreover have "[] \<notin> fst ` set (allowedHosts ?s0)" using w by (simp add: fw_weak_def)
  ultimately have "[] \<notin> set ips" using hosts_of_keys [of False ?s0] by blast
  then have e3: "e3 = None" using 3 applyAdd_ok [OF ok] by (metis prod.inject)
  have o: "only_cmds ?s0 s4"
    using only_cmds_trans [OF only_cmds_trans [OF only_cmds_trans [OF
          only_cmds_ops(1) [of ?s0 env d dn] only_cmds_ops(2) [of _ env icmp False True]]
          only_cmds_ops(2) [of _ env ips False False]] only_cmds_ops(2) [of _ env pers True False]] 3
    by (simp add: s4_def s2_def s1_def)
  have "snd (implSetEnabled env True s) = snd (implOnUserExceptionsUpdated env
      (snd (doAllowLAN env (curStateAllowLAN s4) (curStateAllowLanMulticast s4) s4)))"
    using e3 3 by (simp add: implSetEnabled_def shell_Exec_ok [OF ok] reApplyExceptions_def g da
        icmp_def [symmetric] s1_def s2_def s4_def case_prod_unfold implAllowLAN_def Let_def)
  then have "only_cmds (snd (doAllowLAN env (curStateAllowLAN s) (curStateAllowLanMulticast s) s4))
      (snd (implSetEnabled env True s))"
    using only_cmds_fields(4,5) [OF o] by simp
  moreover have "only_cmds (s\<lparr>curStateEnabled := True\<rparr>) s4"
    using o by (cases s; cases s4) (simp add: only_cmds_def)
  ultimately show ?thesis by blast
qed

lemma client_connected_frame:
  assumes ok: "script_ok env" and s: "fw_sync s"
    and r: "implClientConnected env a b p d q t s = (e, s')"
  shows "hosts_of True s' = hosts_of True s" "stateAllowLan s' = stateAllowLan s"
    "curStateAllowLAN s' = curStateAllowLAN s" "curStateEnabled s' = curStateEnabled s"
    "dnsConfig s' = dnsConfig s"
proof -
  have ne: "[] \<notin> fst ` set (allowedHosts (s\<lparr>cmds := c\<rparr>))" "[] \<notin> set (allowedForICMP (s\<lparr>cmds := c\<rparr>))" for c
    using s by (simp_all add: fw_sync_def fw_weak_def)
  note eff = remove_hosts_table(1) [OF ok ne] table_frame [OF remove_effect(5) [OF ok ne]]
  show "hosts_of True s' = hosts_of True s" "stateAllowLan s' = stateAllowLan s"
    "curStateAllowLAN s' = curStateAllowLAN s" "curStateEnabled s' = curStateEnabled s"
    "dnsConfig s' = dnsConfig s"
    using r eff by (auto simp: implClientConnected_def shell_Exec_ok [OF ok] hosts_of_def
        split: sum.splits)
qed

text \<open>
  The order of the same operations matters, and one order leaves the LAN open: when the
  LAN is allowed on an enabled firewall, the firewall is then disabled, the LAN forbidden
  and the firewall enabled again, every LAN range that was not a host of the connection is
  let through by the new firewall, although the daemon's state says that the LAN is
  forbidden. Disabling forgets which addresses were added for the LAN, but leaves them in
  the table of persistent hosts.
\<close>

theorem fw_lan_leak:
  assumes "script_ok env" and "fw_sync s" and "curStateEnabled s" and "h \<in> set (lan_hosts m)"
    and "map_of (allowedHosts s) h \<noteq> Some False"
  shows "let s' = fold (fw_step env)
                    [Op_AllowLAN True m, Op_SetEnabled False, Op_AllowLAN False m, Op_SetEnabled True] s
         in h \<in> sc_rules (sc_run (cmds s')) K_static \<and> \<not> stateAllowLan s' \<and> \<not> curStateAllowLAN s'"
proof -
  let ?s0 = "s\<lparr>stateAllowLan := True, stateAllowLanMulticast := m\<rparr>"
  define s1 where "s1 = snd (doAllowLAN env True m ?s0)"
  have s0: "fw_sync ?s0" using assms(2) by simp
  note h1 = doAllowLAN_hosts [OF assms(1) s0 _ prod.collapse [symmetric], of True m]
  have in1: "h \<in> hosts_of True s1"
    using h1(4) assms(3-5) by (auto simp: s1_def hosts_of_def)
  have s1: "fw_sync s1" using doAllowLAN_keeps(2) [OF assms(1) fw_sync_weak [OF s0] s0] s1_def by simp
  define s2 where "s2 = snd (fw_SetEnabled env False s1)"
  have e2: "s2 = s1\<lparr>curStateEnabled := False, curAllowedLanIPs := [], isPersistant := False,
      allowedForICMP := [], cmds := Cmd_disable # cmds s1\<rparr>"
    by (simp add: s2_def fw_SetEnabled_def implSetEnabled_def shell_Exec_ok [OF assms(1)])
  have s2: "fw_sync s2" using SetEnabled_sync [OF assms(1) s1] s2_def by simp
  define s3 where "s3 = snd (fw_AllowLAN env False m s2)"
  have e3: "s3 = s2\<lparr>stateAllowLan := False, stateAllowLanMulticast := m, curStateAllowLAN := False,
      curStateAllowLanMulticast := m, curAllowedLanIPs := []\<rparr>"
    by (simp add: s3_def fw_AllowLAN_def implAllowLAN_def doAllowLAN_def e2)
  have s3: "fw_sync s3" using step_sync [OF assms(1) s2, of "Op_AllowLAN False m"] by (simp add: s3_def)
  obtain s4 where o4: "only_cmds (s3\<lparr>curStateEnabled := True\<rparr>) s4"
    and o5: "only_cmds (snd (doAllowLAN env False m s4)) (snd (implSetEnabled env True s3))"
    using enable_decomposed [OF assms(1) fw_sync_weak [OF s3]] e3 by auto
  define s5 where "s5 = snd (implSetEnabled env True s3)"
  have f4: "allowedHosts s4 = allowedHosts s1" "curAllowedLanIPs s4 = []" "\<not> stateAllowLan s4"
    using only_cmds_fields [OF o4] e3 e2 by simp_all
  have d4: "snd (doAllowLAN env False m s4) =
      s4\<lparr>curStateAllowLAN := False, curStateAllowLanMulticast := m, curAllowedLanIPs := []\<rparr>"
    using f4(2) by (simp add: doAllowLAN_def)
  have f5: "allowedHosts s5 = allowedHosts s1" "\<not> stateAllowLan s5" "\<not> curStateAllowLAN s5"
    "curStateEnabled s5"
    using only_cmds_fields [OF o5] f4 only_cmds_fields(6) [OF o4] by (simp_all add: s5_def d4)
  have s5: "fw_sync s5" using implSetEnabled_sync [OF assms(1) fw_sync_weak [OF s3]] by (simp add: s5_def)
  define s6 where "s6 = snd (fw_SetEnabled env True s3)"
  have s6: "fw_sync s6" using SetEnabled_sync [OF assms(1) s3] s6_def by simp
  have "s6 = s5 \<or> s6 = snd (implClientConnected env (connectedClientInterfaceIP s5)
      (connectedClientInterfaceIPv6 s5) (connectedClientPort s5) (connectedHostIP s5)
      (connectedHostPort s5) (connectedIsTCP s5) s5)"
    by (auto simp: s6_def s5_def fw_SetEnabled_def Let_def case_prod_unfold split: option.split)
  moreover have h5: "hosts_of True s5 = hosts_of True s1" using f5(1) by (simp add: hosts_of_def)
  ultimately have f6: "hosts_of True s6 = hosts_of True s1 \<and> \<not> stateAllowLan s6 \<and> \<not> curStateAllowLAN s6
      \<and> curStateEnabled s6"
    using f5 client_connected_frame [OF assms(1) s5 prod.collapse [symmetric]] by metis
  then have "h \<in> sc_rules (applied s6) K_static" using static_rules [OF s6] in1 by simp
  then show ?thesis using f6 by (simp add: s6_def s3_def s2_def s1_def fw_AllowLAN_def implAllowLAN_def)
qed

lemma lan_hosts_sample: "ip_net_string (v4_net 192 168 0 0 16) \<in> set (lan_hosts False)"
  by (simp add: lan_hosts_def GetNonRoutableLocalAddrRanges_def localNonRoutableRanges_def
      ipNetListToStrings_def v4_net_def)

theorem fw_lan_leak_witness:
  "ip_net_string (v4_net 192 168 0 0 16) \<in> sc_rules (sc_run (cmds (fold (fw_step sample_env)
     [Op_AllowLAN True False, Op_SetEnabled False, Op_AllowLAN False False, Op_SetEnabled True]
     sample_fw))) K_static"
  using fw_lan_leak [OF sample_env_ok sample_fw_sync _ lan_hosts_sample]
  by (simp add: sample_fw_def fw_init_def Let_def)

end
