(* ===== verification/Firewall_Dns.thy ===== *)
theory Firewall_Dns
  imports Firewall_Sync
begin

section \<open>The DNS rules, the background check and the user's exceptions of the firewall\<close>

text \<open>
  Three more parts of the contract of daemon/service/firewall: the DNS addresses let
  through are those of the last configuration that was accepted; a persistent firewall
  that somebody switched off is on again, complete, after one round of
  \<open>ensurePersistant\<close>; and the text of the user's exceptions is parsed to the networks
  it names.
\<close>

subsection \<open>DNS\<close>

text \<open>
  The DNS rules of the script after a log: firewall.sh ignores \<open>-set_dns\<close> while it is
  disabled, and loses the rules when it is disabled.
\<close>

fun dns_rules :: "fw_cmd list \<Rightarrow> net_ip list option" where
  "dns_rules [] = None"
| "dns_rules (c # cs) =
     (case c of
        Cmd_disable \<Rightarrow> None
      | Cmd_set_dns addr \<Rightarrow> if sc_on (sc_run cs) then Some addr else dns_rules cs
      | _ \<Rightarrow> dns_rules cs)"

definition dns_sync :: "fw \<Rightarrow> bool" where
  "dns_sync s \<longleftrightarrow> not_v4 (fst (getDnsIpAddresses s)) = None
     \<and> (curStateEnabled s \<longrightarrow> dns_rules (cmds s) = Some (fst (getDnsIpAddresses s)))"

text \<open>Steps that touch neither the DNS configuration nor the DNS rules.\<close>

definition quiet :: "fw \<Rightarrow> fw \<Rightarrow> bool" where
  "quiet s s' \<longleftrightarrow> dnsConfig s' = dnsConfig s \<and> dns_rules (cmds s') = dns_rules (cmds s)
     \<and> curStateEnabled s' = curStateEnabled s"

lemma quiet_refl [simp]: "quiet s s"
  by (simp add: quiet_def)

lemma quiet_trans: "quiet s t \<Longrightarrow> quiet t u \<Longrightarrow> quiet s u"
  by (simp add: quiet_def)

lemma quiet_dns: "quiet s s' \<Longrightarrow> dns_sync s' = dns_sync s"
  by (simp add: quiet_def dns_sync_def getDnsIpAddresses_def)

definition dns_free :: "fw_cmd \<Rightarrow> bool" where
  "dns_free c \<longleftrightarrow> (\<forall>cs. dns_rules (c # cs) = dns_rules cs)"

lemma dns_free_simps [simp]:
  "dns_free Cmd_status" "dns_free Cmd_enable" "dns_free (Cmd_connected a b c d e f)"
  "dns_free Cmd_disconnected" "dns_free (Cmd_add k hs)" "dns_free (Cmd_remove k hs)"
  "dns_free (Cmd_user_exceptions v hs)" "dns_free (Cmd_only_dns l hs)" "dns_free Cmd_only_dns_off"
  by (simp_all add: dns_free_def)

lemma quiet_upd [simp]:
  "quiet s (t\<lparr>allowedHosts := h\<rparr>) = quiet s t"
  "quiet s (t\<lparr>allowedForICMP := l\<rparr>) = quiet s t"
  "quiet s (t\<lparr>curAllowedLanIPs := l\<rparr>) = quiet s t"
  "quiet s (t\<lparr>curStateAllowLAN := b\<rparr>) = quiet s t"
  "quiet s (t\<lparr>curStateAllowLanMulticast := b\<rparr>) = quiet s t"
  "quiet s (t\<lparr>isPersistant := b\<rparr>) = quiet s t"
  "quiet s (t\<lparr>isClientPaused := b\<rparr>) = quiet s t"
  "quiet s (t\<lparr>userExceptions := u\<rparr>) = quiet s t"
  "quiet s (t\<lparr>stateAllowLan := b\<rparr>) = quiet s t"
  "quiet s (t\<lparr>stateAllowLanMulticast := b\<rparr>) = quiet s t"
  "quiet s (t\<lparr>connectedClientInterfaceIP := a\<rparr>) = quiet s t"
  "quiet s (t\<lparr>connectedClientInterfaceIPv6 := a\<rparr>) = quiet s t"
  "quiet s (t\<lparr>connectedClientPort := n\<rparr>) = quiet s t"
  "quiet s (t\<lparr>connectedHostIP := a\<rparr>) = quiet s t"
  "quiet s (t\<lparr>connectedHostPort := n\<rparr>) = quiet s t"
  "quiet s (t\<lparr>connectedIsTCP := b\<rparr>) = quiet s t"
  by (simp_all add: quiet_def)

text \<open>Each rule continues a chain of steps, so that \<open>simp\<close> follows the code.\<close>

lemma quiet_exec [simp]: "dns_free c \<Longrightarrow> quiet s t \<Longrightarrow> quiet s (snd (shell_Exec env c t))"
  by (simp add: quiet_def shell_Exec_def dns_free_def)

lemma quiet_apply [simp]:
  "quiet s t \<Longrightarrow> quiet s (snd (applyAddHostsToExceptions env hs p i t))"
  "quiet s t \<Longrightarrow> quiet s (snd (applyRemoveHostsFromExceptions env hs p i t))"
  "quiet s t \<Longrightarrow> quiet s (snd (apply_user_exceptions env v t))"
  by (auto simp: applyAddHostsToExceptions_def applyRemoveHostsFromExceptions_def
      apply_user_exceptions_def)

lemma quiet_tables [simp]:
  "quiet s t \<Longrightarrow> quiet s (snd (addHostsToExceptions env hs p i t))"
  "quiet s t \<Longrightarrow> quiet s (snd (removeHostsFromExceptions env hs p i t))"
  by (simp_all add: addHostsToExceptions_def removeHostsFromExceptions_def case_prod_unfold Let_def)

lemma quiet_user [simp]: "quiet s t \<Longrightarrow> quiet s (snd (implOnUserExceptionsUpdated env t))"
  by (simp add: implOnUserExceptionsUpdated_def case_prod_unfold Let_def)

lemma quiet_lan [simp]: "quiet s t \<Longrightarrow> quiet s (snd (doAllowLAN env a m t))"
  by (simp add: doAllowLAN_def Let_def)

lemma quiet_status [simp]: "quiet s t \<Longrightarrow> quiet s (snd (implGetEnabled env t))"
  by (simp add: implGetEnabled_def case_prod_unfold Let_def split: option.split sum.split)

lemma quiet_connected [simp]: "quiet s t \<Longrightarrow> quiet s (snd (implClientConnected env a b p d q x t))"
  by (simp add: implClientConnected_def case_prod_unfold split: option.split sum.split)

lemma quiet_disconnected [simp]: "quiet s t \<Longrightarrow> quiet s (snd (implClientDisconnected env t))"
  by (simp add: implClientDisconnected_def removeAllHostsFromExceptions_def case_prod_unfold Let_def)

text \<open>Telling the script the DNS addresses, and enabling, which does so too.\<close>

lemma set_dns_sync:
  assumes "script_ok env" "sc_on (applied s) = curStateEnabled s" "not_v4 addr = None"
  shows "implOnChangeDNS env addr b s = (None, s\<lparr>cmds := Cmd_set_dns addr # cmds s\<rparr>)"
    and "curStateEnabled s \<longrightarrow> dns_rules (Cmd_set_dns addr # cmds s) = Some addr"
  using assms by (simp_all add: implOnChangeDNS_def shell_Exec_ok)

lemma enable_dns:
  assumes ok: "script_ok env" and w: "fw_weak s" and d: "not_v4 (fst (getDnsIpAddresses s)) = None"
  shows "dns_sync (snd (implSetEnabled env True s))"
proof -
  let ?s0 = "s\<lparr>curStateEnabled := True, cmds := Cmd_enable # cmds s\<rparr>"
  let ?s1 = "s\<lparr>curStateEnabled := True, cmds := Cmd_set_dns (fst (getDnsIpAddresses s)) # Cmd_enable # cmds s\<rparr>"
  have i: "snd (implOnChangeDNS env (fst (getDnsIpAddresses s)) x ?s0) = ?s1" for x
    using d by (simp add: implOnChangeDNS_def shell_Exec_ok [OF ok])
  have g: "getDnsIpAddresses ?s0 = getDnsIpAddresses s" by (simp add: getDnsIpAddresses_def)
  have s1: "dns_sync ?s1" using d by (simp add: dns_sync_def getDnsIpAddresses_def)
  have "quiet ?s1 (snd (reApplyExceptions env ?s0))"
    by (simp add: reApplyExceptions_def case_prod_unfold Let_def implAllowLAN_def g i)
  then show ?thesis using s1 by (simp add: implSetEnabled_def shell_Exec_ok [OF ok] quiet_dns)
qed

lemma disable_dns: "dns_sync s \<Longrightarrow> script_ok env \<Longrightarrow> dns_sync (snd (implSetEnabled env False s))"
  by (simp add: dns_sync_def getDnsIpAddresses_def implSetEnabled_def shell_Exec_ok)

lemma implSetEnabled_dns:
  "script_ok env \<Longrightarrow> fw_weak s \<Longrightarrow> dns_sync s \<Longrightarrow> dns_sync (snd (implSetEnabled env b s))"
  by (cases b) (auto intro: disable_dns enable_dns simp: dns_sync_def [of s])

lemma SetEnabled_dns:
  assumes "script_ok env" "fw_weak s" "dns_sync s"
  shows "dns_sync (snd (fw_SetEnabled env b s))"
proof -
  let ?s1 = "snd (implSetEnabled env b s)"
  have "quiet ?s1 (snd (fw_SetEnabled env b s))"
    by (simp add: fw_SetEnabled_def case_prod_unfold Let_def split: option.split)
  then show ?thesis using implSetEnabled_dns [OF assms] by (simp add: quiet_dns)
qed

lemma OnChangeDNS_dns:
  assumes "script_ok env" "fw_sync s" "dns_sync s"
  shows "dns_sync (snd (OnChangeDNS env d s))"
proof -
  define n where "n = (case d of None \<Rightarrow> None | Some c \<Rightarrow> if dns_IsEmpty c then None else Some c)"
  define addr where "addr = (case n of None \<Rightarrow> [] | Some c \<Rightarrow> GetUnencryptedServersAddresses c)"
  define b where "b = (case n of None \<Rightarrow> False | Some c \<Rightarrow> IsInternalDnsConfig c)"
  define same where "same \<longleftrightarrow> dnsConfig s = None \<and> n = None
     \<or> (case (dnsConfig s, n) of (Some old, Some new) \<Rightarrow> dns_Equal old new | _ \<Rightarrow> False)"
  have "(case n of None \<Rightarrow> ([], False)
      | Some c \<Rightarrow> (GetUnencryptedServersAddresses c, IsInternalDnsConfig c)) = (addr, b)"
    by (simp add: addr_def b_def split: option.split)
  then have e: "OnChangeDNS env d s = (if same then (None, s)
      else let (err, s) = implOnChangeDNS env addr b s
           in if err \<noteq> None then (err, s) else (None, s\<lparr>dnsConfig := n\<rparr>))"
    by (simp add: OnChangeDNS_def n_def [symmetric] same_def Let_def)
  have on: "sc_on (applied s) = curStateEnabled s" using assms(2) by (simp add: fw_sync_def fw_weak_def)
  show ?thesis
  proof (cases "not_v4 addr")
    case None
    have g: "fst (getDnsIpAddresses (u\<lparr>dnsConfig := n\<rparr>)) = addr" for u
      by (simp add: getDnsIpAddresses_def addr_def split: option.split)
    then show ?thesis using e assms(3) None set_dns_sync [OF assms(1) on None]
      by (simp add: dns_sync_def)
  next
    case (Some x)
    then show ?thesis using e assms(3) by (simp add: implOnChangeDNS_def)
  qed
qed

lemma ensure_round_dns:
  assumes "script_ok env" "fw_sync s" "dns_sync s"
  shows "dns_sync (snd (ensure_round env s))"
proof -
  let ?s1 = "snd (implGetEnabled env s)"
  have "dns_sync ?s1" using quiet_dns [OF quiet_status [OF quiet_refl]] assms(3) by blast
  moreover have "fw_weak ?s1" using assms(2) implGetEnabled_sync fw_sync_weak by blast
  ultimately show ?thesis using implSetEnabled_dns [OF assms(1)] assms(3)
    by (simp add: ensure_round_def case_prod_unfold Let_def)
qed

fun dns_op :: "fw_op \<Rightarrow> bool" where
  "dns_op (Op_SetEnabled b) = True"
| "dns_op (Op_SetPersistant b) = True"
| "dns_op (Op_OnChangeDNS d) = True"
| "dns_op Op_EnsureRound = True"
| "dns_op _ = False"

lemma step_quiet: "\<not> dns_op op \<Longrightarrow> quiet s (fw_step env op s)"
  by (cases op) (simp_all add: fw_GetEnabled_def fw_SingleDnsRuleOn_def implSingleDnsRuleOn_def
    fw_SingleDnsRuleOff_def implSingleDnsRuleOff_def ClientPaused_def ClientResumed_def
    ClientConnected_def ClientDisconnected_def fw_AddHostsToExceptions_def
    implAddHostsToExceptions_def fw_RemoveHostsFromExceptions_def implRemoveHostsFromExceptions_def
    fw_AllowLAN_def implAllowLAN_def SetUserExceptions_def case_prod_unfold Let_def)

lemma SetPersistant_dns:
  assumes "script_ok env" "fw_sync s" "dns_sync s"
  shows "dns_sync (snd (fw_SetPersistant env b s))"
proof -
  let ?s0 = "s\<lparr>isPersistant := b\<rparr>"
  have "dns_sync ?s0" using assms(3) by (simp add: dns_sync_def getDnsIpAddresses_def)
  then show ?thesis
    using implSetEnabled_dns [OF assms(1), of ?s0 True] fw_sync_weak [OF assms(2)]
    by (cases b) (simp_all add: fw_SetPersistant_def implSetPersistant_def Let_def case_prod_unfold)
qed

lemma step_dns:
  assumes ok: "script_ok env" and s: "fw_sync s" and d: "dns_sync s"
  shows "dns_sync (fw_step env op s)"
proof (cases "dns_op op")
  case True
  then show ?thesis
    using SetEnabled_dns [OF ok fw_sync_weak [OF s] d] SetPersistant_dns [OF ok s d]
      OnChangeDNS_dns [OF ok s d] ensure_round_dns [OF ok s d]
    by (cases op) simp_all
next
  case False
  then show ?thesis using quiet_dns [OF step_quiet] d by blast
qed

interpretation dns_machine:
  safe_machine "fw_step env" "\<lambda>s. script_ok env \<longrightarrow> fw_sync s \<and> dns_sync s" for env
  by unfold_locales (use step_sync step_dns in blast)



subsection \<open>The background check of a persistent firewall\<close>

text \<open>
  When the firewall is persistent and somebody else has switched the script off, the
  next round of the background check, seeing a status that is neither enabled nor an
  error, switches it on again with every exception of the daemon's tables and the DNS
  rules of the current configuration, and the check goes on.
\<close>

theorem fw_persistent_restored:
  assumes ok: "script_ok env" and s: "fw_sync s" and d: "dns_sync s" and p: "isPersistant s"
    and off: "sh_exec env (Cmd_disable # cmds s) Cmd_status = Some e" "sh_exit_code env e = Inr c"
      "c \<noteq> 0"
  shows "case ensure_round env (s\<lparr>cmds := Cmd_disable # cmds s\<rparr>) of (go_on, s') \<Rightarrow>
     go_on \<and> curStateEnabled s' \<and> sc_on (sc_run (cmds s'))
     \<and> (\<forall>h. (h \<in> sc_rules (sc_run (cmds s')) K_static \<longleftrightarrow> map_of (allowedHosts s') h = Some True)
         \<and> (h \<in> sc_rules (sc_run (cmds s')) K_dynamic \<longleftrightarrow> map_of (allowedHosts s') h = Some False))
     \<and> sc_rules (sc_run (cmds s')) K_icmp = set (allowedForICMP s')
     \<and> dns_rules (cmds s') = Some (fst (getDnsIpAddresses s'))"
proof -
  let ?s0 = "s\<lparr>cmds := Cmd_disable # cmds s\<rparr>"
  let ?s1 = "s\<lparr>cmds := Cmd_status # Cmd_disable # cmds s\<rparr>"
  let ?s2 = "s\<lparr>curStateEnabled := True, cmds := Cmd_enable # Cmd_status # Cmd_disable # cmds s\<rparr>"
  have g: "implGetEnabled env ?s0 = ((False, None), ?s1)"
    using off by (simp add: implGetEnabled_def shell_Exec_def)
  have r: "ensure_round env ?s0 = (True, snd (implSetEnabled env True ?s1))"
    using p by (simp add: ensure_round_def g)
  have w: "fw_weak ?s2"
    using s by (auto simp: fw_sync_def fw_weak_def hosts_of_def)
  have f: "fw_sync (snd (implSetEnabled env True ?s1))"
    using reApply_sync [OF ok w] by (simp add: implSetEnabled_def shell_Exec_ok [OF ok])
  let ?s1' = "s\<lparr>curStateEnabled := False, cmds := Cmd_status # Cmd_disable # cmds s\<rparr>"
  have "fw_weak ?s1'" using s by (auto simp: fw_sync_def fw_weak_def hosts_of_def)
  moreover have "not_v4 (fst (getDnsIpAddresses ?s1')) = None"
    using d by (simp add: dns_sync_def getDnsIpAddresses_def)
  ultimately have "dns_sync (snd (implSetEnabled env True ?s1'))" by (rule enable_dns [OF ok])
  moreover have "implSetEnabled env True ?s1' = implSetEnabled env True ?s1"
    by (simp add: implSetEnabled_def)
  moreover have "curStateEnabled (snd (implSetEnabled env True ?s1))"
  proof -
    have w1: "fw_weak ?s1'" by fact
    obtain s4 where o: "only_cmds (?s1'\<lparr>curStateEnabled := True\<rparr>) s4"
      "only_cmds (snd (doAllowLAN env (curStateAllowLAN ?s1') (curStateAllowLanMulticast ?s1') s4))
         (snd (implSetEnabled env True ?s1'))"
      using enable_decomposed [OF ok w1] by blast
    have "quiet s4 (snd (doAllowLAN env a m s4))" for a m by simp
    then show ?thesis using only_cmds_fields(6) [OF o(1)] only_cmds_fields(6) [OF o(2)]
      by (simp add: quiet_def implSetEnabled_def)
  qed
  ultimately show ?thesis using f r by (simp add: fw_sync_def fw_weak_def hosts_of_def dns_sync_def)
qed

definition off_env :: fw_env where
  "off_env = sample_env\<lparr>sh_exec := (\<lambda>_ c. if c = Cmd_status then Some (Err ''exit status 1'') else None)\<rparr>"

definition off_sample :: fw where
  "off_sample = sample_fw\<lparr>isPersistant := True, cmds := [Cmd_set_dns [], Cmd_enable]\<rparr>"

theorem fw_persistent_restored_witness:
  "sc_on (sc_run (cmds (snd (ensure_round off_env
     (off_sample\<lparr>cmds := Cmd_disable # cmds off_sample\<rparr>)))))"
proof -
  have ok: "script_ok off_env" by (simp add: script_ok_def off_env_def sample_env_def)
  have s: "fw_sync off_sample"
    by (simp add: off_sample_def sample_fw_def fw_sync_def fw_weak_def fw_init_def hosts_of_def
        sc_init_def)
  have d: "dns_sync off_sample"
    by (simp add: dns_sync_def off_sample_def sample_fw_def fw_init_def getDnsIpAddresses_def
        sc_init_def)
  have p: "isPersistant off_sample" by (simp add: off_sample_def)
  have o: "sh_exec off_env (Cmd_disable # cmds off_sample) Cmd_status = Some (Err ''exit status 1'')"
    "sh_exit_code off_env (Err ''exit status 1'') = Inr 1"
    by (simp_all add: off_env_def sample_env_def)
  show ?thesis
    using fw_persistent_restored [OF ok s d p o] by (simp add: case_prod_unfold)
qed

subsection \<open>The exceptions of the user\<close>

lemma fields_word:
  "w \<noteq> [] \<or> acc \<noteq> [] \<Longrightarrow> list_all exc_char w \<Longrightarrow> \<not> exc_char c \<Longrightarrow>
     exc_fields acc (w @ c # rest) = (acc @ w) # exc_fields [] rest"
  "w \<noteq> [] \<or> acc \<noteq> [] \<Longrightarrow> list_all exc_char w \<Longrightarrow> exc_fields acc w = [acc @ w]"
  by (induction w arbitrary: acc) auto

lemma fields_join:
  "\<forall>w \<in> set ws. w \<noteq> [] \<and> list_all exc_char w \<Longrightarrow> \<not> exc_char c \<Longrightarrow>
     exc_fields [] (join_with [c] ws) = ws"
proof (induction "[c]" ws rule: join_with.induct)
  case (3 w v ws)
  then show ?case by (simp add: fields_word(1))
qed (simp_all add: fields_word(2))

lemma mask_32: "cidr_mask 32 4 = [255, 255, 255, 255]"
  by (simp add: mask_byte_def eval_nat_numeral)

lemma parse_exception_v4:
  assumes l: "length ip = 4"
  shows "parse_exception (ip_string ip) = Some \<lparr>net_IP = ip, net_Mask = [255, 255, 255, 255]\<rparr>"
proof -
  have chars: "is_digit c \<or> c = CHR ''.''" if "c \<in> set (ip_string ip)" for c
    using v4_string_chars [OF l that] .
  have no: "CHR ''/'' \<notin> set (ip_string ip)" using chars by (force simp: is_digit_def)
  have t4: "to4 (v4_prefix @ ip) = ip" using l by (simp add: to4_def)
  have s16: "ip_string (v4_prefix @ ip) = ip_string ip"
    using l t4 by (auto simp: ip_string_def v4_prefix_def to4_def)
  have tw: "takeWhile (\<lambda>c. c \<noteq> CHR ''/'') (ip_string ip @ ''/32'') = ip_string ip"
    using no by (subst takeWhile_append2) auto
  note pa = parse_addr_v4_string [OF l]
  have am: "and_mask ip [255, 255, 255, 255] = ip"
    using l by (auto simp: length_Suc_conv eval_nat_numeral and_mask_def)
  have d: "drop (Suc (length (ip_string ip))) (ip_string ip @ ''/32'') = ''32''" by simp
  have "parse_cidr (ip_string ip @ ''/32'') = Some \<lparr>net_IP = ip, net_Mask = [255, 255, 255, 255]\<rparr>"
    unfolding parse_cidr_def Let_def tw d pa
    by (simp add: l mask_32 am is_digit_def digits_val_def digit_val_def del: cidr_mask.simps)
  moreover have "ip \<noteq> []" using l by auto
  ultimately show ?thesis
    using no t4 s16 by (simp add: parse_exception_def Let_def trim_v4_string [OF l]
        parse_ip_v4_string [OF l])
qed

text \<open>
  The exceptions the user types as IPv4 addresses separated by a character that no
  address contains are all accepted, in order, as networks of one address each; nothing
  is lost and nothing is added, and the script is given exactly these.
\<close>

theorem fw_user_exceptions_roundtrip:
  assumes "\<forall>ip \<in> set ips. length ip = 4" and "\<not> exc_char sep"
  shows "case SetUserExceptions env (join_with [sep] (map ip_string ips)) ig s of (err, s') \<Rightarrow>
     userExceptions s' = map (\<lambda>ip. \<lparr>net_IP = ip, net_Mask = [255, 255, 255, 255]\<rparr>) ips
     \<and> (script_ok env \<longrightarrow> err = None
          \<and> hd (cmds s') = Cmd_user_exceptions True (map ip_net_string (userExceptions s')))"
proof -
  let ?net = "\<lambda>ip. \<lparr>net_IP = ip, net_Mask = [255, 255, 255, 255]\<rparr>"
  have words: "\<forall>w \<in> set (map ip_string ips). w \<noteq> [] \<and> list_all exc_char w"
  proof
    fix w assume "w \<in> set (map ip_string ips)"
    then obtain ip where ip: "length ip = 4" "w = ip_string ip" using assms(1) by auto
    show "w \<noteq> [] \<and> list_all exc_char w"
      using ip v4_string_not_Nil [OF ip(1)] v4_string_chars [OF ip(1)]
      by (auto simp: list_all_iff exc_char_def)
  qed
  have f: "exc_fields [] (join_with [sep] (map ip_string ips)) = map ip_string ips"
    by (rule fields_join [OF words assms(2)])
  have p: "parse_exceptions ig (map ip_string l) acc = (True, acc @ map ?net l)"
    if "\<forall>ip \<in> set l. length ip = 4" for l acc
    using that by (induction l arbitrary: acc) (simp_all add: parse_exception_v4)
  have v4: "getUserExceptions (map ?net l) True False = map ?net l"
    if "\<forall>ip \<in> set l. length ip = 4" for l
    using that by (induction l) (auto simp: to4_def Let_def)
  show ?thesis
    using v4 [OF assms(1)]
    by (auto simp: SetUserExceptions_def f p [OF assms(1)] implOnUserExceptionsUpdated_def
        apply_user_exceptions_def case_prod_unfold Let_def shell_Exec_ok shell_Exec_def script_ok_def)
qed

theorem fw_user_exceptions_roundtrip_witness:
  "userExceptions (snd (SetUserExceptions sample_env
       (join_with '','' (map ip_string [[1, 2, 3, 4], [10, 0, 0, 1]])) False sample_fw))
     = [\<lparr>net_IP = [1, 2, 3, 4], net_Mask = [255, 255, 255, 255]\<rparr>,
        \<lparr>net_IP = [10, 0, 0, 1], net_Mask = [255, 255, 255, 255]\<rparr>]"
  using fw_user_exceptions_roundtrip [of "[[1, 2, 3, 4], [10, 0, 0, 1]]" "CHR '',''" sample_env False sample_fw]
  by (simp add: case_prod_unfold exc_char_def is_digit_def)

end
