(* ===== verification/V2Ray_Config.thy ===== *)
theory V2Ray_Config
  imports Go_Net
begin

section \<open>V2Ray configuration (daemon/v2r/config.go)\<close>

text \<open>
  The configuration object, the template it is decoded from, and its constructors. A Go
  slice is a list; an access to element 0 of an empty slice panics, which is the value
  \<open>None\<close>. A pointer field is an option. \<open>defaultConfig\<close> is the object
  \<open>json.Unmarshal\<close> makes from \<open>defaultConfigTemplate\<close>, field by field.
\<close>

record v2_user =
  Id :: string
  AlterId :: int
  user_Security :: string

record v2_vnext =
  vn_Address :: string
  vn_Port :: int
  Users :: "v2_user list"

record v2_quic =
  quic_Security :: string
  quic_Key :: string
  quic_HeaderType :: string

record v2_tcp =
  tcp_HeaderType :: string
  tcp_Version :: string
  tcp_Method :: string
  tcp_Path :: "string list"
  tcp_Host :: "string list"
  tcp_UserAgent :: "string list"
  tcp_AcceptEncoding :: "string list"
  tcp_Connection :: "string list"
  tcp_Pragma :: string

record v2_stream =
  Network :: string
  Security :: string
  QuicSettings :: "v2_quic option"
  TlsSettings :: "string option"
  TcpSettings :: "v2_tcp option"

record v2_outbound =
  Tag :: string
  out_Protocol :: string
  Vnext :: "v2_vnext list"
  StreamSettings :: v2_stream

record v2_inbound =
  in_Port :: string
  in_Protocol :: string
  in_Address :: string
  in_DestPort :: int
  in_Network :: string

record V2RayConfig =
  Loglevel :: string
  Inbounds :: "v2_inbound list"
  Outbounds :: "v2_outbound list"

definition defaultConfig :: V2RayConfig where
  "defaultConfig =
     \<lparr>Loglevel = ''debug'',
      Inbounds = [\<lparr>in_Port = ''16661'', in_Protocol = ''dokodemo-door'', in_Address = [],
                   in_DestPort = 0, in_Network = ''udp''\<rparr>],
      Outbounds = [\<lparr>Tag = ''proxy'', out_Protocol = ''vmess'',
        Vnext = [\<lparr>vn_Address = [], vn_Port = 0,
                  Users = [\<lparr>Id = [], AlterId = 0, user_Security = ''none''\<rparr>]\<rparr>],
        StreamSettings =
          \<lparr>Network = ''quic'', Security = ''tls'',
           QuicSettings = Some \<lparr>quic_Security = [], quic_Key = [], quic_HeaderType = ''srtp''\<rparr>,
           TlsSettings = Some ''xb1.gw.inet-telecom.com'',
           TcpSettings = Some
             \<lparr>tcp_HeaderType = ''http'', tcp_Version = ''1.1'', tcp_Method = ''GET'',
              tcp_Path = [''/''], tcp_Host = [''www.inet-telecom.com''],
              tcp_UserAgent =
                [''Mozilla/5.0 (Windows NT 10.0; WOW64) AppleWebKit/537.36 (KHTML, like Gecko) Chrome/55.0.2883.75 Safari/537.36'',
                 ''Mozilla/5.0 (iPhone; CPU iPhone OS 10_0_2 like Mac OS X) AppleWebKit/601.1 (KHTML, like Gecko) CriOS/53.0.2785.109 Mobile/14A456 Safari/601.1.46''],
              tcp_AcceptEncoding = [''gzip, deflate''], tcp_Connection = [''keep-alive''],
              tcp_Pragma = ''no-cache''\<rparr>\<rparr>\<rparr>]\<rparr>"

subsection \<open>Operations\<close>

definition GetLocalPort :: "V2RayConfig \<Rightarrow> (int \<times> bool) option" where
  "GetLocalPort c =
     (case Inbounds c of
        [] \<Rightarrow> None
      | i # _ \<Rightarrow> Some (fst (atoi (in_Port i)), in_Network i = ''tcp''))"

definition SetLocalPort :: "int \<Rightarrow> bool \<Rightarrow> V2RayConfig \<Rightarrow> V2RayConfig option" where
  "SetLocalPort port isTcp c =
     (case Inbounds c of
        [] \<Rightarrow> None
      | i # is \<Rightarrow> Some (c\<lparr>Inbounds :=
          i\<lparr>in_Port := show_int port, in_Network := (if isTcp then ''tcp'' else ''udp'')\<rparr> # is\<rparr>))"

text \<open>An assignment to a field of element 0, which the template has.\<close>

fun upd_hd :: "('v \<Rightarrow> 'v) \<Rightarrow> 'v list \<Rightarrow> 'v list" where
  "upd_hd f [] = []"
| "upd_hd f (x # xs) = f x # xs"

definition createConfigFromTemplate ::
  "string \<Rightarrow> int \<Rightarrow> string \<Rightarrow> int \<Rightarrow> string \<Rightarrow> V2RayConfig" where
  "createConfigFromTemplate outboundIp outboundPort inboundIp inboundPort outboundUserId =
     (let config = defaultConfig;
          config = config\<lparr>Inbounds := upd_hd (\<lambda>i. i\<lparr>in_Address := inboundIp\<rparr>) (Inbounds config)\<rparr>;
          config = config\<lparr>Inbounds := upd_hd (\<lambda>i. i\<lparr>in_DestPort := inboundPort\<rparr>) (Inbounds config)\<rparr>;
          vnext = (\<lambda>f. Outbounds_update (upd_hd (Vnext_update (upd_hd f))));
          config = vnext (\<lambda>v. v\<lparr>vn_Address := outboundIp\<rparr>) config;
          config = vnext (\<lambda>v. v\<lparr>vn_Port := outboundPort\<rparr>) config
      in vnext (Users_update (upd_hd (\<lambda>u. u\<lparr>Id := outboundUserId\<rparr>))) config)"

definition upd_stream :: "(v2_stream \<Rightarrow> v2_stream) \<Rightarrow> V2RayConfig \<Rightarrow> V2RayConfig" where
  "upd_stream f = Outbounds_update (upd_hd (StreamSettings_update f))"

definition CreateConfig_OutboundsQuick ::
  "string \<Rightarrow> int \<Rightarrow> string \<Rightarrow> int \<Rightarrow> string \<Rightarrow> string \<Rightarrow> V2RayConfig" where
  "CreateConfig_OutboundsQuick outboundIp outboundPort inboundIp inboundPort outboundUserId tlsSrvName =
     upd_stream (\<lambda>st. st\<lparr>Network := ''quic'', TcpSettings := None, TlsSettings := Some tlsSrvName\<rparr>)
       (createConfigFromTemplate outboundIp outboundPort inboundIp inboundPort outboundUserId)"

definition CreateConfig_OutboundsTcp ::
  "string \<Rightarrow> int \<Rightarrow> string \<Rightarrow> int \<Rightarrow> string \<Rightarrow> V2RayConfig" where
  "CreateConfig_OutboundsTcp outboundIp outboundPort inboundIp inboundPort outboundUserId =
     upd_stream (\<lambda>st. st\<lparr>Network := ''tcp'', Security := [], QuicSettings := None, TlsSettings := None\<rparr>)
       (createConfigFromTemplate outboundIp outboundPort inboundIp inboundPort outboundUserId)"

text \<open>\<open>isValid\<close> on a possibly nil configuration; the outer \<open>None\<close> is a panic.\<close>

definition v2_isValid :: "V2RayConfig option \<Rightarrow> error option" where
  "v2_isValid cfg =
     (case cfg of
        None \<Rightarrow> Some (Some (Err ''config is nil''))
      | Some c \<Rightarrow>
          (case Inbounds c of
             [] \<Rightarrow> None
           | i # _ \<Rightarrow>
               if fst (atoi (in_Port i)) = 0 then
                 Some (Some (Err ''config.Inbounds[0].Port or c.Inbounds[0].Settings.Network has invalid value''))
               else if trim_space (in_Address i) = [] then
                 Some (Some (Err ''config.Inbounds[0].Settings.Address is empty''))
               else if in_DestPort i = 0 then
                 Some (Some (Err ''config.Inbounds[0].Settings.Port is empty''))
               else (case Outbounds c of
                 [] \<Rightarrow> None
               | out # _ \<Rightarrow>
                   (case Vnext out of
                      [] \<Rightarrow> None
                    | v # _ \<Rightarrow>
                        if trim_space (vn_Address v) = [] then
                          Some (Some (Err ''config.Outbounds[0].Settings.Vnext[0].Address is empty''))
                        else if vn_Port v = 0 then
                          Some (Some (Err ''config.Outbounds[0].Settings.Vnext[0].Port is empty''))
                        else (case Users v of
                          [] \<Rightarrow> None
                        | u # _ \<Rightarrow>
                            if trim_space (Id u) = [] then
                              Some (Some (Err ''config.Outbounds[0].Settings.Vnext[0].Users[0].Id is empty''))
                            else Some None)))))"

subsection \<open>Properties\<close>

text \<open>
  The local port and protocol written into a configuration are read back: for every
  configuration with an inbound and every port in the range of \<open>int\<close>, \<open>GetLocalPort\<close>
  after \<open>SetLocalPort\<close> gives the same port and protocol, and nothing else changes but
  the first inbound.
\<close>

theorem v2_local_port_roundtrip:
  assumes "Inbounds c \<noteq> []" and "min_int64 \<le> port" and "port \<le> max_int64"
  shows "case SetLocalPort port isTcp c of None \<Rightarrow> False
     | Some c' \<Rightarrow> GetLocalPort c' = Some (port, isTcp) \<and> Outbounds c' = Outbounds c
         \<and> tl (Inbounds c') = tl (Inbounds c) \<and> in_Address (hd (Inbounds c')) = in_Address (hd (Inbounds c))"
  using assms by (cases "Inbounds c") (auto simp: SetLocalPort_def GetLocalPort_def atoi_show_int)

theorem v2_local_port_roundtrip_witness:
  "map_option GetLocalPort (SetLocalPort 51820 True defaultConfig) = Some (Some (51820, True))"
  using v2_local_port_roundtrip [of defaultConfig 51820 True]
  by (auto simp: defaultConfig_def min_int64_def max_int64_def split: option.splits)

text \<open>
  A configuration the daemon creates is accepted exactly when its addresses and its
  user id are not blank and its ports are not zero: with both constructors, after the
  local port has been set to a non-zero value, \<open>isValid\<close> neither panics nor reports an
  error in that case and reports an error in every other. A QUIC configuration carries
  TLS but no TCP settings, a TCP configuration neither QUIC nor TLS.
\<close>

theorem v2_created_config_valid:
  assumes "port \<noteq> 0" and "min_int64 \<le> port" and "port \<le> max_int64"
    and "c = CreateConfig_OutboundsQuick outIp outPort inIp inPort uid tlsName
       \<or> c = CreateConfig_OutboundsTcp outIp outPort inIp inPort uid"
  shows "case SetLocalPort port isTcp c of None \<Rightarrow> False
     | Some c' \<Rightarrow>
         (v2_isValid (Some c') = Some None \<longleftrightarrow>
            trim_space inIp \<noteq> [] \<and> inPort \<noteq> 0 \<and> trim_space outIp \<noteq> [] \<and> outPort \<noteq> 0
            \<and> trim_space uid \<noteq> [])
         \<and> v2_isValid (Some c') \<noteq> None
         \<and> (let st = StreamSettings (hd (Outbounds c')) in
              if Network st = ''quic'' then TcpSettings st = None \<and> TlsSettings st = Some tlsName
              else Network st = ''tcp'' \<and> QuicSettings st = None \<and> TlsSettings st = None)"
  using assms
  by (auto simp: SetLocalPort_def CreateConfig_OutboundsQuick_def CreateConfig_OutboundsTcp_def
      createConfigFromTemplate_def upd_stream_def defaultConfig_def v2_isValid_def atoi_show_int Let_def)

theorem v2_created_config_valid_witness:
  "map_option (\<lambda>c. v2_isValid (Some c))
     (SetLocalPort 5000 False (CreateConfig_OutboundsTcp ''1.2.3.4'' 80 ''5.6.7.8'' 15351 ''id''))
   = Some (Some None)"
proof -
  have p: "trim_space ''1.2.3.4'' \<noteq> []" "trim_space ''5.6.7.8'' \<noteq> []" "trim_space ''id'' \<noteq> []"
    by (code_simp)+
  show ?thesis
    using v2_created_config_valid [of 5000 "CreateConfig_OutboundsTcp ''1.2.3.4'' 80 ''5.6.7.8'' 15351 ''id''"
        "''1.2.3.4''" 80 "''5.6.7.8''" 15351 "''id''" "[]" False] p
    by (auto simp: min_int64_def max_int64_def split: option.splits)
qed

end
