(* ===== verification/Servers.thy ===== *)
theory Servers
  imports Go_Net
begin

section \<open>The list of servers (daemon/api/types/servers.go)\<close>

text \<open>
  The data of servers.json the rest of the daemon works on. An embedded Go struct is a
  record extension. The \<open>float32\<close> fields (load, latitude, longitude) are carried as their
  32-bit patterns: the daemon only copies them. The interface \<open>ServerGeneric\<close> is a
  datatype with its two implementations.
\<close>

record HostInfoBase =
  Hostname :: string
  Host :: string
  DnsName :: string
  MultihopPort :: int
  Load :: "32 word"
  V2RayHost :: string
  host_ISP :: string

record ServerInfoBase =
  Gateway :: string
  CountryCode :: string
  Country :: string
  City :: string
  Latitude :: "32 word"
  Longitude :: "32 word"
  srv_ISP :: string

record WireGuardServerHostInfoIPv6 =
  ipv6_Host :: string
  ipv6_LocalIP :: string

record WireGuardServerHostInfo = HostInfoBase +
  PublicKey :: string
  LocalIP :: string
  wg_IPv6 :: WireGuardServerHostInfoIPv6

record WireGuardServerInfo = ServerInfoBase +
  wg_Hosts :: "WireGuardServerHostInfo list"

record ObfsParams =
  Obfs3MultihopPort :: int
  Obfs4MultihopPort :: int
  Obfs4Key :: string

record OpenVPNServerHostInfo = HostInfoBase +
  Obfs :: ObfsParams

record OpenvpnServerInfo = ServerInfoBase +
  ovpn_Hosts :: "OpenVPNServerHostInfo list"

definition wg_GetHostsInfoBase :: "WireGuardServerInfo \<Rightarrow> HostInfoBase list" where
  "wg_GetHostsInfoBase s = map HostInfoBase.truncate (wg_Hosts s)"

definition ovpn_GetHostsInfoBase :: "OpenvpnServerInfo \<Rightarrow> HostInfoBase list" where
  "ovpn_GetHostsInfoBase s = map HostInfoBase.truncate (ovpn_Hosts s)"

definition GetServerInfoBase :: "'a ServerInfoBase_scheme \<Rightarrow> ServerInfoBase" where
  "GetServerInfoBase s = ServerInfoBase.truncate s"

datatype ServerGeneric = G_wg WireGuardServerInfo | G_ovpn OpenvpnServerInfo

fun generic_info :: "ServerGeneric \<Rightarrow> ServerInfoBase" where
  "generic_info (G_wg s) = GetServerInfoBase s"
| "generic_info (G_ovpn s) = GetServerInfoBase s"

fun generic_hosts :: "ServerGeneric \<Rightarrow> HostInfoBase list" where
  "generic_hosts (G_wg s) = wg_GetHostsInfoBase s"
| "generic_hosts (G_ovpn s) = ovpn_GetHostsInfoBase s"

record AntitrackerInfo =
  at_Default :: string
  at_Hardcore :: string

record AntiTrackerPlusServer =
  atp_Name :: string
  atp_Description :: string
  atp_Normal :: string
  atp_Hardcore :: string

record InfoAPI =
  IPAddresses :: "string list"
  IPv6Addresses :: "string list"

record PortRange =
  range_Min :: int
  range_Max :: int

record PortInfoBase =
  port_Type :: string
  port_Port :: int

record PortInfo = PortInfoBase +
  port_Range :: PortRange

definition port_String :: "PortInfo \<Rightarrow> string" where
  "port_String p =
     (if port_Port p > 0 then port_Type p @ '':'' @ show_int (port_Port p)
      else if range_Min (port_Range p) > 0 \<and> range_Min (port_Range p) < range_Max (port_Range p)
      then port_Type p @ '':['' @ show_int (range_Min (port_Range p)) @ ''-''
             @ show_int (range_Max (port_Range p)) @ '']''
      else [])"

definition port_IsTCP :: "PortInfo \<Rightarrow> bool" where
  "port_IsTCP p \<longleftrightarrow> trim_space (to_lower (port_Type p)) = ''tcp''"

definition port_IsUDP :: "PortInfo \<Rightarrow> bool" where
  "port_IsUDP p \<longleftrightarrow> trim_space (to_lower (port_Type p)) = ''udp''"

definition port_Equal :: "PortInfo \<Rightarrow> PortInfo \<Rightarrow> bool" where
  "port_Equal p x \<longleftrightarrow> port_Port p = port_Port x
     \<and> trim_space (to_lower (port_Type p)) = trim_space (to_lower (port_Type x))
     \<and> range_Max (port_Range p) = range_Max (port_Range x)
     \<and> range_Min (port_Range p) = range_Min (port_Range x)"

record V2RayPorts =
  v2_ID :: string
  v2_OpenVPN :: "PortInfoBase list"
  v2_WireGuard :: "PortInfoBase list"

record PortsInfo =
  pi_OpenVPN :: "PortInfo list"
  pi_WireGuard :: "PortInfo list"
  Obfs3 :: int
  Obfs4 :: int
  Test :: "string list"
  V2RayInfo :: V2RayPorts

record ConfigInfo =
  Antitracker :: AntitrackerInfo
  AntiTrackerPlus :: "AntiTrackerPlusServer list"
  APIInfo :: InfoAPI
  Ports :: PortsInfo

record ServersInfoResponse =
  WireguardServers :: "WireGuardServerInfo list"
  OpenvpnServers :: "OpenvpnServerInfo list"
  Config :: ConfigInfo

definition ServersGenericWireguard :: "ServersInfoResponse \<Rightarrow> ServerGeneric list" where
  "ServersGenericWireguard si = map G_wg (WireguardServers si)"

definition ServersGenericOpenvpn :: "ServersInfoResponse \<Rightarrow> ServerGeneric list" where
  "ServersGenericOpenvpn si = map G_ovpn (OpenvpnServers si)"

lemma port_Equal_equiv:
  "port_Equal p p" "port_Equal p q = port_Equal q p"
  "port_Equal p q \<Longrightarrow> port_Equal q r \<Longrightarrow> port_Equal p r"
  by (auto simp: port_Equal_def)

lemma port_Equal_kind: "port_Equal p q \<Longrightarrow> port_IsTCP p = port_IsTCP q \<and> port_IsUDP p = port_IsUDP q"
  by (auto simp: port_Equal_def port_IsTCP_def port_IsUDP_def)

lemma port_not_both: "\<not> (port_IsTCP p \<and> port_IsUDP p)"
  by (auto simp: port_IsTCP_def port_IsUDP_def)

end
