(* ===== verification/Vpn_Types.thy ===== *)
theory Vpn_Types
  imports Dns_Settings Servers
begin

section \<open>VPN types and connection parameters
  (daemon/vpn/types.go, daemon/obfsproxy, daemon/service/types/connection.go)\<close>

text \<open>
  The state of a VPN connection, the settings of obfsproxy, and the parameters of a
  connection with the choice of its hosts. The named constants of an \<open>int\<close> type are
  integers, as in Go. \<open>rnd i n\<close> is what the \<open>i\<close>-th call of \<open>rand.Int\<close> gives for the bound
  \<open>n\<close>: \<open>None\<close> when it fails, otherwise (by its documentation) a number below \<open>n\<close>.
\<close>

subsection \<open>VPN type and state\<close>

type_synonym vpn_type = int

definition OpenVPN :: vpn_type where "OpenVPN = 0"
definition WireGuard :: vpn_type where "WireGuard = 1"

definition type_String :: "vpn_type \<Rightarrow> string" where
  "type_String t = (if t = OpenVPN then ''OpenVPN'' else if t = WireGuard then ''WireGuard''
     else ''<Unknown>'')"

type_synonym vpn_state = int

definition DISCONNECTED :: vpn_state where "DISCONNECTED = 0"
definition CONNECTING :: vpn_state where "CONNECTING = 1"
definition WAIT :: vpn_state where "WAIT = 2"
definition AUTH :: vpn_state where "AUTH = 3"
definition GETCONFIG :: vpn_state where "GETCONFIG = 4"
definition ASSIGNIP :: vpn_state where "ASSIGNIP = 5"
definition ADDROUTES :: vpn_state where "ADDROUTES = 6"
definition CONNECTED :: vpn_state where "CONNECTED = 7"
definition RECONNECTING :: vpn_state where "RECONNECTING = 8"
definition TCP_CONNECT :: vpn_state where "TCP_CONNECT = 9"
definition EXITING :: vpn_state where "EXITING = 10"
definition INITIALISED :: vpn_state where "INITIALISED = 11"

lemmas state_defs = DISCONNECTED_def CONNECTING_def WAIT_def AUTH_def GETCONFIG_def ASSIGNIP_def
  ADDROUTES_def CONNECTED_def RECONNECTING_def TCP_CONNECT_def EXITING_def INITIALISED_def

definition IsConnecting :: "vpn_state \<Rightarrow> bool" where
  "IsConnecting s \<longleftrightarrow>
     s \<in> {CONNECTING, WAIT, AUTH, GETCONFIG, ASSIGNIP, ADDROUTES, RECONNECTING, TCP_CONNECT}"

definition state_String :: "vpn_state \<Rightarrow> string" where
  "state_String s =
     (if s < DISCONNECTED \<or> s > INITIALISED then ''<Unknown>''
      else [''DISCONNECTED'', ''CONNECTING'', ''WAIT'', ''AUTH'', ''GETCONFIG'', ''ASSIGNIP'',
            ''ADDROUTES'', ''CONNECTED'', ''RECONNECTING'', ''TCP_CONNECT'', ''EXITING'',
            ''INITIALISED''] ! nat s)"

definition state_cutset :: string where
  "state_cutset = [CHR '' '', CHR 0x09, CHR '';'', CHR '','', CHR ''.'']"

definition ParseState :: "string \<Rightarrow> vpn_state \<times> error" where
  "ParseState stateStr0 =
     (let stateStr = trim_set stateStr0 state_cutset in
      if stateStr = ''CONNECTING'' then (CONNECTING, None)
      else if stateStr = ''WAIT'' then (WAIT, None)
      else if stateStr = ''AUTH'' then (AUTH, None)
      else if stateStr = ''GET_CONFIG'' then (GETCONFIG, None)
      else if stateStr = ''ASSIGN_IP'' then (ASSIGNIP, None)
      else if stateStr = ''ADD_ROUTES'' then (ADDROUTES, None)
      else if stateStr = ''CONNECTED'' then (CONNECTED, None)
      else if stateStr = ''RECONNECTING'' then (RECONNECTING, None)
      else if stateStr = ''TCP_CONNECT'' then (TCP_CONNECT, None)
      else if stateStr = ''EXITING'' then (EXITING, None)
      else if stateStr = ''INITIALISED'' then (INITIALISED, None)
      else (DISCONNECTED, Some (Err (''unexpected state:'' @ stateStr))))"

subsection \<open>Obfsproxy and V2Ray settings\<close>

definition ObfsNone :: int where "ObfsNone = 0"
definition OBFS3 :: int where "OBFS3 = 3"
definition OBFS4 :: int where "OBFS4 = 4"

record obfs_config =
  obfs_Version :: int
  Obfs4Iat :: int

definition IsObfsproxy :: "obfs_config \<Rightarrow> bool" where
  "IsObfsproxy c \<longleftrightarrow> obfs_Version c = OBFS3 \<or> obfs_Version c = OBFS4"

definition obfs_Equals :: "obfs_config \<Rightarrow> obfs_config \<Rightarrow> bool" where
  "obfs_Equals c b =
     (if IsObfsproxy c \<noteq> IsObfsproxy b then False
      else if obfs_Version c = obfs_Version b \<and> obfs_Version c = OBFS3 then True
      else obfs_Version c = obfs_Version b \<and> Obfs4Iat c = Obfs4Iat b)"

definition obfs_ToString :: "obfs_config \<Rightarrow> string" where
  "obfs_ToString c =
     (if \<not> IsObfsproxy c then ''disabled''
      else if obfs_Version c = OBFS4
      then ''obfs'' @ show_int (obfs_Version c) @ '', IAT'' @ show_int (Obfs4Iat c)
      else ''obfs'' @ show_int (obfs_Version c))"

definition V2RayNone :: int where "V2RayNone = 0"
definition V2RayQUIC :: int where "V2RayQUIC = 1"
definition V2RayTCP :: int where "V2RayTCP = 2"

definition v2ray_ToString :: "int \<Rightarrow> string" where
  "v2ray_ToString t = (if t = V2RayNone then [] else if t = V2RayQUIC then ''QUIC''
     else if t = V2RayTCP then ''TCP'' else ''unknown'')"

record StateInfo =
  si_State :: vpn_state
  si_Description :: string
  si_VpnType :: vpn_type
  si_Time :: int
  si_IsTCP :: bool
  si_ClientIP :: net_ip
  si_ClientIPv6 :: net_ip
  si_ClientPort :: int
  si_ServerIP :: net_ip
  si_ServerPort :: int
  si_V2RayProxy :: int
  si_Obfsproxy :: obfs_config
  si_ExitHostname :: string
  si_Mtu :: int
  si_IsAuthError :: bool
  si_StateAdditionalInfo :: string

definition NewStateInfo :: "vpn_state \<Rightarrow> string \<Rightarrow> StateInfo" where
  "NewStateInfo st description =
     \<lparr>si_State = st, si_Description = description, si_VpnType = 0, si_Time = 0, si_IsTCP = False,
      si_ClientIP = [], si_ClientIPv6 = [], si_ClientPort = 0, si_ServerIP = [], si_ServerPort = 0,
      si_V2RayProxy = 0, si_Obfsproxy = \<lparr>obfs_Version = 0, Obfs4Iat = 0\<rparr>, si_ExitHostname = [],
      si_Mtu = 0, si_IsAuthError = False, si_StateAdditionalInfo = []\<rparr>"

definition NewStateInfoConnected ::
  "bool \<Rightarrow> net_ip \<Rightarrow> net_ip \<Rightarrow> int \<Rightarrow> net_ip \<Rightarrow> int \<Rightarrow> int \<Rightarrow> StateInfo" where
  "NewStateInfoConnected isTCP clientIP clientIPv6 localPort serverIP destPort mtu =
     (NewStateInfo CONNECTED [])\<lparr>si_IsTCP := isTCP, si_ClientIP := clientIP,
       si_ClientIPv6 := clientIPv6, si_ClientPort := localPort, si_ServerIP := serverIP,
       si_ServerPort := destPort, si_Mtu := mtu\<rparr>"

lemma trim_set_around:
  assumes "a \<in> set cset" "b \<in> set cset"
  shows "trim_set (a # x @ [b]) cset = trim_set x cset"
proof (cases "\<forall>c \<in> set x. c \<in> set cset")
  case True
  have 1: "dropWhile (\<lambda>c. c \<in> set cset) x = []" using True by (simp add: dropWhile_eq_Nil_conv)
  have 2: "dropWhile (\<lambda>c. c \<in> set cset) (a # x @ [b]) = []"
    unfolding dropWhile_eq_Nil_conv using True assms by simp
  show ?thesis unfolding trim_set_def 1 2 ..
next
  case False
  then obtain c where "c \<in> set x" "c \<notin> set cset" by blast
  then have "dropWhile (\<lambda>c. c \<in> set cset) (x @ [b]) = dropWhile (\<lambda>c. c \<in> set cset) x @ [b]"
    by (rule dropWhile_append1)
  then show ?thesis using assms by (simp add: trim_set_def)
qed

lemma in_cutset: "CHR '' '' \<in> set state_cutset" "CHR '';'' \<in> set state_cutset"
  by (simp_all add: state_cutset_def)

text \<open>The texts of the states, as OpenVPN writes them.\<close>

definition openvpn_names :: "(string \<times> vpn_state) list" where
  "openvpn_names =
     [(''CONNECTING'', 1), (''WAIT'', 2), (''AUTH'', 3), (''GET_CONFIG'', 4), (''ASSIGN_IP'', 5),
      (''ADD_ROUTES'', 6), (''CONNECTED'', 7), (''RECONNECTING'', 8), (''TCP_CONNECT'', 9),
      (''EXITING'', 10), (''INITIALISED'', 11)]"

lemma ParseState_alt:
  "ParseState s =
     (case map_of openvpn_names (trim_set s state_cutset) of
        Some st \<Rightarrow> (st, None)
      | None \<Rightarrow> (DISCONNECTED, Some (Err (''unexpected state:'' @ trim_set s state_cutset))))"
  by (simp add: ParseState_def Let_def openvpn_names_def state_defs)

lemma trim_openvpn_name: "(n, st) \<in> set openvpn_names \<Longrightarrow> trim_set n state_cutset = n"
  by (auto simp: openvpn_names_def trim_set_def state_cutset_def)

lemma ParseState_Some: "ParseState s = (st, None) \<longleftrightarrow> map_of openvpn_names (trim_set s state_cutset) = Some st"
  by (auto simp: ParseState_alt split: option.splits)

lemma parse_some_iff: "(\<exists>s. ParseState s = (st, None)) = (CONNECTING \<le> st \<and> st \<le> INITIALISED)"
proof
  assume "\<exists>s. ParseState s = (st, None)"
  then obtain n where "map_of openvpn_names n = Some st" unfolding ParseState_Some by blast
  then have "(n, st) \<in> set openvpn_names" by (rule map_of_SomeD)
  then have "snd (n, st) \<in> snd ` set openvpn_names" by (rule imageI)
  then have "st \<in> set (map snd openvpn_names)" by (simp only: set_map snd_conv)
  then have "st \<in> {1, 2, 3, 4, 5, 6, 7, 8, 9, 10, 11}" by (simp add: openvpn_names_def)
  then show "CONNECTING \<le> st \<and> st \<le> INITIALISED" by (auto simp: CONNECTING_def INITIALISED_def)
next
  assume "CONNECTING \<le> st \<and> st \<le> INITIALISED"
  then have "st = 1 \<or> st = 2 \<or> st = 3 \<or> st = 4 \<or> st = 5 \<or> st = 6 \<or> st = 7 \<or> st = 8 \<or> st = 9
      \<or> st = 10 \<or> st = 11"
    unfolding state_defs by presburger
  then have "st \<in> set (map snd openvpn_names)" by (simp add: openvpn_names_def)
  then obtain p where p: "p \<in> set openvpn_names" "st = snd p" unfolding set_map by blast
  then obtain n where n: "(n, st) \<in> set openvpn_names" by (metis prod.collapse)
  have "distinct (map fst openvpn_names)" by (simp add: openvpn_names_def)
  then have "map_of openvpn_names n = Some st" using n by simp
  then show "\<exists>s. ParseState s = (st, None)"
    unfolding ParseState_Some using trim_openvpn_name [OF n] by metis
qed

lemma state_String_cases:
  "ParseState (state_String st) = (st, None) \<longleftrightarrow>
      st \<in> {CONNECTING, WAIT, AUTH, CONNECTED, RECONNECTING, TCP_CONNECT, EXITING, INITIALISED}"
proof (cases "0 \<le> st \<and> st \<le> 11")
  case True
  have all: "list_all (\<lambda>st. (ParseState (state_String st) = (st, None)) =
      (st \<in> {CONNECTING, WAIT, AUTH, CONNECTED, RECONNECTING, TCP_CONNECT, EXITING, INITIALISED}))
      [0, 1, 2, 3, 4, 5, 6, 7, 8, 9, 10, 11]"
    by code_simp
  have "st \<in> set [0, 1, 2, 3, 4, 5, 6, 7, 8, 9, 10, 11]" using True by simp presburger
  with all show ?thesis unfolding list_all_iff by blast
next
  case False
  then have "state_String st = ''<Unknown>''" by (auto simp: state_String_def state_defs)
  then show ?thesis using False
    by (auto simp: ParseState_Some openvpn_names_def trim_set_def state_cutset_def state_defs)
qed

text \<open>
  Every state but DISCONNECTED is the meaning of some text of OpenVPN, and reading the
  printed name of a state gives that state back for all names OpenVPN and the daemon spell
  alike; GETCONFIG, ASSIGNIP and ADDROUTES, which they spell differently, and DISCONNECTED
  are refused. No text is read as DISCONNECTED without an error, and white space and
  separators around a text do not matter.
\<close>

theorem parse_state_roundtrip:
  "(ParseState (state_String st) = (st, None) \<longleftrightarrow>
      st \<in> {CONNECTING, WAIT, AUTH, CONNECTED, RECONNECTING, TCP_CONNECT, EXITING, INITIALISED})
   \<and> (\<exists>s. ParseState s = (st, None)) = (CONNECTING \<le> st \<and> st \<le> INITIALISED)
   \<and> ParseState ('' '' @ x @ '';'') = ParseState x"
proof -
  have "trim_set ('' '' @ x @ '';'') state_cutset = trim_set x state_cutset"
    using trim_set_around [OF in_cutset, of x] by simp
  then have "ParseState ('' '' @ x @ '';'') = ParseState x" by (simp only: ParseState_alt)
  then show ?thesis using state_String_cases [of st] parse_some_iff [of st] by blast
qed

end
