(* ===== verification/V2Ray_Wrapper.thy ===== *)
theory V2Ray_Wrapper
  imports V2Ray_Config Vpn_Types
begin

section \<open>The V2Ray client process and its route (daemon/v2r: v2ray.go, helper.go, v2ray\_linux.go)\<close>

text \<open>
  The wrapper keeps the configuration and the gateway and local address the route to the
  V2Ray server was made with; the commands it runs are logged, newest first. \<open>v2_env\<close> is
  the world: the result of each command, the local address used towards a host, free
  ports, the default gateway, and what a started process does. An index out of range,
  which the template excludes, panics in Go and is an error here.
\<close>

datatype v2_cmd =
    Route_add net_ip net_ip
  | Route_delete net_ip
  | V2_run V2RayConfig
  | V2_kill

datatype v2_outcome =
    Console_failed gerror
  | Process_failed gerror
  | Port_reported int  \<comment> \<open>0: an error was printed before a port\<close>
  | Start_timeout

record v2_env =
  v2_exec :: "v2_cmd list \<Rightarrow> v2_cmd \<Rightarrow> error"
  GetOutboundIPEx :: "net_ip \<Rightarrow> gerror + net_ip"
  v2_free_port :: "nat \<Rightarrow> bool \<Rightarrow> gerror + int"
  v2_gateway :: "gerror + net_ip"
  v2_write :: "V2RayConfig \<Rightarrow> error"
  v2_run :: "V2RayConfig \<Rightarrow> v2_outcome"

record V2RayWrapper =
  v2_binary :: string
  tempConfigFile :: string
  v2_config :: "V2RayConfig option"
  v2_command :: bool
  defaultGeteway :: net_ip
  localInterfaceIp :: net_ip
  v2_cmds :: "v2_cmd list"

definition CreateV2RayWrapper :: "string \<Rightarrow> string \<Rightarrow> V2RayConfig option \<Rightarrow> V2RayWrapper" where
  "CreateV2RayWrapper binary tmpConfigFile cfg =
     \<lparr>v2_binary = binary, tempConfigFile = tmpConfigFile, v2_config = cfg, v2_command = False,
      defaultGeteway = [], localInterfaceIp = [], v2_cmds = []\<rparr>"

definition v2_shell :: "v2_env \<Rightarrow> v2_cmd \<Rightarrow> V2RayWrapper \<Rightarrow> error \<times> V2RayWrapper" where
  "v2_shell env c v = (v2_exec env (v2_cmds v) c, v\<lparr>v2_cmds := c # v2_cmds v\<rparr>)"

definition wrapper_GetLocalPort :: "V2RayWrapper \<Rightarrow> gerror + int \<times> bool" where
  "wrapper_GetLocalPort v =
     (case v2_config v of
        None \<Rightarrow> Inl (Err ''config is empty'')
      | Some c \<Rightarrow> (case GetLocalPort c of None \<Rightarrow> Inl (Err ''index out of range'') | Some p \<Rightarrow> Inr p))"

definition getRemoteEndpoint :: "V2RayWrapper \<Rightarrow> gerror + net_ip \<times> int \<times> bool" where
  "getRemoteEndpoint v =
     (case v2_config v of
        None \<Rightarrow> Inl (Err ''config is empty'')
      | Some c \<Rightarrow>
          (case Outbounds c of
             [] \<Rightarrow> Inl (Err ''index out of range'')
           | ob # _ \<Rightarrow>
               (case Vnext ob of
                  [] \<Rightarrow> Inl (Err ''index out of range'')
                | vn # _ \<Rightarrow>
                    Inr (parse_ip (vn_Address vn), vn_Port vn,
                         to_lower (Network (StreamSettings ob)) = ''tcp''))))"

subsection \<open>The route to the server\<close>

definition implSetMainRoute :: "v2_env \<Rightarrow> net_ip \<Rightarrow> V2RayWrapper \<Rightarrow> error \<times> V2RayWrapper" where
  "implSetMainRoute env gw v =
     (case getRemoteEndpoint v of
        Inl err \<Rightarrow> (Some (ErrWrap ''getting remote endpoint error '' err), v)
      | Inr (remoteHost, _, _) \<Rightarrow>
          let (err, v) = v2_shell env (Route_add remoteHost gw) v
          in (map_option (ErrWrap ''adding route shell comand error '') err, v))"

definition implDeleteMainRoute :: "v2_env \<Rightarrow> V2RayWrapper \<Rightarrow> error \<times> V2RayWrapper" where
  "implDeleteMainRoute env v =
     (case getRemoteEndpoint v of
        Inl err \<Rightarrow> (Some (ErrWrap ''getting remote endpoint error '' err), v)
      | Inr (remoteHost, _, _) \<Rightarrow> (None, snd (v2_shell env (Route_delete remoteHost) v)))"

definition saveServerRoute :: "net_ip \<Rightarrow> net_ip \<Rightarrow> V2RayWrapper \<Rightarrow> V2RayWrapper" where
  "saveServerRoute gw ip v = v\<lparr>defaultGeteway := gw, localInterfaceIp := ip\<rparr>"

definition getLocalInterfaceIp :: "v2_env \<Rightarrow> V2RayWrapper \<Rightarrow> gerror + net_ip" where
  "getLocalInterfaceIp env v =
     (case getRemoteEndpoint v of
        Inl err \<Rightarrow> Inl err
      | Inr (remoteHost, _, _) \<Rightarrow> GetOutboundIPEx env remoteHost)"

definition setMainRoute :: "v2_env \<Rightarrow> net_ip \<Rightarrow> V2RayWrapper \<Rightarrow> error \<times> V2RayWrapper" where
  "setMainRoute env gw v =
     (if gw = [] then (Some (Err ''default gateway is empty''), v)
      else
        let (err, v) = implSetMainRoute env gw v in
        if err = None then
          (case getLocalInterfaceIp env v of
             Inl e \<Rightarrow> (Some (ErrWrap ''unable to obtain local interface info for V2Ray connection'' e),
                       saveServerRoute gw [] v)
           | Inr ip \<Rightarrow> (None, saveServerRoute gw ip v))
        else (None, v))"

definition deleteMainRoute :: "v2_env \<Rightarrow> V2RayWrapper \<Rightarrow> error \<times> V2RayWrapper" where
  "deleteMainRoute env v = implDeleteMainRoute env (saveServerRoute [] [] v)"

definition updateMainRoute :: "v2_env \<Rightarrow> net_ip \<Rightarrow> bool \<Rightarrow> V2RayWrapper \<Rightarrow> error \<times> V2RayWrapper" where
  "updateMainRoute env gw force v =
     (if gw = [] then (Some (Err ''default gateway is empty''), v)
      else
        let ifChanged =
              (localInterfaceIp v \<noteq> []
               \<and> (case getLocalInterfaceIp env v of
                    Inl _ \<Rightarrow> True
                  | Inr ip \<Rightarrow> \<not> ip_equal (localInterfaceIp v) ip))
        in if \<not> force \<and> \<not> ifChanged \<and> defaultGeteway v \<noteq> [] \<and> ip_equal (defaultGeteway v) gw
           then (None, v)
           else setMainRoute env gw (snd (deleteMainRoute env v)))"

definition isMainRouteLocalInfAddressChanged :: "v2_env \<Rightarrow> V2RayWrapper \<Rightarrow> bool" where
  "isMainRouteLocalInfAddressChanged env v =
     (if localInterfaceIp v = [] then False
      else case getLocalInterfaceIp env v of
             Inl _ \<Rightarrow> False
           | Inr ip \<Rightarrow> \<not> ip_equal (localInterfaceIp v) ip)"

subsection \<open>The process\<close>

definition wrapper_stop :: "v2_env \<Rightarrow> V2RayWrapper \<Rightarrow> error \<times> V2RayWrapper" where
  "wrapper_stop env v = (if \<not> v2_command v then (None, v) else v2_shell env V2_kill v)"

text \<open>What the started process leads to, given its configured port.\<close>

definition v2_check_started :: "int \<times> bool \<Rightarrow> v2_outcome \<Rightarrow> error" where
  "v2_check_started configured outcome =
     (let (port, isTcp) = configured;
          portStr = show_int port @ (if isTcp then '':TCP'' else '':UDP'')
      in case outcome of
           Console_failed e \<Rightarrow> Some (ErrWrap ''failed to init process console reader'' e)
         | Process_failed e \<Rightarrow> Some (ErrWrap ''failed to start client'' e)
         | Port_reported localPort \<Rightarrow>
             if localPort = 0 then Some (Err (''V2Ray start failed (local port '' @ portStr @ '')''))
             else if port \<noteq> localPort
             then Some (Err (''V2Ray client started on unexpected local port: '' @ portStr))
             else None
         | Start_timeout \<Rightarrow> Some (Err (''V2Ray start timeout (port '' @ portStr @ '')'')))"

text \<open>\<open>start\<close> from the route on; its deferred calls delete the route and kill the process.\<close>

definition v2_launch :: "v2_env \<Rightarrow> net_ip \<Rightarrow> V2RayConfig \<Rightarrow> V2RayWrapper \<Rightarrow> error \<times> V2RayWrapper" where
  "v2_launch env gw cfg v =
     (case setMainRoute env gw v of
        (Some err, v) \<Rightarrow> (Some (ErrWrap ''error applying route to remote V2Ray endpoint'' err), v)
      | (None, v) \<Rightarrow>
          let v = (snd (v2_shell env (V2_run cfg) v))\<lparr>v2_command := True\<rparr>;
              configured = (case GetLocalPort cfg of None \<Rightarrow> (0, False) | Some p \<Rightarrow> p)
          in case v2_check_started configured (v2_run env cfg) of
               Some err \<Rightarrow> (Some err, snd (deleteMainRoute env v))
             | None \<Rightarrow> (None, v))"

definition wrapper_start :: "v2_env \<Rightarrow> net_ip \<Rightarrow> V2RayWrapper \<Rightarrow> error \<times> V2RayWrapper" where
  "wrapper_start env gw v =
     (let (err, v) =
        (if v2_binary v = [] then (Some (Err ''path to binary is empty''), v)
         else if tempConfigFile v = [] then (Some (Err ''temp config file is empty''), v)
         else case v2_config v of
           None \<Rightarrow> (Some (Err ''config object is empty''), v)
         | Some cfg \<Rightarrow>
             (case v2_isValid (Some cfg) of
                None \<Rightarrow> (Some (Err ''index out of range''), v)
              | Some (Some err) \<Rightarrow> (Some (ErrWrap ''config is invalid'' err), v)
              | Some None \<Rightarrow>
                  (case v2_write env cfg of
                     Some err \<Rightarrow> (Some (ErrWrap ''error writing v2Ray config file'' err), v)
                   | None \<Rightarrow> v2_launch env gw cfg v)))
      in (err, if err \<noteq> None \<and> v2_command v then snd (v2_shell env V2_kill v) else v))"

definition wrapper_Restart :: "v2_env \<Rightarrow> V2RayWrapper \<Rightarrow> error \<times> V2RayWrapper" where
  "wrapper_Restart env v =
     (case wrapper_stop env v of
        (Some err, v) \<Rightarrow> (Some err, v)
      | (None, v) \<Rightarrow> wrapper_start env (defaultGeteway v) v)"

text \<open>The goroutine that waits for the process to end.\<close>

definition wrapper_exited :: "v2_env \<Rightarrow> V2RayWrapper \<Rightarrow> V2RayWrapper" where
  "wrapper_exited env v = snd (deleteMainRoute env v)"

text \<open>
  The attempts of \<open>Start\<close> from the \<open>i\<close>-th on, \<open>n\<close> of them left. The configuration is
  shared by the attempts; a pointer that is nil is \<open>None\<close>.
\<close>

fun start_attempts ::
  "v2_env \<Rightarrow> string \<Rightarrow> string \<Rightarrow> bool \<Rightarrow> net_ip \<Rightarrow> nat \<Rightarrow> nat \<Rightarrow> error \<Rightarrow> V2RayConfig
     \<Rightarrow> V2RayWrapper option \<times> error" where
  "start_attempts env bin tmp isTcp gw i 0 lastError cfg = (None, lastError)"
| "start_attempts env bin tmp isTcp gw i (Suc n) lastError cfg =
     (case v2_free_port env i isTcp of
        Inl _ \<Rightarrow> start_attempts env bin tmp isTcp gw (i + 1) n lastError cfg
      | Inr port \<Rightarrow>
          let cfg = (case SetLocalPort port isTcp cfg of None \<Rightarrow> cfg | Some c \<Rightarrow> c)
          in case wrapper_start env gw (CreateV2RayWrapper bin tmp (Some cfg)) of
               (Some err, _) \<Rightarrow> start_attempts env bin tmp isTcp gw (i + 1) n (Some err) cfg
             | (None, v) \<Rightarrow> (Some v, None))"

definition v2r_Start where
  "v2r_Start env binary tmpConfigFile isTcpLocalPort outboundType outboundIp outboundPort inboundIp
     inboundPort outboundUserId quicTlsSvrName =
     (let (err, cfg) =
        (if outboundType = V2RayQUIC then
           if quicTlsSvrName = [] then (Some (Err ''TLS server name is empty''), defaultConfig)
           else (None, CreateConfig_OutboundsQuick outboundIp outboundPort inboundIp inboundPort
                  outboundUserId quicTlsSvrName)
         else if outboundType = V2RayTCP then
           (None, CreateConfig_OutboundsTcp outboundIp outboundPort inboundIp inboundPort outboundUserId)
         else (Some (Err ''unknown outbound type''), defaultConfig))
      in case err of
           Some e \<Rightarrow> (None, Some e)
         | None \<Rightarrow>
             (case v2_gateway env of
                Inl e \<Rightarrow> (None, Some (ErrWrap ''failed to get default gateway IP'' e))
              | Inr gw \<Rightarrow> start_attempts env binary tmpConfigFile isTcpLocalPort gw 0 3 None cfg))"

subsection \<open>The route and what the wrapper remembers of it\<close>

text \<open>The routes the commands leave behind, when they succeed.\<close>

fun routes :: "v2_cmd list \<Rightarrow> (net_ip \<times> net_ip) set" where
  "routes [] = {}"
| "routes (Route_add host gw # cs) = insert (host, gw) (routes cs)"
| "routes (Route_delete host # cs) = {r \<in> routes cs. fst r \<noteq> host}"
| "routes (c # cs) = routes cs"

definition route_ok :: "net_ip \<Rightarrow> V2RayWrapper \<Rightarrow> bool" where
  "route_ok host v \<longleftrightarrow> (\<exists>p. getRemoteEndpoint v = Inr (host, p))
     \<and> routes (v2_cmds v) = (if defaultGeteway v = [] then {} else {(host, defaultGeteway v)})"

datatype v2_op = W_Update net_ip bool | W_Exited | W_Stop | W_Start net_ip | W_Restart

fun v2_step :: "v2_env \<Rightarrow> v2_op \<Rightarrow> V2RayWrapper \<Rightarrow> V2RayWrapper" where
  "v2_step env (W_Update gw force) v = snd (updateMainRoute env gw force v)"
| "v2_step env W_Exited v = wrapper_exited env v"
| "v2_step env W_Stop v = snd (wrapper_stop env v)"
| "v2_step env (W_Start gw) v = (if defaultGeteway v = [] then snd (wrapper_start env gw v) else v)"
| "v2_step env W_Restart v = snd (wrapper_Restart env v)"

definition adds_ok :: "v2_env \<Rightarrow> bool" where
  "adds_ok env \<longleftrightarrow> (\<forall>log host gw. v2_exec env log (Route_add host gw) = None)"

lemma endpoint_upd [simp]:
  "getRemoteEndpoint (v\<lparr>v2_cmds := cs\<rparr>) = getRemoteEndpoint v"
  "getRemoteEndpoint (v\<lparr>v2_command := b\<rparr>) = getRemoteEndpoint v"
  "getRemoteEndpoint (v\<lparr>defaultGeteway := gw, localInterfaceIp := ip\<rparr>) = getRemoteEndpoint v"
  by (simp_all add: getRemoteEndpoint_def)

lemma local_upd [simp]:
  "getLocalInterfaceIp env (v\<lparr>v2_cmds := cs\<rparr>) = getLocalInterfaceIp env v"
  by (simp add: getLocalInterfaceIp_def)

lemma route_delete:
  assumes "route_ok host v"
  shows "route_ok host (snd (deleteMainRoute env v))" "defaultGeteway (snd (deleteMainRoute env v)) = []"
proof -
  obtain p where ep: "getRemoteEndpoint v = Inr (host, p)" using assms by (auto simp: route_ok_def)
  have d: "snd (deleteMainRoute env v)
      = v\<lparr>defaultGeteway := [], localInterfaceIp := [], v2_cmds := Route_delete host # v2_cmds v\<rparr>"
    by (simp add: deleteMainRoute_def implDeleteMainRoute_def saveServerRoute_def v2_shell_def ep
        split: prod.split)
  show "defaultGeteway (snd (deleteMainRoute env v)) = []" by (simp add: d)
  have "getRemoteEndpoint (v\<lparr>defaultGeteway := [], localInterfaceIp := [], v2_cmds := cs\<rparr>)
      = getRemoteEndpoint v" for cs by (simp add: getRemoteEndpoint_def)
  moreover have "{r. (r = (host, defaultGeteway v)) \<and> fst r \<noteq> host} = {}" by auto
  ultimately show "route_ok host (snd (deleteMainRoute env v))" using assms ep
    by (simp add: d route_ok_def split: if_splits)
qed

lemma route_set:
  assumes "route_ok host v" "adds_ok env" "defaultGeteway v = [] \<or> defaultGeteway v = gw"
  shows "route_ok host (snd (setMainRoute env gw v))"
  using assms
  by (auto simp: route_ok_def setMainRoute_def implSetMainRoute_def saveServerRoute_def v2_shell_def
      adds_ok_def split: sum.split if_splits)

lemma route_update:
  assumes "route_ok host v" "adds_ok env"
  shows "route_ok host (snd (updateMainRoute env gw force v))"
  using route_set [where v = "snd (deleteMainRoute env v)", OF _ assms(2)] route_delete [where env = env, OF assms(1)] assms(1)
  by (simp add: updateMainRoute_def Let_def)

lemma route_run [simp]:
  "route_ok host (v\<lparr>v2_command := b\<rparr>) = route_ok host v"
  "route_ok host (snd (v2_shell env (V2_run c) v)) = route_ok host v"
  "route_ok host (snd (v2_shell env V2_kill v)) = route_ok host v"
  by (simp_all add: route_ok_def v2_shell_def)

lemma route_launch:
  assumes "route_ok host v" "adds_ok env" "defaultGeteway v = [] \<or> defaultGeteway v = gw"
  shows "route_ok host (snd (v2_launch env gw cfg v))"
proof -
  let ?v = "snd (setMainRoute env gw v)"
  have r: "route_ok host ?v" by (rule route_set [OF assms])
  show ?thesis using r route_delete [of host "(snd (v2_shell env (V2_run cfg) ?v))\<lparr>v2_command := True\<rparr>" env]
    by (cases "setMainRoute env gw v") (auto simp: v2_launch_def Let_def split: option.split)
qed

lemma route_start:
  assumes "route_ok host v" "adds_ok env" "defaultGeteway v = [] \<or> defaultGeteway v = gw"
  shows "route_ok host (snd (wrapper_start env gw v))"
  using route_launch [OF assms] assms(1)
  by (auto simp: wrapper_start_def case_prod_unfold Let_def split: option.split)

lemma stop_keeps: "defaultGeteway (snd (wrapper_stop env v)) = defaultGeteway v"
  "route_ok host (snd (wrapper_stop env v)) = route_ok host v"
  by (simp_all add: wrapper_stop_def) (simp add: v2_shell_def)

lemma route_restart:
  assumes "route_ok host v" "adds_ok env"
  shows "route_ok host (snd (wrapper_Restart env v))"
  using route_start [where v = "snd (wrapper_stop env v)" and gw = "defaultGeteway v", OF _ assms(2)] assms stop_keeps [where env = env and v = v]
  by (cases "wrapper_stop env v") (simp add: wrapper_Restart_def split: option.split)

interpretation v2_machine: safe_machine "v2_step env" "\<lambda>v. adds_ok env \<longrightarrow> route_ok host v" for env host
proof
  fix op v
  assume "adds_ok env \<longrightarrow> route_ok host v"
  then show "adds_ok env \<longrightarrow> route_ok host (v2_step env op v)"
    by (cases op) (simp_all add: route_update route_delete wrapper_exited_def stop_keeps route_start route_restart)
qed


definition sample_v2_env :: v2_env where
  "sample_v2_env = \<lparr>v2_exec = (\<lambda>_ _. None), GetOutboundIPEx = (\<lambda>_. Inr [192, 168, 1, 5]),
     v2_free_port = (\<lambda>_ _. Inr 5000), v2_gateway = Inr [192, 168, 1, 1], v2_write = (\<lambda>_. None),
     v2_run = (\<lambda>_. Port_reported 5000)\<rparr>"

definition sample_v2_config :: V2RayConfig where
  "sample_v2_config = CreateConfig_OutboundsTcp ''1.2.3.4'' 80 ''5.6.7.8'' 15351 ''id''"

lemma sample_endpoint:
  "getRemoteEndpoint (CreateV2RayWrapper b t (Some sample_v2_config)) = Inr (parse_ip ''1.2.3.4'', 80, True)"
  by (simp add: getRemoteEndpoint_def CreateV2RayWrapper_def sample_v2_config_def CreateConfig_OutboundsTcp_def
      createConfigFromTemplate_def upd_stream_def defaultConfig_def Let_def to_lower_def to_lower_char_def)


subsection \<open>Starting the client\<close>

lemma config_keeps [simp]:
  "v2_config (snd (v2_shell env c v)) = v2_config v"
  "v2_config (snd (setMainRoute env gw v)) = v2_config v"
  "v2_config (snd (deleteMainRoute env v)) = v2_config v"
  by (simp_all add: v2_shell_def setMainRoute_def deleteMainRoute_def implSetMainRoute_def
      implDeleteMainRoute_def saveServerRoute_def Let_def split: sum.split)

lemma launch_config [simp]: "v2_config (snd (v2_launch env gw cfg v)) = v2_config v"
  using config_keeps(2) [of env gw v]
  by (cases "setMainRoute env gw v") (simp add: v2_launch_def Let_def split: option.split)

lemma start_config [simp]: "v2_config (snd (wrapper_start env gw v)) = v2_config v"
  by (simp add: wrapper_start_def case_prod_unfold Let_def split: option.split)

lemma set_port:
  assumes "Inbounds c \<noteq> []" "0 < p \<and> p < 65536"
  shows "\<exists>c'. SetLocalPort p isTcp c = Some c' \<and> GetLocalPort c' = Some (p, isTcp) \<and> Outbounds c' = Outbounds c"
  using assms by (cases "Inbounds c")
    (auto simp: SetLocalPort_def GetLocalPort_def atoi_show_int min_int64_def max_int64_def)

text \<open>The \<open>k\<close>-th attempt gets no port, or gets one and leads to this wrapper.\<close>

definition no_port :: "v2_env \<Rightarrow> bool \<Rightarrow> nat \<Rightarrow> bool" where
  "no_port env isTcp k \<longleftrightarrow> (\<exists>x. v2_free_port env k isTcp = Inl x)"

definition got_port :: "v2_env \<Rightarrow> bool \<Rightarrow> V2RayConfig \<Rightarrow> V2RayWrapper \<Rightarrow> nat \<Rightarrow> bool" where
  "got_port env isTcp cfg v k \<longleftrightarrow> (\<exists>p c. v2_free_port env k isTcp = Inr p \<and> Inbounds c \<noteq> []
     \<and> Outbounds c = Outbounds cfg \<and> v2_config v = SetLocalPort p isTcp c)"

lemma start_attempts_spec:
  assumes "Inbounds cfg \<noteq> []"
  shows "case start_attempts env bin tmp isTcp gw i n e cfg of
    (Some v, err) \<Rightarrow> err = None \<and> (\<exists>j<n. got_port env isTcp cfg v (i + j))
  | (None, err) \<Rightarrow> (err = None \<longleftrightarrow> e = None \<and> (\<forall>j<n. no_port env isTcp (i + j)))"
  using assms
proof (induction n arbitrary: i e cfg)
  case (Suc n)
  have all: "(\<forall>j<Suc n. no_port env isTcp (i + j))
      \<longleftrightarrow> no_port env isTcp i \<and> (\<forall>j<n. no_port env isTcp (Suc i + j))"
    by (auto simp: less_Suc_eq_0_disj)
  have ex: "(\<exists>j<Suc n. got_port env isTcp c v (i + j))
      \<longleftrightarrow> got_port env isTcp c v i \<or> (\<exists>j<n. got_port env isTcp c v (Suc i + j))" for c v
    by (auto simp: less_Suc_eq_0_disj)
  show ?case
  proof (cases "v2_free_port env i isTcp")
    case (Inl a)
    then have "no_port env isTcp i" by (simp add: no_port_def)
    then show ?thesis using Suc.IH [OF Suc.prems, where i = "Suc i" and e = e] Inl
      unfolding all ex by (auto split: option.splits)
  next
    case (Inr port)
    define cfg' where "cfg' = cfg\<lparr>Inbounds := (hd (Inbounds cfg))\<lparr>in_Port := show_int port,
       in_Network := (if isTcp then ''tcp'' else ''udp'')\<rparr> # tl (Inbounds cfg)\<rparr>"
    have set: "SetLocalPort port isTcp cfg = Some cfg'"
      using Suc.prems by (cases "Inbounds cfg") (simp_all add: SetLocalPort_def cfg'_def)
    have inb: "Inbounds cfg' \<noteq> []" and outb: "Outbounds cfg' = Outbounds cfg" by (simp_all add: cfg'_def)
    let ?w = "CreateV2RayWrapper bin tmp (Some cfg')"
    show ?thesis
    proof (cases "fst (wrapper_start env gw ?w)")
      case None
      moreover have "v2_config (snd (wrapper_start env gw ?w)) = Some cfg'"
        by (simp add: CreateV2RayWrapper_def)
      ultimately have "got_port env isTcp cfg (snd (wrapper_start env gw ?w)) i"
        using Inr set Suc.prems by (auto simp: got_port_def)
      then show ?thesis using Inr set None unfolding ex
        by (cases "wrapper_start env gw ?w") simp
    next
      case (Some a)
      moreover have "got_port env isTcp cfg' v k = got_port env isTcp cfg v k" for v k
        by (simp add: got_port_def outb)
      moreover have "\<not> no_port env isTcp i" using Inr by (simp add: no_port_def)
      ultimately show ?thesis using Inr set Suc.IH [OF inb, where i = "Suc i" and e = "Some a"]
        unfolding all ex by (cases "wrapper_start env gw ?w") (auto split: option.splits)
    qed
  qed
qed simp

lemma attempts_result:
  assumes ports: "\<forall>i t p. v2_free_port env i t = Inr p \<longrightarrow> 0 < p \<and> p < 65536"
    and inb: "Inbounds cfg \<noteq> []"
    and ep: "\<forall>c v. Outbounds c = Outbounds cfg \<longrightarrow> v2_config v = Some c \<longrightarrow> getRemoteEndpoint v = r"
  shows "case start_attempts env bin tmp isTcp gw 0 3 None cfg of
      (Some v, err) \<Rightarrow> err = None \<and> getRemoteEndpoint v = r
        \<and> (\<exists>j<3. \<exists>p. v2_free_port env j isTcp = Inr p \<and> wrapper_GetLocalPort v = Inr (p, isTcp))
    | (None, err) \<Rightarrow> (err = None \<longleftrightarrow> (\<forall>j<3. \<exists>e. v2_free_port env j isTcp = Inl e))"
proof -
  have port: "wrapper_GetLocalPort v = Inr (p, isTcp) \<and> (\<exists>c'. v2_config v = Some c' \<and> Outbounds c' = Outbounds c)"
    if "v2_free_port env j isTcp = Inr p" "Inbounds c \<noteq> []" "v2_config v = SetLocalPort p isTcp c" for j p c v
  proof -
    have "0 < p \<and> p < 65536" using ports that(1) by blast
    then show ?thesis using set_port [of c p isTcp] that(2,3)
      by (cases "SetLocalPort p isTcp c") (auto simp: wrapper_GetLocalPort_def)
  qed
  note spec = start_attempts_spec [where env = env and isTcp = isTcp and gw = gw and i = 0 and n = 3
      and e = None and bin = bin and tmp = tmp, OF inb]
  show ?thesis
  proof (cases "fst (start_attempts env bin tmp isTcp gw 0 3 None cfg)")
    case None
    then show ?thesis using spec by (auto simp: no_port_def split: prod.splits)
  next
    case (Some v)
    with spec obtain j p c where j: "snd (start_attempts env bin tmp isTcp gw 0 3 None cfg) = None"
      "j < 3" "v2_free_port env j isTcp = Inr p"
      "Inbounds c \<noteq> []" "Outbounds c = Outbounds cfg" "v2_config v = SetLocalPort p isTcp c"
      by (auto simp: got_port_def split: prod.splits)
    from port [OF j(3,4,6)] ep j(5) have "wrapper_GetLocalPort v = Inr (p, isTcp)" "getRemoteEndpoint v = r"
      by auto
    then show ?thesis using j Some by (auto split: prod.split)
  qed
qed

lemma created_endpoint:
  "\<forall>c v. Outbounds c = Outbounds (CreateConfig_OutboundsTcp outIp outPort inIp inPort uid) \<longrightarrow>
     v2_config v = Some c \<longrightarrow> getRemoteEndpoint v = Inr (parse_ip outIp, outPort, True)"
  "\<forall>c v. Outbounds c = Outbounds (CreateConfig_OutboundsQuick outIp outPort inIp inPort uid tls) \<longrightarrow>
     v2_config v = Some c \<longrightarrow> getRemoteEndpoint v = Inr (parse_ip outIp, outPort, False)"
  by (auto simp: getRemoteEndpoint_def CreateConfig_OutboundsTcp_def
      CreateConfig_OutboundsQuick_def createConfigFromTemplate_def upd_stream_def defaultConfig_def Let_def
      to_lower_def to_lower_char_def)

lemma created_inbounds:
  "Inbounds (CreateConfig_OutboundsTcp outIp outPort inIp inPort uid) \<noteq> []"
  "Inbounds (CreateConfig_OutboundsQuick outIp outPort inIp inPort uid tls) \<noteq> []"
  by (simp_all add: CreateConfig_OutboundsTcp_def CreateConfig_OutboundsQuick_def
      createConfigFromTemplate_def upd_stream_def defaultConfig_def Let_def)

lemma transports_differ: "V2RayTCP \<noteq> V2RayQUIC"
  by (simp add: V2RayTCP_def V2RayQUIC_def)

lemmas tcp_result = attempts_result [OF _ created_inbounds(1) created_endpoint(1)]
lemmas quic_result = attempts_result [OF _ created_inbounds(2) created_endpoint(2)]

text \<open>A wrapper that is returned, for the code that goes on with it.\<close>

lemma v2r_Start_wrapper:
  assumes ports: "\<forall>i t p. v2_free_port env i t = Inr p \<longrightarrow> 0 < p \<and> p < 65536"
    and "v2r_Start env bin tmp isTcp outType outIp outPort inIp inPort uid tls = (Some v, err)"
  shows "getRemoteEndpoint v = Inr (parse_ip outIp, outPort, outType = V2RayTCP)"
    "\<exists>p. wrapper_GetLocalPort v = Inr (p, isTcp) \<and> 0 < p \<and> p < 65536"
proof -
  obtain gw where gw: "v2_gateway env = Inr gw"
    using assms(2) transports_differ by (cases "v2_gateway env") (auto simp: v2r_Start_def split: if_splits)
  have "getRemoteEndpoint v = Inr (parse_ip outIp, outPort, outType = V2RayTCP)
      \<and> (\<exists>j<3. \<exists>p. v2_free_port env j isTcp = Inr p \<and> wrapper_GetLocalPort v = Inr (p, isTcp))"
    using assms(2) gw transports_differ
      tcp_result [OF ports, where gw = gw and bin = bin and tmp = tmp and isTcp = isTcp and outIp = outIp
        and outPort = outPort and inIp = inIp and inPort = inPort and uid = uid]
      quic_result [OF ports, where gw = gw and bin = bin and tmp = tmp and isTcp = isTcp and outIp = outIp
        and outPort = outPort and inIp = inIp and inPort = inPort and uid = uid and tls = tls]
    by (auto simp: v2r_Start_def split: if_splits option.splits prod.splits)
  then show "getRemoteEndpoint v = Inr (parse_ip outIp, outPort, outType = V2RayTCP)"
    "\<exists>p. wrapper_GetLocalPort v = Inr (p, isTcp) \<and> 0 < p \<and> p < 65536" using ports by blast+
qed

text \<open>
  What \<open>Start\<close> returns. A wrapper comes without an error, listens on the free port of
  one of its three attempts and is directed at the given server, over TCP exactly for the
  TCP transport. No wrapper comes without an error exactly when the transport is
  acceptable, the gateway is known and every attempt fails to get a free port: then
  \<open>startV2Ray\<close>, which only tests the error, goes on with a nil pointer.
\<close>

theorem v2_start_result:
  assumes "\<forall>i t p. v2_free_port env i t = Inr p \<longrightarrow> 0 < p \<and> p < 65536"
  shows "case v2r_Start env bin tmp isTcp outType outIp outPort inIp inPort uid tls of
    (Some v, err) \<Rightarrow> err = None \<and> getRemoteEndpoint v = Inr (parse_ip outIp, outPort, outType = V2RayTCP)
      \<and> (\<exists>j<3. \<exists>p. v2_free_port env j isTcp = Inr p \<and> wrapper_GetLocalPort v = Inr (p, isTcp))
  | (None, err) \<Rightarrow> (err = None \<longleftrightarrow>
      (outType = V2RayTCP \<or> outType = V2RayQUIC \<and> tls \<noteq> []) \<and> (\<exists>gw. v2_gateway env = Inr gw)
      \<and> (\<forall>j<3. \<exists>e. v2_free_port env j isTcp = Inl e))"
proof (cases "v2_gateway env")
  case (Inl e)
  then show ?thesis using transports_differ by (simp add: v2r_Start_def)
next
  case (Inr gw)
  then show ?thesis
    using transports_differ
      tcp_result [OF assms, where gw = gw and bin = bin and tmp = tmp and isTcp = isTcp and outIp = outIp
        and outPort = outPort and inIp = inIp and inPort = inPort and uid = uid]
      quic_result [OF assms, where gw = gw and bin = bin and tmp = tmp and isTcp = isTcp and outIp = outIp
        and outPort = outPort and inIp = inIp and inPort = inPort and uid = uid and tls = tls]
    by (auto simp: v2r_Start_def split: option.splits)
qed

definition no_port_env :: v2_env where
  "no_port_env = sample_v2_env\<lparr>v2_free_port := (\<lambda>_ _. Inl (Err ''no port''))\<rparr>"

theorem v2_start_result_witness:
  "v2r_Start no_port_env ''b'' ''t'' False V2RayTCP ''1.2.3.4'' 80 ''5.6.7.8'' 15351 ''id'' [] = (None, None)"
proof -
  have p: "\<forall>i t p. v2_free_port no_port_env i t = Inr p \<longrightarrow> 0 < p \<and> p < 65536"
    by (simp add: no_port_env_def)
  have "start_attempts no_port_env ''b'' ''t'' False [192, 168, 1, 1] 0 3 None cfg = (None, None)" for cfg
    by (simp add: no_port_env_def eval_nat_numeral)
  then have "fst (v2r_Start no_port_env ''b'' ''t'' False V2RayTCP ''1.2.3.4'' 80 ''5.6.7.8'' 15351 ''id'' []) = None"
    by (simp add: v2r_Start_def V2RayTCP_def V2RayQUIC_def no_port_env_def sample_v2_env_def)
  then show ?thesis
    using v2_start_result [where bin = "''b''" and tmp = "''t''" and isTcp = False and outType = V2RayTCP
        and outIp = "''1.2.3.4''" and outPort = 80 and inIp = "''5.6.7.8''" and inPort = 15351
        and uid = "''id''" and tls = "[]", OF p]
    by (auto simp: no_port_env_def sample_v2_env_def split: option.splits prod.splits)
qed

end
