(* ===== verification/Connection.thy ===== *)
theory Connection
  imports Vpn_Types
begin

section \<open>Connection parameters (daemon/service/types/connection.go)\<close>

text \<open>
  The parameters of a connection and the choice of its hosts before connecting.
  \<open>rnd i n\<close> is what the \<open>i\<close>-th call of \<open>rand.Int\<close> gives for the bound \<open>n\<close>: \<open>None\<close> when
  it fails, otherwise (by its documentation, \<open>rnd_ok\<close>) a number below \<open>n\<close>. A method
  that changes its receiver returns it, changed, also when it reports an error.
\<close>

definition SelDefault :: int where "SelDefault = 0"
definition SelFastest :: int where "SelFastest = 1"
definition SelRandom :: int where "SelRandom = 2"

record AntiTrackerMetadata =
  at_Enabled :: bool
  at_HardcoreOn :: bool
  AntiTrackerBlockListName :: string

definition at_IsEnabled :: "AntiTrackerMetadata \<Rightarrow> bool" where
  "at_IsEnabled a = at_Enabled a"

definition at_Equal :: "AntiTrackerMetadata \<Rightarrow> AntiTrackerMetadata \<Rightarrow> bool" where
  "at_Equal a b \<longleftrightarrow> at_Enabled a = at_Enabled b \<and> at_HardcoreOn a = at_HardcoreOn b
     \<and> AntiTrackerBlockListName a = AntiTrackerBlockListName b"

record ConnectMetadata =
  ServerSelectionEntry :: int
  ServerSelectionExit :: int
  FastestGatewaysExcludeList :: "string list"
  AntiTracker :: AntiTrackerMetadata

record ConnPort =
  cport_Protocol :: int
  cport_Port :: int

record WireGuardParams =
  wg_Port :: ConnPort
  wg_Entry :: "WireGuardServerHostInfo list"
  wg_ExitSrvID :: string
  wg_Exit :: "WireGuardServerHostInfo list"
  wg_Mtu :: int
  wg_V2RayProxy :: int

record ConnProxy =
  proxy_Type :: string
  proxy_Address :: string
  proxy_Port :: int
  proxy_Username :: string
  proxy_Password :: string

record OpenVpnParams =
  ovpn_Entry :: "OpenVPNServerHostInfo list"
  ovpn_ExitSrvID :: string
  ovpn_Exit :: "OpenVPNServerHostInfo list"
  ovpn_Proxy :: ConnProxy
  ovpn_Port :: ConnPort
  ovpn_Obfs4proxy :: obfs_config
  ovpn_V2RayProxy :: int

record ConnectionParams =
  Metadata :: ConnectMetadata
  IPv6 :: bool
  IPv6Only :: bool
  VpnType :: vpn_type
  ManualDNS :: DnsSettings
  FirewallOn :: bool
  FirewallOnDuringConnection :: bool
  WireGuardParameters :: WireGuardParams
  OpenVpnParameters :: OpenVpnParams

definition zero_port :: ConnPort where
  "zero_port = \<lparr>cport_Protocol = 0, cport_Port = 0\<rparr>"

text \<open>The zero value of the Go struct.\<close>

definition noConnectionParams :: ConnectionParams where
  "noConnectionParams =
     \<lparr>Metadata = \<lparr>ServerSelectionEntry = SelDefault, ServerSelectionExit = SelDefault,
        FastestGatewaysExcludeList = [],
        AntiTracker = \<lparr>at_Enabled = False, at_HardcoreOn = False, AntiTrackerBlockListName = []\<rparr>\<rparr>,
      IPv6 = False, IPv6Only = False, VpnType = OpenVPN, ManualDNS = noDns, FirewallOn = False,
      FirewallOnDuringConnection = False,
      WireGuardParameters = \<lparr>wg_Port = zero_port, wg_Entry = [], wg_ExitSrvID = [], wg_Exit = [],
        wg_Mtu = 0, wg_V2RayProxy = V2RayNone\<rparr>,
      OpenVpnParameters = \<lparr>ovpn_Entry = [], ovpn_ExitSrvID = [], ovpn_Exit = [],
        ovpn_Proxy = \<lparr>proxy_Type = [], proxy_Address = [], proxy_Port = 0, proxy_Username = [],
          proxy_Password = []\<rparr>,
        ovpn_Port = zero_port, ovpn_Obfs4proxy = \<lparr>obfs_Version = ObfsNone, Obfs4Iat = 0\<rparr>,
        ovpn_V2RayProxy = V2RayNone\<rparr>\<rparr>"

definition IsMultiHop :: "ConnectionParams \<Rightarrow> bool" where
  "IsMultiHop p \<longleftrightarrow>
     (if VpnType p = OpenVPN then length (ovpn_Exit (OpenVpnParameters p)) > 0
      else length (wg_Exit (WireGuardParameters p)) > 0)"

definition CheckIsDefined :: "ConnectionParams \<Rightarrow> error" where
  "CheckIsDefined p =
     (if VpnType p = WireGuard then
        if length (wg_Entry (WireGuardParameters p)) \<le> 0
        then Some (Err ''no hosts defined for WireGuard connection'') else None
      else if length (ovpn_Entry (OpenVpnParameters p)) \<le> 0
        then Some (Err ''no hosts defined for OpenVPN connection'') else None)"

definition conn_Port :: "ConnectionParams \<Rightarrow> int \<times> bool" where
  "conn_Port p =
     (if VpnType p = WireGuard
      then (cport_Port (wg_Port (WireGuardParameters p)), cport_Protocol (wg_Port (WireGuardParameters p)) > 0)
      else (cport_Port (ovpn_Port (OpenVpnParameters p)), cport_Protocol (ovpn_Port (OpenVpnParameters p)) > 0))"

definition conn_V2Ray :: "ConnectionParams \<Rightarrow> int" where
  "conn_V2Ray p = (if VpnType p = WireGuard then wg_V2RayProxy (WireGuardParameters p)
                   else ovpn_V2RayProxy (OpenVpnParameters p))"

subsection \<open>NormalizeHosts\<close>

text \<open>One host of a list: the \<open>i\<close>-th random choice.\<close>

definition random_host :: "(nat \<Rightarrow> nat \<Rightarrow> nat option) \<Rightarrow> nat \<Rightarrow> 'a list \<Rightarrow> 'a list" where
  "random_host rnd i hosts =
     (if length hosts > 1 then
        [case rnd i (length hosts) of Some r \<Rightarrow> hosts ! r | None \<Rightarrow> hosts ! 0]
      else hosts)"

text \<open>The filter of the exit hosts: whether some host has a port, and the hosts kept.\<close>

fun exit_filter ::
  "bool \<Rightarrow> WireGuardServerHostInfo list \<Rightarrow> bool \<times> WireGuardServerHostInfo list" where
  "exit_filter ipv6 [] = (False, [])"
| "exit_filter ipv6 (h # hs) =
     (let (isHasMHPort, kept) = exit_filter ipv6 hs in
      if MultihopPort h = 0 then (isHasMHPort, kept)
      else if ipv6 \<and> ipv6_LocalIP (wg_IPv6 h) = [] then (True, kept)
      else (True, h # kept))"

definition NormalizeHosts ::
  "(nat \<Rightarrow> nat \<Rightarrow> nat option) \<Rightarrow> ConnectionParams \<Rightarrow> error \<times> ConnectionParams" where
  "NormalizeHosts rnd p =
     (if VpnType p = OpenVPN then
        let o' = OpenVpnParameters p;
            o' = o'\<lparr>ovpn_Entry := random_host rnd 0 (ovpn_Entry o')\<rparr>;
            o' = o'\<lparr>ovpn_Exit := random_host rnd 1 (ovpn_Exit o')\<rparr>
        in (None, p\<lparr>OpenVpnParameters := o'\<rparr>)
      else if VpnType p = WireGuard then
        let w = WireGuardParameters p;
            ipv6Hosts = filter (\<lambda>h. ipv6_LocalIP (wg_IPv6 h) \<noteq> []) (wg_Entry w)
        in if IPv6 p \<and> length ipv6Hosts = 0 \<and> IPv6Only p then
             (Some (Err ''unable to make IPv6 connection inside tunnel. Server does not support IPv6''), p)
           else
             let w = (if IPv6 p \<and> length ipv6Hosts \<noteq> 0 then w\<lparr>wg_Entry := ipv6Hosts\<rparr> else w);
                 multihopExitHosts = wg_Exit w;
                 (isHasMHPort, filteredExitHosts) = exit_filter (IPv6 p) multihopExitHosts
             in if length multihopExitHosts > 0 \<and> length filteredExitHosts = 0 \<and> \<not> isHasMHPort then
                  (Some (Err ''unable to make Multi-Hop connection inside tunnel. Exit server does not support Multi-Hop''),
                   p\<lparr>WireGuardParameters := w\<rparr>)
                else if length multihopExitHosts > 0 \<and> length filteredExitHosts = 0 \<and> IPv6Only p then
                  (Some (Err ''unable to make IPv6 Multi-Hop connection inside tunnel. Exit server does not support IPv6''),
                   p\<lparr>WireGuardParameters := w\<rparr>)
                else
                  let w = (if length multihopExitHosts > 0 \<and> length filteredExitHosts \<noteq> 0
                           then w\<lparr>wg_Exit := filteredExitHosts\<rparr> else w);
                      w = w\<lparr>wg_Entry := random_host rnd 0 (wg_Entry w)\<rparr>;
                      w = w\<lparr>wg_Exit := random_host rnd 1 (wg_Exit w)\<rparr>
                  in (None, p\<lparr>WireGuardParameters := w\<rparr>)
      else (Some (Err (''unknown VPN type: '' @ show_int (VpnType p))), p))"

subsection \<open>Properties\<close>

definition rnd_ok :: "(nat \<Rightarrow> nat \<Rightarrow> nat option) \<Rightarrow> bool" where
  "rnd_ok rnd \<longleftrightarrow> (\<forall>i n r. rnd i n = Some r \<longrightarrow> r < n)"

lemma random_host_spec:
  assumes "rnd_ok rnd"
  shows "set (random_host rnd i hosts) \<subseteq> set hosts" "length (random_host rnd i hosts) = min 1 (length hosts)"
  using assms by (auto simp: random_host_def rnd_ok_def min_def split: option.split intro: nth_mem)

lemma random_host_any:
  "h \<in> set hosts \<Longrightarrow> \<exists>rnd. rnd_ok rnd \<and> random_host rnd i hosts = [h]"
proof -
  assume "h \<in> set hosts"
  then obtain r where r: "r < length hosts" "hosts ! r = h" by (auto simp: in_set_conv_nth)
  let ?rnd = "\<lambda>(j::nat) n. if r < n then Some r else None"
  have "rnd_ok ?rnd" by (simp add: rnd_ok_def)
  moreover have "random_host ?rnd i hosts = [h]"
    using r by (cases hosts; cases "tl hosts") (auto simp: random_host_def)
  ultimately show ?thesis by blast
qed

lemma exit_filter_spec:
  "exit_filter v hs = ((\<exists>h \<in> set hs. MultihopPort h \<noteq> 0),
     filter (\<lambda>h. MultihopPort h \<noteq> 0 \<and> (v \<longrightarrow> ipv6_LocalIP (wg_IPv6 h) \<noteq> [])) hs)"
  by (induction hs) auto

text \<open>The hosts the random choice is made from.\<close>

definition six_hosts :: "ConnectionParams \<Rightarrow> WireGuardServerHostInfo list" where
  "six_hosts p = filter (\<lambda>h. ipv6_LocalIP (wg_IPv6 h) \<noteq> []) (wg_Entry (WireGuardParameters p))"

definition kept_hosts :: "ConnectionParams \<Rightarrow> WireGuardServerHostInfo list" where
  "kept_hosts p = filter (\<lambda>h. MultihopPort h \<noteq> 0 \<and> (IPv6 p \<longrightarrow> ipv6_LocalIP (wg_IPv6 h) \<noteq> []))
     (wg_Exit (WireGuardParameters p))"

definition norm_entry :: "ConnectionParams \<Rightarrow> WireGuardServerHostInfo list" where
  "norm_entry p = (if IPv6 p \<and> six_hosts p \<noteq> [] then six_hosts p else wg_Entry (WireGuardParameters p))"

definition norm_exit :: "ConnectionParams \<Rightarrow> WireGuardServerHostInfo list" where
  "norm_exit p = (if kept_hosts p \<noteq> [] then kept_hosts p else wg_Exit (WireGuardParameters p))"

definition norm_fails :: "ConnectionParams \<Rightarrow> bool" where
  "norm_fails p \<longleftrightarrow> IPv6 p \<and> six_hosts p = [] \<and> IPv6Only p
     \<or> wg_Exit (WireGuardParameters p) \<noteq> [] \<and> kept_hosts p = []
       \<and> (IPv6Only p \<or> (\<forall>h \<in> set (wg_Exit (WireGuardParameters p)). MultihopPort h = 0))"

lemma exit_filter_kept:
  "exit_filter (IPv6 p) (wg_Exit (WireGuardParameters p)) =
     ((\<exists>h \<in> set (wg_Exit (WireGuardParameters p)). MultihopPort h \<noteq> 0), kept_hosts p)"
  by (simp add: exit_filter_spec kept_hosts_def)

lemma NormalizeHosts_wg:
  assumes "VpnType p = WireGuard"
  shows "NormalizeHosts rnd p =
    (if IPv6 p \<and> six_hosts p = [] \<and> IPv6Only p then
       (Some (Err ''unable to make IPv6 connection inside tunnel. Server does not support IPv6''), p)
     else
       let w = (WireGuardParameters p)\<lparr>wg_Entry := norm_entry p\<rparr>;
           exits = wg_Exit (WireGuardParameters p)
       in if exits \<noteq> [] \<and> kept_hosts p = [] \<and> \<not> (\<exists>h \<in> set exits. MultihopPort h \<noteq> 0) then
            (Some (Err ''unable to make Multi-Hop connection inside tunnel. Exit server does not support Multi-Hop''),
             p\<lparr>WireGuardParameters := w\<rparr>)
          else if exits \<noteq> [] \<and> kept_hosts p = [] \<and> IPv6Only p then
            (Some (Err ''unable to make IPv6 Multi-Hop connection inside tunnel. Exit server does not support IPv6''),
             p\<lparr>WireGuardParameters := w\<rparr>)
          else
            (None, p\<lparr>WireGuardParameters := w\<lparr>wg_Entry := random_host rnd 0 (norm_entry p),
                                              wg_Exit := random_host rnd 1 (norm_exit p)\<rparr>\<rparr>))"
proof -
  have ne: "VpnType p \<noteq> OpenVPN" using assms by (simp add: OpenVPN_def WireGuard_def)
  define w where "w = (if IPv6 p \<and> length (six_hosts p) \<noteq> 0
      then (WireGuardParameters p)\<lparr>wg_Entry := six_hosts p\<rparr> else WireGuardParameters p)"
  have w: "w = (WireGuardParameters p)\<lparr>wg_Entry := norm_entry p\<rparr>" by (simp add: w_def norm_entry_def)
  have we: "wg_Exit w = wg_Exit (WireGuardParameters p)" by (simp add: w)
  have k: "kept_hosts p = []" if "wg_Exit (WireGuardParameters p) = []" using that by (simp add: kept_hosts_def)
  have w2: "(if length (wg_Exit (WireGuardParameters p)) > 0 \<and> length (kept_hosts p) \<noteq> 0
      then w\<lparr>wg_Exit := kept_hosts p\<rparr> else w) = w\<lparr>wg_Exit := norm_exit p\<rparr>"
  proof (cases "kept_hosts p = []")
    case True
    have "w\<lparr>wg_Exit := wg_Exit w\<rparr> = w" by simp
    then show ?thesis using True we by (simp add: norm_exit_def)
  next
    case False
    then show ?thesis using k by (auto simp: norm_exit_def)
  qed
  have we2: "wg_Entry (w\<lparr>wg_Exit := norm_exit p\<rparr>) = norm_entry p" by (simp add: w)
  show ?thesis
    unfolding NormalizeHosts_def Let_def six_hosts_def [symmetric] w_def [symmetric] we
      exit_filter_kept if_not_P [OF ne] if_P [OF assms] prod.case w2 we2
    unfolding w by simp
qed

lemma normalize_wg:
  assumes "VpnType p = WireGuard"
  shows "fst (NormalizeHosts rnd p) = None \<longleftrightarrow> \<not> norm_fails p"
    and "\<not> norm_fails p \<Longrightarrow> wg_Entry (WireGuardParameters (snd (NormalizeHosts rnd p))) = random_host rnd 0 (norm_entry p)"
    and "\<not> norm_fails p \<Longrightarrow> wg_Exit (WireGuardParameters (snd (NormalizeHosts rnd p))) = random_host rnd 1 (norm_exit p)"
proof -
  have noport: "kept_hosts p = []" if "\<forall>h \<in> set (wg_Exit (WireGuardParameters p)). MultihopPort h = 0"
    using that by (simp add: kept_hosts_def filter_empty_conv)
  show "fst (NormalizeHosts rnd p) = None \<longleftrightarrow> \<not> norm_fails p"
    using noport by (auto simp: NormalizeHosts_wg [OF assms] norm_fails_def Let_def)
  show "wg_Entry (WireGuardParameters (snd (NormalizeHosts rnd p))) = random_host rnd 0 (norm_entry p)"
    "wg_Exit (WireGuardParameters (snd (NormalizeHosts rnd p))) = random_host rnd 1 (norm_exit p)"
    if "\<not> norm_fails p"
    using that by (auto simp: NormalizeHosts_wg [OF assms] norm_fails_def Let_def)
qed

lemma norm_entry_spec:
  "set (norm_entry p) \<subseteq> set (wg_Entry (WireGuardParameters p))"
  "norm_entry p = [] \<longleftrightarrow> wg_Entry (WireGuardParameters p) = []"
  "IPv6 p \<Longrightarrow> IPv6Only p \<Longrightarrow> \<not> norm_fails p \<Longrightarrow> h \<in> set (norm_entry p) \<Longrightarrow> ipv6_LocalIP (wg_IPv6 h) \<noteq> []"
  by (auto simp: norm_entry_def six_hosts_def norm_fails_def split: if_splits)

lemma norm_exit_spec:
  "set (norm_exit p) \<subseteq> set (wg_Exit (WireGuardParameters p))"
  "norm_exit p = [] \<longleftrightarrow> wg_Exit (WireGuardParameters p) = []"
  "IPv6 p \<Longrightarrow> IPv6Only p \<Longrightarrow> \<not> norm_fails p \<Longrightarrow> h \<in> set (norm_exit p) \<Longrightarrow> ipv6_LocalIP (wg_IPv6 h) \<noteq> []"
  by (auto simp: norm_exit_def kept_hosts_def norm_fails_def filter_empty_conv split: if_splits)

lemma norm_exit_port:
  assumes "\<not> IPv6 p \<or> IPv6Only p" "\<not> norm_fails p" "h \<in> set (norm_exit p)"
  shows "MultihopPort h \<noteq> 0"
proof (cases "kept_hosts p = []")
  case True
  then have "h \<in> set (wg_Exit (WireGuardParameters p))" using assms(3) by (simp add: norm_exit_def)
  then show ?thesis using assms(1,2) True by (auto simp: norm_fails_def kept_hosts_def filter_empty_conv)
next
  case False
  then have "h \<in> set (kept_hosts p)" using assms(3) by (simp add: norm_exit_def)
  then show ?thesis by (simp add: kept_hosts_def)
qed

lemma min_1_length: "(xs = []) = (ys = []) \<Longrightarrow> min 1 (length xs) = min 1 (length ys)"
  by (cases xs; cases ys) auto

text \<open>
  When the hosts of a WireGuard connection are normalised without an error, at most one
  entry and one exit host remain, taken from the given ones, and none is lost: there is an
  entry (exit) host after it exactly if there was one before. With IPv6Only requested, the
  entry host supports IPv6; an exit host has a multi-hop port and, with IPv6Only
  requested, supports IPv6, unless IPv6 is only preferred.
\<close>

theorem normalize_hosts_wireguard:
  assumes "rnd_ok rnd" and "VpnType p = WireGuard" and "NormalizeHosts rnd p = (None, p')"
  shows "length (wg_Entry (WireGuardParameters p')) = min 1 (length (wg_Entry (WireGuardParameters p)))
     \<and> length (wg_Exit (WireGuardParameters p')) = min 1 (length (wg_Exit (WireGuardParameters p)))
     \<and> set (wg_Entry (WireGuardParameters p')) \<subseteq> set (wg_Entry (WireGuardParameters p))
     \<and> set (wg_Exit (WireGuardParameters p')) \<subseteq> set (wg_Exit (WireGuardParameters p))
     \<and> (IPv6 p \<and> IPv6Only p \<longrightarrow>
          (\<forall>h \<in> set (wg_Entry (WireGuardParameters p')). ipv6_LocalIP (wg_IPv6 h) \<noteq> [])
          \<and> (\<forall>h \<in> set (wg_Exit (WireGuardParameters p')). ipv6_LocalIP (wg_IPv6 h) \<noteq> []))
     \<and> (\<not> IPv6 p \<or> IPv6Only p \<longrightarrow>
          (\<forall>h \<in> set (wg_Exit (WireGuardParameters p')). MultihopPort h \<noteq> 0))"
proof -
  have ok: "\<not> norm_fails p" using normalize_wg(1) [OF assms(2), of rnd] assms(3) by simp
  have e: "wg_Entry (WireGuardParameters p') = random_host rnd 0 (norm_entry p)"
    using normalize_wg(2) [OF assms(2) ok, of rnd] assms(3) by simp
  have x: "wg_Exit (WireGuardParameters p') = random_host rnd 1 (norm_exit p)"
    using normalize_wg(3) [OF assms(2) ok, of rnd] assms(3) by simp
  note re = random_host_spec [OF assms(1), of 0 "norm_entry p"]
  note rx = random_host_spec [OF assms(1), of 1 "norm_exit p"]
  have "length (wg_Entry (WireGuardParameters p')) = min 1 (length (wg_Entry (WireGuardParameters p)))"
    unfolding e re(2) by (rule min_1_length [OF norm_entry_spec(2)])
  moreover have "length (wg_Exit (WireGuardParameters p')) = min 1 (length (wg_Exit (WireGuardParameters p)))"
    unfolding x rx(2) by (rule min_1_length [OF norm_exit_spec(2)])
  ultimately show ?thesis
    using re(1) rx(1) norm_entry_spec(1,3) [of p] norm_exit_spec(1,3) [of p] norm_exit_port [of p] ok
    unfolding e x by blast
qed

definition sample_wg_host :: "int \<Rightarrow> string \<Rightarrow> WireGuardServerHostInfo" where
  "sample_wg_host port six = \<lparr>Hostname = ''de1'', Host = ''1.2.3.4'', DnsName = [], MultihopPort = port,
     Load = 0, V2RayHost = [], host_ISP = [], PublicKey = ''key'', LocalIP = ''10.0.0.1'',
     wg_IPv6 = \<lparr>ipv6_Host = [], ipv6_LocalIP = six\<rparr>\<rparr>"

definition sample_conn :: "WireGuardServerHostInfo list \<Rightarrow> bool \<Rightarrow> ConnectionParams" where
  "sample_conn exits only = noConnectionParams\<lparr>VpnType := WireGuard, IPv6 := True, IPv6Only := only,
     WireGuardParameters := (WireGuardParameters noConnectionParams)
       \<lparr>wg_Entry := [sample_wg_host 20 [], sample_wg_host 30 ''fd00::1''], wg_Exit := exits\<rparr>\<rparr>"

theorem normalize_hosts_wireguard_witness:
  "length (wg_Entry (WireGuardParameters (snd (NormalizeHosts (\<lambda>_ _. Some 0)
     (sample_conn [sample_wg_host 5 ''fd00::2''] True))))) = 1"
proof -
  let ?p = "sample_conn [sample_wg_host 5 ''fd00::2''] True"
  let ?rnd = "\<lambda>(i::nat) n. if 0 < n then Some (0::nat) else None"
  have ok: "rnd_ok ?rnd" by (simp add: rnd_ok_def)
  have w: "VpnType ?p = WireGuard" by (simp add: sample_conn_def)
  have n: "NormalizeHosts ?rnd ?p = (None, snd (NormalizeHosts ?rnd ?p))"
    by (simp add: NormalizeHosts_def sample_conn_def sample_wg_host_def WireGuard_def OpenVPN_def
        noConnectionParams_def)
  have "NormalizeHosts ?rnd ?p = NormalizeHosts (\<lambda>_ _. Some 0) ?p"
    by (simp add: NormalizeHosts_def sample_conn_def sample_wg_host_def WireGuard_def OpenVPN_def
        noConnectionParams_def random_host_def)
  then show ?thesis
    using normalize_hosts_wireguard [OF ok w n] by (simp add: sample_conn_def)
qed

text \<open>
  With IPv6 preferred but not required, the filter of the exit hosts is dropped when no
  exit host with a multi-hop port supports IPv6, and with it the requirement of the port:
  every given exit host, also one without a multi-hop port, can then be chosen.
\<close>

theorem normalize_hosts_exit_without_port:
  assumes "VpnType p = WireGuard" and "IPv6 p" and "\<not> IPv6Only p"
    and "h \<in> set (wg_Exit (WireGuardParameters p))" and "MultihopPort h = 0"
    and "h' \<in> set (wg_Exit (WireGuardParameters p))" and "MultihopPort h' \<noteq> 0"
    and "\<forall>x \<in> set (wg_Exit (WireGuardParameters p)). MultihopPort x \<noteq> 0 \<longrightarrow> ipv6_LocalIP (wg_IPv6 x) = []"
  shows "\<exists>rnd. rnd_ok rnd \<and> fst (NormalizeHosts rnd p) = None
     \<and> wg_Exit (WireGuardParameters (snd (NormalizeHosts rnd p))) = [h]"
proof -
  have k: "kept_hosts p = []" using assms(2,8) by (auto simp: kept_hosts_def filter_empty_conv)
  have ok: "\<not> norm_fails p" using assms(3,6,7) by (auto simp: norm_fails_def)
  have "h \<in> set (norm_exit p)" using k assms(4) by (simp add: norm_exit_def)
  from random_host_any [OF this, of 1]
  obtain rnd where r: "rnd_ok rnd" "random_host rnd 1 (norm_exit p) = [h]" by (elim exE conjE)
  have a: "fst (NormalizeHosts rnd p) = None" using normalize_wg(1) [OF assms(1)] ok by (rule iffD2)
  have b: "wg_Exit (WireGuardParameters (snd (NormalizeHosts rnd p))) = [h]"
    using normalize_wg(3) [OF assms(1) ok, of rnd] r(2) by (rule trans)
  show ?thesis using r(1) a b by (intro exI conjI)
qed

theorem normalize_hosts_exit_without_port_witness:
  "\<exists>rnd. rnd_ok rnd \<and> wg_Exit (WireGuardParameters (snd (NormalizeHosts rnd
     (sample_conn [sample_wg_host 5 [], sample_wg_host 0 []] False)))) = [sample_wg_host 0 []]"
proof -
  let ?p = "sample_conn [sample_wg_host 5 [], sample_wg_host 0 []] False"
  have "VpnType ?p = WireGuard" "IPv6 ?p" "\<not> IPv6Only ?p" by (simp_all add: sample_conn_def)
  then show ?thesis
    using normalize_hosts_exit_without_port [of ?p "sample_wg_host 0 []" "sample_wg_host 5 []"]
    by (auto simp: sample_conn_def sample_wg_host_def)
qed

end
