(* ===== verification/Preferences.thy ===== *)
theory Preferences
  imports Connection
begin

section \<open>Preferences of the daemon (daemon/service/preferences)\<close>

text \<open>
  The stored state of the daemon: account.go, session.go, trusted_wifi_params.go and
  preferences.go with the saving of the settings file over a temporary copy and the
  loading with its conversions from older versions. \<open>encoding/json\<close> is a parameter
  (\<open>pref_env\<close>): what \<open>Marshal\<close> gives for a value, what \<open>Unmarshal\<close> of a text does to
  a value, and what it reads into the two historical formats. \<open>now\<close> is \<open>time.Now()\<close>.
\<close>

subsection \<open>Account and session\<close>

record AccountStatus =
  acc_Active :: bool
  acc_ActiveUntil :: int
  acc_CurrentPlan :: string
  acc_PaymentMethod :: string
  acc_IsRenewable :: bool
  acc_WillAutoRebill :: bool
  acc_IsFreeTrial :: bool
  acc_Capabilities :: "string list"
  acc_Upgradable :: bool
  acc_UpgradeToPlan :: string
  acc_UpgradeToURL :: string
  acc_DeviceManagement :: bool
  acc_DeviceManagementURL :: string
  acc_Limit :: int

definition noAccount :: AccountStatus where
  "noAccount =
     \<lparr>acc_Active = False, acc_ActiveUntil = 0, acc_CurrentPlan = [], acc_PaymentMethod = [],
      acc_IsRenewable = False, acc_WillAutoRebill = False, acc_IsFreeTrial = False,
      acc_Capabilities = [], acc_Upgradable = False, acc_UpgradeToPlan = [], acc_UpgradeToURL = [],
      acc_DeviceManagement = False, acc_DeviceManagementURL = [], acc_Limit = 0\<rparr>"

definition acc_IsInitialized :: "AccountStatus \<Rightarrow> bool" where
  "acc_IsInitialized a \<longleftrightarrow> length (acc_CurrentPlan a) > 0 \<or> length (acc_Capabilities a) > 0"

fun has_capability :: "string list \<Rightarrow> string \<Rightarrow> bool" where
  "has_capability [] capability = False"
| "has_capability (c # cs) capability =
     (if to_lower c = capability then True else has_capability cs capability)"

definition IsHasCapability :: "AccountStatus \<Rightarrow> string \<Rightarrow> bool" where
  "IsHasCapability a capability = has_capability (acc_Capabilities a) capability"

definition IsCanConnectMultiHop :: "AccountStatus \<Rightarrow> error" where
  "IsCanConnectMultiHop a =
     (if \<not> acc_IsInitialized a then None
      else if IsHasCapability a ''multihop'' then None
      else Some (Err ''MultiHop connections are not allowed for the current subscription plan. Please upgrade your subscription to Pro''))"

record SessionStatus =
  AccountID :: string
  SessionToken :: string
  DeviceName :: string
  OpenVPNUser :: string
  OpenVPNPass :: string
  WGPublicKey :: string
  WGPrivateKey :: string
  WGPresharedKey :: string
  WGLocalIP :: string
  WGKeyGenerated :: gotime
  WGKeysRegenInerval :: duration

definition noSession :: SessionStatus where
  "noSession =
     \<lparr>AccountID = [], SessionToken = [], DeviceName = [], OpenVPNUser = [], OpenVPNPass = [],
      WGPublicKey = [], WGPrivateKey = [], WGPresharedKey = [], WGLocalIP = [],
      WGKeyGenerated = 0, WGKeysRegenInerval = 0\<rparr>"

definition IsLoggedIn :: "SessionStatus \<Rightarrow> bool" where
  "IsLoggedIn s \<longleftrightarrow> length (SessionToken s) \<noteq> 0"

definition IsWGCredentialsOk :: "SessionStatus \<Rightarrow> bool" where
  "IsWGCredentialsOk s =
     (if length (WGPublicKey s) = 0 \<or> length (WGLocalIP s) = 0 \<or> length (WGPrivateKey s) = 0
      then False else True)"

definition updateWgCredentials ::
  "gotime \<Rightarrow> string \<Rightarrow> string \<Rightarrow> string \<Rightarrow> string \<Rightarrow> SessionStatus \<Rightarrow> SessionStatus" where
  "updateWgCredentials now wgPublicKey wgPrivateKey wgLocalIP wgPresharedKey s =
     (let wgLocalIP = (if length wgLocalIP > 0 \<and> parse_ip wgLocalIP = [] then [] else wgLocalIP);
          s = s\<lparr>WGPublicKey := trim_space wgPublicKey, WGPrivateKey := trim_space wgPrivateKey,
                WGPresharedKey := trim_space wgPresharedKey, WGLocalIP := trim_space wgLocalIP\<rparr>
      in if length (WGPublicKey s) > 0 \<and> length (WGPrivateKey s) > 0 \<and> length (WGLocalIP s) > 0
         then s\<lparr>WGKeyGenerated := now\<rparr> else s\<lparr>WGKeyGenerated := 0\<rparr>)"

subsection \<open>WiFi parameters\<close>

record WiFiNetwork =
  SSID :: string
  wifi_IsTrusted :: bool

record WiFiActions =
  UnTrustedConnectVpn :: bool
  UnTrustedEnableFirewall :: bool
  UnTrustedBlockLan :: bool
  TrustedDisconnectVpn :: bool
  TrustedDisableFirewall :: bool

record WiFiParams =
  CanApplyInBackground :: bool
  ConnectVPNOnInsecureNetwork :: bool
  TrustedNetworksControl :: bool
  DefaultTrustStatusTrusted :: "bool option"
  Networks :: "WiFiNetwork list"
  Actions :: WiFiActions

definition WiFiParamsCreate :: WiFiParams where
  "WiFiParamsCreate =
     \<lparr>CanApplyInBackground = False, ConnectVPNOnInsecureNetwork = False,
      TrustedNetworksControl = False, DefaultTrustStatusTrusted = None, Networks = [],
      Actions = \<lparr>UnTrustedConnectVpn = True, UnTrustedEnableFirewall = True,
        UnTrustedBlockLan = True, TrustedDisconnectVpn = True, TrustedDisableFirewall = True\<rparr>\<rparr>"

subsection \<open>The preferences\<close>

record Preferences =
  pref_Version :: string
  SettingsSessionUUID :: string
  IsLogging :: bool
  IsFwPersistant :: bool
  IsFwAllowLAN :: bool
  IsFwAllowLANMulticast :: bool
  IsFwAllowApiServers :: bool
  FwUserExceptions :: string
  IsStopOnClientDisconnect :: bool
  IsAutoconnectOnLaunch :: bool
  IsAutoconnectOnLaunchDaemon :: bool
  IsSplitTunnel :: bool
  SplitTunnelApps :: "string list"
  SplitTunnelInversed :: bool
  SplitTunnelAnyDns :: bool
  SplitTunnelAllowWhenNoVpn :: bool
  Session :: SessionStatus
  Account :: AccountStatus
  IsDnsMgmtOldStyle :: bool
  LastConnectionParams :: ConnectionParams
  WiFiControl :: WiFiParams

definition pref_Create :: "string \<Rightarrow> Preferences" where
  "pref_Create uuid =
     \<lparr>pref_Version = [], SettingsSessionUUID = uuid, IsLogging = False, IsFwPersistant = False,
      IsFwAllowLAN = False, IsFwAllowLANMulticast = False, IsFwAllowApiServers = True,
      FwUserExceptions = [], IsStopOnClientDisconnect = False, IsAutoconnectOnLaunch = False,
      IsAutoconnectOnLaunchDaemon = False, IsSplitTunnel = False, SplitTunnelApps = [],
      SplitTunnelInversed = False, SplitTunnelAnyDns = False, SplitTunnelAllowWhenNoVpn = False,
      Session = noSession, Account = noAccount, IsDnsMgmtOldStyle = False,
      LastConnectionParams = noConnectionParams, WiFiControl = WiFiParamsCreate\<rparr>"

definition IsInverseSplitTunneling :: "Preferences \<Rightarrow> bool" where
  "IsInverseSplitTunneling p = (if \<not> IsSplitTunnel p then False else SplitTunnelInversed p)"

definition DefaultWGKeysInterval :: duration where
  "DefaultWGKeysInterval = hour * 24 * 1"

definition setSession where
  "setSession now accountID session deviceName vpnUser vpnPass wgPublicKey wgPrivateKey wgLocalIP
     wgPreSharedKey p =
     (let old = WGKeysRegenInerval (Session p);
          s = noSession\<lparr>AccountID := trim_space accountID, SessionToken := trim_space session,
                DeviceName := trim_space deviceName, OpenVPNUser := trim_space vpnUser,
                OpenVPNPass := trim_space vpnPass, WGKeysRegenInerval := old\<rparr>;
          s = (if WGKeysRegenInerval s \<le> 0 then s\<lparr>WGKeysRegenInerval := DefaultWGKeysInterval\<rparr> else s)
      in p\<lparr>Session := updateWgCredentials now wgPublicKey wgPrivateKey wgLocalIP wgPreSharedKey s\<rparr>)"

subsection \<open>Versions\<close>

fun compare_parts :: "string list \<Rightarrow> string list \<Rightarrow> int" where
  "compare_parts (v # vs) (w # ws) =
     (let v1Part = fst (atoi v); v2Part = fst (atoi w) in
      if v1Part < v2Part then -1 else if v1Part > v2Part then 1 else compare_parts vs ws)"
| "compare_parts [] (w # ws) = -1"
| "compare_parts (v # vs) [] = 1"
| "compare_parts [] [] = 0"

definition compareVersions :: "string \<Rightarrow> string \<Rightarrow> int" where
  "compareVersions version1 version2 =
     compare_parts (split_on CHR ''.'' version1) (split_on CHR ''.'' version2)"

subsection \<open>Saving and loading\<close>

record pref_env =
  json_Marshal :: "Preferences \<Rightarrow> gerror + string"
  json_Unmarshal :: "string \<Rightarrow> Preferences \<Rightarrow> error \<times> Preferences"
  json_old_obfs :: "string \<Rightarrow> (int \<times> int) option"
  json_old_dns :: "string \<Rightarrow> (string \<times> int \<times> string) option"
  app_version :: string

text \<open>The settings file and its temporary copy; \<open>None\<close>: no such file.\<close>

record pref_disk =
  settingsFile :: "string option"
  settingsFileTmp :: "string option"

text \<open>The outcome of one write of a file (\<open>helpers.WriteFile\<close>), as for the secret file.\<close>

datatype save_outcome =
    Save_ok
  | Save_open_error gerror
  | Save_error gerror "string option"  \<comment> \<open>and what the file holds after it\<close>

fun write_slot :: "save_outcome \<Rightarrow> string \<Rightarrow> string option \<Rightarrow> error \<times> string option" where
  "write_slot Save_ok data old = (None, Some data)"
| "write_slot (Save_open_error e) data old = (Some e, old)"
| "write_slot (Save_error e left) data old = (Some e, left)"

definition SavePreferences ::
  "pref_env \<Rightarrow> save_outcome \<Rightarrow> save_outcome \<Rightarrow> bool \<Rightarrow> Preferences \<Rightarrow> pref_disk
     \<Rightarrow> error \<times> Preferences \<times> pref_disk" where
  "SavePreferences env out_tmp out_settings removed p d =
     (let p = p\<lparr>pref_Version := app_version env\<rparr> in
      case json_Marshal env p of
        Inl err \<Rightarrow> (Some (ErrWrap ''failed to save preferences file (json marshal error)'' err), p, d)
      | Inr data \<Rightarrow>
          (case write_slot out_tmp data (settingsFileTmp d) of
             (Some err, t) \<Rightarrow> (Some err, p, d\<lparr>settingsFileTmp := t\<rparr>)
           | (None, t) \<Rightarrow>
               let d = d\<lparr>settingsFileTmp := t\<rparr> in
               case write_slot out_settings data (settingsFile d) of
                 (Some err, f) \<Rightarrow> (Some err, p, d\<lparr>settingsFile := f\<rparr>)
               | (None, f) \<Rightarrow>
                   let d = d\<lparr>settingsFile := f\<rparr>
                   in (None, p, if removed then d\<lparr>settingsFileTmp := None\<rparr> else d)))"

definition funReadPreferences ::
  "pref_env \<Rightarrow> string option \<Rightarrow> Preferences \<Rightarrow> error \<times> string \<times> Preferences" where
  "funReadPreferences env file p =
     (case file of
        None \<Rightarrow> (Some (ErrWrap ''failed to read preferences file'' ErrNotExist), [], p)
      | Some data \<Rightarrow> let (err, p) = json_Unmarshal env data p in (err, data, p))"

definition pref_convert :: "pref_env \<Rightarrow> string \<Rightarrow> Preferences \<Rightarrow> Preferences" where
  "pref_convert env data p =
     (let p = (if length (WGPublicKey (Session p)) = 0 \<or> length (WGPrivateKey (Session p)) = 0
                  \<or> length (WGLocalIP (Session p)) = 0
               then p\<lparr>Session := (Session p)\<lparr>WGKeyGenerated := 0\<rparr>\<rparr> else p);
          p = (if WGKeysRegenInerval (Session p) \<le> 0
               then p\<lparr>Session := (Session p)\<lparr>WGKeysRegenInerval := DefaultWGKeysInterval\<rparr>\<rparr> else p);
          c = LastConnectionParams p;
          at = AntiTracker (Metadata c);
          p = (if AntiTrackerBlockListName at = []
               then p\<lparr>LastConnectionParams := c\<lparr>Metadata := (Metadata c)
                      \<lparr>AntiTracker := at\<lparr>AntiTrackerBlockListName := ''Oisdbig''\<rparr>\<rparr>\<rparr>\<rparr>
               else p);
          p = (if compareVersions (pref_Version p) ''3.11.15'' \<le> 0 then
                 let w = WiFiControl p;
                     p = p\<lparr>WiFiControl := w\<lparr>Actions := (Actions w)\<lparr>UnTrustedBlockLan := False\<rparr>\<rparr>\<rparr>
                 in case json_old_obfs env data of
                      Some (ver, iat) \<Rightarrow>
                        if ver > ObfsNone then
                          let c = LastConnectionParams p
                          in p\<lparr>LastConnectionParams := c\<lparr>OpenVpnParameters := (OpenVpnParameters c)
                               \<lparr>ovpn_Obfs4proxy := \<lparr>obfs_Version = ver, Obfs4Iat = iat\<rparr>\<rparr>\<rparr>\<rparr>
                        else p
                    | None \<Rightarrow> p
               else p)
      in if compareVersions (pref_Version p) ''3.14.34'' \<le> 0
            \<and> length (Servers (ManualDNS (LastConnectionParams p))) = 0 then
           (case json_old_dns env data of
              Some (dnsHost, enc, template) \<Rightarrow>
                if length dnsHost > 0 then
                  let c = LastConnectionParams p
                  in p\<lparr>LastConnectionParams := c\<lparr>ManualDNS := (ManualDNS c)
                       \<lparr>Servers := [\<lparr>Address = dnsHost, Encryption = enc, Template = template\<rparr>]\<rparr>\<rparr>\<rparr>
                else p
            | None \<Rightarrow> p)
         else p)"

definition LoadPreferences :: "pref_env \<Rightarrow> pref_disk \<Rightarrow> Preferences \<Rightarrow> error \<times> Preferences" where
  "LoadPreferences env d p =
     (case funReadPreferences env (settingsFile d) p of
        (None, data, p) \<Rightarrow> (None, pref_convert env data p)
      | (Some err, _, p) \<Rightarrow>
          (case funReadPreferences env (settingsFileTmp d) p of
             (Some errTmp, _, p) \<Rightarrow> (Some err, p)
           | (None, data, p) \<Rightarrow> (None, pref_convert env data p)))"

subsection \<open>Changing the session\<close>

text \<open>The state these operations give to \<open>SavePreferences\<close> (whose error they ignore).\<close>

definition SetSession where
  "SetSession now accountInfo accountID session deviceName vpnUser vpnPass wgPublicKey wgPrivateKey
     wgLocalIP wgPreSharedKey p =
     (let p = (if length session = 0 \<or> length accountID = 0 then p\<lparr>Account := noAccount\<rparr>
               else p\<lparr>Account := accountInfo\<rparr>)
      in setSession now accountID session deviceName vpnUser vpnPass wgPublicKey wgPrivateKey
           wgLocalIP wgPreSharedKey p)"

definition UpdateSessionData :: "AccountStatus \<Rightarrow> string \<Rightarrow> Preferences \<Rightarrow> Preferences" where
  "UpdateSessionData account deviceName p =
     (let (account, deviceName) =
            (if length (AccountID (Session p)) = 0 \<or> length (SessionToken (Session p)) = 0
             then (noAccount, []) else (account, deviceName))
      in p\<lparr>Account := account, Session := (Session p)\<lparr>DeviceName := deviceName\<rparr>\<rparr>)"

definition UpdateWgCredentials ::
  "gotime \<Rightarrow> string \<Rightarrow> string \<Rightarrow> string \<Rightarrow> string \<Rightarrow> Preferences \<Rightarrow> Preferences" where
  "UpdateWgCredentials now wgPublicKey wgPrivateKey wgLocalIP wgPresharedKey p =
     p\<lparr>Session := updateWgCredentials now wgPublicKey wgPrivateKey wgLocalIP wgPresharedKey (Session p)\<rparr>"

end
