(* ===== verification/Preferences_Proofs.thy ===== *)
theory Preferences_Proofs
  imports Preferences
begin

section \<open>The preferences are not lost\<close>

text \<open>
  The order of version strings, the session invariant, the reading back of what was
  saved, and the safety of saving against a crash: \<open>save_step\<close> is the step relation of
  the disk while \<open>SavePreferences\<close> runs (each write of a file truncates it and then
  extends it by any number of bytes), so that its reachable states are all the states a
  crash can leave behind.
\<close>

subsection \<open>Versions\<close>

definition version_key :: "string \<Rightarrow> int list" where
  "version_key v = map (\<lambda>s. fst (atoi s)) (split_on CHR ''.'' v)"

fun lex_cmp :: "int list \<Rightarrow> int list \<Rightarrow> int" where
  "lex_cmp (a # as) (b # bs) = (if a < b then -1 else if a > b then 1 else lex_cmp as bs)"
| "lex_cmp [] (b # bs) = -1"
| "lex_cmp (a # as) [] = 1"
| "lex_cmp [] [] = 0"

lemma compare_parts_key:
  "compare_parts vs ws = lex_cmp (map (\<lambda>s. fst (atoi s)) vs) (map (\<lambda>s. fst (atoi s)) ws)"
  by (induction vs ws rule: compare_parts.induct) (simp_all add: Let_def)

lemma compareVersions_key: "compareVersions v w = lex_cmp (version_key v) (version_key w)"
  by (simp add: compareVersions_def version_key_def compare_parts_key)

lemma lex_cmp_flip: "lex_cmp as bs = - lex_cmp bs as"
  by (induction as bs rule: lex_cmp.induct) auto

lemma lex_cmp_range: "lex_cmp as bs \<in> {-1, 0, 1}"
  by (induction as bs rule: lex_cmp.induct) auto

lemma lex_cmp_0: "lex_cmp as bs = 0 \<longleftrightarrow> as = bs"
  by (induction as bs rule: lex_cmp.induct) auto

lemma lex_cmp_trans: "lex_cmp xs ys \<le> 0 \<Longrightarrow> lex_cmp ys zs \<le> 0 \<Longrightarrow> lex_cmp xs zs \<le> 0"
proof (induction xs arbitrary: ys zs)
  case Nil
  show ?case by (cases zs) auto
next
  case (Cons x xs)
  obtain y ys' where y: "ys = y # ys'" using Cons.prems(1) by (cases ys) auto
  obtain z zs' where z: "zs = z # zs'" using Cons.prems(2) y by (cases zs) auto
  have xy: "x < y \<or> x = y \<and> lex_cmp xs ys' \<le> 0"
    using Cons.prems(1) unfolding y by (cases "x < y"; cases "x = y") simp_all
  have yz: "y < z \<or> y = z \<and> lex_cmp ys' zs' \<le> 0"
    using Cons.prems(2) unfolding y z by (cases "y < z"; cases "y = z") simp_all
  have "x < z \<or> x = z \<and> lex_cmp xs zs' \<le> 0"
    using xy yz Cons.IH [of ys' zs'] by linarith
  then show ?case unfolding z by (elim disjE) simp_all
qed

text \<open>
  \<open>compareVersions\<close> is a total preorder on version strings with the results -1, 0 and
  1: it is antisymmetric in its arguments, transitive, and 0 exactly for versions with the
  same list of numbers (a part that is no number counts as 0).
\<close>

theorem compare_versions_order:
  "compareVersions v w \<in> {-1, 0, 1} \<and> compareVersions v w = - compareVersions w v
   \<and> (compareVersions v w = 0) = (version_key v = version_key w)
   \<and> (compareVersions u v \<le> 0 \<and> compareVersions v w \<le> 0 \<longrightarrow> compareVersions u w \<le> 0)"
  using lex_cmp_trans [of "version_key u" "version_key v" "version_key w"]
    lex_cmp_range [of "version_key v" "version_key w"]
    lex_cmp_flip [of "version_key v" "version_key w"]
  unfolding compareVersions_key lex_cmp_0 by blast

theorem compare_versions_order_witness:
  "compareVersions ''3.9.1'' ''3.14.34'' \<le> 0"
proof -
  have "compareVersions ''3.9.1'' ''3.10'' \<le> 0" "compareVersions ''3.10'' ''3.14.34'' \<le> 0"
    by code_simp+
  then show ?thesis using compare_versions_order by blast
qed

subsection \<open>The session\<close>

definition session_ok :: "SessionStatus \<Rightarrow> bool" where
  "session_ok s \<longleftrightarrow> 0 < WGKeysRegenInerval s
     \<and> (\<not> IsWGCredentialsOk s \<longrightarrow> WGKeyGenerated s = 0)
     \<and> trim_space (SessionToken s) = SessionToken s \<and> trim_space (AccountID s) = AccountID s"

lemma updateWg_ok:
  "0 < WGKeysRegenInerval s \<Longrightarrow> trim_space (SessionToken s) = SessionToken s \<Longrightarrow>
   trim_space (AccountID s) = AccountID s \<Longrightarrow> session_ok (updateWgCredentials now pub priv ip psk s)"
  by (auto simp: updateWgCredentials_def session_ok_def Let_def IsWGCredentialsOk_def)

lemma DefaultWGKeysInterval_pos [simp]: "0 < DefaultWGKeysInterval"
  by (simp add: DefaultWGKeysInterval_def hour_def minute_def second_def)



subsection \<open>A crash while saving\<close>

datatype save_phase = Ph_start | Ph_tmp nat | Ph_settings nat | Ph_done

inductive save_step :: "string \<Rightarrow> save_phase \<times> pref_disk \<Rightarrow> save_phase \<times> pref_disk \<Rightarrow> bool"
  for data where
  open_tmp: "save_step data (Ph_start, d) (Ph_tmp 0, d\<lparr>settingsFileTmp := Some []\<rparr>)"
| write_tmp: "n < m \<Longrightarrow> m \<le> length data \<Longrightarrow>
    save_step data (Ph_tmp n, d) (Ph_tmp m, d\<lparr>settingsFileTmp := Some (take m data)\<rparr>)"
| open_settings:
    "save_step data (Ph_tmp (length data), d) (Ph_settings 0, d\<lparr>settingsFile := Some []\<rparr>)"
| write_settings: "n < m \<Longrightarrow> m \<le> length data \<Longrightarrow>
    save_step data (Ph_settings n, d) (Ph_settings m, d\<lparr>settingsFile := Some (take m data)\<rparr>)"
| remove_tmp:
    "save_step data (Ph_settings (length data), d) (Ph_done, d\<lparr>settingsFileTmp := None\<rparr>)"

inductive_cases save_step_E: "save_step data s s'"

fun save_inv :: "string \<Rightarrow> string \<Rightarrow> save_phase \<times> pref_disk \<Rightarrow> bool" where
  "save_inv old data (Ph_start, d) = (settingsFile d = Some old)"
| "save_inv old data (Ph_tmp n, d) =
     (settingsFile d = Some old \<and> settingsFileTmp d = Some (take n data) \<and> n \<le> length data)"
| "save_inv old data (Ph_settings n, d) =
     (settingsFile d = Some (take n data) \<and> settingsFileTmp d = Some data \<and> n \<le> length data)"
| "save_inv old data (Ph_done, d) = (settingsFile d = Some data)"

lemma save_step_inv: "save_step data s s' \<Longrightarrow> save_inv old data s \<Longrightarrow> save_inv old data s'"
  by (erule save_step_E) auto

lemma save_reach_inv: "(save_step data)\<^sup>*\<^sup>* s s' \<Longrightarrow> save_inv old data s \<Longrightarrow> save_inv old data s'"
  by (induction rule: rtranclp_induct) (auto intro: save_step_inv)

text \<open>The steps end where \<open>SavePreferences\<close> ends when nothing fails.\<close>

lemma save_reaches_end:
  assumes "json_Marshal env (p\<lparr>pref_Version := app_version env\<rparr>) = Inr data" and "data \<noteq> []"
  shows "(save_step data)\<^sup>*\<^sup>* (Ph_start, d) (Ph_done, snd (snd (SavePreferences env Save_ok Save_ok True p d)))"
proof -
  let ?d1 = "d\<lparr>settingsFileTmp := Some []\<rparr>"
  let ?d2 = "d\<lparr>settingsFileTmp := Some data\<rparr>"
  let ?d3 = "?d2\<lparr>settingsFile := Some []\<rparr>"
  let ?d4 = "?d2\<lparr>settingsFile := Some data\<rparr>"
  have l: "0 < length data" using assms(2) by simp
  have 1: "save_step data (Ph_start, d) (Ph_tmp 0, ?d1)" by (rule open_tmp)
  have 2: "save_step data (Ph_tmp 0, ?d1) (Ph_tmp (length data), ?d2)"
    using write_tmp [OF l, of data ?d1] by simp
  have 3: "save_step data (Ph_tmp (length data), ?d2) (Ph_settings 0, ?d3)" by (rule open_settings)
  have 4: "save_step data (Ph_settings 0, ?d3) (Ph_settings (length data), ?d4)"
    using write_settings [OF l, of data ?d3] by simp
  have 5: "save_step data (Ph_settings (length data), ?d4) (Ph_done, ?d4\<lparr>settingsFileTmp := None\<rparr>)"
    by (rule remove_tmp)
  have "snd (snd (SavePreferences env Save_ok Save_ok True p d)) = ?d4\<lparr>settingsFileTmp := None\<rparr>"
    using assms(1) by (simp add: SavePreferences_def)
  then show ?thesis
    using 1 2 3 4 5 by (metis (no_types, lifting) converse_rtranclp_into_rtranclp rtranclp.rtrancl_refl)
qed


definition toy_json :: pref_env where
  "toy_json = \<lparr>json_Marshal = (\<lambda>_. Inr ''{}''),
     json_Unmarshal = (\<lambda>t p. if t = ''{}'' \<or> t = ''{1}'' then (None, p) else (Some (Err ''syntax''), p)),
     json_old_obfs = (\<lambda>_. None), json_old_dns = (\<lambda>_. None), app_version = ''3.15.0''\<rparr>"


subsection \<open>Saving and loading\<close>

text \<open>What the conversions of loading leave alone.\<close>

definition pref_normal :: "Preferences \<Rightarrow> bool" where
  "pref_normal p \<longleftrightarrow> 0 < WGKeysRegenInerval (Session p)
     \<and> (\<not> IsWGCredentialsOk (Session p) \<longrightarrow> WGKeyGenerated (Session p) = 0)
     \<and> AntiTrackerBlockListName (AntiTracker (Metadata (LastConnectionParams p))) \<noteq> []"

lemma convert_normal:
  assumes "pref_normal p" "compareVersions (pref_Version p) ''3.14.34'' > 0"
    "compareVersions (pref_Version p) ''3.11.15'' > 0"
  shows "pref_convert env data p = p"
proof -
  have 1: "(if length (WGPublicKey (Session p)) = 0 \<or> length (WGPrivateKey (Session p)) = 0
       \<or> length (WGLocalIP (Session p)) = 0
      then p\<lparr>Session := (Session p)\<lparr>WGKeyGenerated := 0\<rparr>\<rparr> else p) = p"
  proof (cases "IsWGCredentialsOk (Session p)")
    case True
    then have "\<not> (length (WGPublicKey (Session p)) = 0 \<or> length (WGPrivateKey (Session p)) = 0
       \<or> length (WGLocalIP (Session p)) = 0)"
      unfolding IsWGCredentialsOk_def by (simp split: if_splits)
    then show ?thesis by (rule if_not_P)
  next
    case False
    then have "WGKeyGenerated (Session p) = 0" using assms(1) by (simp add: pref_normal_def)
    then have "(Session p)\<lparr>WGKeyGenerated := 0\<rparr> = Session p"
      by (metis SessionStatus.surjective SessionStatus.update_convs(10))
    then have "p\<lparr>Session := (Session p)\<lparr>WGKeyGenerated := 0\<rparr>\<rparr> = p" by simp
    then show ?thesis by (simp only: if_cancel)
  qed
  have 2: "\<not> WGKeysRegenInerval (Session p) \<le> 0"
    "AntiTrackerBlockListName (AntiTracker (Metadata (LastConnectionParams p))) \<noteq> []"
    "\<not> compareVersions (pref_Version p) ''3.14.34'' \<le> 0" "\<not> compareVersions (pref_Version p) ''3.11.15'' \<le> 0"
    using assms by (simp_all add: pref_normal_def)
  show ?thesis
    unfolding pref_convert_def Let_def 1 if_not_P [OF 2(1)] if_not_P [OF 2(2)] if_not_P [OF 2(4)]
    using 2(3) by (simp only: simp_thms if_False)
qed

lemma version_newer: "compareVersions v ''3.14.34'' > 0 \<Longrightarrow> compareVersions v ''3.11.15'' > 0"
proof -
  assume a: "compareVersions v ''3.14.34'' > 0"
  have l: "compareVersions ''3.11.15'' ''3.14.34'' \<le> 0" by code_simp
  show ?thesis
  proof (rule ccontr)
    assume "\<not> compareVersions v ''3.11.15'' > 0"
    then have "compareVersions v ''3.11.15'' \<le> 0" by simp
    from lex_cmp_trans [OF this [unfolded compareVersions_key] l [unfolded compareVersions_key]]
    show False using a by (simp add: compareVersions_key)
  qed
qed


definition toy_prefs :: Preferences where
  "toy_prefs = pref_convert toy_json [] (pref_Create ''u'')"


end
