(* ===== verification/Wg_Config.thy ===== *)
theory Wg_Config
  imports Go_Net
begin

section \<open>The WireGuard object and its configuration (daemon/vpn/wireguard)\<close>

text \<open>
  wireguard.go with the Linux part of the configuration (wireguard\_linux.go) and the check
  of base64 text (helpers). The free local port is a parameter: the result of
  \<open>netinfo.GetFreeUDPPort\<close>.
\<close>

record wg_conn =
  clientLocalIP :: net_ip
  clientPrivateKey :: string
  presharedKey :: string
  hostPort :: int
  hostIP :: net_ip
  hostPublicKey :: string
  hostLocalIP :: net_ip
  ipv6Prefix :: string
  multihopExitHostname :: string
  mtu :: int

definition wg_CreateConnectionParams ::
  "string \<Rightarrow> int \<Rightarrow> net_ip \<Rightarrow> string \<Rightarrow> net_ip \<Rightarrow> string \<Rightarrow> int \<Rightarrow> wg_conn" where
  "wg_CreateConnectionParams exitHostName port ip publicKey localIP v6 m =
     \<lparr>clientLocalIP = [], clientPrivateKey = [], presharedKey = [], hostPort = port, hostIP = ip,
      hostPublicKey = publicKey, hostLocalIP = localIP, ipv6Prefix = v6,
      multihopExitHostname = exitHostName, mtu = m\<rparr>"

definition GetIPv6ClientLocalIP :: "wg_conn \<Rightarrow> net_ip" where
  "GetIPv6ClientLocalIP cp =
     (if length (ipv6Prefix cp) \<le> 0 then [] else parse_ip (ipv6Prefix cp @ ip_string (clientLocalIP cp)))"

definition GetIPv6HostLocalIP :: "wg_conn \<Rightarrow> net_ip" where
  "GetIPv6HostLocalIP cp =
     (if length (ipv6Prefix cp) \<le> 0 then [] else parse_ip (ipv6Prefix cp @ ip_string (hostLocalIP cp)))"

definition wg_SetCredentials :: "string \<Rightarrow> string \<Rightarrow> net_ip \<Rightarrow> wg_conn \<Rightarrow> wg_conn" where
  "wg_SetCredentials privateKey psk localIP cp =
     cp\<lparr>clientPrivateKey := privateKey, presharedKey := psk, clientLocalIP := localIP\<rparr>"

definition NewWireGuardObject :: "wg_conn \<Rightarrow> gerror + wg_conn" where
  "NewWireGuardObject cp =
     (if clientLocalIP cp = [] \<or> length (clientPrivateKey cp) = 0
      then Inl (Err ''WireGuard local credentials not defined'') else Inr cp)"

definition uint16 :: "int \<Rightarrow> int" where "uint16 n = n mod 2 ^ 16"

definition wg_Destination :: "wg_conn \<Rightarrow> net_ip \<times> int \<times> bool" where
  "wg_Destination cp = (hostIP cp, uint16 (hostPort cp), False)"

definition wg_DefaultDNS :: "bool \<Rightarrow> wg_conn \<Rightarrow> net_ip" where
  "wg_DefaultDNS isDisconnected cp = (if isDisconnected then [] else hostLocalIP cp)"

definition wg_check_mtu :: "wg_conn \<Rightarrow> error" where
  "wg_check_mtu cp =
     (if mtu cp > 0 then
        if mtu cp < 1280 \<or> mtu cp > 65535
        then Some (Err ''bad MTU value (acceptable interval is: [1280 - 65535])'') else None
      else None)"

subsection \<open>The configuration file\<close>

definition base64_char :: "char \<Rightarrow> bool" where
  "base64_char c \<longleftrightarrow>
     (let n = (of_char c :: nat) in
      65 \<le> n \<and> n \<le> 90 \<or> 97 \<le> n \<and> n \<le> 122 \<or> 48 \<le> n \<and> n \<le> 57 \<or> n = 43 \<or> n = 47)"

text \<open>
  The regular expression of \<open>ValidateBase64\<close>: groups of four characters of the alphabet,
  the last of which may end in one or two padding characters.
\<close>

fun ValidateBase64 :: "string \<Rightarrow> bool" where
  "ValidateBase64 [] = True"
| "ValidateBase64 (a # b # c # d # rest) =
     (if base64_char a \<and> base64_char b \<and> base64_char c \<and> base64_char d then ValidateBase64 rest
      else rest = [] \<and> base64_char a \<and> base64_char b \<and> d = CHR ''=''
             \<and> (base64_char c \<or> c = CHR ''=''))"
| "ValidateBase64 _ = False"

definition getOSSpecificConfigParams :: "wg_conn \<Rightarrow> string list \<times> string list" where
  "getOSSpecificConfigParams cp =
     (let ipv6LocalIP = GetIPv6ClientLocalIP cp;
          (ipv6LocalIPStr, allowedIPsV6) =
            (if ipv6LocalIP \<noteq> [] then ('', '' @ ip_string ipv6LocalIP, '', ::/0'') else ([], []));
          interfaceCfg = (if mtu cp > 0 then [''MTU = '' @ show_int (mtu cp)] else [])
      in (interfaceCfg @ [''Address = '' @ ip_string (clientLocalIP cp) @ ''/32'' @ ipv6LocalIPStr,
                          ''SaveConfig = true''],
          [''AllowedIPs = 0.0.0.0/0'' @ allowedIPsV6]))"

definition generateConfig :: "gerror + int \<Rightarrow> wg_conn \<Rightarrow> gerror + string list" where
  "generateConfig freeUDPPort cp =
     (case freeUDPPort of
        Inl err \<Rightarrow> Inl (ErrWrap ''unable to obtain free local port'' err)
      | Inr localPort \<Rightarrow>
          if \<not> ValidateBase64 (hostPublicKey cp) then Inl (Err ''WG public key is not base64 string'')
          else if \<not> ValidateBase64 (clientPrivateKey cp) then Inl (Err ''WG private key is not base64 string'')
          else if length (presharedKey cp) > 0 \<and> \<not> ValidateBase64 (presharedKey cp)
          then Inl (Err ''WG PresharedKey is not base64 string'')
          else
            let interfaceCfg = [''[Interface]'', ''PrivateKey = '' @ clientPrivateKey cp,
                                ''ListenPort = '' @ show_int localPort];
                peerCfg = [''[Peer]'', ''PublicKey = '' @ hostPublicKey cp,
                           ''Endpoint = '' @ ip_string (hostIP cp) @ '':'' @ show_int (hostPort cp),
                           ''PersistentKeepalive = 25''];
                peerCfg = (if length (presharedKey cp) > 0
                           then peerCfg @ [''PresharedKey = '' @ presharedKey cp] else peerCfg);
                (iCfg, pCfg) = getOSSpecificConfigParams cp
            in Inr ((interfaceCfg @ iCfg) @ (peerCfg @ pCfg)))"

definition wg_config_text :: "gerror + int \<Rightarrow> wg_conn \<Rightarrow> gerror + string" where
  "wg_config_text freeUDPPort cp =
     (case generateConfig freeUDPPort cp of
        Inl err \<Rightarrow> Inl (ErrWrap ''failed to generate WireGuard configuration'' err)
      | Inr cfg \<Rightarrow> Inr (join_with [CHR 0x0A] cfg))"

subsection \<open>Properties\<close>

lemma set_join_with: "set (join_with sep ws) \<subseteq> set sep \<union> \<Union> (set ` set ws)"
  by (induction sep ws rule: join_with.induct) auto

text \<open>No printed address or number has a line break.\<close>

definition visible :: "string \<Rightarrow> bool" where
  "visible s \<longleftrightarrow> (\<forall>c \<in> set s. 32 < (of_char c :: nat))"

lemma visible_simps [simp]:
  "visible []" "visible (c # cs) \<longleftrightarrow> 32 < (of_char c :: nat) \<and> visible cs"
  "visible (s @ t) \<longleftrightarrow> visible s \<and> visible t"
  by (auto simp: visible_def)

lemma visible_join: "visible sep \<Longrightarrow> \<forall>w \<in> set ws. visible w \<Longrightarrow> visible (join_with sep ws)"
  using set_join_with [of sep ws] unfolding visible_def by blast

lemma digit_char_visible: "n < 36 \<Longrightarrow> 32 < (of_char (digit_char n) :: nat)"
  by (simp add: digit_char_def)

lemma show_base_visible: "2 \<le> b \<Longrightarrow> b \<le> 36 \<Longrightarrow> visible (show_base b n)"
proof (induction b n rule: show_base.induct)
  case (1 b n)
  show ?case
  proof (cases "n < b")
    case True
    then show ?thesis using 1 by (subst show_base.simps) (simp add: digit_char_visible)
  next
    case False
    have "n mod b < 36" using 1(3) 1(2) mod_less_divisor [of b n] by linarith
    then show ?thesis using False 1 by (subst show_base.simps) (simp add: digit_char_visible)
  qed
qed

lemma show_visible [simp]: "visible (show_nat n)" "visible (show_hex n)" "visible (show_int i)"
  by (simp_all add: show_nat_def show_hex_def show_int_def show_base_visible)

lemma ip_string_visible [simp]: "visible (ip_string ip)"
proof -
  have "visible (show_byte_hex b)" for b
  proof -
    have "unat b < 256" using unsigned_less [of b, where ?'a = nat] by simp
    then show ?thesis by (simp add: show_byte_hex_def digit_char_visible)
  qed
  then have "visible (concat (map show_byte_hex ip))" by (induction ip) auto
  moreover have "visible (show_v4 x)" for x by (simp add: show_v4_def visible_join)
  moreover have "visible (show_v6 ip)" by (simp add: show_v6_def Let_def case_prod_unfold visible_join)
  ultimately show ?thesis by (simp add: ip_string_def)
qed

lemma base64_visible: "ValidateBase64 s \<Longrightarrow> visible s"
proof (induction s rule: ValidateBase64.induct)
  case (2 a b c d rest)
  have "32 < (of_char x :: nat)" if "base64_char x" for x
    using that by (auto simp: base64_char_def Let_def)
  then show ?case using 2 by (auto split: if_splits)
qed auto

lemma visible_no_break: "visible s \<Longrightarrow> CHR 0x0A \<notin> set s"
  by (auto simp: visible_def)

lemma generateConfig_lines:
  assumes "generateConfig port cp = Inr cfg"
  obtains p v6a v6b where "port = Inr p" "visible v6a \<or> (\<exists>t. v6a = '', '' @ t \<and> visible t)"
    "v6b = [] \<or> v6b = '', ::/0''"
    "ValidateBase64 (hostPublicKey cp)" "ValidateBase64 (clientPrivateKey cp)"
    "presharedKey cp = [] \<or> ValidateBase64 (presharedKey cp)"
    "cfg = [''[Interface]'', ''PrivateKey = '' @ clientPrivateKey cp, ''ListenPort = '' @ show_int p]
       @ (if mtu cp > 0 then [''MTU = '' @ show_int (mtu cp)] else [])
       @ [''Address = '' @ ip_string (clientLocalIP cp) @ ''/32'' @ v6a, ''SaveConfig = true'']
       @ [''[Peer]'', ''PublicKey = '' @ hostPublicKey cp,
          ''Endpoint = '' @ ip_string (hostIP cp) @ '':'' @ show_int (hostPort cp),
          ''PersistentKeepalive = 25'']
       @ (if presharedKey cp \<noteq> [] then [''PresharedKey = '' @ presharedKey cp] else [])
       @ [''AllowedIPs = 0.0.0.0/0'' @ v6b]"
proof -
  let ?v6 = "GetIPv6ClientLocalIP cp"
  let ?a = "if ?v6 \<noteq> [] then '', '' @ ip_string ?v6 else []"
  let ?b = "if ?v6 \<noteq> [] then '', ::/0'' else []"
  obtain p where p: "port = Inr p" using assms by (cases port) (simp_all add: generateConfig_def)
  have v: "ValidateBase64 (hostPublicKey cp)" "ValidateBase64 (clientPrivateKey cp)"
    "presharedKey cp = [] \<or> ValidateBase64 (presharedKey cp)"
    using assms p by (auto simp: generateConfig_def split: if_splits)
  have a: "visible ?a \<or> (\<exists>t. ?a = '', '' @ t \<and> visible t)" by auto
  show thesis
    by (rule that [OF p a _ v, of ?b])
       (use assms p v in \<open>simp_all add: generateConfig_def getOSSpecificConfigParams_def Let_def
          split: if_splits\<close>)
qed

lemma config_lines_no_break:
  assumes "generateConfig port cp = Inr cfg" "w \<in> set cfg"
  shows "CHR 0x0A \<notin> set w"
proof -
  obtain p v6a v6b where v: "visible v6a \<or> (\<exists>t. v6a = '', '' @ t \<and> visible t)"
    "v6b = [] \<or> v6b = '', ::/0''"
    "ValidateBase64 (hostPublicKey cp)" "ValidateBase64 (clientPrivateKey cp)"
    "presharedKey cp = [] \<or> ValidateBase64 (presharedKey cp)"
    and c: "cfg = [''[Interface]'', ''PrivateKey = '' @ clientPrivateKey cp, ''ListenPort = '' @ show_int p]
       @ (if mtu cp > 0 then [''MTU = '' @ show_int (mtu cp)] else [])
       @ [''Address = '' @ ip_string (clientLocalIP cp) @ ''/32'' @ v6a, ''SaveConfig = true'']
       @ [''[Peer]'', ''PublicKey = '' @ hostPublicKey cp,
          ''Endpoint = '' @ ip_string (hostIP cp) @ '':'' @ show_int (hostPort cp),
          ''PersistentKeepalive = 25'']
       @ (if presharedKey cp \<noteq> [] then [''PresharedKey = '' @ presharedKey cp] else [])
       @ [''AllowedIPs = 0.0.0.0/0'' @ v6b]"
    using generateConfig_lines [OF assms(1)] by metis
  note nb = visible_no_break [OF base64_visible] visible_no_break [OF ip_string_visible]
    visible_no_break [OF show_visible(3)]
  have "CHR 0x0A \<notin> set v6a" using v(1) visible_no_break by auto
  moreover have "CHR 0x0A \<notin> set v6b" using v(2) by auto
  moreover have "CHR 0x0A \<notin> set (presharedKey cp)" using v(5) nb(1) by auto
  ultimately show ?thesis using assms(2) v(3,4) nb by (auto simp: c split: if_splits)
qed

text \<open>
  C14: Nothing the user or the server supplied can add a line to the configuration given to
  wg-quick. Whenever a configuration is generated, its text, split at the line breaks, is
  exactly the generated lines; it has one interface and one peer section, the interface
  first; the private and the public key lines are single and hold the given keys.
\<close>

theorem wg_config_no_injection:
  assumes "generateConfig port cp = Inr cfg"
  shows "(\<exists>text. wg_config_text port cp = Inr text \<and> split_on (CHR 0x0A) text = cfg)
    \<and> filter (prefix ''['') cfg = [''[Interface]'', ''[Peer]'']
    \<and> filter (prefix ''PrivateKey'') cfg = [''PrivateKey = '' @ clientPrivateKey cp]
    \<and> filter (prefix ''PublicKey'') cfg = [''PublicKey = '' @ hostPublicKey cp]"
proof -
  obtain p v6a v6b where
    c: "cfg = [''[Interface]'', ''PrivateKey = '' @ clientPrivateKey cp, ''ListenPort = '' @ show_int p]
       @ (if mtu cp > 0 then [''MTU = '' @ show_int (mtu cp)] else [])
       @ [''Address = '' @ ip_string (clientLocalIP cp) @ ''/32'' @ v6a, ''SaveConfig = true'']
       @ [''[Peer]'', ''PublicKey = '' @ hostPublicKey cp,
          ''Endpoint = '' @ ip_string (hostIP cp) @ '':'' @ show_int (hostPort cp),
          ''PersistentKeepalive = 25'']
       @ (if presharedKey cp \<noteq> [] then [''PresharedKey = '' @ presharedKey cp] else [])
       @ [''AllowedIPs = 0.0.0.0/0'' @ v6b]"
    using generateConfig_lines [OF assms] by metis
  have "cfg \<noteq> []" by (simp add: c)
  moreover have "\<forall>w \<in> set cfg. CHR 0x0A \<notin> set w" using config_lines_no_break [OF assms] by blast
  ultimately have "split_on (CHR 0x0A) (join_with [CHR 0x0A] cfg) = cfg" by (intro split_join)
  then have "\<exists>text. wg_config_text port cp = Inr text \<and> split_on (CHR 0x0A) text = cfg"
    by (simp add: wg_config_text_def assms)
  moreover have "filter (prefix ''['') cfg = [''[Interface]'', ''[Peer]'']"
    "filter (prefix ''PrivateKey'') cfg = [''PrivateKey = '' @ clientPrivateKey cp]"
    "filter (prefix ''PublicKey'') cfg = [''PublicKey = '' @ hostPublicKey cp]"
    by (simp_all add: c)
  ultimately show ?thesis by blast
qed

definition sample_wg_conn :: wg_conn where
  "sample_wg_conn = wg_SetCredentials ''AAAA'' [] [10, 0, 0, 2]
     (wg_CreateConnectionParams [] 2049 [1, 2, 3, 4] ''BBB='' [172, 16, 0, 1] [] 0)"

theorem wg_config_no_injection_witness:
  "filter (prefix ''['') (projr (generateConfig (Inr 5000) sample_wg_conn)) = [''[Interface]'', ''[Peer]'']"
proof -
  have "\<exists>cfg. generateConfig (Inr 5000) sample_wg_conn = Inr cfg"
    by (simp add: generateConfig_def sample_wg_conn_def wg_SetCredentials_def case_prod_unfold
        wg_CreateConnectionParams_def Let_def base64_char_def)
  then obtain cfg where c: "generateConfig (Inr 5000) sample_wg_conn = Inr cfg" by blast
  show ?thesis using wg_config_no_injection [OF c] by (simp add: c)
qed

lemma pad_not_base64 [simp]: "\<not> base64_char CHR ''=''"
  by (simp add: base64_char_def)

text \<open>
  C31: A key passes the check exactly if its length is a multiple of four and it consists of
  characters of the base64 alphabet followed by at most two padding characters: what an
  encoder of base64 can write, and nothing else.
\<close>

theorem validate_base64_spec:
  "ValidateBase64 s \<longleftrightarrow>
     length s mod 4 = 0 \<and> dropWhile base64_char s \<in> {[], ''='', ''==''}"
proof (induction s rule: ValidateBase64.induct)
  case (2 a b c d rest)
  show ?case
  proof (cases "base64_char a \<and> base64_char b \<and> base64_char c \<and> base64_char d")
    case True
    then show ?thesis using 2 by simp
  next
    case False
    then show ?thesis by auto
  qed
qed auto

end
