(* ===== verification/Ovpn_Config.thy ===== *)
theory Ovpn_Config
  imports Vpn_Types "HOL-Library.Multiset"
begin

section \<open>The OpenVPN configuration (daemon/vpn/openvpn: config.go, openvpn.go)\<close>

text \<open>
  The parameters of an OpenVPN connection, its configuration file and the merge of the
  lines the user added. \<open>ovpn_env\<close> holds the paths of the platform package, whether the
  key files exist, the result of writing the file with the credentials of the proxy and
  the default gateway.
\<close>

record ovpn_conn =
  o_username :: string
  o_password :: string
  o_exitHostname :: string
  o_tcp :: bool
  o_hostPort :: int
  o_hostIP :: net_ip
  o_proxyType :: string
  o_proxyAddress :: net_ip
  o_proxyPort :: int
  o_proxyUsername :: string
  o_proxyPassword :: string
  o_proxyAuthFileData :: string

definition ovpn_CreateConnectionParams where
  "ovpn_CreateConnectionParams exitHostname tcp port ip proxyType proxyAddress proxyPort proxyUsername
     proxyPassword =
     \<lparr>o_username = [], o_password = [], o_exitHostname = exitHostname, o_tcp = tcp,
      o_hostPort = port, o_hostIP = ip, o_proxyType = proxyType, o_proxyAddress = proxyAddress,
      o_proxyPort = proxyPort, o_proxyUsername = proxyUsername, o_proxyPassword = proxyPassword,
      o_proxyAuthFileData = []\<rparr>"

definition ovpn_IsMultihop :: "ovpn_conn \<Rightarrow> bool" where
  "ovpn_IsMultihop c \<longleftrightarrow> length (o_exitHostname c) > 0"

definition ovpn_SetCredentials :: "string \<Rightarrow> string \<Rightarrow> ovpn_conn \<Rightarrow> ovpn_conn" where
  "ovpn_SetCredentials username password c = c\<lparr>o_password := password, o_username := username\<rparr>"

record ovpn_env =
  OpenvpnProxyAuthFile :: string
  OpenvpnCaKeyFile :: string
  OpenvpnTaKeyFile :: string
  OpenvpnUpScript :: string
  OpenvpnDownScript :: string
  ca_exists :: bool
  ta_exists :: bool
  write_auth :: "string \<Rightarrow> error"
  ovpn_gateway :: "gerror + net_ip"
  log_enabled :: bool

text \<open>What obfsproxy needs for the host of the connection.\<close>

record obfs_params =
  op_Config :: obfs_config
  op_RemotePort :: int
  op_Obfs4Key :: string

definition obfs_CheckConsistency :: "obfs_params \<Rightarrow> error" where
  "obfs_CheckConsistency o' =
     (if \<not> IsObfsproxy (op_Config o') then None
      else if op_RemotePort o' \<le> 0 then Some (Err ''obfsproxy port not defined'')
      else if obfs_Version (op_Config o') \<noteq> OBFS3 \<and> obfs_Version (op_Config o') \<noteq> OBFS4 then
        Some (Err (''unacceptable version of obfsproxy protocol: '' @ show_int (obfs_Version (op_Config o'))
          @ '' (acceptable values: [3, 4])''))
      else if obfs_Version (op_Config o') = OBFS4 \<and> length (op_Obfs4Key o') = 0 then
        Some (Err ''bad configuration (empty Key for obfs4)'')
      else None)"

definition quote :: string where "quote = [CHR 0x22]"

subsection \<open>Lines of the user\<close>

text \<open>The first of \<open>strings.Fields\<close>: the text up to the next white space.\<close>

fun take_word :: "string \<Rightarrow> string" where
  "take_word [] = []"
| "take_word (c # cs) =
     (if list_ex (\<lambda>p. prefix p (c # cs)) space_seqs then [] else c # take_word cs)"

definition getParamFromConfigLine :: "string \<Rightarrow> string" where
  "getParamFromConfigLine line =
     (let line = dropWhile (\<lambda>c. c = CHR '' '' \<or> c = CHR 0x09) line;
          word = take_word (drop_seqs space_seqs line)
      in if word = [] then []
         else if hd word = CHR ''#'' \<or> hd word = CHR '';'' then []
         else to_lower word)"

text \<open>The inner loop: the first line of the user with this parameter, which is then blanked.\<close>

fun take_user_line :: "string \<Rightarrow> string list \<Rightarrow> string option \<times> string list" where
  "take_user_line cfgParam [] = (None, [])"
| "take_user_line cfgParam (userLine # rest) =
     (let userParam = getParamFromConfigLine userLine in
      if length userParam > 0 \<and> cfgParam = userParam then (Some userLine, [] # rest)
      else let (r, rest') = take_user_line cfgParam rest in (r, userLine # rest'))"

fun merge_lines :: "string list \<Rightarrow> string list \<Rightarrow> string list \<times> string list" where
  "merge_lines [] userLines = ([], userLines)"
| "merge_lines (cfgLine # cfg) userLines =
     (let (r, userLines) = take_user_line (getParamFromConfigLine cfgLine) userLines;
          cfgLineToSave = (case r of None \<Rightarrow> cfgLine | Some userLine \<Rightarrow> userLine);
          (tmpCfg, userLines) = merge_lines cfg userLines
      in (cfgLineToSave # tmpCfg, userLines))"

text \<open>\<open>make([]string, 1)\<close> starts the merged configuration with an empty line.\<close>

definition addUserDefinedParameters :: "string list \<Rightarrow> string \<Rightarrow> string list" where
  "addUserDefinedParameters currParams userParams =
     (if length userParams \<le> 0 then currParams
      else
        let (tmpCfg, userLines) = merge_lines currParams (split_on (CHR 0x0A) userParams)
        in [] # tmpCfg @ filter (\<lambda>l. length l > 0) userLines)"

subsection \<open>The configuration\<close>

definition proxy_lines :: "ovpn_env \<Rightarrow> ovpn_conn \<Rightarrow> gerror + string list" where
  "proxy_lines env c =
     (if o_proxyType c = ''http'' \<or> o_proxyType c = ''socks'' then
        let proxyAuthFileData =
              (if o_proxyAuthFileData c \<noteq> [] then o_proxyAuthFileData c
               else if o_proxyUsername c \<noteq> [] \<and> o_proxyPassword c \<noteq> []
               then o_proxyUsername c @ [CHR 0x0A] @ o_proxyPassword c else [])
        in case (if length proxyAuthFileData > 0 then write_auth env proxyAuthFileData else None) of
             Some err \<Rightarrow> Inl (ErrWrap ''failed to save file with proxy credentials'' err)
           | None \<Rightarrow>
               let proxyAuthFile = (if length proxyAuthFileData > 0
                                    then quote @ OpenvpnProxyAuthFile env @ quote else []);
                   args = ip_string (o_proxyAddress c) @ '' '' @ show_int (o_proxyPort c) @ '' '' @ proxyAuthFile
               in Inr (if o_proxyType c = ''http'' then [''http-proxy-retry'', ''http-proxy '' @ args]
                       else [''socks-proxy-retry'', ''socks-proxy '' @ args])
      else Inr [])"

definition route_lines :: "ovpn_env \<Rightarrow> ovpn_conn \<Rightarrow> gerror + string list" where
  "route_lines env c =
     (if o_proxyAddress c \<noteq> [] \<and> (o_proxyType c = ''http'' \<or> o_proxyType c = ''socks'') then
        case ovpn_gateway env of
          Inl err \<Rightarrow> Inl (ErrWrap ''failed to get local gateway'' err)
        | Inr gw \<Rightarrow>
            if gw = [] then Inl (Err ''internal error: LocalGatewayAddress not defined. Unable to generate OpenVPN configuration'')
            else if ip_equal (o_proxyAddress c) (mk_IPv4 127 0 0 1)
            then Inr [''route '' @ ip_string (o_hostIP c) @ '' 255.255.255.255 '' @ ip_string gw]
            else Inr [''route '' @ ip_string (o_proxyAddress c) @ '' 255.255.255.255 '' @ ip_string gw]
      else Inr [])"

definition generateConfiguration where
  "generateConfiguration env localPort miAddr miPort logFile extraParameters isCanUseV24Params
     upDownScriptArgs c =
     (case proxy_lines env c of
        Inl err \<Rightarrow> Inl err
      | Inr proxy \<Rightarrow>
          if is_unspecified (o_hostIP c) then Inl (Err ''unable to connect. Host IP not defined'')
          else if o_hostPort c < 0 \<or> o_hostPort c > 65535
          then Inl (Err ''unable to connect. Invalid port'')
          else if \<not> ca_exists env then Inl (Err ''CA certificate not found'')
          else if \<not> ta_exists env then Inl (Err ''TLS auth key not found'')
          else case route_lines env c of
            Inl err \<Rightarrow> Inl err
          | Inr routes \<Rightarrow>
              let cfg =
                [''client'', ''management '' @ miAddr @ '' '' @ show_int miPort, ''management-client'',
                 ''management-hold'', ''auth-user-pass'', ''auth-nocache'',
                 ''management-query-passwords'', ''management-signal'', ''hand-window 6'']
                @ (if isCanUseV24Params
                   then [''compress'', ''pull-filter ignore '' @ quote @ ''ping'' @ quote]
                   else [''comp-lzo no''])
                @ [''keepalive 8 30'', ''connect-retry 2 6''] @ proxy
                @ (if length logFile > 0 \<and> log_enabled env
                   then [''log '' @ quote @ logFile @ quote] else [])
                @ [''dev tun'', if o_tcp c then ''proto tcp'' else ''proto udp'',
                   ''remote '' @ ip_string (o_hostIP c) @ '' '' @ show_int (o_hostPort c),
                   ''resolv-retry infinite'',
                   if localPort > (0::int) then ''lport '' @ show_int localPort else ''nobind'',
                   ''persist-key'', ''ca '' @ quote @ OpenvpnCaKeyFile env @ quote,
                   ''tls-auth '' @ quote @ OpenvpnTaKeyFile env @ quote @ '' 1'',
                   ''cipher AES-256-CBC'', ''remote-cert-tls server'', ''verb 4'']
                @ (if OpenvpnUpScript env \<noteq> []
                   then [''up '' @ quote @ OpenvpnUpScript env @ '' '' @ upDownScriptArgs @ quote] else [])
                @ (if OpenvpnDownScript env \<noteq> []
                   then [''down '' @ quote @ OpenvpnDownScript env @ '' '' @ upDownScriptArgs @ quote] else [])
                @ [''script-security 2''] @ routes
              in Inr (addUserDefinedParameters cfg extraParameters))"

subsection \<open>Properties\<close>

lemma getParam_Nil [simp]: "getParamFromConfigLine [] = []"
  by (simp add: getParamFromConfigLine_def)

lemma take_user_line_spec:
  "fst (take_user_line p us) = Some u \<Longrightarrow>
     p = getParamFromConfigLine u \<and> p \<noteq> []
     \<and> mset (filter (\<lambda>l. l \<noteq> []) us) = {#u#} + mset (filter (\<lambda>l. l \<noteq> []) (snd (take_user_line p us)))"
  "fst (take_user_line p us) = None \<Longrightarrow> snd (take_user_line p us) = us"
  "set (snd (take_user_line p us)) \<subseteq> insert [] (set us)"
  by (induction us) (auto simp: Let_def case_prod_unfold split: if_splits)

lemma take_user_line_None:
  "p \<notin> getParamFromConfigLine ` set us \<Longrightarrow> fst (take_user_line p us) = None"
  by (induction us) (auto simp: Let_def case_prod_unfold)

lemma take_user_line_mem: "fst (take_user_line p us) = Some u \<Longrightarrow> u \<in> set us"
  by (induction us) (auto simp: Let_def case_prod_unfold split: if_splits)

definition user_params :: "string list \<Rightarrow> string set" where
  "user_params us = getParamFromConfigLine ` set us - {[]}"

lemma user_params_rest:
  "user_params (snd (take_user_line p us)) \<subseteq> user_params us"
  using take_user_line_spec(3) [of p us] by (auto simp: user_params_def)

lemma take_user_line_other: "p \<notin> user_params us \<Longrightarrow> fst (take_user_line p us) = None"
  using take_user_line_spec(1) [of p us] take_user_line_None [of p us]
  by (cases "p = []") (auto simp: user_params_def split: option.splits intro: ccontr)

lemma merge_lines_mset:
  "mset (filter (\<lambda>l. l \<noteq> []) us) \<subseteq># mset (fst (merge_lines cfg us))
     + mset (filter (\<lambda>l. l \<noteq> []) (snd (merge_lines cfg us)))"
proof (induction cfg arbitrary: us)
  case (Cons l cfg)
  let ?t = "take_user_line (getParamFromConfigLine l) us"
  show ?case
  proof (cases "fst ?t")
    case None
    then have "snd ?t = us" by (rule take_user_line_spec(2))
    then show ?thesis using None Cons.IH [of us]
      by (auto simp: Let_def case_prod_unfold intro: subset_mset.order_trans)
  next
    case (Some u)
    have "mset (filter (\<lambda>l. l \<noteq> []) us) = {#u#} + mset (filter (\<lambda>l. l \<noteq> []) (snd ?t))"
      using take_user_line_spec(1) [OF Some] by blast
    then show ?thesis using Some Cons.IH [of "snd ?t"] by (simp add: Let_def case_prod_unfold)
  qed
qed simp

lemma merge_lines_keeps:
  "subseq (filter (\<lambda>l. getParamFromConfigLine l \<notin> user_params us) cfg) (fst (merge_lines cfg us))"
proof (induction cfg arbitrary: us)
  case (Cons l cfg)
  let ?t = "take_user_line (getParamFromConfigLine l) us"
  have "subseq (filter (\<lambda>l. getParamFromConfigLine l \<notin> user_params us) cfg)
      (filter (\<lambda>l. getParamFromConfigLine l \<notin> user_params (snd ?t)) cfg)"
    using user_params_rest [of "getParamFromConfigLine l" us]
    by (induction cfg) auto
  then have "subseq (filter (\<lambda>l. getParamFromConfigLine l \<notin> user_params us) cfg)
      (fst (merge_lines cfg (snd ?t)))"
    using Cons.IH [of "snd ?t"] by (rule subseq_order.order_trans)
  moreover have "fst ?t = None" if "getParamFromConfigLine l \<notin> user_params us"
    using that by (rule take_user_line_other)
  ultimately show ?case by (auto simp: Let_def case_prod_unfold)
qed simp

lemma merge_lines_from:
  "set (fst (merge_lines cfg us)) \<subseteq> set cfg \<union> set us \<union> {[]}
   \<and> set (snd (merge_lines cfg us)) \<subseteq> set us \<union> {[]}"
proof (induction cfg arbitrary: us)
  case (Cons l cfg)
  let ?t = "take_user_line (getParamFromConfigLine l) us"
  have "u \<in> set us" if "fst ?t = Some u" for u
    using that by (rule take_user_line_mem)
  then show ?case using Cons.IH [of "snd ?t"] take_user_line_spec(3) [of "getParamFromConfigLine l" us]
    by (auto simp: Let_def case_prod_unfold split: option.splits)
qed (simp add: subset_insertI)

lemma subset_add_front: "A \<subseteq># B \<Longrightarrow> A \<subseteq># add_mset x B"
  by (metis add_mset_add_single mset_subset_eq_add_left subset_mset.order_trans)

text \<open>
  Merging the user's lines loses nothing: every line the user added that is not blank
  occurs in the configuration at least as often as it was given; the lines of the daemon
  whose parameter the user does not name all stay, in their order; and every line is one
  of the two sources (or the empty line in front).
\<close>

theorem ovpn_merge_complete:
  "mset (filter (\<lambda>l. l \<noteq> []) (split_on (CHR 0x0A) user)) \<subseteq># mset (addUserDefinedParameters cfg user)
   \<and> subseq (filter (\<lambda>l. getParamFromConfigLine l \<notin> user_params (split_on (CHR 0x0A) user)) cfg)
       (addUserDefinedParameters cfg user)
   \<and> set (addUserDefinedParameters cfg user) \<subseteq> set cfg \<union> set (split_on (CHR 0x0A) user) \<union> {[]}"
proof (cases "user = []")
  case True
  then show ?thesis by (simp add: addUserDefinedParameters_def subseq_filter_left subset_insertI)
next
  case False
  let ?us = "split_on (CHR 0x0A) user"
  have e: "addUserDefinedParameters cfg user =
      [] # fst (merge_lines cfg ?us) @ filter (\<lambda>l. l \<noteq> []) (snd (merge_lines cfg ?us))"
    using False by (simp add: addUserDefinedParameters_def case_prod_unfold Let_def)
  have "mset (filter (\<lambda>l. l \<noteq> []) ?us) \<subseteq># mset (addUserDefinedParameters cfg user)"
    unfolding e using merge_lines_mset [of ?us cfg]
    by (simp add: subset_add_front)
  moreover have "subseq (filter (\<lambda>l. getParamFromConfigLine l \<notin> user_params ?us) cfg)
      (addUserDefinedParameters cfg user)"
    unfolding e using merge_lines_keeps [of ?us cfg] by auto
  moreover have "set (addUserDefinedParameters cfg user) \<subseteq> set cfg \<union> set ?us \<union> {[]}"
    unfolding e using merge_lines_from [of cfg ?us] by auto
  ultimately show ?thesis by blast
qed

text \<open>
  With a valid port, the key files in place, no proxy and no lines of the user, the
  unspecified host address is rejected, and for every other one a configuration is
  generated with exactly one remote line, naming the host and the port. A host address
  that is missing (nil) is not rejected: its remote line names \<open><nil>\<close> as the host.
\<close>

theorem ovpn_remote_line:
  assumes "ca_exists env" "ta_exists env" "0 \<le> o_hostPort c" "o_hostPort c \<le> 65535"
    and "o_proxyType c = []"
  shows "case generateConfiguration env lport addr port [] [] v24 args c of
      Inl err \<Rightarrow> is_unspecified (o_hostIP c) \<and> err = Err ''unable to connect. Host IP not defined''
    | Inr cfg \<Rightarrow> \<not> is_unspecified (o_hostIP c)
        \<and> filter (prefix ''remote '') cfg
          = [''remote '' @ (if o_hostIP c = [] then ''<nil>'' else ip_string (o_hostIP c)) @ '' ''
              @ show_int (o_hostPort c)]"
proof -
  have p: "proxy_lines env c = Inr []" "route_lines env c = Inr []"
    using assms(5) by (simp_all add: proxy_lines_def route_lines_def)
  have "ip_string (o_hostIP c) = ''<nil>''" if "o_hostIP c = []" using that by (simp add: ip_string_def)
  then show ?thesis
    using assms by (simp add: generateConfiguration_def p addUserDefinedParameters_def Let_def)
qed

definition sample_ovpn :: "net_ip \<Rightarrow> ovpn_conn" where
  "sample_ovpn ip = ovpn_CreateConnectionParams [] False 1194 ip [] [] 0 [] []"

definition sample_ovpn_env :: ovpn_env where
  "sample_ovpn_env = \<lparr>OpenvpnProxyAuthFile = ''auth'', OpenvpnCaKeyFile = ''ca.crt'',
     OpenvpnTaKeyFile = ''ta.key'', OpenvpnUpScript = [], OpenvpnDownScript = [], ca_exists = True,
     ta_exists = True, write_auth = (\<lambda>_. None), ovpn_gateway = Inr [192, 168, 0, 1], log_enabled = False\<rparr>"

theorem ovpn_remote_line_witness:
  "filter (prefix ''remote '') (projr (generateConfiguration sample_ovpn_env 0 ''127.0.0.1'' 4000 [] []
     True [] (sample_ovpn []))) = [''remote <nil> 1194'']"
proof -
  have "ca_exists sample_ovpn_env" "ta_exists sample_ovpn_env" "0 \<le> o_hostPort (sample_ovpn [])"
    "o_hostPort (sample_ovpn []) \<le> 65535" "o_proxyType (sample_ovpn []) = []"
    by (simp_all add: sample_ovpn_env_def sample_ovpn_def ovpn_CreateConnectionParams_def)
  from ovpn_remote_line [OF this, of 0 "''127.0.0.1''" 4000 True "[]"]
  have "filter (prefix ''remote '') (projr (generateConfiguration sample_ovpn_env 0 ''127.0.0.1'' 4000 [] []
     True [] (sample_ovpn []))) = [''remote '' @ ''<nil>'' @ '' '' @ show_int 1194]"
    by (simp add: sample_ovpn_def ovpn_CreateConnectionParams_def is_unspecified_def ip_equal_def mk_IPv4_def
        split: sum.splits)
  moreover have "show_int 1194 = ''1194''" by code_simp
  ultimately show ?thesis by simp
qed

end
