(* ===== verification/Service_State.thy ===== *)
theory Service_State
  imports Firewall_Sync Preferences
begin

section \<open>The state of the service (daemon/service/service.go, types/types.go)\<close>

text \<open>
  \<open>svc\<close> is the struct \<open>Service\<close> with the firewall it drives and, last, the log of the
  calls that leave the modelled code, newest first: the VPN process, the split-tunnel
  driver, the network-change detector, the API client, the saving of the
  preferences, the notifications of the clients and the goroutines started. \<open>svc_env\<close>
  gives their results as functions of the calls before. The body of a goroutine is an
  operation of its own, so its interleavings with the others are the orders in which the
  operations of a run are listed.
\<close>

datatype RequiredState = Required_Disconnect | Required_Connect | Required_KeepConnection

record VpnSessionInfo =
  OutboundIPv4 :: net_ip
  OutboundIPv6 :: net_ip
  VpnLocalIPv4 :: net_ip
  VpnLocalIPv6 :: net_ip

record TempDnsSettings =
  tmp_Dns :: DnsSettings
  Description :: string
  IssuerDescription :: string

definition tmp_IsEmpty :: "TempDnsSettings \<Rightarrow> bool" where
  "tmp_IsEmpty f = dns_IsEmpty (tmp_Dns f)"

definition tmp_Equal :: "TempDnsSettings \<Rightarrow> TempDnsSettings \<Rightarrow> bool" where
  "tmp_Equal f x = (if Description f \<noteq> Description x then False else dns_Equal (tmp_Dns f) (tmp_Dns x))"

record KillSwitchStatus =
  ks_IsEnabled :: bool
  ks_IsPersistent :: bool
  ks_IsAllowLAN :: bool
  ks_IsAllowMulticast :: bool
  ks_IsAllowApiServers :: bool
  ks_UserExceptions :: string
  ks_StateLanAllowed :: bool

record WifiInfo =
  info_SSID :: string
  info_IsInsecure :: bool

datatype event =
    OnKillSwitchStateChanged
  | OnSplitTunnelStatusChanged
  | OnVpnPauseChanged
  | OnServiceSessionChanged
  | OnSessionStatus string AccountStatus string
  | OnConnectionStarting net_ip int bool
  | OnConnectionStopped
  | OnVpnStateChanged StateInfo
  | SystemLog string
  | OnServersUpdated ServersInfoResponse
  | OnWiFiChanged WifiInfo
  | OnPingStatus "(string \<times> int) list"

datatype routine =
    R_RequestSessionStatus | R_stopSessionChecker | R_pause_resumer | R_reconnect
  | R_StartKeysRotation | R_OnSessionNotFound | R_route_reconnect | R_dns_check | R_ping_second

datatype ext_call =
    Pref_Save Preferences
  | Notify event
  | Go routine
  | St_ApplyConfig bool bool bool bool VpnSessionInfo "string list"
  | St_Reset | St_AddPid int string | St_RemovePid int
  | Net_Start | Net_Stop | Net_UnInit
  | Vpn_Init | Vpn_Connect | Vpn_Disconnect | Vpn_Pause | Vpn_Resume
  | Vpn_SetManualDNS DnsSettings
  | Vpn_ResetManualDNS | Vpn_OnRoutingChanged
  | V2_UpdateMainRoute net_ip bool | V2_Stop
  | Net_Init
  | Dns_ApplyUserSettings | Dns_UpdateIfWrongSettings
  | Api_SessionDelete string | Api_SessionNew bool | Api_SessionStatus string
  | Api_WireGuardKeySet string string bool
  | Register_Connection ConnectionParams

text \<open>
  The running VPN process: what the service reads of it, and the arguments and variables
  of the \<open>connect\<close> call that runs it (\<open>v2rayEndpoint\<close> is \<open>None\<close> without a V2Ray wrapper,
  else what its \<open>GetRemoteEndpoint\<close> gives), which its goroutines and its deferred cleanup
  use.
\<close>

record svrConnInfo =
  svr_IP :: net_ip
  svr_Port :: int
  svr_PortType :: int
  svr_V2RayProxyType :: int

record vpn_obj =
  vpn_Type :: vpn_type
  DefaultDNS :: net_ip
  Destination :: "net_ip \<times> int \<times> bool"
  DefaultRouteGatewayIP :: net_ip
  vpn_IsPaused :: bool
  originalEntryServerInfo :: "svrConnInfo option"
  v2rayEndpoint :: "(gerror + net_ip \<times> int \<times> bool) option"
  firewallDuringConnection :: bool
  fwInitState :: bool

record DisabledFunctionality =
  WireGuardError :: string
  OpenVPNError :: string
  ObfsproxyError :: string
  V2RayError :: string

record svc_env =
  se_fw :: fw_env
  se_call :: "ext_call list \<Rightarrow> ext_call \<Rightarrow> error"
  GetDisabledFunctions :: DisabledFunctionality
  DefaultGatewayIP :: "gerror + net_ip"
  ServersList :: "gerror + ServersInfoResponse"
  GetFuncNotAvailableError :: "error \<times> error"
  se_url_parse :: "string \<Rightarrow> error"
  se_version :: string
  se_uuid :: string
  se_now :: gotime
  pausedAfterError :: bool
  GetCurrentWifiInfo :: WifiInfo
  IsClientConnected :: bool
  IsMainClientConnected :: bool
  IsCanDoBackgroundAction :: bool

record svc =
  sv_preferences :: Preferences
  sv_fw :: fw
  sv_vpn :: "vpn_obj option"
  sv_requiredVpnState :: RequiredState
  sv_vpnSessionInfo :: VpnSessionInfo
  sv_isNeedToUpdateSessionInfo :: bool
  sv_pauseTill :: gotime
  sv_pauseKillSwitch :: bool
  sv_tmpParams :: ConnectionParams
  TempPrioritizedDns :: TempDnsSettings
  sv_splitTunnelNoFuncReason :: string
  sv_sessionChecker :: bool
  keys_running :: bool
  activeRotationInterval :: duration
  autoconnectLastProcessedWifi :: "WifiInfo \<times> WiFiParams"
  sv_pingResults :: "(string \<times> int) list"
  sv_pingBusy :: bool
  sv_log :: "ext_call list"

definition call :: "svc_env \<Rightarrow> ext_call \<Rightarrow> svc \<Rightarrow> error \<times> svc" where
  "call env c s = (se_call env (sv_log s) c, s\<lparr>sv_log := c # sv_log s\<rparr>)"

definition emit :: "ext_call \<Rightarrow> svc \<Rightarrow> svc" where
  "emit c s = s\<lparr>sv_log := c # sv_log s\<rparr>"

definition on_fw :: "(fw \<Rightarrow> 'a \<times> fw) \<Rightarrow> svc \<Rightarrow> 'a \<times> svc" where
  "on_fw f s = (let (r, w) = f (sv_fw s) in (r, s\<lparr>sv_fw := w\<rparr>))"

subsection \<open>Preferences\<close>

text \<open>
  \<open>SavePreferences\<close> stamps the version and writes the file; its error is dropped. What is
  given to it is logged. A Go slice that is nil and one that is empty are the same list
  here, so \<open>setPreferences\<close> may save once less than the code for equal settings.
\<close>

definition save_prefs :: "svc_env \<Rightarrow> svc \<Rightarrow> svc" where
  "save_prefs env s =
     (let p = (sv_preferences s)\<lparr>pref_Version := se_version env\<rparr>
      in emit (Pref_Save p) (s\<lparr>sv_preferences := p\<rparr>))"

definition setPreferences :: "svc_env \<Rightarrow> Preferences \<Rightarrow> svc \<Rightarrow> svc" where
  "setPreferences env p s =
     (if sv_preferences s \<noteq> p then save_prefs env (s\<lparr>sv_preferences := p\<rparr>) else s)"

definition GetConnectionParams :: "svc \<Rightarrow> ConnectionParams" where
  "GetConnectionParams s = LastConnectionParams (sv_preferences s)"

definition setConnectionParams :: "svc_env \<Rightarrow> ConnectionParams \<Rightarrow> svc \<Rightarrow> svc" where
  "setConnectionParams env params s =
     setPreferences env ((sv_preferences s)\<lparr>LastConnectionParams := params\<rparr>) s"

definition Connected :: "svc \<Rightarrow> bool" where
  "Connected s \<longleftrightarrow> sv_vpn s \<noteq> None"

definition ConnectedType :: "svc \<Rightarrow> bool \<times> vpn_type" where
  "ConnectedType s = (case sv_vpn s of None \<Rightarrow> (False, 0) | Some v \<Rightarrow> (True, vpn_Type v))"

definition SetConnectionParams :: "svc_env \<Rightarrow> ConnectionParams \<Rightarrow> svc \<Rightarrow> svc" where
  "SetConnectionParams env params s =
     (if Connected s then s\<lparr>sv_tmpParams := params\<rparr> else setConnectionParams env params s)"

definition IsPaused :: "svc \<Rightarrow> bool" where
  "IsPaused s = (case sv_vpn s of None \<Rightarrow> False | Some v \<Rightarrow> vpn_IsPaused v \<and> sv_pauseTill s \<noteq> 0)"

definition service_IsCanConnectMultiHop :: "svc \<Rightarrow> error" where
  "service_IsCanConnectMultiHop s = IsCanConnectMultiHop (Account (sv_preferences s))"

datatype ServicePreference =
    Prefs_IsEnableLogging | Prefs_IsAutoconnectOnLaunch | Prefs_IsAutoconnectOnLaunch_Daemon
  | Prefs_other string

text \<open>An unparsable value leaves the preference as it is and is no error.\<close>

definition SetPreference ::
  "svc_env \<Rightarrow> ServicePreference \<Rightarrow> string \<Rightarrow> svc \<Rightarrow> (bool \<times> error) \<times> svc" where
  "SetPreference env key val s =
     (let prefs = sv_preferences s in
      case (key, parse_bool val) of
        (Prefs_IsEnableLogging, Some v) \<Rightarrow>
          ((v \<noteq> IsLogging prefs, None), setPreferences env (prefs\<lparr>IsLogging := v\<rparr>) s)
      | (Prefs_IsAutoconnectOnLaunch, Some v) \<Rightarrow>
          ((v \<noteq> IsAutoconnectOnLaunch prefs, None),
           setPreferences env (prefs\<lparr>IsAutoconnectOnLaunch := v\<rparr>) s)
      | (Prefs_IsAutoconnectOnLaunch_Daemon, Some v) \<Rightarrow>
          if v \<and> CheckIsDefined (LastConnectionParams prefs) \<noteq> None
          then ((False, Some ErrorBackgroundConnectionNoParams), s)
          else ((v \<noteq> IsAutoconnectOnLaunchDaemon prefs, None),
                setPreferences env (prefs\<lparr>IsAutoconnectOnLaunchDaemon := v\<rparr>) s)
      | _ \<Rightarrow> ((False, None), setPreferences env prefs s))"

subsection \<open>The service after its creation\<close>

definition noInfo :: VpnSessionInfo where
  "noInfo = \<lparr>OutboundIPv4 = [], OutboundIPv6 = [], VpnLocalIPv4 = [], VpnLocalIPv6 = []\<rparr>"

definition noTempDns :: TempDnsSettings where
  "noTempDns = \<lparr>tmp_Dns = noDns, Description = [], IssuerDescription = []\<rparr>"

definition svc_init :: "Preferences \<Rightarrow> svc" where
  "svc_init p =
     \<lparr>sv_preferences = p, sv_fw = fw_init, sv_vpn = None, sv_requiredVpnState = Required_Disconnect,
      sv_vpnSessionInfo = noInfo, sv_isNeedToUpdateSessionInfo = False, sv_pauseTill = 0,
      sv_pauseKillSwitch = False, sv_tmpParams = noConnectionParams, TempPrioritizedDns = noTempDns,
      sv_splitTunnelNoFuncReason = [], sv_sessionChecker = False,
      keys_running = False, activeRotationInterval = 0,
      autoconnectLastProcessedWifi =
        (\<lparr>info_SSID = [], info_IsInsecure = False\<rparr>,
         WiFiParamsCreate\<lparr>Actions := \<lparr>UnTrustedConnectVpn = False, UnTrustedEnableFirewall = False,
           UnTrustedBlockLan = False, TrustedDisconnectVpn = False, TrustedDisableFirewall = False\<rparr>\<rparr>),
      sv_pingResults = [], sv_pingBusy = False,
      sv_log = []\<rparr>"

subsection \<open>Basic facts\<close>

lemma setPreferences_prefs [simp]:
  "sv_fw (setPreferences env p s) = sv_fw s"
  "sv_vpn (setPreferences env p s) = sv_vpn s"
  "sv_pauseTill (setPreferences env p s) = sv_pauseTill s"
  "TempPrioritizedDns (setPreferences env p s) = TempPrioritizedDns s"
  "sv_tmpParams (setPreferences env p s) = sv_tmpParams s"
  by (simp_all add: setPreferences_def save_prefs_def emit_def Let_def)

lemma setPreferences_eq:
  "sv_preferences (setPreferences env p s) =
     (if sv_preferences s = p then p else p\<lparr>pref_Version := se_version env\<rparr>)"
  by (simp add: setPreferences_def save_prefs_def emit_def Let_def)

end
