(* ===== verification/Service_Dns.thy ===== *)
theory Service_Dns
  imports Service_State
begin

section \<open>The choice of the DNS of a connection (daemon/service/service_dns.go)\<close>

text \<open>
  Which DNS the running connection uses: the temporary one of a client, the AntiTracker's,
  the manual one or the default of the connection. The list of servers is
  \<open>ServersList\<close> of the environment.
\<close>

subsection \<open>The AntiTracker\<close>

fun find_blocklist :: "string \<Rightarrow> AntiTrackerPlusServer list \<Rightarrow> AntiTrackerPlusServer option" where
  "find_blocklist name [] = None"
| "find_blocklist name (svr # rest) =
     (if to_lower (trim_space (atp_Name svr)) = name then Some svr else find_blocklist name rest)"

definition getAntiTrackerDns :: "svc_env \<Rightarrow> bool \<Rightarrow> string \<Rightarrow> DnsSettings \<times> error" where
  "getAntiTrackerDns env isHardcore antiTrackerPlusList =
     (case ServersList env of
        Inl err \<Rightarrow> (noDns, Some (ErrWrap ''failed to determine AntiTracker parameters'' err))
      | Inr servers \<Rightarrow>
          let atListName = to_lower (trim_space antiTrackerPlusList);
              atListName = (if length atListName = 0 then ''basic'' else atListName);
              dnsCfg =
                (case find_blocklist atListName (AntiTrackerPlus (Config servers)) of
                   Some svr \<Rightarrow> if isHardcore then DnsSettingsCreate (parse_ip (atp_Hardcore svr))
                               else DnsSettingsCreate (parse_ip (atp_Normal svr))
                 | None \<Rightarrow>
                     if isHardcore
                     then DnsSettingsCreate (parse_ip (at_Hardcore (Antitracker (Config servers))))
                     else DnsSettingsCreate (parse_ip (at_Default (Antitracker (Config servers)))))
          in (dnsCfg, if dns_IsEmpty dnsCfg then Some (Err ''unable to determine AntiTracker DNS'') else None))"

definition noAntiTracker :: AntiTrackerMetadata where
  "noAntiTracker = \<lparr>at_Enabled = False, at_HardcoreOn = False, AntiTrackerBlockListName = []\<rparr>"

fun find_by_host :: "string \<Rightarrow> AntiTrackerPlusServer list \<Rightarrow> AntiTrackerMetadata option" where
  "find_by_host host [] = None"
| "find_by_host host (svr # rest) =
     (if equal_fold host (trim_space (atp_Normal svr)) then
        Some \<lparr>at_Enabled = True, at_HardcoreOn = False, AntiTrackerBlockListName = atp_Name svr\<rparr>
      else if equal_fold host (trim_space (atp_Hardcore svr)) then
        Some \<lparr>at_Enabled = True, at_HardcoreOn = True, AntiTrackerBlockListName = atp_Name svr\<rparr>
      else find_by_host host rest)"

definition getAntiTrackerInfo :: "svc_env \<Rightarrow> DnsSettings \<Rightarrow> AntiTrackerMetadata \<times> error" where
  "getAntiTrackerInfo env dnsVal =
     (if dns_IsEmpty dnsVal \<or> UseEncryption dnsVal \<or> length (Servers dnsVal) \<noteq> 1 then (noAntiTracker, None)
      else case ServersList env of
        Inl err \<Rightarrow> (noAntiTracker, Some (ErrWrap ''failed to determine AntiTracker parameters'' err))
      | Inr servers \<Rightarrow>
          let dnsHost = to_lower (trim_space (Address (Servers dnsVal ! 0))) in
          if dnsHost = [] then (noAntiTracker, None)
          else case find_by_host dnsHost (AntiTrackerPlus (Config servers)) of
            Some at \<Rightarrow> (at, None)
          | None \<Rightarrow>
              if equal_fold dnsHost (trim_space (at_Default (Antitracker (Config servers)))) then
                (\<lparr>at_Enabled = True, at_HardcoreOn = False, AntiTrackerBlockListName = []\<rparr>, None)
              else if equal_fold dnsHost (trim_space (at_Hardcore (Antitracker (Config servers)))) then
                (\<lparr>at_Enabled = True, at_HardcoreOn = True, AntiTrackerBlockListName = []\<rparr>, None)
              else (noAntiTracker, None))"

definition normalizeAntiTrackerBlockListName ::
  "svc_env \<Rightarrow> AntiTrackerMetadata \<Rightarrow> AntiTrackerMetadata \<times> error" where
  "normalizeAntiTrackerBlockListName env antiTracker =
     (let atBlistName = to_lower (trim_space (AntiTrackerBlockListName antiTracker));
          known = (if atBlistName = [] then None
                   else case ServersList env of
                          Inl _ \<Rightarrow> None
                        | Inr servers \<Rightarrow> find_blocklist atBlistName (AntiTrackerPlus (Config servers)))
      in case known of
           Some svr \<Rightarrow> (antiTracker\<lparr>AntiTrackerBlockListName := trim_space (atp_Name svr)\<rparr>, None)
         | None \<Rightarrow>
             let retError = (if atBlistName = [] then None
                             else Some (Err (''unexpected DNS block list name: '' @ CHR 0x27 # AntiTrackerBlockListName antiTracker @ [CHR 0x27])));
                 (tmpDns, err) = getAntiTrackerDns env (at_HardcoreOn antiTracker) []
             in if err \<noteq> None then (antiTracker, retError)
                else
                  let (tmpAt, err) = getAntiTrackerInfo env tmpDns
                  in if err \<noteq> None then (antiTracker, retError)
                     else (antiTracker\<lparr>AntiTrackerBlockListName := AntiTrackerBlockListName tmpAt\<rparr>, retError))"

definition GetSettingsAntiTracker :: "svc_env \<Rightarrow> svc \<Rightarrow> AntiTrackerMetadata" where
  "GetSettingsAntiTracker env s =
     fst (normalizeAntiTrackerBlockListName env (AntiTracker (Metadata (GetConnectionParams s))))"

subsection \<open>The DNS in use\<close>

definition getEffectiveDnsOverride :: "svc_env \<Rightarrow> svc \<Rightarrow> DnsSettings \<times> error" where
  "getEffectiveDnsOverride env s =
     (let defaultParams = GetConnectionParams s in
      if \<not> tmp_IsEmpty (TempPrioritizedDns s) then (tmp_Dns (TempPrioritizedDns s), None)
      else
        let antiTrackerCfg = AntiTracker (Metadata defaultParams) in
        if at_Enabled antiTrackerCfg
        then getAntiTrackerDns env (at_HardcoreOn antiTrackerCfg) (AntiTrackerBlockListName antiTrackerCfg)
        else (ManualDNS defaultParams, None))"

definition getActiveDNS :: "svc_env \<Rightarrow> svc \<Rightarrow> DnsSettings \<times> error" where
  "getActiveDNS env s =
     (case sv_vpn s of
        None \<Rightarrow> (noDns, None)
      | Some vpnObj \<Rightarrow>
          let (manualDns, err) = getEffectiveDnsOverride env s in
          if err \<noteq> None then (noDns, err)
          else if \<not> dns_IsEmpty manualDns then (manualDns, None)
          else (DnsSettingsCreate (DefaultDNS vpnObj), None))"

definition applyDnsOverride :: "svc_env \<Rightarrow> svc \<Rightarrow> error \<times> svc" where
  "applyDnsOverride env s =
     (case sv_vpn s of
        None \<Rightarrow> (None, s)
      | Some vpn \<Rightarrow>
          let (cfg, err) = getEffectiveDnsOverride env s in
          if err \<noteq> None then (err, s)
          else if dns_IsEmpty cfg then call env Vpn_ResetManualDNS s
          else call env (Vpn_SetManualDNS cfg) s)"

definition saveDnsParams ::
  "svc_env \<Rightarrow> DnsSettings option \<Rightarrow> AntiTrackerMetadata option \<Rightarrow> TempDnsSettings option \<Rightarrow> svc
     \<Rightarrow> (bool \<times> error) \<times> svc" where
  "saveDnsParams env dnsCfg antiTrackerCfg tmpPrioritizedDnsCfg s =
     (let defaultParams = GetConnectionParams s;
          isDnsNew = (case dnsCfg of None \<Rightarrow> False | Some d \<Rightarrow> \<not> dns_Equal (ManualDNS defaultParams) d);
          isAttNew = (case antiTrackerCfg of None \<Rightarrow> False
                      | Some a \<Rightarrow> \<not> at_Equal (AntiTracker (Metadata defaultParams)) a);
          idPioNew = (case tmpPrioritizedDnsCfg of None \<Rightarrow> False
                      | Some t \<Rightarrow> \<not> tmp_Equal (TempPrioritizedDns s) t)
      in if \<not> isDnsNew \<and> \<not> isAttNew \<and> \<not> idPioNew then ((False, None), s)
         else
           let s = (case tmpPrioritizedDnsCfg of
                      Some t \<Rightarrow> if idPioNew then s\<lparr>TempPrioritizedDns := t\<rparr> else s
                    | None \<Rightarrow> s);
               (at, err) = (case antiTrackerCfg of
                              Some a \<Rightarrow> if isAttNew then normalizeAntiTrackerBlockListName env a
                                        else (AntiTracker (Metadata defaultParams), None)
                            | None \<Rightarrow> (AntiTracker (Metadata defaultParams), None))
           in if err \<noteq> None then ((False, err), s)
              else
                let defaultParams = defaultParams\<lparr>Metadata := (Metadata defaultParams)\<lparr>AntiTracker := at\<rparr>\<rparr>;
                    defaultParams = (case dnsCfg of
                                       Some d \<Rightarrow> if isDnsNew then defaultParams\<lparr>ManualDNS := d\<rparr> else defaultParams
                                     | None \<Rightarrow> defaultParams)
                in ((True, None), setConnectionParams env defaultParams s))"

subsection \<open>Basic facts\<close>

lemma find_blocklist_name:
  "find_blocklist n svrs = Some svr \<Longrightarrow> svr \<in> set svrs \<and> to_lower (trim_space (atp_Name svr)) = n"
  by (induction svrs) (auto split: if_splits)

lemma to_lower_idem [simp]: "to_lower (to_lower s) = to_lower s"
proof -
  have "to_lower_char (to_lower_char c) = to_lower_char c" for c
    by (auto simp: to_lower_char_def)
  then show ?thesis by (simp add: to_lower_def)
qed

end
