(* ===== verification/Service_Ops.thy ===== *)
theory Service_Ops
  imports Service_Dns
begin

section \<open>The operations of the service (daemon/service: service.go, service\_dns.go)\<close>

text \<open>
  The kill switch, the split tunnel, the DNS override, pausing and resuming, disconnecting
  and the session, each with every call that changes the state. A deferred call is placed
  where the function returns.
\<close>

subsection \<open>Trusted WiFi: the decision (service\_autoconnect.go)\<close>

datatype actionTypeVpn = VPN_NoAction | VPN_On | VPN_Off
datatype actionTypeFirewall = FW_NoAction | FW_On | FW_Off | FW_On_and_blockLan

record automaticAction =
  act_Vpn :: actionTypeVpn
  act_Firewall :: actionTypeFirewall

definition noAction :: automaticAction where
  "noAction = \<lparr>act_Vpn = VPN_NoAction, act_Firewall = FW_NoAction\<rparr>"

definition IsHasAction :: "automaticAction \<Rightarrow> bool" where
  "IsHasAction a \<longleftrightarrow> act_Firewall a \<noteq> FW_NoAction \<or> act_Vpn a \<noteq> VPN_NoAction"

definition isCanApplyWiFiActions :: "svc_env \<Rightarrow> svc \<Rightarrow> bool" where
  "isCanApplyWiFiActions env s =
     (if \<not> CanApplyInBackground (WiFiControl (sv_preferences s)) \<and> \<not> IsMainClientConnected env
      then False else True)"

fun network_trust :: "string \<Rightarrow> WiFiNetwork list \<Rightarrow> bool option" where
  "network_trust ssid [] = None"
| "network_trust ssid (w # ws) =
     (if SSID w \<noteq> ssid then network_trust ssid ws else Some (wifi_IsTrusted w))"

definition trust_action :: "WiFiActions \<Rightarrow> bool \<Rightarrow> automaticAction" where
  "trust_action a isTrusted =
     (if \<not> isTrusted then
        let r = noAction;
            r = (if UnTrustedConnectVpn a then r\<lparr>act_Vpn := VPN_On\<rparr> else r);
            r = (if UnTrustedEnableFirewall a then r\<lparr>act_Firewall := FW_On\<rparr> else r)
        in if UnTrustedBlockLan a then r\<lparr>act_Firewall := FW_On_and_blockLan\<rparr> else r
      else
        let r = noAction;
            r = (if TrustedDisconnectVpn a then r\<lparr>act_Vpn := VPN_Off\<rparr> else r)
        in if TrustedDisableFirewall a then r\<lparr>act_Firewall := FW_Off\<rparr> else r)"

definition getActionForWifiNetwork :: "svc_env \<Rightarrow> WifiInfo \<Rightarrow> svc \<Rightarrow> automaticAction" where
  "getActionForWifiNetwork env wifiInfo s =
     (let prefs = sv_preferences s in
      if \<not> IsLoggedIn (Session prefs) then noAction
      else if \<not> isCanApplyWiFiActions env s then noAction
      else
        let wifiParams = WiFiControl prefs in
        if \<not> TrustedNetworksControl wifiParams \<or> info_SSID wifiInfo = [] then noAction
        else
          let isNetworkTrusted = network_trust (info_SSID wifiInfo) (Networks wifiParams);
              isNetworkTrusted = (if isNetworkTrusted = None
                                  then DefaultTrustStatusTrusted wifiParams else isNetworkTrusted)
          in case isNetworkTrusted of
               None \<Rightarrow> noAction
             | Some trusted \<Rightarrow> trust_action (Actions wifiParams) trusted)"

definition isTrustedWifiForcingToBlockLan :: "svc_env \<Rightarrow> WifiInfo option \<Rightarrow> svc \<Rightarrow> bool" where
  "isTrustedWifiForcingToBlockLan env wifiInfoPtr s =
     (if \<not> IsLoggedIn (Session (sv_preferences s)) then False
      else if \<not> IsCanDoBackgroundAction env then False
      else
        let wifiInfo = (case wifiInfoPtr of None \<Rightarrow> GetCurrentWifiInfo env | Some i \<Rightarrow> i)
        in act_Firewall (getActionForWifiNetwork env wifiInfo s) = FW_On_and_blockLan)"

subsection \<open>Kill switch\<close>

definition onKillSwitchStateChanged :: "svc \<Rightarrow> svc" where
  "onKillSwitchStateChanged s =
     (let s = emit (Notify OnKillSwitchStateChanged) s
      in if sv_isNeedToUpdateSessionInfo s then emit (Go R_RequestSessionStatus) s else s)"

definition SetKillSwitchState :: "svc_env \<Rightarrow> bool \<Rightarrow> svc \<Rightarrow> error \<times> svc" where
  "SetKillSwitchState env isEnabled s =
     (if \<not> isEnabled \<and> IsFwPersistant (sv_preferences s) then
        (Some (Err ''unable to disable Firewall in 'Persistent' state. Please, disable 'Always-on firewall' first''), s)
      else if IsPaused s then
        (Some (Err ''unable to change the firewall state while connection is paused, please resume the connection first''), s)
      else if isEnabled \<and> IsInverseSplitTunneling (sv_preferences s) then
        (Some (Err ''firewall cannot be enabled while Inverse Split Tunnel is active; please disable Inverse Split Tunnel first''), s)
      else
        let (err, s) = on_fw (fw_SetEnabled (se_fw env) isEnabled) s
        in if err \<noteq> None then (err, s)
           else
             let s = onKillSwitchStateChanged s
             in (None, if \<not> IsClientConnected env
                       then emit (Notify (SystemLog (if isEnabled then ''IVPN Firewall enabled''
                                                     else ''IVPN Firewall disabled''))) s
                       else s))"

definition KillSwitchState :: "svc_env \<Rightarrow> svc \<Rightarrow> (KillSwitchStatus \<times> error) \<times> svc" where
  "KillSwitchState env s =
     (let prefs = sv_preferences s;
          ((enabled, isLanAllowed, _, err), s) = on_fw (fw_GetState (se_fw env)) s
      in ((\<lparr>ks_IsEnabled = enabled, ks_IsPersistent = IsFwPersistant prefs,
            ks_IsAllowLAN = IsFwAllowLAN prefs, ks_IsAllowMulticast = IsFwAllowLANMulticast prefs,
            ks_IsAllowApiServers = IsFwAllowApiServers prefs,
            ks_UserExceptions = FwUserExceptions prefs, ks_StateLanAllowed = isLanAllowed\<rparr>, err), s))"

definition FirewallEnabled :: "svc_env \<Rightarrow> svc \<Rightarrow> (bool \<times> error) \<times> svc" where
  "FirewallEnabled env s = on_fw (fw_GetEnabled (se_fw env)) s"

definition SetKillSwitchIsPersistent :: "svc_env \<Rightarrow> bool \<Rightarrow> svc \<Rightarrow> error \<times> svc" where
  "SetKillSwitchIsPersistent env persistent s =
     (if IsPaused s then
        (Some (Err ''unable to change the firewall state while connection is paused, please resume the connection first''), s)
      else if persistent \<and> IsInverseSplitTunneling (sv_preferences s) then
        (Some (Err ''firewall cannot be enabled while Inverse Split Tunnel is active; please disable Inverse Split Tunnel first''), s)
      else
        let s = setPreferences env ((sv_preferences s)\<lparr>IsFwPersistant := persistent\<rparr>) s;
            ((err, _), s) = on_fw (fw_SetPersistant (se_fw env) persistent) s
        in (err, if err = None then onKillSwitchStateChanged s else s))"

definition applyKillSwitchAllowLAN :: "svc_env \<Rightarrow> WifiInfo option \<Rightarrow> svc \<Rightarrow> error \<times> svc" where
  "applyKillSwitchAllowLAN env wifiInfoPtr s =
     (let prefs = sv_preferences s;
          isAllowLAN = IsFwAllowLAN prefs;
          isAllowLAN = (if isAllowLAN \<and> isTrustedWifiForcingToBlockLan env wifiInfoPtr s
                        then False else isAllowLAN)
      in on_fw (fw_AllowLAN (se_fw env) isAllowLAN (IsFwAllowLANMulticast prefs)) s)"

definition setKillSwitchAllowLAN :: "svc_env \<Rightarrow> bool \<Rightarrow> bool \<Rightarrow> svc \<Rightarrow> error \<times> svc" where
  "setKillSwitchAllowLAN env isAllowLan isAllowLanMulticast s =
     (let s = setPreferences env ((sv_preferences s)\<lparr>IsFwAllowLAN := isAllowLan,
                IsFwAllowLANMulticast := isAllowLanMulticast\<rparr>) s;
          (err, s) = applyKillSwitchAllowLAN env None s
      in (err, if err = None then onKillSwitchStateChanged s else s))"

definition SetKillSwitchAllowLAN :: "svc_env \<Rightarrow> bool \<Rightarrow> svc \<Rightarrow> error \<times> svc" where
  "SetKillSwitchAllowLAN env isAllowLan s =
     setKillSwitchAllowLAN env isAllowLan (IsFwAllowLANMulticast (sv_preferences s)) s"

definition SetKillSwitchAllowLANMulticast :: "svc_env \<Rightarrow> bool \<Rightarrow> svc \<Rightarrow> error \<times> svc" where
  "SetKillSwitchAllowLANMulticast env isAllowLanMulticast s =
     setKillSwitchAllowLAN env (IsFwAllowLAN (sv_preferences s)) isAllowLanMulticast s"

definition updateAPIAddrInFWExceptions :: "svc_env \<Rightarrow> svc \<Rightarrow> svc" where
  "updateAPIAddrInFWExceptions env s =
     (case ServersList env of
        Inl _ \<Rightarrow> s
      | Inr svrs \<Rightarrow>
          let ivpnAPIAddr = IPAddresses (APIInfo (Config svrs)) in
          if length ivpnAPIAddr \<le> 0 then s
          else
            let apiAddrs = filter (\<lambda>ip. ip \<noteq> []) (map parse_ip ivpnAPIAddr) in
            if length apiAddrs > 0 then
              if IsFwAllowApiServers (sv_preferences s)
              then snd (on_fw (fw_AddHostsToExceptions (se_fw env) apiAddrs False True) s)
              else snd (on_fw (fw_RemoveHostsFromExceptions (se_fw env) apiAddrs False True) s)
            else s)"

definition SetKillSwitchAllowAPIServers :: "svc_env \<Rightarrow> bool \<Rightarrow> svc \<Rightarrow> error \<times> svc" where
  "SetKillSwitchAllowAPIServers env isAllowAPIServers s =
     (if \<not> isAllowAPIServers \<and> \<not> IsLoggedIn (Session (sv_preferences s)) then (Some ErrorNotLoggedIn, s)
      else
        let s = setPreferences env ((sv_preferences s)\<lparr>IsFwAllowApiServers := isAllowAPIServers\<rparr>) s;
            s = onKillSwitchStateChanged s
        in (None, updateAPIAddrInFWExceptions env s))"

definition SetKillSwitchUserExceptions :: "svc_env \<Rightarrow> string \<Rightarrow> bool \<Rightarrow> svc \<Rightarrow> error \<times> svc" where
  "SetKillSwitchUserExceptions env exceptions ignoreParsingErrors s =
     (let s = setPreferences env ((sv_preferences s)\<lparr>FwUserExceptions := exceptions\<rparr>) s;
          (err, s) = on_fw (SetUserExceptions (se_fw env) exceptions ignoreParsingErrors) s
      in (err, if err = None then onKillSwitchStateChanged s else s))"

subsection \<open>Split tunnel\<close>

text \<open>From the DNS rule of the firewall to the configuration of the driver.\<close>

definition st_apply :: "svc_env \<Rightarrow> Preferences \<Rightarrow> svc \<Rightarrow> error \<times> svc" where
  "st_apply env prefs s =
     (let (_, s) = on_fw (fw_SingleDnsRuleOff (se_fw env)) s;
          isVpnConnected = (Connected s \<and> \<not> IsPaused s);
          (err, s) =
            (if isVpnConnected \<and> IsInverseSplitTunneling prefs \<and> \<not> SplitTunnelAnyDns prefs then
               let (dnsCfg, err) = getActiveDNS env s in
               case err of
                 Some e \<Rightarrow> (Some (ErrWrap ''failed to apply the firewall rule to allow DNS requests only to the IVPN server'' e), s)
               | None \<Rightarrow>
                   if \<not> dns_IsEmpty dnsCfg \<and> length (GetUnencryptedServersAddresses dnsCfg) > 0 then
                     (case on_fw (fw_SingleDnsRuleOn (se_fw env) (GetUnencryptedServersAddresses dnsCfg)) s of
                        (Some e, s) \<Rightarrow>
                          (Some (ErrWrap ''failed to apply the firewall rule to allow DNS requests only to the IVPN server'' e), s)
                      | (None, s) \<Rightarrow> (None, s))
                   else (None, s)
             else (None, s))
      in if err \<noteq> None then (err, s)
         else
           let enabled = (if length (sv_splitTunnelNoFuncReason s) > 0 then False else IsSplitTunnel prefs)
           in call env (St_ApplyConfig enabled (IsInverseSplitTunneling prefs)
                (SplitTunnelAllowWhenNoVpn prefs) isVpnConnected (sv_vpnSessionInfo s)
                (SplitTunnelApps prefs)) s)"

definition splitTunnelling_ApplyConfig :: "svc_env \<Rightarrow> svc \<Rightarrow> error \<times> svc" where
  "splitTunnelling_ApplyConfig env s =
     (let (err, s) =
        (if fst (GetFuncNotAvailableError env) \<noteq> None then (None, s)
         else
           let prefs = sv_preferences s in
           if \<not> IsLoggedIn (Session prefs) then (Some ErrorNotLoggedIn, s)
           else
             let s = (if IsInverseSplitTunneling prefs then snd (call env Net_Stop s) else s);
                 (err, s) = st_apply env prefs s
             in (err, if \<not> IsInverseSplitTunneling prefs \<and> Connected s
                      then snd (call env Net_Start s) else s))
      in (err, emit (Notify OnSplitTunnelStatusChanged) s))"

text \<open>
  A fresh empty list of apps is not \<open>DeepEqual\<close> to a nil one, so the reset is taken to save
  always.
\<close>

definition splitTunnelling_Reset :: "svc_env \<Rightarrow> svc \<Rightarrow> error \<times> svc" where
  "splitTunnelling_Reset env s =
     (let s = save_prefs env (s\<lparr>sv_preferences := (sv_preferences s)\<lparr>IsSplitTunnel := False,
                SplitTunnelInversed := False, SplitTunnelAnyDns := False,
                SplitTunnelAllowWhenNoVpn := False, SplitTunnelApps := []\<rparr>\<rparr>);
          s = snd (call env St_Reset s)
      in splitTunnelling_ApplyConfig env s)"

definition st_check :: "svc_env \<Rightarrow> bool \<Rightarrow> bool \<Rightarrow> bool \<Rightarrow> svc \<Rightarrow> error \<times> svc" where
  "st_check env isEnabled isInversed isAnyDns s =
     (if isEnabled \<and> isInversed then
        let ((enabled, _), s) = FirewallEnabled env s in
        if enabled then
          (Some (Err ''unable to activate Inverse Split Tunnel: the Firewall is enabled; please, disable IVPN Firewall first''), s)
        else if isAnyDns then
          let defaultParams = GetConnectionParams s in
          if at_Enabled (AntiTracker (Metadata defaultParams)) then
            (Some (Err ''unable to disable the non-IVPN DNS blocking feature for Inverse Split Tunnel mode: AntiTracker is currently enabled; please disable both AntiTracker and manually configured DNS settings first''), s)
          else if \<not> dns_IsEmpty (ManualDNS defaultParams) then
            (Some (Err ''unable to disable the non-IVPN DNS blocking feature for Inverse Split Tunnel mode: manual DNS is currently enabled; please disable manually configured DNS settings first''), s)
          else (None, s)
        else (None, s)
      else (None, s))"

definition SplitTunnelling_SetConfig ::
  "svc_env \<Rightarrow> bool \<Rightarrow> bool \<Rightarrow> bool \<Rightarrow> bool \<Rightarrow> bool \<Rightarrow> svc \<Rightarrow> error \<times> svc" where
  "SplitTunnelling_SetConfig env isEnabled isInversed isAnyDns isAllowWhenNoVpn reset s =
     (if reset then splitTunnelling_Reset env s
      else
        let (stErr, stInverseErr) = GetFuncNotAvailableError env in
        if stErr \<noteq> None then (stErr, s)
        else if isInversed \<and> stInverseErr \<noteq> None then (stInverseErr, s)
        else
          let (err, s) = st_check env isEnabled isInversed isAnyDns s in
          if err \<noteq> None then (err, s)
          else if isEnabled \<and> length (sv_splitTunnelNoFuncReason s) > 0 then
            (Some (Err (''unable to enable Split Tunnel: '' @ sv_splitTunnelNoFuncReason s)), s)
          else
            let prefsOld = sv_preferences s;
                prefs = prefsOld\<lparr>IsSplitTunnel := isEnabled, SplitTunnelInversed := isInversed,
                          SplitTunnelAnyDns := isAnyDns, SplitTunnelAllowWhenNoVpn := isAllowWhenNoVpn\<rparr>;
                s = setPreferences env prefs s;
                (ret, s) = splitTunnelling_ApplyConfig env s
            in (ret, if ret \<noteq> None
                     then snd (splitTunnelling_ApplyConfig env (setPreferences env prefsOld s)) else s))"

definition SplitTunnelling_SetDisabledReason :: "svc_env \<Rightarrow> string \<Rightarrow> svc \<Rightarrow> svc" where
  "SplitTunnelling_SetDisabledReason env reason s =
     (let disabledStateOld = (length (sv_splitTunnelNoFuncReason s) > 0);
          s = s\<lparr>sv_splitTunnelNoFuncReason := reason\<rparr>;
          disabledStateNew = (length (sv_splitTunnelNoFuncReason s) > 0)
      in if disabledStateOld \<noteq> disabledStateNew then snd (splitTunnelling_ApplyConfig env s) else s)"

definition ResetPreferences :: "svc_env \<Rightarrow> svc \<Rightarrow> error \<times> svc" where
  "ResetPreferences env s =
     (let s = s\<lparr>sv_preferences := pref_Create (se_uuid env)\<rparr>
      in (None, snd (SplitTunnelling_SetConfig env False False False False True s)))"

text \<open>What clients are told: \<open>(NoFuncReason, NotAvailable, Enabled, Inversed, AnyDns, AllowWhenNoVpn)\<close>.\<close>

definition SplitTunnelling_GetStatus ::
  "svc_env \<Rightarrow> svc \<Rightarrow> string \<times> bool \<times> bool \<times> bool \<times> bool \<times> bool" where
  "SplitTunnelling_GetStatus env s =
     (let prefs = sv_preferences s;
          (stErr, stInverseErr) = GetFuncNotAvailableError env;
          isEnabled = (if stErr \<noteq> None then False else IsSplitTunnel prefs);
          (isInversed, isAnyDns, isAllowWhenNoVpn) =
            (if stInverseErr \<noteq> None then (False, False, False)
             else (SplitTunnelInversed prefs, SplitTunnelAnyDns prefs, SplitTunnelAllowWhenNoVpn prefs));
          isEnabled = (if \<not> IsLoggedIn (Session prefs) then False else isEnabled);
          noFuncReason = sv_splitTunnelNoFuncReason s
      in (noFuncReason, stErr \<noteq> None, isEnabled \<and> length noFuncReason = 0, isInversed, isAnyDns,
          isAllowWhenNoVpn))"

subsection \<open>DNS override\<close>

definition SetDnsOverride ::
  "svc_env \<Rightarrow> DnsSettings option \<Rightarrow> AntiTrackerMetadata option \<Rightarrow> TempDnsSettings option \<Rightarrow> svc
     \<Rightarrow> error \<times> svc" where
  "SetDnsOverride env dnsCfg antiTracker tempPrioritizedDns s =
     (case (case dnsCfg of None \<Rightarrow> None
            | Some d \<Rightarrow> fst (dns_ValidateAndNormalize (se_url_parse env) d)) of
        Some err \<Rightarrow> (Some (ErrWrap ''invalid DNS configuration'' err), s)
      | None \<Rightarrow>
      (case (case tempPrioritizedDns of None \<Rightarrow> None
             | Some t \<Rightarrow> fst (dns_ValidateAndNormalize (se_url_parse env) (tmp_Dns t))) of
        Some err \<Rightarrow> (Some (ErrWrap ''invalid temporary prioritized DNS configuration'' err), s)
      | None \<Rightarrow>
          let tempPrioritizedDns =
                map_option (\<lambda>t. if dns_IsEmpty (tmp_Dns t) then t\<lparr>Description := []\<rparr> else t) tempPrioritizedDns;
              prefs = sv_preferences s
          in if ((case dnsCfg of None \<Rightarrow> False | Some d \<Rightarrow> \<not> dns_IsEmpty d)
                 \<or> (case antiTracker of None \<Rightarrow> False | Some a \<Rightarrow> at_Enabled a)
                 \<or> (case tempPrioritizedDns of None \<Rightarrow> False | Some t \<Rightarrow> \<not> dns_IsEmpty (tmp_Dns t)))
                \<and> IsInverseSplitTunneling prefs \<and> SplitTunnelAnyDns prefs then
               (Some (Err ''custom DNS or AntiTracker cannot be enabled while allowing all DNS for Inverse Split Tunnel mode; please block non-IVPN DNS first in the Inverse Split Tunnel configuration''), s)
             else
               let ((isChanged, err), s) = saveDnsParams env dnsCfg antiTracker tempPrioritizedDns s;
                   (err, s) = (if err \<noteq> None then (err, s) else applyDnsOverride env s)
               in (err, if isChanged then snd (splitTunnelling_ApplyConfig env s) else s)))"

end
