(* ===== verification/Service_Session.thy ===== *)
theory Service_Session
  imports Service_Ops
begin

section \<open>Disconnecting, pausing and the session (daemon/service/service.go)\<close>

text \<open>
  \<open>disconnect\<close> waits until the goroutine of \<open>connect\<close> has run its deferred cleanup, so
  the cleanup (\<open>connect_finalize\<close>, service\_connect.go) is part of it. Every operation the
  daemon's protocol calls is listed in \<open>svc_op\<close>, together with the bodies of the
  goroutines the service starts.
\<close>

subsection \<open>The end of a connection\<close>

definition connect_finalize :: "svc_env \<Rightarrow> vpn_obj \<Rightarrow> svc \<Rightarrow> svc" where
  "connect_finalize env v s =
     (let s = snd (call env Net_UnInit s);
          s = snd (on_fw (OnChangeDNS (se_fw env) None) s);
          s = snd (on_fw (Firewall.ClientDisconnected (se_fw env)) s);
          s = (if firewallDuringConnection v \<and> \<not> fwInitState v
               then snd (SetKillSwitchState env False s) else s);
          s = snd (call env Vpn_ResetManualDNS s);
          s = s\<lparr>sv_vpn := None\<rparr>
      in snd (splitTunnelling_ApplyConfig env s))"

definition disconnect :: "svc_env \<Rightarrow> svc \<Rightarrow> error \<times> svc" where
  "disconnect env s =
     (case sv_vpn s of
        None \<Rightarrow> (None, s)
      | Some v \<Rightarrow>
          let s = snd (call env Net_UnInit s) in
          case call env Vpn_Disconnect s of
            (Some err, s) \<Rightarrow> (Some (ErrWrap ''failed to disconnect VPN'' err), s)
          | (None, s) \<Rightarrow>
              let s = emit (Notify OnConnectionStopped) s;
                  s = connect_finalize env v s
              in (None, emit (Go R_RequestSessionStatus) s))"

subsection \<open>Pause and resume\<close>

text \<open>
  What the process says of itself (\<open>IsPaused\<close>) after a successful pause or resume is plain;
  after a failed one it depends on the kind of VPN and is given by the environment.
\<close>

definition set_paused :: "bool \<Rightarrow> svc \<Rightarrow> svc" where
  "set_paused b s = s\<lparr>sv_vpn := map_option (\<lambda>v. v\<lparr>vpn_IsPaused := b\<rparr>) (sv_vpn s)\<rparr>"

definition pause_body :: "svc_env \<Rightarrow> int \<Rightarrow> svc \<Rightarrow> error \<times> svc" where
  "pause_body env durationSeconds s =
     (let ((fwStatus, err), s) = KillSwitchState env s in
      case err of
        Some e \<Rightarrow> (Some (ErrWrap ''failed to check KillSwitch status'' e), s)
      | None \<Rightarrow>
          let s = s\<lparr>sv_pauseKillSwitch := ks_IsEnabled fwStatus\<rparr>;
              (err, s) = (if ks_IsEnabled fwStatus \<and> \<not> ks_IsPersistent fwStatus
                          then SetKillSwitchState env False s else (None, s))
          in if err \<noteq> None then (err, s)
             else
               let s = snd (on_fw (\<lambda>w. ((), ClientPaused w)) s);
                   (err, s) = call env Vpn_Pause s
               in if err \<noteq> None then (err, set_paused (pausedAfterError env) s)
                  else
                    let s = set_paused True s;
                        s = s\<lparr>sv_pauseTill := se_now env + second * durationSeconds\<rparr>;
                        s = (if IsSplitTunnel (sv_preferences s)
                             then snd (splitTunnelling_ApplyConfig env s) else s)
                    in (None, emit (Go R_pause_resumer) s))"

definition Pause :: "svc_env \<Rightarrow> int \<Rightarrow> svc \<Rightarrow> error \<times> svc" where
  "Pause env durationSeconds s =
     (if sv_vpn s = None then (Some (Err ''VPN not connected''), s)
      else if durationSeconds \<le> 0 then
        (Some (Err ''the duration of the pause has not been specified''), s)
      else
        let (err, s) = pause_body env durationSeconds s
        in (err, emit (Notify OnVpnPauseChanged) s))"

definition resume :: "svc_env \<Rightarrow> svc \<Rightarrow> error \<times> svc" where
  "resume env s =
     (let s = s\<lparr>sv_pauseTill := 0\<rparr> in
      case sv_vpn s of
        None \<Rightarrow> (None, s)
      | Some v \<Rightarrow>
          if \<not> vpn_IsPaused v then (None, s)
          else
            let s = snd (on_fw (\<lambda>w. ((), ClientResumed w)) s);
                (err, s) = call env Vpn_Resume s
            in if err \<noteq> None then (err, set_paused (pausedAfterError env) s)
               else
                 let s = set_paused False s;
                     ((fwStatus, err), s) = KillSwitchState env s
                 in (None,
                     if err = None \<and> \<not> ks_IsPersistent fwStatus
                        \<and> ks_IsEnabled fwStatus \<noteq> sv_pauseKillSwitch s
                     then snd (SetKillSwitchState env (sv_pauseKillSwitch s) s) else s))"

definition Resume :: "svc_env \<Rightarrow> svc \<Rightarrow> error \<times> svc" where
  "Resume env s =
     (let (err, s) =
        (if (case sv_vpn s of None \<Rightarrow> True | Some v \<Rightarrow> \<not> vpn_IsPaused v)
         then (Some (Err ''VPN not paused''), s)
         else
           let (err, s) = resume env s in
           if err \<noteq> None then (err, s)
           else if IsSplitTunnel (sv_preferences s) then splitTunnelling_ApplyConfig env s
           else (None, s))
      in (err, emit (Notify OnVpnPauseChanged) s))"

text \<open>
  One round of the goroutine \<open>Pause\<close> starts, a second after the last: whether it goes on.
  \<open>ready\<close>: an IPv4 interface is there, for which the goroutine waits before it resumes.
\<close>

definition pause_resumer_round :: "svc_env \<Rightarrow> bool \<Rightarrow> svc \<Rightarrow> bool \<times> svc" where
  "pause_resumer_round env ready s =
     (if \<not> IsPaused s then (False, s\<lparr>sv_pauseTill := 0\<rparr>)
      else if unix_sec (se_now env) - unix_sec (sv_pauseTill s) \<ge> 0 then
        if ready then (False, snd (Resume env s)) else (True, s)
      else (True, s))"

definition Disconnect :: "svc_env \<Rightarrow> svc \<Rightarrow> error \<times> svc" where
  "Disconnect env s =
     (let s = s\<lparr>sv_requiredVpnState := Required_Disconnect\<rparr>;
          (_, s) = resume env s
      in disconnect env s)"

subsection \<open>Starting and stopping the key rotation (service/wgkeys/manager.go)\<close>

definition StopKeysRotation :: "svc \<Rightarrow> svc" where
  "StopKeysRotation s = s\<lparr>keys_running := False, activeRotationInterval := 0\<rparr>"

text \<open>The goroutine it starts is \<open>rotation_round\<close> of Wg_Keys, one round at a time.\<close>

definition StartKeysRotation :: "svc \<Rightarrow> error \<times> svc" where
  "StartKeysRotation s =
     (let s = StopKeysRotation s;
          session = Session (sv_preferences s);
          interval = WGKeysRegenInerval session
      in if interval \<le> 0 then
           (Some (Err ''unable to start WG keys rotation (update interval not defined)''), s)
         else if length (WGPublicKey session) = 0 then (None, s)
         else (None, s\<lparr>keys_running := True, activeRotationInterval := interval\<rparr>))"

subsection \<open>The session\<close>

definition joinErr :: "error \<Rightarrow> error \<Rightarrow> error" where
  "joinErr retErr e =
     (case e of None \<Rightarrow> retErr
      | Some x \<Rightarrow> (case retErr of None \<Rightarrow> Some x | Some r \<Rightarrow> Some (ErrJoin r x)))"

definition unInitialise :: "svc_env \<Rightarrow> svc \<Rightarrow> error \<times> svc" where
  "unInitialise env s =
     (let (e1, s) = Disconnect env s;
          (e2, s) = on_fw (fw_SingleDnsRuleOff (se_fw env)) s;
          (e3, s) = call env St_Reset s;
          (e4, s) = call env (St_ApplyConfig False False False False noInfo []) s
      in (joinErr (joinErr (joinErr (joinErr None e1) e2) e3) e4, s))"

definition eraseSession :: "svc_env \<Rightarrow> svc \<Rightarrow> svc" where
  "eraseSession env s =
     save_prefs env (s\<lparr>sv_preferences :=
       SetSession (se_now env) noAccount [] [] [] [] [] [] [] [] [] (sv_preferences s)\<rparr>)"

text \<open>
  The part of \<open>logOut\<close> that talks to the backend, without its deferred calls: whether the
  session stays (with the error) and whether the access to the API was opened for it.
\<close>

definition logOut_backend :: "svc_env \<Rightarrow> bool \<Rightarrow> svc \<Rightarrow> (error \<times> bool) \<times> svc" where
  "logOut_backend env isCanDeleteSessionLocally s =
     (let ((fwStatus, _), s) = KillSwitchState env s;
          opened = (ks_IsEnabled fwStatus \<and> \<not> ks_IsAllowApiServers fwStatus);
          s = (if opened then snd (SetKillSwitchAllowAPIServers env True s) else s);
          session = Session (sv_preferences s)
      in if IsLoggedIn session then
           let (err, s) = call env (Api_SessionDelete (SessionToken session)) s
           in ((if err \<noteq> None \<and> \<not> isCanDeleteSessionLocally then err else None, opened), s)
         else ((None, opened), s))"

definition logOut :: "svc_env \<Rightarrow> bool \<Rightarrow> bool \<Rightarrow> svc \<Rightarrow> error \<times> svc" where
  "logOut env sessionNeedToDeleteOnBackend isCanDeleteSessionLocally s =
     (let (_, s) = unInitialise env s;
          s = emit (Go R_stopSessionChecker) s;
          s = StopKeysRotation s;
          ((err, opened), s) = (if sessionNeedToDeleteOnBackend
                                then logOut_backend env isCanDeleteSessionLocally s
                                else ((None, False), s));
          s = (if err \<noteq> None then s
               else emit (Notify OnServiceSessionChanged) (eraseSession env s));
          s = (if opened then snd (SetKillSwitchAllowAPIServers env False s) else s)
      in (err, emit (Notify OnSplitTunnelStatusChanged) s))"

definition stopSessionChecker :: "svc \<Rightarrow> svc" where
  "stopSessionChecker s = s\<lparr>sv_sessionChecker := False\<rparr>"

definition startSessionChecker :: "svc \<Rightarrow> svc" where
  "startSessionChecker s =
     (let s = stopSessionChecker s
      in if \<not> IsLoggedIn (Session (sv_preferences s)) then s else s\<lparr>sv_sessionChecker := True\<rparr>)"

definition OnSessionNotFound :: "svc_env \<Rightarrow> svc \<Rightarrow> svc" where
  "OnSessionNotFound env s = snd (logOut env False True s)"

definition service_OnSessionStatus :: "svc_env \<Rightarrow> string \<Rightarrow> AccountStatus \<Rightarrow> string \<Rightarrow> svc \<Rightarrow> svc" where
  "service_OnSessionStatus env sessionToken account deviceName s =
     (let s = save_prefs env (s\<lparr>sv_preferences := UpdateSessionData account deviceName (sv_preferences s)\<rparr>)
      in emit (Notify (OnSessionStatus sessionToken account deviceName)) s)"

definition IsConnectivityBlocked :: "svc_env \<Rightarrow> svc \<Rightarrow> error \<times> svc" where
  "IsConnectivityBlocked env s =
     (let preferences = sv_preferences s in
      if \<not> IsFwAllowApiServers preferences \<and> IsLoggedIn (Session preferences)
         \<and> (\<not> Connected s \<or> IsPaused s) then
        let ((enabled, err), s) = FirewallEnabled env s in
        case err of
          Some e \<Rightarrow> (Some (ErrWrap ''access to IVPN servers is blocked'' e), s)
        | None \<Rightarrow>
            if enabled then (Some (Err ''access to IVPN servers is blocked (check IVPN Firewall settings)''), s)
            else (None, s)
      else (None, s))"

text \<open>
  What the API client returns for a status request: the account and device name when there
  is an answer, the code and message of an API error, and the error. A \<open>session_status\<close> is
  what the service returns: code, message, token, account and device name.
\<close>

type_synonym status_answer = "(AccountStatus \<times> string) option \<times> (int \<times> string) option \<times> error"
type_synonym session_status = "int \<times> string \<times> string \<times> AccountStatus \<times> string"

definition noStatus :: session_status where "noStatus = (0, [], [], noAccount, [])"

definition SessionNotFound :: int where "SessionNotFound = 601"
definition AccountNotActive :: int where "AccountNotActive = 702"

text \<open>
  What happens with the answer for the session \<open>token\<close>. Other operations may have run since
  the request was sent, so it is an operation of its own.
\<close>

definition session_answer ::
  "svc_env \<Rightarrow> string \<Rightarrow> status_answer \<Rightarrow> svc \<Rightarrow> (session_status \<times> error) \<times> svc" where
  "session_answer env token answer s =
     (let (stat, apiErr, err) = answer;
          (r, s) =
            (if SessionToken (Session (sv_preferences s)) \<noteq> token then ((noStatus, Some ErrorNotLoggedIn), s)
             else
               let (account, deviceName) = (case stat of None \<Rightarrow> (noAccount, []) | Some st \<Rightarrow> st);
                   (apiCode, apiMsg) = (case apiErr of None \<Rightarrow> (0, []) | Some e \<Rightarrow> e);
                   s = (if apiErr \<noteq> None \<and> apiCode = SessionNotFound then OnSessionNotFound env s else s)
               in if apiErr \<noteq> None \<and> apiCode = AccountNotActive then
                    let account = account\<lparr>acc_Active := False\<rparr>
                    in (((apiCode, apiMsg, token, account, deviceName), err),
                        service_OnSessionStatus env token account deviceName s)
                  else if err \<noteq> None then (((apiCode, apiMsg, [], account, deviceName), err), s)
                  else if stat = None then
                    (((apiCode, [], [], account, deviceName),
                      Some (Err ''unexpected error when creating requesting session status'')), s)
                  else (((apiCode, [], token, account, deviceName), None),
                        service_OnSessionStatus env token account deviceName s))
      in (r, s\<lparr>sv_isNeedToUpdateSessionInfo := False\<rparr>))"

definition RequestSessionStatus ::
  "svc_env \<Rightarrow> (string \<Rightarrow> status_answer) \<Rightarrow> svc \<Rightarrow> (session_status \<times> error) \<times> svc" where
  "RequestSessionStatus env api s =
     (let session = Session (sv_preferences s) in
      if \<not> IsLoggedIn session then ((noStatus, Some ErrorNotLoggedIn), s)
      else case IsConnectivityBlocked env s of
        (Some err, s) \<Rightarrow>
          ((noStatus, Some (ErrWrap ''session status request skipped'' err)),
           s\<lparr>sv_isNeedToUpdateSessionInfo := True\<rparr>)
      | (None, s) \<Rightarrow>
          session_answer env (SessionToken session) (api (SessionToken session))
            (emit (Api_SessionStatus (SessionToken session)) s))"

subsection \<open>Logging in\<close>

record session_resp =
  resp_Account :: AccountStatus
  resp_Token :: string
  resp_DeviceName :: string
  resp_VpnUser :: string
  resp_VpnPass :: string
  resp_WgIP :: string
  resp_HasCiphers :: bool

text \<open>
  The answers of the API client: a session, no error and no session, the sessions-limit
  error, another API error (both with its code and message), another error. The last field of
  each is the raw text.
\<close>

datatype login_answer =
    Login_ok session_resp string
  | Login_none string
  | Login_limit AccountStatus int string gerror string
  | Login_api int string gerror string
  | Login_error gerror string

text \<open>
  Whether the KEM helper exists; the keys, the answer (\<open>True\<close>: with KEM keys) and the
  preshared key of an attempt.
\<close>

record login_env =
  kem_created :: bool
  GenerateKeys :: "nat \<Rightarrow> string \<times> string"
  api_SessionNew :: "nat \<Rightarrow> bool \<Rightarrow> login_answer"
  CalculatePresharedKey :: "gerror + string"

definition setCredentials where
  "setCredentials env accountInfo accountID session deviceName vpnUser vpnPass wgPublicKey wgPrivateKey
     wgLocalIP wgKeyGenerated wgPreSharedKey s =
     (let s = save_prefs env (s\<lparr>sv_preferences := SetSession (se_now env) accountInfo accountID session
            deviceName vpnUser vpnPass wgPublicKey wgPrivateKey wgLocalIP wgPreSharedKey
            (sv_preferences s)\<rparr>);
          p = sv_preferences s;
          s = (if wgKeyGenerated > (0::gotime)
               then save_prefs env (s\<lparr>sv_preferences :=
                      p\<lparr>Session := (Session p)\<lparr>WGKeyGenerated := wgKeyGenerated\<rparr>\<rparr>\<rparr>)
               else s);
          s = emit (Notify OnServiceSessionChanged) s;
          s = startSessionChecker s
      in snd (StartKeysRotation s))"

text \<open>
  The loop of \<open>SessionNew\<close>. A failure to decode the ciphers ends the use of the KEM, so the
  second attempt is the last.
\<close>

function login_attempt ::
  "svc_env \<Rightarrow> login_env \<Rightarrow> nat \<Rightarrow> bool \<Rightarrow> svc \<Rightarrow> (login_answer \<times> string \<times> string \<times> string) \<times> svc" where
  "login_attempt env le i kem s =
     (let (publicKey, privateKey) = GenerateKeys le i;
          s = emit (Api_SessionNew kem) s in
      case api_SessionNew le i kem of
        Login_ok resp raw \<Rightarrow>
          if kem \<and> resp_HasCiphers resp then
            (case CalculatePresharedKey le of
               Inr psk \<Rightarrow> ((Login_ok resp raw, publicKey, privateKey, psk), s)
             | Inl _ \<Rightarrow> let s = snd (logOut env True True s) in login_attempt env le (i + 1) False s)
          else ((Login_ok resp raw, publicKey, privateKey, []), s)
      | ans \<Rightarrow> ((ans, publicKey, privateKey, []), s))"
  by pat_completeness auto
termination by (relation "measure (\<lambda>(env, le, i, kem, s). if kem then 1 else 0)") auto

definition SessionNew ::
  "svc_env \<Rightarrow> login_env \<Rightarrow> string \<Rightarrow> svc \<Rightarrow> (int \<times> string \<times> AccountStatus \<times> string \<times> error) \<times> svc" where
  "SessionNew env le accountID s =
     (let ((fwStatus, _), s) = KillSwitchState env s;
          opened = (ks_IsEnabled fwStatus \<and> \<not> ks_IsAllowApiServers fwStatus);
          s = (if opened then snd (SetKillSwitchAllowAPIServers env True s) else s);
          s = snd (logOut env True True s);
          ((ans, publicKey, privateKey, psk), s) = login_attempt env le 0 (kem_created le) s;
          (r, s) =
            (case ans of
               Login_ok resp raw \<Rightarrow>
                 let s = setCredentials env (resp_Account resp) accountID (resp_Token resp)
                       (resp_DeviceName resp) (resp_VpnUser resp) (resp_VpnPass resp) publicKey
                       privateKey (resp_WgIP resp) 0 psk s;
                     s = snd (splitTunnelling_ApplyConfig env s)
                 in ((0, [], resp_Account resp, raw, None), s)
             | Login_none raw \<Rightarrow>
                 ((0, [], noAccount, raw, Some (Err ''unexpected error when creating a new session'')), s)
             | Login_limit acc code msg err raw \<Rightarrow> ((code, msg, acc, raw, Some err), s)
             | Login_api code msg err raw \<Rightarrow> ((code, msg, noAccount, raw, Some err), s)
             | Login_error err raw \<Rightarrow> ((0, [], noAccount, raw, Some err), s))
      in (r, if opened then snd (SetKillSwitchAllowAPIServers env False s) else s))"

subsection \<open>WireGuard keys\<close>

definition WireGuardSaveNewKeys where
  "WireGuardSaveNewKeys env wgPublicKey wgPrivateKey wgLocalIP wgPresharedKey s =
     (let s = save_prefs env (s\<lparr>sv_preferences := UpdateWgCredentials (se_now env) wgPublicKey
            wgPrivateKey wgLocalIP wgPresharedKey (sv_preferences s)\<rparr>);
          s = emit (Notify OnServiceSessionChanged) s
      in emit (Go R_reconnect) s)"

text \<open>The goroutine it starts.\<close>

definition reconnect_routine :: "svc_env \<Rightarrow> svc \<Rightarrow> svc" where
  "reconnect_routine env s =
     (case sv_vpn s of
        None \<Rightarrow> s
      | Some vpnObj \<Rightarrow>
          if vpn_Type vpnObj \<noteq> WireGuard then s
          else if \<not> Connected s \<or> (Connected s \<and> IsPaused s) then s
          else snd (disconnect env s))"

text \<open>\<open>time.Second * time.Duration(interval)\<close> wraps around at 64 bits.\<close>

definition wrap64 :: "int \<Rightarrow> int" where
  "wrap64 i = (i + 2 ^ 63) mod 2 ^ 64 - 2 ^ 63"

definition WireGuardSetKeysRotationInterval :: "svc_env \<Rightarrow> int \<Rightarrow> svc \<Rightarrow> svc" where
  "WireGuardSetKeysRotationInterval env interval s =
     (let p = sv_preferences s;
          s = save_prefs env (s\<lparr>sv_preferences :=
                p\<lparr>Session := (Session p)\<lparr>WGKeysRegenInerval := wrap64 (second * interval)\<rparr>\<rparr>\<rparr>);
          s = snd (StartKeysRotation s)
      in emit (Notify OnServiceSessionChanged) s)"

definition SetUserPreferences :: "svc_env \<Rightarrow> bool \<Rightarrow> bool \<Rightarrow> svc \<Rightarrow> error \<times> svc" where
  "SetUserPreferences env oldStyleAvailable isDnsMgmtOldStyle s =
     (if Connected s then (Some (Err ''unable to change settings in the connected state''), s)
      else if isDnsMgmtOldStyle \<and> \<not> oldStyleAvailable then
        (Some (Err ''the old-style DNS management is not applicable to the current environment: it is not allowed to modify 'resolv.conf' from the snap environment''), s)
      else (None, setPreferences env ((sv_preferences s)\<lparr>IsDnsMgmtOldStyle := isDnsMgmtOldStyle\<rparr>) s))"

end
