(* ===== verification/Service_Connect.thy ===== *)
theory Service_Connect
  imports Service_Session Wg_Config Ovpn_Config
begin

section \<open>Connecting (daemon/service/service\_connect.go)\<close>

text \<open>
  \<open>connect\<close> blocks until the VPN process ends, so it is three operations: \<open>connect_begin\<close>
  up to the start of the process, \<open>on_vpn_state\<close> for each state the process reports, and
  \<open>connect_end\<close>, its return.
\<close>

subsection \<open>One connection\<close>

definition connect_failed :: "svc_env \<Rightarrow> bool \<Rightarrow> gerror \<Rightarrow> svc \<Rightarrow> error \<times> svc" where
  "connect_failed env notified err s =
     (case sv_vpn s of
        None \<Rightarrow> (Some err, s)
      | Some v \<Rightarrow>
          let s = (if notified then emit (Notify OnConnectionStopped) s else s);
              s = connect_finalize env v s
          in (Some err, emit (Go R_RequestSessionStatus) s))"

definition set_fwInitState :: "bool \<Rightarrow> svc \<Rightarrow> svc" where
  "set_fwInitState b s = s\<lparr>sv_vpn := map_option (\<lambda>v. v\<lparr>fwInitState := b\<rparr>) (sv_vpn s)\<rparr>"

text \<open>Enabling the firewall for the connection.\<close>

definition connect_firewall :: "svc_env \<Rightarrow> bool \<Rightarrow> bool \<Rightarrow> svc \<Rightarrow> error \<times> svc" where
  "connect_firewall env firewallOn firewallDuring s =
     (if firewallOn then
        let ((fw, err), s) = on_fw (fw_GetEnabled (se_fw env)) s in
        if err \<noteq> None then (err, s)
        else if \<not> fw then SetKillSwitchState env True s
        else (None, s)
      else if firewallDuring then
        let ((fw, err), s) = on_fw (fw_GetEnabled (se_fw env)) s in
        if err \<noteq> None then (err, s)
        else
          let s = set_fwInitState fw s
          in if \<not> fw then SetKillSwitchState env True s else (None, s)
      else (None, s))"

text \<open>From the initialised VPN object to the start of its process: the error, if any.\<close>

definition connect_prepare ::
  "svc_env \<Rightarrow> gerror + net_ip \<times> net_ip \<Rightarrow> net_ip list \<Rightarrow> bool \<Rightarrow> bool \<Rightarrow> svc \<Rightarrow> error \<times> svc" where
  "connect_prepare env outboundIPs destinationIpAddresses firewallOn firewallDuring s =
     (case call env Vpn_Init s of
        (Some err, s) \<Rightarrow> (Some (ErrWrap ''failed to initialize VPN object'' err), s)
      | (None, s) \<Rightarrow>
          let sInfo = (case outboundIPs of
                         Inl _ \<Rightarrow> noInfo
                       | Inr (v4, v6) \<Rightarrow> noInfo\<lparr>OutboundIPv4 := v4, OutboundIPv6 := v6\<rparr>);
              s = s\<lparr>sv_vpnSessionInfo := sInfo\<rparr>;
              s = snd (on_fw (OnChangeDNS (se_fw env) None) s);
              (err, s) = connect_firewall env firewallOn firewallDuring s
          in if err \<noteq> None then (err, s)
             else
               let (err, s) = on_fw (fw_AddHostsToExceptions (se_fw env) destinationIpAddresses False False) s
               in if err \<noteq> None then (err, s)
                  else
                    let (err, s) = call env Dns_ApplyUserSettings s
                    in if err \<noteq> None then (err, s)
                       else
                         case applyDnsOverride env s of
                           (Some err, s) \<Rightarrow>
                             (Some (ErrWrap ''failed to apply DNS settings to connection'' err), s)
                         | (None, s) \<Rightarrow> (None, emit Vpn_Connect s))"

definition connect_begin ::
  "svc_env \<Rightarrow> gerror + net_ip \<times> net_ip \<Rightarrow> vpn_obj \<Rightarrow> bool \<Rightarrow> bool \<Rightarrow> svc \<Rightarrow> error \<times> svc" where
  "connect_begin env outboundIPs vpnProc firewallOn firewallDuring s =
     (case disconnect env s of
        (Some err, s) \<Rightarrow> (Some (ErrWrap ''failed to connect. Unable to stop active connection'' err), s)
      | (None, s) \<Rightarrow>
          let s = s\<lparr>sv_vpn := Some (vpnProc\<lparr>firewallDuringConnection := firewallDuring, fwInitState := False\<rparr>)\<rparr>;
              (dstAddr, dstPort, dstIsTCP) = Destination vpnProc
          in case v2rayEndpoint vpnProc of
               Some (Inl err) \<Rightarrow>
                 connect_failed env False (ErrWrap ''failed to get V2Ray remote endpoint'' err) s
             | v2 \<Rightarrow>
                 let (dst, destinationIpAddresses) =
                       (case v2 of
                          Some (Inr (host, port, tcp)) \<Rightarrow> ((host, uint16 port, tcp), [dstAddr, host])
                        | _ \<Rightarrow> ((dstAddr, dstPort, dstIsTCP), [dstAddr]));
                     s = (case dst of (addr, port, tcp) \<Rightarrow> emit (Notify (OnConnectionStarting addr port tcp)) s)
                 in case connect_prepare env outboundIPs destinationIpAddresses firewallOn firewallDuring s of
                      (Some err, s) \<Rightarrow> connect_failed env True err s
                    | (None, s) \<Rightarrow> (None, s))"

text \<open>The VPN process has ended by itself; its error is wrapped.\<close>

definition connect_end :: "svc_env \<Rightarrow> error \<Rightarrow> svc \<Rightarrow> error \<times> svc" where
  "connect_end env err s =
     (case sv_vpn s of
        None \<Rightarrow> (map_option (ErrWrap ''connection error'') err, s)
      | Some v \<Rightarrow>
          let s = emit (Notify OnConnectionStopped) s;
              s = connect_finalize env v s
          in (map_option (ErrWrap ''connection error'') err, emit (Go R_RequestSessionStatus) s))"

definition updateV2RayRoute :: "svc_env \<Rightarrow> bool \<Rightarrow> svc \<Rightarrow> error \<times> svc" where
  "updateV2RayRoute env force s =
     (case sv_vpn s of
        None \<Rightarrow> (None, s)
      | Some v \<Rightarrow>
          if v2rayEndpoint v = None then (None, s)
          else case DefaultGatewayIP env of
            Inl err \<Rightarrow> (Some (ErrWrap ''failed to get default gateway info'' err), s)
          | Inr defGwIp \<Rightarrow>
              if defGwIp = [] then (Some (Err ''failed to get default gateway info''), s)
              else if DefaultRouteGatewayIP v \<noteq> [] \<and> ip_equal defGwIp (DefaultRouteGatewayIP v)
              then (Some (Err ''default gateway IP is not changed''), s)
              else call env (V2_UpdateMainRoute defGwIp force) s)"

definition connection_dests :: "vpn_obj \<Rightarrow> net_ip list" where
  "connection_dests v =
     fst (Destination v) # (case v2rayEndpoint v of Some (Inr (host, _, _)) \<Rightarrow> [host] | _ \<Rightarrow> [])"

definition on_vpn_state :: "svc_env \<Rightarrow> StateInfo \<Rightarrow> svc \<Rightarrow> svc" where
  "on_vpn_state env state s =
     (case sv_vpn s of
        None \<Rightarrow> s
      | Some v \<Rightarrow>
          let state = state\<lparr>si_Time := unix_sec (se_now env), si_VpnType := vpn_Type v\<rparr>;
              state = (case originalEntryServerInfo v of
                         Some o' \<Rightarrow>
                           if si_State state = CONNECTED
                           then state\<lparr>si_ServerIP := svr_IP o', si_ServerPort := svr_Port o',
                                  si_IsTCP := svr_PortType o' > 0, si_V2RayProxy := svr_V2RayProxyType o'\<rparr>
                           else state
                       | None \<Rightarrow> state);
              s = (if si_State state = RECONNECTING then
                     let s = snd (call env Net_UnInit s);
                         s = snd (updateV2RayRoute env True s)
                     in snd (on_fw (fw_AddHostsToExceptions (se_fw env) (connection_dests v) False False) s)
                   else if si_State state = INITIALISED then
                     let s = (case InterfaceByIPAddr (fw_interfaces (se_fw env)) (si_ClientIP state) of
                                Inl _ \<Rightarrow> s
                              | Inr _ \<Rightarrow>
                                  let s = snd (call env Net_Init s)
                                  in if IsInverseSplitTunneling (sv_preferences s) then s
                                     else snd (call env Net_Start s))
                     in snd (updateV2RayRoute env False s)
                   else if si_State state = CONNECTED then
                     let s = (if sv_requiredVpnState s = Required_Connect
                              then s\<lparr>sv_requiredVpnState := Required_KeepConnection\<rparr> else s);
                         s = (if \<not> IsClientConnected env
                              then emit (Notify (SystemLog ''VPN connected'')) s else s);
                         s = snd (on_fw (Firewall.ClientConnected (se_fw env) (si_ClientIP state)
                               (si_ClientIPv6 state) (si_ClientPort state) (si_ServerIP state)
                               (si_ServerPort state) (si_IsTCP state)) s);
                         s = (if \<not> snd (GetDnsInfo (sv_fw s))
                              then snd (on_fw (OnChangeDNS (se_fw env) (Some (DnsSettingsCreate (DefaultDNS v)))) s)
                              else s);
                         s = s\<lparr>sv_vpnSessionInfo := (sv_vpnSessionInfo s)
                               \<lparr>VpnLocalIPv4 := si_ClientIP state, VpnLocalIPv6 := si_ClientIPv6 state\<rparr>\<rparr>
                     in snd (splitTunnelling_ApplyConfig env s)
                   else s)
          in emit (Notify (OnVpnStateChanged state)) s)"

subsection \<open>Changes of the routes\<close>

text \<open>
  One message for the receiver of route changes: whether the default route leaks, whether
  there is a new default gateway, and what the VPN says of reconnecting; the result tells
  whether the receiver goes on. The last two are the goroutines it starts.
\<close>

definition on_route_change :: "svc_env \<Rightarrow> bool \<Rightarrow> bool \<Rightarrow> bool \<Rightarrow> svc \<Rightarrow> bool \<times> svc" where
  "on_route_change env isInterfaceLeak newGateway isReconnectRequired s =
     (case sv_vpn s of
        None \<Rightarrow> (True, s)
      | Some v \<Rightarrow>
          let needToReconnect = (isInterfaceLeak \<and> isReconnectRequired) in
          if needToReconnect \<and> vpn_IsPaused v then (True, s)
          else if needToReconnect then (False, emit (Go R_route_reconnect) s)
          else
            let (v2RayErr, s) = (if v2rayEndpoint v \<noteq> None then updateV2RayRoute env newGateway s
                                 else (None, s));
                s = (if v2RayErr = None then snd (call env Vpn_OnRoutingChanged s) else s)
            in (True, emit (Go R_dns_check) s))"

definition reconnect :: "svc_env \<Rightarrow> svc \<Rightarrow> svc" where
  "reconnect env s = snd (disconnect env s)"

definition route_reconnect :: "svc_env \<Rightarrow> svc \<Rightarrow> svc" where
  "route_reconnect env s = reconnect env (snd (updateV2RayRoute env True s))"

definition dns_check :: "svc_env \<Rightarrow> svc \<Rightarrow> svc" where
  "dns_check env s =
     (case sv_vpn s of
        None \<Rightarrow> s
      | Some v \<Rightarrow> if vpn_IsPaused v then s else snd (call env Dns_UpdateIfWrongSettings s))"

end
