(* ===== verification/Wg_Keys.thy ===== *)
theory Wg_Keys
  imports Service_Session
begin

section \<open>Rotation of the WireGuard keys (daemon/service/wgkeys/manager.go)\<close>

text \<open>
  The key manager works on the service through its interface, so its operations are
  operations on \<open>svc\<close>. \<open>keys_env\<close> is the world: whether the KEM helper exists and, for each
  attempt, the generated pair of keys, the answer of the API and the preshared key.
\<close>

datatype key_answer =
    Key_ok string bool  \<comment> \<open>the local IP address; whether there are KEM ciphers\<close>
  | Key_error bool      \<comment> \<open>whether the session was not found\<close>

record keys_env =
  ke_kem :: bool
  ke_GenerateKeys :: "nat \<Rightarrow> gerror + string \<times> string"
  ke_WireGuardKeySet :: "nat \<Rightarrow> key_answer"
  ke_PresharedKey :: "gerror + string"

definition keys_refused :: "svc_env \<Rightarrow> string \<Rightarrow> bool \<Rightarrow> svc \<Rightarrow> gerror \<times> svc" where
  "keys_refused env activePublicKey sessionNotFound s =
     (let s = (if length activePublicKey = 0 then WireGuardSaveNewKeys env [] [] [] [] s else s) in
      if sessionNotFound then
        (Err ''WG keys not updated (session not found)'', emit (Go R_OnSessionNotFound) s)
      else (Err ''WG keys not updated. Please check your internet connection'', s))"

text \<open>
  The loop: the new keys, the printed local address and the preshared key, or the error
  \<open>generateKeys\<close> returns with. Without the KEM there is no further round.
\<close>

function keys_attempt ::
  "svc_env \<Rightarrow> keys_env \<Rightarrow> string \<Rightarrow> string \<Rightarrow> nat \<Rightarrow> bool \<Rightarrow> svc
     \<Rightarrow> (gerror + string \<times> string \<times> string \<times> string) \<times> svc" where
  "keys_attempt env ke session activePublicKey i kem s =
     (case ke_GenerateKeys ke i of
        Inl err \<Rightarrow> (Inl err, s)
      | Inr (pub, priv) \<Rightarrow>
          let s = emit (Api_WireGuardKeySet pub activePublicKey kem) s in
          case ke_WireGuardKeySet ke i of
            Key_error notFound \<Rightarrow>
              let (err, s) = keys_refused env activePublicKey notFound s in (Inl err, s)
          | Key_ok ip ciphers \<Rightarrow>
              if parse_ip ip = [] then
                let (err, s) = keys_refused env activePublicKey False s in (Inl err, s)
              else if kem \<and> ciphers then
                (case ke_PresharedKey ke of
                   Inr psk \<Rightarrow> (Inr (pub, priv, ip_string (parse_ip ip), psk), s)
                 | Inl _ \<Rightarrow> keys_attempt env ke session activePublicKey (i + 1) False s)
              else (Inr (pub, priv, ip_string (parse_ip ip), []), s))"
  by pat_completeness auto
termination by (relation "measure (\<lambda>(env, ke, session, act, i, kem, s). if kem then 1 else 0)") auto

definition keys_renew :: "svc_env \<Rightarrow> keys_env \<Rightarrow> SessionStatus \<Rightarrow> svc \<Rightarrow> error \<times> svc" where
  "keys_renew env ke session s =
     (let (isVPNConnected, connectedVpnType) = ConnectedType s;
          activePublicKey = (if \<not> isVPNConnected \<or> connectedVpnType \<noteq> WireGuard then []
                             else WGPublicKey session)
      in case keys_attempt env ke (SessionToken session) activePublicKey 0 (ke_kem ke) s of
           (Inl err, s) \<Rightarrow> (Some err, s)
         | (Inr (pub, priv, localIP, wgPresharedKey), s) \<Rightarrow>
             let s = WireGuardSaveNewKeys env pub priv localIP wgPresharedKey s
             in (None, if activeRotationInterval s \<noteq> WGKeysRegenInerval session \<or> \<not> keys_running s
                       then emit (Go R_StartKeysRotation) s else s))"

definition generateKeys :: "svc_env \<Rightarrow> keys_env \<Rightarrow> bool \<Rightarrow> svc \<Rightarrow> error \<times> svc" where
  "generateKeys env ke onlyUpdateIfNecessary s =
     (let session = Session (sv_preferences s) in
      if onlyUpdateIfNecessary \<and> length (WGPublicKey session) > 0 \<and> WGKeysRegenInerval session \<le> 0 then
        (Some (Err ''unable to 'GenerateOrUpdateKeys' (update interval is not defined)''), s)
      else if onlyUpdateIfNecessary \<and> length (WGPublicKey session) > 0
              \<and> unix_sec (WGKeyGenerated session + WGKeysRegenInerval session) \<ge> unix_sec (se_now env)
      then (None, s)
      else case IsConnectivityBlocked env s of
        (Some err, s) \<Rightarrow> (Some err, s)
      | (None, s) \<Rightarrow> keys_renew env ke session s)"

definition GenerateKeysNow :: "svc_env \<Rightarrow> keys_env \<Rightarrow> svc \<Rightarrow> error \<times> svc" where
  "GenerateKeysNow env ke s = generateKeys env ke False s"

definition UpdateKeysIfNecessary :: "svc_env \<Rightarrow> keys_env \<Rightarrow> svc \<Rightarrow> error \<times> svc" where
  "UpdateKeysIfNecessary env ke s = generateKeys env ke True s"

definition WireGuardGenerateKeys :: "svc_env \<Rightarrow> keys_env \<Rightarrow> bool \<Rightarrow> svc \<Rightarrow> error \<times> svc" where
  "WireGuardGenerateKeys env ke updateIfNecessary s =
     (if \<not> IsLoggedIn (Session (sv_preferences s)) then (Some ErrorNotLoggedIn, s)
      else case (if updateIfNecessary then UpdateKeysIfNecessary env ke s
                 else GenerateKeysNow env ke s) of
        (Some err, s) \<Rightarrow> (Some (ErrWrap ''failed to regenerate WireGuard keys'' err), s)
      | (None, s) \<Rightarrow> (None, s))"

subsection \<open>The rotation\<close>

record rotation =
  isLastUpdateFailed :: bool
  isLastUpdateFailedCnt :: nat
  rot_lastUpdate :: gotime
  rot_interval :: duration

definition maxCheckInterval :: duration where "maxCheckInterval = minute * 5"

text \<open>How long a round waits, from what the last one left and the stored times of the keys.\<close>

definition rotation_wait ::
  "gotime \<Rightarrow> gotime \<Rightarrow> duration \<Rightarrow> rotation \<Rightarrow> duration \<times> rotation" where
  "rotation_wait now storedUpdate storedInterval r =
     (let (waitInterval, r) =
        (if isLastUpdateFailed r then
           let w = maxCheckInterval * int (isLastUpdateFailedCnt r)
           in (if w > hour then hour else w, r\<lparr>rot_lastUpdate := now\<rparr>)
         else (storedUpdate + storedInterval - now,
               r\<lparr>rot_lastUpdate := storedUpdate, rot_interval := storedInterval\<rparr>));
          waitInterval = (if rot_lastUpdate r + rot_interval r < now then second else waitInterval);
          waitInterval = (if waitInterval > maxCheckInterval \<and> \<not> isLastUpdateFailed r
                          then maxCheckInterval else waitInterval)
      in (waitInterval, r))"

definition rotation_done :: "error \<Rightarrow> rotation \<Rightarrow> rotation" where
  "rotation_done err r =
     (if err \<noteq> None
      then r\<lparr>isLastUpdateFailed := True, isLastUpdateFailedCnt := isLastUpdateFailedCnt r + 1\<rparr>
      else r\<lparr>isLastUpdateFailed := False, isLastUpdateFailedCnt := 0\<rparr>)"

text \<open>One round, given the stop signal during the wait or not.\<close>

definition rotation_round ::
  "svc_env \<Rightarrow> keys_env \<Rightarrow> bool \<Rightarrow> rotation \<Rightarrow> svc \<Rightarrow> rotation option \<times> svc" where
  "rotation_round env ke stopped r s =
     (let session = Session (sv_preferences s);
          (_, r) = rotation_wait (se_now env) (WGKeyGenerated session) (WGKeysRegenInerval session) r
      in if stopped then (None, s)
         else let (err, s) = UpdateKeysIfNecessary env ke s in (Some (rotation_done err r), s))"

subsection \<open>Properties\<close>

declare keys_attempt.simps [simp del]

definition session_of :: "svc \<Rightarrow> SessionStatus" where
  "session_of s = Session (sv_preferences s)"

lemma session_emit [simp]: "session_of (emit c s) = session_of s"
  by (simp add: session_of_def emit_def)

lemma on_fw_keeps [simp]:
  "sv_preferences (snd (on_fw f s)) = sv_preferences s" "sv_vpn (snd (on_fw f s)) = sv_vpn s"
  "sv_log (snd (on_fw f s)) = sv_log s"
  by (simp_all add: on_fw_def case_prod_unfold Let_def)

lemma blocked_keeps:
  "sv_preferences (snd (IsConnectivityBlocked env s)) = sv_preferences s"
  "sv_vpn (snd (IsConnectivityBlocked env s)) = sv_vpn s"
  "sv_log (snd (IsConnectivityBlocked env s)) = sv_log s"
  by (simp_all add: IsConnectivityBlocked_def FirewallEnabled_def case_prod_unfold Let_def
      split: option.split)

lemma save_keys_session:
  "session_of (WireGuardSaveNewKeys env pub priv ip psk s) = updateWgCredentials (se_now env) pub priv ip psk (session_of s)"
  by (simp add: WireGuardSaveNewKeys_def save_prefs_def UpdateWgCredentials_def session_of_def
      emit_def Let_def)

definition keys_cleared :: "SessionStatus \<Rightarrow> bool" where
  "keys_cleared x \<longleftrightarrow> WGPublicKey x = [] \<and> WGPrivateKey x = [] \<and> WGLocalIP x = []"

lemma refused_session:
  "if act = [] then keys_cleared (session_of (snd (keys_refused env act nf s)))
   else session_of (snd (keys_refused env act nf s)) = session_of s"
  by (auto simp: keys_refused_def Let_def save_keys_session keys_cleared_def
      updateWgCredentials_def split: if_splits)

lemma attempt_session:
  "keys_attempt env ke tok act i kem s = (r, s') \<Longrightarrow>
     (case r of
        Inl e \<Rightarrow> session_of s' = session_of s \<or> act = [] \<and> keys_cleared (session_of s')
      | Inr (pub, priv, _, _) \<Rightarrow> session_of s' = session_of s
          \<and> (\<exists>j. i \<le> j \<and> j \<le> i + (if kem then 1 else 0) \<and> ke_GenerateKeys ke j = Inr (pub, priv)))"
proof (induction env ke tok act i kem s arbitrary: r s' rule: keys_attempt.induct)
  case (1 env ke tok act i kem s)
  show ?case
  proof (cases "ke_GenerateKeys ke i")
    case (Inl err)
    then show ?thesis using "1.prems" by (auto simp: keys_attempt.simps)
  next
    case (Inr pp)
    obtain pub priv where pp: "pp = (pub, priv)" by fastforce
    let ?s = "emit (Api_WireGuardKeySet pub act kem) s"
    have refused: ?thesis if "(r, s') = (case keys_refused env act nf ?s of (e, t) \<Rightarrow> (Inl e, t))" for nf
      using that refused_session [of act env nf ?s]
      by (auto simp: case_prod_unfold split: if_splits)
    show ?thesis
    proof (cases "ke_WireGuardKeySet ke i")
      case (Key_error nf)
      then show ?thesis using "1.prems" Inr pp refused [of nf] by (simp add: keys_attempt.simps Let_def)
    next
      case (Key_ok ip ciphers)
      show ?thesis
      proof (cases "parse_ip ip = []")
        case True
        then show ?thesis using "1.prems" Inr pp Key_ok refused [of False]
          by (simp add: keys_attempt.simps Let_def)
      next
        case ip: False
        have exi: "\<exists>j\<ge>i. j \<le> Suc i \<and> ke_GenerateKeys ke j = Inr (pub, priv)"
          using Inr pp by (intro exI [of _ i]) simp
        show ?thesis
        proof (cases "kem \<and> ciphers \<and> (\<exists>e. ke_PresharedKey ke = Inl e)")
          case True
          then obtain e where e: "ke_PresharedKey ke = Inl e" by blast
          have "keys_attempt env ke tok act (i + 1) False ?s = (r, s')"
            using "1.prems" Inr pp Key_ok ip True e by (simp add: keys_attempt.simps [where i = i])
          from "1.IH" [OF Inr pp [symmetric] refl Key_ok ip _ e this]
          show ?thesis using True
            by (auto split: sum.splits prod.splits intro: exI [of _ "Suc i"])
        next
          case False
          then show ?thesis using "1.prems" Inr pp Key_ok ip
            by (cases "ke_PresharedKey ke")
               (use exi in \<open>auto simp: keys_attempt.simps Let_def split: if_splits\<close>)
        qed
      qed
    qed
  qed
qed

text \<open>How many requests an attempt adds to the log, and with which keys.\<close>

fun key_requests :: "ext_call list \<Rightarrow> bool list" where
  "key_requests [] = []"
| "key_requests (Api_WireGuardKeySet pub act kem # cs) = kem # key_requests cs"
| "key_requests (_ # cs) = key_requests cs"

lemma key_requests_emit:
  "key_requests (sv_log (emit (Api_WireGuardKeySet pub act kem) s)) = kem # key_requests (sv_log s)"
  by (simp add: emit_def)

lemma save_keys_requests [simp]:
  "key_requests (sv_log (WireGuardSaveNewKeys env pub priv ip psk s)) = key_requests (sv_log s)"
  by (simp add: WireGuardSaveNewKeys_def save_prefs_def emit_def Let_def)

lemma refused_requests [simp]:
  "key_requests (sv_log (snd (keys_refused env act nf s))) = key_requests (sv_log s)"
  by (simp add: keys_refused_def Let_def emit_def)

lemma attempt_requests:
  "key_requests (sv_log (snd (keys_attempt env ke tok act i kem s))) \<in>
     {key_requests (sv_log s), kem # key_requests (sv_log s)}
     \<union> (if kem then {False # True # key_requests (sv_log s)} else {})"
proof (induction env ke tok act i kem s rule: keys_attempt.induct)
  case (1 env ke tok act i kem s)
  let ?s = "\<lambda>pub. emit (Api_WireGuardKeySet pub act kem) s"
  show ?case
  proof (cases "ke_GenerateKeys ke i")
    case (Inr pp)
    obtain pub priv where pp: "pp = (pub, priv)" by fastforce
    show ?thesis
    proof (cases "\<exists>ip e. ke_WireGuardKeySet ke i = Key_ok ip True \<and> parse_ip ip \<noteq> [] \<and> kem
                    \<and> ke_PresharedKey ke = Inl e")
      case True
      then obtain ip e where c: "ke_WireGuardKeySet ke i = Key_ok ip True" "parse_ip ip \<noteq> []" "kem"
        "ke_PresharedKey ke = Inl e" by blast
      have "keys_attempt env ke tok act i kem s = keys_attempt env ke tok act (i + 1) False (?s pub)"
        using Inr pp c by (subst keys_attempt.simps) simp
      then show ?thesis
        using "1.IH" [OF Inr pp [symmetric] refl c(1) c(2) _ c(4)] c(3) by (auto simp: key_requests_emit)
    next
      case False
      then show ?thesis using Inr pp
        by (subst keys_attempt.simps)
           (auto simp: Let_def case_prod_unfold key_requests_emit split: key_answer.split sum.split)
    qed
  qed (subst keys_attempt.simps, simp)
qed

definition used_key :: "svc \<Rightarrow> string" where
  "used_key s = (if \<not> fst (ConnectedType s) \<or> snd (ConnectedType s) \<noteq> WireGuard then []
                 else WGPublicKey (session_of s))"

text \<open>The three ways \<open>generateKeys\<close> goes: nothing is asked for, refused, done.\<close>

lemma generateKeys_cases:
  assumes "generateKeys env ke only s = (err, s')"
  obtains (idle) "session_of s' = session_of s" "sv_log s' = sv_log s"
  | (refused) t e where "keys_attempt env ke (SessionToken (session_of s)) (used_key s) 0 (ke_kem ke) t = (Inl e, s')"
      "err = Some e" "session_of t = session_of s" "sv_log t = sv_log s"
  | (fresh) t pub priv ip psk u where
      "keys_attempt env ke (SessionToken (session_of s)) (used_key s) 0 (ke_kem ke) t = (Inr (pub, priv, ip, psk), u)"
      "err = None" "session_of t = session_of s" "sv_log t = sv_log s"
      "session_of s' = updateWgCredentials (se_now env) pub priv ip psk (session_of u)"
      "key_requests (sv_log s') = key_requests (sv_log u)"
proof -
  obtain b t where t: "IsConnectivityBlocked env s = (b, t)" by fastforce
  have l: "session_of t = session_of s" "sv_log t = sv_log s" "ConnectedType t = ConnectedType s"
    using blocked_keeps [of env s] t by (simp_all add: session_of_def ConnectedType_def)
  consider "s' = s" | "s' = t" | "(err, s') = keys_renew env ke (session_of s) t"
    using assms unfolding generateKeys_def Let_def t session_of_def [symmetric]
    by (auto split: if_splits option.splits)
  then show thesis
  proof cases
    case 3
    obtain r u where a: "keys_attempt env ke (SessionToken (session_of s)) (used_key s) 0 (ke_kem ke) t = (r, u)"
      by fastforce
    have k: "(err, s') = (case (r, u) of (Inl err, s) \<Rightarrow> (Some err, s)
       | (Inr (pub, priv, localIP, psk), u) \<Rightarrow>
           let s = WireGuardSaveNewKeys env pub priv localIP psk u
           in (None, if activeRotationInterval s \<noteq> WGKeysRegenInerval (session_of s') \<or> \<not> keys_running s
                     then s else s))
       \<or> (\<exists>pub priv localIP psk. r = Inr (pub, priv, localIP, psk) \<and> err = None
            \<and> s' = emit (Go R_StartKeysRotation) (WireGuardSaveNewKeys env pub priv localIP psk u))"
      using 3 a unfolding keys_renew_def used_key_def l case_prod_unfold Let_def
      by (auto split: sum.splits if_splits)
    show thesis
    proof (cases r)
      case (Inl e)
      then show thesis using k refused [of t e] a l by auto
    next
      case (Inr q)
      obtain pub priv ip psk where q: "q = (pub, priv, ip, psk)" by (metis prod_cases4)
      let ?w = "WireGuardSaveNewKeys env pub priv ip psk u"
      have s': "err = None" "s' = ?w \<or> s' = emit (Go R_StartKeysRotation) ?w"
        using k Inr q by (auto simp: Let_def)
      have "key_requests (sv_log (emit (Go R_StartKeysRotation) ?w)) = key_requests (sv_log ?w)"
        by (simp add: emit_def)
      then have "session_of s' = updateWgCredentials (se_now env) pub priv ip psk (session_of u)"
        "key_requests (sv_log s') = key_requests (sv_log u)"
        using s'(2) by (auto simp: save_keys_session)
      then show thesis using fresh [of t pub priv ip psk u] a Inr q l s'(1) by simp
    qed
  qed (use idle l in simp_all)
qed

text \<open>
  C35: An update of the keys always comes to an end after at most two requests to the API;
  the second is made only after one with KEM keys and is made without them.
\<close>

theorem keys_update_bounded:
  "key_requests (sv_log (snd (generateKeys env ke only s))) \<in>
     {key_requests (sv_log s), True # key_requests (sv_log s), False # key_requests (sv_log s),
      False # True # key_requests (sv_log s)}"
proof -
  have a: "key_requests (sv_log u) \<in> {key_requests (sv_log s), True # key_requests (sv_log s),
      False # key_requests (sv_log s), False # True # key_requests (sv_log s)}"
    if "keys_attempt env ke tok act 0 (ke_kem ke) t = (r, u)" "sv_log t = sv_log s" for tok act t r u
    using attempt_requests [of env ke tok act 0 "ke_kem ke" t] that by (auto split: if_splits)
  show ?thesis
    by (rule generateKeys_cases [OF prod.collapse [symmetric], of env ke only s]) (use a in auto)
qed


definition sample_keys :: keys_env where
  "sample_keys = \<lparr>ke_kem = True, ke_GenerateKeys = (\<lambda>i. Inr (''pub'', ''priv'')),
     ke_WireGuardKeySet = (\<lambda>_. Key_error False), ke_PresharedKey = Inr ''psk''\<rparr>"

definition sample_fw_ok :: fw_env where "sample_fw_ok = sample_env"

definition sample_svc_env :: svc_env where
  "sample_svc_env = \<lparr>se_fw = sample_fw_ok, se_call = (\<lambda>_ _. None),
     GetDisabledFunctions = \<lparr>WireGuardError = [], OpenVPNError = [], ObfsproxyError = [], V2RayError = []\<rparr>,
     DefaultGatewayIP = Inr [192, 168, 0, 1], ServersList = Inl (Err ''no servers''),
     GetFuncNotAvailableError = (None, None), se_url_parse = (\<lambda>_. None), se_version = ''3.14.40'',
     se_uuid = ''id'', se_now = 100 * second, pausedAfterError = False,
     GetCurrentWifiInfo = \<lparr>info_SSID = [], info_IsInsecure = False\<rparr>, IsClientConnected = True,
     IsMainClientConnected = True, IsCanDoBackgroundAction = True\<rparr>"

definition sample_session :: SessionStatus where
  "sample_session = noSession\<lparr>SessionToken := ''t'', AccountID := ''a'', WGPublicKey := ''k''\<rparr>"

definition sample_svc :: svc where
  "sample_svc = svc_init ((pref_Create ''id'')\<lparr>Session := sample_session\<rparr>)"


text \<open>
  C36: A round of the key rotation waits at least nothing and at most one hour; after a
  round that did not fail at most five minutes, and exactly one second when the keys are
  due; after the n-th failure in a row five minutes times n, capped at one hour.
\<close>

theorem rotation_wait_bounds:
  "let w = fst (rotation_wait now su si r) in
     0 \<le> w \<and> w \<le> hour
     \<and> (\<not> isLastUpdateFailed r \<longrightarrow> w \<le> maxCheckInterval \<and> (su + si < now \<longrightarrow> w = second))
     \<and> (isLastUpdateFailed r \<and> 0 \<le> rot_interval r \<longrightarrow>
          w = min hour (maxCheckInterval * int (isLastUpdateFailedCnt r)))"
proof -
  have c: "second \<le> maxCheckInterval" "maxCheckInterval \<le> hour" "0 \<le> maxCheckInterval" "second \<le> hour"
    by (simp_all add: maxCheckInterval_def time_defs)
  show ?thesis using c by (auto simp: rotation_wait_def Let_def min_def)
qed

theorem rotation_wait_bounds_witness:
  "fst (rotation_wait 100 0 50 \<lparr>isLastUpdateFailed = False, isLastUpdateFailedCnt = 0, rot_lastUpdate = 0,
     rot_interval = 50\<rparr>) = second"
  using rotation_wait_bounds [of 100 0 50 "\<lparr>isLastUpdateFailed = False, isLastUpdateFailedCnt = 0,
     rot_lastUpdate = 0, rot_interval = 50\<rparr>"]
  by (simp add: Let_def)

end
