(* ===== verification/Service_Keep.thy ===== *)
theory Service_Keep
  imports Service_Connect Wg_Keys
begin

section \<open>Keeping a connection (daemon/service/service\_connect.go)\<close>

text \<open>
  The creation of the VPN object of each protocol and the loop of \<open>keepConnection\<close>, which
  connects again after every disconnection nobody asked for.
\<close>

subsection \<open>The VPN objects\<close>

definition create_wg :: "svc_env \<Rightarrow> wg_conn \<Rightarrow> svc \<Rightarrow> gerror + wg_conn" where
  "create_wg env connectionParams s =
     (let session = Session (sv_preferences s) in
      if \<not> IsWGCredentialsOk session then
        Inl (Err ''WireGuard credentials are not defined (please, regenerate WG credentials or re-login)'')
      else
        let localip = parse_ip (WGLocalIP session) in
        if localip = [] then
          Inl (Err ''error updating WG connection preferences (failed parsing local IP for WG connection)'')
        else case NewWireGuardObject (wg_SetCredentials (WGPrivateKey session) (WGPresharedKey session)
                    localip connectionParams) of
          Inl err \<Rightarrow> Inl (ErrWrap ''failed to create new WireGuard object'' err)
        | Inr obj \<Rightarrow> Inr obj)"

definition wg_vpn_obj ::
  "svrConnInfo option \<Rightarrow> (gerror + net_ip \<times> int \<times> bool) option \<Rightarrow> wg_conn \<Rightarrow> vpn_obj" where
  "wg_vpn_obj orig v2 c =
     \<lparr>vpn_Type = WireGuard, DefaultDNS = wg_DefaultDNS False c, Destination = wg_Destination c,
      DefaultRouteGatewayIP = [], vpn_IsPaused = False, originalEntryServerInfo = orig,
      v2rayEndpoint = v2, firewallDuringConnection = False, fwInitState = False\<rparr>"

text \<open>\<open>findOpenVpnHost\<close>: the first host with this name or this address.\<close>

definition host_matches :: "string \<Rightarrow> net_ip \<Rightarrow> OpenVPNServerHostInfo \<Rightarrow> bool" where
  "host_matches hostname ip host \<longleftrightarrow>
     \<not> ((length hostname \<le> 0 \<or> \<not> equal_fold (Hostname host) hostname)
        \<and> (ip = [] \<or> is_unspecified ip \<or> \<not> ip_equal ip (parse_ip (Host host))))"

fun find_in_servers :: "string \<Rightarrow> net_ip \<Rightarrow> OpenvpnServerInfo list \<Rightarrow> OpenVPNServerHostInfo option" where
  "find_in_servers hostname ip [] = None"
| "find_in_servers hostname ip (svr # svrs) =
     (case find (host_matches hostname ip) (ovpn_Hosts svr) of
        Some h \<Rightarrow> Some h
      | None \<Rightarrow> find_in_servers hostname ip svrs)"

definition findOpenVpnHost ::
  "string \<Rightarrow> net_ip \<Rightarrow> OpenvpnServerInfo list \<Rightarrow> gerror + OpenVPNServerHostInfo" where
  "findOpenVpnHost hostname ip svrs =
     (case (if length hostname > 0 \<or> (ip \<noteq> [] \<and> \<not> is_unspecified ip)
            then find_in_servers hostname ip svrs else None) of
        Some h \<Rightarrow> Inr h
      | None \<Rightarrow> Inl (Err (''host '' @ CHR 0x27 # hostname @ CHR 0x27 # '' not found'')))"

definition obfs_failed :: "gerror \<Rightarrow> gerror + obfs_params" where
  "obfs_failed err = Inl (ErrWrap ''failed to initialize obfsproxy configuration'' err)"

definition obfs_unsupported :: "obfs_config \<Rightarrow> gerror + obfs_params" where
  "obfs_unsupported cfg =
     Inl (Err (''failed to initialize obfsproxy configuration: unsupported obfs version: ''
       @ show_int (obfs_Version cfg)))"

text \<open>The remote port and key of obfsproxy for the host of the connection.\<close>

definition obfs_init :: "svc_env \<Rightarrow> obfs_config \<Rightarrow> ovpn_conn \<Rightarrow> gerror + obfs_params" where
  "obfs_init env cfg c =
     (let params = \<lparr>op_Config = cfg, op_RemotePort = 0, op_Obfs4Key = []\<rparr> in
      if \<not> IsObfsproxy cfg then Inr params
      else case ServersList env of
        Inl err \<Rightarrow> obfs_failed err
      | Inr svrs \<Rightarrow>
          if ovpn_IsMultihop c then
            (case findOpenVpnHost (o_exitHostname c) [] (OpenvpnServers svrs) of
               Inl err \<Rightarrow> obfs_failed err
             | Inr host \<Rightarrow>
                 if obfs_Version cfg = OBFS3 then
                   Inr (params\<lparr>op_RemotePort := Obfs3MultihopPort (Obfs host)\<rparr>)
                 else if obfs_Version cfg = OBFS4 then
                   Inr (params\<lparr>op_RemotePort := Obfs4MultihopPort (Obfs host),
                               op_Obfs4Key := Obfs4Key (Obfs host)\<rparr>)
                 else obfs_unsupported cfg)
          else if obfs_Version cfg = OBFS3 then
            Inr (params\<lparr>op_RemotePort := Obfs3 (Ports (Config svrs))\<rparr>)
          else if obfs_Version cfg = OBFS4 then
            (case findOpenVpnHost [] (o_hostIP c) (OpenvpnServers svrs) of
               Inl err \<Rightarrow> obfs_failed err
             | Inr host \<Rightarrow>
                 Inr (params\<lparr>op_RemotePort := Obfs4 (Ports (Config svrs)), op_Obfs4Key := Obfs4Key (Obfs host)\<rparr>))
          else obfs_unsupported cfg)"

text \<open>The lines of the user's file that are kept: neither blank nor a comment.\<close>

definition ovpn_extra_lines :: "string list \<Rightarrow> string" where
  "ovpn_extra_lines ls =
     concat (map (\<lambda>l. l @ [CHR 0x0A])
       (filter (\<lambda>l. length l > 0 \<and> \<not> prefix ''#'' l \<and> \<not> prefix '';'' l) (map trim_space ls)))"

definition ovpn_Destination :: "obfs_params \<Rightarrow> ovpn_conn \<Rightarrow> net_ip \<times> int \<times> bool" where
  "ovpn_Destination o' c =
     (if IsObfsproxy (op_Config o') then (o_hostIP c, uint16 (op_RemotePort o'), o_tcp c)
      else (o_hostIP c, uint16 (o_hostPort c), o_tcp c))"

definition create_ovpn ::
  "svc_env \<Rightarrow> obfs_config \<Rightarrow> ovpn_conn \<Rightarrow> svc \<Rightarrow> gerror + obfs_params \<times> ovpn_conn" where
  "create_ovpn env cfg connectionParams s =
     (let session = Session (sv_preferences s) in
      if length (OpenVPNError (GetDisabledFunctions env)) > 0 then
        Inl (Err (OpenVPNError (GetDisabledFunctions env)))
      else if IsObfsproxy cfg \<and> length (ObfsproxyError (GetDisabledFunctions env)) > 0 then
        Inl (Err (ObfsproxyError (GetDisabledFunctions env)))
      else
        let c = ovpn_SetCredentials (OpenVPNUser session) (OpenVPNPass session) connectionParams in
        case obfs_init env cfg c of
          Inl err \<Rightarrow> Inl err
        | Inr params \<Rightarrow>
            if length (o_username c) = 0 \<or> length (o_password c) = 0 then
              Inl (ErrWrap ''failed to create new openVPN object''
                (Err ''OpenVPN user credentials not defined''))
            else Inr (params, c))"

text \<open>The DNS address an OpenVPN process reports is pushed by the server, so it is given.\<close>

definition ovpn_vpn_obj ::
  "net_ip \<Rightarrow> svrConnInfo option \<Rightarrow> (gerror + net_ip \<times> int \<times> bool) option \<Rightarrow> obfs_params \<times> ovpn_conn \<Rightarrow> vpn_obj" where
  "ovpn_vpn_obj dns orig v2 oc =
     \<lparr>vpn_Type = OpenVPN, DefaultDNS = dns, Destination = ovpn_Destination (fst oc) (snd oc),
      DefaultRouteGatewayIP = [], vpn_IsPaused = False, originalEntryServerInfo = orig,
      v2rayEndpoint = v2, firewallDuringConnection = False, fwInitState = False\<rparr>"

subsection \<open>The loop of keepConnection\<close>

text \<open>
  One connection of the loop as the world decides it: what creating the object gives, the
  outbound addresses, what happens while the process runs (the states it reports, other
  operations), how the process ends (\<open>at_reconnect\<close>: with the error that asks for a
  reconnection), the times of its start and end, and what happens during a delay after it.
\<close>

record attempt =
  at_create :: "svc \<Rightarrow> gerror + vpn_obj"
  at_outbound :: "gerror + net_ip \<times> net_ip"
  at_run :: "svc \<Rightarrow> svc"
  at_error :: error
  at_reconnect :: bool
  at_started :: gotime
  at_ended :: gotime
  at_delay :: "svc \<Rightarrow> svc"

text \<open>The call of \<open>connect\<close> in the loop: its error and whether the process asked to reconnect.\<close>

definition keep_connect :: "svc_env \<Rightarrow> bool \<Rightarrow> bool \<Rightarrow> attempt \<Rightarrow> vpn_obj \<Rightarrow> svc \<Rightarrow> (error \<times> bool) \<times> svc" where
  "keep_connect env firewallOn firewallDuring a obj s =
     (let isInverseSplitTun = IsInverseSplitTunneling (sv_preferences s) in
      case connect_begin env (at_outbound a) obj (firewallOn \<and> \<not> isInverseSplitTun)
             (firewallDuring \<and> \<not> isInverseSplitTun) s of
        (Some err, s) \<Rightarrow> ((Some err, False), s)
      | (None, s) \<Rightarrow>
          let (err, s) = connect_end env (at_error a) (at_run a s)
          in ((err, at_error a \<noteq> None \<and> at_reconnect a), s))"

datatype keep_result = Keep_return error | Keep_retry duration duration | Keep_open

text \<open>
  What the loop does after it: \<open>Keep_retry w d\<close> after waiting \<open>w\<close>, with \<open>d\<close> the delay of the
  next reconnection.
\<close>

definition keep_next ::
  "attempt \<Rightarrow> duration \<Rightarrow> error \<times> bool \<Rightarrow> svc \<Rightarrow> keep_result \<times> svc" where
  "keep_next a delayBeforeReconnect c s =
     (let (connErr, reconnectReq) = c in
      if connErr \<noteq> None \<and> sv_requiredVpnState s = Required_Connect then (Keep_return connErr, s)
      else if sv_requiredVpnState s = Required_KeepConnection then
        let s = emit (Notify (OnVpnStateChanged (NewStateInfo RECONNECTING ''Reconnecting due to disconnection''))) s;
            d = (if at_ended a > at_started a + second * 30 then 0 else delayBeforeReconnect);
            d = (if connErr \<noteq> None \<and> reconnectReq then 0 else d);
            s = (if d > 0 then at_delay a s else s)
        in if sv_requiredVpnState s = Required_KeepConnection then (Keep_retry d (second * 5), s)
           else (Keep_return None, s)
      else (Keep_return None, s))"

text \<open>
  The loop over a list of such connections, with the delays it waited; \<open>Keep_open\<close>: the
  list ends before the loop does.
\<close>

fun keep_loop ::
  "svc_env \<Rightarrow> bool \<Rightarrow> bool \<Rightarrow> duration \<Rightarrow> attempt list \<Rightarrow> svc \<Rightarrow> (keep_result \<times> duration list) \<times> svc" where
  "keep_loop env firewallOn firewallDuring d [] s = ((Keep_open, []), s)"
| "keep_loop env firewallOn firewallDuring d (a # rest) s =
     (case at_create a s of
        Inl err \<Rightarrow> ((Keep_return (Some (ErrWrap ''failed to create VPN object'' err)), []), s)
      | Inr obj \<Rightarrow>
          let (c, s) = keep_connect env firewallOn firewallDuring a obj s in
          case keep_next a d c s of
            (Keep_retry w d, s) \<Rightarrow>
              (let ((r, ws), s) = keep_loop env firewallOn firewallDuring d rest s in ((r, w # ws), s))
          | (r, s) \<Rightarrow> ((r, []), s))"

definition keepConnection ::
  "svc_env \<Rightarrow> bool \<Rightarrow> bool \<Rightarrow> attempt list \<Rightarrow> svc \<Rightarrow> (keep_result \<times> duration list) \<times> svc" where
  "keepConnection env firewallOn firewallDuring attempts s =
     (if \<not> IsLoggedIn (Session (sv_preferences s)) then ((Keep_return (Some ErrorNotLoggedIn), []), s)
      else
        let s = s\<lparr>sv_requiredVpnState := Required_Connect\<rparr>;
            s = emit (Notify (OnVpnStateChanged (NewStateInfo CONNECTING ''Connecting''))) s;
            ((r, ws), s) = keep_loop env firewallOn firewallDuring 0 attempts s
        in ((r, ws),
            case r of
              Keep_return e \<Rightarrow>
                if \<not> IsClientConnected env then
                  emit (Notify (SystemLog (case e of
                    Some err \<Rightarrow> ''Failed to connect VPN: '' @ error_text err
                  | None \<Rightarrow> ''VPN disconnected''))) s
                else s
            | _ \<Rightarrow> s))"

definition connectWireGuard ::
  "svc_env \<Rightarrow> keys_env \<Rightarrow> bool \<Rightarrow> bool \<Rightarrow> attempt list \<Rightarrow> svc \<Rightarrow> (keep_result \<times> duration list) \<times> svc" where
  "connectWireGuard env ke firewallOn firewallDuring attempts s =
     (case Disconnect env s of
        (Some err, s) \<Rightarrow>
          ((Keep_return (Some (ErrWrap ''failed to connect. Unable to stop active connection'' err)), []), s)
      | (None, s) \<Rightarrow>
          if length (WireGuardError (GetDisabledFunctions env)) > 0 then
            ((Keep_return (Some (Err (WireGuardError (GetDisabledFunctions env)))), []), s)
          else
            let (err, s) = WireGuardGenerateKeys env ke True s;
                session = Session (sv_preferences s)
            in if err \<noteq> None
                  \<and> \<not> (length (WGPublicKey session) > 0
                       \<and> WGKeyGenerated session + WGKeysRegenInerval session + hour * 24 * 3 > se_now env)
               then ((Keep_return err, []), s)
               else keepConnection env firewallOn firewallDuring attempts s)"

subsection \<open>Properties\<close>

lemma keep_next_required:
  "keep_next a d c s = (Keep_retry w d', s') \<Longrightarrow>
     sv_requiredVpnState s' = Required_KeepConnection \<and> w \<in> {0, d} \<and> d' = second * 5
     \<and> (at_ended a > at_started a + second * 30 \<longrightarrow> w = 0)"
  by (auto simp: keep_next_def Let_def case_prod_unfold split: if_splits)

lemma keep_loop_waits:
  "0 \<le> d \<Longrightarrow> keep_loop env fwOn fwDur d attempts s = ((r, ws), s') \<Longrightarrow>
     length ws \<le> length attempts \<and> set ws \<subseteq> {0, d, second * 5}
     \<and> (ws \<noteq> [] \<longrightarrow> hd ws \<in> {0, d})
     \<and> (\<forall>i < length ws. at_ended (attempts ! i) > at_started (attempts ! i) + second * 30 \<longrightarrow> ws ! i = 0)"
proof (induction env fwOn fwDur d attempts s arbitrary: r ws s' rule: keep_loop.induct)
  case (2 env fwOn fwDur d a rest s)
  show ?case
  proof (cases "at_create a s")
    case (Inr obj)
    obtain c s1 where c: "keep_connect env fwOn fwDur a obj s = (c, s1)" by fastforce
    show ?thesis
    proof (cases "\<exists>w d' s2. keep_next a d c s1 = (Keep_retry w d', s2)")
      case True
      then obtain w d' s2 where n: "keep_next a d c s1 = (Keep_retry w d', s2)" by blast
      obtain r2 ws2 s3 where l: "keep_loop env fwOn fwDur d' rest s2 = ((r2, ws2), s3)"
        by (metis prod.collapse)
      have eq: "ws = w # ws2" using "2.prems"(2) Inr c n l by simp
      note k = keep_next_required [OF n]
      have "0 \<le> d'" using k by simp
      from "2.IH" [OF Inr c [symmetric] refl n [symmetric] refl this l] k
      show ?thesis
        by (auto simp: eq nth_Cons' less_Suc_eq_0_disj split: if_splits)
    next
      case False
      then have "ws = []" using "2.prems"(2) Inr c
        by (auto split: keep_result.splits prod.splits)
      then show ?thesis by simp
    qed
  qed (use "2.prems" in simp)
qed simp

end
