(* ===== verification/Service_Start.thy ===== *)
theory Service_Start
  imports Service_Keep V2Ray_Wrapper
begin

section \<open>Starting a connection (daemon/service/service\_connect.go)\<close>

text \<open>
  \<open>ValidateConnectionParameters\<close>, \<open>startV2Ray\<close> and \<open>Connect\<close>: from the parameters a client
  gives to the loop of \<open>keepConnection\<close>. \<open>conn_env\<close> is the rest of the world: the answers of
  the API, the random choices, V2Ray, the keys and the connections the loop makes. A panic
  that \<open>Connect\<close> recovers from is \<open>Inl\<close>.
\<close>

subsection \<open>Validation\<close>

definition validate_hosts :: "ConnectionParams \<Rightarrow> bool \<Rightarrow> svc \<Rightarrow> ConnectionParams \<times> error" where
  "validate_hosts params isCanFix s =
     (if VpnType params = WireGuard then
        if length (wg_Entry (WireGuardParameters params)) \<le> 0 then
          (params, Some (Err ''no hosts defined for WireGuard connection''))
        else if length (wg_Exit (WireGuardParameters params)) > 0 then
          (case service_IsCanConnectMultiHop s of
             None \<Rightarrow> (params, None)
           | Some mhErr \<Rightarrow>
               if \<not> isCanFix then (params, Some mhErr)
               else (params\<lparr>WireGuardParameters := (WireGuardParameters params)
                       \<lparr>wg_ExitSrvID := [], wg_Exit := []\<rparr>\<rparr>, None))
        else (params, None)
      else
        if length (ovpn_Entry (OpenVpnParameters params)) \<le> 0 then
          (params, Some (Err ''no hosts defined for OpenVPN connection''))
        else if length (ovpn_Exit (OpenVpnParameters params)) > 0 then
          (case service_IsCanConnectMultiHop s of
             None \<Rightarrow> (params, None)
           | Some mhErr \<Rightarrow>
               if \<not> isCanFix then (params, Some mhErr)
               else (params\<lparr>OpenVpnParameters := (OpenVpnParameters params)
                       \<lparr>ovpn_ExitSrvID := [], ovpn_Exit := []\<rparr>\<rparr>, None))
        else (params, None))"

definition ValidateConnectionParameters ::
  "svc_env \<Rightarrow> ConnectionParams \<Rightarrow> bool \<Rightarrow> svc \<Rightarrow> ConnectionParams \<times> error" where
  "ValidateConnectionParameters env params isCanFix s =
     (let (params, err) = validate_hosts params isCanFix s in
      if err \<noteq> None then (params, err)
      else
        let (at, err) = normalizeAntiTrackerBlockListName env (AntiTracker (Metadata params))
        in (params\<lparr>Metadata := (Metadata params)\<lparr>AntiTracker := at\<rparr>\<rparr>,
            map_option (ErrWrap ''failed to validate AntiTracker configuration'') err))"

subsection \<open>V2Ray\<close>

record conn_env =
  ce_api :: "string \<Rightarrow> status_answer"
  ce_rnd :: "nat \<Rightarrow> nat \<Rightarrow> nat option"
  ce_port_rnd :: "nat \<Rightarrow> nat option"
  ce_v2 :: v2_env
  V2RayBinaryPath :: string
  V2RayConfigFile :: string
  ce_keys :: keys_env
  ce_dns :: net_ip
  ce_attempts :: "attempt list"

text \<open>\<open>strings.Replace(s, old, new, 1)\<close> for an \<open>old\<close> that is not empty.\<close>

fun replace_first :: "string \<Rightarrow> string \<Rightarrow> string \<Rightarrow> string" where
  "replace_first old new [] = []"
| "replace_first old new (c # cs) =
     (if prefix old (c # cs) then new @ drop (length old) (c # cs)
      else c # replace_first old new cs)"

text \<open>
  The outbound address and name of the entry host, the inbound address and the ports to
  choose from; \<open>None\<close> is the index of an empty list of hosts.
\<close>

definition v2_endpoints ::
  "ServersInfoResponse \<Rightarrow> int \<Rightarrow> ConnectionParams
     \<Rightarrow> (string \<times> string \<times> string \<times> PortInfoBase list) option" where
  "v2_endpoints svrs outboundPort params =
     (let exit_ports = [\<lparr>port_Type = ''UDP'', port_Port = outboundPort\<rparr>] in
      if VpnType params = OpenVPN then
        (case ovpn_Entry (OpenVpnParameters params) of
           [] \<Rightarrow> None
         | h # _ \<Rightarrow>
             Some (case ovpn_Exit (OpenVpnParameters params) of
                     x # _ \<Rightarrow> (V2RayHost h, DnsName h, Host x, exit_ports)
                   | [] \<Rightarrow> (V2RayHost h, DnsName h, Host h, v2_OpenVPN (V2RayInfo (Ports (Config svrs))))))
      else if VpnType params = WireGuard then
        (case wg_Entry (WireGuardParameters params) of
           [] \<Rightarrow> None
         | h # _ \<Rightarrow>
             Some (case wg_Exit (WireGuardParameters params) of
                     x # _ \<Rightarrow> (V2RayHost h, DnsName h, Host x, exit_ports)
                   | [] \<Rightarrow> (V2RayHost h, DnsName h, Host h, v2_WireGuard (V2RayInfo (Ports (Config svrs))))))
      else Some ([], [], [], []))"

definition v2_inbound_ports :: "PortInfoBase list \<Rightarrow> PortInfoBase list" where
  "v2_inbound_ports ports =
     filter (\<lambda>p. let t = trim_space (to_lower (port_Type p)) in ''udp'' = t \<or> t = []) ports"

text \<open>The parameters that lead through the local proxy, and the server they led to.\<close>

definition v2_params :: "int \<Rightarrow> ConnectionParams \<Rightarrow> ConnectionParams" where
  "v2_params localPort params =
     (if VpnType params = OpenVPN then
        let p = OpenVpnParameters params in
        params\<lparr>OpenVpnParameters := p\<lparr>
          ovpn_Port := \<lparr>cport_Protocol = 0, cport_Port = localPort\<rparr>,
          ovpn_Entry := upd_hd (\<lambda>h. h\<lparr>Host := ''127.0.0.1''\<rparr>) (ovpn_Entry p),
          ovpn_Exit := upd_hd (\<lambda>h. h\<lparr>MultihopPort := localPort\<rparr>) (ovpn_Exit p)\<rparr>\<rparr>
      else if VpnType params = WireGuard then
        let p = WireGuardParameters params in
        params\<lparr>WireGuardParameters := p\<lparr>
          wg_Port := (wg_Port p)\<lparr>cport_Port := localPort\<rparr>,
          wg_Entry := upd_hd (\<lambda>h. case wg_Exit p of
              [] \<Rightarrow> h\<lparr>Host := ''127.0.0.1''\<rparr>
            | x # _ \<Rightarrow> h\<lparr>Host := ''127.0.0.1'', PublicKey := PublicKey x\<rparr>) (wg_Entry p),
          wg_Exit := upd_hd (\<lambda>h. h\<lparr>MultihopPort := localPort\<rparr>) (wg_Exit p)\<rparr>\<rparr>
      else params)"

definition v2_original :: "int \<Rightarrow> ConnectionParams \<Rightarrow> svrConnInfo" where
  "v2_original v2RayType params =
     (if VpnType params = OpenVPN then
        let p = OpenVpnParameters params in
        \<lparr>svr_IP = (case ovpn_Entry p of [] \<Rightarrow> [] | h # _ \<Rightarrow> parse_ip (Host h)),
         svr_Port = cport_Port (ovpn_Port p), svr_PortType = cport_Protocol (ovpn_Port p),
         svr_V2RayProxyType = v2RayType\<rparr>
      else if VpnType params = WireGuard then
        let p = WireGuardParameters params in
        \<lparr>svr_IP = (case wg_Entry p of [] \<Rightarrow> [] | h # _ \<Rightarrow> parse_ip (Host h)),
         svr_Port = cport_Port (wg_Port p), svr_PortType = cport_Protocol (wg_Port p),
         svr_V2RayProxyType = v2RayType\<rparr>
      else \<lparr>svr_IP = [], svr_Port = 0, svr_PortType = 0, svr_V2RayProxyType = v2RayType\<rparr>)"

type_synonym v2_result = "string + ConnectionParams \<times> V2RayWrapper option \<times> svrConnInfo option \<times> error"

text \<open>From the chosen endpoints on.\<close>

definition v2_start_client ::
  "conn_env \<Rightarrow> ConnectionParams \<Rightarrow> int \<Rightarrow> int \<Rightarrow> string \<Rightarrow> string \<times> string \<times> string \<times> PortInfoBase list
     \<Rightarrow> v2_result" where
  "v2_start_client ce params v2RayType outboundPort userId endpoints =
     (let (outboundIp, dnsName, inboundIp, ports) = endpoints;
          tlsSvrName = replace_first ''ivpn.net'' ''inet-telecom.com'' dnsName;
          filtered = v2_inbound_ports ports
      in if length filtered = 0 then
           Inr (params, None, None,
             Some (Err ''failed to start: no V2Ray 'udp' ports for the speified VPN type''))
         else
           let inboundPort = port_Port (case ce_port_rnd ce (length filtered) of
                 Some r \<Rightarrow> filtered ! r | None \<Rightarrow> filtered ! 0)
           in case v2r_Start (ce_v2 ce) (V2RayBinaryPath ce) (V2RayConfigFile ce) False v2RayType
                     outboundIp outboundPort inboundIp inboundPort userId tlsSvrName of
                (_, Some err) \<Rightarrow> Inr (params, None, None, Some (ErrWrap ''failed to start v2ray'' err))
              | (None, None) \<Rightarrow> Inl ''invalid memory address or nil pointer dereference''
              | (Some v, None) \<Rightarrow>
                  (case wrapper_GetLocalPort v of
                     Inl err \<Rightarrow> Inr (params, None, None, Some (ErrWrap ''failed to get V2Ray local port'' err))
                   | Inr (localPort, _) \<Rightarrow>
                       Inr (v2_params localPort params, Some v, Some (v2_original v2RayType params), None)))"

definition startV2Ray :: "svc_env \<Rightarrow> conn_env \<Rightarrow> ConnectionParams \<Rightarrow> int \<Rightarrow> v2_result" where
  "startV2Ray env ce params v2RayType =
     (if v2RayType \<noteq> V2RayQUIC \<and> v2RayType \<noteq> V2RayTCP then Inr (params, None, None, None)
      else case ServersList env of
        Inl err \<Rightarrow> Inr (params, None, None, Some err)
      | Inr svrs \<Rightarrow>
          let (outboundPort, isTcpOutboundPort) = conn_Port params in
          if v2RayType = V2RayQUIC \<and> isTcpOutboundPort then
            Inr (params, None, None, Some (Err ''not acceptable port type for V2Ray-QUIC connection (UDP is expected)''))
          else if v2RayType = V2RayTCP \<and> \<not> isTcpOutboundPort then
            Inr (params, None, None, Some (Err ''not acceptable port type for V2Ray-TCP connection (TCP is expected)''))
          else
            let outboundPort = (if outboundPort = 0 then if v2RayType = V2RayTCP then 80 else 443
                                else outboundPort)
            in case v2_endpoints svrs outboundPort params of
                 None \<Rightarrow> Inl ''index out of range [0] with length 0''
               | Some endpoints \<Rightarrow>
                   v2_start_client ce params v2RayType outboundPort
                     (v2_ID (V2RayInfo (Ports (Config svrs)))) endpoints)"

subsection \<open>Connect\<close>

text \<open>
  \<open>time.Unix(n, 0)\<close> on the time line of the model, which starts at year 1.
\<close>

definition time_Unix :: "int \<Rightarrow> gotime" where
  "time_Unix n = (n + 62135596800) * second"

text \<open>The check of the account, on the copy of the preferences made before the request.\<close>

definition connect_account ::
  "svc_env \<Rightarrow> (string \<Rightarrow> status_answer) \<Rightarrow> Preferences \<Rightarrow> svc \<Rightarrow> error \<times> svc" where
  "connect_account env api prefs s =
     (let expired = (se_now env > time_Unix (acc_ActiveUntil (Account prefs))) in
      if \<not> acc_Active (Account prefs) \<or> expired then
        let ((_, err), s) = RequestSessionStatus env api s in
        if err = None \<and> \<not> acc_Active (Account prefs) then
          (Some (Err (if expired then ''your subscription has expired''
                      else ''your subscription is not active'')), s)
        else (None, s)
      else (None, s))"

definition connectOpenVPN ::
  "svc_env \<Rightarrow> conn_env \<Rightarrow> svrConnInfo option \<Rightarrow> (gerror + net_ip \<times> int \<times> bool) option \<Rightarrow> ovpn_conn
     \<Rightarrow> bool \<Rightarrow> bool \<Rightarrow> obfs_config \<Rightarrow> svc \<Rightarrow> (keep_result \<times> duration list) \<times> svc" where
  "connectOpenVPN env ce orig v2 c firewallOn firewallDuring obfsproxyConfig s =
     keepConnection env firewallOn firewallDuring
       (map (\<lambda>a. a\<lparr>at_create := (\<lambda>s. case create_ovpn env obfsproxyConfig c s of
               Inl err \<Rightarrow> Inl err
             | Inr oc \<Rightarrow> Inr (ovpn_vpn_obj (ce_dns ce) orig v2 oc))\<rparr>) (ce_attempts ce)) s"

definition failed :: "gerror \<Rightarrow> svc \<Rightarrow> (keep_result \<times> duration list) \<times> svc" where
  "failed err s = ((Keep_return (Some err), []), s)"

definition first_line :: "string \<Rightarrow> string" where
  "first_line s = hd (split_on (CHR 0x0A) s)"

definition before_slash :: "string \<Rightarrow> string" where
  "before_slash s = hd (split_on (CHR ''/'') s)"

definition ovpn_conn_params :: "ConnectionParams \<Rightarrow> net_ip \<Rightarrow> ovpn_conn" where
  "ovpn_conn_params params host =
     (let p = OpenVpnParameters params;
          proxyType = proxy_Type (ovpn_Proxy p);
          proxyType = (if length proxyType > 0 \<and> proxyType \<noteq> ''http'' \<and> proxyType \<noteq> ''socks''
                       then [] else proxyType);
          (exitName, port) = (case ovpn_Exit p of
             x # _ \<Rightarrow> (Hostname x, MultihopPort x) | [] \<Rightarrow> ([], cport_Port (ovpn_Port p)))
      in ovpn_CreateConnectionParams exitName (cport_Protocol (ovpn_Port p) > 0) port host proxyType
           (parse_ip (proxy_Address (ovpn_Proxy p))) (proxy_Port (ovpn_Proxy p))
           (first_line (proxy_Username (ovpn_Proxy p))) (first_line (proxy_Password (ovpn_Proxy p))))"

definition connect_protocol_ovpn where
  "connect_protocol_ovpn env ce params orig v2 s =
     (let p = OpenVpnParameters params in
      case ovpn_Entry p of
        [] \<Rightarrow> failed (Err ''VPN host not defined'') s
      | h # _ \<Rightarrow>
          (case (if ovpn_Exit p \<noteq> [] then service_IsCanConnectMultiHop s else None) of
             Some mhErr \<Rightarrow> failed mhErr s
           | None \<Rightarrow>
               connectOpenVPN env ce orig v2 (ovpn_conn_params params (parse_ip (Host h)))
                 (FirewallOn params) (FirewallOnDuringConnection params)
                 (if v2 \<noteq> None then \<lparr>obfs_Version = ObfsNone, Obfs4Iat = 0\<rparr> else ovpn_Obfs4proxy p) s))"

definition wg_conn_params :: "ConnectionParams \<Rightarrow> WireGuardServerHostInfo \<Rightarrow> wg_conn" where
  "wg_conn_params params h =
     (let p = WireGuardParameters params;
          hostLocalIP = parse_ip (before_slash (LocalIP h));
          ipv6Prefix = (if IPv6 params then before_slash (ipv6_LocalIP (wg_IPv6 h)) else [])
      in case wg_Exit p of
           x # _ \<Rightarrow> wg_CreateConnectionParams (Hostname x) (MultihopPort x) (parse_ip (Host h))
                     (PublicKey x) hostLocalIP ipv6Prefix (wg_Mtu p)
         | [] \<Rightarrow> wg_CreateConnectionParams [] (cport_Port (wg_Port p)) (parse_ip (Host h))
                     (PublicKey h) hostLocalIP ipv6Prefix (wg_Mtu p))"

definition connect_protocol_wg where
  "connect_protocol_wg env ce params orig v2 s =
     (let p = WireGuardParameters params in
      case wg_Entry p of
        [] \<Rightarrow> failed (Err ''VPN host not defined'') s
      | h # _ \<Rightarrow>
          if \<not> ValidateBase64 (PublicKey h) then failed (Err ''WG public key is not base64 string'') s
          else
            (case (if wg_Exit p \<noteq> [] then service_IsCanConnectMultiHop s else None) of
               Some mhErr \<Rightarrow> failed mhErr s
             | None \<Rightarrow>
                 connectWireGuard env (ce_keys ce) (FirewallOn params) (FirewallOnDuringConnection params)
                   (map (\<lambda>a. a\<lparr>at_create := (\<lambda>s. case create_wg env (wg_conn_params params h) s of
                           Inl err \<Rightarrow> Inl err
                         | Inr c \<Rightarrow> Inr (wg_vpn_obj orig v2 c))\<rparr>) (ce_attempts ce)) s))"

definition connect_protocol where
  "connect_protocol env ce params orig v2 s =
     (if VpnType params = OpenVPN then connect_protocol_ovpn env ce params orig v2 s
      else if VpnType params = WireGuard then connect_protocol_wg env ce params orig v2 s
      else failed (Err (''unexpected VPN type to connect ('' @ show_int (VpnType params) @ '')'')) s)"

subsection \<open>Lists of hosts the stored parameters share\<close>

text \<open>
  A Go slice is a reference: after \<open>setConnectionParams\<close> the stored parameters and those of
  \<open>Connect\<close> hold the same lists of hosts, unless the stored ones were equal already, and
  \<open>NormalizeHosts\<close> keeps a list it neither filters nor chooses from. \<open>startV2Ray\<close> writes to
  the elements of these lists, so to the stored parameters too.
\<close>

definition entry_reused :: "ConnectionParams \<Rightarrow> bool" where
  "entry_reused p \<longleftrightarrow>
     (if VpnType p = OpenVPN then length (ovpn_Entry (OpenVpnParameters p)) \<le> 1
      else length (wg_Entry (WireGuardParameters p)) \<le> 1
           \<and> \<not> (IPv6 p \<and> filter (\<lambda>h. ipv6_LocalIP (wg_IPv6 h) \<noteq> []) (wg_Entry (WireGuardParameters p)) \<noteq> []))"

definition exit_reused :: "ConnectionParams \<Rightarrow> bool" where
  "exit_reused p \<longleftrightarrow>
     (if VpnType p = OpenVPN then length (ovpn_Exit (OpenVpnParameters p)) \<le> 1
      else length (wg_Exit (WireGuardParameters p)) \<le> 1
           \<and> snd (exit_filter (IPv6 p) (wg_Exit (WireGuardParameters p))) = [])"

definition write_back :: "ConnectionParams \<Rightarrow> ConnectionParams \<Rightarrow> ConnectionParams \<Rightarrow> ConnectionParams" where
  "write_back given updated stored =
     (if VpnType given = OpenVPN then
        let p = OpenVpnParameters stored; q = OpenVpnParameters updated in
        stored\<lparr>OpenVpnParameters := p\<lparr>
          ovpn_Entry := (if entry_reused given then ovpn_Entry q else ovpn_Entry p),
          ovpn_Exit := (if exit_reused given then ovpn_Exit q else ovpn_Exit p)\<rparr>\<rparr>
      else
        let p = WireGuardParameters stored; q = WireGuardParameters updated in
        stored\<lparr>WireGuardParameters := p\<lparr>
          wg_Entry := (if entry_reused given then wg_Entry q else wg_Entry p),
          wg_Exit := (if exit_reused given then wg_Exit q else wg_Exit p)\<rparr>\<rparr>)"

text \<open>From the normalised parameters on: the V2Ray client, the protocol, and V2Ray's end.\<close>

definition connect_started ::
  "svc_env \<Rightarrow> conn_env \<Rightarrow> bool \<Rightarrow> ConnectionParams \<Rightarrow> ConnectionParams \<Rightarrow> svc
     \<Rightarrow> (keep_result \<times> duration list) \<times> svc" where
  "connect_started env ce shared given params s =
     (if conn_V2Ray params = V2RayQUIC \<or> conn_V2Ray params = V2RayTCP then
        if length (V2RayError (GetDisabledFunctions env)) > 0 then
          failed (Err (V2RayError (GetDisabledFunctions env))) s
        else case startV2Ray env ce params (conn_V2Ray params) of
          Inl p \<Rightarrow> failed (Err (''panic on connect: runtime error: '' @ p)) s
        | Inr (_, _, _, Some err) \<Rightarrow> failed (ErrWrap ''failed to start V2Ray'' err) s
        | Inr (updated, wrapper, orig, None) \<Rightarrow>
            let s = (if shared then s\<lparr>sv_preferences := (sv_preferences s)
                       \<lparr>LastConnectionParams := write_back given updated (LastConnectionParams (sv_preferences s))\<rparr>\<rparr>
                     else s);
                (r, s) = connect_protocol env ce updated orig (map_option getRemoteEndpoint wrapper) s
            in (r, if wrapper \<noteq> None \<and> fst r \<noteq> Keep_open then snd (call env V2_Stop s) else s)
      else connect_protocol env ce params None None s)"

definition connect_body ::
  "svc_env \<Rightarrow> conn_env \<Rightarrow> bool \<Rightarrow> ConnectionParams \<Rightarrow> svc \<Rightarrow> (keep_result \<times> duration list) \<times> svc" where
  "connect_body env ce shared params s =
     (let prefs = sv_preferences s in
      case connect_account env (ce_api ce) prefs s of
        (Some err, s) \<Rightarrow> failed err s
      | (None, s) \<Rightarrow>
          (case NormalizeHosts (ce_rnd ce) params of
             (Some err, _) \<Rightarrow> failed (ErrWrap ''failed to normalize hosts'' err) s
           | (None, normalized) \<Rightarrow>
               let normalized = (if IsInverseSplitTunneling prefs
                                 then normalized\<lparr>FirewallOn := False, FirewallOnDuringConnection := False\<rparr>
                                 else normalized)
               in connect_started env ce shared params normalized s))"

text \<open>
  \<open>callerShares\<close>: the caller passes the lists of the stored parameters. While the loop is
  still open the deferred calls wait.
\<close>

definition Connect ::
  "svc_env \<Rightarrow> conn_env \<Rightarrow> bool \<Rightarrow> ConnectionParams \<Rightarrow> svc \<Rightarrow> (keep_result \<times> duration list) \<times> svc" where
  "Connect env ce callerShares params s =
     (let s = s\<lparr>sv_tmpParams := noConnectionParams\<rparr>;
          shared = (callerShares \<or> LastConnectionParams (sv_preferences s) \<noteq> params);
          s = setConnectionParams env params s;
          (r, s) = connect_body env ce shared params s
      in (r, if fst r \<noteq> Keep_open \<and> CheckIsDefined (sv_tmpParams s) = None
             then setConnectionParams env (sv_tmpParams s) s else s))"

end
