(* ===== verification/Service_Ping.thy ===== *)
theory Service_Ping
  imports Service_Session "HOL-Library.AList"
begin

section \<open>Pinging the servers (daemon/service/service\_ping.go)\<close>

text \<open>
  The hosts to ping, their priorities, and the passes over them. \<open>ping_env\<close> is the world:
  random numbers, the order in which a map is walked, a sorting routine
  (\<open>sort.Slice\<close>), the answer of each ping launched (in the order of the launches), whether
  the loop is interrupted at a step, and when a location of the computer arrives. A host is
  pinged in a goroutine of its own whose result is recorded when it is launched here.
\<close>

unbundle bit_operations_syntax

record pingHost =
  ph_latitude :: "32 word"
  ph_longitude :: "32 word"
  ph_host :: net_ip
  ph_priority :: "16 word"

record geo_loc =
  geo_Latitude :: "32 word"
  geo_Longitude :: "32 word"

record ping_env =
  pe_rnd :: "nat \<Rightarrow> nat \<Rightarrow> nat \<Rightarrow> int"
  pe_walk :: "pingHost list \<Rightarrow> pingHost list"
  pe_sort :: "(pingHost \<Rightarrow> pingHost \<Rightarrow> bool) \<Rightarrow> pingHost list \<Rightarrow> pingHost list"
  pe_closer :: "geo_loc \<Rightarrow> pingHost \<Rightarrow> pingHost \<Rightarrow> bool"
  pe_ping :: "nat \<Rightarrow> string \<Rightarrow> gerror + duration"
  pe_interrupted :: "nat \<Rightarrow> bool"
  pe_geo :: "(nat \<times> geo_loc) option"

subsection \<open>The hosts\<close>

definition setPriority :: "int \<Rightarrow> int \<Rightarrow> int \<Rightarrow> int \<Rightarrow> pingHost \<Rightarrow> pingHost" where
  "setPriority rnd phase vpnTypePriority hostPriority ph =
     (let vpnTypePriority = (if vpnTypePriority = 0 then 1 + rnd else vpnTypePriority)
      in ph\<lparr>ph_priority := push_bit 14 (word_of_int (phase AND 3))
              OR push_bit 12 (word_of_int (vpnTypePriority AND 3))
              OR word_of_int (hostPriority AND 255)\<rparr>)"

definition getVpnPriority :: "vpn_type \<Rightarrow> vpn_type \<Rightarrow> int" where
  "getVpnPriority vpnType vpnTypePrioritized =
     (if vpnTypePrioritized \<noteq> OpenVPN \<and> vpnTypePrioritized \<noteq> WireGuard then 0
      else if vpnType = vpnTypePrioritized then 1 else 2)"

definition server_hosts :: "(nat \<Rightarrow> int) \<Rightarrow> int \<Rightarrow> int \<Rightarrow> ServerGeneric \<Rightarrow> pingHost list" where
  "server_hosts rnd phase vpnPriority svr =
     filter (\<lambda>h. \<not> is_unspecified (ph_host h))
       (map (\<lambda>(i, h). setPriority (rnd i) phase vpnPriority (int i)
            \<lparr>ph_latitude = Latitude (generic_info svr), ph_longitude = Longitude (generic_info svr),
             ph_host = parse_ip (hd (split_on (CHR ''/'') (Host h))), ph_priority = 0\<rparr>)
         (List.enumerate 0 (generic_hosts svr)))"

definition getHosts :: "(nat \<Rightarrow> nat \<Rightarrow> int) \<Rightarrow> ServerGeneric list \<Rightarrow> bool \<Rightarrow> int \<Rightarrow> pingHost list" where
  "getHosts rnd svrs isFirstPhase vpnTypePriority =
     concat (map (\<lambda>(j, svr). server_hosts (rnd j) (if isFirstPhase then 0 else 1) vpnTypePriority svr)
       (List.enumerate 0 svrs))"

text \<open>The map of hosts by address: the first host of an address stays.\<close>

fun unique_hosts :: "pingHost list \<Rightarrow> (string \<times> pingHost) list \<Rightarrow> (string \<times> pingHost) list" where
  "unique_hosts [] acc = acc"
| "unique_hosts (h # hs) acc =
     unique_hosts hs (if map_of acc (ip_string (ph_host h)) = None
                      then acc @ [(ip_string (ph_host h), h)] else acc)"

definition ping_less :: "ping_env \<Rightarrow> geo_loc option \<Rightarrow> pingHost \<Rightarrow> pingHost \<Rightarrow> bool" where
  "ping_less pe currentLocation iHost jHost =
     (if ph_priority iHost \<noteq> ph_priority jHost then ph_priority iHost < ph_priority jHost
      else case currentLocation of None \<Rightarrow> False | Some loc \<Rightarrow> pe_closer pe loc iHost jHost)"

definition ping_sortHosts :: "ping_env \<Rightarrow> pingHost list \<Rightarrow> geo_loc option \<Rightarrow> pingHost list" where
  "ping_sortHosts pe hosts currentLocation = pe_sort pe (ping_less pe currentLocation) hosts"

definition ping_all_hosts :: "ping_env \<Rightarrow> ServersInfoResponse \<Rightarrow> vpn_type \<Rightarrow> bool \<Rightarrow> pingHost list" where
  "ping_all_hosts pe servers vpnTypePrioritized skipSecondPhase =
     (let svrsWg = ServersGenericWireguard servers;
          svrsOvpn = ServersGenericOpenvpn servers;
          wg = getVpnPriority WireGuard vpnTypePrioritized;
          ovpn = getVpnPriority OpenVPN vpnTypePrioritized
      in getHosts (pe_rnd pe 0) svrsWg True wg @ getHosts (pe_rnd pe 1) svrsOvpn True ovpn
         @ (if skipSecondPhase then []
            else getHosts (pe_rnd pe 2) svrsWg False wg @ getHosts (pe_rnd pe 3) svrsOvpn False ovpn))"

definition ping_getHosts ::
  "svc_env \<Rightarrow> ping_env \<Rightarrow> vpn_type \<Rightarrow> bool \<Rightarrow> gerror + pingHost list" where
  "ping_getHosts env pe vpnTypePrioritized skipSecondPhase =
     (case ServersList env of
        Inl err \<Rightarrow> Inl (ErrWrap ''unable to get servers list'' err)
      | Inr servers \<Rightarrow>
          let uniqueHosts = unique_hosts (ping_all_hosts pe servers vpnTypePrioritized skipSecondPhase) []
          in Inr (ping_sortHosts pe (pe_walk pe (map snd uniqueHosts)) None))"

subsection \<open>A pass\<close>

text \<open>
  One walk over the hosts from step \<open>n\<close>: whether it was interrupted, the location that
  made it stop for a retry, the next step and the results.
\<close>

fun ping_pass ::
  "ping_env \<Rightarrow> nat \<Rightarrow> (nat \<times> geo_loc) option \<Rightarrow> pingHost list \<Rightarrow> (string \<times> int) list
     \<Rightarrow> bool \<times> geo_loc option \<times> nat \<times> (string \<times> int) list" where
  "ping_pass pe n geo [] r = (False, None, n, r)"
| "ping_pass pe n geo (h # hs) r =
     (if pe_interrupted pe n then (True, None, n + 1, r)
      else
        let ipStr = ip_string (ph_host h) in
        if is_unspecified (ph_host h) \<or> length ipStr \<le> 0 \<or> map_of r ipStr \<noteq> None then
          ping_pass pe (n + 1) geo hs r
        else case (case geo of Some (k, loc) \<Rightarrow> if k \<le> n then Some loc else None | None \<Rightarrow> None) of
          Some loc \<Rightarrow> (False, Some loc, n + 1, r)
        | None \<Rightarrow>
            let r = (case pe_ping pe n ipStr of
                       Inl _ \<Rightarrow> r
                     | Inr rtt \<Rightarrow> if rtt > 0 then AList.update ipStr (rtt div 1000000) r else r)
            in ping_pass pe (n + 1) geo hs r)"

text \<open>The channel holds one location, so there is at most one retry.\<close>

definition ping_iteration ::
  "ping_env \<Rightarrow> nat \<Rightarrow> (nat \<times> geo_loc) option \<Rightarrow> pingHost list \<Rightarrow> (string \<times> int) list
     \<Rightarrow> (bool \<times> pingHost list \<times> (nat \<times> geo_loc) option) \<times> (string \<times> int) list" where
  "ping_iteration pe n geo hosts r =
     (case ping_pass pe n geo hosts r of
        (interrupted, None, n, r) \<Rightarrow> ((interrupted, hosts, geo), r)
      | (_, Some loc, n, r) \<Rightarrow>
          let hosts = ping_sortHosts pe hosts (Some loc);
              (interrupted, _, _, r) = ping_pass pe n None hosts r
          in ((interrupted, hosts, None), r))"

subsection \<open>PingServers\<close>

definition ping_resultNotify :: "(string \<times> int) list \<Rightarrow> svc \<Rightarrow> svc" where
  "ping_resultNotify r s =
     (if length r > 0 then emit (Notify (OnPingStatus r)) (s\<lparr>sv_pingResults := r\<rparr>) else s)"

definition ping_finished :: "svc_env \<Rightarrow> pingHost list \<Rightarrow> svc \<Rightarrow> svc" where
  "ping_finished env hosts s =
     (snd (on_fw (fw_RemoveHostsFromExceptions (se_fw env) (map ph_host hosts) True False) s))
       \<lparr>sv_pingBusy := False\<rparr>"

definition PingServers ::
  "svc_env \<Rightarrow> ping_env \<Rightarrow> int \<Rightarrow> vpn_type \<Rightarrow> bool \<Rightarrow> svc \<Rightarrow> ((string \<times> int) list \<times> error) \<times> svc" where
  "PingServers env pe firstPhaseTimeoutMs vpnTypePrioritized skipSecondPhase s =
     (if sv_vpn s \<noteq> None then
        if length (sv_pingResults s) = 0 then
          (([], Some (Err ''servers pinging skipped due to connected state'')), s)
        else ((sv_pingResults s, None), s)
      else if firstPhaseTimeoutMs \<le> 0 then (([], None), s)
      else case IsConnectivityBlocked env s of
        (Some err, s) \<Rightarrow> (([], Some (ErrWrap ''servers pinging skipped'' err)), s)
      | (None, s) \<Rightarrow>
          if sv_pingBusy s then
            (([], Some (Err ''servers pinging skipped: ping already in progress, please try again after some delay'')), s)
          else case ping_getHosts env pe vpnTypePrioritized skipSecondPhase of
            Inl err \<Rightarrow> (([], Some err), s)
          | Inr hosts \<Rightarrow>
              let s = s\<lparr>sv_pingBusy := True\<rparr>;
                  s = snd (on_fw (fw_AddHostsToExceptions (se_fw env) (map ph_host hosts) True False) s);
                  ((interrupted, hosts', _), r) =
                    ping_iteration pe 0 (if firstPhaseTimeoutMs \<ge> 2000 then pe_geo pe else None) hosts [];
                  isNoDataSaved = (length (sv_pingResults s) = 0)
              in if \<not> skipSecondPhase \<and> length r < length hosts then
                   ((r, None), emit (Go R_ping_second) s)
                 else
                   let s = (if isNoDataSaved \<or> \<not> interrupted then ping_resultNotify r s else s)
                   in ((r, None), ping_finished env hosts s))"

text \<open>The goroutine of the second phase, from the hosts and results of the first.\<close>

definition ping_second_phase ::
  "svc_env \<Rightarrow> ping_env \<Rightarrow> nat \<Rightarrow> (nat \<times> geo_loc) option \<Rightarrow> pingHost list \<Rightarrow> (string \<times> int) list \<Rightarrow> bool
     \<Rightarrow> svc \<Rightarrow> svc" where
  "ping_second_phase env pe n geo hosts r isNoDataSaved s =
     (let ((interrupted, _, _), r) = ping_iteration pe n geo hosts r;
          s = (if isNoDataSaved \<or> \<not> interrupted then ping_resultNotify r s else s)
      in ping_finished env hosts s)"

end
