(* ===== verification/Service_Auto.thy ===== *)
theory Service_Auto
  imports Service_Start Service_Ping
begin

section \<open>Automatic connection and trusted WiFi (daemon/service/service\_autoconnect.go)\<close>

text \<open>
  The choice of a random or the fastest server, and what the daemon does when it starts,
  when a client connects and when the WiFi network changes. \<open>None\<close> as a result is a
  panic: \<open>rand.Int\<close> panics on a bound that is not positive, and nothing recovers in the
  goroutines that call \<open>autoConnectIfRequired\<close>. The state is given up to there.
\<close>

datatype autoConnectReason = OnDaemonStarted | OnUiClientConnected | OnSessionLogon | OnWifiChanged

record auto_env =
  ae_rnd :: "nat \<Rightarrow> nat \<Rightarrow> gerror + nat"
  ae_ping :: ping_env
  ae_walk :: "(string \<times> int) list \<Rightarrow> (string \<times> int) list"
  ae_Register :: "ConnectionParams \<Rightarrow> error"

subsection \<open>Choosing servers\<close>

fun country_loop ::
  "('a ServerInfoBase_scheme \<Rightarrow> HostInfoBase list) \<Rightarrow> string list \<Rightarrow> 'a ServerInfoBase_scheme list \<Rightarrow> string" where
  "country_loop hostsInfo [] allServers = []"
| "country_loop hostsInfo (pHost # rest) allServers =
     (case find (\<lambda>s. list_ex (\<lambda>h. pHost = Host h) (hostsInfo s)) allServers of
        Some s \<Rightarrow> CountryCode s
      | None \<Rightarrow> country_loop hostsInfo rest allServers)"

definition getServerCountryCode :: "svc_env \<Rightarrow> ConnectionParams \<Rightarrow> bool \<Rightarrow> string" where
  "getServerCountryCode env params isEntryServer =
     (case ServersList env of
        Inl _ \<Rightarrow> []
      | Inr allServers \<Rightarrow>
          if VpnType params = OpenVPN then
            let p = OpenVpnParameters params in
            if isEntryServer then
              country_loop ovpn_GetHostsInfoBase (map Host (ovpn_Entry p)) (OpenvpnServers allServers)
            else if IsMultiHop params then
              country_loop ovpn_GetHostsInfoBase (map Host (ovpn_Exit p)) (OpenvpnServers allServers)
            else []
          else
            let p = WireGuardParameters params in
            if isEntryServer then
              country_loop wg_GetHostsInfoBase (map Host (wg_Entry p)) (WireguardServers allServers)
            else if IsMultiHop params then
              country_loop wg_GetHostsInfoBase (map Host (wg_Exit p)) (WireguardServers allServers)
            else [])"

definition normalizeGwId :: "string \<Rightarrow> string" where
  "normalizeGwId gwId = hd (split_on (CHR ''.'') gwId)"

text \<open>The address with the least time, in the order the map is walked.\<close>

fun min_ping :: "(string \<times> int) list \<Rightarrow> int \<Rightarrow> string \<Rightarrow> int \<times> string" where
  "min_ping [] minPingTime minPingTimeIp = (minPingTime, minPingTimeIp)"
| "min_ping ((ip, msTime) # rest) minPingTime minPingTimeIp =
     (if minPingTime = -1 \<or> minPingTime > msTime then min_ping rest msTime ip
      else min_ping rest minPingTime minPingTimeIp)"

definition getFastestServer ::
  "svc_env \<Rightarrow> auto_env \<Rightarrow> ('a ServerInfoBase_scheme \<Rightarrow> HostInfoBase list) \<Rightarrow> vpn_type
     \<Rightarrow> 'a ServerInfoBase_scheme list \<Rightarrow> string list \<Rightarrow> svc
     \<Rightarrow> (gerror + 'a ServerInfoBase_scheme) \<times> svc" where
  "getFastestServer env ae hostsInfo vpnType servers excludedGateways s =
     (case PingServers env (ae_ping ae) 4000 vpnType True s of
        ((_, Some err), s) \<Rightarrow> (Inl err, s)
      | ((hosts, None), s) \<Rightarrow>
          let (_, minPingTimeIp) = min_ping (ae_walk ae hosts) (-1) [];
              excluded = map normalizeGwId excludedGateways
          in (case find (\<lambda>v. \<not> (length excluded > 0 \<and> normalizeGwId (Gateway v) \<in> set excluded)
                              \<and> list_ex (\<lambda>h. Host h = minPingTimeIp) (hostsInfo v)) servers of
                Some v \<Rightarrow> Inr v
              | None \<Rightarrow> Inl (Err ''unable to determine servers latency''), s))"

text \<open>The servers that are not in a country, all of them for the empty country code.\<close>

definition applicable :: "string \<Rightarrow> 'a ServerInfoBase_scheme list \<Rightarrow> 'a ServerInfoBase_scheme list" where
  "applicable country servers =
     (if country = [] then servers else filter (\<lambda>s. CountryCode s \<noteq> country) servers)"

text \<open>A random server: \<open>None\<close> is the panic of \<open>rand.Int\<close>.\<close>

definition random_server :: "auto_env \<Rightarrow> nat \<Rightarrow> 's list \<Rightarrow> (gerror + 's) option" where
  "random_server ae i servers =
     (if length servers = 0 then None
      else case ae_rnd ae i (length servers) of Inl err \<Rightarrow> Some (Inl err) | Inr r \<Rightarrow> Some (Inr (servers ! r)))"

text \<open>Random or fastest, by the selection: \<open>Some (Inr None)\<close> leaves the hosts as they are.\<close>

definition select_server ::
  "svc_env \<Rightarrow> auto_env \<Rightarrow> nat \<Rightarrow> int \<Rightarrow> ('a ServerInfoBase_scheme \<Rightarrow> HostInfoBase list) \<Rightarrow> vpn_type
     \<Rightarrow> string \<Rightarrow> 'a ServerInfoBase_scheme list \<Rightarrow> string list \<Rightarrow> svc
     \<Rightarrow> (gerror + 'a ServerInfoBase_scheme option) option \<times> svc" where
  "select_server env ae i sel hostsInfo vpnType country servers excluded s =
     (if sel = SelRandom then
        (map_option (map_sum id Some) (random_server ae i (applicable country servers)), s)
      else if sel = SelFastest then
        let (r, s) = getFastestServer env ae hostsInfo vpnType (applicable country servers) excluded s
        in (Some (map_sum id Some r), s)
      else (Some (Inr None), s))"

definition update_entry ::
  "svc_env \<Rightarrow> auto_env \<Rightarrow> ServersInfoResponse \<Rightarrow> ConnectionParams \<Rightarrow> svc
     \<Rightarrow> (ConnectionParams \<times> error) option \<times> svc" where
  "update_entry env ae allServers params s =
     (let m = Metadata params in
      if ServerSelectionEntry m = SelDefault then (Some (params, None), s)
      else
        let exitCountry = (if IsMultiHop params \<and> ServerSelectionExit m \<noteq> SelDefault
                           then getServerCountryCode env params False else []) in
        if VpnType params = OpenVPN then
          (case select_server env ae 0 (ServerSelectionEntry m) ovpn_GetHostsInfoBase OpenVPN exitCountry
                  (OpenvpnServers allServers) (FastestGatewaysExcludeList m) s of
             (None, s) \<Rightarrow> (None, s)
           | (Some (Inl err), s) \<Rightarrow> (Some (params, Some err), s)
           | (Some (Inr None), s) \<Rightarrow> (Some (params, None), s)
           | (Some (Inr (Some v)), s) \<Rightarrow>
               (Some (params\<lparr>OpenVpnParameters := (OpenVpnParameters params)\<lparr>ovpn_Entry := ovpn_Hosts v\<rparr>\<rparr>, None), s))
        else
          (case select_server env ae 0 (ServerSelectionEntry m) wg_GetHostsInfoBase WireGuard exitCountry
                  (WireguardServers allServers) (FastestGatewaysExcludeList m) s of
             (None, s) \<Rightarrow> (None, s)
           | (Some (Inl err), s) \<Rightarrow> (Some (params, Some err), s)
           | (Some (Inr None), s) \<Rightarrow> (Some (params, None), s)
           | (Some (Inr (Some v)), s) \<Rightarrow>
               (Some (params\<lparr>WireGuardParameters := (WireGuardParameters params)\<lparr>wg_Entry := wg_Hosts v\<rparr>\<rparr>, None), s)))"

text \<open>
  The exit server. The code looks at the selection of the \<^emph>\<open>entry\<close> server to see whether
  it has to choose a random one.
\<close>

definition update_exit ::
  "svc_env \<Rightarrow> auto_env \<Rightarrow> ServersInfoResponse \<Rightarrow> ConnectionParams \<Rightarrow> (ConnectionParams \<times> error) option" where
  "update_exit env ae allServers params =
     (let m = Metadata params in
      if IsMultiHop params \<and> ServerSelectionExit m = SelRandom then
        let entryCountry = getServerCountryCode env params True in
        if ServerSelectionEntry m = SelRandom then
          if VpnType params = OpenVPN then
            (case random_server ae 1 (applicable entryCountry (OpenvpnServers allServers)) of
               None \<Rightarrow> None
             | Some (Inl err) \<Rightarrow> Some (params, Some err)
             | Some (Inr v) \<Rightarrow>
                 Some (params\<lparr>OpenVpnParameters := (OpenVpnParameters params)\<lparr>ovpn_Exit := ovpn_Hosts v\<rparr>\<rparr>, None))
          else
            (case random_server ae 1 (applicable entryCountry (WireguardServers allServers)) of
               None \<Rightarrow> None
             | Some (Inl err) \<Rightarrow> Some (params, Some err)
             | Some (Inr v) \<Rightarrow>
                 Some (params\<lparr>WireGuardParameters := (WireGuardParameters params)\<lparr>wg_Exit := wg_Hosts v\<rparr>\<rparr>, None))
        else Some (params, None)
      else Some (params, None))"

definition updateParamsAccordingToMetadata ::
  "svc_env \<Rightarrow> auto_env \<Rightarrow> ConnectionParams \<Rightarrow> svc \<Rightarrow> (ConnectionParams \<times> error) option \<times> svc" where
  "updateParamsAccordingToMetadata env ae params s =
     (if ServerSelectionEntry (Metadata params) = SelDefault
         \<and> ServerSelectionExit (Metadata params) = SelDefault then (Some (params, None), s)
      else case ServersList env of
        Inl err \<Rightarrow> (Some (params, Some err), s)
      | Inr allServers \<Rightarrow>
          (case update_entry env ae allServers params s of
             (None, s) \<Rightarrow> (None, s)
           | (Some (params, Some err), s) \<Rightarrow> (Some (params, Some err), s)
           | (Some (params, None), s) \<Rightarrow> (update_exit env ae allServers params, s)))"

subsection \<open>Automatic actions\<close>

text \<open>What is to be done for a network, from the action of the trusted-WiFi settings on.\<close>

definition auto_action ::
  "svc_env \<Rightarrow> autoConnectReason \<Rightarrow> bool \<Rightarrow> WifiInfo \<Rightarrow> Preferences \<Rightarrow> svc \<Rightarrow> automaticAction" where
  "auto_action env reason isWifiProcessedAlready wifiInfo prefs s =
     (let action = getActionForWifiNetwork env wifiInfo s;
          isVpnOffRequired = (isWifiProcessedAlready \<and> act_Vpn action = VPN_Off);
          action = (if isWifiProcessedAlready then noAction else action);
          action =
            (if IsAutoconnectOnLaunch prefs \<and> \<not> isVpnOffRequired \<and> \<not> Connected s \<and> act_Vpn action \<noteq> VPN_On
                \<and> ((reason = OnDaemonStarted \<or> reason = OnSessionLogon) \<and> IsAutoconnectOnLaunchDaemon prefs
                   \<or> reason = OnUiClientConnected)
             then action\<lparr>act_Vpn := VPN_On\<rparr> else action)
      in if \<not> isWifiProcessedAlready \<and> act_Vpn action = VPN_NoAction
            \<and> ConnectVPNOnInsecureNetwork (WiFiControl prefs) \<and> info_IsInsecure wifiInfo
            \<and> isCanApplyWiFiActions env s
         then action\<lparr>act_Vpn := VPN_On\<rparr> else action)"

text \<open>The actions on the firewall: the parameters and the last error.\<close>

definition auto_firewall ::
  "svc_env \<Rightarrow> actionTypeFirewall \<Rightarrow> WifiInfo \<Rightarrow> ConnectionParams \<Rightarrow> svc \<Rightarrow> (ConnectionParams \<times> error) \<times> svc" where
  "auto_firewall env act wifiInfo connParams s =
     (case act of
        FW_NoAction \<Rightarrow> ((connParams, None), s)
      | FW_Off \<Rightarrow>
          let (err, s) = SetKillSwitchState env False s
          in ((connParams\<lparr>FirewallOn := False, FirewallOnDuringConnection := False\<rparr>, err), s)
      | FW_On \<Rightarrow>
          let (err, s) = SetKillSwitchState env True s in ((connParams\<lparr>FirewallOn := True\<rparr>, err), s)
      | FW_On_and_blockLan \<Rightarrow>
          let (_, s) = SetKillSwitchState env True s;
              (err, s) = applyKillSwitchAllowLAN env (Some wifiInfo) s
          in ((connParams\<lparr>FirewallOn := True\<rparr>, err), s))"

definition auto_vpn ::
  "svc_env \<Rightarrow> auto_env \<Rightarrow> actionTypeVpn \<Rightarrow> ConnectionParams \<Rightarrow> error \<Rightarrow> svc \<Rightarrow> error option \<times> svc" where
  "auto_vpn env ae act connParams retErr s =
     (case act of
        VPN_NoAction \<Rightarrow> (Some retErr, s)
      | VPN_Off \<Rightarrow>
          if Connected s then let (err, s) = Disconnect env s in (Some err, s) else (Some retErr, s)
      | VPN_On \<Rightarrow>
          if Connected s then (Some retErr, s)
          else case updateParamsAccordingToMetadata env ae connParams s of
            (None, s) \<Rightarrow> (None, s)
          | (Some (connParams, _), s) \<Rightarrow>
              (case ValidateConnectionParameters env connParams True s of
                 (_, Some err) \<Rightarrow> (Some (Some err), s)
               | (connParams, None) \<Rightarrow>
                   (Some (ae_Register ae connParams), emit (Register_Connection connParams) s)))"

text \<open>The deferred restoring of the LAN rules.\<close>

definition auto_restore_lan ::
  "svc_env \<Rightarrow> WifiInfo \<Rightarrow> WiFiParams \<Rightarrow> Preferences \<Rightarrow> svc \<Rightarrow> svc" where
  "auto_restore_lan env wifiInfo lastParams prefs s =
     (let prevSettingsBlockLan = (TrustedNetworksControl lastParams \<and> UnTrustedBlockLan (Actions lastParams));
          currSettingsBlockLan = (TrustedNetworksControl (WiFiControl prefs)
                                  \<and> UnTrustedBlockLan (Actions (WiFiControl prefs)))
      in if IsFwAllowLAN prefs \<and> (prevSettingsBlockLan \<or> currSettingsBlockLan)
         then snd (applyKillSwitchAllowLAN env (Some wifiInfo) s) else s)"

definition autoConnectIfRequired ::
  "svc_env \<Rightarrow> auto_env \<Rightarrow> autoConnectReason \<Rightarrow> WifiInfo option \<Rightarrow> svc \<Rightarrow> error option \<times> svc" where
  "autoConnectIfRequired env ae reason wifiInfoPtr s =
     (let prefs = sv_preferences s in
      if \<not> IsLoggedIn (Session prefs) then (Some None, s)
      else if \<not> IsCanDoBackgroundAction env then (Some None, s)
      else
        let wifiInfo = (case wifiInfoPtr of None \<Rightarrow> GetCurrentWifiInfo env | Some i \<Rightarrow> i);
            currWiFi = (wifiInfo, WiFiControl prefs);
            lastWifi = autoconnectLastProcessedWifi s;
            isWifiProcessedAlready = (lastWifi = currWiFi)
        in if isWifiProcessedAlready \<and> reason = OnWifiChanged then (Some None, s)
           else
             let s = s\<lparr>autoconnectLastProcessedWifi := currWiFi\<rparr>;
                 action = auto_action env reason isWifiProcessedAlready wifiInfo prefs s
             in if \<not> IsHasAction action then
                  (Some None, auto_restore_lan env wifiInfo (snd lastWifi) prefs s)
                else
                  let ((connParams, retErr), s) =
                        auto_firewall env (act_Firewall action) wifiInfo (LastConnectionParams prefs) s;
                      (r, s) = auto_vpn env ae (act_Vpn action) connParams retErr s
                  in (r, if act_Firewall action = FW_On_and_blockLan then s
                         else auto_restore_lan env wifiInfo (snd lastWifi) prefs s))"

subsection \<open>Its callers\<close>

text \<open>An event of a client that is not the user interface does nothing.\<close>

definition OnAuthenticatedClient ::
  "svc_env \<Rightarrow> auto_env \<Rightarrow> bool \<Rightarrow> svc \<Rightarrow> error option \<times> svc" where
  "OnAuthenticatedClient env ae isClientUi s =
     (if \<not> isClientUi then (Some None, s) else autoConnectIfRequired env ae OnUiClientConnected None s)"

text \<open>The delayed function of \<open>onWiFiChanged\<close>, given what \<open>GetCurrentWifiInfo\<close> returns.\<close>

definition onWiFiChanged ::
  "svc_env \<Rightarrow> auto_env \<Rightarrow> gerror + WifiInfo \<Rightarrow> svc \<Rightarrow> error option \<times> svc" where
  "onWiFiChanged env ae current s =
     (case current of
        Inl _ \<Rightarrow> (Some None, s)
      | Inr info \<Rightarrow>
          autoConnectIfRequired env ae OnWifiChanged (Some info) (emit (Notify (OnWiFiChanged info)) s))"

fun unique_networks :: "WiFiNetwork list \<Rightarrow> string list \<Rightarrow> WiFiNetwork list" where
  "unique_networks [] keys = []"
| "unique_networks (n # ns) keys =
     (if SSID n \<notin> set keys \<and> length (SSID n) > 0 then n # unique_networks ns (SSID n # keys)
      else unique_networks ns keys)"

definition SetWiFiSettings ::
  "svc_env \<Rightarrow> auto_env \<Rightarrow> WiFiParams \<Rightarrow> svc \<Rightarrow> error option \<times> svc" where
  "SetWiFiSettings env ae params s =
     (if CanApplyInBackground params \<and> CheckIsDefined (LastConnectionParams (sv_preferences s)) \<noteq> None then
        (Some (Some ErrorBackgroundConnectionNoParams), s)
      else
        let params = params\<lparr>Networks := unique_networks (Networks params) []\<rparr>;
            s = setPreferences env ((sv_preferences s)\<lparr>WiFiControl := params\<rparr>) s
        in case autoConnectIfRequired env ae OnWifiChanged None s of
             (None, s) \<Rightarrow> (None, s)
           | (Some _, s) \<Rightarrow> (Some None, s))"

end
