(* ===== verification/Service_Init.thy ===== *)
theory Service_Init
  imports Service_Auto
begin

section \<open>The start of the service and its smaller operations (daemon/service: service.go, service\_linux.go)\<close>

text \<open>
  \<open>init\<close> without the goroutines it starts, which are operations of their own, the update of
  the server list, requests to the API, and the applications of the split tunnel.
\<close>

subsection \<open>Start\<close>

text \<open>\<open>loaded\<close> is what \<open>LoadPreferences\<close> gives: its error and the preferences it leaves.\<close>

definition service_init :: "svc_env \<Rightarrow> error \<times> Preferences \<Rightarrow> svc" where
  "service_init env loaded =
     (let s = svc_init (snd loaded);
          s = (if fst loaded \<noteq> None then save_prefs env s else s);
          s = snd (on_fw (fw_AllowLAN (se_fw env) (IsFwAllowLAN (sv_preferences s))
                (IsFwAllowLANMulticast (sv_preferences s))) s);
          s = snd (on_fw (SetUserExceptions (se_fw env) (FwUserExceptions (sv_preferences s)) True) s);
          s = (if IsFwPersistant (sv_preferences s)
               then snd (on_fw (fw_SetPersistant (se_fw env) True) s) else s);
          s = emit (Go R_StartKeysRotation) s
      in updateAPIAddrInFWExceptions env s)"

text \<open>
  The wait for the outbound addresses: each poll gives whether the wait is cancelled, what
  the two lookups return and whether the time is over; \<open>None\<close>: the polls end before it.
\<close>

record outbound_poll =
  poll_cancelled :: bool
  poll_v4 :: "net_ip \<times> error"
  poll_v6 :: "net_ip \<times> error"
  poll_timeout :: bool

fun WaitAndGetOutboundIPs ::
  "outbound_poll list \<Rightarrow> net_ip \<times> net_ip \<Rightarrow> ((net_ip \<times> net_ip) \<times> error) option" where
  "WaitAndGetOutboundIPs [] ips = None"
| "WaitAndGetOutboundIPs (p # ps) ips =
     (if poll_cancelled p then Some (ips, Some (Err ''cancelled''))
      else
        let ips = (fst (poll_v4 p), fst (poll_v6 p)) in
        if \<not> is_unspecified (fst ips) \<and> snd (poll_v4 p) = None
           \<or> \<not> is_unspecified (snd ips) \<and> snd (poll_v6 p) = None then Some (ips, None)
        else if poll_timeout p then Some (ips, Some (Err ''timeout''))
        else WaitAndGetOutboundIPs ps ips)"

definition ip_stack_initialized :: "(net_ip \<times> net_ip) \<times> error \<Rightarrow> svc \<Rightarrow> svc" where
  "ip_stack_initialized r s =
     (if snd r \<noteq> None then s
      else s\<lparr>sv_vpnSessionInfo := (sv_vpnSessionInfo s)
             \<lparr>OutboundIPv4 := fst (fst r), OutboundIPv6 := snd (fst r)\<rparr>\<rparr>)"

definition servers_updated :: "svc_env \<Rightarrow> svc \<Rightarrow> svc" where
  "servers_updated env s =
     (case ServersList env of
        Inl _ \<Rightarrow> s
      | Inr svrs \<Rightarrow> updateAPIAddrInFWExceptions env (emit (Notify (OnServersUpdated svrs)) s))"

subsection \<open>Sessions and keys\<close>

definition SessionDelete :: "svc_env \<Rightarrow> bool \<Rightarrow> svc \<Rightarrow> error \<times> svc" where
  "SessionDelete env isCanDeleteSessionLocally s = logOut env True isCanDeleteSessionLocally s"

text \<open>One round of the session checker, an hour after the last: whether it goes on.\<close>

definition session_checker_round ::
  "svc_env \<Rightarrow> (string \<Rightarrow> status_answer) \<Rightarrow> bool \<Rightarrow> svc \<Rightarrow> bool \<times> svc" where
  "session_checker_round env api stopped s =
     (if stopped then (False, s)
      else
        let s = snd (RequestSessionStatus env api s)
        in (IsLoggedIn (Session (sv_preferences s)), s))"

definition WireGuardGetKeys :: "svc \<Rightarrow> string \<times> string \<times> string \<times> string \<times> gotime \<times> duration" where
  "WireGuardGetKeys s =
     (let p = Session (sv_preferences s)
      in (SessionToken p, WGPublicKey p, WGPrivateKey p, WGLocalIP p, WGKeyGenerated p, WGKeysRegenInerval p))"

text \<open>Whether a request that needs IPv6 is refused (\<open>ipv6InTunnel\<close>: what the VPN says).\<close>

definition APIRequest_check :: "bool \<Rightarrow> bool \<Rightarrow> svc \<Rightarrow> error" where
  "APIRequest_check requiresIPv6 ipv6InTunnel s =
     (if requiresIPv6 then
        case sv_vpn s of
          None \<Rightarrow> None
        | Some v \<Rightarrow>
            if \<not> vpn_IsPaused v \<and> \<not> ipv6InTunnel then
              Some (Err ''no IPv6 support inside tunnel for current connection'')
            else None
      else None)"

subsection \<open>Applications in the split tunnel\<close>

text \<open>\<open>able\<close> is what \<open>isAbleToAddAppToConfig\<close> finds out about the command.\<close>

definition implSplitTunnelling_AddApp ::
  "svc_env \<Rightarrow> (string \<Rightarrow> bool \<times> error) \<Rightarrow> string \<Rightarrow> svc \<Rightarrow> (string \<times> bool \<times> error) \<times> svc" where
  "implSplitTunnelling_AddApp env able execCmd s =
     (if \<not> IsSplitTunnel (sv_preferences s) then
        (([], False, Some (Err ''unable to run application in Split Tunnel environment: Split Tunnel is disabled'')), s)
      else
        let execCmd = trim_space execCmd in
        if length execCmd \<le> 0 then (([], False, None), s)
        else
          let (isRunning, err) = able execCmd in
          if err \<noteq> None then (([], isRunning, err), s)
          else
            let (err, s) = splitTunnelling_ApplyConfig env s
            in if err \<noteq> None then (([], False, err), s)
               else ((''ivpn exclude '' @ execCmd, isRunning, None), s))"

definition SplitTunnelling_AddApp ::
  "svc_env \<Rightarrow> (string \<Rightarrow> bool \<times> error) \<Rightarrow> string \<Rightarrow> svc \<Rightarrow> (string \<times> bool \<times> error) \<times> svc" where
  "SplitTunnelling_AddApp env able exec s =
     (if \<not> IsSplitTunnel (sv_preferences s) then
        (([], False, Some (Err ''unable to run application in Split Tunnel environment: Split Tunnel is disabled'')), s)
      else
        let (r, s) = implSplitTunnelling_AddApp env able exec s
        in (r, snd (splitTunnelling_ApplyConfig env s)))"

definition SplitTunnelling_RemoveApp :: "svc_env \<Rightarrow> int \<Rightarrow> svc \<Rightarrow> error \<times> svc" where
  "SplitTunnelling_RemoveApp env pid s =
     (let (err, s) = call env (St_RemovePid pid) s
      in (err, snd (splitTunnelling_ApplyConfig env s)))"

definition SplitTunnelling_AddedPidInfo :: "svc_env \<Rightarrow> int \<Rightarrow> string \<Rightarrow> svc \<Rightarrow> error \<times> svc" where
  "SplitTunnelling_AddedPidInfo env pid exec s =
     (let (err, s) = call env (St_AddPid pid exec) s
      in (err, emit (Notify OnSplitTunnelStatusChanged) s))"

end
