(* ===== verification/Service_Frames.thy ===== *)
theory Service_Frames
  imports Service_Keep Firewall_Dns
begin

section \<open>What the operations of the service leave alone\<close>

text \<open>
  Two relations between the state before and after, each with one rule per operation that
  \<open>simp\<close> follows through the code: \<open>core\<close> (the preferences and the required VPN state
  stay) and \<open>calm\<close> (a firewall operation keeps the firewall's invariant and whether it is
  on).
\<close>

subsection \<open>Preferences and required state\<close>

definition core :: "svc \<Rightarrow> svc \<Rightarrow> bool" where
  "core s t \<longleftrightarrow> sv_preferences t = sv_preferences s \<and> sv_requiredVpnState t = sv_requiredVpnState s"

lemma core_refl [simp]: "core s s"
  by (simp add: core_def)

lemma core_basic [simp]:
  "core s (emit c t) = core s t" "core s (snd (call env c t)) = core s t"
  "core s (snd (on_fw f t)) = core s t" "core s (t\<lparr>sv_vpn := v\<rparr>) = core s t"
  "core s (t\<lparr>sv_pauseTill := d\<rparr>) = core s t" "core s (t\<lparr>sv_pauseKillSwitch := b\<rparr>) = core s t"
  "core s (t\<lparr>sv_vpnSessionInfo := i\<rparr>) = core s t" "core s (set_paused b t) = core s t"
  "core s (set_fwInitState b t) = core s t" "core s (t\<lparr>TempPrioritizedDns := x\<rparr>) = core s t"
  "core s (t\<lparr>sv_isNeedToUpdateSessionInfo := b\<rparr>) = core s t"
  by (simp_all add: core_def emit_def call_def on_fw_def case_prod_unfold Let_def set_paused_def
      set_fwInitState_def)

lemma core_kill_switch [simp]:
  "core s (onKillSwitchStateChanged t) = core s t"
  "core s (snd (SetKillSwitchState env b t)) = core s t"
  "core s (snd (KillSwitchState env t)) = core s t"
  "core s (snd (FirewallEnabled env t)) = core s t"
  by (simp_all add: onKillSwitchStateChanged_def SetKillSwitchState_def KillSwitchState_def
      FirewallEnabled_def case_prod_unfold Let_def)

lemma core_st [simp]:
  "core s (snd (st_apply env p t)) = core s t"
  "core s (snd (splitTunnelling_ApplyConfig env t)) = core s t"
  "core s (snd (applyDnsOverride env t)) = core s t"
proof -
  show a: "core s (snd (st_apply env p t)) = core s t" for p t
    by (simp add: st_apply_def case_prod_unfold Let_def split: option.split)
  show "core s (snd (splitTunnelling_ApplyConfig env t)) = core s t"
    by (simp add: splitTunnelling_ApplyConfig_def case_prod_unfold Let_def a)
  show "core s (snd (applyDnsOverride env t)) = core s t"
    by (simp add: applyDnsOverride_def case_prod_unfold Let_def split: option.split)
qed

lemma core_connect [simp]:
  "core s (connect_finalize env v t) = core s t"
  "core s (snd (disconnect env t)) = core s t"
  "core s (snd (connect_failed env n e t)) = core s t"
  "core s (snd (connect_firewall env a b t)) = core s t"
  "core s (snd (connect_prepare env o' l a b t)) = core s t"
  "core s (snd (connect_begin env o' v a b t)) = core s t"
  "core s (snd (connect_end env err t)) = core s t"
proof -
  show a: "core s (connect_finalize env v t) = core s t" for v t
    by (simp add: connect_finalize_def Let_def)
  show b: "core s (snd (disconnect env t)) = core s t" for t
    by (simp add: disconnect_def case_prod_unfold Let_def a split: option.split)
  show c: "core s (snd (connect_failed env n e t)) = core s t" for n e t
    by (simp add: connect_failed_def Let_def a split: option.split)
  show d: "core s (snd (connect_firewall env a b t)) = core s t" for a b t
    by (simp add: connect_firewall_def case_prod_unfold Let_def)
  show e: "core s (snd (connect_prepare env o' l a b t)) = core s t" for l a b t
    by (simp add: connect_prepare_def case_prod_unfold Let_def d split: option.split sum.split)
  show "core s (snd (connect_begin env o' v a b t)) = core s t"
    by (simp add: connect_begin_def case_prod_unfold Let_def b c e split: option.split sum.split)
  show "core s (snd (connect_end env err t)) = core s t"
    by (simp add: connect_end_def Let_def a split: option.split)
qed

lemma core_resume [simp]: "core s (snd (resume env t)) = core s t"
  by (simp add: resume_def case_prod_unfold Let_def split: option.split)

lemma core_pause [simp]:
  "core s (snd (Pause env d t)) = core s t" "core s (snd (Resume env t)) = core s t"
  by (simp_all add: Pause_def pause_body_def Resume_def case_prod_unfold Let_def split: option.split)

subsection \<open>The firewall\<close>

lemma persistant_exec [simp]: "isPersistant (snd (shell_Exec env c w)) = isPersistant w"
  by (simp add: shell_Exec_def)

lemma persistant_tables [simp]:
  "isPersistant (snd (applyAddHostsToExceptions env hs p i w)) = isPersistant w"
  "isPersistant (snd (applyRemoveHostsFromExceptions env hs p i w)) = isPersistant w"
  "isPersistant (snd (addHostsToExceptions env hs p i w)) = isPersistant w"
  "isPersistant (snd (removeHostsFromExceptions env hs p i w)) = isPersistant w"
  by (simp_all add: applyAddHostsToExceptions_def applyRemoveHostsFromExceptions_def
      addHostsToExceptions_def removeHostsFromExceptions_def case_prod_unfold Let_def)

lemma persistant_impl [simp]:
  "isPersistant (snd (implGetEnabled env w)) = isPersistant w"
  "isPersistant (snd (implOnUserExceptionsUpdated env w)) = isPersistant w"
  "isPersistant (snd (doAllowLAN env b m w)) = isPersistant w"
  "isPersistant (snd (implOnChangeDNS env addr i w)) = isPersistant w"
  "isPersistant (snd (implClientConnected env ip v6 p d q x w)) = isPersistant w"
  "isPersistant (snd (implClientDisconnected env w)) = isPersistant w"
  by (simp_all add: implGetEnabled_def implOnUserExceptionsUpdated_def apply_user_exceptions_def
      doAllowLAN_def implOnChangeDNS_def implClientConnected_def implClientDisconnected_def
      removeAllHostsFromExceptions_def case_prod_unfold Let_def split: option.split sum.split)

lemma persistant_reapply [simp]: "isPersistant (snd (reApplyExceptions env w)) = isPersistant w"
  by (simp add: reApplyExceptions_def implAllowLAN_def case_prod_unfold Let_def)

text \<open>Operations that neither switch the firewall nor change whether it is persistent.\<close>

fun calm_op :: "fw_op \<Rightarrow> bool" where
  "calm_op (Op_SetEnabled b) = False"
| "calm_op (Op_SetPersistant b) = False"
| "calm_op Op_EnsureRound = False"
| "calm_op _ = True"

lemma calm_persistant: "calm_op op \<Longrightarrow> isPersistant (fw_step env op w) = isPersistant w"
  by (cases op)
     (simp_all add: fw_GetEnabled_def fw_SingleDnsRuleOn_def implSingleDnsRuleOn_def
       fw_SingleDnsRuleOff_def implSingleDnsRuleOff_def ClientPaused_def ClientResumed_def
       Firewall.ClientConnected_def Firewall.ClientDisconnected_def fw_AddHostsToExceptions_def
       implAddHostsToExceptions_def fw_RemoveHostsFromExceptions_def implRemoveHostsFromExceptions_def
       fw_AllowLAN_def implAllowLAN_def OnChangeDNS_def SetUserExceptions_def case_prod_unfold Let_def
       split: option.split)

lemma enabled_change_dns [simp]:
  "curStateEnabled (snd (implOnChangeDNS env addr i w)) = curStateEnabled w"
  by (simp add: implOnChangeDNS_def shell_Exec_def split: option.split)

lemma calm_enabled: "calm_op op \<Longrightarrow> curStateEnabled (fw_step env op w) = curStateEnabled w"
proof (cases "dns_op op")
  case False
  then show ?thesis using step_quiet [OF False, of w env] by (simp add: quiet_def)
next
  case True
  assume "calm_op op"
  with True obtain d where "op = Op_OnChangeDNS d" by (cases op) auto
  then show ?thesis by (simp add: OnChangeDNS_def case_prod_unfold Let_def)
qed

definition fw_ok :: "fw \<Rightarrow> bool" where
  "fw_ok w \<longleftrightarrow> fw_sync w \<and> (isPersistant w \<longrightarrow> curStateEnabled w)"

definition calm :: "(fw \<Rightarrow> 'a \<times> fw) \<Rightarrow> bool" where
  "calm f \<longleftrightarrow> (\<forall>w. fw_ok w \<longrightarrow> fw_ok (snd (f w)) \<and> curStateEnabled (snd (f w)) = curStateEnabled w)"

lemma calm_step:
  assumes "script_ok env" "calm_op op"
  shows "calm (\<lambda>w. ((), fw_step env op w))"
  using step_sync [OF assms(1)] calm_persistant [OF assms(2)] calm_enabled [OF assms(2)]
  by (simp add: calm_def fw_ok_def)

lemma calm_ops [simp]:
  assumes "script_ok env"
  shows "calm (fw_GetEnabled env)" "calm (fw_GetState env)" "calm (fw_SingleDnsRuleOff env)"
    "calm (fw_SingleDnsRuleOn env a)" "calm (\<lambda>w. ((), ClientPaused w))" "calm (\<lambda>w. ((), ClientResumed w))"
    "calm (Firewall.ClientConnected env ip v6 p d q t)" "calm (Firewall.ClientDisconnected env)"
    "calm (fw_AddHostsToExceptions env ips i p')" "calm (fw_RemoveHostsFromExceptions env ips i p')"
    "calm (fw_AllowLAN env b m)" "calm (OnChangeDNS env dns)" "calm (SetUserExceptions env x b)"
proof -
  have st: "calm (\<lambda>w. ((), fw_step env op w))" if "calm_op op" for op
    by (rule calm_step [OF assms that])
  show "calm (fw_GetEnabled env)" using st [of Op_GetEnabled] by (auto simp: calm_def)
  show "calm (fw_GetState env)" using st [of Op_GetEnabled]
    by (auto simp: calm_def fw_GetState_def fw_GetEnabled_def case_prod_unfold Let_def)
  show "calm (fw_SingleDnsRuleOff env)" using st [of Op_SingleDnsRuleOff] by (auto simp: calm_def)
  show "calm (fw_SingleDnsRuleOn env a)" using st [of "Op_SingleDnsRuleOn a"] by (auto simp: calm_def)
  show "calm (\<lambda>w. ((), ClientPaused w))" using st [of Op_ClientPaused] by (auto simp: calm_def)
  show "calm (\<lambda>w. ((), ClientResumed w))" using st [of Op_ClientResumed] by (auto simp: calm_def)
  show "calm (Firewall.ClientConnected env ip v6 p d q t)"
    using st [of "Op_ClientConnected ip v6 p d q t"] by (auto simp: calm_def)
  show "calm (Firewall.ClientDisconnected env)" using st [of Op_ClientDisconnected] by (auto simp: calm_def)
  show "calm (fw_AddHostsToExceptions env ips i p')" using st [of "Op_AddHosts ips i p'"] by (auto simp: calm_def)
  show "calm (fw_RemoveHostsFromExceptions env ips i p')"
    using st [of "Op_RemoveHosts ips i p'"] by (auto simp: calm_def)
  show "calm (fw_AllowLAN env b m)" using st [of "Op_AllowLAN b m"] by (auto simp: calm_def)
  show "calm (OnChangeDNS env dns)" using st [of "Op_OnChangeDNS dns"] by (auto simp: calm_def)
  show "calm (SetUserExceptions env x b)" using st [of "Op_SetUserExceptions x b"] by (auto simp: calm_def)
qed

end
