(* ===== verification/Service_Machine.thy ===== *)
theory Service_Machine
  imports Service_Init Service_Frames
begin

section \<open>The firewall and the inverse split tunnel (daemon/service)\<close>

text \<open>
  Every operation of the service as a step, and the invariant that ties the firewall to
  the preferences: a persistent firewall is on, and while it is on the split tunnel is not
  in inverse mode. \<open>steady\<close> relates states between which neither the firewall is switched
  nor the settings it depends on change; its rules, one per operation, let \<open>simp\<close> follow
  the code.
\<close>

subsection \<open>The firewall's answers\<close>

text \<open>The status command of the script tells the truth, and its exit code can be read.\<close>

definition status_ok :: "fw_env \<Rightarrow> bool" where
  "status_ok fe \<longleftrightarrow> (\<forall>cs. (sh_exec fe cs Cmd_status = None \<longleftrightarrow> sc_on (sc_run cs))
     \<and> (\<forall>e. sh_exec fe cs Cmd_status = Some e \<longrightarrow> (\<exists>n. sh_exit_code fe e = Inr n \<and> n \<noteq> 0)))"

definition env_good :: "svc_env \<Rightarrow> bool" where
  "env_good env \<longleftrightarrow> script_ok (se_fw env) \<and> status_ok (se_fw env)"

lemma env_good_script [simp]: "env_good env \<Longrightarrow> script_ok (se_fw env)"
  by (simp add: env_good_def)

lemma honest_status:
  assumes "status_ok fe" "fw_ok w"
  shows "fst (fw_GetEnabled fe w) = (curStateEnabled w, None)"
proof -
  have on: "sc_on (sc_run (cmds w)) = curStateEnabled w"
    using assms(2) by (simp add: fw_ok_def fw_sync_def fw_weak_def)
  have st: "(sh_exec fe (cmds w) Cmd_status = None) = curStateEnabled w"
    "\<And>e. sh_exec fe (cmds w) Cmd_status = Some e \<Longrightarrow> \<exists>n. sh_exit_code fe e = Inr n \<and> n \<noteq> 0"
    using assms(1) on by (auto simp: status_ok_def)
  then show ?thesis
    by (cases "sh_exec fe (cmds w) Cmd_status")
       (auto simp: fw_GetEnabled_def implGetEnabled_def shell_Exec_def)
qed

lemma enabled_impl [simp]:
  "curStateEnabled (snd (shell_Exec fe c w)) = curStateEnabled w"
  "curStateEnabled (snd (applyAddHostsToExceptions fe hs p i w)) = curStateEnabled w"
  "curStateEnabled (snd (doAllowLAN fe a m w)) = curStateEnabled w"
  "curStateEnabled (snd (implOnUserExceptionsUpdated fe w)) = curStateEnabled w"
  "curStateEnabled (snd (implClientConnected fe ip v6 pt d q t w)) = curStateEnabled w"
  "curStateEnabled (snd (implGetEnabled fe w)) = curStateEnabled w"
  using quiet_apply(1) [OF quiet_refl, of w] quiet_lan [OF quiet_refl, of w] quiet_user [OF quiet_refl, of w]
    quiet_connected [OF quiet_refl, of w] quiet_status [OF quiet_refl, of w]
  by (auto simp: quiet_def shell_Exec_def)

lemma enabled_set:
  "curStateEnabled (snd (implSetEnabled fe b w)) = b"
  "isPersistant (snd (implSetEnabled fe b w)) = (isPersistant w \<and> b)"
  by (auto simp: implSetEnabled_def reApplyExceptions_def implAllowLAN_def case_prod_unfold Let_def
      split: option.split)

lemma fw_set_enabled:
  assumes "script_ok fe" "fw_ok w"
  shows "fw_ok (snd (fw_SetEnabled fe b w))" "curStateEnabled (snd (fw_SetEnabled fe b w)) = b"
proof -
  have e: "curStateEnabled (snd (fw_SetEnabled fe b w)) = b"
    "isPersistant (snd (fw_SetEnabled fe b w)) = (isPersistant w \<and> b)"
    using enabled_set [of fe b w] by (auto simp: fw_SetEnabled_def case_prod_unfold Let_def split: option.split)
  show "curStateEnabled (snd (fw_SetEnabled fe b w)) = b" by (rule e)
  show "fw_ok (snd (fw_SetEnabled fe b w))"
    using assms step_sync [OF assms(1), of w "Op_SetEnabled b"] e by (cases b) (simp_all add: fw_ok_def)
qed

lemma fw_set_persistant:
  assumes "script_ok fe" "fw_ok w"
  shows "fw_ok (snd (fw_SetPersistant fe b w))"
    "curStateEnabled (snd (fw_SetPersistant fe b w)) = (b \<or> curStateEnabled w)"
proof -
  have e: "curStateEnabled (snd (fw_SetPersistant fe b w)) = (b \<or> curStateEnabled w)"
    "isPersistant (snd (fw_SetPersistant fe b w)) = b"
    using enabled_set [of fe True "w\<lparr>isPersistant := True\<rparr>"]
    by (cases b; simp add: fw_SetPersistant_def implSetPersistant_def case_prod_unfold Let_def)+
  show "curStateEnabled (snd (fw_SetPersistant fe b w)) = (b \<or> curStateEnabled w)" by (rule e)
  show "fw_ok (snd (fw_SetPersistant fe b w))"
    using assms step_sync [OF assms(1), of w "Op_SetPersistant b"] e by (cases b) (simp_all add: fw_ok_def)
qed

lemma fw_ensure:
  assumes "script_ok fe" "fw_ok w"
  shows "fw_ok (snd (ensure_round fe w))" "curStateEnabled (snd (ensure_round fe w)) = curStateEnabled w"
proof -
  have p: "isPersistant (snd (implGetEnabled fe w)) = isPersistant w" by simp
  have e: "curStateEnabled (snd (ensure_round fe w)) = curStateEnabled w"
    "isPersistant (snd (ensure_round fe w)) = isPersistant w"
    using assms(2) enabled_set [of fe True "snd (implGetEnabled fe w)"]
    by (auto simp: ensure_round_def case_prod_unfold Let_def fw_ok_def)
  show "curStateEnabled (snd (ensure_round fe w)) = curStateEnabled w" by (rule e)
  show "fw_ok (snd (ensure_round fe w))"
    using assms step_sync [OF assms(1), of w Op_EnsureRound] e by (simp add: fw_ok_def)
qed

subsection \<open>States the firewall and its settings do not tell apart\<close>

definition flags :: "Preferences \<Rightarrow> bool \<times> bool" where
  "flags p = (IsFwPersistant p, IsInverseSplitTunneling p)"

definition steady :: "svc \<Rightarrow> svc \<Rightarrow> bool" where
  "steady s t \<longleftrightarrow> flags (sv_preferences t) = flags (sv_preferences s)
     \<and> (fw_ok (sv_fw s) \<longrightarrow> fw_ok (sv_fw t) \<and> curStateEnabled (sv_fw t) = curStateEnabled (sv_fw s))"

definition safe :: "svc \<Rightarrow> bool" where
  "safe s \<longleftrightarrow> fw_ok (sv_fw s) \<and> (IsFwPersistant (sv_preferences s) \<longrightarrow> curStateEnabled (sv_fw s))
     \<and> (curStateEnabled (sv_fw s) \<longrightarrow> \<not> IsInverseSplitTunneling (sv_preferences s))"

lemma steady_refl [simp]: "steady s s"
  by (simp add: steady_def)

lemma steady_trans: "steady s t \<Longrightarrow> steady t u \<Longrightarrow> steady s u"
  by (simp add: steady_def)

lemma steady_safe: "steady s t \<Longrightarrow> safe s \<Longrightarrow> safe t"
  by (simp add: steady_def safe_def flags_def)

lemma steady_basic [simp]:
  "steady s (emit c t) = steady s t" "steady s (snd (call env c t)) = steady s t"
  "steady s (t\<lparr>sv_vpn := v\<rparr>) = steady s t" "steady s (t\<lparr>sv_requiredVpnState := r\<rparr>) = steady s t"
  "steady s (t\<lparr>sv_vpnSessionInfo := i\<rparr>) = steady s t" "steady s (t\<lparr>sv_pauseTill := d\<rparr>) = steady s t"
  "steady s (t\<lparr>sv_pauseKillSwitch := b\<rparr>) = steady s t" "steady s (t\<lparr>sv_tmpParams := p\<rparr>) = steady s t"
  "steady s (t\<lparr>TempPrioritizedDns := x\<rparr>) = steady s t"
  "steady s (t\<lparr>sv_isNeedToUpdateSessionInfo := b\<rparr>) = steady s t"
  "steady s (t\<lparr>sv_splitTunnelNoFuncReason := x'\<rparr>) = steady s t"
  "steady s (t\<lparr>sv_sessionChecker := b\<rparr>) = steady s t" "steady s (t\<lparr>keys_running := b\<rparr>) = steady s t"
  "steady s (t\<lparr>activeRotationInterval := d\<rparr>) = steady s t"
  "steady s (t\<lparr>keys_running := b, activeRotationInterval := d\<rparr>) = steady s t"
  "steady s (t\<lparr>autoconnectLastProcessedWifi := y\<rparr>) = steady s t"
  "steady s (t\<lparr>sv_pingResults := z\<rparr>) = steady s t" "steady s (t\<lparr>sv_pingBusy := b\<rparr>) = steady s t"
  "steady s (set_paused b t) = steady s t" "steady s (set_fwInitState b t) = steady s t"
  by (simp_all add: steady_def emit_def call_def set_paused_def set_fwInitState_def)

lemma steady_on_fw [simp]: "calm f \<Longrightarrow> steady s t \<Longrightarrow> steady s (snd (on_fw f t))"
  by (auto simp: steady_def calm_def on_fw_def case_prod_unfold Let_def)

lemma flags_upd [simp]:
  "flags (p\<lparr>pref_Version := v\<rparr>) = flags p" "flags (p\<lparr>LastConnectionParams := c\<rparr>) = flags p"
  "flags (p\<lparr>IsFwAllowLAN := a, IsFwAllowLANMulticast := b\<rparr>) = flags p"
  "flags (p\<lparr>IsFwAllowLAN := a\<rparr>) = flags p" "flags (p\<lparr>IsFwAllowLANMulticast := a\<rparr>) = flags p"
  "flags (p\<lparr>IsFwAllowApiServers := b\<rparr>) = flags p" "flags (p\<lparr>FwUserExceptions := x\<rparr>) = flags p"
  "flags (p\<lparr>IsLogging := b\<rparr>) = flags p" "flags (p\<lparr>IsAutoconnectOnLaunch := b\<rparr>) = flags p"
  "flags (p\<lparr>IsAutoconnectOnLaunchDaemon := b\<rparr>) = flags p" "flags (p\<lparr>IsDnsMgmtOldStyle := b\<rparr>) = flags p"
  "flags (p\<lparr>WiFiControl := w\<rparr>) = flags p" "flags (p\<lparr>Session := ss\<rparr>) = flags p"
  by (simp_all add: flags_def IsInverseSplitTunneling_def)

lemma flags_session [simp]:
  "flags (SetSession now acc a1 a2 a3 a4 a5 a6 a7 a8 a9 p) = flags p"
  "flags (UpdateSessionData acc d p) = flags p" "flags (UpdateWgCredentials now b1 b2 b3 b4 p) = flags p"
  by (simp_all add: flags_def IsInverseSplitTunneling_def SetSession_def UpdateSessionData_def
      UpdateWgCredentials_def setSession_def Let_def)

lemma steady_prefs [simp]:
  "steady s t \<Longrightarrow> flags p = flags (sv_preferences t) \<Longrightarrow> steady s (setPreferences env p t)"
  "steady s t \<Longrightarrow> flags p = flags (sv_preferences t) \<Longrightarrow> steady s (save_prefs env (t\<lparr>sv_preferences := p\<rparr>))"
  "steady s t \<Longrightarrow> flags p = flags (sv_preferences t) \<Longrightarrow> steady s (t\<lparr>sv_preferences := p\<rparr>)"
  by (simp_all add: steady_def setPreferences_def save_prefs_def emit_def Let_def)

subsection \<open>Operations that leave the firewall and its settings as they are\<close>

lemma steady_ks [simp]:
  "steady s t \<Longrightarrow> steady s (onKillSwitchStateChanged t)"
  "env_good env \<Longrightarrow> steady s t \<Longrightarrow> steady s (snd (KillSwitchState env t))"
  "env_good env \<Longrightarrow> steady s t \<Longrightarrow> steady s (snd (FirewallEnabled env t))"
  "env_good env \<Longrightarrow> steady s t \<Longrightarrow> steady s (snd (applyKillSwitchAllowLAN env w t))"
  "env_good env \<Longrightarrow> steady s t \<Longrightarrow> steady s (updateAPIAddrInFWExceptions env t)"
  by (simp_all add: onKillSwitchStateChanged_def KillSwitchState_def FirewallEnabled_def
      applyKillSwitchAllowLAN_def updateAPIAddrInFWExceptions_def case_prod_unfold Let_def split: sum.split)

lemma steady_ks_set [simp]:
  "env_good env \<Longrightarrow> steady s t \<Longrightarrow> steady s (snd (setKillSwitchAllowLAN env a m t))"
  "env_good env \<Longrightarrow> steady s t \<Longrightarrow> steady s (snd (SetKillSwitchAllowLAN env a t))"
  "env_good env \<Longrightarrow> steady s t \<Longrightarrow> steady s (snd (SetKillSwitchAllowLANMulticast env a t))"
  "env_good env \<Longrightarrow> steady s t \<Longrightarrow> steady s (snd (SetKillSwitchAllowAPIServers env a t))"
  "env_good env \<Longrightarrow> steady s t \<Longrightarrow> steady s (snd (SetKillSwitchUserExceptions env x i t))"
  by (simp_all add: setKillSwitchAllowLAN_def SetKillSwitchAllowLAN_def SetKillSwitchAllowLANMulticast_def
      SetKillSwitchAllowAPIServers_def SetKillSwitchUserExceptions_def case_prod_unfold Let_def)

lemma steady_st [simp]:
  "env_good env \<Longrightarrow> steady s t \<Longrightarrow> steady s (snd (st_apply env p t))"
  "env_good env \<Longrightarrow> steady s t \<Longrightarrow> steady s (snd (splitTunnelling_ApplyConfig env t))"
  "steady s t \<Longrightarrow> steady s (snd (applyDnsOverride env t))"
proof -
  show a: "steady s (snd (st_apply env p t))" if "env_good env" "steady s t" for p t
    using that by (simp add: st_apply_def case_prod_unfold Let_def split: option.split)
  show "steady s (snd (splitTunnelling_ApplyConfig env t))" if "env_good env" "steady s t"
    using that by (simp add: splitTunnelling_ApplyConfig_def case_prod_unfold Let_def a)
  show "steady s (snd (applyDnsOverride env t))" if "steady s t"
    using that by (simp add: applyDnsOverride_def case_prod_unfold Let_def split: option.split)
qed

lemma steady_reason [simp]:
  "env_good env \<Longrightarrow> steady s t \<Longrightarrow> steady s (SplitTunnelling_SetDisabledReason env r t)"
  by (simp add: SplitTunnelling_SetDisabledReason_def Let_def)

lemma steady_dns [simp]:
  "steady s t \<Longrightarrow> steady s (snd (saveDnsParams env d a tmp t))"
  "env_good env \<Longrightarrow> steady s t \<Longrightarrow> steady s (snd (SetDnsOverride env d a tmp t))"
proof -
  show a: "steady s (snd (saveDnsParams env d a tmp t))" if "steady s t" for d a tmp t
    using that by (simp add: saveDnsParams_def setConnectionParams_def case_prod_unfold Let_def
        split: option.split)
  show "steady s (snd (SetDnsOverride env d a tmp t))" if "env_good env" "steady s t"
    using that a by (simp add: SetDnsOverride_def case_prod_unfold Let_def split: option.split)
qed

lemma steady_params [simp]:
  "steady s t \<Longrightarrow> steady s (setConnectionParams env p t)"
  "steady s t \<Longrightarrow> steady s (SetConnectionParams env p t)"
  "steady s t \<Longrightarrow> steady s (snd (SetPreference env k v t))"
  "steady s t \<Longrightarrow> steady s (snd (SetUserPreferences env o' m t))"
  by (simp_all add: setConnectionParams_def SetConnectionParams_def SetPreference_def SetUserPreferences_def
      case_prod_unfold Let_def split: option.split ServicePreference.split)

lemma steady_session [simp]:
  "steady s t \<Longrightarrow> steady s (eraseSession env t)" "steady s t \<Longrightarrow> steady s (service_OnSessionStatus env tok acc d t)"
  "steady s t \<Longrightarrow> steady s (StopKeysRotation t)" "steady s t \<Longrightarrow> steady s (snd (StartKeysRotation t))"
  "steady s t \<Longrightarrow> steady s (stopSessionChecker t)" "steady s t \<Longrightarrow> steady s (startSessionChecker t)"
  "steady s t \<Longrightarrow> steady s (WireGuardSaveNewKeys env b1 b2 b3 b4 t)"
  "steady s t \<Longrightarrow> steady s (WireGuardSetKeysRotationInterval env n t)"
  "env_good env \<Longrightarrow> steady s t \<Longrightarrow> steady s (snd (IsConnectivityBlocked env t))"
  by (simp_all add: eraseSession_def service_OnSessionStatus_def StopKeysRotation_def StartKeysRotation_def
      stopSessionChecker_def startSessionChecker_def WireGuardSaveNewKeys_def
      WireGuardSetKeysRotationInterval_def IsConnectivityBlocked_def case_prod_unfold Let_def split: option.split)

lemma steady_keys [simp]:
  "steady s t \<Longrightarrow> steady s (snd (keys_refused env a n t))"
  "steady s t \<Longrightarrow> steady s (snd (keys_attempt env ke ss a i kem t))"
  "steady s t \<Longrightarrow> steady s (snd (keys_renew env ke st t))"
proof -
  show a: "steady s (snd (keys_refused env a n t))" if "steady s t" for env a n t
    using that by (simp add: keys_refused_def Let_def)
  show b: "steady s (snd (keys_attempt env ke ss a i kem t))" if "steady s t" for env ke ss a i kem t
    using that
    by (induction env ke ss a i kem t rule: keys_attempt.induct)
       (subst keys_attempt.simps, auto simp: a case_prod_unfold Let_def simp del: keys_attempt.simps
          split: sum.split key_answer.split)
  show "steady s (snd (keys_renew env ke st t))" if "steady s t"
    using that by (simp add: keys_renew_def b case_prod_unfold Let_def del: keys_attempt.simps split: sum.split)
qed

lemma steady_generate [simp]:
  "env_good env \<Longrightarrow> steady s t \<Longrightarrow> steady s (snd (generateKeys env ke b t))"
  "env_good env \<Longrightarrow> steady s t \<Longrightarrow> steady s (snd (WireGuardGenerateKeys env ke b t))"
proof -
  show a: "steady s (snd (generateKeys env ke b t))" if "env_good env" "steady s t" for b
  proof -
    have "steady s (snd (IsConnectivityBlocked env t))" using that by simp
    then show ?thesis using that
      by (cases "IsConnectivityBlocked env t") (simp add: generateKeys_def Let_def split: option.split)
  qed
  show "steady s (snd (WireGuardGenerateKeys env ke b t))" if "env_good env" "steady s t"
    using a [OF that, of b]
    by (cases "generateKeys env ke b t")
       (auto simp: that WireGuardGenerateKeys_def UpdateKeysIfNecessary_def GenerateKeysNow_def split: option.split)
qed

lemma steady_route [simp]:
  "steady s t \<Longrightarrow> steady s (snd (updateV2RayRoute env f t))"
  "steady s t \<Longrightarrow> steady s (snd (on_route_change env l g r t))" "steady s t \<Longrightarrow> steady s (dns_check env t)"
proof -
  show a: "steady s (snd (updateV2RayRoute env f t))" if "steady s t" for f
    using that by (simp add: updateV2RayRoute_def split: option.split sum.split)
  show "steady s (snd (on_route_change env l g r t))" if "steady s t"
    using that a by (simp add: on_route_change_def case_prod_unfold Let_def split: option.split)
  show "steady s (dns_check env t)" if "steady s t"
    using that by (simp add: dns_check_def split: option.split)
qed

lemma steady_ping [simp]:
  "steady s t \<Longrightarrow> steady s (ping_resultNotify r t)"
  "env_good env \<Longrightarrow> steady s t \<Longrightarrow> steady s (ping_finished env hs t)"
  "env_good env \<Longrightarrow> steady s t \<Longrightarrow> steady s (snd (PingServers env pe n vt sk t))"
  "env_good env \<Longrightarrow> steady s t \<Longrightarrow> steady s (ping_second_phase env pe n' geo hs r nd t)"
proof -
  show a: "steady s (ping_resultNotify r t)" if "steady s t" for r t
    using that by (simp add: ping_resultNotify_def)
  show b: "steady s (ping_finished env hs t)" if "env_good env" "steady s t" for hs t
    using that by (simp add: ping_finished_def)
  show "steady s (snd (PingServers env pe n vt sk t))" if "env_good env" "steady s t"
  proof -
    have "steady s (snd (IsConnectivityBlocked env t))" using that by simp
    then show ?thesis using that a b
      by (cases "IsConnectivityBlocked env t")
         (simp add: PingServers_def case_prod_unfold Let_def split: option.split sum.split)
  qed
  show "steady s (ping_second_phase env pe n' geo hs r nd t)" if "env_good env" "steady s t"
    using that a b by (simp add: ping_second_phase_def case_prod_unfold Let_def)
qed

lemma steady_small [simp]:
  "env_good env \<Longrightarrow> steady s t \<Longrightarrow> steady s (servers_updated env t)"
  "steady s t \<Longrightarrow> steady s (ip_stack_initialized r t)"
  "env_good env \<Longrightarrow> steady s t \<Longrightarrow> steady s (snd (SplitTunnelling_AddApp env able x t))"
  "env_good env \<Longrightarrow> steady s t \<Longrightarrow> steady s (snd (SplitTunnelling_RemoveApp env pid t))"
  "steady s t \<Longrightarrow> steady s (snd (SplitTunnelling_AddedPidInfo env pid x t))"
  by (simp_all add: servers_updated_def ip_stack_initialized_def SplitTunnelling_AddApp_def
      implSplitTunnelling_AddApp_def SplitTunnelling_RemoveApp_def SplitTunnelling_AddedPidInfo_def
      case_prod_unfold Let_def split: sum.split)

subsection \<open>Operations that keep the invariant\<close>

lemma safe_basic [simp]:
  "safe (emit c t) = safe t" "safe (snd (call env c t)) = safe t"
  "safe (t\<lparr>sv_vpn := v\<rparr>) = safe t" "safe (t\<lparr>sv_requiredVpnState := r\<rparr>) = safe t"
  "safe (t\<lparr>sv_vpnSessionInfo := i\<rparr>) = safe t" "safe (t\<lparr>sv_pauseTill := d\<rparr>) = safe t"
  "safe (t\<lparr>sv_pauseKillSwitch := b\<rparr>) = safe t" "safe (t\<lparr>sv_isNeedToUpdateSessionInfo := b\<rparr>) = safe t"
  "safe (t\<lparr>autoconnectLastProcessedWifi := y\<rparr>) = safe t" "safe (t\<lparr>sv_tmpParams := p\<rparr>) = safe t"
  "safe (set_paused b t) = safe t" "safe (set_fwInitState b t) = safe t"
  by (simp_all add: safe_def emit_def call_def set_paused_def set_fwInitState_def)

lemmas safe_steady [simp] =
  steady_safe [OF steady_on_fw [OF _ steady_refl]]
  steady_safe [OF steady_prefs(1) [OF steady_refl]]
  steady_safe [OF steady_prefs(2) [OF steady_refl]]
  steady_safe [OF steady_ks(1) [OF steady_refl]]
  steady_safe [OF steady_ks(2) [OF _ steady_refl]]
  steady_safe [OF steady_ks(3) [OF _ steady_refl]]
  steady_safe [OF steady_ks(4) [OF _ steady_refl]]
  steady_safe [OF steady_ks(5) [OF _ steady_refl]]
  steady_safe [OF steady_ks_set(2) [OF _ steady_refl]]
  steady_safe [OF steady_ks_set(3) [OF _ steady_refl]]
  steady_safe [OF steady_ks_set(4) [OF _ steady_refl]]
  steady_safe [OF steady_ks_set(5) [OF _ steady_refl]]
  steady_safe [OF steady_st(1) [OF _ steady_refl]]
  steady_safe [OF steady_st(2) [OF _ steady_refl]]
  steady_safe [OF steady_st(3) [OF steady_refl]]
  steady_safe [OF steady_reason [OF _ steady_refl]]
  steady_safe [OF steady_dns(2) [OF _ steady_refl]]
  steady_safe [OF steady_params(1) [OF steady_refl]]
  steady_safe [OF steady_params(2) [OF steady_refl]]
  steady_safe [OF steady_params(3) [OF steady_refl]]
  steady_safe [OF steady_params(4) [OF steady_refl]]
  steady_safe [OF steady_session(1) [OF steady_refl]]
  steady_safe [OF steady_session(2) [OF steady_refl]]
  steady_safe [OF steady_session(3) [OF steady_refl]]
  steady_safe [OF steady_session(4) [OF steady_refl]]
  steady_safe [OF steady_session(5) [OF steady_refl]]
  steady_safe [OF steady_session(6) [OF steady_refl]]
  steady_safe [OF steady_session(7) [OF steady_refl]]
  steady_safe [OF steady_session(8) [OF steady_refl]]
  steady_safe [OF steady_session(9) [OF _ steady_refl]]
  steady_safe [OF steady_generate(2) [OF _ steady_refl]]
  steady_safe [OF steady_generate(1) [OF _ steady_refl]]
  steady_safe [OF steady_route(1) [OF steady_refl]]
  steady_safe [OF steady_route(2) [OF steady_refl]]
  steady_safe [OF steady_route(3) [OF steady_refl]]
  steady_safe [OF steady_ping(3) [OF _ steady_refl]]
  steady_safe [OF steady_ping(4) [OF _ steady_refl]]
  steady_safe [OF steady_small(1) [OF _ steady_refl]]
  steady_safe [OF steady_small(2) [OF steady_refl]]
  steady_safe [OF steady_small(3) [OF _ steady_refl]]
  steady_safe [OF steady_small(4) [OF _ steady_refl]]
  steady_safe [OF steady_small(5) [OF steady_refl]]

lemma safe_SetKillSwitchState [simp]:
  assumes "env_good env" "safe t"
  shows "safe (snd (SetKillSwitchState env b t))"
proof -
  have set: "safe (snd (on_fw (fw_SetEnabled (se_fw env) b) t))"
    if "b \<or> \<not> IsFwPersistant (sv_preferences t)" "\<not> b \<or> \<not> IsInverseSplitTunneling (sv_preferences t)"
    using that assms fw_set_enabled [of "se_fw env" "sv_fw t" b]
    by (auto simp: safe_def on_fw_def case_prod_unfold Let_def)
  show ?thesis using assms set by (auto simp: SetKillSwitchState_def case_prod_unfold Let_def)
qed

lemma setPreferences_flags:
  "IsFwPersistant (sv_preferences (setPreferences env p t)) = IsFwPersistant p"
  "IsInverseSplitTunneling (sv_preferences (setPreferences env p t)) = IsInverseSplitTunneling p"
  by (simp_all add: setPreferences_eq IsInverseSplitTunneling_def)

lemma safe_SetKillSwitchIsPersistent [simp]:
  assumes "env_good env" "safe t"
  shows "safe (snd (SetKillSwitchIsPersistent env b t))"
proof -
  let ?t = "setPreferences env ((sv_preferences t)\<lparr>IsFwPersistant := b\<rparr>) t"
  have p: "IsFwPersistant (sv_preferences ?t) = b"
    "IsInverseSplitTunneling (sv_preferences ?t) = IsInverseSplitTunneling (sv_preferences t)"
    by (simp_all add: setPreferences_flags) (simp add: IsInverseSplitTunneling_def)
  have "safe (snd (on_fw (fw_SetPersistant (se_fw env) b) ?t))"
    if "b \<longrightarrow> \<not> IsInverseSplitTunneling (sv_preferences t)"
    using that assms p fw_set_persistant [of "se_fw env" "sv_fw t" b]
    by (auto simp: safe_def on_fw_def case_prod_unfold Let_def)
  then show ?thesis using assms by (auto simp: SetKillSwitchIsPersistent_def case_prod_unfold Let_def)
qed

lemma safe_Reset [simp]:
  assumes "env_good env" "fw_ok (sv_fw t)" "IsFwPersistant (sv_preferences t) \<longrightarrow> curStateEnabled (sv_fw t)"
  shows "safe (snd (splitTunnelling_Reset env t))"
proof -
  have "safe (save_prefs env (t\<lparr>sv_preferences := (sv_preferences t)\<lparr>IsSplitTunnel := False,
      SplitTunnelInversed := False, SplitTunnelAnyDns := False, SplitTunnelAllowWhenNoVpn := False,
      SplitTunnelApps := []\<rparr>\<rparr>))"
    using assms by (simp add: safe_def save_prefs_def emit_def Let_def IsInverseSplitTunneling_def)
  then show ?thesis using assms(1) by (simp add: splitTunnelling_Reset_def Let_def)
qed

lemma safe_ResetPreferences [simp]:
  assumes "env_good env" "safe t"
  shows "safe (snd (ResetPreferences env t))"
proof -
  have "fw_ok (sv_fw t)" "\<not> IsFwPersistant (pref_Create (se_uuid env))"
    using assms(2) by (simp_all add: safe_def pref_Create_def)
  then show ?thesis using assms(1)
    by (simp add: ResetPreferences_def SplitTunnelling_SetConfig_def Let_def)
qed

text \<open>The check of \<open>SplitTunnelling_SetConfig\<close>: it passes in inverse mode only if the firewall is off.\<close>

lemma st_check_off:
  assumes "env_good env" "fw_ok (sv_fw t)" "fst (st_check env True True a t) = None"
  shows "\<not> curStateEnabled (sv_fw (snd (st_check env True True a t)))"
proof -
  have h: "fst (fst (on_fw (fw_GetEnabled (se_fw env)) t)) = curStateEnabled (sv_fw t)"
    using honest_status [of "se_fw env" "sv_fw t"] assms(1,2)
    by (simp add: env_good_def on_fw_def case_prod_unfold Let_def)
  have f: "sv_fw (snd (st_check env True True a t)) = snd (fw_GetEnabled (se_fw env) (sv_fw t))"
    by (simp add: st_check_def FirewallEnabled_def on_fw_def case_prod_unfold Let_def)
  show ?thesis using assms(3) h unfolding f
    by (auto simp: st_check_def FirewallEnabled_def fw_GetEnabled_def case_prod_unfold Let_def split: if_splits)
qed

lemma safe_check [simp]: "env_good env \<Longrightarrow> safe t \<Longrightarrow> safe (snd (st_check env b c a t))"
  by (simp add: st_check_def case_prod_unfold Let_def)

lemma safe_SetConfig [simp]:
  assumes "env_good env" "safe t"
  shows "safe (snd (SplitTunnelling_SetConfig env b c a w r t))"
proof -
  let ?t1 = "snd (st_check env b c a t)"
  let ?p = "(sv_preferences ?t1)\<lparr>IsSplitTunnel := b, SplitTunnelInversed := c, SplitTunnelAnyDns := a,
      SplitTunnelAllowWhenNoVpn := w\<rparr>"
  let ?t2 = "setPreferences env ?p ?t1"
  let ?t3 = "snd (splitTunnelling_ApplyConfig env ?t2)"
  have s1: "safe ?t1" using assms by simp
  have "safe ?t2 \<and> safe (setPreferences env (sv_preferences ?t1) ?t3)" if "fst (st_check env b c a t) = None"
  proof -
    have off: "b \<and> c \<longrightarrow> \<not> curStateEnabled (sv_fw ?t1)"
      using st_check_off [of env t a] assms that by (auto simp: safe_def)
    have "IsInverseSplitTunneling ?p = (b \<and> c)" "IsFwPersistant ?p = IsFwPersistant (sv_preferences ?t1)"
      by (simp_all add: IsInverseSplitTunneling_def)
    with s1 off have s2: "safe ?t2"
      unfolding safe_def setPreferences_flags setPreferences_prefs by blast
    have "steady ?t2 ?t3" using assms(1) by simp
    then have "fw_ok (sv_fw ?t3) \<and> curStateEnabled (sv_fw ?t3) = curStateEnabled (sv_fw ?t1)"
      using s2 by (auto simp: steady_def safe_def)
    then have "safe (setPreferences env (sv_preferences ?t1) ?t3)"
      using s1 by (simp add: safe_def setPreferences_flags)
    then show ?thesis using s2 by blast
  qed
  moreover have "safe (snd (splitTunnelling_Reset env t))"
    using safe_Reset [OF assms(1), of t] assms(2) by (auto simp: safe_def)
  ultimately show ?thesis using assms s1
    by (simp add: SplitTunnelling_SetConfig_def case_prod_unfold Let_def)
qed

lemma safe_disconnect [simp]:
  "env_good env \<Longrightarrow> safe t \<Longrightarrow> safe (connect_finalize env v t)"
  "env_good env \<Longrightarrow> safe t \<Longrightarrow> safe (snd (disconnect env t))"
  "env_good env \<Longrightarrow> safe t \<Longrightarrow> safe (reconnect env t)"
  "env_good env \<Longrightarrow> safe t \<Longrightarrow> safe (reconnect_routine env t)"
  "env_good env \<Longrightarrow> safe t \<Longrightarrow> safe (route_reconnect env t)"
proof -
  show a: "safe (connect_finalize env v t)" if "env_good env" "safe t" for v t
    using that by (simp add: connect_finalize_def Let_def)
  show b: "safe (snd (disconnect env t))" if "env_good env" "safe t" for t
    using that a by (simp add: disconnect_def case_prod_unfold Let_def split: option.split)
  show c: "safe (reconnect env t)" if "env_good env" "safe t" for t
    using that b by (simp add: reconnect_def)
  show "safe (reconnect_routine env t)" if "env_good env" "safe t"
    using that b by (simp add: reconnect_routine_def split: option.split)
  show "safe (route_reconnect env t)" if "env_good env" "safe t"
    using that c by (simp add: route_reconnect_def)
qed

lemma calm_paused [simp]: "calm (\<lambda>w. ((), ClientPaused w))" "calm (\<lambda>w. ((), ClientResumed w))"
  using calm_ops(5,6) [OF sample_env_ok] by simp_all

lemma safe_pause [simp]:
  "env_good env \<Longrightarrow> safe t \<Longrightarrow> safe (snd (Pause env d t))"
  "env_good env \<Longrightarrow> safe t \<Longrightarrow> safe (snd (resume env t))"
  "env_good env \<Longrightarrow> safe t \<Longrightarrow> safe (snd (Resume env t))"
  "env_good env \<Longrightarrow> safe t \<Longrightarrow> safe (snd (pause_resumer_round env r t))"
  "env_good env \<Longrightarrow> safe t \<Longrightarrow> safe (snd (Disconnect env t))"
proof -
  show "safe (snd (Pause env d t))" if "env_good env" "safe t"
    using that by (simp add: Pause_def pause_body_def case_prod_unfold Let_def split: option.split)
  show a: "safe (snd (resume env t))" if "env_good env" "safe t" for t
    using that by (simp add: resume_def case_prod_unfold Let_def split: option.split)
  show b: "safe (snd (Resume env t))" if "env_good env" "safe t" for t
    using that a by (simp add: Resume_def case_prod_unfold Let_def split: option.split)
  show "safe (snd (pause_resumer_round env r t))" if "env_good env" "safe t"
    using that b by (simp add: pause_resumer_round_def)
  show "safe (snd (Disconnect env t))" if "env_good env" "safe t"
    using that a by (simp add: Disconnect_def case_prod_unfold Let_def)
qed

lemma safe_session [simp]:
  "env_good env \<Longrightarrow> safe t \<Longrightarrow> safe (snd (unInitialise env t))"
  "env_good env \<Longrightarrow> safe t \<Longrightarrow> safe (snd (logOut env b c t))"
  "env_good env \<Longrightarrow> safe t \<Longrightarrow> safe (OnSessionNotFound env t)"
  "env_good env \<Longrightarrow> safe t \<Longrightarrow> safe (snd (session_answer env tok an t))"
  "env_good env \<Longrightarrow> safe t \<Longrightarrow> safe (snd (RequestSessionStatus env api t))"
  "env_good env \<Longrightarrow> safe t \<Longrightarrow> safe (snd (session_checker_round env api st t))"
proof -
  show a: "safe (snd (unInitialise env t))" if "env_good env" "safe t" for t
    using that by (simp add: unInitialise_def case_prod_unfold Let_def)
  have bk: "safe (snd (logOut_backend env c t))" if "env_good env" "safe t" for c t
    using that by (simp add: logOut_backend_def case_prod_unfold Let_def)
  show b: "safe (snd (logOut env b c t))" if "env_good env" "safe t" for b c t
    using that a bk by (simp add: logOut_def case_prod_unfold Let_def)
  show c: "safe (OnSessionNotFound env t)" if "env_good env" "safe t" for t
    using that b by (simp add: OnSessionNotFound_def)
  show e: "safe (snd (session_answer env tok an t))" if "env_good env" "safe t" for tok an t
    using that c by (simp add: session_answer_def case_prod_unfold Let_def split: option.split)
  show d: "safe (snd (RequestSessionStatus env api t))" if "env_good env" "safe t" for t
  proof -
    have "safe (snd (IsConnectivityBlocked env t))" using that by simp
    then show ?thesis using that e
      by (cases "IsConnectivityBlocked env t")
         (simp add: RequestSessionStatus_def case_prod_unfold Let_def split: option.split)
  qed
  show "safe (snd (session_checker_round env api st t))" if "env_good env" "safe t"
    using that d by (simp add: session_checker_round_def Let_def)
qed

lemma safe_login [simp]:
  "env_good env \<Longrightarrow> safe t \<Longrightarrow> safe (snd (SessionNew env le acc t))"
proof -
  have last: "safe (snd (login_attempt env le i False t))" if "env_good env" "safe t" for i t
    using that by (subst login_attempt.simps)
      (simp add: case_prod_unfold Let_def del: login_attempt.simps split: login_answer.split)
  have at: "safe (snd (login_attempt env le i kem t))" if "env_good env" "safe t" for i kem t
    using that last by (subst login_attempt.simps)
      (simp add: case_prod_unfold Let_def del: login_attempt.simps split: login_answer.split sum.split)
  have cr: "safe (setCredentials env i1 i2 i3 i4 i5 i6 i7 i8 i9 g k t)" if "env_good env" "safe t"
    for i1 i2 i3 i4 i5 i6 i7 i8 i9 g k t
    using that by (simp add: setCredentials_def Let_def)
  show "safe (snd (SessionNew env le acc t))" if "env_good env" "safe t"
    using that at cr
    by (simp add: SessionNew_def case_prod_unfold Let_def del: login_attempt.simps split: login_answer.split)
qed

lemma safe_connect [simp]:
  "env_good env \<Longrightarrow> safe t \<Longrightarrow> safe (snd (connect_begin env o' v a b t))"
  "env_good env \<Longrightarrow> safe t \<Longrightarrow> safe (snd (connect_end env err t))"
  "env_good env \<Longrightarrow> safe t \<Longrightarrow> safe (on_vpn_state env st t)"
proof -
  have c: "safe (snd (connect_failed env n e t))" if "env_good env" "safe t" for n e t
    using that by (simp add: connect_failed_def Let_def split: option.split)
  have d: "safe (snd (connect_firewall env a b t))" if "env_good env" "safe t" for a b t
    using that by (simp add: connect_firewall_def case_prod_unfold Let_def)
  have e: "safe (snd (connect_prepare env o' l a b t))" if "env_good env" "safe t" for l a b t
    using that d by (simp add: connect_prepare_def case_prod_unfold Let_def split: option.split sum.split)
  show "safe (snd (connect_begin env o' v a b t))" if "env_good env" "safe t"
    using that c e by (simp add: connect_begin_def case_prod_unfold Let_def split: option.split sum.split)
  show "safe (snd (connect_end env err t))" if "env_good env" "safe t"
    using that by (simp add: connect_end_def Let_def split: option.split)
  show "safe (on_vpn_state env st t)" if "env_good env" "safe t"
    using that by (simp add: on_vpn_state_def case_prod_unfold Let_def split: option.split sum.split)
qed

lemma steady_fastest [simp]:
  assumes "env_good env" "steady s t"
  shows "steady s (snd (getFastestServer env ae hi vt svrs ex t))"
proof -
  have "steady s (snd (PingServers env (ae_ping ae) 4000 vt True t))" using assms by simp
  then show ?thesis
    by (cases "PingServers env (ae_ping ae) 4000 vt True t")
       (auto simp: getFastestServer_def case_prod_unfold Let_def split: option.split)
qed

lemma steady_select [simp]:
  "env_good env \<Longrightarrow> steady s t \<Longrightarrow> steady s (snd (select_server env ae i sel hi vt co svrs ex t))"
  by (simp add: select_server_def case_prod_unfold Let_def)

lemma steady_update_entry [simp]:
  assumes "env_good env" "steady s t"
  shows "steady s (snd (update_entry env ae svrs params t))"
proof -
  let ?co = "if IsMultiHop params \<and> ServerSelectionExit (Metadata params) \<noteq> SelDefault
             then getServerCountryCode env params False else []"
  let ?o = "select_server env ae 0 (ServerSelectionEntry (Metadata params)) ovpn_GetHostsInfoBase OpenVPN
      ?co (OpenvpnServers svrs) (FastestGatewaysExcludeList (Metadata params)) t"
  let ?w = "select_server env ae 0 (ServerSelectionEntry (Metadata params)) wg_GetHostsInfoBase WireGuard
      ?co (WireguardServers svrs) (FastestGatewaysExcludeList (Metadata params)) t"
  have "steady s (snd ?o)" "steady s (snd ?w)" using assms by simp_all
  then show ?thesis using assms(2)
    by (cases ?o; cases ?w)
       (auto simp: update_entry_def Let_def split: option.split sum.split)
qed

lemma steady_update_params [simp]:
  assumes "env_good env" "steady s t"
  shows "steady s (snd (updateParamsAccordingToMetadata env ae params t))"
proof -
  have "steady s (snd (update_entry env ae svrs params t))" for svrs using assms by simp
  then have u: "steady s u" if "update_entry env ae svrs params t = (r, u)" for svrs r u
    using that by (metis snd_conv)
  show ?thesis using assms(2)
    by (auto simp: updateParamsAccordingToMetadata_def intro: u split: option.split sum.split prod.split)
qed

lemma safe_auto [simp]:
  "env_good env \<Longrightarrow> safe t \<Longrightarrow> safe (snd (autoConnectIfRequired env ae re w t))"
  "env_good env \<Longrightarrow> safe t \<Longrightarrow> safe (snd (OnAuthenticatedClient env ae ui t))"
  "env_good env \<Longrightarrow> safe t \<Longrightarrow> safe (snd (onWiFiChanged env ae cur t))"
  "env_good env \<Longrightarrow> safe t \<Longrightarrow> safe (snd (SetWiFiSettings env ae wp t))"
proof -
  have v: "safe (snd (auto_vpn env ae act c e t))" if "env_good env" "safe t" for act c e t
  proof -
    have "safe (snd (updateParamsAccordingToMetadata env ae c t))"
      using that steady_safe [OF steady_update_params [OF _ steady_refl]] by blast
    then show ?thesis using that
      by (cases "updateParamsAccordingToMetadata env ae c t")
         (simp add: auto_vpn_def case_prod_unfold Let_def split: option.split actionTypeVpn.split)
  qed
  have f: "safe (snd (auto_firewall env act wi c t))" if "env_good env" "safe t" for act wi c t
    using that by (simp add: auto_firewall_def case_prod_unfold Let_def split: actionTypeFirewall.split)
  have r: "safe (auto_restore_lan env wi lp p t)" if "env_good env" "safe t" for wi lp p t
    using that by (simp add: auto_restore_lan_def Let_def)
  show a: "safe (snd (autoConnectIfRequired env ae re w t))" if "env_good env" "safe t" for re w t
    using that by (simp add: autoConnectIfRequired_def v f r case_prod_unfold Let_def)
  show "safe (snd (OnAuthenticatedClient env ae ui t))" if "env_good env" "safe t"
    using that a by (simp add: OnAuthenticatedClient_def)
  show "safe (snd (onWiFiChanged env ae cur t))" if "env_good env" "safe t"
    using that a by (simp add: onWiFiChanged_def split: sum.split)
  show "safe (snd (SetWiFiSettings env ae wp t))" if "env_good env" "safe t"
  proof -
    let ?u = "setPreferences env ((sv_preferences t)\<lparr>WiFiControl := wp\<lparr>Networks := unique_networks (Networks wp) []\<rparr>\<rparr>) t"
    have "safe (snd (autoConnectIfRequired env ae OnWifiChanged None ?u))" using that a by simp
    then show ?thesis using that
      by (cases "autoConnectIfRequired env ae OnWifiChanged None ?u")
         (simp add: SetWiFiSettings_def Let_def split: option.split)
  qed
qed

subsection \<open>The service as a machine\<close>

text \<open>
  A step is an operation a client, a goroutine or an event of the system performs, with the
  world it meets. \<open>Connect\<close> is its pieces: other operations run between them.
\<close>

datatype svc_op =
    S_SetKillSwitchState bool | S_SetKillSwitchIsPersistent bool | S_KillSwitchState
  | S_AllowLAN bool | S_AllowLANMulticast bool | S_AllowAPIServers bool | S_UserExceptions string bool
  | S_SplitTunnel bool bool bool bool bool | S_SplitTunnelReason string | S_AddApp "string \<Rightarrow> bool \<times> error" string
  | S_RemoveApp int | S_AddedPid int string | S_ResetPreferences
  | S_Dns "DnsSettings option" "AntiTrackerMetadata option" "TempDnsSettings option"
  | S_Pause int | S_Resume | S_ResumerRound bool | S_Disconnect | S_Reconnect
  | S_ConnectBegin "gerror + net_ip \<times> net_ip" vpn_obj bool bool | S_VpnState StateInfo | S_ConnectEnd error
  | S_Require RequiredState | S_RouteChange bool bool bool | S_RouteReconnect | S_DnsCheck
  | S_LogOut bool bool | S_SessionNew login_env string | S_SessionStatus "string \<Rightarrow> status_answer"
  | S_SessionAnswer string status_answer
  | S_SessionChecker "string \<Rightarrow> status_answer" bool
  | S_GenerateKeys keys_env bool | S_RotationInterval int | S_SetPreference ServicePreference string
  | S_UserPreferences bool bool | S_ConnectionParams ConnectionParams
  | S_AutoConnect auto_env autoConnectReason "WifiInfo option" | S_WiFiChanged auto_env "gerror + WifiInfo"
  | S_WiFiSettings auto_env WiFiParams | S_Ping ping_env int vpn_type bool
  | S_ServersUpdated | S_EnsureRound

fun svc_step :: "svc_env \<times> svc_op \<Rightarrow> svc \<Rightarrow> svc" where
  "svc_step (env, S_SetKillSwitchState b) s = snd (SetKillSwitchState env b s)"
| "svc_step (env, S_SetKillSwitchIsPersistent b) s = snd (SetKillSwitchIsPersistent env b s)"
| "svc_step (env, S_KillSwitchState) s = snd (KillSwitchState env s)"
| "svc_step (env, S_AllowLAN b) s = snd (SetKillSwitchAllowLAN env b s)"
| "svc_step (env, S_AllowLANMulticast b) s = snd (SetKillSwitchAllowLANMulticast env b s)"
| "svc_step (env, S_AllowAPIServers b) s = snd (SetKillSwitchAllowAPIServers env b s)"
| "svc_step (env, S_UserExceptions x b) s = snd (SetKillSwitchUserExceptions env x b s)"
| "svc_step (env, S_SplitTunnel a b c d e) s = snd (SplitTunnelling_SetConfig env a b c d e s)"
| "svc_step (env, S_SplitTunnelReason r) s = SplitTunnelling_SetDisabledReason env r s"
| "svc_step (env, S_AddApp able x) s = snd (SplitTunnelling_AddApp env able x s)"
| "svc_step (env, S_RemoveApp pid) s = snd (SplitTunnelling_RemoveApp env pid s)"
| "svc_step (env, S_AddedPid pid x) s = snd (SplitTunnelling_AddedPidInfo env pid x s)"
| "svc_step (env, S_ResetPreferences) s = snd (ResetPreferences env s)"
| "svc_step (env, S_Dns d a t) s = snd (SetDnsOverride env d a t s)"
| "svc_step (env, S_Pause d) s = snd (Pause env d s)"
| "svc_step (env, S_Resume) s = snd (Resume env s)"
| "svc_step (env, S_ResumerRound ready) s = snd (pause_resumer_round env ready s)"
| "svc_step (env, S_Disconnect) s = snd (Disconnect env s)"
| "svc_step (env, S_Reconnect) s = reconnect_routine env s"
| "svc_step (env, S_ConnectBegin ips v a b) s = snd (connect_begin env ips v a b s)"
| "svc_step (env, S_VpnState st) s = on_vpn_state env st s"
| "svc_step (env, S_ConnectEnd e) s = snd (connect_end env e s)"
| "svc_step (env, S_Require r) s = s\<lparr>sv_requiredVpnState := r\<rparr>"
| "svc_step (env, S_RouteChange l g r) s = snd (on_route_change env l g r s)"
| "svc_step (env, S_RouteReconnect) s = route_reconnect env s"
| "svc_step (env, S_DnsCheck) s = dns_check env s"
| "svc_step (env, S_LogOut a b) s = snd (logOut env a b s)"
| "svc_step (env, S_SessionNew le acc) s = snd (SessionNew env le acc s)"
| "svc_step (env, S_SessionStatus api) s = snd (RequestSessionStatus env api s)"
| "svc_step (env, S_SessionAnswer tok an) s = snd (session_answer env tok an s)"
| "svc_step (env, S_SessionChecker api st) s = snd (session_checker_round env api st s)"
| "svc_step (env, S_GenerateKeys ke b) s = snd (WireGuardGenerateKeys env ke b s)"
| "svc_step (env, S_RotationInterval n) s = WireGuardSetKeysRotationInterval env n s"
| "svc_step (env, S_SetPreference k v) s = snd (SetPreference env k v s)"
| "svc_step (env, S_UserPreferences a b) s = snd (SetUserPreferences env a b s)"
| "svc_step (env, S_ConnectionParams p) s = SetConnectionParams env p s"
| "svc_step (env, S_AutoConnect ae re w) s = snd (autoConnectIfRequired env ae re w s)"
| "svc_step (env, S_WiFiChanged ae cur) s = snd (onWiFiChanged env ae cur s)"
| "svc_step (env, S_WiFiSettings ae wp) s = snd (SetWiFiSettings env ae wp s)"
| "svc_step (env, S_Ping pe n vt sk) s = snd (PingServers env pe n vt sk s)"
| "svc_step (env, S_ServersUpdated) s = servers_updated env s"
| "svc_step (env, S_EnsureRound) s = snd (on_fw (ensure_round (se_fw env)) s)"

lemma safe_ensure [simp]:
  "env_good env \<Longrightarrow> safe t \<Longrightarrow> safe (snd (on_fw (ensure_round (se_fw env)) t))"
  using fw_ensure [of "se_fw env" "sv_fw t"]
  by (simp add: safe_def on_fw_def case_prod_unfold Let_def)

lemma safe_step: "env_good env \<Longrightarrow> safe t \<Longrightarrow> safe (svc_step (env, op) t)"
  by (cases op) simp_all

text \<open>The world of a run may change from step to step, but each is good.\<close>

interpretation service: safe_machine "\<lambda>e s. if env_good (fst e) then svc_step e s else s" safe
  by unfold_locales (auto simp: safe_step split: prod.split)

lemma init_safe:
  assumes "env_good env" "\<not> (IsFwPersistant p \<and> IsInverseSplitTunneling p)"
  shows "safe (service_init env (err, p))"
proof -
  have ok: "fw_ok fw_init" by (simp add: fw_ok_def fw_sync_def fw_weak_def fw_init_def hosts_of_def sc_init_def)
  define t where "t = (if err \<noteq> None then save_prefs env (svc_init p) else svc_init p)"
  have t: "sv_fw t = fw_init" "flags (sv_preferences t) = flags p"
    by (simp_all add: t_def svc_init_def save_prefs_def emit_def Let_def)
  define u where "u = snd (on_fw (SetUserExceptions (se_fw env) (FwUserExceptions (sv_preferences t)) True)
      (snd (on_fw (fw_AllowLAN (se_fw env) (IsFwAllowLAN (sv_preferences t)) (IsFwAllowLANMulticast (sv_preferences t))) t)))"
  have pu: "sv_preferences u = sv_preferences t" by (simp add: u_def)
  have "steady t u" using assms(1) by (simp add: u_def)
  then have u: "fw_ok (sv_fw u)" "\<not> curStateEnabled (sv_fw u)" "flags (sv_preferences u) = flags p"
    using t ok by (auto simp: steady_def fw_init_def)
  define w where "w = (if IsFwPersistant (sv_preferences u) then snd (on_fw (fw_SetPersistant (se_fw env) True) u) else u)"
  have "safe w"
    using u assms fw_set_persistant [of "se_fw env" "sv_fw u" True]
    by (auto simp: w_def safe_def on_fw_def flags_def case_prod_unfold Let_def)
  moreover have "service_init env (err, p) = updateAPIAddrInFWExceptions env (emit (Go R_StartKeysRotation) w)"
    by (simp add: service_init_def w_def u_def t_def Let_def)
  ultimately show ?thesis using assms(1) by simp
qed

text \<open>
  The kill switch and the inverse split tunnel exclude each other in every run: from
  the start of the service with stored preferences that do not ask for both, whatever
  clients, goroutines and events do, in any order, as long as the script of the firewall
  succeeds and tells its status truthfully, the script is off whenever the split tunnel is
  in inverse mode, and on whenever the firewall is set to be persistent. So the stored
  preferences never ask for both, and the next start begins well.
\<close>

theorem service_kill_switch_exclusive:
  fixes run :: "(svc_env \<times> svc_op) list" and env :: svc_env and p :: Preferences
    and err :: error
  assumes "\<forall>e \<in> set run. env_good (fst e)" and "env_good env"
    and "\<not> (IsFwPersistant p \<and> IsInverseSplitTunneling p)"
  defines "s \<equiv> fold svc_step run (service_init env (err, p))"
  shows "(IsInverseSplitTunneling (sv_preferences s) \<longrightarrow> \<not> sc_on (sc_run (cmds (sv_fw s))))
    \<and> (IsFwPersistant (sv_preferences s) \<longrightarrow> sc_on (sc_run (cmds (sv_fw s))))
    \<and> \<not> (IsFwPersistant (sv_preferences s) \<and> IsInverseSplitTunneling (sv_preferences s))"
proof -
  let ?s0 = "service_init env (err, p)"
  have "safe (fold (\<lambda>e s. if env_good (fst e) then svc_step e s else s) run ?s0)"
    by (rule service.run_inv) (rule init_safe [OF assms(2,3)])
  moreover have "fold (\<lambda>e s. if env_good (fst e) then svc_step e s else s) run ?s0 = s"
    unfolding s_def using assms(1) by (intro fold_cong) auto
  ultimately have "safe s" by simp
  then show ?thesis by (auto simp: safe_def fw_ok_def fw_sync_def fw_weak_def)
qed

text \<open>A world with a truthful script, used by the examples.\<close>

definition truthful_fw :: fw_env where
  "truthful_fw = sample_env\<lparr>sh_exec := (\<lambda>cs c. if c = Cmd_status \<and> \<not> sc_on (sc_run cs)
     then Some (Err ''exit status 1'') else None)\<rparr>"

definition truthful_env :: svc_env where
  "truthful_env = sample_svc_env\<lparr>se_fw := truthful_fw\<rparr>"

lemma truthful_good [simp]: "env_good truthful_env"
  by (simp add: env_good_def status_ok_def script_ok_def truthful_env_def truthful_fw_def sample_env_def)

theorem service_kill_switch_exclusive_witness:
  "sc_on (sc_run (cmds (sv_fw (fold svc_step [(truthful_env, S_EnsureRound)]
     (service_init truthful_env (None, (pref_Create ''id'')\<lparr>IsFwPersistant := True\<rparr>))))))"
proof -
  let ?p = "(pref_Create ''id'')\<lparr>IsFwPersistant := True\<rparr>"
  let ?s = "fold svc_step [(truthful_env, S_EnsureRound)] (service_init truthful_env (None, ?p))"
  have i: "\<not> (IsFwPersistant ?p \<and> IsInverseSplitTunneling ?p)"
    by (simp add: pref_Create_def IsInverseSplitTunneling_def)
  have "IsFwPersistant (sv_preferences ?s)"
    by (simp add: service_init_def svc_init_def updateAPIAddrInFWExceptions_def
        emit_def Let_def split: sum.split)
  then show ?thesis
    using service_kill_switch_exclusive [where run = "[(truthful_env, S_EnsureRound)]" and env = truthful_env
        and p = ?p and err = None] i
    by (simp add: Let_def)
qed

end
