(* ===== verification/Service_Pause.thy ===== *)
theory Service_Pause
  imports Service_Machine
begin

section \<open>Pausing and the kill switch (daemon/service/service.go)\<close>

text \<open>
  What \<open>Pause\<close> and \<open>Resume\<close> do to the firewall: the round trip, and its failure when a
  pause is extended.
\<close>

definition fw_is_on :: "svc \<Rightarrow> bool" where
  "fw_is_on s \<longleftrightarrow> sc_on (sc_run (cmds (sv_fw s)))"

lemma safe_on: "safe s \<Longrightarrow> fw_is_on s = curStateEnabled (sv_fw s)"
  by (simp add: safe_def fw_is_on_def fw_ok_def fw_sync_def fw_weak_def)

lemma steady_on:
  assumes "steady s t" "safe s"
  shows "fw_is_on t = fw_is_on s" "IsFwPersistant (sv_preferences t) = IsFwPersistant (sv_preferences s)"
  using assms safe_on [OF assms(2)] safe_on [OF steady_safe [OF assms]]
  by (auto simp: steady_def safe_def flags_def)

lemma ks_state:
  assumes "env_good env" "safe s"
  shows "ks_IsEnabled (fst (fst (KillSwitchState env s))) = fw_is_on s"
    "ks_IsPersistent (fst (fst (KillSwitchState env s))) = IsFwPersistant (sv_preferences s)"
    "snd (fst (KillSwitchState env s)) = None"
proof -
  have "fst (implGetEnabled (se_fw env) (sv_fw s)) = (curStateEnabled (sv_fw s), None)"
    using honest_status [of "se_fw env" "sv_fw s"] assms by (simp add: env_good_def safe_def fw_GetEnabled_def)
  then show "ks_IsEnabled (fst (fst (KillSwitchState env s))) = fw_is_on s"
    "ks_IsPersistent (fst (fst (KillSwitchState env s))) = IsFwPersistant (sv_preferences s)"
    "snd (fst (KillSwitchState env s)) = None"
    using safe_on [OF assms(2)]
    by (simp_all add: KillSwitchState_def fw_GetState_def on_fw_def case_prod_unfold Let_def)
qed

text \<open>When none of the three guards of \<open>SetKillSwitchState\<close> holds the firewall is switched.\<close>

lemma ks_set:
  assumes "env_good env" "safe s" "\<not> IsPaused s" "b \<or> \<not> IsFwPersistant (sv_preferences s)"
    "\<not> (b \<and> IsInverseSplitTunneling (sv_preferences s))"
  shows "fw_is_on (snd (SetKillSwitchState env b s)) = b"
proof -
  have "curStateEnabled (sv_fw (snd (SetKillSwitchState env b s))) = b"
    using assms fw_set_enabled(2) [of "se_fw env" "sv_fw s" b]
    by (auto simp: SetKillSwitchState_def on_fw_def onKillSwitchStateChanged_def emit_def safe_def
        case_prod_unfold Let_def split: if_splits)
  then show ?thesis using safe_SetKillSwitchState [OF assms(1,2), of b] by (simp add: safe_on)
qed

lemma ks_done:
  assumes "SetKillSwitchState env b s = (None, t)"
  shows "\<not> IsPaused s" "b \<or> \<not> IsFwPersistant (sv_preferences s)"
    "\<not> (b \<and> IsInverseSplitTunneling (sv_preferences s))"
  using assms by (auto simp: SetKillSwitchState_def split: if_splits)

lemma ks_vpn [simp]:
  "sv_vpn (snd (SetKillSwitchState env b s)) = sv_vpn s"
  "sv_vpn (snd (KillSwitchState env s)) = sv_vpn s"
  "sv_pauseKillSwitch (snd (SetKillSwitchState env b s)) = sv_pauseKillSwitch s"
  "sv_pauseKillSwitch (snd (KillSwitchState env s)) = sv_pauseKillSwitch s"
  by (simp_all add: SetKillSwitchState_def KillSwitchState_def on_fw_def onKillSwitchStateChanged_def
      emit_def case_prod_unfold Let_def)

lemma st_vpn [simp]:
  "sv_vpn (snd (splitTunnelling_ApplyConfig env s)) = sv_vpn s"
  "sv_pauseKillSwitch (snd (splitTunnelling_ApplyConfig env s)) = sv_pauseKillSwitch s"
proof -
  have a: "sv_vpn (snd (st_apply env p t)) = sv_vpn t"
    "sv_pauseKillSwitch (snd (st_apply env p t)) = sv_pauseKillSwitch t" for p t
    by (simp_all add: st_apply_def on_fw_def call_def case_prod_unfold Let_def split: option.split)
  show "sv_vpn (snd (splitTunnelling_ApplyConfig env s)) = sv_vpn s"
    "sv_pauseKillSwitch (snd (splitTunnelling_ApplyConfig env s)) = sv_pauseKillSwitch s"
    by (simp_all add: splitTunnelling_ApplyConfig_def a emit_def call_def case_prod_unfold Let_def)
qed

text \<open>After a successful pause: what was remembered, and what the firewall does.\<close>

lemma pause_effect:
  assumes env: "env_good env" and s: "safe s" and r: "Pause env d s = (None, t)"
  shows "safe t" "sv_preferences t = sv_preferences s" "sv_pauseKillSwitch t = fw_is_on s"
    "fw_is_on t = (fw_is_on s \<and> IsFwPersistant (sv_preferences s))"
    "sv_vpn t \<noteq> None \<and> (\<forall>v. sv_vpn t = Some v \<longrightarrow> vpn_IsPaused v)"
proof -
  have core: "core s t" using core_pause(1) [of s env d s] r by simp
  show "safe t" using safe_pause(1) [OF env s, of d] r by simp
  show "sv_preferences t = sv_preferences s" using core by (simp add: core_def)
  obtain v where v: "sv_vpn s = Some v" using r by (auto simp: Pause_def split: if_splits)
  define u where "u = (snd (KillSwitchState env s))\<lparr>sv_pauseKillSwitch := fw_is_on s\<rparr>"
  have st: "steady s u" using env by (simp add: u_def)
  have u: "safe u" "fw_is_on u = fw_is_on s" "sv_pauseKillSwitch u = fw_is_on s" "sv_vpn u = Some v"
    using steady_safe [OF st s] steady_on(1) [OF st s] v by (simp_all add: u_def)
  let ?off = "fw_is_on s \<and> \<not> IsFwPersistant (sv_preferences s)"
  define w where "w = (if ?off then snd (SetKillSwitchState env False u) else u)"
  have none: "?off \<Longrightarrow> fst (SetKillSwitchState env False u) = None"
    using r v ks_state [OF env s]
    by (auto simp: Pause_def pause_body_def u_def case_prod_unfold Let_def split: if_splits)
  have w: "safe w" "sv_pauseKillSwitch w = fw_is_on s" "sv_vpn w = Some v"
    "fw_is_on w = (fw_is_on s \<and> IsFwPersistant (sv_preferences s))"
    using u env ks_set [OF env u(1), of False] ks_done [OF prod_eqI, of env False u] none
    by (auto simp: w_def)
  define x where "x = set_paused True (snd (call env Vpn_Pause (snd (on_fw (\<lambda>w. ((), ClientPaused w)) w))))
      \<lparr>sv_pauseTill := se_now env + second * d\<rparr>"
  have t: "t = emit (Notify OnVpnPauseChanged) (emit (Go R_pause_resumer)
      (if IsSplitTunnel (sv_preferences x) then snd (splitTunnelling_ApplyConfig env x) else x))"
    using r v none ks_state [OF env s]
    by (auto simp: Pause_def pause_body_def x_def w_def u_def case_prod_unfold Let_def split: if_splits)
  have "steady w x" by (simp add: x_def)
  then have sx: "steady w t" using env by (simp add: t)
  show "fw_is_on t = (fw_is_on s \<and> IsFwPersistant (sv_preferences s))"
    using steady_on(1) [OF sx w(1)] w(4) by simp
  show "sv_pauseKillSwitch t = fw_is_on s"
    using w(2) by (simp add: t x_def emit_def set_paused_def call_def on_fw_def)
  show "sv_vpn t \<noteq> None \<and> (\<forall>v. sv_vpn t = Some v \<longrightarrow> vpn_IsPaused v)"
    using w(3) by (simp add: t x_def emit_def set_paused_def call_def on_fw_def)
qed

lemma resume_effect:
  assumes env: "env_good env" and s: "safe s" and v: "sv_vpn s = Some v" "vpn_IsPaused v"
    and i: "sv_pauseKillSwitch s \<longrightarrow> \<not> IsInverseSplitTunneling (sv_preferences s)"
    and r: "Resume env s = (None, t)"
  shows "fw_is_on t = (if IsFwPersistant (sv_preferences s) then fw_is_on s else sv_pauseKillSwitch s)"
proof -
  define u where "u = set_paused False (snd (call env Vpn_Resume
      (snd (on_fw (\<lambda>w. ((), ClientResumed w)) (s\<lparr>sv_pauseTill := 0\<rparr>)))))"
  have su: "steady s u" by (simp add: u_def)
  define w where "w = snd (KillSwitchState env u)"
  have sw: "steady s w" using env su by (simp add: w_def)
  have f: "sv_preferences u = sv_preferences s" "sv_preferences w = sv_preferences s"
    "sv_pauseKillSwitch w = sv_pauseKillSwitch s" "\<not> IsPaused w"
    using v by (simp_all add: u_def w_def set_paused_def call_def on_fw_def IsPaused_def KillSwitchState_def
        case_prod_unfold Let_def)
  have ok: "safe u" "safe w" using steady_safe [OF su s] steady_safe [OF sw s] by simp_all
  have on: "fw_is_on u = fw_is_on s" "fw_is_on w = fw_is_on s"
    using steady_on(1) [OF su s] steady_on(1) [OF sw s] by simp_all
  define x where "x = (if \<not> IsFwPersistant (sv_preferences s) \<and> fw_is_on s \<noteq> sv_pauseKillSwitch s
      then snd (SetKillSwitchState env (sv_pauseKillSwitch s) w) else w)"
  have sx: "safe x" "sv_preferences x = sv_preferences s"
    using ok env f(2) core_kill_switch(2) [of w env "sv_pauseKillSwitch s" w]
    by (simp_all add: x_def core_def)
  have t: "t = emit (Notify OnVpnPauseChanged)
      (if IsSplitTunnel (sv_preferences x) then snd (splitTunnelling_ApplyConfig env x) else x)"
    using r v ks_state [OF env ok(1)] on f
    by (auto simp: Resume_def resume_def x_def w_def u_def case_prod_unfold Let_def split: if_splits)
  have "steady x t" using env by (simp add: t)
  then have "fw_is_on t = fw_is_on x" using steady_on(1) sx(1) by blast
  also have "\<dots> = (if IsFwPersistant (sv_preferences s) then fw_is_on s else sv_pauseKillSwitch s)"
    using ks_set [OF env ok(2), of "sv_pauseKillSwitch s"] f i on by (auto simp: x_def)
  finally show ?thesis .
qed


text \<open>A connected service with the firewall on.\<close>

definition sample_vpn :: vpn_obj where
  "sample_vpn = \<lparr>vpn_Type = WireGuard, DefaultDNS = [172, 16, 0, 1], Destination = ([1, 2, 3, 4], 2049, False),
     DefaultRouteGatewayIP = [10, 0, 0, 1], vpn_IsPaused = False, originalEntryServerInfo = None,
     v2rayEndpoint = None, firewallDuringConnection = False, fwInitState = False\<rparr>"

definition sample_connected :: svc where
  "sample_connected = (snd (SetKillSwitchState truthful_env True (svc_init (pref_Create ''id''))))
     \<lparr>sv_vpn := Some sample_vpn\<rparr>"

lemma sample_connected_safe [simp]: "safe sample_connected"
proof -
  have "safe (svc_init (pref_Create ''id''))"
    by (simp add: safe_def svc_init_def fw_ok_def fw_sync_def fw_weak_def fw_init_def hosts_of_def
        sc_init_def pref_Create_def)
  then show ?thesis by (simp add: sample_connected_def)
qed


text \<open>
  A pause that is extended loses the kill switch: when a connection is paused a second
  time while it is paused, the firewall stays off after the resumption unless it is
  persistent, although it was on before the first pause. The second pause remembers that
  the firewall is off, because the first has switched it off.
\<close>

theorem pause_extended_drops_firewall:
  assumes "env_good env" "env_good env'" "env_good env''" "safe s"
    and "\<not> IsFwPersistant (sv_preferences s)"
    and "Pause env d s = (None, t)" "Pause env' d' t = (None, u)" "Resume env'' u = (None, w)"
  shows "\<not> fw_is_on w"
proof -
  note p = pause_effect [OF assms(1,4,6)] and q = pause_effect [OF assms(2) pause_effect(1) [OF assms(1,4,6)] assms(7)]
  have off: "\<not> fw_is_on t" "\<not> sv_pauseKillSwitch u" using p(4) q(3) assms(5) by simp_all
  obtain v where v: "sv_vpn u = Some v" "vpn_IsPaused v" using q(5) by blast
  show ?thesis using resume_effect [OF assms(3) q(1) v _ assms(8)] off p(2) q(2) assms(5) by simp
qed

theorem pause_extended_drops_firewall_witness:
  "\<not> fw_is_on (snd (Resume truthful_env (snd (Pause truthful_env 60 (snd (Pause truthful_env 60 sample_connected))))))
   \<and> fw_is_on sample_connected"
proof -
  let ?p = "snd (Pause truthful_env 60 sample_connected)"
  let ?q = "snd (Pause truthful_env 60 ?p)"
  have "fst (Pause truthful_env 60 sample_connected) = None" "fst (Pause truthful_env 60 ?p) = None"
    "fst (Resume truthful_env ?q) = None" "fw_is_on sample_connected"
    "\<not> IsFwPersistant (sv_preferences sample_connected)"
    by code_simp+
  then show ?thesis
    using pause_extended_drops_firewall [of truthful_env truthful_env truthful_env sample_connected 60 ?p 60 ?q
        "snd (Resume truthful_env ?q)"]
    by (simp add: prod_eq_iff)
qed

end
