(* ===== verification/Start_Proofs.thy ===== *)
theory Start_Proofs
  imports Service_Start Service_Machine
begin

section \<open>Starting a connection: what is proved of it\<close>

text \<open>
  The redirection of a connection through the local V2Ray proxy, and the refusal of an
  account whose renewal the request for its status has just shown.
\<close>

subsection \<open>V2Ray\<close>

text \<open>The first entry host of the parameters, without the fields of its protocol.\<close>

definition entry_base :: "ConnectionParams \<Rightarrow> HostInfoBase option" where
  "entry_base p =
     (if VpnType p = OpenVPN then
        (case ovpn_Entry (OpenVpnParameters p) of [] \<Rightarrow> None | h # _ \<Rightarrow> Some (HostInfoBase.truncate h))
      else (case wg_Entry (WireGuardParameters p) of [] \<Rightarrow> None | h # _ \<Rightarrow> Some (HostInfoBase.truncate h)))"

lemma vpn_types_differ [simp]: "OpenVPN \<noteq> WireGuard" "WireGuard \<noteq> OpenVPN"
  by (simp_all add: OpenVPN_def WireGuard_def)

lemma truncate_base [simp]: "Host (HostInfoBase.truncate h) = Host h"
  "V2RayHost (HostInfoBase.truncate h) = V2RayHost h"
  by (simp_all add: HostInfoBase.truncate_def)

lemma v2_params_entry:
  assumes "VpnType p \<in> {OpenVPN, WireGuard}" "entry_base p = Some h"
  shows "\<exists>h'. entry_base (v2_params n p) = Some h' \<and> Host h' = ''127.0.0.1''"
    "fst (conn_Port (v2_params n p)) = n" "VpnType (v2_params n p) = VpnType p"
  using assms by (auto simp: v2_params_def entry_base_def conn_Port_def Let_def split: list.splits)

lemma v2_original_entry:
  assumes "VpnType p \<in> {OpenVPN, WireGuard}" "entry_base p = Some h"
  shows "svr_IP (v2_original t p) = parse_ip (Host h)" "svr_Port (v2_original t p) = fst (conn_Port p)"
    "svr_V2RayProxyType (v2_original t p) = t"
  using assms by (auto simp: v2_original_def entry_base_def conn_Port_def Let_def split: list.splits)

lemma v2_endpoints_entry:
  assumes "VpnType p \<in> {OpenVPN, WireGuard}" "v2_endpoints svrs n p = Some (outIp, r)"
  shows "\<exists>h. entry_base p = Some h \<and> outIp = V2RayHost h"
  using assms by (auto simp: v2_endpoints_def entry_base_def Let_def split: list.splits)

lemma v2_client_started:
  assumes "v2_start_client ce params t n uid (outIp, dns, inIp, ps) = Inr (updated, Some v, orig, err)"
  shows "\<exists>ip tls. v2r_Start (ce_v2 ce) (V2RayBinaryPath ce) (V2RayConfigFile ce) False t outIp n inIp ip uid tls
      = (Some v, None)"
    and "\<exists>lp b. wrapper_GetLocalPort v = Inr (lp, b) \<and> updated = v2_params lp params"
    and "orig = Some (v2_original t params)" "err = None"
proof -
  let ?ports = "v2_inbound_ports ps"
  let ?r = "v2r_Start (ce_v2 ce) (V2RayBinaryPath ce) (V2RayConfigFile ce) False t outIp n inIp
    (port_Port (case ce_port_rnd ce (length ?ports) of Some r \<Rightarrow> ?ports ! r | None \<Rightarrow> ?ports ! 0)) uid
    (replace_first ''ivpn.net'' ''inet-telecom.com'' dns)"
  have "?r = (Some v, None) \<and> (\<exists>lp b. wrapper_GetLocalPort v = Inr (lp, b) \<and> updated = v2_params lp params)
      \<and> orig = Some (v2_original t params) \<and> err = None"
    using assms by (cases ?r) (auto simp: v2_start_client_def Let_def split: if_splits sum.splits option.splits)
  then show "\<exists>ip tls. v2r_Start (ce_v2 ce) (V2RayBinaryPath ce) (V2RayConfigFile ce) False t outIp n inIp ip uid tls
      = (Some v, None)"
    and "\<exists>lp b. wrapper_GetLocalPort v = Inr (lp, b) \<and> updated = v2_params lp params"
    and "orig = Some (v2_original t params)" "err = None"
    by blast+
qed

text \<open>
  Starting V2Ray puts a local proxy between the client and the entry server. When it
  succeeds, the client process is directed at the V2Ray address of the first entry host,
  on the port of the connection (or the default port of the transport), over TCP exactly
  for the TCP transport; it listens on a free local UDP port; the new parameters lead to
  127.0.0.1 and this port, by the same protocol; and what is remembered of the entry server
  is its address and port from before.
\<close>

theorem v2_redirects_connection:
  assumes ports: "\<forall>i t p. v2_free_port (ce_v2 ce) i t = Inr p \<longrightarrow> 0 < p \<and> p < 65536"
    and vt: "VpnType params \<in> {OpenVPN, WireGuard}"
    and r: "startV2Ray env ce params t = Inr (updated, Some v, orig, err)"
  shows "err = None \<and> (\<exists>h n lp h' svr. entry_base params = Some h
    \<and> getRemoteEndpoint v = Inr (parse_ip (V2RayHost h), n, t = V2RayTCP)
    \<and> n = (if fst (conn_Port params) \<noteq> 0 then fst (conn_Port params) else if t = V2RayTCP then 80 else 443)
    \<and> wrapper_GetLocalPort v = Inr (lp, False) \<and> 0 < lp \<and> lp < 65536
    \<and> entry_base updated = Some h' \<and> Host h' = ''127.0.0.1'' \<and> fst (conn_Port updated) = lp
    \<and> VpnType updated = VpnType params
    \<and> orig = Some svr \<and> svr_IP svr = parse_ip (Host h) \<and> svr_Port svr = fst (conn_Port params)
    \<and> svr_V2RayProxyType svr = t)"
proof -
  let ?n = "if fst (conn_Port params) \<noteq> 0 then fst (conn_Port params) else if t = V2RayTCP then 80 else 443"
  obtain svrs outIp dns inIp ps where ep: "v2_endpoints svrs ?n params = Some (outIp, dns, inIp, ps)"
    and c: "v2_start_client ce params t ?n (v2_ID (V2RayInfo (Ports (Config svrs)))) (outIp, dns, inIp, ps)
      = Inr (updated, Some v, orig, err)"
    using r by (auto simp: startV2Ray_def case_prod_unfold Let_def split: if_splits sum.splits option.splits)
  note c' = v2_client_started [OF c]
  obtain ip tls where s: "v2r_Start (ce_v2 ce) (V2RayBinaryPath ce) (V2RayConfigFile ce) False t outIp ?n inIp ip
      (v2_ID (V2RayInfo (Ports (Config svrs)))) tls = (Some v, None)"
    using c'(1) by blast
  obtain h where h: "entry_base params = Some h" "outIp = V2RayHost h" using v2_endpoints_entry [OF vt ep] by blast
  note w = v2r_Start_wrapper [OF ports s]
  obtain p where p: "wrapper_GetLocalPort v = Inr (p, False)" "0 < p" "p < 65536" "updated = v2_params p params"
    using w(2) c'(2) by auto
  show ?thesis
    using h w(1) p c'(3,4) v2_params_entry [OF vt h(1), of p] v2_original_entry [OF vt h(1), of t] by auto
qed

text \<open>A WireGuard connection over V2Ray and a list of servers with its port.\<close>

definition sample_hosts :: "WireGuardServerHostInfo list" where
  "sample_hosts = [\<lparr>Hostname = ''h'', Host = ''1.2.3.4'', DnsName = ''h.wg.ivpn.net'', MultihopPort = 0, Load = 0,
     V2RayHost = ''5.6.7.8'', host_ISP = [], PublicKey = ''k'', LocalIP = ''172.16.0.1/12'',
     wg_IPv6 = \<lparr>ipv6_Host = [], ipv6_LocalIP = []\<rparr>\<rparr>]"

definition sample_params :: ConnectionParams where
  "sample_params = noConnectionParams\<lparr>VpnType := WireGuard,
     WireGuardParameters := (WireGuardParameters noConnectionParams)\<lparr>wg_Entry := sample_hosts,
       wg_Port := \<lparr>cport_Protocol = 0, cport_Port = 2049\<rparr>, wg_V2RayProxy := V2RayQUIC\<rparr>\<rparr>"

definition sample_servers :: ServersInfoResponse where
  "sample_servers = \<lparr>WireguardServers = [], OpenvpnServers = [], Config =
     \<lparr>Antitracker = \<lparr>at_Default = [], at_Hardcore = []\<rparr>,
      AntiTrackerPlus = [], APIInfo = \<lparr>IPAddresses = [], IPv6Addresses = []\<rparr>,
      Ports = \<lparr>pi_OpenVPN = [], pi_WireGuard = [], Obfs3 = 0, Obfs4 = 0, Test = [], V2RayInfo =
        \<lparr>v2_ID = ''id'', v2_OpenVPN = [], v2_WireGuard = [\<lparr>port_Type = ''UDP'', port_Port = 15351\<rparr>]\<rparr>\<rparr>\<rparr>\<rparr>"

definition sample_conn_env :: conn_env where
  "sample_conn_env = \<lparr>ce_api = (\<lambda>_. (Some (noAccount\<lparr>acc_Active := True\<rparr>, ''device''), None, None)),
     ce_rnd = (\<lambda>_ _. Some 0), ce_port_rnd = (\<lambda>_. Some 0), ce_v2 = sample_v2_env,
     V2RayBinaryPath = ''v2ray'', V2RayConfigFile = ''v2ray.json'', ce_keys = sample_keys,
     ce_dns = [172, 16, 0, 1], ce_attempts = []\<rparr>"

lemma sample_started:
  assumes "tls \<noteq> []"
  shows "\<exists>v. v2r_Start sample_v2_env ''v2ray'' ''v2ray.json'' False V2RayQUIC ''5.6.7.8'' 2049 ''1.2.3.4'' 15351 ''id'' tls
    = (Some v, None) \<and> wrapper_GetLocalPort v = Inr (5000, False)"
proof -
  have trims: "trim_space ''1.2.3.4'' = ''1.2.3.4''" "trim_space ''5.6.7.8'' = ''5.6.7.8''" "trim_space ''id'' = ''id''"
    by code_simp+
  show ?thesis using assms
    by (simp add: v2r_Start_def V2RayQUIC_def V2RayTCP_def sample_v2_env_def eval_nat_numeral
        CreateConfig_OutboundsQuick_def createConfigFromTemplate_def upd_stream_def defaultConfig_def Let_def
        SetLocalPort_def wrapper_start_def CreateV2RayWrapper_def v2_isValid_def atoi_show_int min_int64_def
        max_int64_def trims v2_launch_def setMainRoute_def implSetMainRoute_def saveServerRoute_def
        v2_shell_def getRemoteEndpoint_def getLocalInterfaceIp_def v2_check_started_def wrapper_GetLocalPort_def
        GetLocalPort_def to_lower_def to_lower_char_def)
qed

theorem v2_redirects_connection_witness:
  "case startV2Ray (truthful_env\<lparr>ServersList := Inr sample_servers\<rparr>) sample_conn_env sample_params V2RayQUIC of
     Inr (updated, Some v, _, _) \<Rightarrow>
       fst (conn_Port updated) = 5000 \<and> getRemoteEndpoint v = Inr (parse_ip ''5.6.7.8'', 2049, False)
   | _ \<Rightarrow> False"
proof -
  let ?env = "truthful_env\<lparr>ServersList := Inr sample_servers\<rparr>"
  let ?r = "startV2Ray ?env sample_conn_env sample_params V2RayQUIC"
  let ?tls = "replace_first ''ivpn.net'' ''inet-telecom.com'' ''h.wg.ivpn.net''"
  have "to_lower ''UDP'' = ''udp''" "trim_space ''udp'' = ''udp''" by code_simp+
  then have "v2_inbound_ports [\<lparr>port_Type = ''UDP'', port_Port = 15351\<rparr>]
      = [\<lparr>port_Type = ''UDP'', port_Port = 15351\<rparr>]" by (simp add: v2_inbound_ports_def)
  moreover have "?tls \<noteq> []" by simp
  ultimately obtain u v orig err where r: "?r = Inr (u, Some v, orig, err)" "fst (conn_Port u) = 5000"
    using sample_started [of ?tls]
    by (auto simp: startV2Ray_def v2_start_client_def v2_endpoints_def sample_params_def sample_servers_def
        sample_hosts_def sample_conn_env_def conn_Port_def v2_params_def noConnectionParams_def V2RayQUIC_def V2RayTCP_def Let_def)
  have p: "\<forall>i t p. v2_free_port (ce_v2 sample_conn_env) i t = Inr p \<longrightarrow> 0 < p \<and> p < 65536"
    by (simp add: sample_conn_env_def sample_v2_env_def)
  have vt: "VpnType sample_params \<in> {OpenVPN, WireGuard}" by (simp add: sample_params_def)
  have h: "entry_base sample_params = Some (HostInfoBase.truncate (hd sample_hosts))"
    "fst (conn_Port sample_params) = 2049" "V2RayHost (HostInfoBase.truncate (hd sample_hosts)) = ''5.6.7.8''"
    by (simp_all add: entry_base_def sample_params_def sample_hosts_def conn_Port_def)
  show ?thesis using v2_redirects_connection [OF p vt r(1)] r h transports_differ
    by (auto simp: V2RayQUIC_def V2RayTCP_def)
qed

subsection \<open>The account\<close>

lemma store_params [simp]:
  "Account (sv_preferences (setConnectionParams env p s)) = Account (sv_preferences s)"
  "Session (sv_preferences (setConnectionParams env p s)) = Session (sv_preferences s)"
  "IsFwAllowApiServers (sv_preferences (setConnectionParams env p s)) = IsFwAllowApiServers (sv_preferences s)"
  "sv_tmpParams (setConnectionParams env p s) = sv_tmpParams s"
  by (simp_all add: setConnectionParams_def setPreferences_eq)

lemma answer_stored:
  assumes "SessionToken (Session (sv_preferences s)) = tok" "IsLoggedIn (Session (sv_preferences s))"
    "AccountID (Session (sv_preferences s)) \<noteq> []"
  shows "snd (fst (session_answer env tok (Some (acc, dev), None, None) s)) = None"
    "Account (sv_preferences (snd (session_answer env tok (Some (acc, dev), None, None) s))) = acc"
    "sv_tmpParams (snd (session_answer env tok (Some (acc, dev), None, None) s)) = sv_tmpParams s"
  using assms by (auto simp: session_answer_def service_OnSessionStatus_def UpdateSessionData_def save_prefs_def
      emit_def IsLoggedIn_def Let_def)

text \<open>
  A renewed account is refused once: \<open>Connect\<close> asks the backend for the status of an
  account that is stored as inactive, and refuses the connection whenever the request
  succeeds, even if the answer says that the account is active again. It decides on the
  copy of the preferences it made before the request; the active account is stored, so
  only the next attempt goes on.
\<close>

theorem connect_refuses_renewed_account:
  assumes "IsLoggedIn (Session (sv_preferences s))" "AccountID (Session (sv_preferences s)) \<noteq> []"
    and "\<not> acc_Active (Account (sv_preferences s))"
    and "IsFwAllowApiServers (sv_preferences s)"
    and "ce_api ce (SessionToken (Session (sv_preferences s))) = (Some (acc, dev), None, None)"
  shows "\<exists>err t. Connect env ce shared params s = ((Keep_return (Some err), []), t)
    \<and> Account (sv_preferences t) = acc"
proof -
  let ?s = "setConnectionParams env params (s\<lparr>sv_tmpParams := noConnectionParams\<rparr>)"
  let ?tok = "SessionToken (Session (sv_preferences s))"
  let ?a = "session_answer env ?tok (Some (acc, dev), None, None) (emit (Api_SessionStatus ?tok) ?s)"
  have r: "RequestSessionStatus env (ce_api ce) ?s = ?a"
    using assms by (simp add: RequestSessionStatus_def IsConnectivityBlocked_def Let_def)
  have a: "snd (fst ?a) = None" "Account (sv_preferences (snd ?a)) = acc" "sv_tmpParams (snd ?a) = noConnectionParams"
    using assms(1,2) answer_stored [of "emit (Api_SessionStatus ?tok) ?s" ?tok env acc dev]
    by (simp_all add: emit_def)
  obtain m where "connect_account env (ce_api ce) (sv_preferences ?s) ?s = (Some m, snd ?a)"
    using assms(3) a(1) by (auto simp: connect_account_def r case_prod_unfold Let_def)
  then have b: "connect_body env ce sh params ?s = ((Keep_return (Some m), []), snd ?a)" for sh
    by (simp add: connect_body_def failed_def Let_def)
  have "CheckIsDefined noConnectionParams \<noteq> None"
    by (simp add: CheckIsDefined_def noConnectionParams_def)
  then have "Connect env ce shared params s = ((Keep_return (Some m), []), snd ?a)"
    using a(3) by (auto simp: Connect_def b Let_def)
  then show ?thesis using a(2) by blast
qed

theorem connect_refuses_renewed_account_witness:
  "\<exists>err t. Connect truthful_env sample_conn_env False sample_params
      (svc_init ((pref_Create ''id'')\<lparr>Session := sample_session\<rparr>)) = ((Keep_return (Some err), []), t)
    \<and> acc_Active (Account (sv_preferences t))"
proof -
  let ?s = "svc_init ((pref_Create ''id'')\<lparr>Session := sample_session\<rparr>)"
  have "IsLoggedIn (Session (sv_preferences ?s))" "AccountID (Session (sv_preferences ?s)) \<noteq> []"
    "\<not> acc_Active (Account (sv_preferences ?s))"
    "IsFwAllowApiServers (sv_preferences ?s)"
    by code_simp+
  then obtain err t where "Connect truthful_env sample_conn_env False sample_params ?s = ((Keep_return (Some err), []), t)"
    "Account (sv_preferences t) = noAccount\<lparr>acc_Active := True\<rparr>"
    using connect_refuses_renewed_account [of ?s sample_conn_env "noAccount\<lparr>acc_Active := True\<rparr>" "''device''"
        truthful_env False sample_params]
    by (auto simp: sample_conn_env_def)
  then show ?thesis by auto
qed

end
