(* ===== verification/Ping_Proofs.thy ===== *)
theory Ping_Proofs
  imports Service_Ping
begin

section \<open>Which servers are pinged, and in which order\<close>

text \<open>
  The priority word of a host as a number, and the hosts the second phase adds to those of
  the first: none.
\<close>

unbundle bit_operations_syntax

subsection \<open>Priorities\<close>

lemma masks: "n AND 3 = take_bit 2 n" "n AND 255 = take_bit 8 n" for n :: int
  by (simp_all add: take_bit_eq_mask mask_eq_exp_minus_1)

text \<open>The three fields of the word do not overlap, so \<open>OR\<close> adds them.\<close>

lemma or_fields:
  fixes p v i :: int
  shows "uint (push_bit 14 (word_of_int (take_bit 2 p)) OR push_bit 12 (word_of_int (take_bit 2 v))
      OR (word_of_int (take_bit 8 i) :: 16 word))
    = 16384 * take_bit 2 p + 4096 * take_bit 2 v + take_bit 8 i"
proof -
  let ?a = "push_bit 14 (take_bit 2 p)" and ?b = "push_bit 12 (take_bit 2 v)" and ?c = "take_bit 8 i"
  have "uint (push_bit 14 (word_of_int (take_bit 2 p)) OR push_bit 12 (word_of_int (take_bit 2 v))
      OR (word_of_int (take_bit 8 i) :: 16 word)) = ?a OR ?b OR ?c"
    by (rule bit_eqI) (auto simp: bit_simps)
  also have "\<dots> = ?a + (?b OR ?c)"
    by (rule disjunctive_add_eq_or [symmetric], rule bit_eqI) (auto simp: bit_simps)
  also have "?b OR ?c = ?b + ?c"
    by (rule disjunctive_add_eq_or [symmetric], rule bit_eqI) (auto simp: bit_simps)
  finally show ?thesis by (simp add: push_bit_eq_mult)
qed

definition prio :: "pingHost \<Rightarrow> int" where
  "prio h = uint (ph_priority h)"

lemma prio_set: "prio (setPriority rnd ph v i h) =
    16384 * (ph mod 4) + 4096 * ((if v = 0 then 1 + rnd else v) mod 4) + i mod 256"
  using or_fields [of ph "if v = 0 then 1 + rnd else v" i]
  by (simp add: prio_def setPriority_def masks take_bit_eq_mod Let_def)

text \<open>
  The order in which hosts are pinged when no location is known: those of the first
  phase first, within a phase those of the preferred kind of VPN, then by their position
  in the list of their server -- up to 256: the position is cut to its low eight bits, so
  the 257th host of a server ranks with the first.
\<close>

theorem ping_order:
  assumes "p \<in> {0, 1}" "q \<in> {0, 1}" "v \<in> {1, 2}" "w \<in> {1, 2}"
  shows "ping_less pe None (setPriority r p v i g) (setPriority r' q w j h) \<longleftrightarrow>
    p < q \<or> p = q \<and> (v < w \<or> v = w \<and> i mod 256 < j mod 256)"
proof -
  let ?x = "setPriority r p v i g" and ?y = "setPriority r' q w j h"
  have less: "ping_less pe None ?x ?y \<longleftrightarrow> prio ?x < prio ?y"
    by (auto simp: ping_less_def prio_def word_less_def)
  have m: "p mod 4 = p" "q mod 4 = q" "v mod 4 = v" "w mod 4 = w" "v \<noteq> 0" "w \<noteq> 0" using assms by auto
  obtain a b where ab: "a = i mod 256" "b = j mod 256" "0 \<le> a" "a < 256" "0 \<le> b" "b < 256" by simp
  have "prio ?x < prio ?y \<longleftrightarrow> 16384 * p + 4096 * v + a < 16384 * q + 4096 * w + b"
    by (simp add: prio_set m ab(1,2))
  also have "\<dots> \<longleftrightarrow> p < q \<or> p = q \<and> (v < w \<or> v = w \<and> a < b)"
    using assms ab(3-) by auto
  finally show ?thesis by (simp add: less ab(1,2))
qed

theorem ping_order_witness:
  "\<forall>pe g h. ping_less pe None (setPriority 0 0 1 256 g) (setPriority 0 0 1 1 h)"
  using ping_order [of 0 0 1 1 _ 0 256 _ 0 1] by simp

subsection \<open>The second phase\<close>

lemma unique_append: "unique_hosts (xs @ ys) acc = unique_hosts ys (unique_hosts xs acc)"
  by (induction xs arbitrary: acc) auto

lemma unique_dom:
  "dom (map_of (unique_hosts xs acc)) = dom (map_of acc) \<union> (\<lambda>h. ip_string (ph_host h)) ` set xs"
  by (induction xs arbitrary: acc) (auto simp: dom_map_of_conv_image_fst map_of_eq_None_iff image_iff)

lemma unique_known:
  "(\<lambda>h. ip_string (ph_host h)) ` set xs \<subseteq> dom (map_of acc) \<Longrightarrow> unique_hosts xs acc = acc"
  by (induction xs arbitrary: acc) auto

lemma map_enumerate_snd [simp]: "map (\<lambda>p. f (snd p)) (List.enumerate n xs) = map f xs"
  by (induction xs arbitrary: n) auto

text \<open>The addresses do not depend on the phase, the priority or the random numbers.\<close>

lemma server_hosts_addr:
  "map ph_host (server_hosts rnd ph v svr) =
     filter (\<lambda>a. \<not> is_unspecified a)
       (map (\<lambda>h. parse_ip (hd (split_on (CHR ''/'') (Host h)))) (generic_hosts svr))"
proof -
  have "map ph_host (filter (\<lambda>h. \<not> is_unspecified (ph_host h)) xs)
      = filter (\<lambda>a. \<not> is_unspecified a) (map ph_host xs)" for xs :: "pingHost list"
    by (induction xs) auto
  then show ?thesis
    using map_enumerate_snd [of "\<lambda>h :: HostInfoBase. parse_ip (hd (split_on (CHR ''/'') (Host h)))" 0]
    by (simp add: server_hosts_def setPriority_def Let_def comp_def case_prod_unfold)
qed

lemma getHosts_addr: "map ph_host (getHosts rnd svrs b v) = map ph_host (getHosts rnd' svrs b' v')"
proof -
  have "map ph_host (getHosts rnd svrs b v) =
      concat (map (\<lambda>svr. map ph_host (server_hosts (\<lambda>_. 0) 0 0 svr)) svrs)"
    for rnd b v
    using map_enumerate_snd [of "\<lambda>svr. map ph_host (server_hosts (\<lambda>_. 0) 0 0 svr)" 0 svrs]
    by (simp add: getHosts_def map_concat comp_def case_prod_unfold server_hosts_addr)
  then show ?thesis by metis
qed

text \<open>
  The second phase pings no host the first has not: asking for it adds nothing to the
  hosts, because each address is already there with its priority of the first phase. So
  \<open>skipSecondPhase\<close> only decides whether the hosts left over are pinged later.
\<close>

theorem ping_second_phase_adds_none:
  "ping_getHosts env pe vt False = ping_getHosts env pe vt True"
proof -
  have "unique_hosts (ping_all_hosts pe servers vt False) [] = unique_hosts (ping_all_hosts pe servers vt True) []"
    for servers
  proof -
    let ?wg = "ServersGenericWireguard servers" and ?ov = "ServersGenericOpenvpn servers"
    define pw po where "pw = getVpnPriority WireGuard vt" and "po = getVpnPriority OpenVPN vt"
    define first where "first = getHosts (pe_rnd pe 0) ?wg True pw @ getHosts (pe_rnd pe 1) ?ov True po"
    define more where "more = getHosts (pe_rnd pe 2) ?wg False pw @ getHosts (pe_rnd pe 3) ?ov False po"
    have "map ph_host more = map ph_host first"
      using getHosts_addr [of "pe_rnd pe 2" ?wg False pw "pe_rnd pe 0" True pw]
        getHosts_addr [of "pe_rnd pe 3" ?ov False po "pe_rnd pe 1" True po]
      by (simp add: first_def more_def)
    then have "(\<lambda>h. ip_string (ph_host h)) ` set more = (\<lambda>h. ip_string (ph_host h)) ` set first"
      by (metis image_image list.set_map)
    then have "unique_hosts more (unique_hosts first []) = unique_hosts first []"
      by (intro unique_known) (simp add: unique_dom)
    then show ?thesis
      by (simp add: ping_all_hosts_def first_def more_def pw_def po_def unique_append Let_def flip: append_assoc)
  qed
  then show ?thesis by (simp add: ping_getHosts_def split: sum.split)
qed

end
