(* ===== verification/Go_Regexp.thy ===== *)
theory Go_Regexp
  imports Go_Strings "HOL-Library.Sublist"
begin

section \<open>Regular expressions as the Go library matches them\<close>

text \<open>
  Go's \<open>regexp\<close> chooses, among the matches that start first, the one a backtracking search
  finds first. \<open>rx_run\<close> is that search: all ways to match at the beginning of a text, the
  preferred first, each with the rest of the text and what the groups captured, newest first.
  The texts are bytes: a dot stands next to ASCII only in the patterns of the daemon, where
  bytes and characters of UTF-8 match alike.
\<close>

datatype rx =
    Sym "char \<Rightarrow> bool"
  | Eps
  | Seq rx rx
  | Alt rx rx
  | Star rx
  | Cap nat rx

type_synonym captures = "(nat \<times> string) list"

function rx_run :: "rx \<Rightarrow> string \<times> captures \<Rightarrow> (string \<times> captures) list" where
  "rx_run (Sym P) (s, c) = (case s of [] \<Rightarrow> [] | x # xs \<Rightarrow> if P x then [(xs, c)] else [])"
| "rx_run Eps (s, c) = [(s, c)]"
| "rx_run (Seq a b) (s, c) = concat (map (rx_run b) (rx_run a (s, c)))"
| "rx_run (Alt a b) (s, c) = rx_run a (s, c) @ rx_run b (s, c)"
| "rx_run (Star a) (s, c) =
     concat (map (\<lambda>(s', c'). if length s' < length s then rx_run (Star a) (s', c') else [])
       (rx_run a (s, c))) @ [(s, c)]"
| "rx_run (Cap n a) (s, c) =
     map (\<lambda>(s', c'). (s', (n, take (length s - length s') s) # c')) (rx_run a (s, c))"
  by pat_completeness auto
termination
  by (relation "measures [\<lambda>(r, _). size r, \<lambda>(_, s, _). length s]") auto

declare rx_run.simps(5) [simp del]

subsection \<open>Notions of the syntax\<close>

abbreviation rx_opt :: "rx \<Rightarrow> rx" where "rx_opt r \<equiv> Alt r Eps"
abbreviation rx_plus :: "rx \<Rightarrow> rx" where "rx_plus r \<equiv> Seq r (Star r)"

fun rx_upto :: "nat \<Rightarrow> rx \<Rightarrow> rx" where
  "rx_upto 0 r = Eps"
| "rx_upto (Suc n) r = Alt (Seq r (rx_upto n r)) Eps"

fun rx_times :: "nat \<Rightarrow> rx \<Rightarrow> rx" where
  "rx_times 0 r = Eps"
| "rx_times (Suc n) r = Seq r (rx_times n r)"

definition rx_between :: "nat \<Rightarrow> nat \<Rightarrow> rx \<Rightarrow> rx" where
  "rx_between n m r = Seq (rx_times n r) (rx_upto (m - n) r)"

definition rx_any :: rx where "rx_any = Sym (\<lambda>c. c \<noteq> CHR 0x0A)"
definition rx_digit :: rx where "rx_digit = Sym is_digit"
definition rx_blank :: rx where "rx_blank = Sym (\<lambda>c. c = CHR '' '' \<or> c = CHR 0x09)"
definition rx_ws :: rx where "rx_ws = Sym (\<lambda>c. c \<in> set [CHR '' '', CHR 0x09, CHR 0x0A, CHR 0x0D])"

fun rx_lit :: "string \<Rightarrow> rx" where
  "rx_lit [] = Eps"
| "rx_lit (c # cs) = Seq (Sym ((=) c)) (rx_lit cs)"

text \<open>
  A literal under \<open>(?i)\<close>: a letter matches in both cases, and \<open>s\<close> and \<open>k\<close> match the two
  letters beyond ASCII that fold to them.
\<close>

definition rx_fold_char :: "char \<Rightarrow> rx" where
  "rx_fold_char c =
     (let r = Sym (\<lambda>x. to_lower_char x = to_lower_char c) in
      if to_lower_char c = CHR ''s'' then Alt r (rx_lit [CHR 0xC5, CHR 0xBF])
      else if to_lower_char c = CHR ''k'' then Alt r (rx_lit [CHR 0xE2, CHR 0x84, CHR 0xAA])
      else r)"

fun rx_lit_fold :: "string \<Rightarrow> rx" where
  "rx_lit_fold [] = Eps"
| "rx_lit_fold (c # cs) = Seq (rx_fold_char c) (rx_lit_fold cs)"

subsection \<open>Searching\<close>

text \<open>The preferred match at the beginning: what it matched, and the groups.\<close>

definition rx_at :: "rx \<Rightarrow> string \<Rightarrow> (string \<times> captures) option" where
  "rx_at r s = (case rx_run r (s, []) of [] \<Rightarrow> None
     | (s', c) # _ \<Rightarrow> Some (take (length s - length s') s, c))"

fun rx_find :: "rx \<Rightarrow> string \<Rightarrow> (string \<times> captures) option" where
  "rx_find r [] = rx_at r []"
| "rx_find r (x # xs) = (case rx_at r (x # xs) of Some m \<Rightarrow> Some m | None \<Rightarrow> rx_find r xs)"

text \<open>A group that did not take part is the empty text.\<close>

definition group :: "nat \<Rightarrow> captures \<Rightarrow> string" where
  "group n c = (case map_of c n of None \<Rightarrow> [] | Some t \<Rightarrow> t)"

definition rx_matches :: "rx \<Rightarrow> string \<Rightarrow> bool" where
  "rx_matches r s \<longleftrightarrow> rx_find r s \<noteq> None"

subsection \<open>Facts\<close>

lemma rx_run_star:
  assumes "x \<in> set (rx_run (Star a) (s, c))"
  shows "x = (s, c) \<or>
     (\<exists>y. y \<in> set (rx_run a (s, c)) \<and> length (fst y) < length s \<and> x \<in> set (rx_run (Star a) y))"
proof -
  let ?f = "\<lambda>(s', c'). if length s' < length s then rx_run (Star a) (s', c') else []"
  have "x \<in> set (concat (map ?f (rx_run a (s, c))) @ [(s, c)])"
    using assms by (subst (asm) rx_run.simps(5))
  then have "x = (s, c) \<or> (\<exists>y \<in> set (rx_run a (s, c)). x \<in> set (?f y))" by auto
  then show ?thesis by (auto split: prod.splits if_splits)
qed

lemma rx_run_shorter: "x \<in> set (rx_run r p) \<Longrightarrow> suffix (fst x) (fst p)"
proof (induction r p arbitrary: x rule: rx_run.induct)
  case (3 a b s c)
  then obtain y where y: "y \<in> set (rx_run a (s, c))" "x \<in> set (rx_run b y)" by auto
  have "suffix (fst y) s" using 3(1) [OF y(1)] by simp
  moreover have "suffix (fst x) (fst y)" using 3(2) [OF y] .
  ultimately show ?case by (metis fst_conv suffix_order.trans)
next
  case (5 a s c)
  from rx_run_star [OF 5(3)] show ?case
  proof
    assume "x = (s, c)"
    then show ?thesis by simp
  next
    assume "\<exists>y. y \<in> set (rx_run a (s, c)) \<and> length (fst y) < length s \<and> x \<in> set (rx_run (Star a) y)"
    then obtain s1 c1 where y: "(s1, c1) \<in> set (rx_run a (s, c))" "length s1 < length s"
      "x \<in> set (rx_run (Star a) (s1, c1))" by (metis fst_conv surj_pair)
    have "suffix s1 s" using 5(1) [OF y(1)] by simp
    moreover have "suffix (fst x) s1" using 5(2) [OF y(1) refl y(2) y(3)] by simp
    ultimately show ?thesis by (metis fst_conv suffix_order.trans)
  qed
qed (auto split: list.splits if_splits simp: suffix_Cons)

lemma rx_run_suffix: "(s', c') \<in> set (rx_run r (s, c)) \<Longrightarrow> suffix s' s"
  using rx_run_shorter [of "(s', c')" r "(s, c)"] by simp

lemma rx_lit_run: "rx_run (rx_lit w) (s, c) = (if prefix w s then [(drop (length w) s, c)] else [])"
proof (induction w arbitrary: s)
  case Nil
  then show ?case by simp
next
  case (Cons a w)
  then show ?case by (cases s) auto
qed

lemma rx_at_split:
  assumes "rx_at r s = Some (m, c)"
  shows "\<exists>s'. s = m @ s' \<and> (s', c) \<in> set (rx_run r (s, []))"
proof -
  obtain s' ys where ys: "rx_run r (s, []) = (s', c) # ys" "m = take (length s - length s') s"
    using assms by (auto simp: rx_at_def split: list.splits)
  then have "suffix s' s" using rx_run_suffix [of s' c r s "[]"] by simp
  then show ?thesis using ys by (auto simp: suffix_def)
qed

subsection \<open>Showing that a text matches\<close>

text \<open>\<open>matches_to r s s'\<close>: one of the ways to match \<open>r\<close> at the beginning of \<open>s\<close> leaves \<open>s'\<close>.\<close>

definition matches_to :: "rx \<Rightarrow> string \<Rightarrow> string \<Rightarrow> bool" where
  "matches_to r s s' \<longleftrightarrow> (\<forall>c. \<exists>c'. (s', c') \<in> set (rx_run r (s, c)))"

lemma matches_to_Sym: "P x \<Longrightarrow> matches_to (Sym P) (x # s) s"
  by (simp add: matches_to_def)

lemma matches_to_Eps: "matches_to Eps s s"
  by (simp add: matches_to_def)

lemma matches_to_Seq: "matches_to a s s1 \<Longrightarrow> matches_to b s1 s' \<Longrightarrow> matches_to (Seq a b) s s'"
  unfolding matches_to_def by simp blast

lemma matches_to_Star_done: "matches_to (Star a) s s"
  unfolding matches_to_def by (subst rx_run.simps) auto

lemma matches_to_Star_step:
  assumes "matches_to a s s1" "length s1 < length s" "matches_to (Star a) s1 s'"
  shows "matches_to (Star a) s s'"
  unfolding matches_to_def
proof
  fix c
  obtain c1 where c1: "(s1, c1) \<in> set (rx_run a (s, c))" using assms(1) by (auto simp: matches_to_def)
  obtain c2 where c2: "(s', c2) \<in> set (rx_run (Star a) (s1, c1))" using assms(3) by (auto simp: matches_to_def)
  have "(s', c2) \<in> set (rx_run (Star a) (s, c))"
    by (subst rx_run.simps(5)) (use c1 c2 assms(2) in auto)
  then show "\<exists>c'. (s', c') \<in> set (rx_run (Star a) (s, c))" by blast
qed

lemma matches_to_Star_Sym: "list_all P u \<Longrightarrow> matches_to (Star (Sym P)) (u @ s) s"
proof (induction u)
  case Nil
  then show ?case by (simp add: matches_to_Star_done)
next
  case (Cons x u)
  then have "matches_to (Sym P) (x # u @ s) (u @ s)" by (simp add: matches_to_Sym)
  then show ?case using matches_to_Star_step [of "Sym P" "x # u @ s" "u @ s" s] Cons by simp
qed

lemma matches_to_plus_Sym: "u \<noteq> [] \<Longrightarrow> list_all P u \<Longrightarrow> matches_to (rx_plus (Sym P)) (u @ s) s"
  by (cases u) (auto intro: matches_to_Seq [OF matches_to_Sym matches_to_Star_Sym])

lemma matches_to_fold_char: "matches_to (rx_fold_char c) (c # s) s"
  by (auto simp: rx_fold_char_def Let_def matches_to_def)

lemma matches_to_lit_fold: "matches_to (rx_lit_fold w) (w @ s) s"
  by (induction w) (auto intro: matches_to_Eps matches_to_Seq [OF matches_to_fold_char])

lemma rx_find_here: "rx_at r s = Some m \<Longrightarrow> rx_find r s = Some m"
  by (cases s) simp_all

lemma rx_find_later: "rx_find r s \<noteq> None \<Longrightarrow> rx_find r (u @ s) \<noteq> None"
  by (induction u) (auto split: option.split)

lemma rx_matches_at: "matches_to r s s' \<Longrightarrow> rx_matches r (u @ s)"
proof -
  assume "matches_to r s s'"
  then have "\<exists>c'. (s', c') \<in> set (rx_run r (s, []))" unfolding matches_to_def by blast
  then have "rx_run r (s, []) \<noteq> []" by auto
  then obtain m where "rx_at r s = Some m" by (cases "rx_run r (s, [])") (auto simp: rx_at_def)
  then show ?thesis unfolding rx_matches_def using rx_find_here rx_find_later by blast
qed

end
