(* ===== verification/Splittun.thy ===== *)
theory Splittun
  imports Go_Regexp Go_Net "HOL-Library.AList"
begin

section \<open>The split tunnel on Linux (daemon/splittun: splittun.go, splittun\_linux.go)\<close>

text \<open>
  The daemon starts and stops the split tunnel by a script, and finds out which processes run in
  it and to which command they belong. The package variables are the record \<open>st_state\<close>, with the
  calls of the script as a log; Go maps are association lists with distinct keys, whose order is
  the order in which Go happens to iterate. The files under \<^verbatim>\<open>/proc\<close> are the environment.
\<close>

record RunningApp =
  ra_Pid :: int
  ra_Ppid :: int
  ra_Cmdline :: string
  ra_Exe :: string
  ra_ExtIvpnRootPid :: int
  ra_ExtModifiedCmdLine :: string

record st_state =
  funcNotAvailableError :: error
  inverseModeNotAvailableError :: error
  st_isActive :: bool
  addedRootProcesses :: "(int \<times> string) list"
  st_calls :: "string list list"

record st_env =
  se_snap :: bool
  stScriptPath :: string
  se_test :: "string list"  \<comment> \<open>output of the test\<close>
  se_script :: "string list \<Rightarrow> error"
  se_stderr :: string  \<comment> \<open>of the start\<close>
  se_listener :: error
  se_pids :: "gerror + string"
  se_stat :: "int \<Rightarrow> gerror + string"
  se_exe :: "int \<Rightarrow> string"  \<comment> \<open>empty for an error\<close>
  se_cmdline :: "int \<Rightarrow> gerror + string"
  se_environ :: "int \<Rightarrow> gerror + string"
  se_order :: "(int \<times> RunningApp) list \<Rightarrow> (int \<times> RunningApp) list"  \<comment> \<open>of the iteration over the map of processes\<close>

definition st_Exec :: "st_env \<Rightarrow> string list \<Rightarrow> st_state \<Rightarrow> error \<times> st_state" where
  "st_Exec env args s = (se_script env args, s\<lparr>st_calls := st_calls s @ [args]\<rparr>)"

subsection \<open>Starting and stopping\<close>

definition st_isEnabled :: "st_env \<Rightarrow> st_state \<Rightarrow> bool \<times> st_state" where
  "st_isEnabled env s = (let (err, s) = st_Exec env [''status''] s in (err = None, s))"

definition start_args :: "bool \<Rightarrow> bool \<Rightarrow> bool \<Rightarrow> bool \<Rightarrow> string list" where
  "start_args isStInversed isStInverseAllowWhenNoVpn isVpnConnected vpnNoIPv6 =
     (let inversedArg = (if isStInversed then ''-inverse'' else []);
          inverseBlockArg =
            (if isStInversed then
               if \<not> isVpnConnected \<and> \<not> isStInverseAllowWhenNoVpn then ''-inverse_block''
               else if isVpnConnected \<and> vpnNoIPv6 then ''-inverse_block_ipv6'' else []
             else [])
      in [''start'', inversedArg, inverseBlockArg])"

definition st_enable :: "st_env \<Rightarrow> bool \<Rightarrow> bool \<Rightarrow> bool \<Rightarrow> bool \<Rightarrow> bool \<Rightarrow> st_state \<Rightarrow> error \<times> st_state" where
  "st_enable env isEnable isStInversed isStInverseAllowWhenNoVpn isVpnConnected vpnNoIPv6 s =
     (if \<not> isEnable then
        let (enabled, s) = st_isEnabled env s in
        if \<not> enabled then (None, s)
        else case st_Exec env [''stop''] s of
          (Some err, s) \<Rightarrow> (Some (ErrWrap ''failed to disable Split Tunnel'' err), s)
        | (None, s) \<Rightarrow> (None, s\<lparr>st_isActive := isEnable\<rparr>)
      else
        case st_Exec env (start_args isStInversed isStInverseAllowWhenNoVpn isVpnConnected vpnNoIPv6) s of
          (Some err, s) \<Rightarrow>
            (let err = (if length (se_stderr env) > 0 then ErrWrap (se_stderr env) err else err);
                 (_, s) = st_Exec env [''stop''] s
             in (Some (ErrWrap ''failed to enable Split Tunnel'' err), s))
        | (None, s) \<Rightarrow> (None, s\<lparr>st_isActive := isEnable\<rparr>))"

definition warning_text :: string where
  "warning_text = ''Warning: Inverse mode for IVPN Split Tunnel functionality is not applicable.''"

text \<open>The last matching line of the test gives the error; the prefix of a text that begins with it is dropped.\<close>

definition test_output :: "string \<Rightarrow> error \<Rightarrow> error" where
  "test_output text err =
     (if prefix warning_text text then Some (Err (trim_space (drop (length ''Warning: '') text))) else err)"

definition st_implInitialize :: "st_env \<Rightarrow> st_state \<Rightarrow> error \<times> st_state" where
  "st_implInitialize env s =
     (if se_snap env then
        let e = Some (Err ''Split-Tunnelling not applicable out from snap sandbox'') in (e, s\<lparr>funcNotAvailableError := e\<rparr>)
      else if length (stScriptPath env) = 0 then
        let e = Some (Err ''Split-Tunnelling script is not defined'') in (e, s\<lparr>funcNotAvailableError := e\<rparr>)
      else
        let (err, s) = st_Exec env [''test''] s;
            s = s\<lparr>funcNotAvailableError := err,
                  inverseModeNotAvailableError := fold test_output (se_test env) (inverseModeNotAvailableError s)\<rparr>;
            (_, s) = st_enable env False False False False False s
        in if funcNotAvailableError s = None \<and> se_listener env \<noteq> None then (se_listener env, s)
           else (funcNotAvailableError s, s))"

definition implFuncNotAvailableError :: "st_state \<Rightarrow> error \<times> error" where
  "implFuncNotAvailableError s = (funcNotAvailableError s, inverseModeNotAvailableError s)"

text \<open>Two seconds after the network changed, and had not changed again.\<close>

definition st_net_changed :: "st_env \<Rightarrow> bool \<Rightarrow> st_state \<Rightarrow> st_state" where
  "st_net_changed env wasActive s = (if wasActive then snd (st_Exec env [''update-routes''] s) else s)"

definition st_implReset :: "st_env \<Rightarrow> st_state \<Rightarrow> error \<times> st_state" where
  "st_implReset env s = st_Exec env [''reset''] s"

text \<open>\<open>st_ApplyConfig\<close> drops the addresses of the tunnel when there is none.\<close>

definition st_ApplyConfig :: "st_env \<Rightarrow> bool \<Rightarrow> bool \<Rightarrow> bool \<Rightarrow> bool \<Rightarrow> net_ip \<Rightarrow> st_state \<Rightarrow> error \<times> st_state" where
  "st_ApplyConfig env isStEnabled isStInverse isStInverseAllowWhenNoVpn isVpnEnabled IPv6Tunnel s =
     (let IPv6Tunnel = (if isVpnEnabled then IPv6Tunnel else []);
          vpnNoIPv6 = (isVpnEnabled \<and> length IPv6Tunnel = 0)
      in st_enable env isStEnabled isStInverse isStInverseAllowWhenNoVpn isVpnEnabled vpnNoIPv6 s)"

definition implAddPid :: "st_env \<Rightarrow> int \<Rightarrow> string \<Rightarrow> st_state \<Rightarrow> error \<times> st_state" where
  "implAddPid env pid commandToExecute s =
     (if pid \<le> 0 then (Some (Err ''PID is not defined''), s)
      else
        let (enabled, s) = st_isEnabled env s in
        if \<not> enabled then (Some (Err ''the Split Tunnel is disabled''), s)
        else case st_Exec env [''addpid'', show_int pid] s of
          (None, s) \<Rightarrow> (None, s\<lparr>addedRootProcesses := AList.update pid commandToExecute (addedRootProcesses s)\<rparr>)
        | (Some err, s) \<Rightarrow> (Some err, s))"

subsection \<open>Whose child a process is\<close>

text \<open>The recursions go up as long as the parent's parent has a smaller number.\<close>

definition smaller_ppids :: "(int \<times> RunningApp) list \<Rightarrow> RunningApp \<Rightarrow> RunningApp set" where
  "smaller_ppids allPids p = {q \<in> snd ` set allPids. ra_Ppid q < ra_Ppid p}"

lemma smaller_ppids_parent:
  assumes "map_of allPids (ra_Ppid p) = Some parentProc" "\<not> ra_Ppid p \<le> ra_Ppid parentProc"
  shows "card (smaller_ppids allPids parentProc) < card (smaller_ppids allPids p)"
proof (rule psubset_card_mono)
  show "finite (smaller_ppids allPids p)" by (simp add: smaller_ppids_def)
  have "parentProc \<in> snd ` set allPids" using assms(1) by (metis map_of_SomeD image_eqI snd_conv)
  then have "parentProc \<in> smaller_ppids allPids p" using assms(2) by (simp add: smaller_ppids_def)
  moreover have "parentProc \<notin> smaller_ppids allPids parentProc" by (simp add: smaller_ppids_def)
  moreover have "smaller_ppids allPids parentProc \<subseteq> smaller_ppids allPids p"
    using assms(2) by (auto simp: smaller_ppids_def)
  ultimately show "smaller_ppids allPids parentProc \<subset> smaller_ppids allPids p" by blast
qed

function isChildOf :: "RunningApp \<Rightarrow> int \<Rightarrow> (int \<times> RunningApp) list \<Rightarrow> bool" where
  "isChildOf p parentPid allPids =
     (if ra_Ppid p = parentPid then True
      else if ra_ExtIvpnRootPid p > 0 \<and> ra_ExtIvpnRootPid p = parentPid then True
      else case map_of allPids (ra_Ppid p) of
        Some parentProc \<Rightarrow> if ra_Ppid p \<le> ra_Ppid parentProc then False else isChildOf parentProc parentPid allPids
      | None \<Rightarrow> False)"
  by pat_completeness auto
termination
  by (relation "measure (\<lambda>(p, _, allPids). card (smaller_ppids allPids p))") (auto intro: smaller_ppids_parent)

declare isChildOf.simps [simp del]

function getRootPid :: "(int \<times> string) list \<Rightarrow> RunningApp \<Rightarrow> (int \<times> RunningApp) list \<Rightarrow> int \<times> bool" where
  "getRootPid roots p allPids =
     (if map_of roots (ra_Ppid p) \<noteq> None then (ra_Ppid p, True)
      else if map_of roots (ra_Pid p) \<noteq> None then (ra_Pid p, True)
      else if ra_ExtIvpnRootPid p > 0 \<and> map_of roots (ra_ExtIvpnRootPid p) \<noteq> None then (ra_ExtIvpnRootPid p, True)
      else case map_of allPids (ra_Ppid p) of
        Some parentProc \<Rightarrow> if ra_Ppid p \<le> ra_Ppid parentProc then (0, False) else getRootPid roots parentProc allPids
      | None \<Rightarrow> (ra_Ppid p, False))"
  by pat_completeness auto
termination
  by (relation "measure (\<lambda>(_, p, allPids). card (smaller_ppids allPids p))") (auto intro: smaller_ppids_parent)

declare getRootPid.simps [simp del]

subsection \<open>The processes in the split tunnel\<close>

definition rx_nonspace :: rx where
  "rx_nonspace = Sym (\<lambda>c. c \<notin> set [CHR 0x09, CHR 0x0A, CHR 0x0C, CHR 0x0D, CHR '' ''])"

definition regexpStat :: rx where
  "regexpStat = Seq (Cap 1 (Star rx_digit)) (Seq (rx_lit '' '')
     (Seq (Cap 2 (Seq (rx_lit ''('') (Seq (Star (Sym (\<lambda>c. c \<notin> set [CHR 0x09, CHR 0x0A, CHR 0x0C, CHR 0x0D]))) (rx_lit '')''))))
     (Seq (rx_lit '' '') (Seq rx_nonspace (Seq (rx_lit '' '')
     (Seq (Cap 3 (rx_plus rx_digit)) (Seq (rx_lit '' '') (Seq (Cap 4 (rx_plus rx_digit)) (Seq (rx_lit '' '')
       (Cap 5 (rx_plus rx_digit)))))))))))"

definition stat_ppid :: "st_env \<Rightarrow> int \<Rightarrow> int" where
  "stat_ppid env pid =
     (case se_stat env pid of
        Inl _ \<Rightarrow> 0
      | Inr statBytes \<Rightarrow>
          (case rx_at regexpStat statBytes of
             None \<Rightarrow> 0
           | Some (_, c) \<Rightarrow> let (v, err) = atoi (group 3 c) in if err then 0 else v))"

definition trim_prefix :: "string \<Rightarrow> string \<Rightarrow> string" where
  "trim_prefix p s = (if prefix p s then drop (length p) s else s)"

definition clean_cmdline :: "string \<Rightarrow> string" where
  "clean_cmdline bytes =
     (let cmdline = map (\<lambda>b. if b = CHR 0x00 then CHR '' '' else b) bytes in
      trim_space (fold trim_prefix
        [''/usr/bin/ivpn exclude '', ''/usr/bin/ivpn splittun -execute '', ''ivpn exclude '', ''ivpn splittun -execute '']
        cmdline))"

text \<open>The process of a line of the file with the numbers, if there is one.\<close>

definition read_process :: "st_env \<Rightarrow> string \<Rightarrow> RunningApp option" where
  "read_process env s =
     (if length s = 0 then None
      else let (pid, err) = atoi s in
        if err then None
        else case se_cmdline env pid of
          Inl _ \<Rightarrow> None
        | Inr cmdline \<Rightarrow>
            Some \<lparr>ra_Pid = pid, ra_Ppid = stat_ppid env pid, ra_Cmdline = clean_cmdline cmdline, ra_Exe = se_exe env pid,
              ra_ExtIvpnRootPid = 0, ra_ExtModifiedCmdLine = []\<rparr>)"

fun environ_id :: "string list \<Rightarrow> int \<times> bool" where
  "environ_id [] = (0, False)"
| "environ_id (line # vars) =
     (let cols = split_on (CHR ''='') line in
      if length cols \<noteq> 2 then environ_id vars
      else if cols ! 0 = ''IVPN_STARTED_ST_ID'' then atoi (cols ! 1)
      else environ_id vars)"

text \<open>The second component is whether there is an error.\<close>

definition readProcEnvVarIvpnId :: "st_env \<Rightarrow> int \<Rightarrow> int \<times> bool" where
  "readProcEnvVarIvpnId env pid =
     (case se_environ env pid of Inl _ \<Rightarrow> (0, True) | Inr bytes \<Rightarrow> environ_id (split_on (CHR 0x00) bytes))"

type_synonym st_procs = "(int \<times> RunningApp) list"

text \<open>One process of the first marking loop: the processes and the smallest numbers of detached ones.\<close>

definition mark_process ::
  "st_env \<Rightarrow> (int \<times> string) list \<Rightarrow> int \<Rightarrow> st_procs \<times> (int \<times> int) list \<Rightarrow> st_procs \<times> (int \<times> int) list" where
  "mark_process env roots pid = (\<lambda>(procs, detached).
     let value = the (map_of procs pid);
         (rootPid, isKnown) = getRootPid roots value procs;
         value = (if isKnown then value\<lparr>ra_ExtIvpnRootPid := rootPid\<rparr> else value)
     in if ra_ExtIvpnRootPid value \<noteq> 0 then (AList.update pid value procs, detached)
        else
          let (pidEnv, err) = readProcEnvVarIvpnId env (ra_Pid value) in
          if err then (AList.update pid value procs, detached)
          else if map_of roots pidEnv \<noteq> None then (AList.update pid (value\<lparr>ra_ExtIvpnRootPid := pidEnv\<rparr>) procs, detached)
          else (AList.update pid value procs,
                case map_of detached pidEnv of
                  Some minPid \<Rightarrow> if minPid > pid then AList.update pidEnv pid detached else detached
                | None \<Rightarrow> AList.update pidEnv pid detached))"

definition mark_known :: "(int \<times> string) list \<Rightarrow> int \<Rightarrow> st_procs \<Rightarrow> st_procs" where
  "mark_known roots pid procs =
     (let value = the (map_of procs pid) in
      if ra_ExtIvpnRootPid value > 0 then procs
      else let (rootPid, isKnown) = getRootPid roots value procs in
        if isKnown then AList.update pid (value\<lparr>ra_ExtIvpnRootPid := rootPid\<rparr>) procs else procs)"

text \<open>A detached group gets its process with the smallest number as root, if its root died now.\<close>

definition adopt_detached ::
  "(int \<times> string) list \<Rightarrow> int list \<Rightarrow> int \<times> int \<Rightarrow> (int \<times> string) list \<times> st_procs \<Rightarrow> (int \<times> string) list \<times> st_procs" where
  "adopt_detached diedRootPids order = (\<lambda>(rootPidEnv, pid) (roots, procs).
     let roots = (case map_of diedRootPids rootPidEnv of
                    Some diedRootCmd \<Rightarrow> AList.update (ra_Pid (the (map_of procs pid))) diedRootCmd roots
                  | None \<Rightarrow> roots)
     in (roots, fold (mark_known roots) order procs))"

definition implGetRunningApps :: "st_env \<Rightarrow> st_state \<Rightarrow> (gerror + RunningApp list) \<times> st_state" where
  "implGetRunningApps env s =
     (case se_pids env of
        Inl err \<Rightarrow> (Inl err, s)
      | Inr bytes \<Rightarrow>
          let found = List.map_filter (read_process env) (split_on (CHR 0x0A) bytes);
              retMapAll = se_order env (foldl (\<lambda>m p. AList.update (ra_Pid p) p m) [] found);
              roots = addedRootProcesses s;
              diedRootPids = filter (\<lambda>(rootPid, _). map_of retMapAll rootPid = None) roots;
              roots = filter (\<lambda>(rootPid, _). map_of retMapAll rootPid \<noteq> None) roots;
              order = map fst retMapAll;
              (retMapAll, detached) = fold (mark_process env roots) order (retMapAll, []);
              (roots, retMapAll) = fold (adopt_detached diedRootPids order) detached (roots, retMapAll)
          in (Inr (map (\<lambda>(_, value). case map_of roots (ra_Pid value) of
                      Some cmdLine \<Rightarrow> value\<lparr>ra_ExtModifiedCmdLine := cmdLine\<rparr>
                    | None \<Rightarrow> value) retMapAll),
              s\<lparr>addedRootProcesses := roots\<rparr>))"

text \<open>The loop over the processes to remove; the first error is kept.\<close>

fun remove_pids :: "st_env \<Rightarrow> int list \<Rightarrow> error \<Rightarrow> st_state \<Rightarrow> error \<times> st_state" where
  "remove_pids env [] retErr s = (retErr, s)"
| "remove_pids env (pid # pids) retErr s =
     (let (err, s) = st_Exec env [''removepid'', show_int pid] s in
      remove_pids env pids (if err \<noteq> None \<and> retErr = None then err else retErr)
        (if err = None then s\<lparr>addedRootProcesses := AList.delete pid (addedRootProcesses s)\<rparr> else s))"

definition implRemovePid :: "st_env \<Rightarrow> int \<Rightarrow> st_state \<Rightarrow> error \<times> st_state" where
  "implRemovePid env pid s =
     (if pid \<le> 0 then (Some (Err ''PID is not defined''), s)
      else
        let (r, s) = implGetRunningApps env s in
        case r of
          Inl err \<Rightarrow> remove_pids env [pid] (Some err) s
        | Inr runningApps \<Rightarrow>
            let allPids = map (\<lambda>app. (ra_Pid app, app)) runningApps in
            remove_pids env (remdups (pid # map ra_Pid (filter (\<lambda>app. isChildOf app pid allPids) runningApps))) None s)"

end
