(* ===== verification/Protocol_State.thy ===== *)
theory Protocol_State
  imports Service_Machine Eaa Service_Start Splittun
begin

section \<open>The protocol of the clients: state and answers (daemon/protocol)\<close>

text \<open>
  \<open>proto\<close> is the struct \<open>Protocol\<close> with the service and the EAA object it drives and, last,
  the log of what it sends, newest first: the connection, the message and the index of the
  request it answers (0 for a notification). A connection is a number; the map of
  connections is an association list, whose order only decides in which order different
  sockets are written. Encoding to JSON and a failing socket have no effect on the daemon.

  The service calls the event handlers of this component while an operation runs; here
  the events an operation emitted are handled, in their order, when it is done. The
  functions \<open>IsClientConnected\<close>, \<open>IsMainClientConnected\<close>, \<open>IsCanDoBackgroundAction\<close> the
  service asks are computed from the state of this component (\<open>svc_world\<close>); the clock of
  the EAA file is not advanced by that.
\<close>

subsection \<open>Connections\<close>

type_synonym conn = nat

definition ClientUi :: int where "ClientUi = 0"
definition ClientCli :: int where "ClientCli = 1"
definition ClientPortmaster :: int where "ClientPortmaster = 2"
definition ClientOthers :: int where "ClientOthers = 3"

record connectionInfo =
  ci_Type :: int
  IsAuthenticated :: bool
  IsPrioritizedDnsDefined :: bool

subsection \<open>Messages to the clients (protocol/types/responses.go, splittun.go, ivpnclient)\<close>

record DisabledFunctionalityAll = DisabledFunctionality +
  SplitTunnelError :: string
  SplitTunnelInverseError :: string
  DnsMgmtOldResolvconfError :: string
  DnsMgmtNewResolvectlError :: string

record SettingsResp =
  set_IsAutoconnectOnLaunch :: bool
  set_IsAutoconnectOnLaunchDaemon :: bool
  set_UserDefinedOvpnFile :: string
  set_UserPrefs :: bool
  set_WiFi :: WiFiParams
  set_IsLogging :: bool
  set_AntiTracker :: AntiTrackerMetadata

record SessionResp =
  sr_AccountID :: string
  sr_Session :: string
  sr_DeviceName :: string
  sr_WgPublicKey :: string
  sr_WgLocalIP :: string
  sr_WgKeyGenerated :: int
  sr_WgKeysRegenInerval :: int
  sr_WgUsePresharedKey :: bool

record HelloResp =
  hr_Version :: string
  hr_ServiceBinary :: string
  hr_ProcessorArch :: string
  hr_Session :: SessionResp
  hr_Account :: AccountStatus
  hr_DisabledFunctions :: DisabledFunctionalityAll
  hr_CanUseDnsOverTls :: bool
  hr_CanUseDnsOverHttps :: bool
  hr_SettingsSessionUUID :: string
  hr_ParanoidMode :: bool
  hr_DaemonSettings :: SettingsResp

record DnsStatus =
  ds_Dns :: DnsSettings
  ds_AntiTracker :: AntiTrackerMetadata
  ds_TempPrioritizedDns :: TempDnsSettings

record ConnectedResp =
  cr_TimeSecFrom1970 :: int
  cr_ClientIP :: string
  cr_ClientIPv6 :: string
  cr_ServerIP :: string
  cr_ServerPort :: int
  cr_IsTCP :: bool
  cr_Mtu :: int
  cr_IsPaused :: bool
  cr_PausedTill :: string
  cr_VpnType :: int
  cr_ExitHostname :: string
  cr_Dns :: DnsStatus
  cr_V2RayProxy :: int
  cr_Obfsproxy :: obfs_config

record SplitTunnelStatus =
  st_NoFuncReason :: string
  st_IsEnabled :: bool
  st_IsInversed :: bool
  st_IsAnyDns :: bool
  st_IsAllowWhenNoVpn :: bool
  st_IsFunctionalityNotAvailable :: bool
  st_IsCanGetAppIconForBinary :: bool
  st_SplitTunnelApps :: "string list"
  st_RunningApps :: "RunningApp list"

record AppInfo =
  AppName :: string
  AppGroup :: string
  AppIcon :: string
  AppBinaryPath :: string

datatype response =
    EmptyResp
  | ErrorResp string string int  \<comment> \<open>message, title, type\<close>
  | ErrorRespDelayed string
  | ServiceExitingResp
  | Hello_Resp HelloResp
  | Settings_Resp SettingsResp
  | SessionNewResp int string SessionResp AccountStatus string
  | SessionStatusResp int string string AccountStatus string
  | KillSwitchStatusResp KillSwitchStatus
  | DiagnosticsGeneratedResp string string string
  | SetAlternateDNSResp DnsStatus
  | DnsPredefinedConfigsResp "DnsSettings list"
  | Connected_Resp ConnectedResp
  | DisconnectedResp bool int string bool  \<comment> \<open>failure, reason, description, state info\<close>
  | VpnStateResp string int string
  | ServerListResp ServersInfoResponse
  | PingServersResp "(string \<times> int) list"
  | WiFiAvailableNetworksResp "string list"
  | WiFiCurrentNetworkResp string bool string
  | APIResponse string string string
  | CheckAccessiblePortsResponse "PortInfo list"
  | SplitTunnel_Status SplitTunnelStatus
  | SplitTunnelAddAppCmdResp string string bool string
  | AppIconResp string string
  | InstalledAppsResp "AppInfo list"
  | ConnectSettingsResp ConnectionParams
  | ConnectionStartingResp string int int
  | ConnectionStoppedResp

definition ErrorUnknown :: int where "ErrorUnknown = 0"
definition ErrorParanoidModePasswordError :: int where "ErrorParanoidModePasswordError = 1"

definition ReasonUnknown :: int where "ReasonUnknown = 0"
definition AuthenticationError :: int where "AuthenticationError = 1"
definition DisconnectRequested :: int where "DisconnectRequested = 2"

subsection \<open>The world\<close>

text \<open>The checks behind \<open>GetDisabledFunctions\<close>: the access rights of each binary.\<close>

record func_env =
  fe_OpenVpnBinary :: error
  fe_ObfsproxyStartScript :: error
  fe_V2RayBinary :: error
  fe_V2RayConfigFile :: string
  fe_WgBinary :: error
  fe_WgToolBinary :: error
  fe_SplitTunnel :: "error \<times> error"
  fe_ResolvectlBinPath :: string
  fe_SnapEnvs :: bool

text \<open>
  Everything outside: the world of the service and of the EAA file, the answers of the
  operations that are not modelled, the formats of the standard library that depend on
  the time zone. \<open>pe_servers_cached\<close> and \<open>pe_servers_update\<close> are what the updater of the list
  of servers returns: a pointer, which may come with an error, and the error.
\<close>

record proto_env =
  pe_svc :: svc_env
  pe_eaa :: eaa_os
  pe_funcs :: func_env
  pe_dns :: "bool \<times> bool \<times> error"
  pe_predefined_dns :: "gerror + DnsSettings list"
  pe_version :: string
  pe_arch :: string
  pe_binary :: string
  pe_ovpn_user_file :: string
  pe_rfc3339 :: "gotime \<Rightarrow> string"
  pe_stamp :: string
  pe_running_apps :: "RunningApp list"
  pe_can_get_icon :: bool
  pe_ipv6_in_tunnel :: bool
  pe_api_alias :: "string \<Rightarrow> int \<Rightarrow> gerror + string"
  pe_servers_update :: "ServersInfoResponse option \<times> error"
  pe_servers_cached :: "ServersInfoResponse option \<times> error"
  pe_accessible_ports :: "PortInfo list \<Rightarrow> gerror + PortInfo list"
  pe_diagnostics :: "gerror + string \<times> string \<times> string"
  pe_icon :: "string \<Rightarrow> gerror + string"
  pe_apps :: "string \<Rightarrow> gerror + AppInfo list"
  pe_wifi :: "WifiInfo \<times> error"
  pe_wifi_networks :: "string list"
  pe_add_app :: "string \<Rightarrow> bool \<times> error"
  pe_ping :: ping_env
  pe_login :: login_env
  pe_keys :: keys_env
  pe_auto :: auto_env
  pe_status :: "string \<Rightarrow> status_answer"
  WasPingSuccessful :: bool

subsection \<open>The state\<close>

record proto =
  p_secret :: "64 word"
  p_connections :: "(conn \<times> connectionInfo) list"
  p_connRequest :: "ConnectionParams option"
  p_disconnectRequested :: bool
  p_service :: svc
  p_lastVPNState :: StateInfo
  p_lastVpnRemoteEndpoint :: "(net_ip \<times> int \<times> bool) option"
  p_eaa :: eaa
  p_isRunning :: bool
  p_lastConnectionError :: string
  portmasterConnected :: bool
  portmasterWasDetected :: bool
  p_portmasterPings :: nat
  p_auth_events :: "int list"
  p_closed :: "conn list"
  p_sent :: "(conn \<times> response \<times> nat) list"

text \<open>
  The object after \<open>CreateProtocol\<close> and the start of \<open>Start\<close>. The channel of connection
  requests holds one value, so it is an option. The variables of interoperability/main.go are
  fields here, with the number of pings sent to Portmaster. \<open>p_auth_events\<close> are the goroutines
  \<open>clientSetAuthenticated\<close> has started, with the client type each passes to the service;
  \<open>p_closed\<close> the connections closed after a panic, whose readers then end.
\<close>

definition CreateProtocol :: "64 word \<Rightarrow> eaa \<Rightarrow> svc \<Rightarrow> proto" where
  "CreateProtocol secret e s =
     \<lparr>p_secret = secret, p_connections = [], p_connRequest = None, p_disconnectRequested = False,
      p_service = s, p_lastVPNState = NewStateInfo DISCONNECTED [], p_lastVpnRemoteEndpoint = None,
      p_eaa = e, p_isRunning = True, p_lastConnectionError = [], portmasterConnected = False,
      portmasterWasDetected = False, p_portmasterPings = 0, p_auth_events = [], p_closed = [], p_sent = []\<rparr>"

subsection \<open>Sending (send.go)\<close>

definition sendResponse :: "conn \<Rightarrow> response \<Rightarrow> nat \<Rightarrow> proto \<Rightarrow> proto" where
  "sendResponse c cmd idx p = p\<lparr>p_sent := (c, cmd, idx) # p_sent p\<rparr>"

definition notifyClients :: "response \<Rightarrow> proto \<Rightarrow> proto" where
  "notifyClients cmd p = fold (\<lambda>(c, _). sendResponse c cmd 0) (p_connections p) p"

definition sendError :: "conn \<Rightarrow> string \<Rightarrow> nat \<Rightarrow> proto \<Rightarrow> proto" where
  "sendError c errorText cmdIdx p = sendResponse c (ErrorResp errorText [] ErrorUnknown) cmdIdx p"

text \<open>\<open>strings.ToUpper\<close> of the first byte; a byte above 127 is no valid text of its own and
  becomes the replacement character.\<close>

definition to_upper_first :: "char \<Rightarrow> string" where
  "to_upper_first c =
     (if of_char c \<ge> (128::nat) then [CHR 0xEF, CHR 0xBF, CHR 0xBD]
      else if of_char c \<ge> (97::nat) \<and> of_char c \<le> (122::nat) then [char_of (of_char c - 32 :: nat)]
      else [c])"

definition CapitalizeFirstLetter :: "string \<Rightarrow> string" where
  "CapitalizeFirstLetter s = (case s of [] \<Rightarrow> [] | c # cs \<Rightarrow> to_upper_first c @ cs)"

definition sendErrorResponse :: "conn \<Rightarrow> nat \<Rightarrow> gerror \<Rightarrow> proto \<Rightarrow> proto" where
  "sendErrorResponse c idx err p =
     sendResponse c (ErrorResp (CapitalizeFirstLetter (error_text err)) [] ErrorUnknown) idx p"

subsection \<open>The clients (protocol\_private.go)\<close>

definition proto_IsClientConnected :: "proto \<Rightarrow> bool" where
  "proto_IsClientConnected p = list_ex (\<lambda>(_, i). IsAuthenticated i) (p_connections p)"

definition isClientConnectedByType :: "int \<Rightarrow> proto \<Rightarrow> bool" where
  "isClientConnectedByType t p =
     list_ex (\<lambda>(_, i). IsAuthenticated i \<and> ci_Type i = t) (p_connections p)"

definition proto_IsMainClientConnected :: "proto \<Rightarrow> bool" where
  "proto_IsMainClientConnected p = isClientConnectedByType ClientUi p"

definition proto_IsCanDoBackgroundAction :: "proto_env \<Rightarrow> proto \<Rightarrow> bool" where
  "proto_IsCanDoBackgroundAction pe p =
     (if fst (IsEnabled (pe_eaa pe) (p_eaa p)) then proto_IsMainClientConnected p else True)"

definition clientsConnectedCount :: "proto \<Rightarrow> nat" where
  "clientsConnectedCount p = length (p_connections p)"

definition getConnectionInfo :: "conn \<Rightarrow> proto \<Rightarrow> connectionInfo option" where
  "getConnectionInfo c p = map_of (p_connections p) c"

definition set_connection :: "conn \<Rightarrow> connectionInfo \<Rightarrow> proto \<Rightarrow> proto" where
  "set_connection c i p = p\<lparr>p_connections := AList.update c i (p_connections p)\<rparr>"

definition notifyClientsDaemonExiting :: "proto \<Rightarrow> proto" where
  "notifyClientsDaemonExiting p = (notifyClients ServiceExitingResp p)\<lparr>p_connections := []\<rparr>"

definition proto_Stop :: "proto \<Rightarrow> proto" where
  "proto_Stop p = (notifyClientsDaemonExiting p)\<lparr>p_isRunning := False\<rparr>"

subsection \<open>What the service sees of its clients\<close>

definition svc_world :: "proto_env \<Rightarrow> proto \<Rightarrow> svc_env" where
  "svc_world pe p =
     (pe_svc pe)\<lparr>IsClientConnected := proto_IsClientConnected p,
       IsMainClientConnected := proto_IsMainClientConnected p,
       IsCanDoBackgroundAction := proto_IsCanDoBackgroundAction pe p\<rparr>"

end
