(* ===== verification/Protocol_Events.thy ===== *)
theory Protocol_Events
  imports Protocol_State
begin

section \<open>The events of the service and the connection requests (daemon/protocol)\<close>

text \<open>
  The answers that describe the state (helpers.go), the handlers of the events of the
  service (protocol\_handlers.go), \<open>RegisterConnectionRequest\<close> and one round of
  \<open>processConnectionRequests\<close> (protocol.go). \<open>on_svc\<close> runs an operation of the service
  and handles what it emitted.
\<close>

subsection \<open>Disabled functions (service.go, service\_linux.go)\<close>

fun is_not_exist :: "gerror \<Rightarrow> bool" where
  "is_not_exist ErrNotExist = True"
| "is_not_exist (ErrWrap m e) = is_not_exist e"
| "is_not_exist (ErrJoin a b) = (is_not_exist a \<or> is_not_exist b)"
| "is_not_exist _ = False"

definition func_text :: "string \<Rightarrow> error \<Rightarrow> string" where
  "func_text hint err =
     (case err of None \<Rightarrow> []
      | Some e \<Rightarrow> if is_not_exist e \<and> hint \<noteq> [] then error_text e @ ''. '' @ hint else error_text e)"

definition service_GetDisabledFunctions :: "func_env \<Rightarrow> DisabledFunctionalityAll" where
  "service_GetDisabledFunctions fe =
     (let ovpnErr = map_option (ErrWrap ''OpenVPN binary'') (fe_OpenVpnBinary fe);
          obfspErr = map_option (ErrWrap ''obfsproxy binary'') (fe_ObfsproxyStartScript fe);
          v2rayErr = (case fe_V2RayBinary fe of
                        Some e \<Rightarrow> Some (ErrWrap ''V2Ray binary'' e)
                      | None \<Rightarrow> if fe_V2RayConfigFile fe = [] then Some (Err ''V2Ray config file path not defined'')
                                else None);
          wgErr = (case fe_WgBinary fe of
                     Some e \<Rightarrow> Some (ErrWrap ''WireGuard binary'' e)
                   | None \<Rightarrow> map_option (ErrWrap ''WireGuard tools binary'') (fe_WgToolBinary fe));
          (splitTunErr, splitTunInversedErr) = fe_SplitTunnel fe
      in \<lparr>WireGuardError = func_text ''Please install WireGuard'' wgErr,
          OpenVPNError = func_text ''Please install OpenVPN'' ovpnErr,
          ObfsproxyError = func_text ''Please install obfsproxy binary'' obfspErr,
          V2RayError = func_text [] v2rayErr,
          SplitTunnelError = func_text [] splitTunErr,
          SplitTunnelInverseError = func_text [] splitTunInversedErr,
          DnsMgmtOldResolvconfError =
            (if fe_SnapEnvs fe then ''it is not allowed to modify 'resolv.conf' from the snap environment'' else []),
          DnsMgmtNewResolvectlError =
            (if length (fe_ResolvectlBinPath fe) \<le> 0 then ''the 'resolvectl' is not applicable or missing'' else [])\<rparr>)"

subsection \<open>Answers (helpers.go, types/responses.go)\<close>

definition createSettingsResponse :: "proto_env \<Rightarrow> proto \<Rightarrow> SettingsResp" where
  "createSettingsResponse pe p =
     (let prefs = sv_preferences (p_service p) in
      \<lparr>set_IsAutoconnectOnLaunch = IsAutoconnectOnLaunch prefs,
       set_IsAutoconnectOnLaunchDaemon = IsAutoconnectOnLaunchDaemon prefs,
       set_UserDefinedOvpnFile = pe_ovpn_user_file pe, set_UserPrefs = IsDnsMgmtOldStyle prefs,
       set_WiFi = WiFiControl prefs, set_IsLogging = IsLogging prefs,
       set_AntiTracker = GetSettingsAntiTracker (svc_world pe p) (p_service p)\<rparr>)"

text \<open>
  \<open>int64(d.Seconds())\<close> cuts toward zero (the rounding of a \<open>float64\<close> matters only beyond
  \<open>2^53\<close> nanoseconds and is left out); \<open>t.Unix()\<close> counts from 1970.
\<close>

definition int_seconds :: "duration \<Rightarrow> int" where
  "int_seconds d = (if d < 0 then - ((- d) div second) else d div second)"

definition CreateSessionResp :: "SessionStatus \<Rightarrow> SessionResp" where
  "CreateSessionResp s =
     \<lparr>sr_AccountID = AccountID s, sr_Session = SessionToken s, sr_DeviceName = DeviceName s,
      sr_WgPublicKey = WGPublicKey s, sr_WgLocalIP = WGLocalIP s,
      sr_WgKeyGenerated = unix_sec (WGKeyGenerated s) - 62135596800,
      sr_WgKeysRegenInerval = int_seconds (WGKeysRegenInerval s),
      sr_WgUsePresharedKey = (length (WGPresharedKey s) > 0)\<rparr>"

definition noSessionResp :: SessionResp where
  "noSessionResp =
     \<lparr>sr_AccountID = [], sr_Session = [], sr_DeviceName = [], sr_WgPublicKey = [], sr_WgLocalIP = [],
      sr_WgKeyGenerated = 0, sr_WgKeysRegenInerval = 0, sr_WgUsePresharedKey = False\<rparr>"

definition createHelloResponse :: "proto_env \<Rightarrow> proto \<Rightarrow> HelloResp \<times> proto" where
  "createHelloResponse pe p =
     (let prefs = sv_preferences (p_service p);
          (dnsOverHttps, dnsOverTls, err) = pe_dns pe;
          (dnsOverHttps, dnsOverTls) = (if err \<noteq> None then (False, False) else (dnsOverHttps, dnsOverTls));
          (enabled, e) = IsEnabled (pe_eaa pe) (p_eaa p);
          p = p\<lparr>p_eaa := e\<rparr>
      in (\<lparr>hr_Version = pe_version pe, hr_ServiceBinary = [], hr_ProcessorArch = pe_arch pe,
           hr_Session = CreateSessionResp (Session prefs), hr_Account = Account prefs,
           hr_DisabledFunctions = service_GetDisabledFunctions (pe_funcs pe),
           hr_CanUseDnsOverTls = dnsOverTls, hr_CanUseDnsOverHttps = dnsOverHttps,
           hr_SettingsSessionUUID = SettingsSessionUUID prefs, hr_ParanoidMode = enabled,
           hr_DaemonSettings = createSettingsResponse pe p\<rparr>, p))"

definition createDnsStatus :: "proto_env \<Rightarrow> proto \<Rightarrow> DnsStatus" where
  "createDnsStatus pe p =
     \<lparr>ds_Dns = ManualDNS (GetConnectionParams (p_service p)),
      ds_AntiTracker = GetSettingsAntiTracker (svc_world pe p) (p_service p),
      ds_TempPrioritizedDns = TempPrioritizedDns (p_service p)\<rparr>"

definition createAlternateDNSResponse :: "proto_env \<Rightarrow> proto \<Rightarrow> response" where
  "createAlternateDNSResponse pe p = SetAlternateDNSResp (createDnsStatus pe p)"

definition createConnectedResponse :: "proto_env \<Rightarrow> StateInfo \<Rightarrow> proto \<Rightarrow> ConnectedResp" where
  "createConnectedResponse pe state p =
     (let ipv6 = (if si_ClientIPv6 state \<noteq> [] then ip_string (si_ClientIPv6 state) else []);
          pausedTill = sv_pauseTill (p_service p);
          pausedTillStr = (if pausedTill = 0 then [] else pe_rfc3339 pe pausedTill)
      in \<lparr>cr_TimeSecFrom1970 = si_Time state, cr_ClientIP = ip_string (si_ClientIP state),
          cr_ClientIPv6 = ipv6, cr_ServerIP = ip_string (si_ServerIP state),
          cr_ServerPort = si_ServerPort state, cr_IsTCP = si_IsTCP state, cr_Mtu = si_Mtu state,
          cr_IsPaused = IsPaused (p_service p), cr_PausedTill = pausedTillStr,
          cr_VpnType = si_VpnType state, cr_ExitHostname = si_ExitHostname state,
          cr_Dns = createDnsStatus pe p, cr_V2RayProxy = si_V2RayProxy state,
          cr_Obfsproxy = si_Obfsproxy state\<rparr>)"

definition split_tunnel_status :: "proto_env \<Rightarrow> proto \<Rightarrow> SplitTunnelStatus" where
  "split_tunnel_status pe p =
     (let (reason, na, enabled, inversed, anyDns, allow) =
            SplitTunnelling_GetStatus (svc_world pe p) (p_service p)
      in \<lparr>st_NoFuncReason = reason, st_IsEnabled = enabled, st_IsInversed = inversed,
          st_IsAnyDns = anyDns, st_IsAllowWhenNoVpn = allow, st_IsFunctionalityNotAvailable = na,
          st_IsCanGetAppIconForBinary = pe_can_get_icon pe,
          st_SplitTunnelApps = SplitTunnelApps (sv_preferences (p_service p)),
          st_RunningApps = pe_running_apps pe\<rparr>)"

subsection \<open>The handlers (protocol\_handlers.go, protocol.go)\<close>

definition notify_hello :: "proto_env \<Rightarrow> proto \<Rightarrow> proto" where
  "notify_hello pe p = (let (h, p) = createHelloResponse pe p in notifyClients (Hello_Resp h) p)"

definition handle_OnSessionStatus :: "string \<Rightarrow> AccountStatus \<Rightarrow> string \<Rightarrow> proto \<Rightarrow> proto" where
  "handle_OnSessionStatus sessionToken account deviceName p =
     (if length sessionToken = 0 then p
      else notifyClients (SessionStatusResp 0 [] sessionToken account deviceName) p)"

definition handle_OnKillSwitchStateChanged :: "proto_env \<Rightarrow> proto \<Rightarrow> proto" where
  "handle_OnKillSwitchStateChanged pe p =
     (let ((status, err), s) = KillSwitchState (svc_world pe p) (p_service p);
          p = p\<lparr>p_service := s\<rparr>
      in if err \<noteq> None then p else notifyClients (KillSwitchStatusResp status) p)"

definition handle_OnWiFiChanged :: "WifiInfo \<times> error \<Rightarrow> proto \<Rightarrow> proto" where
  "handle_OnWiFiChanged r p =
     (let (info, err) = r in
      notifyClients (WiFiCurrentNetworkResp (info_SSID info) (info_IsInsecure info)
        (case err of None \<Rightarrow> [] | Some e \<Rightarrow> error_text e)) p)"

definition handle_OnPingStatus :: "(string \<times> int) list \<Rightarrow> proto \<Rightarrow> proto" where
  "handle_OnPingStatus retMap p = notifyClients (PingServersResp retMap) p"

definition handle_OnServersUpdated :: "ServersInfoResponse option \<Rightarrow> proto \<Rightarrow> proto" where
  "handle_OnServersUpdated serv p =
     (case serv of None \<Rightarrow> p | Some s \<Rightarrow> notifyClients (ServerListResp s) p)"

definition handle_OnSplitTunnelStatusChanged :: "proto_env \<Rightarrow> proto \<Rightarrow> proto" where
  "handle_OnSplitTunnelStatusChanged pe p =
     notifyClients (SplitTunnel_Status (split_tunnel_status pe p)) p"

definition NewConnectionStarting :: "string \<Rightarrow> int \<Rightarrow> bool \<Rightarrow> response" where
  "NewConnectionStarting address port isTcp = ConnectionStartingResp address port (if isTcp then 6 else 17)"

definition notifyLastConnectionStarting :: "conn option \<Rightarrow> proto \<Rightarrow> proto" where
  "notifyLastConnectionStarting c p =
     (case p_lastVpnRemoteEndpoint p of
        None \<Rightarrow> p
      | Some (address, port, isTcp) \<Rightarrow>
          let msg = NewConnectionStarting (ip_string address) port isTcp in
          case c of None \<Rightarrow> notifyClients msg p | Some c \<Rightarrow> sendResponse c msg 0 p)"

definition handle_OnConnectionStarting :: "net_ip \<Rightarrow> int \<Rightarrow> bool \<Rightarrow> proto \<Rightarrow> proto" where
  "handle_OnConnectionStarting remoteAddress remotePort isTcp p =
     notifyLastConnectionStarting None
       (p\<lparr>p_lastVpnRemoteEndpoint := Some (remoteAddress, remotePort, isTcp)\<rparr>)"

definition handle_OnConnectionStopped :: "proto \<Rightarrow> proto" where
  "handle_OnConnectionStopped p = notifyClients ConnectionStoppedResp (p\<lparr>p_lastVpnRemoteEndpoint := None\<rparr>)"

definition notifyVpnStateChanged :: "proto_env \<Rightarrow> StateInfo option \<Rightarrow> proto \<Rightarrow> proto" where
  "notifyVpnStateChanged pe stateObj p =
     (let p = (case stateObj of None \<Rightarrow> p | Some st \<Rightarrow> p\<lparr>p_lastVPNState := st\<rparr>);
          state = p_lastVPNState p
      in if si_State state = CONNECTED then
           notifyClients (Connected_Resp (createConnectedResponse pe state p)) p
         else if si_State state = DISCONNECTED then p
         else notifyClients (VpnStateResp (state_String (si_State state)) (si_State state)
                (si_StateAdditionalInfo state)) p)"

fun handle_event :: "proto_env \<Rightarrow> event \<Rightarrow> proto \<Rightarrow> proto" where
  "handle_event pe OnKillSwitchStateChanged p = handle_OnKillSwitchStateChanged pe p"
| "handle_event pe OnSplitTunnelStatusChanged p = handle_OnSplitTunnelStatusChanged pe p"
| "handle_event pe OnVpnPauseChanged p = notifyVpnStateChanged pe None p"
| "handle_event pe OnServiceSessionChanged p = notify_hello pe p"
| "handle_event pe (OnSessionStatus token account name) p = handle_OnSessionStatus token account name p"
| "handle_event pe (OnConnectionStarting ip port tcp) p = handle_OnConnectionStarting ip port tcp p"
| "handle_event pe OnConnectionStopped p = handle_OnConnectionStopped p"
| "handle_event pe (OnVpnStateChanged st) p = notifyVpnStateChanged pe (Some st) p"
| "handle_event pe (SystemLog _) p = p"
| "handle_event pe (OnServersUpdated svrs) p = handle_OnServersUpdated (Some svrs) p"
| "handle_event pe (OnWiFiChanged info) p = handle_OnWiFiChanged (info, None) p"
| "handle_event pe (OnPingStatus r) p = handle_OnPingStatus r p"

subsection \<open>Operations of the service\<close>

definition new_calls :: "svc \<Rightarrow> svc \<Rightarrow> ext_call list" where
  "new_calls s t = rev (take (length (sv_log t) - length (sv_log s)) (sv_log t))"

fun handle_call :: "proto_env \<Rightarrow> (ConnectionParams \<Rightarrow> proto \<Rightarrow> proto) \<Rightarrow> ext_call \<Rightarrow> proto \<Rightarrow> proto" where
  "handle_call pe register (Notify e) p = handle_event pe e p"
| "handle_call pe register (Register_Connection r) p = register r p"
| "handle_call pe register _ p = p"

definition on_svc_reg ::
  "(ConnectionParams \<Rightarrow> proto \<Rightarrow> proto) \<Rightarrow> proto_env \<Rightarrow> (svc_env \<Rightarrow> svc \<Rightarrow> 'a \<times> svc) \<Rightarrow> proto \<Rightarrow> 'a \<times> proto" where
  "on_svc_reg register pe f p =
     (let (r, s) = f (svc_world pe p) (p_service p)
      in (r, fold (handle_call pe register) (new_calls (p_service p) s) (p\<lparr>p_service := s\<rparr>)))"

text \<open>
  \<open>Disconnect\<close> registers no connection. A connection the service registers by itself
  (automatic connection) goes the same way as a request of a client.
\<close>

definition RegisterConnectionRequest :: "proto_env \<Rightarrow> ConnectionParams \<Rightarrow> proto \<Rightarrow> proto" where
  "RegisterConnectionRequest pe r p =
     snd (on_svc_reg (\<lambda>_ p. p) pe Disconnect
       (p\<lparr>p_disconnectRequested := False, p_connRequest := Some r\<rparr>))"

definition on_svc :: "proto_env \<Rightarrow> (svc_env \<Rightarrow> svc \<Rightarrow> 'a \<times> svc) \<Rightarrow> proto \<Rightarrow> 'a \<times> proto" where
  "on_svc pe f p = on_svc_reg (RegisterConnectionRequest pe) pe f p"

abbreviation do_svc :: "proto_env \<Rightarrow> (svc_env \<Rightarrow> svc \<Rightarrow> svc) \<Rightarrow> proto \<Rightarrow> proto" where
  "do_svc pe f p \<equiv> snd (on_svc pe (\<lambda>env s. ((), f env s)) p)"

end
