(* ===== verification/Protocol_Clients.thy ===== *)
theory Protocol_Clients
  imports Protocol_Events
begin

section \<open>Clients and connection requests (daemon/protocol, daemon/interoperability)\<close>

text \<open>
  The life of a client's connection (protocol\_private.go) and the processing of the
  connection requests (protocol.go). A panic outside every recovering function ends the
  daemon; an operation that may panic so returns an option.
\<close>

subsection \<open>Portmaster (interoperability/main.go)\<close>

definition interop_ClientConnected :: "int \<Rightarrow> proto \<Rightarrow> proto" where
  "interop_ClientConnected t p =
     (if t = ClientPortmaster then p\<lparr>portmasterConnected := True, portmasterWasDetected := True\<rparr> else p)"

definition interop_ClientDisconnected :: "int \<Rightarrow> proto \<Rightarrow> proto" where
  "interop_ClientDisconnected t p = (if t = ClientPortmaster then p\<lparr>portmasterConnected := False\<rparr> else p)"

definition interop_Ping :: "proto \<Rightarrow> proto" where
  "interop_Ping p = p\<lparr>p_portmasterPings := p_portmasterPings p + 1\<rparr>"

definition interop_PingDetectedApps :: "proto_env \<Rightarrow> proto \<Rightarrow> proto" where
  "interop_PingDetectedApps pe p =
     (if \<not> portmasterWasDetected p \<and> \<not> WasPingSuccessful pe then p
      else if portmasterConnected p then p else interop_Ping p)"

subsection \<open>Clients (protocol\_private.go)\<close>

definition portmaster_reason :: string where
  "portmaster_reason = ''Split Tunnel functionality is currently disabled for compatibility with Portmaster, which has been detected as running on this system.''"

definition clientConnected :: "proto_env \<Rightarrow> conn \<Rightarrow> int \<Rightarrow> proto \<Rightarrow> proto" where
  "clientConnected pe c cType p =
     (let p = set_connection c
                \<lparr>ci_Type = cType, IsAuthenticated = False, IsPrioritizedDnsDefined = False\<rparr> p;
          p = interop_ClientConnected cType p
      in if cType = ClientPortmaster
         then do_svc pe (\<lambda>env. SplitTunnelling_SetDisabledReason env portmaster_reason) p else p)"

text \<open>The information of a connection that is not in the map is a nil pointer, whose type is read.\<close>

definition proto_clientDisconnected :: "proto_env \<Rightarrow> conn \<Rightarrow> proto \<Rightarrow> (connectionInfo \<times> proto) option" where
  "proto_clientDisconnected pe c p =
     (let ret = map_of (p_connections p) c;
          p = p\<lparr>p_connections := AList.delete c (p_connections p)\<rparr>;
          isPortmasterConnected = list_ex (\<lambda>(_, i). ci_Type i = ClientPortmaster) (p_connections p)
      in case ret of
           None \<Rightarrow> None
         | Some info \<Rightarrow>
             let p = interop_ClientDisconnected (ci_Type info) p;
                 p = (if \<not> isPortmasterConnected
                      then do_svc pe (\<lambda>env. SplitTunnelling_SetDisabledReason env []) p else p)
             in Some (info, p))"

text \<open>The goroutine that tells the service of the client is an operation of its own.\<close>

definition clientSetAuthenticated :: "conn \<Rightarrow> proto \<Rightarrow> proto" where
  "clientSetAuthenticated c p =
     (let p = (case map_of (p_connections p) c of
                 None \<Rightarrow> p
               | Some info \<Rightarrow>
                   if \<not> IsAuthenticated info then
                     let p = set_connection c (info\<lparr>IsAuthenticated := True\<rparr>) p
                     in p\<lparr>p_auth_events := ci_Type info # p_auth_events p\<rparr>
                   else p);
          p = (if length (p_lastConnectionError p) > 0
               then sendResponse c (ErrorRespDelayed (p_lastConnectionError p)) 0 p else p)
      in p\<lparr>p_lastConnectionError := []\<rparr>)"

definition ensureCanModifyDnsSettings :: "conn \<Rightarrow> proto \<Rightarrow> error" where
  "ensureCanModifyDnsSettings c p =
     (case getConnectionInfo c p of
        None \<Rightarrow> Some (Err ''internal error: connection info not found'')
      | Some connInfo \<Rightarrow>
          let curVal = TempPrioritizedDns (p_service p) in
          if \<not> tmp_IsEmpty curVal \<and> \<not> IsPrioritizedDnsDefined connInfo
          then Some (Err (Description curVal)) else None)"

text \<open>The deferred function of \<open>processClient\<close>: the end of a connection.\<close>

definition client_closed :: "proto_env \<Rightarrow> conn \<Rightarrow> proto \<Rightarrow> proto option" where
  "client_closed pe c p =
     (case proto_clientDisconnected pe c p of
        None \<Rightarrow> None
      | Some (info, p) \<Rightarrow>
          let p = interop_PingDetectedApps pe p;
              p = (if IsPrioritizedDnsDefined info then
                     let (_, p) = on_svc pe (\<lambda>env. SetDnsOverride env None None (Some noTempDns)) p
                     in notifyClients (createAlternateDNSResponse pe p) p
                   else p)
          in Some (if IsPaused (p_service p) \<and> clientsConnectedCount p = 0
                      \<and> ci_Type info = ClientUi \<and> IsAuthenticated info
                   then snd (on_svc pe Disconnect p) else p))"

subsection \<open>Connection requests (protocol.go)\<close>

definition saveLastError :: "proto_env \<Rightarrow> error \<Rightarrow> proto \<Rightarrow> proto" where
  "saveLastError pe e p =
     (case e of
        None \<Rightarrow> p
      | Some err \<Rightarrow>
          if \<not> proto_IsClientConnected p
          then p\<lparr>p_lastConnectionError :=
                   ''['' @ pe_stamp pe @ ''] Failed to connect VPN: '' @ error_text err\<rparr>
          else p)"

text \<open>
  \<open>Some (Some e)\<close>: returned with the error \<open>e\<close>; \<open>None\<close>: the connections the world gives end
  before the loop of the service does.
\<close>

definition processConnectRequest ::
  "proto_env \<Rightarrow> conn_env \<Rightarrow> bool \<Rightarrow> ConnectionParams \<Rightarrow> proto \<Rightarrow> error option \<times> proto" where
  "processConnectRequest pe ce shared r p =
     (if p_disconnectRequested p then
        let (err, p) = on_svc pe Disconnect p in (Some err, p)
      else
        let ((res, _), p) = on_svc pe (\<lambda>env. Connect env ce shared r) p
        in (case res of Keep_return e \<Rightarrow> Some e | _ \<Rightarrow> None, p))"

text \<open>The deferred function of a round: the only place that tells clients of a disconnection.\<close>

definition notify_disconnected :: "proto_env \<Rightarrow> error \<Rightarrow> proto \<Rightarrow> proto" where
  "notify_disconnected pe connectionError p =
     (if p_connRequest p = None \<or> p_disconnectRequested p then
        let lastState = p_lastVPNState p;
            p = p\<lparr>p_lastVPNState := NewStateInfo DISCONNECTED []\<rparr>;
            authFailed = (si_State lastState = EXITING \<and> si_IsAuthError lastState);
            connectionError = (if authFailed \<and> connectionError = None
                               then Some (Err ''authentication failure'') else connectionError);
            reason = (if p_disconnectRequested p then DisconnectRequested
                      else if authFailed then AuthenticationError else ReasonUnknown);
            errMsg = (case connectionError of None \<Rightarrow> [] | Some e \<Rightarrow> error_text e);
            p = saveLastError pe connectionError p
        in notifyClients (DisconnectedResp (connectionError \<noteq> None) reason errMsg False) p
      else p)"

text \<open>
  A round of \<open>processConnectionRequests\<close> in two pieces: the request it takes from the
  channel, and what follows when \<open>processConnectRequest\<close> has returned. Whether the daemon
  still runs is looked at before the wait for a request.
\<close>

definition round_begin :: "proto \<Rightarrow> (ConnectionParams \<times> proto) option" where
  "round_begin p =
     (case p_connRequest p of
        None \<Rightarrow> None
      | Some r \<Rightarrow> Some (r, p\<lparr>p_connRequest := None, p_lastConnectionError := []\<rparr>))"

definition round_end :: "proto_env \<Rightarrow> error \<Rightarrow> proto \<Rightarrow> proto" where
  "round_end pe connectionError p = notify_disconnected pe connectionError (saveLastError pe connectionError p)"

definition connection_round :: "proto_env \<Rightarrow> conn_env \<Rightarrow> bool \<Rightarrow> proto \<Rightarrow> proto" where
  "connection_round pe ce shared p =
     (if \<not> p_isRunning p then p
      else case round_begin p of
        None \<Rightarrow> p
      | Some (r, p) \<Rightarrow>
          (case processConnectRequest pe ce shared r p of
             (None, p) \<Rightarrow> p
           | (Some err, p) \<Rightarrow> round_end pe err p))"

end
