(* ===== verification/Protocol_Requests.thy ===== *)
theory Protocol_Requests
  imports Protocol_Clients
begin

section \<open>The requests of the clients (daemon/protocol/protocol.go, types/requests.go)\<close>

text \<open>
  What a message holds, the check of the EAA password and the handlers, one definition per
  group of cases of the switch in \<open>processRequest\<close>. \<open>json_env\<close> is \<open>encoding/json\<close>: what
  \<open>Unmarshal\<close> gives for a message and each type of request. A request is parsed twice from
  the same text, so its index and password are those of its base.
\<close>

subsection \<open>Messages\<close>

record request_base =
  rq_Command :: string
  rq_Idx :: nat
  rq_ProtocolSecret :: string

record hello_req =
  h_ClientType :: int
  h_Secret :: "64 word"
  h_SendResponseToAllClients :: bool
  h_GetServersList :: bool
  h_GetStatus :: bool
  h_GetSplitTunnelStatus :: bool
  h_GetWiFiCurrentState :: bool
  h_GetAlternateDnsStatus :: bool
  h_GetServiceBinaryPath :: bool
  h_GetActiveRemoteEndpoint :: bool

record ping_req =
  pr_TimeOutMs :: int
  pr_VpnTypePrioritized :: vpn_type
  pr_VpnTypePrioritization :: bool
  pr_SkipSecondPhase :: bool

record session_delete_req =
  sd_NeedToResetSettings :: bool
  sd_NeedToDisableFirewall :: bool
  sd_IsCanDeleteSessionLocally :: bool

type_synonym client_dns = "(string \<times> DnsEncryption \<times> string) list"

record json_env =
  js_base :: "string \<Rightarrow> gerror + request_base"
  js_Hello :: "string \<Rightarrow> error \<times> hello_req"
  js_NewSecret :: "string \<Rightarrow> gerror + string"
  js_GetServers :: "string \<Rightarrow> gerror + bool"
  js_PingServers :: "string \<Rightarrow> gerror + ping_req"
  js_APIRequest :: "string \<Rightarrow> gerror + string \<times> int"
  js_CheckAccessiblePorts :: "string \<Rightarrow> gerror + PortInfo list"
  js_bool :: "string \<Rightarrow> gerror + bool"
  js_UserExceptions :: "string \<Rightarrow> gerror + string \<times> bool"
  js_SetPreference :: "string \<Rightarrow> gerror + string \<times> string"
  js_SplitTunnelSetConfig :: "string \<Rightarrow> gerror + bool \<times> bool \<times> bool \<times> bool \<times> bool"
  js_Exec :: "string \<Rightarrow> gerror + string"
  js_Pid :: "string \<Rightarrow> gerror + int \<times> string"
  js_SetAlternateDns :: "string \<Rightarrow> gerror + client_dns \<times> AntiTrackerMetadata"
  js_SetTempPrioritizedDns :: "string \<Rightarrow> gerror + client_dns \<times> string"
  js_Duration :: "string \<Rightarrow> gerror + 32 word"
  js_SessionNew :: "string \<Rightarrow> gerror + string"
  js_SessionDelete :: "string \<Rightarrow> gerror + session_delete_req"
  js_Interval :: "string \<Rightarrow> gerror + int"
  js_AppBinaryPath :: "string \<Rightarrow> gerror + string"
  js_ExtraArgs :: "string \<Rightarrow> gerror + string"
  js_WiFiSettings :: "string \<Rightarrow> gerror + WiFiParams"
  js_Params :: "string \<Rightarrow> gerror + ConnectionParams"

definition GetRequestBase :: "json_env \<Rightarrow> string \<Rightarrow> gerror + request_base" where
  "GetRequestBase js messageData =
     (case js_base js messageData of
        Inl err \<Rightarrow> Inl (ErrWrap ''failed to parse request data'' err)
      | Inr obj \<Rightarrow> if length (rq_Command obj) = 0 then Inl (Err ''request name is not defined'') else Inr obj)"

definition convertIvpnclientType_Dns :: "client_dns \<Rightarrow> DnsSettings" where
  "convertIvpnclientType_Dns dnsCfg =
     \<lparr>Servers = map (\<lambda>(a, e, t). \<lparr>Address = a, Encryption = e, Template = t\<rparr>) dnsCfg,
      IsInternalDnsConfig = False\<rparr>"

definition isDoSkipParanoidMode :: "string \<Rightarrow> bool" where
  "isDoSkipParanoidMode commandName \<longleftrightarrow>
     commandName \<in> set [''Hello'', ''GetVPNState'', ''GetServers'', ''PingServers'', ''APIRequest'',
       ''WiFiAvailableNetworks'', ''KillSwitchGetStatus'', ''SplitTunnelGetStatus'',
       ''GetDnsPredefinedConfigs'', ''AccountStatus'']"

text \<open>The cases of the switch, by the texts of the commands.\<close>

datatype command =
    C_EmptyReq | C_Hello | C_ParanoidModeSetPasswordReq | C_GetVPNState | C_GetServers
  | C_PingServers | C_APIRequest | C_CheckAccessiblePorts | C_KillSwitchGetStatus
  | C_KillSwitchSetEnabled | C_KillSwitchSetAllowLANMulticast | C_KillSwitchSetAllowLAN
  | C_KillSwitchSetUserExceptions | C_KillSwitchSetIsPersistent | C_KillSwitchSetAllowApiServers
  | C_SetPreference | C_SetUserPreferences | C_SplitTunnelGetStatus | C_SplitTunnelSetConfig
  | C_SplitTunnelAddApp | C_SplitTunnelRemoveApp | C_SplitTunnelAddedPidInfo | C_GenerateDiagnostics
  | C_SetAlternateDns | C_SetTempPrioritizedDns | C_GetDnsPredefinedConfigs | C_PauseConnection
  | C_ResumeConnection | C_SessionNew | C_SessionDelete | C_SessionStatus | C_WireGuardGenerateNewKeys
  | C_WireGuardSetKeysRotationInterval | C_GetAppIcon | C_GetInstalledApps | C_WiFiCurrentNetwork
  | C_WiFiAvailableNetworks | C_WiFiSettings | C_Disconnect | C_ConnectSettingsGet
  | C_ConnectSettings | C_Connect | C_Unsupported

definition command_names :: "(string \<times> command) list" where
  "command_names =
     [(''EmptyReq'', C_EmptyReq), (''Hello'', C_Hello),
      (''ParanoidModeSetPasswordReq'', C_ParanoidModeSetPasswordReq), (''GetVPNState'', C_GetVPNState),
      (''GetServers'', C_GetServers), (''PingServers'', C_PingServers), (''APIRequest'', C_APIRequest),
      (''CheckAccessiblePorts'', C_CheckAccessiblePorts), (''KillSwitchGetStatus'', C_KillSwitchGetStatus),
      (''KillSwitchSetEnabled'', C_KillSwitchSetEnabled),
      (''KillSwitchSetAllowLANMulticast'', C_KillSwitchSetAllowLANMulticast),
      (''KillSwitchSetAllowLAN'', C_KillSwitchSetAllowLAN),
      (''KillSwitchSetUserExceptions'', C_KillSwitchSetUserExceptions),
      (''KillSwitchSetIsPersistent'', C_KillSwitchSetIsPersistent),
      (''KillSwitchSetAllowApiServers'', C_KillSwitchSetAllowApiServers),
      (''SetPreference'', C_SetPreference), (''SetUserPreferences'', C_SetUserPreferences),
      (''SplitTunnelGetStatus'', C_SplitTunnelGetStatus), (''SplitTunnelSetConfig'', C_SplitTunnelSetConfig),
      (''SplitTunnelAddApp'', C_SplitTunnelAddApp), (''SplitTunnelRemoveApp'', C_SplitTunnelRemoveApp),
      (''SplitTunnelAddedPidInfo'', C_SplitTunnelAddedPidInfo),
      (''GenerateDiagnostics'', C_GenerateDiagnostics), (''SetAlternateDns'', C_SetAlternateDns),
      (''SetTempPrioritizedDns'', C_SetTempPrioritizedDns),
      (''GetDnsPredefinedConfigs'', C_GetDnsPredefinedConfigs), (''PauseConnection'', C_PauseConnection),
      (''ResumeConnection'', C_ResumeConnection), (''SessionNew'', C_SessionNew),
      (''SessionDelete'', C_SessionDelete), (''SessionStatus'', C_SessionStatus),
      (''WireGuardGenerateNewKeys'', C_WireGuardGenerateNewKeys),
      (''WireGuardSetKeysRotationInterval'', C_WireGuardSetKeysRotationInterval),
      (''GetAppIcon'', C_GetAppIcon), (''GetInstalledApps'', C_GetInstalledApps),
      (''WiFiCurrentNetwork'', C_WiFiCurrentNetwork), (''WiFiAvailableNetworks'', C_WiFiAvailableNetworks),
      (''WiFiSettings'', C_WiFiSettings), (''Disconnect'', C_Disconnect),
      (''ConnectSettingsGet'', C_ConnectSettingsGet), (''ConnectSettings'', C_ConnectSettings),
      (''Connect'', C_Connect)]"

definition parse_command :: "string \<Rightarrow> command" where
  "parse_command s = (case map_of command_names s of None \<Rightarrow> C_Unsupported | Some c \<Rightarrow> c)"

subsection \<open>The account ID of a login\<close>

text \<open>
  The regular expression \<open>^(i-....-....-....)|(ivpn[a-zA-Z0-9]{7,8})$\<close>: the anchors belong
  to one alternative each. A dot is one character of UTF-8, or one byte of a text that is not
  UTF-8, but no line feed.
\<close>

definition is_cont :: "string \<Rightarrow> nat \<Rightarrow> nat \<Rightarrow> nat \<Rightarrow> bool" where
  "is_cont s i lo hi \<longleftrightarrow> i < length s \<and> lo \<le> of_char (s ! i) \<and> of_char (s ! i) \<le> hi"

definition rune_length :: "string \<Rightarrow> nat" where
  "rune_length s =
     (let b = (case s of [] \<Rightarrow> 0 | c # _ \<Rightarrow> of_char c) :: nat in
      if 0xC2 \<le> b \<and> b \<le> 0xDF \<and> is_cont s 1 0x80 0xBF then 2
      else if 0xE0 \<le> b \<and> b \<le> 0xEF
           \<and> is_cont s 1 (if b = 0xE0 then 0xA0 else 0x80) (if b = 0xED then 0x9F else 0xBF)
           \<and> is_cont s 2 0x80 0xBF then 3
      else if 0xF0 \<le> b \<and> b \<le> 0xF4
           \<and> is_cont s 1 (if b = 0xF0 then 0x90 else 0x80) (if b = 0xF4 then 0x8F else 0xBF)
           \<and> is_cont s 2 0x80 0xBF \<and> is_cont s 3 0x80 0xBF then 4
      else 1)"

text \<open>The rest of the text after the pattern, \<open>None\<close> standing for a dot.\<close>

fun match_seq :: "char option list \<Rightarrow> string \<Rightarrow> string option" where
  "match_seq [] s = Some s"
| "match_seq (_ # _) [] = None"
| "match_seq (Some c # ps) (x # xs) = (if x = c then match_seq ps xs else None)"
| "match_seq (None # ps) (x # xs) =
     (if x = CHR 0x0A then None else match_seq ps (drop (rune_length (x # xs)) (x # xs)))"

definition id_pattern :: "char option list" where
  "id_pattern = [Some (CHR ''i''), Some (CHR ''-''), None, None, None, None, Some (CHR ''-''),
     None, None, None, None, Some (CHR ''-''), None, None, None, None]"

definition is_alnum :: "char \<Rightarrow> bool" where
  "is_alnum c \<longleftrightarrow> (let n = of_char c :: nat in
     (97 \<le> n \<and> n \<le> 122) \<or> (65 \<le> n \<and> n \<le> 90) \<or> (48 \<le> n \<and> n \<le> 57))"

definition ivpn_id :: "string \<Rightarrow> bool" where
  "ivpn_id t \<longleftrightarrow> prefix ''ivpn'' t \<and> (length t = 11 \<or> length t = 12) \<and> list_all is_alnum (drop 4 t)"

definition match_account_id :: "string \<Rightarrow> bool" where
  "match_account_id s \<longleftrightarrow> match_seq id_pattern s \<noteq> None \<or> list_ex ivpn_id (suffixes s)"

subsection \<open>Answering\<close>

definition with_req :: "conn \<Rightarrow> nat \<Rightarrow> gerror + 'a \<Rightarrow> ('a \<Rightarrow> proto \<Rightarrow> proto) \<Rightarrow> proto \<Rightarrow> proto" where
  "with_req c idx req k p = (case req of Inl err \<Rightarrow> sendErrorResponse c idx err p | Inr a \<Rightarrow> k a p)"

definition reply :: "conn \<Rightarrow> nat \<Rightarrow> error \<times> proto \<Rightarrow> proto" where
  "reply c idx r =
     (case r of (None, p) \<Rightarrow> sendResponse c EmptyResp idx p
      | (Some err, p) \<Rightarrow> sendErrorResponse c idx err p)"

definition sendState :: "proto_env \<Rightarrow> conn \<Rightarrow> nat \<Rightarrow> bool \<Rightarrow> proto \<Rightarrow> proto" where
  "sendState pe c reqIdx isOnlyIfConnected p =
     (let vpnState = p_lastVPNState p in
      if si_State vpnState = CONNECTED then
        sendResponse c (Connected_Resp (createConnectedResponse pe vpnState p)) reqIdx p
      else if \<not> isOnlyIfConnected then
        if si_State vpnState = DISCONNECTED
        then sendResponse c (DisconnectedResp False 0 [] True) reqIdx p
        else sendResponse c (VpnStateResp (state_String (si_State vpnState)) (si_State vpnState) []) reqIdx p
      else p)"

subsection \<open>Hello and the password\<close>

definition do_if :: "bool \<Rightarrow> (proto \<Rightarrow> proto) \<Rightarrow> proto \<Rightarrow> proto" where
  "do_if b f p = (if b then f p else p)"

definition hello_servers :: "proto_env \<Rightarrow> conn \<Rightarrow> nat \<Rightarrow> proto \<Rightarrow> proto" where
  "hello_servers pe c idx p =
     (case fst (pe_servers_cached pe) of None \<Rightarrow> p
      | Some serv \<Rightarrow> sendResponse c (ServerListResp serv) idx p)"

definition hello_status :: "proto_env \<Rightarrow> conn \<Rightarrow> nat \<Rightarrow> proto \<Rightarrow> proto" where
  "hello_status pe c idx p =
     (let p = sendState pe c idx False p;
          ((status, err), p) = on_svc pe KillSwitchState p
      in if err = None then sendResponse c (KillSwitchStatusResp status) idx p else p)"

definition handle_Hello :: "proto_env \<Rightarrow> json_env \<Rightarrow> conn \<Rightarrow> nat \<Rightarrow> string \<Rightarrow> proto \<Rightarrow> proto" where
  "handle_Hello pe js c idx message p =
     (let (err, req) = js_Hello js message;
          p = (case err of None \<Rightarrow> p | Some e \<Rightarrow> sendErrorResponse c idx e p);
          p = do_if (h_GetActiveRemoteEndpoint req) (notifyLastConnectionStarting (Some c)) p;
          (h, p) = createHelloResponse pe p;
          h = (if h_GetServiceBinaryPath req then h\<lparr>hr_ServiceBinary := pe_binary pe\<rparr> else h);
          p = sendResponse c (Hello_Resp h) idx p;
          p = do_if (h_SendResponseToAllClients req) (notifyClients (Hello_Resp h)) p;
          p = do_if (h_GetServersList req) (hello_servers pe c idx) p;
          p = do_if (h_GetStatus req) (hello_status pe c idx) p;
          p = do_if (h_GetSplitTunnelStatus req) (handle_OnSplitTunnelStatusChanged pe) p;
          p = do_if (h_GetWiFiCurrentState req) (handle_OnWiFiChanged (pe_wifi pe)) p
      in if h_GetAlternateDnsStatus req then sendResponse c (createAlternateDNSResponse pe p) idx p else p)"

definition handle_SetPassword ::
  "proto_env \<Rightarrow> json_env \<Rightarrow> conn \<Rightarrow> request_base \<Rightarrow> string \<Rightarrow> proto \<Rightarrow> proto" where
  "handle_SetPassword pe js c rq message =
     with_req c (rq_Idx rq) (js_NewSecret js message) (\<lambda>newSecret p.
       case SetSecret (pe_eaa pe) (rq_ProtocolSecret rq) newSecret (p_eaa p) of
         (Some err, e) \<Rightarrow> sendErrorResponse c (rq_Idx rq) err (p\<lparr>p_eaa := e\<rparr>)
       | (None, e) \<Rightarrow> sendResponse c EmptyResp (rq_Idx rq) (notify_hello pe (p\<lparr>p_eaa := e\<rparr>)))"

subsection \<open>Servers, pings, API, ports\<close>

definition send_servers :: "conn \<Rightarrow> nat \<Rightarrow> ServersInfoResponse option \<times> error \<Rightarrow> proto \<Rightarrow> proto" where
  "send_servers c idx r p =
     (case r of
        (_, Some err) \<Rightarrow> sendErrorResponse c idx err p
      | (None, None) \<Rightarrow> sendErrorResponse c idx (Err ''failed to get servers info'') p
      | (Some serv, None) \<Rightarrow> sendResponse c (ServerListResp serv) idx p)"

definition handle_GetServers :: "proto_env \<Rightarrow> json_env \<Rightarrow> conn \<Rightarrow> nat \<Rightarrow> string \<Rightarrow> proto \<Rightarrow> proto" where
  "handle_GetServers pe js c idx message =
     with_req c idx (js_GetServers js message) (\<lambda>requestServersUpdate.
       send_servers c idx (if requestServersUpdate then pe_servers_update pe else pe_servers_cached pe))"

definition handle_PingServers :: "proto_env \<Rightarrow> json_env \<Rightarrow> conn \<Rightarrow> nat \<Rightarrow> string \<Rightarrow> proto \<Rightarrow> proto" where
  "handle_PingServers pe js c idx message =
     with_req c idx (js_PingServers js message) (\<lambda>req p.
       let vpnType = (if pr_VpnTypePrioritization req then pr_VpnTypePrioritized req else -1);
           ((retMap, err), p) = on_svc pe (\<lambda>env.
             PingServers env (pe_ping pe) (pr_TimeOutMs req) vpnType (pr_SkipSecondPhase req)) p
       in case err of Some e \<Rightarrow> sendErrorResponse c idx e p
          | None \<Rightarrow> sendResponse c (PingServersResp retMap) idx p)"

definition IPv6_required :: int where "IPv6_required = 2"

definition service_APIRequest :: "proto_env \<Rightarrow> string \<Rightarrow> int \<Rightarrow> svc \<Rightarrow> gerror + string" where
  "service_APIRequest pe apiAlias ipTypeRequired s =
     (if ipTypeRequired = IPv6_required
         \<and> (case sv_vpn s of None \<Rightarrow> False | Some v \<Rightarrow> \<not> vpn_IsPaused v \<and> \<not> pe_ipv6_in_tunnel pe)
      then Inl (Err ''no IPv6 support inside tunnel for current connection'')
      else pe_api_alias pe apiAlias ipTypeRequired)"

definition handle_APIRequest :: "proto_env \<Rightarrow> json_env \<Rightarrow> conn \<Rightarrow> nat \<Rightarrow> string \<Rightarrow> proto \<Rightarrow> proto" where
  "handle_APIRequest pe js c idx message =
     with_req c idx (js_APIRequest js message) (\<lambda>(path, ipType) p.
       case service_APIRequest pe path ipType (p_service p) of
         Inl err \<Rightarrow> sendResponse c (APIResponse path [] (error_text err)) idx p
       | Inr responseData \<Rightarrow> sendResponse c (APIResponse path responseData []) idx p)"

definition handle_CheckAccessiblePorts ::
  "proto_env \<Rightarrow> json_env \<Rightarrow> conn \<Rightarrow> nat \<Rightarrow> string \<Rightarrow> proto \<Rightarrow> proto" where
  "handle_CheckAccessiblePorts pe js c idx message =
     with_req c idx (js_CheckAccessiblePorts js message) (\<lambda>ports.
       with_req c idx (pe_accessible_ports pe ports) (\<lambda>r.
         sendResponse c (CheckAccessiblePortsResponse r) idx))"

subsection \<open>Kill switch and preferences\<close>

definition handle_KillSwitchGetStatus :: "proto_env \<Rightarrow> conn \<Rightarrow> nat \<Rightarrow> proto \<Rightarrow> proto" where
  "handle_KillSwitchGetStatus pe c idx p =
     (let ((status, err), p) = on_svc pe KillSwitchState p in
      case err of Some e \<Rightarrow> sendErrorResponse c idx e p
      | None \<Rightarrow> sendResponse c (KillSwitchStatusResp status) idx p)"

definition handle_KillSwitchSetEnabled ::
  "proto_env \<Rightarrow> json_env \<Rightarrow> conn \<Rightarrow> nat \<Rightarrow> string \<Rightarrow> proto \<Rightarrow> proto" where
  "handle_KillSwitchSetEnabled pe js c idx message =
     with_req c idx (js_bool js message) (\<lambda>isEnabled p.
       reply c idx (on_svc pe (\<lambda>env. SetKillSwitchState env isEnabled) p))"

text \<open>The error of the service is dropped here.\<close>

definition handle_KillSwitchSetAllowLANMulticast ::
  "proto_env \<Rightarrow> json_env \<Rightarrow> conn \<Rightarrow> nat \<Rightarrow> string \<Rightarrow> proto \<Rightarrow> proto" where
  "handle_KillSwitchSetAllowLANMulticast pe js c idx message =
     with_req c idx (js_bool js message) (\<lambda>allow p.
       sendResponse c EmptyResp idx (snd (on_svc pe (\<lambda>env. SetKillSwitchAllowLANMulticast env allow) p)))"

definition handle_KillSwitchSetAllowLAN ::
  "proto_env \<Rightarrow> json_env \<Rightarrow> conn \<Rightarrow> nat \<Rightarrow> string \<Rightarrow> proto \<Rightarrow> proto" where
  "handle_KillSwitchSetAllowLAN pe js c idx message =
     with_req c idx (js_bool js message) (\<lambda>allow p.
       sendResponse c EmptyResp idx (snd (on_svc pe (\<lambda>env. SetKillSwitchAllowLAN env allow) p)))"

definition handle_KillSwitchSetUserExceptions ::
  "proto_env \<Rightarrow> json_env \<Rightarrow> conn \<Rightarrow> nat \<Rightarrow> string \<Rightarrow> proto \<Rightarrow> proto" where
  "handle_KillSwitchSetUserExceptions pe js c idx message =
     with_req c idx (js_UserExceptions js message) (\<lambda>(exceptions, failOnParsingError) p.
       reply c idx (on_svc pe (\<lambda>env.
         SetKillSwitchUserExceptions env (trim_space exceptions) (\<not> failOnParsingError)) p))"

definition handle_KillSwitchSetIsPersistent ::
  "proto_env \<Rightarrow> json_env \<Rightarrow> conn \<Rightarrow> nat \<Rightarrow> string \<Rightarrow> proto \<Rightarrow> proto" where
  "handle_KillSwitchSetIsPersistent pe js c idx message =
     with_req c idx (js_bool js message) (\<lambda>isPersistent p.
       reply c idx (on_svc pe (\<lambda>env. SetKillSwitchIsPersistent env isPersistent) p))"

definition handle_KillSwitchSetAllowApiServers ::
  "proto_env \<Rightarrow> json_env \<Rightarrow> conn \<Rightarrow> nat \<Rightarrow> string \<Rightarrow> proto \<Rightarrow> proto" where
  "handle_KillSwitchSetAllowApiServers pe js c idx message =
     with_req c idx (js_bool js message) (\<lambda>isAllow p.
       reply c idx (on_svc pe (\<lambda>env. SetKillSwitchAllowAPIServers env isAllow) p))"

definition service_preference :: "string \<Rightarrow> ServicePreference" where
  "service_preference key =
     (if key = ''enable_logging'' then Prefs_IsEnableLogging
      else if key = ''autoconnect_on_launch'' then Prefs_IsAutoconnectOnLaunch
      else if key = ''autoconnect_on_launch_daemon'' then Prefs_IsAutoconnectOnLaunch_Daemon
      else Prefs_other key)"

definition notify_settings :: "proto_env \<Rightarrow> proto \<Rightarrow> proto" where
  "notify_settings pe p = notifyClients (Settings_Resp (createSettingsResponse pe p)) p"

definition handle_SetPreference :: "proto_env \<Rightarrow> json_env \<Rightarrow> conn \<Rightarrow> nat \<Rightarrow> string \<Rightarrow> proto \<Rightarrow> proto" where
  "handle_SetPreference pe js c idx message =
     with_req c idx (js_SetPreference js message) (\<lambda>(key, val) p.
       let ((isChanged, err), p) = on_svc pe (\<lambda>env. SetPreference env (service_preference key) val) p in
       case err of Some e \<Rightarrow> sendErrorResponse c idx e p
       | None \<Rightarrow> sendResponse c EmptyResp idx (do_if isChanged (notify_settings pe) p))"

definition handle_SetUserPreferences ::
  "proto_env \<Rightarrow> json_env \<Rightarrow> conn \<Rightarrow> nat \<Rightarrow> string \<Rightarrow> proto \<Rightarrow> proto" where
  "handle_SetUserPreferences pe js c idx message p =
     notify_settings pe (with_req c idx (js_bool js message) (\<lambda>oldStyle p.
       reply c idx (on_svc pe (\<lambda>env. SetUserPreferences env (\<not> fe_SnapEnvs (pe_funcs pe)) oldStyle) p)) p)"

subsection \<open>Split tunnel, diagnostics, applications\<close>

definition handle_SplitTunnelSetConfig ::
  "proto_env \<Rightarrow> json_env \<Rightarrow> conn \<Rightarrow> nat \<Rightarrow> string \<Rightarrow> proto \<Rightarrow> proto" where
  "handle_SplitTunnelSetConfig pe js c idx message =
     with_req c idx (js_SplitTunnelSetConfig js message)
       (\<lambda>(isEnabled, isInversed, isAnyDns, isAllowWhenNoVpn, reset) p.
         reply c idx (on_svc pe (\<lambda>env.
           SplitTunnelling_SetConfig env isEnabled isInversed isAnyDns isAllowWhenNoVpn reset) p))"

definition already_running_text :: string where
  "already_running_text = ''It appears the application is already running.'' @ [CHR 0x0A] @
     ''Some applications must be closed before launching them in the Split Tunneling environment or they may not be excluded from the VPN tunnel.''"

definition handle_SplitTunnelAddApp ::
  "proto_env \<Rightarrow> json_env \<Rightarrow> conn \<Rightarrow> nat \<Rightarrow> string \<Rightarrow> proto \<Rightarrow> proto" where
  "handle_SplitTunnelAddApp pe js c idx message =
     with_req c idx (js_Exec js message) (\<lambda>exec p.
       let ((cmdToExecute, isAlreadyRunning, err), p) =
             on_svc pe (\<lambda>env. SplitTunnelling_AddApp env (pe_add_app pe) exec) p
       in case err of Some e \<Rightarrow> sendErrorResponse c idx e p
          | None \<Rightarrow>
              if length cmdToExecute \<le> 0 then sendResponse c EmptyResp idx p
              else sendResponse c (SplitTunnelAddAppCmdResp exec cmdToExecute isAlreadyRunning
                     (if isAlreadyRunning then already_running_text else [])) idx p)"

definition handle_SplitTunnelRemoveApp ::
  "proto_env \<Rightarrow> json_env \<Rightarrow> conn \<Rightarrow> nat \<Rightarrow> string \<Rightarrow> proto \<Rightarrow> proto" where
  "handle_SplitTunnelRemoveApp pe js c idx message =
     with_req c idx (js_Pid js message) (\<lambda>(pid, _) p.
       reply c idx (on_svc pe (\<lambda>env. SplitTunnelling_RemoveApp env pid) p))"

definition handle_SplitTunnelAddedPidInfo ::
  "proto_env \<Rightarrow> json_env \<Rightarrow> conn \<Rightarrow> nat \<Rightarrow> string \<Rightarrow> proto \<Rightarrow> proto" where
  "handle_SplitTunnelAddedPidInfo pe js c idx message =
     with_req c idx (js_Pid js message) (\<lambda>(pid, exec) p.
       reply c idx (on_svc pe (\<lambda>env. SplitTunnelling_AddedPidInfo env pid exec) p))"

definition handle_GenerateDiagnostics :: "proto_env \<Rightarrow> conn \<Rightarrow> nat \<Rightarrow> proto \<Rightarrow> proto" where
  "handle_GenerateDiagnostics pe c idx =
     with_req c idx (pe_diagnostics pe) (\<lambda>(active, old, extraInfo).
       sendResponse c (DiagnosticsGeneratedResp old active extraInfo) idx)"

definition handle_GetAppIcon :: "proto_env \<Rightarrow> json_env \<Rightarrow> conn \<Rightarrow> nat \<Rightarrow> string \<Rightarrow> proto \<Rightarrow> proto" where
  "handle_GetAppIcon pe js c idx message =
     with_req c idx (js_AppBinaryPath js message) (\<lambda>path.
       with_req c idx (pe_icon pe path) (\<lambda>icon. sendResponse c (AppIconResp path icon) idx))"

definition handle_GetInstalledApps :: "proto_env \<Rightarrow> json_env \<Rightarrow> conn \<Rightarrow> nat \<Rightarrow> string \<Rightarrow> proto \<Rightarrow> proto" where
  "handle_GetInstalledApps pe js c idx message =
     with_req c idx (js_ExtraArgs js message) (\<lambda>extraArgs.
       with_req c idx (pe_apps pe extraArgs) (\<lambda>apps. sendResponse c (InstalledAppsResp apps) idx))"

subsection \<open>DNS\<close>

definition notify_dns :: "proto_env \<Rightarrow> proto \<Rightarrow> proto" where
  "notify_dns pe p = notifyClients (createAlternateDNSResponse pe p) p"

definition handle_SetAlternateDns :: "proto_env \<Rightarrow> json_env \<Rightarrow> conn \<Rightarrow> nat \<Rightarrow> string \<Rightarrow> proto \<Rightarrow> proto" where
  "handle_SetAlternateDns pe js c idx message =
     with_req c idx (js_SetAlternateDns js message) (\<lambda>(dnsCfg, antiTracker) p.
       case ensureCanModifyDnsSettings c p of
         Some err \<Rightarrow> sendErrorResponse c idx err p
       | None \<Rightarrow>
           notify_dns pe (reply c idx (on_svc pe (\<lambda>env.
             SetDnsOverride env (Some (convertIvpnclientType_Dns dnsCfg)) (Some antiTracker) None) p)))"

definition managed_by :: "int \<Rightarrow> string" where
  "managed_by t = (if t = ClientPortmaster then ''DNS settings are currently managed by Portmaster''
     else ''DNS settings are currently managed by an external application'')"

text \<open>The connection may be gone when the settings are applied; then the mark is lost with it.\<close>

definition handle_SetTempPrioritizedDns ::
  "proto_env \<Rightarrow> json_env \<Rightarrow> conn \<Rightarrow> nat \<Rightarrow> string \<Rightarrow> proto \<Rightarrow> proto" where
  "handle_SetTempPrioritizedDns pe js c idx message =
     with_req c idx (js_SetTempPrioritizedDns js message) (\<lambda>(dnsCfg, description) p.
       case (ensureCanModifyDnsSettings c p, getConnectionInfo c p) of
         (None, Some connInfo) \<Rightarrow>
           let tmpDns = \<lparr>tmp_Dns = convertIvpnclientType_Dns dnsCfg,
                 Description = managed_by (ci_Type connInfo), IssuerDescription = description\<rparr>;
               (err, p) = on_svc pe (\<lambda>env. SetDnsOverride env None None (Some tmpDns)) p
           in notify_dns pe
                (case err of
                   Some e \<Rightarrow> sendErrorResponse c idx e p
                 | None \<Rightarrow> sendResponse c EmptyResp idx
                     (case getConnectionInfo c p of None \<Rightarrow> p
                      | Some i \<Rightarrow> set_connection c (i\<lparr>IsPrioritizedDnsDefined := \<not> tmp_IsEmpty tmpDns\<rparr>) p))
       | (Some err, _) \<Rightarrow> sendErrorResponse c idx err p
       | (None, None) \<Rightarrow> p)"

definition handle_GetDnsPredefinedConfigs :: "proto_env \<Rightarrow> conn \<Rightarrow> nat \<Rightarrow> proto \<Rightarrow> proto" where
  "handle_GetDnsPredefinedConfigs pe c idx =
     with_req c idx (pe_predefined_dns pe) (\<lambda>cfgs. sendResponse c (DnsPredefinedConfigsResp cfgs) idx)"

subsection \<open>Pause and session\<close>

definition handle_PauseConnection :: "proto_env \<Rightarrow> json_env \<Rightarrow> conn \<Rightarrow> nat \<Rightarrow> string \<Rightarrow> proto \<Rightarrow> proto" where
  "handle_PauseConnection pe js c idx message =
     with_req c idx (js_Duration js message) (\<lambda>duration p.
       let (err, p) = on_svc pe (\<lambda>env. Pause env (uint duration)) p in
       case err of Some e \<Rightarrow> sendErrorResponse c idx e p
       | None \<Rightarrow> sendResponse c (Connected_Resp (createConnectedResponse pe (p_lastVPNState p) p)) idx p)"

definition handle_ResumeConnection :: "proto_env \<Rightarrow> conn \<Rightarrow> nat \<Rightarrow> proto \<Rightarrow> proto" where
  "handle_ResumeConnection pe c idx p = reply c idx (on_svc pe Resume p)"

definition handle_SessionNew :: "proto_env \<Rightarrow> json_env \<Rightarrow> conn \<Rightarrow> nat \<Rightarrow> string \<Rightarrow> proto \<Rightarrow> proto" where
  "handle_SessionNew pe js c idx message =
     with_req c idx (js_SessionNew js message) (\<lambda>accountID p.
       if \<not> match_account_id accountID then
         sendError c ''[daemon] Your account ID has to be in 'i-XXXX-XXXX-XXXX' or 'ivpnXXXXXXXX' format.'' idx p
       else
         let ((apiCode, apiErrMsg, accountInfo, rawResponse, err), p) =
               on_svc pe (\<lambda>env. SessionNew env (pe_login pe) accountID) p
         in case err of
              Some e \<Rightarrow>
                if apiCode = 0 then sendErrorResponse c idx e p
                else notify_hello pe (sendResponse c
                       (SessionNewResp apiCode apiErrMsg noSessionResp accountInfo rawResponse) idx p)
            | None \<Rightarrow> notify_hello pe (sendResponse c
                       (SessionNewResp apiCode apiErrMsg
                         (CreateSessionResp (Session (sv_preferences (p_service p)))) accountInfo rawResponse) idx p))"

definition delete_reset :: "proto_env \<Rightarrow> proto \<Rightarrow> proto" where
  "delete_reset pe p =
     (let (_, e) = ForceDisable (pe_eaa pe) (p_eaa p);
          p = p\<lparr>p_eaa := e\<rparr>;
          oldPrefs = sv_preferences (p_service p);
          (_, p) = on_svc pe ResetPreferences p;
          prefs = sv_preferences (p_service p);
          p = do_if (IsFwPersistant oldPrefs \<noteq> IsFwPersistant prefs)
                (\<lambda>p. snd (on_svc pe (\<lambda>env. SetKillSwitchIsPersistent env (IsFwPersistant oldPrefs)) p)) p;
          (_, p) = on_svc pe (\<lambda>env. SetKillSwitchAllowLAN env (IsFwAllowLAN prefs)) p;
          (_, p) = on_svc pe (\<lambda>env. SetKillSwitchAllowLANMulticast env (IsFwAllowLANMulticast prefs)) p
      in snd (on_svc pe (\<lambda>env. SetKillSwitchUserExceptions env (FwUserExceptions prefs) True) p))"

definition delete_firewall :: "proto_env \<Rightarrow> proto \<Rightarrow> proto" where
  "delete_firewall pe p =
     (let (_, p) = on_svc pe (\<lambda>env. SetKillSwitchIsPersistent env False) p
      in snd (on_svc pe (\<lambda>env. SetKillSwitchState env False) p))"

definition handle_SessionDelete :: "proto_env \<Rightarrow> json_env \<Rightarrow> conn \<Rightarrow> nat \<Rightarrow> string \<Rightarrow> proto \<Rightarrow> proto" where
  "handle_SessionDelete pe js c idx message =
     with_req c idx (js_SessionDelete js message) (\<lambda>req p.
       let (err, p) = on_svc pe (\<lambda>env. logOut env True (sd_IsCanDeleteSessionLocally req)) p in
       case err of
         Some e \<Rightarrow> sendErrorResponse c idx e p
       | None \<Rightarrow>
           let p = do_if (sd_NeedToDisableFirewall req) (delete_firewall pe) p;
               p = do_if (sd_NeedToResetSettings req) (delete_reset pe) p
           in notify_hello pe (sendResponse c EmptyResp idx p))"

definition handle_SessionStatus :: "proto_env \<Rightarrow> conn \<Rightarrow> nat \<Rightarrow> proto \<Rightarrow> proto" where
  "handle_SessionStatus pe c idx p =
     (let (((apiCode, apiErrMsg, sessionToken, account, deviceName), err), p) =
            on_svc pe (\<lambda>env. RequestSessionStatus env (pe_status pe)) p
      in case err of
           Some e \<Rightarrow>
             if apiCode = 0 then sendErrorResponse c idx e p
             else sendResponse c (SessionStatusResp apiCode apiErrMsg sessionToken account deviceName) idx p
         | None \<Rightarrow> sendResponse c (SessionStatusResp apiCode apiErrMsg sessionToken account deviceName) idx p)"

subsection \<open>Keys and WiFi\<close>

definition handle_WireGuardGenerateNewKeys ::
  "proto_env \<Rightarrow> json_env \<Rightarrow> conn \<Rightarrow> nat \<Rightarrow> string \<Rightarrow> proto \<Rightarrow> proto" where
  "handle_WireGuardGenerateNewKeys pe js c idx message =
     with_req c idx (js_bool js message) (\<lambda>onlyIfNecessary p.
       reply c idx (on_svc pe (\<lambda>env. WireGuardGenerateKeys env (pe_keys pe) onlyIfNecessary) p))"

definition handle_WireGuardSetKeysRotationInterval ::
  "proto_env \<Rightarrow> json_env \<Rightarrow> conn \<Rightarrow> nat \<Rightarrow> string \<Rightarrow> proto \<Rightarrow> proto" where
  "handle_WireGuardSetKeysRotationInterval pe js c idx message =
     with_req c idx (js_Interval js message) (\<lambda>interval p.
       sendResponse c EmptyResp idx
         (do_svc pe (\<lambda>env. WireGuardSetKeysRotationInterval env interval) p))"

definition handle_WiFiAvailableNetworks :: "proto_env \<Rightarrow> conn \<Rightarrow> nat \<Rightarrow> proto \<Rightarrow> proto" where
  "handle_WiFiAvailableNetworks pe c idx p =
     sendResponse c EmptyResp idx (notifyClients (WiFiAvailableNetworksResp (pe_wifi_networks pe)) p)"

text \<open>
  A panic of the automatic connection (\<open>None\<close>, Service\_Auto) is recovered by
  \<open>processRequest\<close>, which closes the connection.
\<close>

definition handle_WiFiSettings :: "proto_env \<Rightarrow> json_env \<Rightarrow> conn \<Rightarrow> nat \<Rightarrow> string \<Rightarrow> proto \<Rightarrow> proto" where
  "handle_WiFiSettings pe js c idx message =
     with_req c idx (js_WiFiSettings js message) (\<lambda>params p.
       let (r, p) = on_svc pe (\<lambda>env. SetWiFiSettings env ((pe_auto pe)\<lparr>ae_Register := (\<lambda>_. None)\<rparr>) params) p in
       case r of
         None \<Rightarrow> p\<lparr>p_closed := c # p_closed p\<rparr>
       | Some (Some err) \<Rightarrow> sendErrorResponse c idx err p
       | Some None \<Rightarrow> notify_hello pe (sendResponse c EmptyResp idx p))"

subsection \<open>Connecting\<close>

definition handle_Disconnect :: "proto_env \<Rightarrow> conn \<Rightarrow> nat \<Rightarrow> proto \<Rightarrow> proto" where
  "handle_Disconnect pe c idx p =
     (let p = p\<lparr>p_disconnectRequested := True, p_lastConnectionError := []\<rparr>;
          p = (if \<not> Connected (p_service p)
               then sendResponse c (DisconnectedResp False DisconnectRequested [] False) idx p else p);
          (err, p) = on_svc pe Disconnect p
      in case err of Some e \<Rightarrow> sendErrorResponse c idx e p | None \<Rightarrow> p)"

definition handle_ConnectSettings :: "proto_env \<Rightarrow> json_env \<Rightarrow> conn \<Rightarrow> nat \<Rightarrow> string \<Rightarrow> proto \<Rightarrow> proto" where
  "handle_ConnectSettings pe js c idx message =
     with_req c idx (js_Params js message) (\<lambda>params p.
       sendResponse c EmptyResp idx (do_svc pe (\<lambda>env. SetConnectionParams env params) p))"

definition handle_Connect :: "proto_env \<Rightarrow> json_env \<Rightarrow> conn \<Rightarrow> nat \<Rightarrow> string \<Rightarrow> proto \<Rightarrow> proto" where
  "handle_Connect pe js c idx message p =
     (case js_Params js message of
        Inl err \<Rightarrow>
          sendErrorResponse c idx (ErrWrap ''failed to unmarshal json 'Connect' request'' err) p
      | Inr params \<Rightarrow> sendResponse c EmptyResp idx (RegisterConnectionRequest pe params p))"

subsection \<open>processRequest and processClient\<close>

definition dispatch ::
  "proto_env \<Rightarrow> json_env \<Rightarrow> conn \<Rightarrow> request_base \<Rightarrow> string \<Rightarrow> proto \<Rightarrow> proto" where
  "dispatch pe js c rq message p =
     (let idx = rq_Idx rq in
      case parse_command (rq_Command rq) of
        C_EmptyReq \<Rightarrow> sendResponse c EmptyResp idx p
      | C_Hello \<Rightarrow> handle_Hello pe js c idx message p
      | C_ParanoidModeSetPasswordReq \<Rightarrow> handle_SetPassword pe js c rq message p
      | C_GetVPNState \<Rightarrow> sendState pe c idx False p
      | C_GetServers \<Rightarrow> handle_GetServers pe js c idx message p
      | C_PingServers \<Rightarrow> handle_PingServers pe js c idx message p
      | C_APIRequest \<Rightarrow> handle_APIRequest pe js c idx message p
      | C_CheckAccessiblePorts \<Rightarrow> handle_CheckAccessiblePorts pe js c idx message p
      | C_KillSwitchGetStatus \<Rightarrow> handle_KillSwitchGetStatus pe c idx p
      | C_KillSwitchSetEnabled \<Rightarrow> handle_KillSwitchSetEnabled pe js c idx message p
      | C_KillSwitchSetAllowLANMulticast \<Rightarrow> handle_KillSwitchSetAllowLANMulticast pe js c idx message p
      | C_KillSwitchSetAllowLAN \<Rightarrow> handle_KillSwitchSetAllowLAN pe js c idx message p
      | C_KillSwitchSetUserExceptions \<Rightarrow> handle_KillSwitchSetUserExceptions pe js c idx message p
      | C_KillSwitchSetIsPersistent \<Rightarrow> handle_KillSwitchSetIsPersistent pe js c idx message p
      | C_KillSwitchSetAllowApiServers \<Rightarrow> handle_KillSwitchSetAllowApiServers pe js c idx message p
      | C_SetPreference \<Rightarrow> handle_SetPreference pe js c idx message p
      | C_SetUserPreferences \<Rightarrow> handle_SetUserPreferences pe js c idx message p
      | C_SplitTunnelGetStatus \<Rightarrow> sendResponse c (SplitTunnel_Status (split_tunnel_status pe p)) idx p
      | C_SplitTunnelSetConfig \<Rightarrow> handle_SplitTunnelSetConfig pe js c idx message p
      | C_SplitTunnelAddApp \<Rightarrow> handle_SplitTunnelAddApp pe js c idx message p
      | C_SplitTunnelRemoveApp \<Rightarrow> handle_SplitTunnelRemoveApp pe js c idx message p
      | C_SplitTunnelAddedPidInfo \<Rightarrow> handle_SplitTunnelAddedPidInfo pe js c idx message p
      | C_GenerateDiagnostics \<Rightarrow> handle_GenerateDiagnostics pe c idx p
      | C_SetAlternateDns \<Rightarrow> handle_SetAlternateDns pe js c idx message p
      | C_SetTempPrioritizedDns \<Rightarrow> handle_SetTempPrioritizedDns pe js c idx message p
      | C_GetDnsPredefinedConfigs \<Rightarrow> handle_GetDnsPredefinedConfigs pe c idx p
      | C_PauseConnection \<Rightarrow> handle_PauseConnection pe js c idx message p
      | C_ResumeConnection \<Rightarrow> handle_ResumeConnection pe c idx p
      | C_SessionNew \<Rightarrow> handle_SessionNew pe js c idx message p
      | C_SessionDelete \<Rightarrow> handle_SessionDelete pe js c idx message p
      | C_SessionStatus \<Rightarrow> handle_SessionStatus pe c idx p
      | C_WireGuardGenerateNewKeys \<Rightarrow> handle_WireGuardGenerateNewKeys pe js c idx message p
      | C_WireGuardSetKeysRotationInterval \<Rightarrow> handle_WireGuardSetKeysRotationInterval pe js c idx message p
      | C_GetAppIcon \<Rightarrow> handle_GetAppIcon pe js c idx message p
      | C_GetInstalledApps \<Rightarrow> handle_GetInstalledApps pe js c idx message p
      | C_WiFiCurrentNetwork \<Rightarrow> handle_OnWiFiChanged (pe_wifi pe) p
      | C_WiFiAvailableNetworks \<Rightarrow> handle_WiFiAvailableNetworks pe c idx p
      | C_WiFiSettings \<Rightarrow> handle_WiFiSettings pe js c idx message p
      | C_Disconnect \<Rightarrow> handle_Disconnect pe c idx p
      | C_ConnectSettingsGet \<Rightarrow> sendResponse c (ConnectSettingsResp (GetConnectionParams (p_service p))) idx p
      | C_ConnectSettings \<Rightarrow> handle_ConnectSettings pe js c idx message p
      | C_Connect \<Rightarrow> handle_Connect pe js c idx message p
      | C_Unsupported \<Rightarrow>
          sendErrorResponse c idx (Err (''unsupported request: '' @ CHR 0x27 # rq_Command rq @ [CHR 0x27])) p)"

definition password_error :: "error \<Rightarrow> response" where
  "password_error err =
     ErrorResp (case err of None \<Rightarrow> ''The password is incorrect. Please try again.'' | Some e \<Rightarrow> error_text e)
       ''Enhanced App Authentication'' ErrorParanoidModePasswordError"

text \<open>The gate before the switch: whether the request goes on.\<close>

definition check_password :: "proto_env \<Rightarrow> conn \<Rightarrow> request_base \<Rightarrow> proto \<Rightarrow> bool \<times> proto" where
  "check_password pe c rq p =
     (let (enabled, e) = IsEnabled (pe_eaa pe) (p_eaa p);
          p = p\<lparr>p_eaa := e\<rparr>
      in if \<not> enabled then (True, clientSetAuthenticated c p)
         else if isDoSkipParanoidMode (rq_Command rq) then (True, p)
         else
           let ((isOK, err), e) = CheckSecret (pe_eaa pe) (rq_ProtocolSecret rq) (p_eaa p);
               p = p\<lparr>p_eaa := e\<rparr>
           in if \<not> isOK then
                let p = sendResponse c (password_error err) (rq_Idx rq) p
                in (False, if rq_Command rq = ''Connect'' \<or> rq_Command rq = ''Disconnect''
                           then sendState pe c (rq_Idx rq) False p else p)
              else (True, clientSetAuthenticated c p))"

definition processRequest :: "proto_env \<Rightarrow> json_env \<Rightarrow> conn \<Rightarrow> string \<Rightarrow> proto \<Rightarrow> proto" where
  "processRequest pe js c message p =
     (case GetRequestBase js message of
        Inl _ \<Rightarrow> p
      | Inr rq \<Rightarrow>
          let (passed, p) = check_password pe c rq p
          in if passed then dispatch pe js c rq message p else p)"

text \<open>
  A message as the loop of \<open>processClient\<close> reads it: whether the connection stays open, and
  then \<open>processRequest\<close> handles the message in a goroutine of its own.
\<close>

definition client_read ::
  "proto_env \<Rightarrow> json_env \<Rightarrow> conn \<Rightarrow> bool \<Rightarrow> string \<Rightarrow> proto \<Rightarrow> bool \<times> proto" where
  "client_read pe js c secretVerified message p =
     (if secretVerified then (True, p)
      else case GetRequestBase js message of
        Inl _ \<Rightarrow> (False, p)
      | Inr cmd \<Rightarrow>
          if rq_Command cmd \<noteq> ''Hello'' then (False, p)
          else case js_Hello js message of
            (Some err, _) \<Rightarrow>
              (False, sendErrorResponse c (rq_Idx cmd) (ErrWrap ''connection authentication error'' err) p)
          | (None, hello) \<Rightarrow>
              if h_Secret hello \<noteq> p_secret p then
                (False, sendErrorResponse c (rq_Idx cmd) (Err ''secret verification error'') p)
              else (True, interop_PingDetectedApps pe (clientConnected pe c (h_ClientType hello) p)))"

text \<open>A client whose messages are handled one after the other, then its end.\<close>

fun client_loop ::
  "proto_env \<Rightarrow> json_env \<Rightarrow> conn \<Rightarrow> bool \<Rightarrow> string list \<Rightarrow> proto \<Rightarrow> proto" where
  "client_loop pe js c secretVerified [] p = p"
| "client_loop pe js c secretVerified (m # ms) p =
     (case client_read pe js c secretVerified m p of
        (False, p) \<Rightarrow> p
      | (True, p) \<Rightarrow> client_loop pe js c True ms (processRequest pe js c m p))"

definition processClient :: "proto_env \<Rightarrow> json_env \<Rightarrow> conn \<Rightarrow> string list \<Rightarrow> proto \<Rightarrow> proto option" where
  "processClient pe js c messages p = client_closed pe c (client_loop pe js c False messages p)"

end
