(* ===== verification/Protocol_Machine.thy ===== *)
theory Protocol_Machine
  imports Protocol_Requests
begin

section \<open>The daemon and its clients as a machine\<close>

text \<open>
  Sending changes the log of messages only. Every request, event and connection of a client
  keeps the invariant \<open>safe\<close> of the service, so the exclusion of the kill switch and the
  inverse split tunnel (Service\_Machine) holds whatever clients send.
\<close>

subsection \<open>Sending\<close>

lemma send_fields [simp]:
  "p_service (sendResponse c m i p) = p_service p" "p_eaa (sendResponse c m i p) = p_eaa p"
  "p_connections (sendResponse c m i p) = p_connections p"
  "p_connRequest (sendResponse c m i p) = p_connRequest p"
  "p_disconnectRequested (sendResponse c m i p) = p_disconnectRequested p"
  "p_lastVPNState (sendResponse c m i p) = p_lastVPNState p"
  "p_lastVpnRemoteEndpoint (sendResponse c m i p) = p_lastVpnRemoteEndpoint p"
  "p_secret (sendResponse c m i p) = p_secret p" "p_auth_events (sendResponse c m i p) = p_auth_events p"
  "p_isRunning (sendResponse c m i p) = p_isRunning p" "p_closed (sendResponse c m i p) = p_closed p"
  "p_lastConnectionError (sendResponse c m i p) = p_lastConnectionError p"
  "p_sent (sendResponse c m i p) = (c, m, i) # p_sent p"
  by (simp_all add: sendResponse_def)

lemma notify_eq:
  "notifyClients m p = p\<lparr>p_sent := rev (map (\<lambda>(c, _). (c, m, 0)) (p_connections p)) @ p_sent p\<rparr>"
proof -
  have "fold (\<lambda>(c, _). sendResponse c m 0) cs p = p\<lparr>p_sent := rev (map (\<lambda>(c, _). (c, m, 0)) cs) @ p_sent p\<rparr>" for cs
    by (induction cs arbitrary: p) (auto simp: sendResponse_def)
  then show ?thesis by (simp add: notifyClients_def)
qed

lemma notify_fields [simp]:
  "p_service (notifyClients m p) = p_service p" "p_eaa (notifyClients m p) = p_eaa p"
  "p_connections (notifyClients m p) = p_connections p"
  "p_connRequest (notifyClients m p) = p_connRequest p"
  "p_disconnectRequested (notifyClients m p) = p_disconnectRequested p"
  "p_lastVPNState (notifyClients m p) = p_lastVPNState p"
  "p_lastVpnRemoteEndpoint (notifyClients m p) = p_lastVpnRemoteEndpoint p"
  "p_secret (notifyClients m p) = p_secret p" "p_auth_events (notifyClients m p) = p_auth_events p"
  "p_isRunning (notifyClients m p) = p_isRunning p" "p_closed (notifyClients m p) = p_closed p"
  "p_lastConnectionError (notifyClients m p) = p_lastConnectionError p"
  by (simp_all add: notify_eq)

lemma error_fields [simp]:
  "p_service (sendErrorResponse c i e p) = p_service p" "p_eaa (sendErrorResponse c i e p) = p_eaa p"
  "p_connections (sendErrorResponse c i e p) = p_connections p"
  "p_connRequest (sendErrorResponse c i e p) = p_connRequest p"
  "p_service (sendError c t i p) = p_service p" "p_eaa (sendError c t i p) = p_eaa p"
  "p_connections (sendError c t i p) = p_connections p"
  by (simp_all add: sendErrorResponse_def sendError_def)

subsection \<open>The invariant and the events\<close>

definition good_world :: "proto_env \<Rightarrow> bool" where
  "good_world pe \<longleftrightarrow> env_good (pe_svc pe)"

lemma good_svc [simp]: "good_world pe \<Longrightarrow> env_good (svc_world pe p)"
  by (simp add: good_world_def svc_world_def env_good_def)

abbreviation psafe :: "proto \<Rightarrow> bool" where
  "psafe p \<equiv> safe (p_service p)"

lemma hello_service [simp]:
  "p_service (snd (createHelloResponse pe p)) = p_service p" "p_service (notify_hello pe p) = p_service p"
  by (simp_all add: createHelloResponse_def notify_hello_def case_prod_unfold Let_def)

lemma psafe_event [simp]: "good_world pe \<Longrightarrow> psafe p \<Longrightarrow> psafe (handle_event pe e p)"
  by (cases e)
    (simp_all add: handle_OnKillSwitchStateChanged_def handle_OnSplitTunnelStatusChanged_def
      notifyVpnStateChanged_def handle_OnSessionStatus_def handle_OnConnectionStarting_def
      notifyLastConnectionStarting_def handle_OnConnectionStopped_def handle_OnServersUpdated_def
      handle_OnWiFiChanged_def handle_OnPingStatus_def case_prod_unfold Let_def split: option.split)

lemma psafe_call:
  "good_world pe \<Longrightarrow> (\<And>r p. psafe p \<Longrightarrow> psafe (register r p)) \<Longrightarrow> psafe p \<Longrightarrow> psafe (handle_call pe register c p)"
  by (cases c) simp_all

lemma psafe_calls:
  "good_world pe \<Longrightarrow> (\<And>r p. psafe p \<Longrightarrow> psafe (register r p)) \<Longrightarrow> psafe p \<Longrightarrow>
     psafe (fold (handle_call pe register) cs p)"
  by (induction cs arbitrary: p) (simp_all add: psafe_call)

lemma psafe_on_svc_reg:
  assumes "good_world pe" "\<And>r p. psafe p \<Longrightarrow> psafe (register r p)"
    and "\<And>env s. env_good env \<Longrightarrow> safe s \<Longrightarrow> safe (snd (f env s))" and "psafe p"
  shows "psafe (snd (on_svc_reg register pe f p))"
  using assms by (simp add: on_svc_reg_def case_prod_unfold Let_def psafe_calls)

lemma psafe_register [simp]: "good_world pe \<Longrightarrow> psafe p \<Longrightarrow> psafe (RegisterConnectionRequest pe r p)"
  by (simp add: RegisterConnectionRequest_def psafe_on_svc_reg)

lemma psafe_on_svc [simp]:
  assumes "good_world pe" "\<And>env s. env_good env \<Longrightarrow> safe s \<Longrightarrow> safe (snd (f env s))" and "psafe p"
  shows "psafe (snd (on_svc pe f p))"
  using assms by (simp add: on_svc_def psafe_on_svc_reg)

lemma psafe_reply [simp]: "psafe (reply c i r) = psafe (snd r)"
  by (cases r) (simp add: reply_def split: option.split)

lemma psafe_with_req:
  "(\<And>a p. psafe p \<Longrightarrow> psafe (k a p)) \<Longrightarrow> psafe p \<Longrightarrow> psafe (with_req c i r k p)"
  by (simp add: with_req_def split: sum.split)

lemma psafe_small [simp]:
  "psafe (sendState pe c i b p) = psafe p" "psafe (notify_settings pe p) = psafe p"
  "psafe (notify_dns pe p) = psafe p" "psafe (hello_servers pe c i p) = psafe p"
  "psafe (handle_OnSplitTunnelStatusChanged pe p) = psafe p" "psafe (handle_OnWiFiChanged w p) = psafe p"
  "psafe (notifyLastConnectionStarting x p) = psafe p" "psafe (send_servers c i r p) = psafe p"
  "psafe (set_connection c info p) = psafe p" "psafe (clientSetAuthenticated c p) = psafe p"
  "psafe (interop_ClientConnected t p) = psafe p" "psafe (interop_ClientDisconnected t p) = psafe p"
  "psafe (interop_PingDetectedApps pe p) = psafe p" "psafe (saveLastError pe e p) = psafe p"
  "psafe (notify_disconnected pe e p) = psafe p"
  by (simp_all add: sendState_def notify_settings_def notify_dns_def hello_servers_def
      handle_OnSplitTunnelStatusChanged_def handle_OnWiFiChanged_def notifyLastConnectionStarting_def
      send_servers_def set_connection_def clientSetAuthenticated_def interop_ClientConnected_def
      interop_ClientDisconnected_def interop_PingDetectedApps_def interop_Ping_def saveLastError_def
      notify_disconnected_def case_prod_unfold Let_def split: option.split)

lemma psafe_do_if [simp]: "(psafe p \<Longrightarrow> psafe (f p)) \<Longrightarrow> psafe p \<Longrightarrow> psafe (do_if b f p)"
  by (simp add: do_if_def)

subsection \<open>A whole connection\<close>

text \<open>The world between the pieces of a connection keeps the invariant.\<close>

definition safe_attempts :: "attempt list \<Rightarrow> bool" where
  "safe_attempts as \<longleftrightarrow> (\<forall>a \<in> set as. \<forall>s. safe s \<longrightarrow> safe (at_run a s) \<and> safe (at_delay a s))"

lemma safe_keep_loop:
  "env_good env \<Longrightarrow> safe_attempts as \<Longrightarrow> safe s \<Longrightarrow> safe (snd (keep_loop env on during d as s))"
proof (induction as arbitrary: d s)
  case Nil
  then show ?case by simp
next
  case (Cons a as)
  have rec: "safe (snd (keep_loop env on during d' as s'))" if "safe s'" for d' s'
    using Cons that by (simp add: safe_attempts_def)
  have run: "safe (at_run a s')" "safe (at_delay a s')" if "safe s'" for s'
    using Cons.prems(2) that by (simp_all add: safe_attempts_def)
  have conn: "safe (snd (keep_connect env on during a obj s'))" if "safe s'" for obj s'
  proof -
    let ?b = "connect_begin env (at_outbound a) obj (on \<and> \<not> IsInverseSplitTunneling (sv_preferences s'))
      (during \<and> \<not> IsInverseSplitTunneling (sv_preferences s')) s'"
    have "safe (snd ?b)" using Cons.prems(1) that by simp
    then have "safe (snd (connect_end env (at_error a) (at_run a (snd ?b))))"
      using Cons.prems(1) run by simp
    then show ?thesis using \<open>safe (snd ?b)\<close>
      by (cases ?b) (auto simp: keep_connect_def case_prod_unfold Let_def split: option.split)
  qed
  have next': "safe (snd (keep_next a d c s'))" if "safe s'" for c s'
    using that run by (simp add: keep_next_def case_prod_unfold Let_def)
  show ?case
  proof (cases "at_create a s")
    case (Inl err)
    then show ?thesis using Cons.prems by simp
  next
    case (Inr obj)
    let ?c = "keep_connect env on during a obj s"
    let ?n = "keep_next a d (fst ?c) (snd ?c)"
    have "safe (snd ?n)" using conn Cons.prems(3) next' by simp
    then show ?thesis using Inr rec
      by (cases ?n) (simp add: case_prod_unfold Let_def split: keep_result.split)
  qed
qed

lemma safe_keepConnection [simp]:
  "env_good env \<Longrightarrow> safe_attempts as \<Longrightarrow> safe s \<Longrightarrow> safe (snd (keepConnection env on during as s))"
  by (simp add: keepConnection_def case_prod_unfold Let_def safe_keep_loop split: keep_result.split)

lemma safe_attempts_create [simp]:
  "safe_attempts (map (\<lambda>a. a\<lparr>at_create := f a\<rparr>) as) = safe_attempts as"
  by (simp add: safe_attempts_def)

lemma safe_WireGuardGenerateKeys [simp]:
  "env_good env \<Longrightarrow> safe s \<Longrightarrow> safe (snd (WireGuardGenerateKeys env ke b s))"
  using safe_step [of env s "S_GenerateKeys ke b"] by simp

lemma safe_Disconnect [simp]: "env_good env \<Longrightarrow> safe s \<Longrightarrow> safe (snd (Disconnect env s))"
  using safe_step [of env s S_Disconnect] by simp

lemma safe_connect_protocol:
  assumes "env_good env" "safe_attempts (ce_attempts ce)" "safe s"
  shows "safe (snd (connect_protocol env ce params orig v2 s))"
proof -
  have wg: "safe (snd (connectWireGuard env ke on during (map (\<lambda>a. a\<lparr>at_create := f a\<rparr>) (ce_attempts ce)) s))"
    for ke on during f
  proof -
    have "safe (snd (Disconnect env s))" using assms by simp
    then show ?thesis using assms
      by (cases "Disconnect env s")
         (simp add: connectWireGuard_def case_prod_unfold Let_def split: option.split)
  qed
  show ?thesis using assms wg
    by (simp add: connect_protocol_def connect_protocol_wg_def connect_protocol_ovpn_def connectOpenVPN_def
        failed_def Let_def split: list.split option.split)
qed

lemma safe_stored_params:
  "safe s \<Longrightarrow> safe (s\<lparr>sv_preferences := (sv_preferences s)\<lparr>LastConnectionParams := c\<rparr>\<rparr>)"
  by (auto simp: safe_def IsInverseSplitTunneling_def)

lemma safe_connect_started:
  assumes "env_good env" "safe_attempts (ce_attempts ce)" "safe s"
  shows "safe (snd (connect_started env ce shared given params s))"
proof -
  have p: "safe (snd (connect_protocol env ce params' orig v2 s'))" if "safe s'" for params' orig v2 s'
    using assms that by (simp add: safe_connect_protocol)
  have v: "safe (snd (let (r, s') = connect_protocol env ce updated orig v2 s'
      in (r, if wrapper \<noteq> None \<and> fst r \<noteq> Keep_open then snd (call env V2_Stop s') else s')))"
    if "safe s'" for updated orig v2 s' and wrapper :: "V2RayWrapper option"
    using p [OF that, of updated orig v2] by (cases "connect_protocol env ce updated orig v2 s'") simp
  show ?thesis
  proof (cases "startV2Ray env ce params (conn_V2Ray params)")
    case (Inl e)
    show ?thesis using assms p unfolding connect_started_def Inl by (simp add: failed_def)
  next
    case (Inr r)
    obtain updated wrapper orig e where r: "r = (updated, wrapper, orig, e)" by (metis prod_cases4)
    show ?thesis
    proof (cases e)
      case None
      show ?thesis using assms p v safe_stored_params
        unfolding connect_started_def Inr r None by (simp add: failed_def Let_def)
    next
      case (Some err)
      show ?thesis using assms p unfolding connect_started_def Inr r Some by (simp add: failed_def)
    qed
  qed
qed

lemma safe_Connect [simp]:
  assumes "env_good env" "safe_attempts (ce_attempts ce)" "safe s"
  shows "safe (snd (Connect env ce shared params s))"
proof -
  have acc: "safe (snd (connect_account env api prefs s'))" if "safe s'" for api prefs s'
    using assms that by (simp add: connect_account_def case_prod_unfold Let_def)
  have body: "safe (snd (connect_body env ce sh params s'))" if "safe s'" for sh s'
  proof -
    have "safe (snd (connect_account env (ce_api ce) (sv_preferences s') s'))" using acc that by simp
    then show ?thesis using assms
      by (cases "connect_account env (ce_api ce) (sv_preferences s') s'")
         (auto simp: connect_body_def failed_def Let_def safe_connect_started split: option.split prod.split)
  qed
  show ?thesis using assms body by (simp add: Connect_def case_prod_unfold Let_def)
qed

subsection \<open>Requests\<close>

lemma safe_KillSwitchState [simp]: "env_good env \<Longrightarrow> safe s \<Longrightarrow> safe (snd (KillSwitchState env s))"
  by simp

lemma psafe_Hello [simp]: "good_world pe \<Longrightarrow> psafe p \<Longrightarrow> psafe (handle_Hello pe js c i m p)"
proof -
  have st: "psafe (hello_status pe c i q)" if "good_world pe" "psafe q" for q
    using that by (simp add: hello_status_def case_prod_unfold Let_def)
  show "psafe (handle_Hello pe js c i m p)" if "good_world pe" "psafe p"
    using that st by (simp add: handle_Hello_def case_prod_unfold Let_def split: option.split)
qed

lemma psafe_password [simp]: "psafe p \<Longrightarrow> psafe (handle_SetPassword pe js c rq m p)"
  by (auto simp: handle_SetPassword_def with_req_def split: sum.split option.split prod.split)

lemma psafe_queries [simp]:
  "psafe p \<Longrightarrow> psafe (handle_GetServers pe js c i m p)"
  "good_world pe \<Longrightarrow> psafe p \<Longrightarrow> psafe (handle_PingServers pe js c i m p)"
  "psafe p \<Longrightarrow> psafe (handle_APIRequest pe js c i m p)"
  "psafe p \<Longrightarrow> psafe (handle_CheckAccessiblePorts pe js c i m p)"
  "psafe p \<Longrightarrow> psafe (handle_GenerateDiagnostics pe c i p)"
  "psafe p \<Longrightarrow> psafe (handle_GetAppIcon pe js c i m p)"
  "psafe p \<Longrightarrow> psafe (handle_GetInstalledApps pe js c i m p)"
  "psafe p \<Longrightarrow> psafe (handle_GetDnsPredefinedConfigs pe c i p)"
  "psafe p \<Longrightarrow> psafe (handle_WiFiAvailableNetworks pe c i p)"
  by (auto simp: handle_GetServers_def handle_PingServers_def handle_APIRequest_def
      handle_CheckAccessiblePorts_def handle_GenerateDiagnostics_def handle_GetAppIcon_def
      handle_GetInstalledApps_def handle_GetDnsPredefinedConfigs_def handle_WiFiAvailableNetworks_def
      case_prod_unfold Let_def intro!: psafe_with_req split: sum.split option.split)

lemma psafe_kill_switch [simp]:
  assumes "good_world pe" "psafe p"
  shows "psafe (handle_KillSwitchGetStatus pe c i p)" "psafe (handle_KillSwitchSetEnabled pe js c i m p)"
    "psafe (handle_KillSwitchSetAllowLANMulticast pe js c i m p)"
    "psafe (handle_KillSwitchSetAllowLAN pe js c i m p)"
    "psafe (handle_KillSwitchSetUserExceptions pe js c i m p)"
    "psafe (handle_KillSwitchSetIsPersistent pe js c i m p)"
    "psafe (handle_KillSwitchSetAllowApiServers pe js c i m p)"
    "psafe (handle_SetPreference pe js c i m p)" "psafe (handle_SetUserPreferences pe js c i m p)"
  using assms
  by (auto simp: handle_KillSwitchGetStatus_def handle_KillSwitchSetEnabled_def
      handle_KillSwitchSetAllowLANMulticast_def handle_KillSwitchSetAllowLAN_def
      handle_KillSwitchSetUserExceptions_def handle_KillSwitchSetIsPersistent_def
      handle_KillSwitchSetAllowApiServers_def handle_SetPreference_def handle_SetUserPreferences_def
      case_prod_unfold Let_def intro!: psafe_with_req split: option.split)

lemma psafe_split_tunnel [simp]:
  assumes "good_world pe" "psafe p"
  shows "psafe (handle_SplitTunnelSetConfig pe js c i m p)" "psafe (handle_SplitTunnelAddApp pe js c i m p)"
    "psafe (handle_SplitTunnelRemoveApp pe js c i m p)" "psafe (handle_SplitTunnelAddedPidInfo pe js c i m p)"
  using assms
  by (auto simp: handle_SplitTunnelSetConfig_def handle_SplitTunnelAddApp_def
      handle_SplitTunnelRemoveApp_def handle_SplitTunnelAddedPidInfo_def
      case_prod_unfold Let_def intro!: psafe_with_req split: option.split)

lemma safe_SetDnsOverride [simp]: "env_good env \<Longrightarrow> safe s \<Longrightarrow> safe (snd (SetDnsOverride env d a t s))"
  using safe_step [of env s "S_Dns d a t"] by simp

lemma psafe_dns [simp]:
  assumes "good_world pe" "psafe p"
  shows "psafe (handle_SetAlternateDns pe js c i m p)" "psafe (handle_SetTempPrioritizedDns pe js c i m p)"
  using assms
  by (auto simp: handle_SetAlternateDns_def handle_SetTempPrioritizedDns_def
      case_prod_unfold Let_def intro!: psafe_with_req split: option.split)

lemma safe_session_ops [simp]:
  "env_good env \<Longrightarrow> safe s \<Longrightarrow> safe (snd (logOut env a b s))"
  "env_good env \<Longrightarrow> safe s \<Longrightarrow> safe (snd (RequestSessionStatus env api s))"
  "env_good env \<Longrightarrow> safe s \<Longrightarrow> safe (snd (Pause env d s))"
  "env_good env \<Longrightarrow> safe s \<Longrightarrow> safe (snd (Resume env s))"
  using safe_step [of env s "S_LogOut a b"] safe_step [of env s "S_SessionStatus api"]
    safe_step [of env s "S_Pause d"] safe_step [of env s S_Resume] by simp_all

lemma psafe_session [simp]:
  assumes "good_world pe" "psafe p"
  shows "psafe (handle_PauseConnection pe js c i m p)" "psafe (handle_ResumeConnection pe c i p)"
    "psafe (handle_SessionNew pe js c i m p)" "psafe (handle_SessionStatus pe c i p)"
  using assms
  by (auto simp: handle_PauseConnection_def handle_ResumeConnection_def handle_SessionNew_def
      handle_SessionStatus_def case_prod_unfold Let_def intro!: psafe_with_req split: option.split)

lemma psafe_delete [simp]:
  assumes "good_world pe" "psafe p"
  shows "psafe (handle_SessionDelete pe js c i m p)"
proof -
  have r: "psafe (delete_reset pe q)" if "psafe q" for q
    using assms(1) that by (simp add: delete_reset_def case_prod_unfold Let_def)
  have f: "psafe (delete_firewall pe q)" if "psafe q" for q
    using assms(1) that by (simp add: delete_firewall_def case_prod_unfold Let_def)
  show ?thesis using assms r f
    by (auto simp: handle_SessionDelete_def case_prod_unfold Let_def intro!: psafe_with_req split: option.split)
qed

lemma psafe_connecting [simp]:
  assumes "good_world pe" "psafe p"
  shows "psafe (handle_WireGuardGenerateNewKeys pe js c i m p)"
    "psafe (handle_WireGuardSetKeysRotationInterval pe js c i m p)" "psafe (handle_WiFiSettings pe js c i m p)"
    "psafe (handle_Disconnect pe c i p)" "psafe (handle_ConnectSettings pe js c i m p)"
    "psafe (handle_Connect pe js c i m p)"
  using assms
  by (auto simp: handle_WireGuardGenerateNewKeys_def handle_WireGuardSetKeysRotationInterval_def
      handle_WiFiSettings_def handle_Disconnect_def handle_ConnectSettings_def handle_Connect_def
      case_prod_unfold Let_def intro!: psafe_with_req split: option.split sum.split)

lemma psafe_dispatch [simp]:
  assumes "good_world pe" "psafe p"
  shows "psafe (dispatch pe js c rq m p)"
  using assms by (cases "parse_command (rq_Command rq)") (simp_all add: dispatch_def)

lemma psafe_check [simp]: "psafe (snd (check_password pe c rq p)) = psafe p"
  by (simp add: check_password_def case_prod_unfold Let_def)

lemma psafe_processRequest [simp]:
  "good_world pe \<Longrightarrow> psafe p \<Longrightarrow> psafe (processRequest pe js c m p)"
  by (auto simp: processRequest_def case_prod_unfold Let_def split: sum.split)

subsection \<open>Clients and rounds\<close>

lemma safe_reason [simp]: "env_good env \<Longrightarrow> safe s \<Longrightarrow> safe (SplitTunnelling_SetDisabledReason env r s)"
  using safe_step [of env s "S_SplitTunnelReason r"] by simp

lemma psafe_client [simp]:
  assumes "good_world pe" "psafe p"
  shows "psafe (clientConnected pe c t p)" "psafe (snd (client_read pe js c b m p))"
  using assms
  by (auto simp: clientConnected_def client_read_def Let_def split: sum.split option.split prod.split)

lemma psafe_closed:
  assumes "good_world pe" "psafe p" "client_closed pe c p = Some q"
  shows "psafe q"
proof -
  have d: "psafe q'" if "proto_clientDisconnected pe c p = Some (i, q')" for i q'
  proof -
    have "psafe (p\<lparr>p_connections := cs\<rparr>)" for cs using assms(2) by simp
    then show ?thesis using that assms(1)
      by (auto simp: proto_clientDisconnected_def Let_def interop_ClientDisconnected_def
          split: option.splits if_splits)
  qed
  show ?thesis using assms(1,3) d
    by (auto simp: client_closed_def case_prod_unfold Let_def split: option.splits if_splits)
qed

lemma psafe_round_begin: "psafe p \<Longrightarrow> round_begin p = Some (r, q) \<Longrightarrow> psafe q"
  by (auto simp: round_begin_def split: option.splits)

lemma psafe_round [simp]:
  assumes "good_world pe" "psafe p"
  shows "psafe (round_end pe e p)"
    "safe_attempts (ce_attempts ce) \<Longrightarrow> psafe (snd (processConnectRequest pe ce sh r p))"
    "safe_attempts (ce_attempts ce) \<Longrightarrow> psafe (connection_round pe ce sh p)"
proof -
  have e: "psafe (round_end pe e q)" if "psafe q" for e q
    using that by (simp add: round_end_def)
  then show "psafe (round_end pe e p)" using assms by simp
  have r: "psafe (snd (processConnectRequest pe ce sh r q))"
    if "safe_attempts (ce_attempts ce)" "psafe q" for r q
    using that assms(1) by (simp add: processConnectRequest_def case_prod_unfold Let_def)
  then show "safe_attempts (ce_attempts ce) \<Longrightarrow> psafe (snd (processConnectRequest pe ce sh r p))"
    using assms by simp
  show "psafe (connection_round pe ce sh p)" if a: "safe_attempts (ce_attempts ce)"
  proof (cases "round_begin p")
    case None
    then show ?thesis using assms by (simp add: connection_round_def)
  next
    case (Some rq)
    obtain r' q where rq: "rq = (r', q)" by (cases rq)
    then have "psafe q" using Some assms(2) psafe_round_begin by blast
    then have "psafe (snd (processConnectRequest pe ce sh r' q))" using r a by blast
    then show ?thesis using Some rq assms(2) e
      by (cases "processConnectRequest pe ce sh r' q") (simp add: connection_round_def split: option.split)
  qed
qed

subsection \<open>The machine\<close>

text \<open>
  The state of a running daemon: the connections that have shown the secret (the variable
  \<open>secretVerified\<close> of each reader), the messages read whose goroutine has not run yet, whether
  a connection request is being processed, whether a panic has ended the process. A step
  is the reading of a message or of the end of a connection, the goroutine of a request or of
  an authenticated client, a step of the service (another goroutine of it, or a piece of the
  running connection), the beginning and end of a connection request or a whole one, the stop.
\<close>

record daemon =
  d_proto :: proto
  d_verified :: "conn list"
  d_requests :: "(conn \<times> string) list"
  d_round :: bool
  d_crashed :: bool

datatype daemon_op =
    D_Read conn string | D_Close conn | D_Request nat | D_Auth nat | D_Service svc_op
  | D_Take | D_End error | D_Round conn_env bool | D_Stop

definition daemon_init :: "64 word \<Rightarrow> eaa \<Rightarrow> svc \<Rightarrow> daemon" where
  "daemon_init secret e s =
     \<lparr>d_proto = interop_Ping (CreateProtocol secret e s), d_verified = [], d_requests = [],
      d_round = False, d_crashed = False\<rparr>"

definition daemon_close :: "proto_env \<Rightarrow> conn \<Rightarrow> daemon \<Rightarrow> daemon" where
  "daemon_close pe c d =
     (case client_closed pe c (d_proto d) of
        None \<Rightarrow> d\<lparr>d_crashed := True\<rparr>
      | Some p \<Rightarrow> d\<lparr>d_proto := p, d_verified := removeAll c (d_verified d)\<rparr>)"

definition remove_nth :: "nat \<Rightarrow> 'a list \<Rightarrow> 'a list" where
  "remove_nth n xs = take n xs @ drop (n + 1) xs"

definition daemon_read :: "proto_env \<Rightarrow> json_env \<Rightarrow> conn \<Rightarrow> string \<Rightarrow> daemon \<Rightarrow> daemon" where
  "daemon_read pe js c m d =
     (let (open, p) = client_read pe js c (c \<in> set (d_verified d)) m (d_proto d) in
      if open then d\<lparr>d_proto := p, d_verified := List.insert c (d_verified d),
                     d_requests := d_requests d @ [(c, m)]\<rparr>
      else daemon_close pe c (d\<lparr>d_proto := p\<rparr>))"

definition daemon_auth :: "proto_env \<Rightarrow> nat \<Rightarrow> proto \<Rightarrow> proto" where
  "daemon_auth pe n p =
     snd (on_svc pe (\<lambda>env. OnAuthenticatedClient env ((pe_auto pe)\<lparr>ae_Register := (\<lambda>_. None)\<rparr>)
           (p_auth_events p ! n = ClientUi)) (p\<lparr>p_auth_events := remove_nth n (p_auth_events p)\<rparr>))"

definition daemon_take :: "proto_env \<Rightarrow> daemon \<Rightarrow> daemon" where
  "daemon_take pe d =
     (case round_begin (d_proto d) of
        None \<Rightarrow> d
      | Some (r, p) \<Rightarrow>
          if p_disconnectRequested p then
            let (err, p) = on_svc pe Disconnect p in d\<lparr>d_proto := round_end pe err p\<rparr>
          else d\<lparr>d_proto := do_svc pe (\<lambda>env s. setConnectionParams env r (s\<lparr>sv_tmpParams := noConnectionParams\<rparr>)) p,
                 d_round := True\<rparr>)"

definition daemon_stop :: "proto_env \<Rightarrow> proto \<Rightarrow> proto" where
  "daemon_stop pe p = snd (on_svc pe unInitialise (proto_Stop p))"

fun daemon_step :: "proto_env \<times> json_env \<times> daemon_op \<Rightarrow> daemon \<Rightarrow> daemon" where
  "daemon_step (pe, js, D_Read c m) d = (if d_crashed d then d else daemon_read pe js c m d)"
| "daemon_step (pe, js, D_Close c) d = (if d_crashed d then d else daemon_close pe c d)"
| "daemon_step (pe, js, D_Request n) d =
     (if d_crashed d \<or> n \<ge> length (d_requests d) then d
      else let (c, m) = d_requests d ! n
           in d\<lparr>d_proto := processRequest pe js c m (d_proto d), d_requests := remove_nth n (d_requests d)\<rparr>)"
| "daemon_step (pe, js, D_Auth n) d =
     (if d_crashed d \<or> n \<ge> length (p_auth_events (d_proto d)) then d
      else d\<lparr>d_proto := daemon_auth pe n (d_proto d)\<rparr>)"
| "daemon_step (pe, js, D_Service op) d =
     (if d_crashed d then d else d\<lparr>d_proto := do_svc pe (\<lambda>env s. svc_step (env, op) s) (d_proto d)\<rparr>)"
| "daemon_step (pe, js, D_Take) d = (if d_crashed d \<or> d_round d then d else daemon_take pe d)"
| "daemon_step (pe, js, D_End err) d =
     (if d_crashed d \<or> \<not> d_round d then d
      else d\<lparr>d_proto := round_end pe err (d_proto d), d_round := False\<rparr>)"
| "daemon_step (pe, js, D_Round ce sh) d =
     (if d_crashed d \<or> d_round d then d else d\<lparr>d_proto := connection_round pe ce sh (d_proto d)\<rparr>)"
| "daemon_step (pe, js, D_Stop) d =
     (if d_crashed d then d else d\<lparr>d_proto := daemon_stop pe (d_proto d)\<rparr>)"

fun good_op :: "proto_env \<times> json_env \<times> daemon_op \<Rightarrow> bool" where
  "good_op (pe, js, D_Round ce sh) = (good_world pe \<and> safe_attempts (ce_attempts ce))"
| "good_op (pe, js, op) = good_world pe"

lemma daemon_close_safe:
  "good_world pe \<Longrightarrow> psafe (d_proto d) \<Longrightarrow> psafe (d_proto (daemon_close pe c d))"
  by (auto simp: daemon_close_def psafe_closed split: option.split)

lemma daemon_read_safe:
  assumes "good_world pe" "psafe (d_proto d)"
  shows "psafe (d_proto (daemon_read pe js c m d))"
proof -
  have "psafe (snd (client_read pe js c (c \<in> set (d_verified d)) m (d_proto d)))"
    using assms by simp
  then show ?thesis using assms(1) by (simp add: daemon_read_def case_prod_unfold Let_def daemon_close_safe)
qed

lemma daemon_take_safe:
  assumes "good_world pe" "psafe (d_proto d)"
  shows "psafe (d_proto (daemon_take pe d))"
proof (cases "round_begin (d_proto d)")
  case None
  then show ?thesis using assms by (simp add: daemon_take_def)
next
  case (Some rq)
  obtain r q where rq: "rq = (r, q)" by (cases rq)
  then have "psafe q" using Some assms(2) psafe_round_begin by blast
  then show ?thesis using Some rq assms(1)
    by (simp add: daemon_take_def case_prod_unfold Let_def setConnectionParams_def)
qed

lemma psafe_stop [simp]: "good_world pe \<Longrightarrow> psafe p \<Longrightarrow> psafe (daemon_stop pe p)"
  by (simp add: daemon_stop_def proto_Stop_def notifyClientsDaemonExiting_def)

lemma daemon_step_safe:
  assumes "good_op e" "psafe (d_proto d)"
  shows "psafe (d_proto (daemon_step e d))"
proof -
  obtain pe js op where e: "e = (pe, js, op)" by (metis prod_cases3)
  show ?thesis using assms unfolding e
    by (cases op)
      (simp_all add: daemon_close_safe daemon_read_safe daemon_take_safe daemon_auth_def case_prod_unfold
        Let_def safe_step)
qed

interpretation daemon: safe_machine "\<lambda>e d. if good_op e then daemon_step e d else d" "\<lambda>d. psafe (d_proto d)"
  by unfold_locales (simp add: daemon_step_safe)

end
