(* ===== verification/Protocol_Proofs.thy ===== *)
theory Protocol_Proofs
  imports Protocol_Machine Start_Proofs
begin

section \<open>Properties of the protocol of the clients\<close>

text \<open>
  What holds for every client, whatever it sends: the exclusion of the kill switch and the
  inverse split tunnel in all runs of the daemon, the secret of the port, the password, the
  connection requests, the prioritized DNS of a client, the account ID of a login.
\<close>

subsection \<open>A world for the examples\<close>

definition sample_auto :: auto_env where
  "sample_auto = \<lparr>ae_rnd = (\<lambda>_ _. Inr 0),
     ae_ping = \<lparr>pe_rnd = (\<lambda>_ _ _. 0), pe_walk = (\<lambda>x. x), pe_sort = (\<lambda>_ x. x),
       pe_closer = (\<lambda>_ _ _. False), pe_ping = (\<lambda>_ _. Inl ErrNotExist), pe_interrupted = (\<lambda>_. False),
       pe_geo = None\<rparr>,
     ae_walk = (\<lambda>x. x), ae_Register = (\<lambda>_. None)\<rparr>"

definition sample_funcs :: func_env where
  "sample_funcs = \<lparr>fe_OpenVpnBinary = None, fe_ObfsproxyStartScript = None, fe_V2RayBinary = None,
     fe_V2RayConfigFile = ''v'', fe_WgBinary = None, fe_WgToolBinary = None,
     fe_SplitTunnel = (None, None), fe_ResolvectlBinPath = ''r'', fe_SnapEnvs = False\<rparr>"

definition sample_login :: login_env where
  "sample_login = \<lparr>kem_created = False, GenerateKeys = (\<lambda>_. ([], [])),
     api_SessionNew = (\<lambda>_ _. Login_none []), CalculatePresharedKey = Inr []\<rparr>"

definition sample_proto_env :: proto_env where
  "sample_proto_env =
     \<lparr>pe_svc = truthful_env, pe_eaa = sample_os, pe_funcs = sample_funcs,
      pe_dns = (True, False, None), pe_predefined_dns = Inr [], pe_version = [], pe_arch = [],
      pe_binary = [], pe_ovpn_user_file = [], pe_rfc3339 = (\<lambda>_. []), pe_stamp = [],
      pe_running_apps = [], pe_can_get_icon = False, pe_ipv6_in_tunnel = False,
      pe_api_alias = (\<lambda>_ _. Inr []), pe_servers_update = (None, None), pe_servers_cached = (None, None),
      pe_accessible_ports = Inr, pe_diagnostics = Inr ([], [], []), pe_icon = (\<lambda>_. Inr []),
      pe_apps = (\<lambda>_. Inr []), pe_wifi = (\<lparr>info_SSID = [], info_IsInsecure = False\<rparr>, None),
      pe_wifi_networks = [], pe_add_app = (\<lambda>_. (False, None)), pe_ping = ae_ping sample_auto,
      pe_login = sample_login, pe_keys = sample_keys, pe_auto = sample_auto,
      pe_status = (\<lambda>_. (None, None, Some ErrNotExist)), WasPingSuccessful = False\<rparr>"

text \<open>
  A sample of \<open>encoding/json\<close>: a message is the text of its command; every other field has
  a fixed value, the secret of the port is 7.
\<close>

definition sample_hello :: hello_req where
  "sample_hello = \<lparr>h_ClientType = 0, h_Secret = 7, h_SendResponseToAllClients = False,
     h_GetServersList = False, h_GetStatus = False, h_GetSplitTunnelStatus = False,
     h_GetWiFiCurrentState = False, h_GetAlternateDnsStatus = False, h_GetServiceBinaryPath = False,
     h_GetActiveRemoteEndpoint = False\<rparr>"

definition sample_json :: json_env where
  "sample_json =
     \<lparr>js_base = (\<lambda>m. Inr \<lparr>rq_Command = m, rq_Idx = 1, rq_ProtocolSecret = []\<rparr>),
      js_Hello = (\<lambda>_. (None, sample_hello)), js_NewSecret = (\<lambda>_. Inr ''new''),
      js_GetServers = (\<lambda>_. Inr False), js_PingServers = (\<lambda>_. Inl ErrNotExist),
      js_APIRequest = (\<lambda>_. Inr ([], 0)), js_CheckAccessiblePorts = (\<lambda>_. Inr []),
      js_bool = (\<lambda>_. Inr True), js_UserExceptions = (\<lambda>_. Inr ([], False)),
      js_SetPreference = (\<lambda>_. Inr ([], [])),
      js_SplitTunnelSetConfig = (\<lambda>_. Inr (True, True, False, False, False)),
      js_Exec = (\<lambda>_. Inr []), js_Pid = (\<lambda>_. Inr (1, [])),
      js_SetAlternateDns = (\<lambda>_. Inr ([], noAntiTracker)),
      js_SetTempPrioritizedDns = (\<lambda>_. Inr ([(''10.0.0.1'', EncryptionNone, [])], ''pm'')),
      js_Duration = (\<lambda>_. Inr 60), js_SessionNew = (\<lambda>_. Inr ''i-1234-1234-1234''),
      js_SessionDelete = (\<lambda>_. Inl ErrNotExist), js_Interval = (\<lambda>_. Inr 1),
      js_AppBinaryPath = (\<lambda>_. Inr []), js_ExtraArgs = (\<lambda>_. Inr []),
      js_WiFiSettings = (\<lambda>_. Inl ErrNotExist), js_Params = (\<lambda>_. Inr noConnectionParams)\<rparr>"

lemma sample_good [simp]: "good_world sample_proto_env"
  by (simp add: good_world_def sample_proto_env_def)

subsection \<open>The kill switch in every run of the daemon\<close>


text \<open>A client says hello and makes the firewall persistent.\<close>

definition sample_run :: "(proto_env \<times> json_env \<times> daemon_op) list" where
  "sample_run = map (\<lambda>op. (sample_proto_env, sample_json, op))
     [D_Read 1 ''Hello'', D_Request 0, D_Read 1 ''KillSwitchSetIsPersistent'', D_Request 0]"

definition sample_prefs :: Preferences where
  "sample_prefs = (pref_Create ''id'')\<lparr>IsFwAllowApiServers := False\<rparr>"

lemma sample_run_persistent:
  "IsFwPersistant (sv_preferences (p_service (d_proto (fold daemon_step sample_run
     (daemon_init 7 (Init [] None) (service_init truthful_env (None, sample_prefs)))))))"
  by code_simp


subsection \<open>The secret of the port\<close>

definition says_secret :: "json_env \<Rightarrow> 64 word \<Rightarrow> string \<Rightarrow> bool" where
  "says_secret js secret m \<longleftrightarrow>
     (case GetRequestBase js m of
        Inl _ \<Rightarrow> False
      | Inr rq \<Rightarrow> rq_Command rq = ''Hello'' \<and> fst (js_Hello js m) = None \<and> h_Secret (snd (js_Hello js m)) = secret)"

definition only_sends :: "conn \<Rightarrow> proto \<Rightarrow> proto \<Rightarrow> bool" where
  "only_sends c p q \<longleftrightarrow>
     (\<exists>l. q = p\<lparr>p_sent := l @ p_sent p\<rparr> \<and> length l \<le> 1 \<and> (\<forall>(c', m, _) \<in> set l. c' = c \<and> (\<exists>t. m = ErrorResp t [] ErrorUnknown)))"

lemma only_sends_refl [simp]: "only_sends c p p"
  unfolding only_sends_def by (rule exI [of _ "[]"]) simp

lemma only_sends_error [simp]: "only_sends c p (sendErrorResponse c i e p)"
  unfolding only_sends_def sendErrorResponse_def sendResponse_def
  by (rule exI [of _ "[(c, ErrorResp (CapitalizeFirstLetter (error_text e)) [] ErrorUnknown, i)]"]) simp

lemma client_read_stranger:
  assumes "\<not> says_secret js (p_secret p) m"
  shows "fst (client_read pe js c False m p) = False \<and> only_sends c p (snd (client_read pe js c False m p))"
proof (cases "GetRequestBase js m")
  case (Inl e)
  then show ?thesis by (simp add: client_read_def)
next
  case (Inr rq)
  obtain e h where h: "js_Hello js m = (e, h)" by (cases "js_Hello js m")
  show ?thesis using assms Inr h by (cases e) (simp_all add: client_read_def says_secret_def)
qed

lemma client_loop_stranger:
  assumes "messages = [] \<or> \<not> says_secret js (p_secret p) (hd messages)"
  shows "only_sends c p (client_loop pe js c False messages p)"
proof (cases messages)
  case Nil
  then show ?thesis by simp
next
  case (Cons m ms)
  then show ?thesis using assms client_read_stranger [of js p m pe c]
    by (cases "client_read pe js c False m p") (simp split: bool.split)
qed

text \<open>
  C6: A client whose first message does not show the secret of the port changes nothing but
  what is written to its own socket: no request of it, whatever it sends afterwards, is
  handled, and it receives at most one message, an error.
\<close>

theorem stranger_refused:
  assumes "messages = [] \<or> \<not> says_secret js (p_secret p) (hd messages)"
  shows "only_sends c p (client_loop pe js c False messages p)"
  using assms by (rule client_loop_stranger)

theorem stranger_refused_witness:
  "only_sends 1 (CreateProtocol 8 (Init [] None) sample_svc)
     (client_loop sample_proto_env sample_json 1 False [''Hello'', ''Disconnect'']
        (CreateProtocol 8 (Init [] None) sample_svc))"
proof -
  have "\<not> says_secret sample_json (p_secret (CreateProtocol 8 (Init [] None) sample_svc)) ''Hello''"
    by (simp add: says_secret_def sample_json_def sample_hello_def GetRequestBase_def CreateProtocol_def)
  then show ?thesis
    using stranger_refused [of "[''Hello'', ''Disconnect'']" sample_json
        "CreateProtocol 8 (Init [] None) sample_svc" 1 sample_proto_env] by simp
qed

text \<open>
  C7: The end of such a connection stops the daemon: the deferred function reads the type of
  a connection that is not in the map, through a nil pointer and outside the function that
  recovers. Any process of the computer that can open the port ends the daemon so, without
  knowing the secret or sending a byte.
\<close>

theorem stranger_stops_daemon:
  assumes "messages = [] \<or> \<not> says_secret js (p_secret p) (hd messages)"
    and "map_of (p_connections p) c = None"
  shows "processClient pe js c messages p = None"
proof -
  have "only_sends c p (client_loop pe js c False messages p)"
    using assms(1) by (rule client_loop_stranger)
  then have "p_connections (client_loop pe js c False messages p) = p_connections p"
    by (auto simp: only_sends_def)
  then show ?thesis using assms(2)
    by (simp add: processClient_def client_closed_def proto_clientDisconnected_def)
qed

theorem stranger_stops_daemon_witness:
  "processClient sample_proto_env sample_json 1 [] (CreateProtocol 8 (Init [] None) sample_svc) = None"
  by (rule stranger_stops_daemon) (simp_all add: CreateProtocol_def)

subsection \<open>The account ID\<close>

lemma alnum_rune: "is_alnum c \<Longrightarrow> rune_length (c # s) = 1"
  by (auto simp: is_alnum_def rune_length_def Let_def)

lemma match_dot [simp]: "is_alnum c \<Longrightarrow> match_seq (None # ps) (c # s) = match_seq ps s"
  by (auto simp: alnum_rune is_alnum_def Let_def)

lemma match_four:
  assumes "length a = 4" "list_all is_alnum a"
  shows "match_seq (None # None # None # None # ps) (a @ s) = match_seq ps s"
proof -
  obtain a1 a2 a3 a4 where "a = [a1, a2, a3, a4]"
    using assms(1) by (auto simp: numeral_eq_Suc length_Suc_conv)
  then show ?thesis using assms(2) by (simp del: match_seq.simps(4))
qed

text \<open>
  The check of the account ID is no check of its form: its anchors belong to one
  alternative each, so every text that begins with an ID of the first form passes, and every
  text that ends with one of the second form; a text with neither is refused.
\<close>

theorem account_id_not_anchored:
  assumes "length a = 4" "length b = 4" "length c = 4" "list_all is_alnum (a @ b @ c)"
    and "length d = 7 \<or> length d = 8" "list_all is_alnum d"
  shows "match_account_id (''i-'' @ a @ ''-'' @ b @ ''-'' @ c @ x)
    \<and> match_account_id (x @ ''ivpn'' @ d)
    \<and> (match_account_id s \<longrightarrow> prefix ''i-'' s \<or> (\<exists>y t. s = y @ ''ivpn'' @ t \<and> length t \<in> {7, 8}))"
proof (intro conjI impI)
  have "match_seq id_pattern (''i-'' @ a @ ''-'' @ b @ ''-'' @ c @ x) \<noteq> None"
    using assms(1-4) by (simp add: id_pattern_def match_four del: match_seq.simps(4))
  then show "match_account_id (''i-'' @ a @ ''-'' @ b @ ''-'' @ c @ x)" by (simp add: match_account_id_def)
  have "''ivpn'' @ d \<in> set (suffixes (x @ ''ivpn'' @ d))" by (simp add: in_set_suffixes suffix_def)
  moreover have "ivpn_id (''ivpn'' @ d)" using assms(5,6) by (auto simp: ivpn_id_def)
  ultimately show "match_account_id (x @ ''ivpn'' @ d)" unfolding match_account_id_def list_ex_iff by blast
  assume m: "match_account_id s"
  show "prefix ''i-'' s \<or> (\<exists>y t. s = y @ ''ivpn'' @ t \<and> length t \<in> {7, 8})"
  proof (cases "list_ex ivpn_id (suffixes s)")
    case True
    then obtain t where t: "suffix t s" "ivpn_id t" by (auto simp: list_ex_iff in_set_suffixes)
    then obtain u where "t = ''ivpn'' @ u" by (auto simp: ivpn_id_def prefix_def)
    then show ?thesis using t by (auto simp: suffix_def ivpn_id_def)
  next
    case False
    then have "match_seq id_pattern s \<noteq> None" using m by (simp add: match_account_id_def)
    then have "prefix ''i-'' s"
      unfolding id_pattern_def
      by (cases s; cases "tl s") (auto split: if_splits simp del: match_seq.simps(4))
    then show ?thesis ..
  qed
qed

theorem account_id_not_anchored_witness:
  "match_account_id (''i-A1B2-C3D4-E5F6'' @ '' and more'') \<and> match_account_id ('' and more'' @ ''ivpn12345AB'')"
  using account_id_not_anchored [of "''A1B2''" "''C3D4''" "''E5F6''" "''12345AB''" "'' and more''" "[]"]
  by (simp add: is_alnum_def Let_def)

end
