(* ===== verification/Protocol_Access.thy ===== *)
theory Protocol_Access
  imports Protocol_Proofs
begin

section \<open>What a client can do without the password (daemon/protocol)\<close>

text \<open>
  While Enhanced App Authentication is on, clients whose requests do not carry the password
  can look, but not touch. \<open>tame\<close> relates states of the service between which no setting, no
  connection and not the kill switch changes, \<open>mute\<close> states of the protocol; each has one rule
  per operation, as \<open>steady\<close> in Service\_Machine.
\<close>

subsection \<open>The service\<close>

definition tame :: "svc \<Rightarrow> svc \<Rightarrow> bool" where
  "tame s t \<longleftrightarrow> sv_preferences t = sv_preferences s \<and> sv_vpn t = sv_vpn s
     \<and> sv_requiredVpnState t = sv_requiredVpnState s \<and> TempPrioritizedDns t = TempPrioritizedDns s
     \<and> (fw_ok (sv_fw s) \<longrightarrow> fw_ok (sv_fw t) \<and> curStateEnabled (sv_fw t) = curStateEnabled (sv_fw s))
     \<and> (\<exists>l. sv_log t = l @ sv_log s \<and> (\<forall>r. Register_Connection r \<notin> set l))"

lemma tame_refl [simp]: "tame s s"
  by (simp add: tame_def)

lemma tame_trans: "tame s t \<Longrightarrow> tame t u \<Longrightarrow> tame s u"
  by (force simp: tame_def)

lemma tame_emit [simp]: "tame s t \<Longrightarrow> (\<And>r. c \<noteq> Register_Connection r) \<Longrightarrow> tame s (emit c t)"
  by (force simp: tame_def emit_def)

lemma tame_call [simp]: "tame s t \<Longrightarrow> (\<And>r. c \<noteq> Register_Connection r) \<Longrightarrow> tame s (snd (call env c t))"
  by (force simp: tame_def call_def)

lemma tame_fw [simp]: "calm f \<Longrightarrow> tame s t \<Longrightarrow> tame s (snd (on_fw f t))"
  by (auto simp: tame_def calm_def on_fw_def case_prod_unfold Let_def)

lemma tame_basic [simp]:
  "tame s (t\<lparr>sv_splitTunnelNoFuncReason := x\<rparr>) = tame s t" "tame s (t\<lparr>sv_pingResults := r\<rparr>) = tame s t"
  "tame s (t\<lparr>sv_pingBusy := b\<rparr>) = tame s t"
  by (simp_all add: tame_def)

lemma tame_queries [simp]:
  "env_good env \<Longrightarrow> tame s t \<Longrightarrow> tame s (snd (KillSwitchState env t))"
  "env_good env \<Longrightarrow> tame s t \<Longrightarrow> tame s (snd (FirewallEnabled env t))"
  "env_good env \<Longrightarrow> tame s t \<Longrightarrow> tame s (snd (IsConnectivityBlocked env t))"
  by (simp_all add: KillSwitchState_def FirewallEnabled_def IsConnectivityBlocked_def case_prod_unfold
      Let_def split: option.split)

lemma tame_split_tunnel [simp]:
  "env_good env \<Longrightarrow> tame s t \<Longrightarrow> tame s (snd (splitTunnelling_ApplyConfig env t))"
  "env_good env \<Longrightarrow> tame s t \<Longrightarrow> tame s (SplitTunnelling_SetDisabledReason env r t)"
proof -
  have a: "tame s (snd (st_apply env p t))" if "env_good env" "tame s t" for p t
    using that by (simp add: st_apply_def case_prod_unfold Let_def split: option.split)
  show b: "tame s (snd (splitTunnelling_ApplyConfig env t))" if "env_good env" "tame s t" for t
    using that a by (simp add: splitTunnelling_ApplyConfig_def case_prod_unfold Let_def)
  show "tame s (SplitTunnelling_SetDisabledReason env r t)" if "env_good env" "tame s t"
    using that b by (simp add: SplitTunnelling_SetDisabledReason_def Let_def)
qed

lemma tame_ping [simp]:
  assumes "env_good env" "tame s t"
  shows "tame s (snd (PingServers env pe n vt sk t))"
proof -
  have a: "tame s (ping_resultNotify r u)" if "tame s u" for r u
    using that by (simp add: ping_resultNotify_def)
  have b: "tame s (ping_finished env hs u)" if "tame s u" for hs u
    using that assms(1) by (simp add: ping_finished_def)
  have "tame s (snd (IsConnectivityBlocked env t))" using assms by simp
  then show ?thesis using assms a b
    by (cases "IsConnectivityBlocked env t")
       (simp add: PingServers_def case_prod_unfold Let_def split: option.split sum.split)
qed

subsection \<open>The protocol\<close>

definition mute :: "proto \<Rightarrow> proto \<Rightarrow> bool" where
  "mute p q \<longleftrightarrow> tame (p_service p) (p_service q) \<and> p_connRequest q = p_connRequest p
     \<and> p_disconnectRequested q = p_disconnectRequested p \<and> p_auth_events q = p_auth_events p"

definition no_authenticated :: "proto \<Rightarrow> bool" where
  "no_authenticated p \<longleftrightarrow>
     (\<forall>(c, i) \<in> set (p_connections p). \<not> IsAuthenticated i \<and> \<not> IsPrioritizedDnsDefined i)"

definition locked :: "string \<Rightarrow> proto \<Rightarrow> bool" where
  "locked secret p \<longleftrightarrow> guarded secret (p_eaa p) \<and> no_authenticated p"

definition held :: "string \<Rightarrow> proto \<Rightarrow> proto \<Rightarrow> bool" where
  "held secret p q \<longleftrightarrow> mute p q \<and> locked secret q"

lemma mute_refl [simp]: "mute p p"
  by (simp add: mute_def)

lemma held_trans: "held secret p q \<Longrightarrow> held secret q r \<Longrightarrow> held secret p r"
  by (auto simp: held_def mute_def intro: tame_trans)

lemma held_sends [simp]:
  "held secret p (sendResponse c m i q) = held secret p q"
  "held secret p (notifyClients m q) = held secret p q"
  "held secret p (sendErrorResponse c i e q) = held secret p q"
  "held secret p (sendState pe c i b q) = held secret p q"
  by (simp_all add: held_def mute_def locked_def no_authenticated_def sendErrorResponse_def sendState_def Let_def)

lemma held_eaa:
  "held secret p q \<Longrightarrow> guarded secret e \<Longrightarrow> held secret p (q\<lparr>p_eaa := e\<rparr>)"
  by (simp add: held_def mute_def locked_def no_authenticated_def)

lemma guarded_IsEnabled [simp]: "guarded secret (snd (IsEnabled os e)) = guarded secret e"
  by (simp add: IsEnabled_def guarded_def frame_simps)

lemma held_guarded: "held secret p q \<Longrightarrow> guarded secret (p_eaa q)"
  by (simp add: held_def locked_def)

lemma held_hello [simp]:
  "held secret p q \<Longrightarrow> held secret p (snd (createHelloResponse pe q))"
  "held secret p q \<Longrightarrow> held secret p (notify_hello pe q)"
  by (simp_all add: createHelloResponse_def notify_hello_def case_prod_unfold Let_def held_eaa held_guarded)

lemma held_service:
  "held secret p q \<Longrightarrow> tame (p_service q) s \<Longrightarrow> held secret p (q\<lparr>p_service := s\<rparr>)"
  by (auto simp: held_def mute_def locked_def no_authenticated_def intro: tame_trans)

lemma held_fields [simp]:
  "held secret p (q\<lparr>p_lastVPNState := v\<rparr>) = held secret p q"
  "held secret p (q\<lparr>p_lastVpnRemoteEndpoint := e\<rparr>) = held secret p q"
  by (simp_all add: held_def mute_def locked_def no_authenticated_def)

lemma held_event [simp]:
  assumes "good_world pe" "held secret p q"
  shows "held secret p (handle_event pe e q)"
  using assms
  by (cases e)
    (simp_all add: handle_OnKillSwitchStateChanged_def handle_OnSplitTunnelStatusChanged_def
      notifyVpnStateChanged_def handle_OnSessionStatus_def handle_OnConnectionStarting_def
      notifyLastConnectionStarting_def handle_OnConnectionStopped_def handle_OnServersUpdated_def
      handle_OnWiFiChanged_def handle_OnPingStatus_def held_service case_prod_unfold Let_def split: option.split)

lemma held_calls:
  assumes "good_world pe" "\<forall>r. Register_Connection r \<notin> set cs"
  shows "held secret p q \<Longrightarrow> held secret p (fold (handle_call pe register) cs q)"
  using assms(2)
proof (induction cs arbitrary: q)
  case Nil
  then show ?case by simp
next
  case (Cons c cs)
  have "held secret p (handle_call pe register c q)"
    using Cons.prems assms(1) by (cases c) auto
  then show ?case using Cons by simp
qed

lemma held_on_svc [simp]:
  assumes "good_world pe" "held secret p q"
    and "\<And>env s. env_good env \<Longrightarrow> tame s (snd (f env s))"
  shows "held secret p (snd (on_svc pe f q))"
proof -
  let ?s = "p_service q" and ?t = "snd (f (svc_world pe q) (p_service q))"
  have t: "tame ?s ?t" using assms by simp
  then obtain l where l: "sv_log ?t = l @ sv_log ?s" "\<forall>r. Register_Connection r \<notin> set l"
    by (auto simp: tame_def)
  then have "new_calls ?s ?t = rev l" by (simp add: new_calls_def)
  then show ?thesis using held_calls [OF assms(1), of "rev l"] l(2) held_service [OF assms(2) t]
    by (simp add: on_svc_def on_svc_reg_def case_prod_unfold Let_def)
qed

lemma held_do_if [simp]: "(held secret p q \<Longrightarrow> held secret p (f q)) \<Longrightarrow> held secret p q \<Longrightarrow> held secret p (do_if b f q)"
  by (simp add: do_if_def)

lemma held_with_req:
  "(\<And>a q. held secret p q \<Longrightarrow> held secret p (k a q)) \<Longrightarrow> held secret p q \<Longrightarrow> held secret p (with_req c i r k q)"
  by (simp add: with_req_def split: sum.split)

subsection \<open>Requests without the password\<close>

definition carries :: "json_env \<Rightarrow> string \<Rightarrow> string \<Rightarrow> bool" where
  "carries js secret m \<longleftrightarrow>
     (case js_base js m of Inl _ \<Rightarrow> False | Inr rq \<Rightarrow> rq_ProtocolSecret rq = secret)"

lemma held_queries [simp]:
  assumes "good_world pe" "held secret p q"
  shows "held secret p (handle_Hello pe js c i m q)" "held secret p (handle_GetServers pe js c i m q)"
    "held secret p (handle_PingServers pe js c i m q)" "held secret p (handle_APIRequest pe js c i m q)"
    "held secret p (handle_WiFiAvailableNetworks pe c i q)" "held secret p (handle_KillSwitchGetStatus pe c i q)"
    "held secret p (handle_GetDnsPredefinedConfigs pe c i q)"
proof -
  have st: "held secret p (hello_status pe c i r)" if "held secret p r" for r
    using that assms(1) by (simp add: hello_status_def case_prod_unfold Let_def)
  have sv: "held secret p (hello_servers pe c i r)" if "held secret p r" for r
    using that by (simp add: hello_servers_def split: option.split)
  show "held secret p (handle_Hello pe js c i m q)"
    using assms st sv
    by (simp add: handle_Hello_def handle_OnSplitTunnelStatusChanged_def handle_OnWiFiChanged_def
        notifyLastConnectionStarting_def case_prod_unfold Let_def split: option.split)
  show "held secret p (handle_GetServers pe js c i m q)"
    using assms by (auto simp: handle_GetServers_def send_servers_def intro!: held_with_req split: option.split prod.split)
  show "held secret p (handle_PingServers pe js c i m q)"
    using assms by (auto simp: handle_PingServers_def case_prod_unfold Let_def intro!: held_with_req split: option.split)
  show "held secret p (handle_APIRequest pe js c i m q)"
    using assms by (auto simp: handle_APIRequest_def intro!: held_with_req split: sum.split)
  show "held secret p (handle_WiFiAvailableNetworks pe c i q)"
    using assms by (simp add: handle_WiFiAvailableNetworks_def)
  show "held secret p (handle_KillSwitchGetStatus pe c i q)"
    using assms by (auto simp: handle_KillSwitchGetStatus_def case_prod_unfold Let_def split: option.split)
  show "held secret p (handle_GetDnsPredefinedConfigs pe c i q)"
    using assms by (auto simp: handle_GetDnsPredefinedConfigs_def intro!: held_with_req)
qed

lemma skipped_commands:
  assumes "isDoSkipParanoidMode n"
  shows "parse_command n \<in> {C_Hello, C_GetVPNState, C_GetServers, C_PingServers, C_APIRequest,
    C_WiFiAvailableNetworks, C_KillSwitchGetStatus, C_SplitTunnelGetStatus, C_GetDnsPredefinedConfigs,
    C_Unsupported}"
proof -
  have "list_all (\<lambda>n. parse_command n \<in> {C_Hello, C_GetVPNState, C_GetServers, C_PingServers, C_APIRequest,
    C_WiFiAvailableNetworks, C_KillSwitchGetStatus, C_SplitTunnelGetStatus, C_GetDnsPredefinedConfigs,
    C_Unsupported}) [''Hello'', ''GetVPNState'', ''GetServers'', ''PingServers'', ''APIRequest'',
       ''WiFiAvailableNetworks'', ''KillSwitchGetStatus'', ''SplitTunnelGetStatus'',
       ''GetDnsPredefinedConfigs'', ''AccountStatus'']"
    by code_simp
  then show ?thesis using assms unfolding isDoSkipParanoidMode_def list_all_iff by blast
qed

lemma held_dispatch:
  assumes "good_world pe" "held secret p q" "isDoSkipParanoidMode (rq_Command rq)"
  shows "held secret p (dispatch pe js c rq m q)"
  using assms skipped_commands [OF assms(3)] by (auto simp: dispatch_def)

lemma check_password_held:
  assumes "reads_ok (pe_eaa pe)" "held secret p q"
    and "\<not> isDoSkipParanoidMode (rq_Command rq) \<Longrightarrow> rq_ProtocolSecret rq \<noteq> secret"
  shows "held secret p (snd (check_password pe c rq q))"
    and "fst (check_password pe c rq q) \<longleftrightarrow> isDoSkipParanoidMode (rq_Command rq)"
proof -
  have g: "guarded secret (p_eaa q)" using assms(2) by (rule held_guarded)
  then have e: "IsEnabled (pe_eaa pe) (p_eaa q) = (True, do_tick (p_eaa q))"
    using assms(1) by (simp add: IsEnabled_def os_simps)
  have c: "\<not> fst (fst (CheckSecret (pe_eaa pe) x (do_tick (p_eaa q))))" if "x \<noteq> secret" for x
    using check_fails_on_wrong [OF assms(1), of secret "do_tick (p_eaa q)" x] g that by (simp add: CheckSecret_def)
  have h: "held secret p (q\<lparr>p_eaa := do_tick (p_eaa q)\<rparr>)" using assms(2) g by (simp add: held_eaa)
  have h2: "held secret p (q\<lparr>p_eaa := snd (CheckSecret (pe_eaa pe) x (do_tick (p_eaa q)))\<rparr>)" for x
    using assms(2) g by (simp add: held_eaa CheckSecret_def)
  show "held secret p (snd (check_password pe c rq q))"
    using assms(3) h h2 c by (auto simp: check_password_def e case_prod_unfold Let_def)
  show "fst (check_password pe c rq q) \<longleftrightarrow> isDoSkipParanoidMode (rq_Command rq)"
    using assms(3) c by (auto simp: check_password_def e case_prod_unfold Let_def)
qed

lemma held_processRequest:
  assumes "good_world pe" "reads_ok (pe_eaa pe)" "held secret p q" "\<not> carries js secret m"
  shows "held secret p (processRequest pe js c m q)"
proof (cases "GetRequestBase js m")
  case (Inl e)
  then show ?thesis using assms by (simp add: processRequest_def)
next
  case (Inr rq)
  then have "rq_ProtocolSecret rq \<noteq> secret"
    using assms(4) by (auto simp: GetRequestBase_def carries_def split: sum.splits if_splits)
  then have a: "held secret p (snd (check_password pe c rq q))"
    "fst (check_password pe c rq q) \<longleftrightarrow> isDoSkipParanoidMode (rq_Command rq)"
    using check_password_held [OF assms(2,3)] by blast+
  show ?thesis using a held_dispatch [OF assms(1) a(1)] Inr
    by (cases "check_password pe c rq q") (auto simp: processRequest_def)
qed

lemma held_interop [simp]:
  "held secret p (interop_ClientConnected t q) = held secret p q"
  "held secret p (interop_ClientDisconnected t q) = held secret p q"
  "held secret p (interop_PingDetectedApps pe q) = held secret p q"
  by (simp_all add: interop_ClientConnected_def interop_ClientDisconnected_def interop_PingDetectedApps_def
      interop_Ping_def held_def mute_def locked_def no_authenticated_def)

lemma set_AList_update: "set (AList.update k v al) \<subseteq> insert (k, v) (set al)"
  by (induction al) auto

lemma held_clientConnected:
  assumes "good_world pe" "held secret p q"
  shows "held secret p (clientConnected pe c t q)"
proof -
  let ?i = "\<lparr>ci_Type = t, IsAuthenticated = False, IsPrioritizedDnsDefined = False\<rparr>"
  have "held secret p (set_connection c ?i q)"
    using assms(2) set_AList_update [of c ?i "p_connections q"]
    by (auto simp: held_def mute_def locked_def no_authenticated_def set_connection_def)
  then show ?thesis using assms(1) by (auto simp: clientConnected_def Let_def)
qed

lemma held_client_read:
  assumes "good_world pe" "held secret p q"
  shows "held secret p (snd (client_read pe js c b m q))"
  using assms held_clientConnected [OF assms]
  by (auto simp: client_read_def split: sum.split option.split prod.split)

lemma held_client_closed:
  assumes "good_world pe" "held secret p q" "client_closed pe c q = Some r"
  shows "held secret p r"
proof -
  let ?q = "q\<lparr>p_connections := AList.delete c (p_connections q)\<rparr>"
  have sub: "set (AList.delete c (p_connections q)) \<subseteq> set (p_connections q)"
    by (auto simp: AList.delete_eq)
  then have d: "held secret p ?q"
    using assms(2) by (auto simp: held_def mute_def locked_def no_authenticated_def)
  obtain i where i: "map_of (p_connections q) c = Some i"
    using assms(3) by (cases "map_of (p_connections q) c")
      (auto simp: client_closed_def proto_clientDisconnected_def)
  then have n: "\<not> IsAuthenticated i" "\<not> IsPrioritizedDnsDefined i"
    using assms(2) map_of_SomeD [OF i] by (auto simp: held_def locked_def no_authenticated_def)
  then obtain u where u: "proto_clientDisconnected pe c q = Some (i, u)" "held secret p u"
    using d i assms(1) by (simp add: proto_clientDisconnected_def Let_def)
  then show ?thesis using assms(3) n by (auto simp: client_closed_def Let_def)
qed

subsection \<open>Runs of clients without the password\<close>

fun client_op :: "json_env \<Rightarrow> string \<Rightarrow> proto_env \<times> daemon_op \<Rightarrow> bool" where
  "client_op js secret (pe, D_Read c m) =
     (good_world pe \<and> reads_ok (pe_eaa pe) \<and> \<not> carries js secret m)"
| "client_op js secret (pe, D_Request n) = (good_world pe \<and> reads_ok (pe_eaa pe))"
| "client_op js secret (pe, D_Close c) = (good_world pe \<and> reads_ok (pe_eaa pe))"
| "client_op js secret (pe, _) = False"

definition quiet :: "json_env \<Rightarrow> string \<Rightarrow> proto \<Rightarrow> daemon \<Rightarrow> bool" where
  "quiet js secret p d \<longleftrightarrow>
     held secret p (d_proto d) \<and> (\<forall>(c, m) \<in> set (d_requests d). \<not> carries js secret m)"

lemma quiet_close:
  "good_world pe \<Longrightarrow> quiet js secret p d \<Longrightarrow> quiet js secret p (daemon_close pe c d)"
  by (auto simp: quiet_def daemon_close_def held_client_closed split: option.split)

lemma set_remove_nth: "set (remove_nth n xs) \<subseteq> set xs"
  using set_take_subset [of n xs] set_drop_subset [of "n + 1" xs] by (auto simp: remove_nth_def)

lemma quiet_step:
  assumes "client_op js secret (pe, op)" "quiet js secret p d"
  shows "quiet js secret p (daemon_step (pe, js, op) d)"
proof (cases op)
  case (D_Read c m)
  let ?r = "client_read pe js c (c \<in> set (d_verified d)) m (d_proto d)"
  have "held secret p (snd ?r)"
    using assms D_Read held_client_read by (auto simp: quiet_def)
  then have r: "quiet js secret p (d\<lparr>d_proto := snd ?r\<rparr>)" using assms(2) by (simp add: quiet_def)
  have "quiet js secret p (daemon_read pe js c m d)"
  proof (cases "fst ?r")
    case True
    then show ?thesis using r assms(1) D_Read
      by (simp add: daemon_read_def case_prod_unfold Let_def quiet_def)
  next
    case False
    then show ?thesis using quiet_close [OF _ r] assms(1) D_Read
      by (simp add: daemon_read_def case_prod_unfold Let_def)
  qed
  then show ?thesis using assms(2) D_Read by simp
next
  case (D_Request n)
  show ?thesis
  proof (cases "d_crashed d \<or> n \<ge> length (d_requests d)")
    case True
    then show ?thesis using assms(2) D_Request by simp
  next
    case False
    obtain c m where cm: "d_requests d ! n = (c, m)" by (cases "d_requests d ! n")
    then have "(c, m) \<in> set (d_requests d)" using False nth_mem [of n "d_requests d"] by simp
    then have "held secret p (processRequest pe js c m (d_proto d))"
      using assms D_Request by (intro held_processRequest) (auto simp: quiet_def)
    then show ?thesis using False assms(2) cm D_Request set_remove_nth [of n "d_requests d"]
      by (auto simp: quiet_def)
  qed
next
  case (D_Close c)
  then show ?thesis using assms quiet_close by simp
qed (use assms in auto)

lemma quiet_run:
  "\<forall>e \<in> set run. client_op js secret e \<Longrightarrow> quiet js secret p d \<Longrightarrow>
     quiet js secret p (fold (\<lambda>(pe, op). daemon_step (pe, js, op)) run d)"
  by (induction run arbitrary: d) (auto simp: quiet_step)

text \<open>
  C2: No control without the password: while a password is set and can be read, clients that
  know the secret of the port but send no request with the password change no setting, start or
  end no connection, request none, touch neither the kill switch nor the DNS nor the password, and
  none becomes authenticated; whatever they send, in any order, and whenever they come and go.
\<close>

theorem no_control_without_password:
  fixes run :: "(proto_env \<times> daemon_op) list"
  assumes "\<forall>e \<in> set run. client_op js secret e" and "locked secret (d_proto d)" and "d_requests d = []"
    and "fw_ok (sv_fw (p_service (d_proto d)))"
  defines "p \<equiv> d_proto d" and "q \<equiv> d_proto (fold (\<lambda>(pe, op). daemon_step (pe, js, op)) run d)"
  shows "sv_preferences (p_service q) = sv_preferences (p_service p)
    \<and> sv_vpn (p_service q) = sv_vpn (p_service p)
    \<and> TempPrioritizedDns (p_service q) = TempPrioritizedDns (p_service p)
    \<and> sc_on (sc_run (cmds (sv_fw (p_service q)))) = sc_on (sc_run (cmds (sv_fw (p_service p))))
    \<and> p_connRequest q = p_connRequest p \<and> p_disconnectRequested q = p_disconnectRequested p
    \<and> disk (p_eaa q) = Some secret \<and> \<not> proto_IsClientConnected q"
proof -
  have "quiet js secret p d" using assms(2,3) by (simp add: quiet_def held_def p_def)
  then have h: "held secret p q" using quiet_run [OF assms(1)] by (simp add: q_def quiet_def)
  have on: "fw_ok w \<Longrightarrow> sc_on (sc_run (cmds w)) = curStateEnabled w" for w
    by (simp add: fw_ok_def fw_sync_def fw_weak_def)
  have "\<not> proto_IsClientConnected q"
    using h by (auto simp: held_def locked_def no_authenticated_def proto_IsClientConnected_def list_ex_iff)
  then show ?thesis using h assms(4) on
    by (simp add: held_def mute_def tame_def locked_def guarded_def p_def)
qed

definition sample_guarded :: daemon where
  "sample_guarded = daemon_init 7 (Init ''eaa'' (Some ''pwd'')) sample_svc"

definition guarded_run :: "(proto_env \<times> daemon_op) list" where
  "guarded_run = map (\<lambda>op. (sample_proto_env, op)) [D_Read 1 ''Hello'', D_Request 0,
     D_Read 1 ''KillSwitchSetIsPersistent'', D_Request 0, D_Close 1]"

theorem no_control_without_password_witness:
  "sv_preferences (p_service (d_proto (fold (\<lambda>(pe, op). daemon_step (pe, sample_json, op))
      guarded_run sample_guarded))) = sv_preferences sample_svc"
proof -
  have "fw_ok fw_init" by (simp add: fw_ok_def fw_sync_def fw_weak_def fw_init_def hosts_of_def sc_init_def)
  then have s: "locked ''pwd'' (d_proto sample_guarded)" "d_requests sample_guarded = []"
    "fw_ok (sv_fw (p_service (d_proto sample_guarded)))"
    "sv_preferences (p_service (d_proto sample_guarded)) = sv_preferences sample_svc"
    by (simp_all add: sample_guarded_def daemon_init_def interop_Ping_def CreateProtocol_def locked_def
        no_authenticated_def guarded_def Init_def maxSecretFileSize_def sample_svc_def svc_init_def)
  have e: "pe_eaa sample_proto_env = sample_os" by (simp add: sample_proto_env_def)
  have "\<not> carries sample_json ''pwd'' m" for m by (simp add: carries_def sample_json_def)
  then have "\<forall>e \<in> set guarded_run. client_op sample_json ''pwd'' e"
    using e by (simp add: guarded_run_def)
  from no_control_without_password [OF this s(1,2,3), THEN conjunct1] show ?thesis
    unfolding s(4) .
qed

end
