(* ===== verification/Protocol_Rounds.thy ===== *)
theory Protocol_Rounds
  imports Protocol_Proofs
begin

section \<open>Connection requests and the DNS of a client (daemon/protocol)\<close>

text \<open>
  Which of several connection requests is processed and what a disconnection cancels; who
  may change the DNS while a client manages it, and when it is given free again.
\<close>

subsection \<open>What the events leave alone\<close>

lemma hello_fields [simp]:
  "p_connRequest (snd (createHelloResponse pe p)) = p_connRequest p"
  "p_disconnectRequested (snd (createHelloResponse pe p)) = p_disconnectRequested p"
  "p_connections (snd (createHelloResponse pe p)) = p_connections p"
  "p_isRunning (snd (createHelloResponse pe p)) = p_isRunning p"
  by (simp_all add: createHelloResponse_def case_prod_unfold Let_def)

lemma event_fields [simp]:
  "p_connRequest (handle_event pe e p) = p_connRequest p"
  "p_disconnectRequested (handle_event pe e p) = p_disconnectRequested p"
  "p_connections (handle_event pe e p) = p_connections p"
  "p_isRunning (handle_event pe e p) = p_isRunning p"
  by (cases e; simp add: handle_OnKillSwitchStateChanged_def handle_OnSplitTunnelStatusChanged_def
      notifyVpnStateChanged_def handle_OnSessionStatus_def handle_OnConnectionStarting_def
      notifyLastConnectionStarting_def handle_OnConnectionStopped_def handle_OnServersUpdated_def
      handle_OnWiFiChanged_def handle_OnPingStatus_def notify_hello_def case_prod_unfold Let_def
      split: option.split)+

text \<open>Operations that register no connection.\<close>

lemma calls_fields:
  "(\<forall>r q. P (register r q) = P q) \<Longrightarrow> (\<forall>e q. P (handle_event pe e q) = P q) \<Longrightarrow>
     P (fold (handle_call pe register) cs p) = P p"
proof (induction cs arbitrary: p)
  case Nil
  then show ?case by simp
next
  case (Cons c cs)
  have "P (handle_call pe register c p) = P p" using Cons.prems by (cases c) auto
  then show ?case using Cons by simp
qed

lemma on_svc_reg_fields:
  assumes "\<forall>r q. P (register r q) = P q" "\<forall>e q. P (handle_event pe e q) = P q"
    and "\<forall>s q. P (q\<lparr>p_service := s\<rparr>) = P q"
  shows "P (snd (on_svc_reg register pe f p)) = P p"
  using assms calls_fields [of P register pe] by (simp add: on_svc_reg_def case_prod_unfold Let_def)

lemma register_fields [simp]:
  "p_connRequest (RegisterConnectionRequest pe r p) = Some r"
  "p_disconnectRequested (RegisterConnectionRequest pe r p) = False"
  "p_connections (RegisterConnectionRequest pe r p) = p_connections p"
  "p_isRunning (RegisterConnectionRequest pe r p) = p_isRunning p"
  unfolding RegisterConnectionRequest_def
  using on_svc_reg_fields [of p_connRequest "\<lambda>_ p. p" pe Disconnect "p\<lparr>p_disconnectRequested := False, p_connRequest := Some r\<rparr>"]
    on_svc_reg_fields [of p_disconnectRequested "\<lambda>_ p. p" pe Disconnect "p\<lparr>p_disconnectRequested := False, p_connRequest := Some r\<rparr>"]
    on_svc_reg_fields [of p_connections "\<lambda>_ p. p" pe Disconnect "p\<lparr>p_disconnectRequested := False, p_connRequest := Some r\<rparr>"]
    on_svc_reg_fields [of p_isRunning "\<lambda>_ p. p" pe Disconnect "p\<lparr>p_disconnectRequested := False, p_connRequest := Some r\<rparr>"]
  by simp_all

lemma on_svc_fields [simp]:
  "p_connections (snd (on_svc pe f p)) = p_connections p"
  "p_isRunning (snd (on_svc pe f p)) = p_isRunning p"
  unfolding on_svc_def by (rule on_svc_reg_fields; simp)+

subsection \<open>The last request wins\<close>

text \<open>
  Of any number of connection requests registered before the processor takes one, it
  takes the last; the others are gone, also for the next round, and none is cancelled by a
  disconnection that was requested before it.
\<close>

theorem last_request_taken:
  assumes "rs \<noteq> []"
  shows "\<exists>q. round_begin (fold (RegisterConnectionRequest pe) rs p) = Some (last rs, q)
    \<and> round_begin q = None \<and> \<not> p_disconnectRequested q"
proof -
  obtain r rs' where rs: "rs = rs' @ [r]" using assms by (metis append_butlast_last_id)
  show ?thesis by (simp add: rs round_begin_def)
qed

theorem last_request_taken_witness:
  "\<exists>q. round_begin (fold (RegisterConnectionRequest sample_proto_env)
       [noConnectionParams, noConnectionParams\<lparr>FirewallOn := True\<rparr>] (CreateProtocol 7 (Init [] None) sample_svc))
     = Some (noConnectionParams\<lparr>FirewallOn := True\<rparr>, q) \<and> round_begin q = None \<and> \<not> p_disconnectRequested q"
  using last_request_taken [of "[noConnectionParams, noConnectionParams\<lparr>FirewallOn := True\<rparr>]"
      sample_proto_env "CreateProtocol 7 (Init [] None) sample_svc"] by simp

subsection \<open>A disconnection cancels the request before it\<close>

text \<open>Steps that register no connection and leave the prioritized DNS.\<close>

definition plain :: "svc \<Rightarrow> svc \<Rightarrow> bool" where
  "plain s t \<longleftrightarrow> TempPrioritizedDns t = TempPrioritizedDns s
     \<and> (\<exists>l. sv_log t = l @ sv_log s \<and> (\<forall>r. Register_Connection r \<notin> set l))"

lemma plain_refl [simp]: "plain s s"
  by (simp add: plain_def)

lemma plain_emit [simp]: "plain s t \<Longrightarrow> (\<And>r. c \<noteq> Register_Connection r) \<Longrightarrow> plain s (emit c t)"
  by (force simp: plain_def emit_def)

lemma plain_call [simp]: "plain s t \<Longrightarrow> (\<And>r. c \<noteq> Register_Connection r) \<Longrightarrow> plain s (snd (call env c t))"
  by (force simp: plain_def call_def)

lemma plain_basic [simp]:
  "plain s (snd (on_fw f t)) = plain s t" "plain s (t\<lparr>sv_vpn := v\<rparr>) = plain s t"
  "plain s (t\<lparr>sv_requiredVpnState := x\<rparr>) = plain s t" "plain s (t\<lparr>sv_pauseTill := d\<rparr>) = plain s t"
  "plain s (set_paused b t) = plain s t" "plain s (t\<lparr>sv_splitTunnelNoFuncReason := y\<rparr>) = plain s t"
  by (simp_all add: plain_def on_fw_def set_paused_def case_prod_unfold Let_def)

lemma plain_start [simp]: "plain (s\<lparr>sv_requiredVpnState := x\<rparr>) t = plain s t"
  by (simp add: plain_def)

lemma plain_kill_switch [simp]:
  "plain s t \<Longrightarrow> plain s (onKillSwitchStateChanged t)"
  "plain s t \<Longrightarrow> plain s (snd (SetKillSwitchState env b t))"
  "plain s (snd (KillSwitchState env t)) = plain s t"
  by (simp_all add: onKillSwitchStateChanged_def SetKillSwitchState_def KillSwitchState_def
      case_prod_unfold Let_def)

lemma plain_split_tunnel [simp]:
  "plain s t \<Longrightarrow> plain s (snd (splitTunnelling_ApplyConfig env t))"
  "plain s t \<Longrightarrow> plain s (SplitTunnelling_SetDisabledReason env r t)"
proof -
  have a: "plain s (snd (st_apply env p t))" if "plain s t" for p t
    using that by (simp add: st_apply_def case_prod_unfold Let_def split: option.split)
  show b: "plain s (snd (splitTunnelling_ApplyConfig env t))" if "plain s t" for t
    using that a by (simp add: splitTunnelling_ApplyConfig_def case_prod_unfold Let_def)
  show "plain s (SplitTunnelling_SetDisabledReason env r t)" if "plain s t"
    using that b by (simp add: SplitTunnelling_SetDisabledReason_def Let_def)
qed

lemma plain_Disconnect: "plain s (snd (Disconnect env s))"
proof -
  have r: "plain s (snd (resume env t))" if "plain s t" for t
    using that by (simp add: resume_def case_prod_unfold Let_def split: option.split)
  have f: "plain s (connect_finalize env v t)" if "plain s t" for v t
    using that by (simp add: connect_finalize_def Let_def)
  have d: "plain s (snd (disconnect env t))" if "plain s t" for t
    using that f by (simp add: disconnect_def case_prod_unfold Let_def split: option.split)
  show ?thesis using r d by (simp add: Disconnect_def case_prod_unfold Let_def)
qed

lemma Disconnect_required: "sv_requiredVpnState (snd (Disconnect env s)) = Required_Disconnect"
proof -
  let ?s = "s\<lparr>sv_requiredVpnState := Required_Disconnect\<rparr>"
  have "core ?s (snd (disconnect env (snd (resume env ?s))))" by simp
  then show ?thesis by (simp add: Disconnect_def case_prod_unfold Let_def core_def)
qed

lemma new_calls_plain: "plain s t \<Longrightarrow> \<forall>r. Register_Connection r \<notin> set (new_calls s t)"
  by (auto simp: plain_def new_calls_def)

lemma handle_calls_cong:
  "\<forall>r. Register_Connection r \<notin> set cs \<Longrightarrow>
     fold (handle_call pe register) cs p = fold (handle_call pe register') cs p"
proof (induction cs arbitrary: p)
  case Nil
  then show ?case by simp
next
  case (Cons c cs)
  have "handle_call pe register c p = handle_call pe register' c p" using Cons.prems by (cases c) auto
  then show ?case using Cons by simp
qed

lemma on_svc_Disconnect: "on_svc pe Disconnect p = on_svc_reg (\<lambda>_ p. p) pe Disconnect p"
  using handle_calls_cong [OF new_calls_plain [OF plain_Disconnect [of "p_service p" "svc_world pe p"]],
      of pe "RegisterConnectionRequest pe" _ "\<lambda>_ p. p"]
  by (simp add: on_svc_def on_svc_reg_def case_prod_unfold Let_def)

lemma on_svc_Disconnect_fields [simp]:
  "p_connRequest (snd (on_svc pe Disconnect p)) = p_connRequest p"
  "p_disconnectRequested (snd (on_svc pe Disconnect p)) = p_disconnectRequested p"
  unfolding on_svc_Disconnect by (rule on_svc_reg_fields; simp)+

lemma event_core: "core (p_service p) (p_service (handle_event pe e p))"
  by (cases e; simp add: handle_OnKillSwitchStateChanged_def handle_OnSplitTunnelStatusChanged_def
      notifyVpnStateChanged_def handle_OnSessionStatus_def handle_OnConnectionStarting_def
      notifyLastConnectionStarting_def handle_OnConnectionStopped_def handle_OnServersUpdated_def
      handle_OnWiFiChanged_def handle_OnPingStatus_def case_prod_unfold Let_def split: option.split)

lemma on_svc_Disconnect_required [simp]:
  "sv_requiredVpnState (p_service (snd (on_svc pe Disconnect p))) = Required_Disconnect"
proof -
  let ?P = "\<lambda>p. sv_requiredVpnState (p_service p)"
  have "\<forall>e q. ?P (handle_event pe e q) = ?P q" using event_core by (simp add: core_def)
  then show ?thesis
    using calls_fields [of ?P "\<lambda>_ p. p" pe]
    by (simp add: on_svc_Disconnect on_svc_reg_def case_prod_unfold Let_def Disconnect_required)
qed

lemma saveLastError_fields [simp]:
  "p_connRequest (saveLastError pe e p) = p_connRequest p"
  "p_disconnectRequested (saveLastError pe e p) = p_disconnectRequested p"
  "p_connections (saveLastError pe e p) = p_connections p" "p_service (saveLastError pe e p) = p_service p"
  by (simp_all add: saveLastError_def split: option.split)

lemma round_end_tells:
  assumes "p_disconnectRequested p" "(c, i) \<in> set (p_connections p)"
  shows "\<exists>f t. (c, DisconnectedResp f DisconnectRequested t False, 0) \<in> set (p_sent (round_end pe e p))"
  using assms by (force simp: round_end_def notify_disconnected_def notify_eq Let_def)

text \<open>
  C32: A disconnection cancels the request before it: when a client asks to disconnect after
  a connection was requested and before the request is processed, the processing starts no VPN
  (whatever the world of a connection would be), the service is told to stay disconnected, and
  every client is told that the disconnection was requested.
\<close>

theorem disconnect_cancels_request:
  fixes pe :: proto_env and p :: proto and c :: conn and idx :: nat and r :: ConnectionParams
  assumes "p_isRunning p"
  defines "q \<equiv> handle_Disconnect pe c idx (RegisterConnectionRequest pe r p)"
  shows "connection_round pe ce sh q = connection_round pe ce' sh' q
    \<and> sv_requiredVpnState (p_service (connection_round pe ce sh q)) = Required_Disconnect
    \<and> p_connRequest (connection_round pe ce sh q) = None
    \<and> (\<forall>(c', i) \<in> set (p_connections p). \<exists>f t.
         (c', DisconnectedResp f DisconnectRequested t False, 0) \<in> set (p_sent (connection_round pe ce sh q)))"
proof -
  have q: "p_connRequest q = Some r" "p_disconnectRequested q" "p_connections q = p_connections p" "p_isRunning q"
    using assms(1) by (simp_all add: q_def handle_Disconnect_def case_prod_unfold Let_def split: option.split)
      (simp_all add: sendErrorResponse_def split: option.split)
  let ?t = "q\<lparr>p_connRequest := None, p_lastConnectionError := []\<rparr>"
  obtain e d where e: "on_svc pe Disconnect ?t = (e, d)" by fastforce
  then have snd_e: "d = snd (on_svc pe Disconnect ?t)" by simp
  have round: "connection_round pe x y q = round_end pe e d" for x y
    using q e by (simp add: connection_round_def round_begin_def processConnectRequest_def)
  have d: "p_disconnectRequested d" "p_connections d = p_connections p" "p_connRequest d = None"
    "sv_requiredVpnState (p_service d) = Required_Disconnect"
    unfolding snd_e using q by simp_all
  have "p_connRequest (round_end pe e d) = None" "p_service (round_end pe e d) = p_service d"
    using d by (simp_all add: round_end_def notify_disconnected_def Let_def)
  then show ?thesis using d round_end_tells [OF d(1)] unfolding round by auto
qed

theorem disconnect_cancels_request_witness:
  "\<exists>f t. (1, DisconnectedResp f DisconnectRequested t False, 0) \<in> set (p_sent
     (connection_round sample_proto_env sample_conn_env False
       (handle_Disconnect sample_proto_env 1 5 (RegisterConnectionRequest sample_proto_env sample_params
         (clientConnected sample_proto_env 1 ClientUi (CreateProtocol 7 (Init [] None) sample_svc))))))"
proof -
  let ?p = "clientConnected sample_proto_env 1 ClientUi (CreateProtocol 7 (Init [] None) sample_svc)"
  have *: "p_isRunning ?p"
    and **: "(1, \<lparr>ci_Type = ClientUi, IsAuthenticated = False, IsPrioritizedDnsDefined = False\<rparr>) \<in> set (p_connections ?p)"
    by (simp_all add: clientConnected_def CreateProtocol_def set_connection_def interop_ClientConnected_def
        ClientUi_def ClientPortmaster_def)
  note disconnect_cancels_request [where pe = sample_proto_env and c = 1 and idx = 5 and r = sample_params
      and ce = sample_conn_env and sh = False, OF *, THEN conjunct2, THEN conjunct2, THEN conjunct2]
  from bspec [OF this **] show ?thesis by simp
qed

end
