(* ===== verification/Protocol_Dns.thy ===== *)
theory Protocol_Dns
  imports Protocol_Rounds
begin

section \<open>The DNS of a client (daemon/protocol, daemon/service/service\_dns.go)\<close>

text \<open>
  Who may change the DNS while a client manages it (\<open>SetTempPrioritizedDns\<close>), when it is
  given free again, and what a failure in between leaves behind.
\<close>

subsection \<open>The prioritized DNS through the events of an operation\<close>

definition temp_of :: "proto \<Rightarrow> TempDnsSettings" where
  "temp_of p = TempPrioritizedDns (p_service p)"

lemma temp_sends [simp]:
  "temp_of (sendResponse c m i p) = temp_of p" "temp_of (notifyClients m p) = temp_of p"
  "temp_of (sendErrorResponse c i e p) = temp_of p" "temp_of (set_connection c x p) = temp_of p"
  "temp_of (p\<lparr>p_connections := cs\<rparr>) = temp_of p" "temp_of (p\<lparr>p_service := s\<rparr>) = TempPrioritizedDns s"
  "temp_of (p\<lparr>p_disconnectRequested := b, p_connRequest := r\<rparr>) = temp_of p"
  "temp_of (p\<lparr>p_sent := l\<rparr>) = temp_of p"
  by (simp_all add: temp_of_def sendErrorResponse_def set_connection_def)

lemma temp_queries [simp]:
  "TempPrioritizedDns (snd (KillSwitchState env s)) = TempPrioritizedDns s"
  using plain_kill_switch(3) [of s env s] by (simp add: plain_def)

lemma temp_event [simp]: "temp_of (handle_event pe e p) = temp_of p"
  unfolding temp_of_def
  by (cases e; simp add: handle_OnKillSwitchStateChanged_def handle_OnSplitTunnelStatusChanged_def
      notifyVpnStateChanged_def handle_OnSessionStatus_def handle_OnConnectionStarting_def
      notifyLastConnectionStarting_def handle_OnConnectionStopped_def handle_OnServersUpdated_def
      handle_OnWiFiChanged_def handle_OnPingStatus_def notify_hello_def createHelloResponse_def
      case_prod_unfold Let_def split: option.split)

lemma temp_on_svc_reg:
  assumes "\<forall>r q. temp_of (register r q) = temp_of q"
  shows "temp_of (snd (on_svc_reg register pe f p)) = TempPrioritizedDns (snd (f (svc_world pe p) (p_service p)))"
  using assms calls_fields [of temp_of register pe] by (simp add: on_svc_reg_def case_prod_unfold Let_def)

lemma temp_register: "temp_of (RegisterConnectionRequest pe r p) = temp_of p"
proof -
  have "TempPrioritizedDns (snd (Disconnect env s)) = TempPrioritizedDns s" for env s
    using plain_Disconnect [of s env] by (simp add: plain_def)
  then show ?thesis by (simp add: RegisterConnectionRequest_def temp_on_svc_reg) (simp add: temp_of_def)
qed

lemma temp_on_svc:
  "temp_of (snd (on_svc pe f p)) = TempPrioritizedDns (snd (f (svc_world pe p) (p_service p)))"
  unfolding on_svc_def by (rule temp_on_svc_reg) (simp add: temp_register)

subsection \<open>What the operation of the service stores\<close>

lemma temp_save [simp]:
  "TempPrioritizedDns (setConnectionParams env p s) = TempPrioritizedDns s"
  by (simp add: setConnectionParams_def)

lemma temp_split_tunnel [simp]:
  "TempPrioritizedDns (snd (splitTunnelling_ApplyConfig env s)) = TempPrioritizedDns s"
  "TempPrioritizedDns (SplitTunnelling_SetDisabledReason env r s) = TempPrioritizedDns s"
  using plain_split_tunnel [of s s env] by (simp_all add: plain_def)

lemma temp_apply [simp]: "TempPrioritizedDns (snd (applyDnsOverride env s)) = TempPrioritizedDns s"
  by (simp add: applyDnsOverride_def call_def case_prod_unfold Let_def split: option.split)

lemma temp_reset:
  "tmp_IsEmpty (TempPrioritizedDns (snd (SetDnsOverride env None None (Some noTempDns) s)))"
proof -
  have "dns_IsEmpty (tmp_Dns noTempDns)" "noTempDns\<lparr>Description := []\<rparr> = noTempDns"
    by (simp_all add: noTempDns_def)
  moreover have "tmp_Equal t noTempDns \<Longrightarrow> tmp_IsEmpty t" for t
    by (auto simp: tmp_Equal_def tmp_IsEmpty_def noTempDns_def noDns_def dns_Equal_iff dns_IsEmpty_def split: if_splits)
  ultimately show ?thesis
    by (auto simp: SetDnsOverride_def saveDnsParams_def dns_ValidateAndNormalize_def case_prod_unfold Let_def
        tmp_IsEmpty_def split: option.split)
qed

lemma temp_override:
  assumes "TempPrioritizedDns s = noTempDns" "sv_vpn s = Some v" "\<not> dns_IsEmpty (tmp_Dns t)"
    and "fst (dns_ValidateAndNormalize (se_url_parse env) (tmp_Dns t)) = None"
    and "\<not> IsInverseSplitTunneling (sv_preferences s)"
    and "\<And>l. se_call env l (Vpn_SetManualDNS (tmp_Dns t)) = Some failure"
  shows "fst (SetDnsOverride env None None (Some t) s) = Some failure
    \<and> TempPrioritizedDns (snd (SetDnsOverride env None None (Some t) s)) = t"
proof -
  have "\<not> tmp_Equal noTempDns t"
    using assms(3) by (auto simp: tmp_Equal_def noTempDns_def noDns_def dns_Equal_iff dns_IsEmpty_def split: if_splits)
  moreover have "sv_vpn (setConnectionParams env q u) = sv_vpn u" for q u
    by (simp add: setConnectionParams_def setPreferences_def save_prefs_def emit_def Let_def)
  moreover have "fst (applyDnsOverride env u) = Some failure" if "sv_vpn u = Some v" "TempPrioritizedDns u = t" for u
    using that assms(3,6) by (simp add: applyDnsOverride_def getEffectiveDnsOverride_def tmp_IsEmpty_def call_def)
  ultimately show ?thesis
    using assms(1-5) by (simp add: SetDnsOverride_def saveDnsParams_def case_prod_unfold Let_def)
qed

lemma on_svc_result: "fst (on_svc pe f p) = fst (f (svc_world pe p) (p_service p))"
  by (simp add: on_svc_def on_svc_reg_def case_prod_unfold Let_def)

subsection \<open>The owner of the DNS\<close>

lemma refused_dns:
  assumes "\<not> tmp_IsEmpty (temp_of p)"
    and "case map_of (p_connections p) c of None \<Rightarrow> True | Some i \<Rightarrow> \<not> IsPrioritizedDnsDefined i"
  shows "only_sends c p (handle_SetAlternateDns pe js c idx m p)"
    "only_sends c p (handle_SetTempPrioritizedDns pe js c idx m p)"
  using assms
  by (auto simp: handle_SetAlternateDns_def handle_SetTempPrioritizedDns_def with_req_def
      ensureCanModifyDnsSettings_def getConnectionInfo_def temp_of_def Let_def split: sum.split option.split)


definition managed_proto :: proto where
  "managed_proto = (CreateProtocol 7 (Init [] None)
     (sample_svc\<lparr>TempPrioritizedDns := \<lparr>tmp_Dns = \<lparr>Servers = [\<lparr>Address = ''10.0.0.1'', Encryption = EncryptionNone,
        Template = []\<rparr>], IsInternalDnsConfig = False\<rparr>, Description = ''pm'', IssuerDescription = []\<rparr>\<rparr>))
     \<lparr>p_connections := [(1, \<lparr>ci_Type = ClientPortmaster, IsAuthenticated = True, IsPrioritizedDnsDefined = True\<rparr>),
        (2, \<lparr>ci_Type = ClientUi, IsAuthenticated = True, IsPrioritizedDnsDefined = False\<rparr>)]\<rparr>"

lemma managed_not_empty: "\<not> tmp_IsEmpty (TempPrioritizedDns (p_service managed_proto))"
  by code_simp


subsection \<open>The end of the owner\<close>

lemma temp_service:
  "TempPrioritizedDns (p_service (snd (on_svc pe f p))) = TempPrioritizedDns (snd (f (svc_world pe p) (p_service p)))"
  using temp_on_svc by (simp add: temp_of_def)

lemma temp_closed:
  assumes "client_closed pe c p = Some q" "map_of (p_connections p) c = Some i"
  shows "if IsPrioritizedDnsDefined i then tmp_IsEmpty (TempPrioritizedDns (p_service q))
    else TempPrioritizedDns (p_service q) = TempPrioritizedDns (p_service p)"
proof -
  have d: "TempPrioritizedDns (snd (Disconnect env s)) = TempPrioritizedDns s" for env s
    using plain_Disconnect [of s env] by (simp add: plain_def)
  have i: "p_service (interop_PingDetectedApps pe r) = p_service r"
    "p_service (interop_ClientDisconnected t r) = p_service r" for r t
    by (simp_all add: interop_PingDetectedApps_def interop_Ping_def interop_ClientDisconnected_def)
  show ?thesis
    using assms temp_reset
    by (auto simp: client_closed_def proto_clientDisconnected_def case_prod_unfold Let_def temp_service d i
        split: if_splits)
qed

text \<open>
  A client that manages the DNS gives it free when its connection ends, however that
  happens: the prioritized DNS is empty afterwards, also when applying the other DNS fails,
  and every client still connected may change the DNS again. The end of a connection that
  does not manage the DNS leaves it as it is.
\<close>

theorem temp_dns_released:
  assumes "client_closed pe c p = Some q" "map_of (p_connections p) c = Some i"
  shows "if IsPrioritizedDnsDefined i
    then tmp_IsEmpty (TempPrioritizedDns (p_service q))
      \<and> (\<forall>c' i'. map_of (p_connections q) c' = Some i' \<longrightarrow> ensureCanModifyDnsSettings c' q = None)
    else TempPrioritizedDns (p_service q) = TempPrioritizedDns (p_service p)"
  using temp_closed [OF assms] by (simp add: ensureCanModifyDnsSettings_def getConnectionInfo_def Let_def split: if_splits)

theorem temp_dns_released_witness:
  "tmp_IsEmpty (TempPrioritizedDns (p_service (the (client_closed sample_proto_env 1 managed_proto))))"
proof -
  have m: "map_of (p_connections managed_proto) 1
      = Some \<lparr>ci_Type = ClientPortmaster, IsAuthenticated = True, IsPrioritizedDnsDefined = True\<rparr>"
    by (simp add: managed_proto_def)
  then obtain q where "client_closed sample_proto_env 1 managed_proto = Some q"
    by (simp add: client_closed_def proto_clientDisconnected_def case_prod_unfold Let_def)
  then show ?thesis using temp_dns_released [OF _ m] by fastforce
qed

subsection \<open>A failure while the DNS is applied\<close>

text \<open>
  The prioritized DNS is stored before it is applied, and the mark of its owner is set only
  after: when the VPN is connected and the DNS cannot be applied, the client is told of an
  error, but its prioritized DNS stays in force with no owner. Then no client, not even that
  one, can change or reset the DNS, and no end of a connection gives it free.
\<close>

theorem failed_temp_dns_locks_dns:
  fixes pe pe' :: proto_env and js js' :: json_env and c :: conn and idx idx' :: nat and m m' :: string
    and p :: proto and dns :: DnsSettings
  assumes "getConnectionInfo c p = Some info" "TempPrioritizedDns (p_service p) = noTempDns"
    and "\<forall>(_, i) \<in> set (p_connections p). \<not> IsPrioritizedDnsDefined i"
    and "js_SetTempPrioritizedDns js m = Inr (dnsCfg, description)"
    and "dns = convertIvpnclientType_Dns dnsCfg" "\<not> dns_IsEmpty dns"
    and "fst (dns_ValidateAndNormalize (se_url_parse (pe_svc pe)) dns) = None"
    and "sv_vpn (p_service p) = Some v" "IsInverseSplitTunneling (sv_preferences (p_service p)) = False"
    and "\<And>l. se_call (pe_svc pe) l (Vpn_SetManualDNS dns) = Some failure"
  defines "q \<equiv> handle_SetTempPrioritizedDns pe js c idx m p"
  shows "(c, ErrorResp (CapitalizeFirstLetter (error_text failure)) [] ErrorUnknown, idx) \<in> set (p_sent q)
    \<and> \<not> tmp_IsEmpty (TempPrioritizedDns (p_service q))
    \<and> (\<forall>c'. only_sends c' q (handle_SetAlternateDns pe' js' c' idx' m' q)
        \<and> only_sends c' q (handle_SetTempPrioritizedDns pe' js' c' idx' m' q))
    \<and> (\<forall>c' r. client_closed pe' c' q = Some r \<longrightarrow>
         TempPrioritizedDns (p_service r) = TempPrioritizedDns (p_service q))"
proof -
  let ?t = "\<lparr>tmp_Dns = dns, Description = managed_by (ci_Type info), IssuerDescription = description\<rparr>"
  let ?f = "\<lambda>env. SetDnsOverride env None None (Some ?t)"
  have run: "fst (?f (svc_world pe p) (p_service p)) = Some failure
      \<and> \<not> tmp_IsEmpty (TempPrioritizedDns (snd (?f (svc_world pe p) (p_service p))))"
    using assms by (simp add: temp_override svc_world_def tmp_IsEmpty_def)
  obtain r where r: "on_svc pe ?f p = (Some failure, r)" "\<not> tmp_IsEmpty (temp_of r)" "p_connections r = p_connections p"
    using run temp_on_svc [of pe ?f p] on_svc_fields(1) [of pe ?f p] on_svc_result [of pe ?f p]
    by (cases "on_svc pe ?f p") auto
  have "ensureCanModifyDnsSettings c p = None"
    using assms(1,2) by (simp add: ensureCanModifyDnsSettings_def tmp_IsEmpty_def noTempDns_def)
  then have q: "q = notify_dns pe (sendErrorResponse c idx failure r)"
    using assms(1,4,5) r(1) by (simp add: q_def handle_SetTempPrioritizedDns_def with_req_def)
  have t: "\<not> tmp_IsEmpty (temp_of q)" and cs: "p_connections q = p_connections p"
    and told: "set (p_sent (sendErrorResponse c idx failure r)) \<subseteq> set (p_sent q)"
    using r by (auto simp: q notify_dns_def notify_eq)
  have free: "case map_of (p_connections q) c' of None \<Rightarrow> True | Some i \<Rightarrow> \<not> IsPrioritizedDnsDefined i" for c'
    using assms(3) by (auto simp: cs dest: map_of_SomeD split: option.split)
  have closed: "TempPrioritizedDns (p_service r) = TempPrioritizedDns (p_service q)"
    if end_q: "client_closed pe' c' q = Some r" for c' r
  proof -
    obtain i where "map_of (p_connections q) c' = Some i"
      using end_q
      by (cases "map_of (p_connections q) c'") (simp_all add: client_closed_def proto_clientDisconnected_def)
    then show ?thesis using temp_closed [OF end_q] free [of c'] by simp
  qed
  show ?thesis
    using t told closed refused_dns [OF t free]
    by (auto simp: temp_of_def sendErrorResponse_def sendResponse_def)
qed

definition failing_proto_env :: proto_env where
  "failing_proto_env = sample_proto_env\<lparr>pe_svc := truthful_env\<lparr>se_call :=
     (\<lambda>_ c. case c of Vpn_SetManualDNS _ \<Rightarrow> Some (Err ''no DNS'') | _ \<Rightarrow> None)\<rparr>\<rparr>"

definition connected_proto :: proto where
  "connected_proto = (CreateProtocol 7 (Init [] None)
     (sample_svc\<lparr>sv_vpn := Some \<lparr>vpn_Type = WireGuard, DefaultDNS = [], Destination = ([], 0, False),
       DefaultRouteGatewayIP = [], vpn_IsPaused = False, originalEntryServerInfo = None,
       v2rayEndpoint = None, firewallDuringConnection = False, fwInitState = False\<rparr>\<rparr>))
     \<lparr>p_connections := [(1, \<lparr>ci_Type = ClientUi, IsAuthenticated = True, IsPrioritizedDnsDefined = False\<rparr>)]\<rparr>"

theorem failed_temp_dns_locks_dns_witness:
  "only_sends 1
     (handle_SetTempPrioritizedDns failing_proto_env sample_json 1 5 [] connected_proto)
     (handle_SetAlternateDns sample_proto_env sample_json 1 6 []
       (handle_SetTempPrioritizedDns failing_proto_env sample_json 1 5 [] connected_proto))"
proof -
  have dns: "\<not> dns_IsEmpty (convertIvpnclientType_Dns [(''10.0.0.1'', EncryptionNone, [])])"
    "fst (dns_ValidateAndNormalize (se_url_parse (pe_svc failing_proto_env))
       (convertIvpnclientType_Dns [(''10.0.0.1'', EncryptionNone, [])])) = None"
    by code_simp+
  have "getConnectionInfo 1 connected_proto
      = Some \<lparr>ci_Type = ClientUi, IsAuthenticated = True, IsPrioritizedDnsDefined = False\<rparr>"
    "TempPrioritizedDns (p_service connected_proto) = noTempDns"
    "\<forall>(_, i) \<in> set (p_connections connected_proto). \<not> IsPrioritizedDnsDefined i"
    "js_SetTempPrioritizedDns sample_json [] = Inr ([(''10.0.0.1'', EncryptionNone, [])], ''pm'')"
    "sv_vpn (p_service connected_proto) \<noteq> None"
    "IsInverseSplitTunneling (sv_preferences (p_service connected_proto)) = False"
    "\<And>l d. se_call (pe_svc failing_proto_env) l (Vpn_SetManualDNS d) = Some (Err ''no DNS'')"
    by (simp_all add: connected_proto_def CreateProtocol_def getConnectionInfo_def sample_json_def sample_svc_def
        svc_init_def failing_proto_env_def IsInverseSplitTunneling_def pref_Create_def)
  from failed_temp_dns_locks_dns [OF this(1-4) refl dns _ this(6,7)] this(5)
  show ?thesis by blast
qed

end
