(* ===== verification/Dns_Stamps.thy ===== *)
theory Dns_Stamps
  imports Go_Net Go_Strings
begin

section \<open>DNS stamps (daemon/service/dns/dnscryptproxy/dnsstamps.go)\<close>

text \<open>
  A stamp is the text by which dnscrypt-proxy is told of a server: \<open>sdns://\<close> and the base64 of
  a few length-prefixed fields. A \<open>[]byte\<close> is a list of characters. \<open>None\<close> is a panic of the
  code: an index or slice out of range, or \<open>panic\<close> itself; \<open>Some (Inl e)\<close> an error returned.
\<close>

subsection \<open>base64.RawURLEncoding\<close>

text \<open>
  Without padding, and strict: the unused bits of the last character must be zero. As in the
  library, line ends are skipped. The position a decoding error names is not kept.
\<close>

definition b64url_alphabet :: string where
  "b64url_alphabet = ''ABCDEFGHIJKLMNOPQRSTUVWXYZabcdefghijklmnopqrstuvwxyz0123456789-_''"

definition b64_char :: "nat \<Rightarrow> char" where
  "b64_char n = b64url_alphabet ! n"

definition b64_val :: "char \<Rightarrow> nat option" where
  "b64_val c = map_of (zip b64url_alphabet [0..<64]) c"

fun b64url_encode :: "string \<Rightarrow> string" where
  "b64url_encode [] = []"
| "b64url_encode [x] = (let x = of_char x in [b64_char (x div 4), b64_char (x mod 4 * 16)])"
| "b64url_encode [x, y] =
     (let x = of_char x; y = of_char y
      in [b64_char (x div 4), b64_char (x mod 4 * 16 + y div 16), b64_char (y mod 16 * 4)])"
| "b64url_encode (x # y # z # s) =
     (let x = of_char x; y = of_char y; z = of_char z
      in b64_char (x div 4) # b64_char (x mod 4 * 16 + y div 16) # b64_char (y mod 16 * 4 + z div 64)
         # b64_char (z mod 64) # b64url_encode s)"

fun b64_quanta :: "nat list \<Rightarrow> string option" where
  "b64_quanta [] = Some []"
| "b64_quanta [a] = None"
| "b64_quanta [a, b] = (if b mod 16 = 0 then Some [char_of (a * 4 + b div 16)] else None)"
| "b64_quanta [a, b, c] =
     (if c mod 4 = 0 then Some [char_of (a * 4 + b div 16), char_of (b mod 16 * 16 + c div 4)] else None)"
| "b64_quanta (a # b # c # d # s) =
     (case b64_quanta s of None \<Rightarrow> None
      | Some r \<Rightarrow> Some (char_of (a * 4 + b div 16) # char_of (b mod 16 * 16 + c div 4)
                        # char_of (c mod 4 * 64 + d) # r))"

definition b64url_decode :: "string \<Rightarrow> gerror + string" where
  "b64url_decode s =
     (let vs = map b64_val (filter (\<lambda>c. c \<noteq> CHR 0x0A \<and> c \<noteq> CHR 0x0D) s) in
      if None \<in> set vs then Inl (Err ''illegal base64 data'')
      else case b64_quanta (map the vs) of
             None \<Rightarrow> Inl (Err ''illegal base64 data'')
           | Some r \<Rightarrow> Inr r)"

lemma b64_alphabet_ok:
  "\<forall>n \<in> set [0..<64]. b64_val (b64_char n) = Some n \<and> b64_char n \<noteq> CHR 0x0A \<and> b64_char n \<noteq> CHR 0x0D"
  by code_simp

lemma b64_char_ok [simp]:
  assumes "n < 64"
  shows "b64_val (b64_char n) = Some n" "b64_char n \<noteq> CHR 0x0A" "b64_char n \<noteq> CHR 0x0D"
  using b64_alphabet_ok assms by auto

lemma of_char_256 [simp]: "(of_char c :: nat) < 256"
  by simp

text \<open>The 6-bit numbers an encoding consists of.\<close>

fun b64_digits :: "string \<Rightarrow> nat list" where
  "b64_digits [] = []"
| "b64_digits [x] = (let x = of_char x in [x div 4, x mod 4 * 16])"
| "b64_digits [x, y] = (let x = of_char x; y = of_char y in [x div 4, x mod 4 * 16 + y div 16, y mod 16 * 4])"
| "b64_digits (x # y # z # s) =
     (let x = of_char x; y = of_char y; z = of_char z
      in x div 4 # (x mod 4 * 16 + y div 16) # (y mod 16 * 4 + z div 64) # z mod 64 # b64_digits s)"

lemma b64url_encode_digits: "b64url_encode s = map b64_char (b64_digits s)"
  by (induction s rule: b64url_encode.induct) (simp_all add: Let_def)

lemma bytes_bounds:
  assumes "x < 256" "y < (256::nat)"
  shows "x div 4 < (64::nat)" "x mod 4 * 16 + y div 16 < 64" "x mod 16 * 4 + y div 64 < 64"
    "x mod 4 * 16 < 64" "x mod 16 * 4 < 64"
  using assms by simp_all

lemma b64_digits_small: "\<forall>n \<in> set (b64_digits s). n < 64"
proof (induction s rule: b64_digits.induct)
  case (4 x y z s)
  then show ?case
    using bytes_bounds [of "of_char x" "of_char y"] bytes_bounds [of "of_char y" "of_char z"]
    by (simp add: Let_def)
next
  case (3 x y)
  then show ?case using bytes_bounds [of "of_char x" "of_char y"] bytes_bounds(5) [of "of_char y" 0]
    by (simp add: Let_def)
next
  case (2 x)
  then show ?case using bytes_bounds [of "of_char x" 0] by (simp add: Let_def)
qed simp

lemma b64_quanta_digits: "b64_quanta (b64_digits s) = Some s"
proof -
  have d: "n div 16 div 16 = 0" "n div 16 mod 16 = n div 16" "n div 64 div 4 = 0" "n div 64 mod 4 = n div 64"
    if "n < 256" for n :: nat
    using that by (simp_all add: div_less_iff_less_mult flip: div_mult2_eq)
  have c: "x div 4 * 4 + x mod 4 = x" "x div 16 * 16 + x mod 16 = x" "x div 64 * 64 + x mod 64 = x" for x :: nat
    by simp_all
  show ?thesis
    by (induction s rule: b64_digits.induct) (simp_all add: Let_def c d)
qed

lemma b64url_roundtrip: "b64url_decode (b64url_encode s) = Inr s"
proof -
  have small: "\<forall>n \<in> set (b64_digits s). n < 64" by (rule b64_digits_small)
  then have "filter (\<lambda>c. c \<noteq> CHR 0x0A \<and> c \<noteq> CHR 0x0D) (b64url_encode s) = b64url_encode s"
    by (auto simp: b64url_encode_digits filter_id_conv)
  moreover have "map b64_val (b64url_encode s) = map Some (b64_digits s)"
    using small by (simp add: b64url_encode_digits)
  ultimately show ?thesis
    by (simp add: b64url_decode_def b64_quanta_digits comp_def Let_def image_iff)
qed

subsection \<open>The stamp\<close>

definition DefaultPort :: nat where "DefaultPort = 443"

type_synonym StampProtoType = "8 word"

definition StampProtoTypePlain :: StampProtoType where "StampProtoTypePlain = 0x00"
definition StampProtoTypeDNSCrypt :: StampProtoType where "StampProtoTypeDNSCrypt = 0x01"
definition StampProtoTypeDoH :: StampProtoType where "StampProtoTypeDoH = 0x02"
definition StampProtoTypeTLS :: StampProtoType where "StampProtoTypeTLS = 0x03"
definition StampProtoTypeDoQ :: StampProtoType where "StampProtoTypeDoQ = 0x04"
definition StampProtoTypeODoHTarget :: StampProtoType where "StampProtoTypeODoHTarget = 0x05"
definition StampProtoTypeDNSCryptRelay :: StampProtoType where "StampProtoTypeDNSCryptRelay = 0x81"
definition StampProtoTypeODoHRelay :: StampProtoType where "StampProtoTypeODoHRelay = 0x85"

lemmas stamp_protos = StampProtoTypePlain_def StampProtoTypeDNSCrypt_def StampProtoTypeDoH_def
  StampProtoTypeTLS_def StampProtoTypeDoQ_def StampProtoTypeODoHTarget_def
  StampProtoTypeDNSCryptRelay_def StampProtoTypeODoHRelay_def

definition proto_String :: "StampProtoType \<Rightarrow> string" where
  "proto_String t =
     (if t = StampProtoTypePlain then ''Plain''
      else if t = StampProtoTypeDNSCrypt then ''DNSCrypt''
      else if t = StampProtoTypeDoH then ''DoH''
      else if t = StampProtoTypeTLS then ''TLS''
      else if t = StampProtoTypeDoQ then ''QUIC''
      else if t = StampProtoTypeODoHTarget then ''oDoH target''
      else if t = StampProtoTypeDNSCryptRelay then ''DNSCrypt relay''
      else if t = StampProtoTypeODoHRelay then ''oDoH relay''
      else ''(unknown)'')"

record ServerStamp =
  ServerAddrStr :: string
  ServerPk :: string
  Hashes :: "string list"
  ProviderName :: string
  stamp_Path :: string
  Props :: "64 word"
  Proto :: StampProtoType

definition noStamp :: ServerStamp where
  "noStamp = \<lparr>ServerAddrStr = [], ServerPk = [], Hashes = [], ProviderName = [], stamp_Path = [], Props = 0,
     Proto = 0\<rparr>"

subsection \<open>Writing\<close>

definition byte_of :: "8 word \<Rightarrow> char" where
  "byte_of w = char_of (unat w)"

text \<open>\<open>binary.LittleEndian\<close>.\<close>

fun le_bytes :: "nat \<Rightarrow> nat \<Rightarrow> string" where
  "le_bytes 0 n = []"
| "le_bytes (Suc k) n = char_of n # le_bytes k (n div 256)"

fun le_value :: "string \<Rightarrow> nat" where
  "le_value [] = 0"
| "le_value (c # s) = of_char c + 256 * le_value s"

definition PutUint64 :: "64 word \<Rightarrow> string" where
  "PutUint64 w = le_bytes 8 (unat w)"

definition Uint64 :: "string \<Rightarrow> 64 word" where
  "Uint64 s = of_nat (le_value s)"

text \<open>\<open>append(bin, uint8(len(s)))\<close> and the bytes of \<open>s\<close>: a length above 255 is cut to eight bits.\<close>

definition len_prefixed :: "string \<Rightarrow> string" where
  "len_prefixed s = char_of (length s) # s"

definition strip_port :: "string \<Rightarrow> string" where
  "strip_port serverAddrStr =
     (let suf = '':'' @ show_nat DefaultPort in
      if suffix suf serverAddrStr
      then take (length serverAddrStr - 1 - length (show_nat DefaultPort)) serverAddrStr else serverAddrStr)"

fun hash_fields :: "string list \<Rightarrow> string" where
  "hash_fields [] = [char_of (0::nat)]"
| "hash_fields [h] = char_of (length h) # h"
| "hash_fields (h # hs) = char_of (or (length h) 0x80) # h @ hash_fields hs"

definition sdns :: "string \<Rightarrow> string" where
  "sdns bin = ''sdns://'' @ b64url_encode bin"

definition dnsCryptString :: "ServerStamp \<Rightarrow> string" where
  "dnsCryptString stamp = sdns (byte_of StampProtoTypeDNSCrypt # PutUint64 (Props stamp)
     @ len_prefixed (strip_port (ServerAddrStr stamp)) @ len_prefixed (ServerPk stamp)
     @ len_prefixed (ProviderName stamp))"

definition dohString :: "ServerStamp \<Rightarrow> string" where
  "dohString stamp = sdns (byte_of StampProtoTypeDoH # PutUint64 (Props stamp)
     @ len_prefixed (strip_port (ServerAddrStr stamp)) @ hash_fields (Hashes stamp)
     @ len_prefixed (ProviderName stamp) @ len_prefixed (stamp_Path stamp))"

definition oDohTargetString :: "ServerStamp \<Rightarrow> string" where
  "oDohTargetString stamp = sdns (byte_of StampProtoTypeODoHTarget # PutUint64 (Props stamp)
     @ len_prefixed (ProviderName stamp) @ len_prefixed (stamp_Path stamp))"

definition dnsCryptRelayString :: "ServerStamp \<Rightarrow> string" where
  "dnsCryptRelayString stamp = sdns (byte_of StampProtoTypeDNSCryptRelay
     # len_prefixed (strip_port (ServerAddrStr stamp)))"

definition oDohRelayString :: "ServerStamp \<Rightarrow> string" where
  "oDohRelayString stamp = sdns (byte_of StampProtoTypeODoHRelay # PutUint64 (Props stamp)
     @ len_prefixed (strip_port (ServerAddrStr stamp)) @ hash_fields (Hashes stamp)
     @ len_prefixed (ProviderName stamp) @ len_prefixed (stamp_Path stamp))"

definition stamp_String :: "ServerStamp \<Rightarrow> string option" where
  "stamp_String stamp =
     (if Proto stamp = StampProtoTypeDNSCrypt then Some (dnsCryptString stamp)
      else if Proto stamp = StampProtoTypeDoH then Some (dohString stamp)
      else if Proto stamp = StampProtoTypeODoHTarget then Some (oDohTargetString stamp)
      else if Proto stamp = StampProtoTypeDNSCryptRelay then Some (dnsCryptRelayString stamp)
      else if Proto stamp = StampProtoTypeODoHRelay then Some (oDohRelayString stamp)
      else None)"

subsection \<open>Reading\<close>

type_synonym 'a parse = "(gerror + 'a) option"

definition andThen :: "'a parse \<Rightarrow> ('a \<Rightarrow> 'b parse) \<Rightarrow> 'b parse" where
  "andThen r f = (case r of None \<Rightarrow> None | Some (Inl e) \<Rightarrow> Some (Inl e) | Some (Inr a) \<Rightarrow> f a)"

definition invalid :: "string \<Rightarrow> 'a parse" where
  "invalid why = Some (Inl (Err (''Invalid stamp'' @ why)))"

definition byte_at :: "string \<Rightarrow> nat \<Rightarrow> nat option" where
  "byte_at bin pos = (if pos < length bin then Some (of_char (bin ! pos)) else None)"

definition slice :: "string \<Rightarrow> nat \<Rightarrow> nat \<Rightarrow> string option" where
  "slice bin a b = (if a \<le> b \<and> b \<le> length bin then Some (take (b - a) (drop a bin)) else None)"

text \<open>
  A field at \<open>pos\<close>: its length, the test that \<open>k\<close> bytes more than it are left, its bytes and
  the position after it. \<open>k\<close> is 1 when another field follows, 0 for the last one.
\<close>

definition read_bytes :: "nat \<Rightarrow> nat \<Rightarrow> string \<Rightarrow> nat \<Rightarrow> (string \<times> nat) parse" where
  "read_bytes k len bin pos =
     (if k + len \<ge> length bin - pos then invalid []
      else case slice bin (pos + 1) (pos + 1 + len) of
        None \<Rightarrow> None
      | Some s \<Rightarrow> Some (Inr (s, pos + 1 + len)))"

definition read_field :: "nat \<Rightarrow> string \<Rightarrow> nat \<Rightarrow> (string \<times> nat) parse" where
  "read_field k bin pos =
     (case byte_at bin pos of None \<Rightarrow> None | Some len \<Rightarrow> read_bytes k len bin pos)"

lemma read_bytes_progress:
  "read_bytes k len bin pos = Some (Inr (s, pos')) \<Longrightarrow> pos < pos' \<and> pos' + k \<le> length bin"
  by (auto simp: read_bytes_def slice_def invalid_def split: if_splits)

lemma read_bytes_no_panic: "read_bytes k len bin pos \<noteq> None"
  by (auto simp: read_bytes_def slice_def invalid_def)

text \<open>The list of hashes: the high bit of a length says that another one follows.\<close>

function read_hashes :: "string \<Rightarrow> nat \<Rightarrow> string list \<Rightarrow> (string list \<times> nat) parse" where
  "read_hashes bin pos hashes =
     (case byte_at bin pos of
        None \<Rightarrow> None
      | Some vlen \<Rightarrow>
          let len = vlen mod 0x80 in
          case read_bytes 1 len bin pos of
            None \<Rightarrow> None
          | Some (Inl e) \<Rightarrow> Some (Inl e)
          | Some (Inr (s, pos)) \<Rightarrow>
              let hashes = (if len > 0 then hashes @ [s] else hashes) in
              if vlen div 0x80 mod 2 \<noteq> 1 then Some (Inr (hashes, pos)) else read_hashes bin pos hashes)"
  by pat_completeness auto
termination
  by (relation "measure (\<lambda>(bin, pos, _). length bin - pos)") (auto dest!: read_bytes_progress)

declare read_hashes.simps [simp del]

definition last_index :: "char \<Rightarrow> string \<Rightarrow> int" where
  "last_index c s = (if c \<in> set s then int (length s - 1 - length (takeWhile (\<lambda>x. x \<noteq> c) (rev s))) else -1)"

definition parse_port :: "string \<Rightarrow> bool" where
  "parse_port s \<longleftrightarrow> s \<noteq> [] \<and> list_all is_digit s \<and> digits_val s \<le> 65535"

text \<open>
  The address of a stamp: where it is split, and the tests of its two parts. The default port
  is added when the text has no colon after its last bracket.
\<close>

definition split_addr :: "string \<Rightarrow> string \<times> string \<times> string \<times> bool" where
  "split_addr addr =
     (let colIndex = last_index (CHR '':'') addr;
          bracketIndex = last_index (CHR '']'') addr;
          colIndex = (if colIndex < bracketIndex then -1 else colIndex);
          (col, addr) = (if colIndex < 0 then (length addr, addr @ '':'' @ show_nat DefaultPort)
                         else (nat colIndex, addr))
      in (addr, take col addr, drop (col + 1) addr, int col \<ge> int (length addr) - 1))"

definition check_addr :: "string \<Rightarrow> string parse" where
  "check_addr serverAddr =
     (let (addr, ipOnly, portOnly, emptyPort) = split_addr serverAddr in
      if emptyPort then invalid '' (empty port)''
      else if \<not> parse_port portOnly then invalid '' (port range)''
      else if parse_ip (rev (dropWhile ((=) (CHR '']'')) (rev (dropWhile ((=) (CHR ''['')) ipOnly)))) = []
      then invalid '' (IP address)''
      else Some (Inr addr))"

definition too_short :: "'a parse" where
  "too_short = Some (Inl (Err ''Stamp is too short''))"

definition newDNSCryptServerStamp :: "string \<Rightarrow> ServerStamp parse" where
  "newDNSCryptServerStamp bin =
     (if length bin < 66 then too_short
      else
        let props = Uint64 (take 8 (drop 1 bin)) in
        andThen (read_field 1 bin 9) (\<lambda>(addr, pos).
        andThen (check_addr addr) (\<lambda>addr.
        andThen (read_field 1 bin pos) (\<lambda>(pk, pos).
        andThen (read_field 0 bin pos) (\<lambda>(provider, pos).
          if pos \<noteq> length bin then invalid '' (garbage after end)''
          else Some (Inr (noStamp\<lparr>Proto := StampProtoTypeDNSCrypt, Props := props, ServerAddrStr := addr,
                 ServerPk := pk, ProviderName := provider\<rparr>)))))))"

text \<open>The stamps of DoH servers and of oDoH relays have the same fields.\<close>

definition read_doh :: "nat \<Rightarrow> StampProtoType \<Rightarrow> string \<Rightarrow> ServerStamp parse" where
  "read_doh minLen proto bin =
     (if length bin < minLen then too_short
      else
        let props = Uint64 (take 8 (drop 1 bin)) in
        andThen (read_field 1 bin 9) (\<lambda>(addr, pos).
        andThen (read_hashes bin pos []) (\<lambda>(hashes, pos).
        andThen (read_field 1 bin pos) (\<lambda>(provider, pos).
        andThen (read_field 0 bin pos) (\<lambda>(path, pos).
          if pos \<noteq> length bin then invalid '' (garbage after end)''
          else andThen (if length addr > 0 then check_addr addr else Some (Inr addr)) (\<lambda>addr.
            Some (Inr (noStamp\<lparr>Proto := proto, Props := props, ServerAddrStr := addr, Hashes := hashes,
              ProviderName := provider, stamp_Path := path\<rparr>))))))))"

definition newDoHServerStamp :: "string \<Rightarrow> ServerStamp parse" where
  "newDoHServerStamp bin = read_doh 22 StampProtoTypeDoH bin"

definition newODoHRelayStamp :: "string \<Rightarrow> ServerStamp parse" where
  "newODoHRelayStamp bin = read_doh 13 StampProtoTypeODoHRelay bin"

definition newODoHTargetStamp :: "string \<Rightarrow> ServerStamp parse" where
  "newODoHTargetStamp bin =
     (if length bin < 12 then too_short
      else
        let props = Uint64 (take 8 (drop 1 bin)) in
        andThen (read_field 1 bin 9) (\<lambda>(provider, pos).
        andThen (read_field 0 bin pos) (\<lambda>(path, pos).
          if pos \<noteq> length bin then invalid '' (garbage after end)''
          else Some (Inr (noStamp\<lparr>Proto := StampProtoTypeODoHTarget, Props := props,
                 ProviderName := provider, stamp_Path := path\<rparr>)))))"

definition newDNSCryptRelayStamp :: "string \<Rightarrow> ServerStamp parse" where
  "newDNSCryptRelayStamp bin =
     (if length bin < 13 then too_short
      else
        andThen (read_field 0 bin 1) (\<lambda>(addr, pos).
        andThen (check_addr addr) (\<lambda>addr.
          if pos \<noteq> length bin then invalid '' (garbage after end)''
          else Some (Inr (noStamp\<lparr>Proto := StampProtoTypeDNSCryptRelay, ServerAddrStr := addr\<rparr>)))))"

definition NewServerStampFromString :: "string \<Rightarrow> ServerStamp parse" where
  "NewServerStampFromString stampStr =
     (if \<not> prefix ''sdns:'' stampStr then Some (Inl (Err ''Stamps are expected to start with \"sdns:\"''))
      else
        let s = drop 5 stampStr; s = (if prefix ''//'' s then drop 2 s else s) in
        case b64url_decode s of
          Inl err \<Rightarrow> Some (Inl err)
        | Inr bin \<Rightarrow>
            if length bin < 1 then too_short
            else if hd bin = byte_of StampProtoTypeDNSCrypt then newDNSCryptServerStamp bin
            else if hd bin = byte_of StampProtoTypeDoH then newDoHServerStamp bin
            else if hd bin = byte_of StampProtoTypeODoHTarget then newODoHTargetStamp bin
            else if hd bin = byte_of StampProtoTypeDNSCryptRelay then newDNSCryptRelayStamp bin
            else if hd bin = byte_of StampProtoTypeODoHRelay then newODoHRelayStamp bin
            else Some (Inl (Err ''Unsupported stamp version or protocol'')))"

definition is_relay :: "ServerStamp \<Rightarrow> bool" where
  "is_relay s \<longleftrightarrow> \<not> (Proto s \<noteq> StampProtoTypeDNSCryptRelay \<and> Proto s \<noteq> StampProtoTypeODoHRelay)"

definition NewRelayAndServerStampFromString :: "string \<Rightarrow> (ServerStamp \<times> ServerStamp) parse" where
  "NewRelayAndServerStampFromString stampStr =
     (if \<not> prefix ''sdns://'' stampStr then Some (Inl (Err ''Stamps are expected to start with \"sdns://\"''))
      else
        case split_on (CHR ''/'') (drop 7 stampStr) of
          [p0, p1] \<Rightarrow>
            andThen (NewServerStampFromString (''sdns://'' @ p0)) (\<lambda>relayStamp.
            andThen (NewServerStampFromString (''sdns://'' @ p1)) (\<lambda>serverStamp.
              if \<not> is_relay relayStamp then Some (Inl (Err ''First stamp is not a relay''))
              else if is_relay serverStamp then Some (Inl (Err ''Second stamp is a relay''))
              else Some (Inr (relayStamp, serverStamp))))
        | _ \<Rightarrow> Some (Inl (Err ''This is not a relay+server stamp'')))"

text \<open>\<open>hex.DecodeString\<close> for an even number of hexadecimal digits.\<close>

fun hex_decode :: "string \<Rightarrow> string option" where
  "hex_decode [] = Some []"
| "hex_decode [_] = None"
| "hex_decode (a # b # s) =
     (if is_hex a \<and> is_hex b
      then (case hex_decode s of None \<Rightarrow> None | Some r \<Rightarrow> Some (char_of (hex_val a * 16 + hex_val b) # r))
      else None)"

definition NewDNSCryptServerStampFromLegacy ::
  "string \<Rightarrow> string \<Rightarrow> string \<Rightarrow> 64 word \<Rightarrow> gerror + ServerStamp" where
  "NewDNSCryptServerStampFromLegacy serverAddrStr serverPkStr providerName props =
     (let serverAddrStr = (if parse_ip serverAddrStr \<noteq> [] then serverAddrStr @ '':'' @ show_nat DefaultPort
                           else serverAddrStr)
      in case hex_decode (filter (\<lambda>c. c \<noteq> CHR '':'') serverPkStr) of
           Some serverPk \<Rightarrow>
             if length serverPk \<noteq> 32 then Inl (Err (''Unsupported public key: ['' @ serverPkStr @ '']''))
             else Inr (noStamp\<lparr>ServerAddrStr := serverAddrStr, ServerPk := serverPk, ProviderName := providerName,
                    Props := props, Proto := StampProtoTypeDNSCrypt\<rparr>)
         | None \<Rightarrow> Inl (Err (''Unsupported public key: ['' @ serverPkStr @ '']'')))"

subsection \<open>No text makes the parser panic\<close>

lemma read_field_no_panic: "pos < length bin \<Longrightarrow> read_field k bin pos \<noteq> None"
  by (simp add: read_field_def byte_at_def read_bytes_no_panic)

lemma read_field_progress:
  "read_field k bin pos = Some (Inr (s, pos')) \<Longrightarrow> pos < pos' \<and> pos' + k \<le> length bin"
  by (auto simp: read_field_def read_bytes_progress split: option.splits)

lemma read_hashes_ok:
  "pos < length bin \<Longrightarrow> read_hashes bin pos hs \<noteq> None
     \<and> (\<forall>r pos'. read_hashes bin pos hs = Some (Inr (r, pos')) \<longrightarrow> pos' < length bin)"
proof (induction bin pos hs rule: read_hashes.induct)
  case (1 bin pos hs)
  show ?case
  proof (cases "read_bytes 1 (of_char (bin ! pos) mod 0x80) bin pos")
    case None
    then show ?thesis using read_bytes_no_panic by blast
  next
    case (Some r)
    show ?thesis
    proof (cases r)
      case (Inl e)
      then show ?thesis using Some 1(2) by (subst (1 2) read_hashes.simps) (simp add: byte_at_def Let_def)
    next
      case (Inr a)
      obtain t pos' where a: "a = (t, pos')" by (cases a)
      have "pos' < length bin" using read_bytes_progress [of 1] Some Inr a by fastforce
      then show ?thesis
        using 1(1) [OF _ refl Some [unfolded Inr a] refl] 1(2) Some Inr a
        by (subst (1 2) read_hashes.simps) (auto simp: byte_at_def Let_def)
    qed
  qed
qed

lemma check_addr_no_panic: "check_addr a \<noteq> None"
  by (auto simp: check_addr_def invalid_def Let_def split: prod.splits)

text \<open>One rule per step of a parser.\<close>

lemma parse_steps:
  shows field_step: "pos < length bin \<Longrightarrow> (\<And>s pos'. pos' < length bin \<Longrightarrow> f s pos' \<noteq> None)
      \<Longrightarrow> andThen (read_field 1 bin pos) (\<lambda>(s, pos'). f s pos') \<noteq> None"
    and last_step: "pos < length bin \<Longrightarrow> (\<And>s pos'. f s pos' \<noteq> None)
      \<Longrightarrow> andThen (read_field 0 bin pos) (\<lambda>(s, pos'). f s pos') \<noteq> None"
    and hash_step: "pos < length bin \<Longrightarrow> (\<And>hs pos'. pos' < length bin \<Longrightarrow> g hs pos' \<noteq> None)
      \<Longrightarrow> andThen (read_hashes bin pos []) (\<lambda>(hs, pos'). g hs pos') \<noteq> None"
    and addr_step: "(\<And>a. h a \<noteq> None) \<Longrightarrow> andThen (check_addr a) h \<noteq> None"
    and addr_opt_step: "(\<And>a. h a \<noteq> None)
      \<Longrightarrow> andThen (if b then check_addr a else Some (Inr a)) h \<noteq> None"
  using read_field_no_panic [of pos bin] read_hashes_ok [of pos bin "[]"] check_addr_no_panic [of a]
  by (auto simp: andThen_def split: option.splits sum.splits dest!: read_field_progress)

lemma end_step: "(\<not> b \<Longrightarrow> r \<noteq> None) \<Longrightarrow> (if b then invalid w else r) \<noteq> None"
  by (simp add: invalid_def)

lemma short_step: "(n \<le> length bin \<Longrightarrow> r \<noteq> None) \<Longrightarrow> (if length bin < n then too_short else r) \<noteq> None"
  by (simp add: too_short_def)

lemmas no_panic_rules = field_step last_step hash_step addr_step addr_opt_step end_step short_step

lemma parsers_no_panic:
  "newDNSCryptServerStamp bin \<noteq> None" "newDoHServerStamp bin \<noteq> None" "newODoHRelayStamp bin \<noteq> None"
  "newODoHTargetStamp bin \<noteq> None" "newDNSCryptRelayStamp bin \<noteq> None"
  unfolding newDNSCryptServerStamp_def newDoHServerStamp_def newODoHRelayStamp_def newODoHTargetStamp_def
    newDNSCryptRelayStamp_def read_doh_def Let_def
  by (intro no_panic_rules; simp)+

text \<open>
  Reading a stamp never panics: whatever the text is, every index and every slice of the
  parser is in range, and the result is a stamp or an error. Writing a stamp panics exactly for
  the protocols without a text form, among them the plain one that a resolver may be given.
\<close>

theorem stamp_parser_total:
  "NewServerStampFromString s \<noteq> None
   \<and> (stamp_String st = None \<longleftrightarrow> Proto st \<notin> {StampProtoTypeDNSCrypt, StampProtoTypeDoH,
        StampProtoTypeODoHTarget, StampProtoTypeDNSCryptRelay, StampProtoTypeODoHRelay})"
  using parsers_no_panic
  by (auto simp: NewServerStampFromString_def Let_def too_short_def stamp_String_def split: sum.split)

subsection \<open>What is written is read back\<close>

lemma le_value_bytes: "le_value (le_bytes k n) = n mod 256 ^ k"
proof (induction k arbitrary: n)
  case 0
  then show ?case by simp
next
  case (Suc k)
  have "n mod (256 * 256 ^ k) = n mod 256 + 256 * (n div 256 mod 256 ^ k)" by (simp add: mod_mult2_eq)
  then show ?case using Suc by simp
qed

lemma length_le_bytes [simp]: "length (le_bytes k n) = k"
  by (induction k arbitrary: n) auto

lemma Uint64_PutUint64 [simp]: "Uint64 (PutUint64 w) = w" "length (PutUint64 w) = 8"
proof -
  have "unat w < 2 ^ LENGTH(64)" by (rule unsigned_less)
  then have "unat w mod 256 ^ 8 = unat w" by simp
  then show "Uint64 (PutUint64 w) = w" by (simp add: Uint64_def PutUint64_def le_value_bytes)
  show "length (PutUint64 w) = 8" by (simp add: PutUint64_def)
qed

lemma read_field_at:
  assumes "length pre = pos" "length s < 256" "k \<le> length rest"
  shows "read_field k (pre @ len_prefixed s @ rest) pos = Some (Inr (s, pos + 1 + length s))"
proof -
  have "byte_at (pre @ len_prefixed s @ rest) pos = Some (length s)"
    using assms by (simp add: byte_at_def len_prefixed_def nth_append)
  then show ?thesis
    using assms by (simp add: read_field_def read_bytes_def slice_def len_prefixed_def)
qed

lemma or_high_bit:
  assumes "n < (128::nat)"
  shows "or n 0x80 = n + 128"
proof -
  have "\<not> bit n 7" using assms by (simp add: bit_iff_odd)
  then have "and n 0x80 = 0" using and_exp_eq_0_iff_not_bit [of n 7] by simp
  then show ?thesis using disjunctive_add_eq_or by metis
qed

lemma hash_lengths:
  assumes "0 < n" "n < (128::nat)"
  shows "of_char (char_of n :: char) = n" "of_char (char_of (or n 0x80) :: char) = n + 128"
  using assms by (simp_all add: or_high_bit)

lemma read_hashes_at:
  assumes "\<forall>h \<in> set hs. 0 < length h \<and> length h < 128" "rest \<noteq> []"
  shows "length pre = pos \<Longrightarrow> read_hashes (pre @ hash_fields hs @ rest) pos acc
    = Some (Inr (acc @ hs, pos + length (hash_fields hs)))"
  using assms
proof (induction hs arbitrary: pre pos acc rule: hash_fields.induct)
  case 1
  then show ?case
    by (cases rest) (simp_all add: read_hashes.simps byte_at_def nth_append read_bytes_def slice_def)
next
  case (2 h)
  then have "byte_at (pre @ hash_fields [h] @ rest) pos = Some (length h)"
    by (simp add: byte_at_def nth_append)
  then show ?case using 2
    by (subst read_hashes.simps) (cases rest, simp_all add: read_bytes_def slice_def)
next
  case (3 h h' hs)
  let ?bin = "pre @ hash_fields (h # h' # hs) @ rest"
  have "byte_at ?bin pos = Some (length h + 128)"
    using 3 by (simp add: byte_at_def nth_append or_high_bit)
  moreover have "read_bytes 1 (length h) ?bin pos = Some (Inr (h, pos + 1 + length h))"
    using 3 by (simp add: read_bytes_def slice_def)
  moreover have "read_hashes ?bin (pos + 1 + length h) (acc @ [h])
      = Some (Inr ((acc @ [h]) @ h' # hs, pos + 1 + length h + length (hash_fields (h' # hs))))"
    using 3(1) [of "pre @ char_of (or (length h) 0x80) # h" "pos + 1 + length h" "acc @ [h]"] 3(2-4) by simp
  moreover have "(length h + 128) div 128 = 1" using 3(3) by (intro div_nat_eqI) auto
  ultimately show ?case using 3(2,3) by (subst read_hashes.simps) (simp add: Let_def)
qed

lemma read_doh_written:
  assumes "minLen \<le> 12 + length addr + length (hash_fields hs) + length provider + length path"
    and "length addr < 256" "length provider < 256" "length path < 256"
    and "\<forall>h \<in> set hs. 0 < length h \<and> length h < 128"
  shows "read_doh minLen proto (b # PutUint64 props @ len_prefixed addr @ hash_fields hs
      @ len_prefixed provider @ len_prefixed path)
    = andThen (if length addr > 0 then check_addr addr else Some (Inr addr)) (\<lambda>a.
        Some (Inr (noStamp\<lparr>Proto := proto, Props := props, ServerAddrStr := a, Hashes := hs,
          ProviderName := provider, stamp_Path := path\<rparr>)))"
proof -
  let ?p1 = "b # PutUint64 props" and ?f1 = "len_prefixed addr" and ?f2 = "hash_fields hs"
    and ?f3 = "len_prefixed provider" and ?f4 = "len_prefixed path"
  let ?bin = "?p1 @ ?f1 @ ?f2 @ ?f3 @ ?f4"
  have "read_field 1 ?bin 9 = Some (Inr (addr, 10 + length addr))"
    using assms(2) read_field_at [of ?p1 9 addr 1 "?f2 @ ?f3 @ ?f4"] by (simp add: len_prefixed_def)
  moreover have "read_hashes ?bin (10 + length addr) [] = Some (Inr (hs, 10 + length addr + length ?f2))"
    using assms(5) read_hashes_at [of hs "?f3 @ ?f4" "?p1 @ ?f1" "10 + length addr" "[]"] by (simp add: len_prefixed_def)
  moreover have "read_field 1 ?bin (10 + length addr + length ?f2)
      = Some (Inr (provider, 11 + length addr + length ?f2 + length provider))"
    using assms(3) read_field_at [of "?p1 @ ?f1 @ ?f2" "10 + length addr + length ?f2" provider 1 ?f4]
    by (simp add: len_prefixed_def)
  moreover have "read_field 0 ?bin (11 + length addr + length ?f2 + length provider)
      = Some (Inr (path, 12 + length addr + length ?f2 + length provider + length path))"
    using assms(4) read_field_at [of "?p1 @ ?f1 @ ?f2 @ ?f3" "11 + length addr + length ?f2 + length provider" path 0 "[]"]
    by (simp add: len_prefixed_def)
  moreover have "length ?bin = 12 + length addr + length ?f2 + length provider + length path"
    by (simp add: len_prefixed_def)
  moreover have "take 8 (drop 1 ?bin) = PutUint64 props" by simp
  ultimately show ?thesis using assms(1) by (simp add: read_doh_def andThen_def)
qed

lemma read_sdns:
  "NewServerStampFromString (sdns bin) =
     (if length bin < 1 then too_short
      else if hd bin = byte_of StampProtoTypeDNSCrypt then newDNSCryptServerStamp bin
      else if hd bin = byte_of StampProtoTypeDoH then newDoHServerStamp bin
      else if hd bin = byte_of StampProtoTypeODoHTarget then newODoHTargetStamp bin
      else if hd bin = byte_of StampProtoTypeDNSCryptRelay then newDNSCryptRelayStamp bin
      else if hd bin = byte_of StampProtoTypeODoHRelay then newODoHRelayStamp bin
      else Some (Inl (Err ''Unsupported stamp version or protocol'')))"
  by (simp add: NewServerStampFromString_def sdns_def b64url_roundtrip)

lemma byte_of_eq [simp]: "byte_of a = byte_of b \<longleftrightarrow> a = b"
proof
  have b: "unat w < 256" for w :: "8 word"
    using unsigned_less [of w, where ?'a = nat] by simp
  assume "byte_of a = byte_of b"
  then have "of_char (byte_of a) = (of_char (byte_of b) :: nat)" by simp
  then show "a = b" using b [of a] b [of b] by (simp add: byte_of_def unsigned_word_eqI)
qed simp

text \<open>
  A stamp of a DoH server, or of an oDoH relay, is read back as it was written, its
  properties, hashes, provider and path unchanged, whenever its fields fit their eight-bit
  lengths and it is not too short; of the address, what is read is what the reader makes of
  the address without a port of 443.
\<close>

theorem doh_stamp_roundtrip:
  assumes "Proto st = StampProtoTypeDoH \<or> Proto st = StampProtoTypeODoHRelay"
    and "22 \<le> 12 + length (strip_port (ServerAddrStr st)) + length (hash_fields (Hashes st))
      + length (ProviderName st) + length (stamp_Path st)"
    and "length (strip_port (ServerAddrStr st)) < 256" "length (ProviderName st) < 256" "length (stamp_Path st) < 256"
    and "\<forall>h \<in> set (Hashes st). 0 < length h \<and> length h < 128"
  shows "\<exists>s. stamp_String st = Some s \<and> NewServerStampFromString s =
    andThen (let a = strip_port (ServerAddrStr st) in if length a > 0 then check_addr a else Some (Inr a))
      (\<lambda>a. Some (Inr (st\<lparr>ServerAddrStr := a, ServerPk := []\<rparr>)))"
proof -
  let ?a = "strip_port (ServerAddrStr st)"
  let ?bin = "\<lambda>b. b # PutUint64 (Props st) @ len_prefixed ?a @ hash_fields (Hashes st)
      @ len_prefixed (ProviderName st) @ len_prefixed (stamp_Path st)"
  have st: "noStamp\<lparr>Proto := Proto st, Props := Props st, ServerAddrStr := a, Hashes := Hashes st,
      ProviderName := ProviderName st, stamp_Path := stamp_Path st\<rparr> = st\<lparr>ServerAddrStr := a, ServerPk := []\<rparr>" for a
    by (simp add: noStamp_def)
  have "stamp_String st = Some (sdns (?bin (byte_of (Proto st))))"
    using assms(1) by (auto simp: stamp_String_def stamp_protos dohString_def oDohRelayString_def)
  moreover have "NewServerStampFromString (sdns (?bin (byte_of (Proto st))))
      = read_doh (if Proto st = StampProtoTypeDoH then 22 else 13) (Proto st) (?bin (byte_of (Proto st)))"
    using assms(1) by (auto simp: read_sdns stamp_protos newDoHServerStamp_def newODoHRelayStamp_def)
  moreover have "(if Proto st = StampProtoTypeDoH then 22 else 13) \<le> 12 + length ?a
      + length (hash_fields (Hashes st)) + length (ProviderName st) + length (stamp_Path st)"
    using assms(2) by simp
  ultimately show ?thesis
    using read_doh_written [OF _ assms(3-6)] by (simp add: st Let_def)
qed

definition sample_stamp :: ServerStamp where
  "sample_stamp = noStamp\<lparr>Proto := StampProtoTypeDoH, ServerAddrStr := ''1.1.1.1:443'', Props := 7,
     Hashes := [''abc'', ''de''], ProviderName := ''one.one'', stamp_Path := ''/dns-query''\<rparr>"

lemma default_port [simp]: "show_nat DefaultPort = ''443''"
  by code_simp

text \<open>An address without a colon gets the default port.\<close>

lemma check_addr_plain:
  assumes "CHR '':'' \<notin> set a" "set a \<inter> {CHR ''['', CHR '']''} = {}" "parse_ip a \<noteq> []"
  shows "check_addr a = Some (Inr (a @ '':443''))"
proof -
  have "hd a \<noteq> CHR ''[''" "last a \<noteq> CHR '']''" if "a \<noteq> []"
    using assms(2) hd_in_set [OF that] last_in_set [OF that] by auto
  then have trims: "dropWhile ((=) (CHR ''['')) a = a" "dropWhile ((=) (CHR '']'')) (rev a) = rev a"
    by (cases "a = []"; simp add: dropWhile_eq_self_iff hd_rev)+
  have "last_index (CHR '':'') a = -1" "last_index (CHR '']'') a = -1"
    using assms(1,2) by (simp_all add: last_index_def)
  then have "split_addr a = (a @ '':443'', a, ''443'', False)" by (simp add: split_addr_def)
  moreover have "parse_port ''443''" by (simp add: parse_port_def is_digit_def digits_val_def digit_val_def)
  ultimately show ?thesis using assms(3) trims by (simp add: check_addr_def)
qed

theorem doh_stamp_roundtrip_witness:
  "\<exists>s. stamp_String sample_stamp = Some s \<and> NewServerStampFromString s = Some (Inr sample_stamp)"
proof -
  have "strip_port (ServerAddrStr sample_stamp) = ''1.1.1.1''" "length (hash_fields (Hashes sample_stamp)) = 7"
    "parse_ip ''1.1.1.1'' \<noteq> []"
    by code_simp+
  moreover from this(3) have "check_addr ''1.1.1.1'' = Some (Inr ''1.1.1.1:443'')"
    using check_addr_plain [of "''1.1.1.1''"] by simp
  ultimately show ?thesis
    using doh_stamp_roundtrip [of sample_stamp] by (simp add: sample_stamp_def andThen_def noStamp_def)
qed

end
