(* ===== verification/Dns_Crypt.thy ===== *)
theory Dns_Crypt
  imports Dns_Stamps Dns_Settings
begin

section \<open>Encrypted DNS: dnscrypt-proxy (dnscryptproxy.go, dnscryptproxy\_config.go, resolvers.go)\<close>

text \<open>
  For every encrypted DNS server an instance of dnscrypt-proxy listens on an address
  127.0.0.x of its own, which is the DNS server the system gets instead. The instances that run
  are the list of their addresses. \<open>url.Parse\<close>, the ports of the computer, the files and the
  processes are the world.
\<close>

record url =
  url_Scheme :: string
  url_Path :: string
  url_Hostname :: string

record crypt_env =
  ce_url :: "string \<Rightarrow> gerror + url"
  ce_listen :: "bool \<Rightarrow> net_ip \<Rightarrow> nat \<Rightarrow> bool"  \<comment> \<open>whether TCP (or UDP) can listen there\<close>
  ce_info :: "string \<times> string \<times> string"  \<comment> \<open>\<open>platform.DnsCryptProxyInfo\<close>\<close>
  ce_template :: "gerror + string"
  ce_write :: "string \<Rightarrow> string \<Rightarrow> error"
  ce_start :: "net_ip \<Rightarrow> error"

subsection \<open>Resolvers\<close>

record Resolver =
  serverAddr :: net_ip
  encryption :: StampProtoType
  res_template :: string
  res_stamp :: string

text \<open>\<open>None\<close>: the text of a plain stamp is a panic.\<close>

definition createStamp :: "(string \<Rightarrow> gerror + url) \<Rightarrow> net_ip \<Rightarrow> StampProtoType \<Rightarrow> string \<Rightarrow> string parse" where
  "createStamp url_Parse addr enc template =
     (if enc = StampProtoTypePlain then
        map_option Inr (stamp_String (noStamp\<lparr>ServerAddrStr := ip_string addr, Proto := StampProtoTypePlain\<rparr>))
      else if enc \<noteq> StampProtoTypeDoH then
        Some (Inl (Err (''unsupported DNS encryption type '' @ show_nat (unat enc))))
      else
        let template = trim_space template in
        if length template = 0 then Some (Inl (Err ''empty template for DoH server''))
        else case url_Parse template of
          Inl err \<Rightarrow> Some (Inl err)
        | Inr u \<Rightarrow>
            if url_Scheme u \<noteq> ''https'' then Some (Inl (Err (''bad template URL scheme: \"'' @ url_Scheme u @ ''\"'')))
            else map_option Inr (stamp_String (noStamp\<lparr>ServerAddrStr := ip_string addr, Proto := StampProtoTypeDoH,
                   stamp_Path := url_Path u, ProviderName := url_Hostname u\<rparr>)))"

definition NewResolver :: "(string \<Rightarrow> gerror + url) \<Rightarrow> net_ip \<Rightarrow> StampProtoType \<Rightarrow> string \<Rightarrow> Resolver parse" where
  "NewResolver url_Parse addr enc template =
     (if addr = [] \<or> is_unspecified addr then Some (Inl (Err ''invalid server address''))
      else if enc \<noteq> StampProtoTypePlain \<and> enc \<noteq> StampProtoTypeDoH then
        Some (Inl (Err (''unsupported DNS encryption type '' @ show_nat (unat enc))))
      else case createStamp url_Parse addr enc template of
        None \<Rightarrow> None
      | Some (Inl err) \<Rightarrow> Some (Inl (ErrWrap ''failed to create server stamp'' err))
      | Some (Inr stamp) \<Rightarrow>
          Some (Inr \<lparr>serverAddr = addr, encryption = enc, res_template = template, res_stamp = stamp\<rparr>))"

text \<open>Replacing what is not alphanumeric; the texts are ASCII.\<close>

definition alnum_or_underscore :: "string \<Rightarrow> string" where
  "alnum_or_underscore s =
     map (\<lambda>c. let n = of_char c :: nat in
       if (97 \<le> n \<and> n \<le> 122) \<or> (65 \<le> n \<and> n \<le> 90) \<or> (48 \<le> n \<and> n \<le> 57) then c else CHR ''_'') s"

definition resolver_ID :: "Resolver \<Rightarrow> string" where
  "resolver_ID r = alnum_or_underscore (''svr_'' @ ip_string (serverAddr r) @ ''_'' @ proto_String (encryption r))"

subsection \<open>The configuration file\<close>

record crypt_Config =
  listen_address :: net_ip
  listen_port :: nat
  cfg_resolvers :: "Resolver list"

definition config_ID :: "crypt_Config \<Rightarrow> string" where
  "config_ID c = alnum_or_underscore (ip_string (listen_address c))"

definition NewConfig :: "net_ip \<Rightarrow> Resolver list \<Rightarrow> gerror + crypt_Config" where
  "NewConfig listenAddress resolvers =
     (if listenAddress = [] \<or> is_unspecified listenAddress then Inl (Err ''invalid listen address'')
      else if length resolvers = 0 then Inl (Err ''no DNS resolvers defined'')
      else Inr \<lparr>listen_address = listenAddress, listen_port = 53, cfg_resolvers = resolvers\<rparr>)"

definition contains :: "string \<Rightarrow> string \<Rightarrow> bool" where
  "contains s sub \<longleftrightarrow> list_ex (prefix sub) (suffixes s)"

record save_state =
  sav_block :: string
  sav_out :: string
  upd_server_names :: bool
  upd_static :: bool
  upd_listen :: bool

abbreviation LF :: char where "LF \<equiv> CHR 0x0A"

definition resolver_lines :: "Resolver \<Rightarrow> string" where
  "resolver_lines svr = [LF] @ ''[static.'' @ resolver_ID svr @ '']'' @ [LF]
     @ ''stamp = '' @ [CHR 0x27] @ res_stamp svr @ [CHR 0x27, LF]"

text \<open>One line of the template; the flag of the stamp is set with that of the static block.\<close>

definition save_line :: "crypt_Config \<Rightarrow> string \<Rightarrow> string \<Rightarrow> save_state \<Rightarrow> save_state" where
  "save_line c logFilePath line0 s =
     (let line = trim_space line0;
          s = (if prefix ''['' line \<and> suffix '']'' line then s\<lparr>sav_block := line\<rparr> else s)
      in if prefix ''# server_names = '' line \<and> sav_block s = [] then
           s\<lparr>sav_out := sav_out s @ ''server_names = ['' @ join_with '', ''
                 (map (\<lambda>r. [CHR 0x27] @ resolver_ID r @ [CHR 0x27]) (cfg_resolvers c)) @ '']'' @ [LF],
             upd_server_names := True\<rparr>
         else if sav_block s = ''[static]'' \<and> prefix ''# [static.myserver]'' line then
           s\<lparr>sav_out := sav_out s @ concat (map resolver_lines (cfg_resolvers c)), upd_static := True\<rparr>
         else if prefix ''listen_addresses ='' line \<and> sav_block s = [] then
           s\<lparr>sav_out := sav_out s @ ''listen_addresses = ['' @ [CHR 0x27] @ ip_string (listen_address c) @ '':''
                 @ show_nat (listen_port c) @ [CHR 0x27] @ '']'' @ [LF],
             upd_listen := True\<rparr>
         else if sav_block s = ''[static]'' \<and> prefix ''#'' line \<and> contains line ''stamp ='' \<and> upd_static s then s
         else if prefix ''# log_file ='' line \<and> length logFilePath > 0 \<and> sav_block s = [] then
           s\<lparr>sav_out := sav_out s @ ''log_file = '' @ [CHR 0x27] @ logFilePath @ [CHR 0x27, LF]\<rparr>
         else s\<lparr>sav_out := sav_out s @ line @ [LF]\<rparr>)"

definition config_text :: "crypt_Config \<Rightarrow> string \<Rightarrow> string \<Rightarrow> gerror + string" where
  "config_text c logFilePath input =
     (let s = fold (save_line c logFilePath) (split_on LF input)
            \<lparr>sav_block = [], sav_out = [], upd_server_names = False, upd_static = False, upd_listen = False\<rparr>
      in if \<not> upd_server_names s \<or> \<not> upd_static s \<or> \<not> upd_listen s
         then Inl (Err ''failed to update configuration from template file, missing required markers'')
         else Inr (sav_out s))"

definition config_Save :: "crypt_env \<Rightarrow> crypt_Config \<Rightarrow> string \<Rightarrow> error" where
  "config_Save env c configFileOut =
     (case ce_template env of
        Inl err \<Rightarrow> Some err
      | Inr input \<Rightarrow>
          (case config_text c [] input of
             Inl err \<Rightarrow> Some err
           | Inr out \<Rightarrow> ce_write env configFileOut out))"

subsection \<open>A free local address\<close>

fun free_loop :: "crypt_env \<Rightarrow> nat list \<Rightarrow> net_ip option" where
  "free_loop env [] = None"
| "free_loop env (i # is) =
     (let ip = mk_IPv4 127 0 0 (of_nat i) in
      if \<not> ce_listen env False ip 53 then free_loop env is
      else if \<not> ce_listen env True ip 5 then free_loop env is
      else Some ip)"

definition maxLastByte :: nat where "maxLastByte = 16"

definition GetFreeLocalAddressForDNS :: "crypt_env \<Rightarrow> net_ip \<Rightarrow> gerror + net_ip" where
  "GetFreeLocalAddressForDNS env startAddress =
     (let start = (if startAddress = [] \<or> to4 startAddress = [] then [127, 0, 0, 1] else to4 startAddress) in
      if start ! 0 \<noteq> 127 \<or> start ! 1 \<noteq> 0 \<or> start ! 2 \<noteq> 0 \<or> unat (start ! 3) < 1 \<or> unat (start ! 3) > maxLastByte
      then Inl (Err ''start address must be in 127.0.0.1-127.0.0.16 range'')
      else case free_loop env [unat (start ! 3)..<maxLastByte + 1] of
        None \<Rightarrow> Inl (Err ''no free local addresses found for port 53 in 127.0.0.1-127.0.0.16 range'')
      | Some ip \<Rightarrow> Inr ip)"

subsection \<open>Starting and stopping the resolvers (resolvers.go)\<close>

fun new_resolvers :: "(string \<Rightarrow> gerror + url) \<Rightarrow> DnsServerConfig list \<Rightarrow> gerror + Resolver list" where
  "new_resolvers url_Parse [] = Inr []"
| "new_resolvers url_Parse (svr # rest) =
     (case the (NewResolver url_Parse (server_Ip svr) StampProtoTypeDoH (Template svr)) of
        Inl err \<Rightarrow> Inl (ErrWrap (''failed to create resolver for '' @ server_InfoString svr) err)
      | Inr resolver \<Rightarrow>
          (case new_resolvers url_Parse rest of Inl err \<Rightarrow> Inl err | Inr rs \<Rightarrow> Inr (resolver # rs)))"

definition createDnscryptProxyConfig ::
  "(string \<Rightarrow> gerror + url) \<Rightarrow> net_ip \<Rightarrow> DnsServerConfig list \<Rightarrow> gerror + crypt_Config" where
  "createDnscryptProxyConfig url_Parse listenAddress servers =
     (case new_resolvers url_Parse servers of
        Inl err \<Rightarrow> Inl err
      | Inr resolvers \<Rightarrow>
          if length resolvers = 0 then Inl (Err ''no usable DNS servers configured'')
          else NewConfig listenAddress resolvers)"

text \<open>The loop over the servers: what the system gets, and the configurations to start.\<close>

fun setup_loop ::
  "crypt_env \<Rightarrow> net_ip \<Rightarrow> DnsServerConfig list \<Rightarrow> gerror + DnsServerConfig list \<times> crypt_Config list" where
  "setup_loop env nextIP [] = Inr ([], [])"
| "setup_loop env nextIP (svr # rest) =
     (if Encryption svr = EncryptionNone then
        (case setup_loop env nextIP rest of Inl err \<Rightarrow> Inl err | Inr (ret, cfgs) \<Rightarrow> Inr (svr # ret, cfgs))
      else if Encryption svr \<noteq> EncryptionDnsOverHttps then
        Inl (Err (''unsupported DNS encryption type '' @ show_int (Encryption svr)))
      else
        let localIp = (case GetFreeLocalAddressForDNS env nextIP of Inl _ \<Rightarrow> nextIP | Inr ip \<Rightarrow> ip);
            nextIP = mk_IPv4 127 0 0 (to4 localIp ! 3 + 1)
        in case createDnscryptProxyConfig (ce_url env) localIp [svr] of
             Inl err \<Rightarrow> Inl (ErrWrap ''failed to create dnscrypt-proxy config'' err)
           | Inr cfg \<Rightarrow>
               (case setup_loop env nextIP rest of
                  Inl err \<Rightarrow> Inl err
                | Inr (ret, cfgs) \<Rightarrow>
                    Inr (\<lparr>Address = ip_string localIp, Encryption = EncryptionNone, Template = []\<rparr> # ret,
                         cfg # cfgs)))"

fun start_loop :: "crypt_env \<Rightarrow> string \<Rightarrow> crypt_Config list \<Rightarrow> error" where
  "start_loop env configDir [] = None"
| "start_loop env configDir (cfg # cfgs) =
     (case config_Save env cfg (configDir @ ''/dnscrypt-proxy-'' @ config_ID cfg @ ''.toml'') of
        Some err \<Rightarrow> Some (ErrWrap ''failed to save dnscrypt-proxy config file'' err)
      | None \<Rightarrow>
          (case ce_start env (listen_address cfg) of
             Some err \<Rightarrow> Some (ErrWrap ''failed to start dnscrypt-proxy'' (ErrWrap ''error starting dnscrypt-proxy'' err))
           | None \<Rightarrow> start_loop env configDir cfgs))"

text \<open>
  The instances that run afterwards: all of the configurations, or none when one of them
  cannot be started, because the deferred function stops those started before it.
\<close>

definition startDnscryptProxyInstances :: "crypt_env \<Rightarrow> crypt_Config list \<Rightarrow> error \<times> net_ip list" where
  "startDnscryptProxyInstances env configs =
     (let (binPath, templateFile, configDir) = ce_info env;
          err = (if length binPath = 0 \<or> length templateFile = 0 \<or> length configDir = 0
                 then Some (Err ''dnscrypt-proxy configuration not defined'')
                 else start_loop env configDir configs)
      in case err of
           Some e \<Rightarrow> (Some (ErrWrap ''error starting dnscrypt-proxy instances'' e), [])
         | None \<Rightarrow> (None, map listen_address configs))"

text \<open>\<open>ResolversSetup\<close>: the DNS servers for the system or an error, and the instances that run
  afterwards; those that ran before are only stopped when new ones are started.\<close>

definition ResolversSetup ::
  "crypt_env \<Rightarrow> DnsSettings \<Rightarrow> net_ip list \<Rightarrow> (gerror + DnsServerConfig list) \<times> net_ip list" where
  "ResolversSetup env dnsCfg running =
     (case setup_loop env (mk_IPv4 127 0 0 1) (Servers dnsCfg) of
        Inl err \<Rightarrow> (Inl err, running)
      | Inr (ret, dnsCryptConfigs) \<Rightarrow>
          if length ret = 0 then (Inl (Err ''no usable DNS servers configured''), running)
          else case startDnscryptProxyInstances env dnsCryptConfigs of
            (Some err, instances) \<Rightarrow> (Inl (ErrWrap ''failed to start dnscrypt-proxy instances'' err), instances)
          | (None, instances) \<Rightarrow> (Inr ret, instances))"

subsection \<open>What a stamp of a server names\<close>

lemma NewResolver_DoH: "NewResolver url_Parse addr StampProtoTypeDoH template \<noteq> None"
  by (auto simp: NewResolver_def createStamp_def stamp_String_def stamp_protos Let_def split: option.split sum.split)

lemma created_stamp:
  assumes "createStamp url_Parse ip StampProtoTypeDoH template = Some (Inr s)"
  shows "\<exists>u. url_Parse (trim_space template) = Inr u \<and> stamp_String (noStamp\<lparr>ServerAddrStr := ip_string ip,
    Proto := StampProtoTypeDoH, stamp_Path := url_Path u, ProviderName := url_Hostname u\<rparr>) = Some s"
  using assms by (auto simp: createStamp_def stamp_protos Let_def split: if_splits sum.splits)

text \<open>The text of an address has no bracket.\<close>

lemma show_hex_chars: "c \<in> set (show_hex n) \<Longrightarrow> c \<noteq> CHR ''['' \<and> c \<noteq> CHR '']''"
proof -
  have d: "digit_char k \<noteq> CHR ''['' \<and> digit_char k \<noteq> CHR '']''" if "k < 16" for k
  proof
    have "of_char (digit_char k) = (if k < 10 then 48 + k else 87 + k)" using that by (simp add: digit_char_def)
    then have "of_char (digit_char k) \<noteq> (91::nat) \<and> of_char (digit_char k) \<noteq> (93::nat)" by (simp split: if_splits)
    then show "digit_char k \<noteq> CHR ''[''" "digit_char k \<noteq> CHR '']''" by auto
  qed
  have "c \<in> set (show_base 16 n) \<longrightarrow> c \<noteq> CHR ''['' \<and> c \<noteq> CHR '']''"
  proof (induction "16::nat" n rule: show_base.induct)
    case (1 n)
    then show ?case using d by (subst show_base.simps) auto
  qed
  then show "c \<in> set (show_hex n) \<Longrightarrow> c \<noteq> CHR ''['' \<and> c \<noteq> CHR '']''" by (simp add: show_hex_def)
qed

lemma join_with_chars: "set (join_with sep ws) \<subseteq> set sep \<union> \<Union> (set ` set ws)"
  by (induction sep ws rule: join_with.induct) auto

lemma ip_string_no_bracket:
  assumes "length ip = 4 \<or> length ip = 16" "c \<in> set (ip_string ip)"
  shows "c \<noteq> CHR ''['' \<and> c \<noteq> CHR '']''"
proof (cases "to4 ip = []")
  case False
  then have "length (to4 ip) = 4" "ip_string ip = ip_string (to4 ip)"
    using assms by (auto simp: to4_def ip_string_def split: if_splits)
  then show ?thesis using v4_string_chars [of "to4 ip" c] assms(2) by (auto simp: is_digit_def)
next
  case True
  have j: "c \<noteq> CHR ''['' \<and> c \<noteq> CHR '']''" if "c \<in> set (join_with '':'' (map show_hex ns))" for ns
    using that join_with_chars [of "'':''" "map show_hex ns"] show_hex_chars by fastforce
  have "ip \<noteq> []" using assms(1) by auto
  then have "c \<in> set (show_v6 ip)" using assms True by (auto simp: ip_string_def split: if_splits)
  then show ?thesis using j by (auto simp: show_v6_def Let_def split: prod.splits if_splits)
qed

lemma last_index_at:
  assumes "c \<in> set s"
  shows "\<exists>k. last_index c s = int k \<and> k < length s \<and> s ! k = c"
proof -
  let ?n = "length (takeWhile (\<lambda>x. x \<noteq> c) (rev s))"
  have n: "?n < length s"
    using assms takeWhile_eq_all_conv [of "\<lambda>x. x \<noteq> c" "rev s"] length_takeWhile_le [of "\<lambda>x. x \<noteq> c" "rev s"]
    by (metis (mono_tags, lifting) le_neq_implies_less length_rev set_rev takeWhile_eq_take take_all_iff order_refl)
  then have "rev s ! ?n = c" using nth_length_takeWhile [of "\<lambda>x. x \<noteq> c" "rev s"] by simp
  then have "s ! (length s - 1 - ?n) = c" using n by (simp add: rev_nth)
  then show ?thesis using assms n by (intro exI [of _ "length s - 1 - ?n"]) (simp add: last_index_def)
qed

lemma check_addr_colon:
  assumes "check_addr a = Some (Inr b)" "CHR '':'' \<in> set a" "CHR '']'' \<notin> set a"
  shows "b = a \<and> (\<exists>host port. a = host @ '':'' @ port \<and> port \<noteq> [] \<and> list_all is_digit port)"
proof -
  obtain k where k: "last_index (CHR '':'') a = int k" "k < length a" "a ! k = CHR '':''"
    using last_index_at [OF assms(2)] by blast
  have "split_addr a = (a, take k a, drop (k + 1) a, int k \<ge> int (length a) - 1)"
    using k assms(3) by (simp add: split_addr_def last_index_def [of "CHR '']''"])
  then have "b = a" "parse_port (drop (k + 1) a)"
    using assms(1) by (auto simp: check_addr_def invalid_def split: if_splits)
  moreover have "a = take k a @ '':'' @ drop (k + 1) a" using k id_take_nth_drop [OF k(2)] by simp
  ultimately show ?thesis unfolding parse_port_def by metis
qed

lemma read_created:
  assumes "createStamp url_Parse ip StampProtoTypeDoH template = Some (Inr s)"
    and "url_Parse (trim_space template) = Inr u"
    and "length (url_Hostname u) < 256" "length (url_Path u) < 256" "length (ip_string ip) < 256"
    and "22 \<le> 13 + length (strip_port (ip_string ip)) + length (url_Hostname u) + length (url_Path u)"
    and "strip_port (ip_string ip) \<noteq> []"
  shows "NewServerStampFromString s = andThen (check_addr (strip_port (ip_string ip))) (\<lambda>a.
    Some (Inr (noStamp\<lparr>ServerAddrStr := a, Proto := StampProtoTypeDoH, stamp_Path := url_Path u,
      ProviderName := url_Hostname u\<rparr>)))"
proof -
  let ?st = "noStamp\<lparr>ServerAddrStr := ip_string ip, Proto := StampProtoTypeDoH, stamp_Path := url_Path u,
      ProviderName := url_Hostname u\<rparr>"
  let ?bin = "byte_of StampProtoTypeDoH # PutUint64 0 @ len_prefixed (strip_port (ip_string ip))
      @ hash_fields [] @ len_prefixed (url_Hostname u) @ len_prefixed (url_Path u)"
  have "stamp_String ?st = Some s" using created_stamp [OF assms(1)] assms(2) by auto
  then have s: "s = sdns ?bin" by (simp add: stamp_String_def stamp_protos dohString_def noStamp_def)
  have "length (strip_port (ip_string ip)) < 256" using assms(5) by (auto simp: strip_port_def Let_def)
  then have "newDoHServerStamp ?bin = andThen (check_addr (strip_port (ip_string ip))) (\<lambda>a.
      Some (Inr (noStamp\<lparr>Proto := StampProtoTypeDoH, Props := 0, ServerAddrStr := a, Hashes := [],
        ProviderName := url_Hostname u, stamp_Path := url_Path u\<rparr>)))"
    unfolding newDoHServerStamp_def
    using assms(3-7) by (subst read_doh_written) simp_all
  moreover have "NewServerStampFromString s = newDoHServerStamp ?bin"
    unfolding s by (simp add: read_sdns stamp_protos)
  ultimately show ?thesis by (simp add: noStamp_def)
qed

text \<open>
  The stamp made for an encrypted DNS server with an IPv4 address names that address, at
  port 443, with the host and the path of its URL. With an IPv6 address it never does: the
  address is written without brackets, so a reader either refuses the stamp or takes the last
  group of the address for its port.
\<close>

theorem doh_stamp_names_server:
  assumes "createStamp url_Parse ip StampProtoTypeDoH template = Some (Inr s)"
    and "url_Parse (trim_space template) = Inr u" "length (url_Hostname u) < 256" "length (url_Path u) < 256"
    and "length (ip_string ip) < 256" "strip_port (ip_string ip) \<noteq> []"
    and "22 \<le> 13 + length (strip_port (ip_string ip)) + length (url_Hostname u) + length (url_Path u)"
  shows "(length ip = 4 \<longrightarrow> (\<exists>st. NewServerStampFromString s = Some (Inr st)
      \<and> ServerAddrStr st = ip_string ip @ '':443'' \<and> ProviderName st = url_Hostname u \<and> stamp_Path st = url_Path u))
    \<and> (length ip = 16 \<and> CHR '':'' \<in> set (strip_port (ip_string ip)) \<longrightarrow>
        (\<forall>st. NewServerStampFromString s = Some (Inr st) \<longrightarrow> (\<exists>host port. prefix (ServerAddrStr st) (ip_string ip)
          \<and> ServerAddrStr st = host @ '':'' @ port \<and> port \<noteq> [] \<and> list_all is_digit port)))"
proof (intro conjI impI allI)
  note r = read_created [OF assms(1-5,7,6)]
  have pre: "prefix (strip_port (ip_string ip)) (ip_string ip)"
    by (simp add: strip_port_def take_is_prefix Let_def)
  {
    assume v4: "length ip = 4"
    then have c: "CHR '':'' \<notin> set (ip_string ip)" using v4_string_chars [OF v4, of "CHR '':''"] by (auto simp: is_digit_def)
    then have "strip_port (ip_string ip) = ip_string ip" by (auto simp: strip_port_def suffix_def)
    moreover have "check_addr (ip_string ip) = Some (Inr (ip_string ip @ '':443''))"
      using c ip_string_no_bracket [of ip] v4 parse_ip_v4_string [OF v4] by (intro check_addr_plain) auto
    ultimately show "\<exists>st. NewServerStampFromString s = Some (Inr st) \<and> ServerAddrStr st = ip_string ip @ '':443''
        \<and> ProviderName st = url_Hostname u \<and> stamp_Path st = url_Path u"
      using r by (simp add: andThen_def)
  }
  fix st
  assume v6: "length ip = 16 \<and> CHR '':'' \<in> set (strip_port (ip_string ip))"
    and st: "NewServerStampFromString s = Some (Inr st)"
  then obtain b where b: "check_addr (strip_port (ip_string ip)) = Some (Inr b)" "ServerAddrStr st = b"
    using r by (auto simp: andThen_def split: option.splits sum.splits)
  have "CHR '']'' \<notin> set (strip_port (ip_string ip))"
    using pre v6 ip_string_no_bracket [of ip] set_mono_prefix by blast
  from check_addr_colon [OF b(1) _ this] v6 b(2) pre
  show "\<exists>host port. prefix (ServerAddrStr st) (ip_string ip) \<and> ServerAddrStr st = host @ '':'' @ port
      \<and> port \<noteq> [] \<and> list_all is_digit port"
    by auto
qed

theorem doh_stamp_names_server_witness:
  "\<exists>s st. createStamp (\<lambda>_. Inr \<lparr>url_Scheme = ''https'', url_Path = ''/q'', url_Hostname = ''one.one''\<rparr>) [1, 1, 1, 1]
      StampProtoTypeDoH ''https://one.one/q'' = Some (Inr s)
    \<and> NewServerStampFromString s = Some (Inr st) \<and> ServerAddrStr st = ''1.1.1.1:443''"
proof -
  let ?u = "\<lparr>url_Scheme = ''https'', url_Path = ''/q'', url_Hostname = ''one.one''\<rparr>"
  have a: "ip_string [1, 1, 1, 1] = ''1.1.1.1''" "strip_port ''1.1.1.1'' = ''1.1.1.1''"
    "trim_space ''https://one.one/q'' \<noteq> []"
    by code_simp+
  then obtain s where s: "createStamp (\<lambda>_. Inr ?u) [1, 1, 1, 1] StampProtoTypeDoH ''https://one.one/q'' = Some (Inr s)"
    by (auto simp: createStamp_def stamp_String_def stamp_protos Let_def)
  then show ?thesis
    using doh_stamp_names_server [OF s, of ?u] a by simp blast
qed

lemma free_loop_cong:
  "(\<And>ip. ce_listen env False ip 53 = ce_listen env' False ip 53) \<Longrightarrow>
   (\<And>ip. ce_listen env True ip 5 = ce_listen env' True ip 5) \<Longrightarrow> free_loop env is = free_loop env' is"
  by (induction "is") (simp_all add: Let_def)

text \<open>
  A local address is called free for dnscrypt-proxy although its TCP port 53 is taken: what
  the search finds does not depend on that port, which the code means to test (it tries to
  listen on TCP port 5 instead). Only UDP port 53 is looked at.
\<close>

theorem free_address_ignores_tcp53:
  "GetFreeLocalAddressForDNS (env\<lparr>ce_listen := \<lambda>tcp ip port. if tcp \<and> port = 53 then taken ip else l tcp ip port\<rparr>) start
   = GetFreeLocalAddressForDNS (env\<lparr>ce_listen := l\<rparr>) start"
  unfolding GetFreeLocalAddressForDNS_def Let_def
  by (subst free_loop_cong [of _ "env\<lparr>ce_listen := l\<rparr>"]) simp_all

end
