(* ===== verification/System_Dns.thy ===== *)
theory System_Dns
  imports Dns_Crypt Netinfo Go_Regexp
begin

section \<open>The DNS of the system (dns.go and dns\_linux*.go)\<close>

text \<open>
  The package-level variables of the package \<open>dns\<close>, the two ways to change the DNS of a Linux
  computer (\<open>resolvectl\<close>, or the file \<^verbatim>\<open>/etc/resolv.conf\<close>), the goroutines that watch for
  changes made by others, and the two files. The commands that were run and what the firewall
  was told are logs. A watching goroutine is the value it works with: one of its passes is an
  operation of its own. A file that exists can be seen (\<open>os.Stat\<close>); renaming, opening, writing
  and syncing can fail, and a write can stop after any number of bytes.
\<close>

datatype dns_style = Resolvectl | ResolvConf

record sys_dns =
  f_impl :: "dns_style option"  \<comment> \<open>\<open>f_implInitialize\<close> to \<open>f_implDeleteManual\<close>; \<open>None\<close> before \<open>implInitialize\<close>\<close>
  isOldMgmtStyleInUse :: bool
  isPaused :: bool
  manualDNS :: DnsSettings
  resolvers :: "net_ip list"  \<comment> \<open>\<open>dnsCryptProxyInstances\<close>\<close>
  rctl_localInterfaceIp :: net_ip
  rctl_done :: bool
  rctl_watching :: bool
  rconf_done :: bool
  rconf_watching :: "DnsSettings option"
  resolvFile :: "string option"
  resolvBackupFile :: "string option"
  commands :: "string list list"
  told_firewall :: "DnsSettings list"

record dns_env =
  de_crypt :: crypt_env
  funcGetUserSettings :: "bool option"  \<comment> \<open>\<open>Linux_IsDnsMgmtOldStyle\<close>; \<open>None\<close> for a nil function\<close>
  funcDnsChangeFirewallNotify :: "(DnsSettings \<Rightarrow> error) option"
  ResolvectlBinPath :: string
  de_interfaces :: interfaces
  de_exec :: "string list \<Rightarrow> error"
  de_status :: string  \<comment> \<open>output of \<open>resolvectl status\<close>\<close>
  de_rename :: "string \<Rightarrow> error"  \<comment> \<open>by the name of the new file\<close>
  de_open :: error
  de_write :: "nat \<times> error"
  de_sync :: error
  de_snap :: "(bool \<times> string) option"  \<comment> \<open>\<open>IsSnapAbleManageResolvconf\<close> inside a snap\<close>
  de_arg0 :: string
  de_files :: "string list"  \<comment> \<open>of the files to watch, those that exist and can be watched\<close>

definition notInitialised :: gerror where
  "notInitialised = Err ''DNS functionality not initialised''"

definition dns_initial :: sys_dns where
  "dns_initial = \<lparr>f_impl = None, isOldMgmtStyleInUse = False, isPaused = False, manualDNS = noDns,
     resolvers = [], rctl_localInterfaceIp = [], rctl_done = False, rctl_watching = False,
     rconf_done = False, rconf_watching = None, resolvFile = None, resolvBackupFile = None,
     commands = [], told_firewall = []\<rparr>"

text \<open>The typed error \<open>DnsError\<close> is the wrapping with its text.\<close>

definition wrapErrorIfFailed :: "error \<Rightarrow> error" where
  "wrapErrorIfFailed err =
     (case err of
        None \<Rightarrow> None
      | Some (ErrWrap t e) \<Rightarrow> if t = ''DNS error'' then err else Some (ErrWrap ''DNS error'' (ErrWrap t e))
      | Some e \<Rightarrow> Some (ErrWrap ''DNS error'' e))"

definition notifyFirewall :: "dns_env \<Rightarrow> DnsSettings \<Rightarrow> sys_dns \<Rightarrow> error \<times> sys_dns" where
  "notifyFirewall env dnsCfg s =
     (case funcDnsChangeFirewallNotify env of
        None \<Rightarrow> (None, s)
      | Some f \<Rightarrow> (f dnsCfg, s\<lparr>told_firewall := told_firewall s @ [dnsCfg]\<rparr>))"

subsection \<open>Commands of resolvectl\<close>

definition shell_Exec :: "dns_env \<Rightarrow> string list \<Rightarrow> sys_dns \<Rightarrow> error \<times> sys_dns" where
  "shell_Exec env args s = (de_exec env args, s\<lparr>commands := commands s @ [args]\<rparr>)"

definition rctl_error :: "gerror \<Rightarrow> gerror" where
  "rctl_error err = ErrWrap ''failed to change DNS configuration'' err"

definition rctl_stopDnsChangeMonitor :: "sys_dns \<Rightarrow> sys_dns" where
  "rctl_stopDnsChangeMonitor s = s\<lparr>rctl_done := False, rctl_watching := False\<rparr>"

definition no_expected_dns :: "sys_dns \<Rightarrow> bool" where
  "no_expected_dns s \<longleftrightarrow> rctl_localInterfaceIp s = [] \<or> is_unspecified (rctl_localInterfaceIp s) \<or> dns_IsEmpty (manualDNS s)"

text \<open>The goroutine ends at once when there is nothing to watch for, or no file to watch.\<close>

definition rctl_startDnsChangeMonitor :: "dns_env \<Rightarrow> sys_dns \<Rightarrow> sys_dns" where
  "rctl_startDnsChangeMonitor env s =
     s\<lparr>rctl_done := True, rctl_watching := \<not> no_expected_dns s \<and> de_files env \<noteq> []\<rparr>"

definition rctl_domain_and_route :: "dns_env \<Rightarrow> string \<Rightarrow> string \<Rightarrow> string \<Rightarrow> sys_dns \<Rightarrow> error \<times> sys_dns" where
  "rctl_domain_and_route env name domain route s =
     (let bin = ResolvectlBinPath env;
          (err, s) = shell_Exec env [bin, ''domain'', name, domain] s
      in case err of
           Some e \<Rightarrow> (Some (rctl_error e), s)
         | None \<Rightarrow>
             (let (err, s) = shell_Exec env [bin, ''default-route'', name, route] s in
              (map_option rctl_error err, s)))"

definition rctl_implPause :: "dns_env \<Rightarrow> net_ip \<Rightarrow> sys_dns \<Rightarrow> error \<times> sys_dns" where
  "rctl_implPause env localInterfaceIP s =
     (let s = rctl_stopDnsChangeMonitor s in
      case InterfaceByIPAddr (de_interfaces env) localInterfaceIP of
        Inl _ \<Rightarrow> (None, s)
      | Inr nif \<Rightarrow> rctl_domain_and_route env (if_name nif) '''' ''false'' s)"

definition rctl_implResume :: "dns_env \<Rightarrow> net_ip \<Rightarrow> sys_dns \<Rightarrow> error \<times> sys_dns" where
  "rctl_implResume env localInterfaceIP s =
     (case InterfaceByIPAddr (de_interfaces env) localInterfaceIP of
        Inl err \<Rightarrow> (Some (rctl_error err), s)
      | Inr nif \<Rightarrow>
          (let (err, s) = rctl_domain_and_route env (if_name nif) ''~.'' ''true'' s in
           if err \<noteq> None then (err, s) else (None, rctl_startDnsChangeMonitor env s)))"

definition rctl_applySetManual ::
  "dns_env \<Rightarrow> DnsSettings \<Rightarrow> net_ip \<Rightarrow> sys_dns \<Rightarrow> (gerror + DnsSettings) \<times> sys_dns" where
  "rctl_applySetManual env dnsCfg localInterfaceIP s =
     (if localInterfaceIP = [] \<or> is_unspecified localInterfaceIP then (Inr dnsCfg, s)
      else case InterfaceByIPAddr (de_interfaces env) localInterfaceIP of
        Inl err \<Rightarrow> (Inl (rctl_error err), s)
      | Inr nif \<Rightarrow>
          (let (err, s) = rctl_domain_and_route env (if_name nif) ''~.'' ''true'' s in
           case err of
             Some e \<Rightarrow> (Inl e, s)
           | None \<Rightarrow>
               (let (err, s) = shell_Exec env
                      (ResolvectlBinPath env # ''dns'' # if_name nif # map Address (Servers dnsCfg)) s
                in case err of Some e \<Rightarrow> (Inl (rctl_error e), s) | None \<Rightarrow> (Inr dnsCfg, s))))"

definition rctl_implSetManual ::
  "dns_env \<Rightarrow> DnsSettings \<Rightarrow> net_ip \<Rightarrow> sys_dns \<Rightarrow> (gerror + DnsSettings) \<times> sys_dns" where
  "rctl_implSetManual env dnsCfg localInterfaceIP s =
     (let s = (rctl_stopDnsChangeMonitor s)\<lparr>rctl_localInterfaceIp := localInterfaceIP\<rparr>;
          (ret, s) = rctl_applySetManual env dnsCfg localInterfaceIP s
      in (ret, case ret of Inl _ \<Rightarrow> s | Inr _ \<Rightarrow> rctl_startDnsChangeMonitor env s))"

definition rctl_implDeleteManual :: "dns_env \<Rightarrow> net_ip \<Rightarrow> sys_dns \<Rightarrow> error \<times> sys_dns" where
  "rctl_implDeleteManual env localInterfaceIP s = rctl_implPause env localInterfaceIP (rctl_stopDnsChangeMonitor s)"

text \<open>
  The pattern of the servers. The addresses stand in it as they are, so the dots of an address
  match any character; what else an IP address is written with matches itself.
\<close>

fun rx_address :: "string \<Rightarrow> rx" where
  "rx_address [] = Eps"
| "rx_address (c # cs) = Seq (if c = CHR ''.'' then rx_any else rx_fold_char c) (rx_address cs)"

definition rx_server :: "string \<Rightarrow> rx" where
  "rx_server addr = Seq (Star rx_blank) (Seq (rx_address addr) (rx_plus rx_ws))"

fun rx_servers :: "string list \<Rightarrow> rx" where
  "rx_servers [] = Eps"
| "rx_servers (a # as) = Seq (rx_server a) (rx_servers as)"

definition regExpCurDns :: "DnsSettings \<Rightarrow> rx" where
  "regExpCurDns d = Seq (rx_plus rx_ws) (Seq (rx_lit_fold ''DNS Servers:'') (rx_servers (map Address (Servers d))))"

definition regExpDnsDomain :: rx where
  "regExpDnsDomain = Seq (rx_plus rx_ws) (Seq (rx_lit_fold ''DNS Domain:'') (Seq (Star rx_blank) (rx_lit ''~.'')))"

definition rctl_configOk :: "dns_env \<Rightarrow> sys_dns \<Rightarrow> gerror + bool" where
  "rctl_configOk env s =
     (if no_expected_dns s then
        Inl (Err ''unable to check/compare OS DNS settings for the VPN interface: expected DNS configuration is not defined'')
      else case InterfaceByIPAddr (de_interfaces env) (rctl_localInterfaceIp s) of
        Inl err \<Rightarrow> Inl (ErrWrap ''unable to check/compare OS DNS settings for the VPN interface'' err)
      | Inr nif \<Rightarrow> Inr (rx_matches (regExpCurDns (manualDNS s)) (de_status env)
          \<and> rx_matches regExpDnsDomain (de_status env)))"

text \<open>One pass of the watching goroutine, after one of the files was changed.\<close>

definition rctl_changed :: "dns_env \<Rightarrow> sys_dns \<Rightarrow> sys_dns" where
  "rctl_changed env s =
     (if \<not> rctl_watching s then s
      else
        let s' = (if isPaused s then s
                  else case rctl_configOk env s of
                    Inl _ \<Rightarrow> s
                  | Inr ok \<Rightarrow>
                      if ok then s
                      else snd (rctl_applySetManual env (manualDNS s) (rctl_localInterfaceIp s) s))
        in s'\<lparr>rctl_watching := de_files env \<noteq> []\<rparr>)"

subsection \<open>The file /etc/resolv.conf\<close>

definition rconf_createBackup :: "dns_env \<Rightarrow> bool \<Rightarrow> sys_dns \<Rightarrow> (gerror + bool) \<times> sys_dns" where
  "rconf_createBackup env isOverwriteIfExists s =
     (if resolvFile s = None then
        (Inl (ErrWrap ''failed to backup DNS configuration (file availability check failed)'' ErrNotExist), s)
      else if resolvBackupFile s \<noteq> None \<and> \<not> isOverwriteIfExists then (Inr False, s)
      else case de_rename env ''/etc/resolv.conf.ivpnsave'' of
        Some err \<Rightarrow> (Inl (ErrWrap ''failed to backup DNS configuration'' err), s)
      | None \<Rightarrow> (Inr True, s\<lparr>resolvFile := None, resolvBackupFile := resolvFile s\<rparr>))"

definition rconf_restoreBackup :: "dns_env \<Rightarrow> sys_dns \<Rightarrow> error \<times> sys_dns" where
  "rconf_restoreBackup env s =
     (if resolvBackupFile s = None then (None, s)
      else case de_rename env ''/etc/resolv.conf'' of
        Some err \<Rightarrow> (Some (ErrWrap ''failed to restore DNS configuration'' err), s)
      | None \<Rightarrow> (None, s\<lparr>resolvFile := resolvBackupFile s, resolvBackupFile := None\<rparr>))"

definition rconf_isBackupExists :: "sys_dns \<Rightarrow> bool" where
  "rconf_isBackupExists s \<longleftrightarrow> resolvBackupFile s \<noteq> None"

definition rconf_stopDNSChangeMonitoring :: "sys_dns \<Rightarrow> sys_dns" where
  "rconf_stopDNSChangeMonitoring s = s\<lparr>rconf_done := False, rconf_watching := None\<rparr>"

definition rconf_implDeleteManual :: "dns_env \<Rightarrow> sys_dns \<Rightarrow> error \<times> sys_dns" where
  "rconf_implDeleteManual env s = rconf_restoreBackup env (rconf_stopDNSChangeMonitoring s)"

definition rconf_implInitialize :: "dns_env \<Rightarrow> sys_dns \<Rightarrow> error \<times> sys_dns" where
  "rconf_implInitialize env s =
     (if resolvBackupFile s = None then (None, s)
      else let (err, s) = rconf_implDeleteManual env s in
        (map_option (ErrWrap ''failed to restore DNS to default'') err, s))"

definition rconf_implPause :: "dns_env \<Rightarrow> sys_dns \<Rightarrow> error \<times> sys_dns" where
  "rconf_implPause env s =
     (if \<not> rconf_isBackupExists s then (None, s)
      else rconf_restoreBackup env (rconf_stopDNSChangeMonitoring s))"

definition resolv_content :: "string \<Rightarrow> DnsSettings \<Rightarrow> string" where
  "resolv_content arg0 dnsCfg =
     ''# resolv.conf autogenerated by '' @ [CHR 0x27] @ arg0 @ [CHR 0x27, LF, LF]
     @ concat (map (\<lambda>svr. ''nameserver '' @ Address svr @ [LF]) (Servers dnsCfg))"

text \<open>\<open>saveNewConfig\<close>, the function literal in \<open>rconf_implSetManual\<close> that the goroutine also calls.\<close>

definition saveNewConfig :: "dns_env \<Rightarrow> DnsSettings \<Rightarrow> sys_dns \<Rightarrow> error \<times> sys_dns" where
  "saveNewConfig env dnsCfg s =
     (let s = snd (rconf_createBackup env False s) in
      case de_open env of
        Some err \<Rightarrow> (Some (ErrWrap ''failed to update DNS configuration'' err), s)
      | None \<Rightarrow>
          (let content = resolv_content (de_arg0 env) dnsCfg;
               (n, err) = de_write env
           in case err of
                Some e \<Rightarrow> (Some (ErrWrap ''failed to update DNS configuration'' e), s\<lparr>resolvFile := Some (take n content)\<rparr>)
              | None \<Rightarrow>
                  (map_option (ErrWrap ''failed to change DNS configuration'') (de_sync env),
                   s\<lparr>resolvFile := Some content\<rparr>)))"

definition rconf_implSetManual ::
  "dns_env \<Rightarrow> DnsSettings \<Rightarrow> sys_dns \<Rightarrow> (gerror + DnsSettings) \<times> sys_dns" where
  "rconf_implSetManual env dnsCfg s =
     (let s = s\<lparr>rconf_done := True, rconf_watching := None\<rparr> in
      if dns_IsEmpty dnsCfg then
        (let (err, s) = rconf_implDeleteManual env s in
         (case err of Some e \<Rightarrow> Inl e | None \<Rightarrow> Inr noDns, s))
      else
        let (created, s) = rconf_createBackup env False s in
        case created of
          Inl err \<Rightarrow>
            (Inl (case de_snap env of
                Some (allowed, userErrMsg) \<Rightarrow>
                  if \<not> allowed \<and> length userErrMsg > 0 then Err (error_text err @ [LF, LF] @ userErrMsg) else err
              | None \<Rightarrow> err), s)
        | Inr _ \<Rightarrow>
            (let (err, s) = saveNewConfig env dnsCfg s in
             case err of
               Some e \<Rightarrow> (Inl e, s)
             | None \<Rightarrow> (Inr dnsCfg, s\<lparr>rconf_watching := Some dnsCfg\<rparr>)))"

definition rconf_changed :: "dns_env \<Rightarrow> sys_dns \<Rightarrow> sys_dns" where
  "rconf_changed env s =
     (case rconf_watching s of
        None \<Rightarrow> s
      | Some dnsCfg \<Rightarrow>
          (let s = snd (saveNewConfig env dnsCfg s) in
           if resolvFile s = None then s\<lparr>rconf_watching := None\<rparr> else s))"

subsection \<open>Dispatch on the way of management (dns\_linux.go)\<close>

definition isResolveCtlInUse :: "dns_env \<Rightarrow> bool" where
  "isResolveCtlInUse env \<longleftrightarrow> length (ResolvectlBinPath env) > 0"

definition isNeedUseOldMgmtStyle :: "dns_env \<Rightarrow> bool" where
  "isNeedUseOldMgmtStyle env = (case funcGetUserSettings env of None \<Rightarrow> False | Some old \<Rightarrow> old)"

definition f_implPause :: "dns_env \<Rightarrow> net_ip \<Rightarrow> sys_dns \<Rightarrow> error \<times> sys_dns" where
  "f_implPause env ip s =
     (case f_impl s of None \<Rightarrow> (Some notInitialised, s)
      | Some Resolvectl \<Rightarrow> rctl_implPause env ip s | Some ResolvConf \<Rightarrow> rconf_implPause env s)"

definition f_implResume :: "dns_env \<Rightarrow> net_ip \<Rightarrow> sys_dns \<Rightarrow> error \<times> sys_dns" where
  "f_implResume env ip s =
     (case f_impl s of None \<Rightarrow> (Some notInitialised, s)
      | Some Resolvectl \<Rightarrow> rctl_implResume env ip s | Some ResolvConf \<Rightarrow> (None, s))"

definition f_implSetManual ::
  "dns_env \<Rightarrow> DnsSettings \<Rightarrow> net_ip \<Rightarrow> sys_dns \<Rightarrow> (gerror + DnsSettings) \<times> sys_dns" where
  "f_implSetManual env d ip s =
     (case f_impl s of None \<Rightarrow> (Inl notInitialised, s)
      | Some Resolvectl \<Rightarrow> rctl_implSetManual env d ip s | Some ResolvConf \<Rightarrow> rconf_implSetManual env d s)"

definition f_implDeleteManual :: "dns_env \<Rightarrow> net_ip \<Rightarrow> sys_dns \<Rightarrow> error \<times> sys_dns" where
  "f_implDeleteManual env ip s =
     (case f_impl s of None \<Rightarrow> (Some notInitialised, s)
      | Some Resolvectl \<Rightarrow> rctl_implDeleteManual env ip s | Some ResolvConf \<Rightarrow> rconf_implDeleteManual env s)"

definition implInitialize :: "dns_env \<Rightarrow> sys_dns \<Rightarrow> error \<times> sys_dns" where
  "implInitialize env s =
     (if \<not> isNeedUseOldMgmtStyle env \<and> isResolveCtlInUse env then
        (None, s\<lparr>f_impl := Some Resolvectl, isOldMgmtStyleInUse := False\<rparr>)
      else rconf_implInitialize env (s\<lparr>f_impl := Some ResolvConf, isOldMgmtStyleInUse := True\<rparr>))"

definition implApplyUserSettings :: "dns_env \<Rightarrow> sys_dns \<Rightarrow> error \<times> sys_dns" where
  "implApplyUserSettings env s =
     (if isNeedUseOldMgmtStyle env = isOldMgmtStyleInUse s then (None, s)
      else if \<not> dns_IsEmpty (manualDNS s) then
        (Some (Err ''unable to apply new DNS management style: DNS currently changed to a custom value''), s)
      else implInitialize env s)"

definition ResolversTeardown :: "sys_dns \<Rightarrow> sys_dns" where
  "ResolversTeardown s = s\<lparr>resolvers := []\<rparr>"

definition implPause :: "dns_env \<Rightarrow> net_ip \<Rightarrow> sys_dns \<Rightarrow> error \<times> sys_dns" where
  "implPause env ip s = f_implPause env ip ((ResolversTeardown s)\<lparr>isPaused := True\<rparr>)"

definition forget_result :: "(gerror + 'a) \<times> 's \<Rightarrow> error \<times> 's" where
  "forget_result r = (case fst r of Inl err \<Rightarrow> Some err | Inr _ \<Rightarrow> None, snd r)"

definition implResume :: "dns_env \<Rightarrow> DnsSettings \<Rightarrow> net_ip \<Rightarrow> sys_dns \<Rightarrow> error \<times> sys_dns" where
  "implResume env defaultDNS ip s =
     (let s = s\<lparr>isPaused := False\<rparr> in
      if \<not> dns_IsEmpty (manualDNS s) then forget_result (f_implSetManual env (manualDNS s) ip s)
      else if \<not> dns_IsEmpty defaultDNS then forget_result (f_implSetManual env defaultDNS ip s)
      else f_implResume env ip s)"

text \<open>A failure stops the resolvers again (the deferred function).\<close>

definition implSetManual ::
  "dns_env \<Rightarrow> DnsSettings \<Rightarrow> net_ip \<Rightarrow> sys_dns \<Rightarrow> (gerror + DnsSettings) \<times> sys_dns" where
  "implSetManual env dnsCfg ip s =
     (let s = ResolversTeardown (s\<lparr>manualDNS := dnsCfg\<rparr>) in
      if isPaused s then (Inr dnsCfg, s)
      else
        let (ret, s) =
          (if UseEncryption dnsCfg then
             (case ResolversSetup (de_crypt env) dnsCfg (resolvers s) of
                (Inl err, running) \<Rightarrow> (Inl err, s\<lparr>resolvers := running\<rparr>)
              | (Inr confs, running) \<Rightarrow>
                  f_implSetManual env (noDns\<lparr>Servers := confs\<rparr>) ip
                    (s\<lparr>resolvers := running, manualDNS := noDns\<lparr>Servers := confs\<rparr>\<rparr>))
           else f_implSetManual env dnsCfg ip s)
        in (ret, case ret of Inl _ \<Rightarrow> ResolversTeardown s | Inr _ \<Rightarrow> s))"

definition implDeleteManual :: "dns_env \<Rightarrow> net_ip \<Rightarrow> sys_dns \<Rightarrow> error \<times> sys_dns" where
  "implDeleteManual env ip s =
     (let s = ResolversTeardown (s\<lparr>manualDNS := noDns\<rparr>) in
      if isPaused s then (None, s) else f_implDeleteManual env ip s)"

subsection \<open>The interface of the package (dns.go)\<close>

definition dns_Initialize :: "dns_env \<Rightarrow> sys_dns \<Rightarrow> error \<times> sys_dns" where
  "dns_Initialize env s = map_prod wrapErrorIfFailed id (implInitialize env s)"

definition ApplyUserSettings :: "dns_env \<Rightarrow> sys_dns \<Rightarrow> error \<times> sys_dns" where
  "ApplyUserSettings env s = implApplyUserSettings env s"

definition dns_Pause :: "dns_env \<Rightarrow> net_ip \<Rightarrow> sys_dns \<Rightarrow> error \<times> sys_dns" where
  "dns_Pause env ip s = map_prod wrapErrorIfFailed id (implPause env ip s)"

definition dns_Resume :: "dns_env \<Rightarrow> DnsSettings \<Rightarrow> net_ip \<Rightarrow> sys_dns \<Rightarrow> error \<times> sys_dns" where
  "dns_Resume env defaultDNS ip s = map_prod wrapErrorIfFailed id (implResume env defaultDNS ip s)"

definition dns_SetManual :: "dns_env \<Rightarrow> DnsSettings \<Rightarrow> net_ip \<Rightarrow> sys_dns \<Rightarrow> error \<times> sys_dns" where
  "dns_SetManual env dnsCfg ip s =
     (if length (Servers dnsCfg) > 8 then (Some (Err ''too many DNS servers defined''), s)
      else case implSetManual env dnsCfg ip s of
        (Inl err, s) \<Rightarrow> (wrapErrorIfFailed (Some err), s)
      | (Inr forFirewall, s) \<Rightarrow> map_prod wrapErrorIfFailed id (notifyFirewall env forFirewall s))"

definition dns_SetDefault :: "dns_env \<Rightarrow> DnsSettings \<Rightarrow> net_ip \<Rightarrow> sys_dns \<Rightarrow> error \<times> sys_dns" where
  "dns_SetDefault env dnsCfg ip s = map_prod wrapErrorIfFailed id (dns_SetManual env dnsCfg ip s)"

definition dns_DeleteManual :: "dns_env \<Rightarrow> net_ip \<Rightarrow> net_ip \<Rightarrow> sys_dns \<Rightarrow> error \<times> sys_dns" where
  "dns_DeleteManual env defaultDns ip s =
     (case implDeleteManual env ip s of
        (Some err, s) \<Rightarrow> (wrapErrorIfFailed (Some err), s)
      | (None, s) \<Rightarrow> map_prod wrapErrorIfFailed id (notifyFirewall env (DnsSettingsCreate defaultDns) s))"

end
