(* ===== verification/Wg_Process.thy ===== *)
theory Wg_Process
  imports Wg_Config Vpn_Types System_Dns
begin

section \<open>A running WireGuard connection on Linux (wireguard.go, wireguard\_linux.go, wgctrl.go)\<close>

text \<open>
  \<open>Connect\<close> runs in a goroutine of its own from the first configuration to the end of the
  connection, through pauses; other goroutines send it requests through a channel with one place
  and wait for the answer. The model has a step for each stretch of \<open>connect\<close> between two points
  where it waits (for a handshake, for a request, for the interface), and one for each request
  and each change of the DNS by another goroutine, so every order of these steps is a list of
  events. The mutex makes sending a request and leaving \<open>connect\<close> exclude each other. What
  wg-quick, the kernel and the file system answer is the environment of each step.
\<close>

datatype operation = Op_disconnect | Op_pause | Op_resume

text \<open>A request is its number (for the pointer) and its operation; the answers are a map from the numbers.\<close>

type_synonym operationRequest = "nat \<times> operation"

datatype wg_pc =
    Not_connecting
  | Waiting_handshake
  | Connected_loop
  | Paused_loop
  | Returned error

record wg_object =
  connectParams :: wg_conn
  localPort :: int
  isDisconnected :: bool
  isDisconnectRequested :: bool
  wg_manualDNS :: DnsSettings
  wg_isRunning :: bool
  wg_isPaused :: bool
  resumeDisconnectChan :: "operationRequest option option"  \<comment> \<open>\<open>None\<close>: nil; \<open>Some None\<close>: empty\<close>
  lastOpRequest :: "operationRequest option"
  requests :: nat  \<comment> \<open>number of requests made so far\<close>
  answers :: "nat \<rightharpoonup> error"
  wg_pc :: wg_pc
  wg_states :: "StateInfo list"
  wg_file :: "string option"
  wg_quick :: "string list list"
  sys :: sys_dns

record wg_env =
  we_dns :: dns_env
  we_freeUDPPort :: "gerror + int"
  we_writeFile :: error
  we_up :: error
  we_down :: error
  we_remove :: error
  we_wgctrl :: error
  we_device :: "gerror + gotime list"  \<comment> \<open>the last handshakes of the peers\<close>
  we_interface :: bool

definition newOperationRequest :: "operation \<Rightarrow> wg_object \<Rightarrow> operationRequest \<times> wg_object" where
  "newOperationRequest op w = ((requests w, op), w\<lparr>requests := requests w + 1\<rparr>)"

definition resultSet :: "operationRequest \<Rightarrow> error \<Rightarrow> wg_object \<Rightarrow> wg_object" where
  "resultSet opr r w = (if answers w (fst opr) = None then w\<lparr>answers := (answers w)(fst opr \<mapsto> r)\<rparr> else w)"

definition resultWait :: "operationRequest \<Rightarrow> wg_object \<Rightarrow> error option" where
  "resultWait opr w = answers w (fst opr)"

text \<open>\<open>init\<close>: the channel, and removing an interface that a killed daemon left.\<close>

definition wg_init :: "wg_env \<Rightarrow> wg_object \<Rightarrow> wg_object" where
  "wg_init env w =
     (let w = w\<lparr>resumeDisconnectChan := Some None\<rparr> in
      if we_interface env then
        w\<lparr>wg_quick := wg_quick w @ [[''ip'', ''link'', ''set'', ''down''], [''ip'', ''link'', ''delete'']]\<rparr>
      else w)"

subsection \<open>Waiting (wgctrl.go)\<close>

text \<open>One poll: \<open>None\<close> is to wait on.\<close>

definition handshake_poll :: "bool list \<Rightarrow> gerror + gotime list \<Rightarrow> error option" where
  "handshake_poll stopTriggers device =
     (if list_ex (\<lambda>b. b) stopTriggers then Some None
      else case device of
        Inl err \<Rightarrow> Some (Some (ErrWrap ''failed to check handshake info for the tunnel'' err))
      | Inr peers \<Rightarrow> if list_ex (\<lambda>t. t \<noteq> 0) peers then Some None else None)"

definition interface_poll :: "bool \<Rightarrow> bool list \<Rightarrow> gerror + gotime list \<Rightarrow> error option" where
  "interface_poll isWaitForDisconnect isStopArray device =
     (let isErr = (case device of Inl _ \<Rightarrow> True | Inr _ \<Rightarrow> False) in
      if isWaitForDisconnect \<and> isErr then Some None
      else if \<not> isWaitForDisconnect \<and> \<not> isErr then Some None
      else if list_ex (\<lambda>b. b) isStopArray then Some None
      else None)"

text \<open>The polls one after the other, each with what it sees.\<close>

fun waitForWgInterface :: "bool \<Rightarrow> (bool list \<times> (gerror + gotime list)) list \<Rightarrow> error option" where
  "waitForWgInterface d [] = None"
| "waitForWgInterface d ((stops, device) # polls) =
     (case interface_poll d stops device of Some r \<Rightarrow> Some r | None \<Rightarrow> waitForWgInterface d polls)"

subsection \<open>The life of a connection\<close>

definition send_state :: "StateInfo \<Rightarrow> wg_object \<Rightarrow> wg_object" where
  "send_state st w = w\<lparr>wg_states := wg_states w @ [st]\<rparr>"

definition newStateInfoConnected :: "wg_object \<Rightarrow> StateInfo" where
  "newStateInfoConnected w =
     (let cp = connectParams w in
      (NewStateInfoConnected False (clientLocalIP cp) (GetIPv6ClientLocalIP cp) (localPort w)
         (hostIP cp) (hostPort cp) (mtu cp))\<lparr>si_ExitHostname := multihopExitHostname cp\<rparr>)"

definition notifyConnectedStat :: "wg_object \<Rightarrow> wg_object" where
  "notifyConnectedStat w = send_state (newStateInfoConnected w) w"

definition notifyInitialisedStat :: "wg_object \<Rightarrow> wg_object" where
  "notifyInitialisedStat w = send_state ((newStateInfoConnected w)\<lparr>si_State := INITIALISED\<rparr>) w"

definition on_sys :: "(sys_dns \<Rightarrow> error \<times> sys_dns) \<Rightarrow> wg_object \<Rightarrow> error \<times> wg_object" where
  "on_sys f w = (let (err, d) = f (sys w) in (err, w\<lparr>sys := d\<rparr>))"

definition internalRestoreDNSFunc :: "wg_env \<Rightarrow> wg_object \<Rightarrow> wg_object" where
  "internalRestoreDNSFunc env w = snd (on_sys (dns_DeleteManual (we_dns env) [] (clientLocalIP (connectParams w))) w)"

definition internalDisconnectFunc :: "wg_env \<Rightarrow> wg_object \<Rightarrow> error \<times> wg_object" where
  "internalDisconnectFunc env w =
     (map_option (ErrWrap ''failed to stop WireGuard'') (we_down env), w\<lparr>wg_quick := wg_quick w @ [[''down'']]\<rparr>)"

text \<open>The deferred function of \<open>connect\<close>, then that of \<open>Connect\<close>.\<close>

definition wg_leave :: "wg_env \<Rightarrow> error \<Rightarrow> wg_object \<Rightarrow> wg_object" where
  "wg_leave env err w =
     (let w = w\<lparr>wg_isRunning := False\<rparr>;
          w = (case resumeDisconnectChan w of
                 Some (Some opr) \<Rightarrow>
                   resultSet opr (if snd opr = Op_disconnect then None else Some (Err ''already disconnected''))
                     (w\<lparr>resumeDisconnectChan := Some None\<rparr>)
               | _ \<Rightarrow> w);
          w = (if we_remove env = None then w\<lparr>wg_file := None\<rparr> else w)
      in w)"

definition wg_return :: "error \<Rightarrow> wg_object \<Rightarrow> wg_object" where
  "wg_return err w =
     send_state (NewStateInfo DISCONNECTED (case err of None \<Rightarrow> [] | Some e \<Rightarrow> error_text e))
       (w\<lparr>isDisconnected := True, wg_pc := Returned err\<rparr>)"

definition wg_end :: "wg_env \<Rightarrow> error \<Rightarrow> wg_object \<Rightarrow> wg_object" where
  "wg_end env err w = wg_return err (wg_leave env err w)"

text \<open>An error inside the inner function: the DNS is restored, then the interface taken down.\<close>

definition wg_fail :: "wg_env \<Rightarrow> gerror \<Rightarrow> wg_object \<Rightarrow> wg_object" where
  "wg_fail env err w = wg_end env (Some err) (snd (internalDisconnectFunc env (internalRestoreDNSFunc env w)))"

definition generateAndSaveConfigFile :: "wg_env \<Rightarrow> wg_object \<Rightarrow> error \<times> wg_object" where
  "generateAndSaveConfigFile env w =
     (let w = (case we_freeUDPPort env of Inl _ \<Rightarrow> w | Inr p \<Rightarrow> w\<lparr>localPort := p\<rparr>) in
      case wg_config_text (we_freeUDPPort env) (connectParams w) of
        Inl err \<Rightarrow> (Some err, w)
      | Inr configText \<Rightarrow>
          (case we_writeFile env of
             Some err \<Rightarrow> (Some (ErrWrap ''failed to save WireGuard configuration into a file'' err), w)
           | None \<Rightarrow> (None, w\<lparr>wg_file := Some configText\<rparr>)))"

definition wg_set_dns :: "wg_env \<Rightarrow> wg_object \<Rightarrow> error \<times> wg_object" where
  "wg_set_dns env w =
     (if \<not> dns_IsEmpty (wg_manualDNS w) then
        (let (err, w) = on_sys (dns_SetManual (we_dns env) (wg_manualDNS w) (clientLocalIP (connectParams w))) w in
         (map_option (ErrWrap ''failed to set manual DNS'') err, w))
      else
        (let dnsIP = DnsSettingsCreate (wg_DefaultDNS (isDisconnected w) (connectParams w));
             (err, w) = on_sys (dns_SetDefault (we_dns env) dnsIP (clientLocalIP (connectParams w))) w
         in (map_option (ErrWrap ''failed to set DNS'') err, w)))"

text \<open>One round of the loop of \<open>connect\<close> up to the wait for the handshake.\<close>

definition bring_up :: "wg_env \<Rightarrow> wg_object \<Rightarrow> wg_object" where
  "bring_up env w =
     (let (err, w) = generateAndSaveConfigFile env w in
      case err of
        Some e \<Rightarrow> wg_end env (Some (ErrWrap ''failed to save WG config file'' e)) w
      | None \<Rightarrow>
          let w = w\<lparr>wg_quick := wg_quick w @ [[''up'']]\<rparr> in
          case we_up env of
            Some e \<Rightarrow> wg_end env (Some (ErrWrap ''failed to start WireGuard'' e)) w
          | None \<Rightarrow>
              let (err, w) = wg_set_dns env w in
              case err of
                Some e \<Rightarrow> wg_fail env e w
              | None \<Rightarrow>
                  let w = notifyInitialisedStat w in
                  case we_wgctrl env of
                    Some e \<Rightarrow> wg_fail env (ErrWrap ''failed to check handshake info'' e) w
                  | None \<Rightarrow> w\<lparr>wg_pc := Waiting_handshake\<rparr>)"

definition wg_Connect :: "wg_env \<Rightarrow> wg_object \<Rightarrow> wg_object" where
  "wg_Connect env w =
     (let w = send_state (NewStateInfo CONNECTING [])
                (w\<lparr>isDisconnected := False, isDisconnectRequested := False\<rparr>)
      in case wg_check_mtu (connectParams w) of
           Some err \<Rightarrow> wg_return (Some err) w
         | None \<Rightarrow> bring_up env (w\<lparr>wg_isRunning := True\<rparr>))"

definition wg_handshake :: "wg_env \<Rightarrow> wg_object \<Rightarrow> wg_object" where
  "wg_handshake env w =
     (case handshake_poll [isDisconnectRequested w, isDisconnected w] (we_device env) of
        None \<Rightarrow> w
      | Some (Some err) \<Rightarrow> wg_fail env err w
      | Some None \<Rightarrow>
          (if \<not> isDisconnectRequested w \<and> \<not> isDisconnected w then notifyConnectedStat w else w)
            \<lparr>wg_pc := Connected_loop\<rparr>)"

text \<open>Leaving the inner function without an error.\<close>

definition wg_loop_left :: "wg_env \<Rightarrow> bool \<Rightarrow> wg_object \<Rightarrow> wg_object" where
  "wg_loop_left env isResumeRequested w =
     (let w = internalRestoreDNSFunc env w in
      if \<not> isResumeRequested then wg_end env None w else bring_up env (w\<lparr>wg_isPaused := False\<rparr>))"

definition wg_interface_check :: "wg_env \<Rightarrow> wg_object \<Rightarrow> wg_object" where
  "wg_interface_check env w = (if \<not> we_interface env then wg_loop_left env False w else w)"

definition wg_take_connected :: "wg_env \<Rightarrow> operationRequest \<Rightarrow> wg_object \<Rightarrow> wg_object" where
  "wg_take_connected env opr w =
     (case snd opr of
        Op_resume \<Rightarrow> resultSet opr None w
      | Op_disconnect \<Rightarrow>
          (let (err, w) = internalDisconnectFunc env w; w = resultSet opr err w in
           if err = None then wg_loop_left env False w else w)
      | Op_pause \<Rightarrow>
          (let (discErr, w) = internalDisconnectFunc env w in
           if discErr \<noteq> None then resultSet opr discErr w
           else (internalRestoreDNSFunc env (resultSet opr None (w\<lparr>wg_isPaused := True\<rparr>)))\<lparr>wg_pc := Paused_loop\<rparr>))"

definition wg_take_paused :: "wg_env \<Rightarrow> operationRequest \<Rightarrow> wg_object \<Rightarrow> wg_object" where
  "wg_take_paused env opr w =
     (if snd opr = Op_pause then resultSet opr None w
      else wg_loop_left env (snd opr = Op_resume) (resultSet opr None (w\<lparr>wg_isPaused := False\<rparr>)))"

text \<open>Receiving from the channel.\<close>

definition wg_take :: "wg_env \<Rightarrow> wg_object \<Rightarrow> wg_object" where
  "wg_take env w =
     (case resumeDisconnectChan w of
        Some (Some opr) \<Rightarrow>
          (let w = w\<lparr>resumeDisconnectChan := Some None\<rparr> in
           if wg_pc w = Connected_loop then wg_take_connected env opr w
           else wg_take_paused env opr w)
      | _ \<Rightarrow> w)"

subsection \<open>Requests and DNS from the other goroutines\<close>

text \<open>\<open>doOperation\<close> up to its wait: an error, or the request whose answer it waits for.\<close>

definition doOperation :: "operation \<Rightarrow> wg_object \<Rightarrow> (gerror + operationRequest) \<times> wg_object" where
  "doOperation op w =
     (let (opr, w) = newOperationRequest op w in
      case resumeDisconnectChan w of
        None \<Rightarrow> (Inl (Err ''not ininialised''), w)
      | Some q \<Rightarrow>
          if \<not> wg_isRunning w then (Inl (Err ''connection not established or already closed''), w)
          else case q of
            None \<Rightarrow> (Inr opr, w\<lparr>resumeDisconnectChan := Some (Some opr), lastOpRequest := Some opr\<rparr>)
          | Some _ \<Rightarrow>
              if op \<noteq> snd (the (lastOpRequest w)) then
                (Inl (Err ''failed to send request to WG connection (channel is full)''), w)
              else (Inr (the (lastOpRequest w)), w))"

definition wg_Disconnect :: "wg_object \<Rightarrow> (gerror + operationRequest) \<times> wg_object" where
  "wg_Disconnect w = doOperation Op_disconnect (w\<lparr>isDisconnectRequested := True\<rparr>)"

definition wg_Pause :: "wg_object \<Rightarrow> (gerror + operationRequest) \<times> wg_object" where
  "wg_Pause w = doOperation Op_pause w"

definition wg_Resume :: "wg_object \<Rightarrow> (gerror + operationRequest) \<times> wg_object" where
  "wg_Resume w = doOperation Op_resume w"

text \<open>The end of \<open>Pause\<close> and \<open>Resume\<close>: the answer, then the wait for the interface.\<close>

definition wg_Pause_returns :: "error \<Rightarrow> (bool list \<times> (gerror + gotime list)) list \<Rightarrow> error option" where
  "wg_Pause_returns ret polls = (if ret \<noteq> None then Some ret else waitForWgInterface True polls)"

definition wg_Resume_returns :: "error \<Rightarrow> (bool list \<times> (gerror + gotime list)) list \<Rightarrow> error option" where
  "wg_Resume_returns ret polls = (if ret \<noteq> None then Some ret else waitForWgInterface False polls)"

definition wg_SetManualDNS :: "wg_env \<Rightarrow> DnsSettings \<Rightarrow> wg_object \<Rightarrow> error \<times> wg_object" where
  "wg_SetManualDNS env dnsCfg w =
     (let w = w\<lparr>wg_manualDNS := dnsCfg\<rparr> in
      if wg_isPaused w \<or> \<not> wg_isRunning w then (None, w)
      else on_sys (dns_SetManual (we_dns env) dnsCfg (clientLocalIP (connectParams w))) w)"

definition wg_ResetManualDNS :: "wg_env \<Rightarrow> wg_object \<Rightarrow> error \<times> wg_object" where
  "wg_ResetManualDNS env w =
     (let w = w\<lparr>wg_manualDNS := noDns\<rparr>; ip = clientLocalIP (connectParams w) in
      if wg_isPaused w then (None, w)
      else if wg_isRunning w then
        on_sys (dns_SetDefault (we_dns env) (DnsSettingsCreate (wg_DefaultDNS (isDisconnected w) (connectParams w))) ip) w
      else on_sys (dns_DeleteManual (we_dns env) [] ip) w)"

subsection \<open>Runs\<close>

datatype wg_event =
    W_Connect
  | W_handshake
  | W_interface_check
  | W_take
  | W_Disconnect
  | W_Pause
  | W_Resume
  | W_SetManualDNS DnsSettings
  | W_ResetManualDNS

text \<open>A stretch of \<open>connect\<close> only runs where \<open>connect\<close> stands.\<close>

fun wg_step :: "wg_env \<times> wg_event \<Rightarrow> wg_object \<Rightarrow> wg_object" where
  "wg_step (env, W_Connect) w = (if wg_pc w = Not_connecting then wg_Connect env w else w)"
| "wg_step (env, W_handshake) w = (if wg_pc w = Waiting_handshake then wg_handshake env w else w)"
| "wg_step (env, W_interface_check) w = (if wg_pc w = Connected_loop then wg_interface_check env w else w)"
| "wg_step (env, W_take) w =
     (if wg_pc w = Connected_loop \<or> wg_pc w = Paused_loop then wg_take env w else w)"
| "wg_step (env, W_Disconnect) w = snd (wg_Disconnect w)"
| "wg_step (env, W_Pause) w = snd (wg_Pause w)"
| "wg_step (env, W_Resume) w = snd (wg_Resume w)"
| "wg_step (env, W_SetManualDNS d) w = snd (wg_SetManualDNS env d w)"
| "wg_step (env, W_ResetManualDNS) w = snd (wg_ResetManualDNS env w)"

definition wg_new :: "wg_conn \<Rightarrow> sys_dns \<Rightarrow> wg_object" where
  "wg_new cp d = \<lparr>connectParams = cp, localPort = 0, isDisconnected = False, isDisconnectRequested = False,
     wg_manualDNS = noDns, wg_isRunning = False, wg_isPaused = False, resumeDisconnectChan = None,
     lastOpRequest = None, requests = 0, answers = Map.empty, wg_pc = Not_connecting, wg_states = [],
     wg_file = None, wg_quick = [], sys = d\<rparr>"

end
