(* ===== verification/System_Dns_Proofs.thy ===== *)
theory System_Dns_Proofs
  imports System_Dns
begin

section \<open>What the operations on the DNS of the system keep and lose\<close>

text \<open>
  The original \<^verbatim>\<open>/etc/resolv.conf\<close> survives every sequence of operations and failures and
  comes back with the end of the connection; what a pause does to encrypted DNS; what the
  watching goroutines notice.
\<close>

datatype dns_op =
    D_Initialize
  | D_ApplyUserSettings
  | D_Pause net_ip
  | D_Resume DnsSettings net_ip
  | D_SetManual DnsSettings net_ip
  | D_SetDefault DnsSettings net_ip
  | D_DeleteManual net_ip net_ip
  | D_rctl_changed
  | D_rconf_changed
  | D_other "string option"  \<comment> \<open>another program replaces or removes \<^verbatim>\<open>/etc/resolv.conf\<close> while the daemon has replaced it\<close>

fun dns_step :: "dns_env \<times> dns_op \<Rightarrow> sys_dns \<Rightarrow> sys_dns" where
  "dns_step (env, D_Initialize) s = snd (dns_Initialize env s)"
| "dns_step (env, D_ApplyUserSettings) s = snd (ApplyUserSettings env s)"
| "dns_step (env, D_Pause ip) s = snd (dns_Pause env ip s)"
| "dns_step (env, D_Resume d ip) s = snd (dns_Resume env d ip s)"
| "dns_step (env, D_SetManual d ip) s = snd (dns_SetManual env d ip s)"
| "dns_step (env, D_SetDefault d ip) s = snd (dns_SetDefault env d ip s)"
| "dns_step (env, D_DeleteManual d ip) s = snd (dns_DeleteManual env d ip s)"
| "dns_step (env, D_rctl_changed) s = rctl_changed env s"
| "dns_step (env, D_rconf_changed) s = rconf_changed env s"
| "dns_step (env, D_other t) s = (if resolvBackupFile s = None then s else s\<lparr>resolvFile := t\<rparr>)"

subsection \<open>The original file\<close>

definition original_kept :: "string \<Rightarrow> sys_dns \<Rightarrow> bool" where
  "original_kept orig s \<longleftrightarrow>
     resolvBackupFile s = Some orig
     \<or> resolvBackupFile s = None \<and> resolvFile s = Some orig \<and> rconf_watching s = None"

named_theorems dns_keeps "what keeps the original file"

lemma kept_updates [simp]:
  "original_kept orig (s\<lparr>f_impl := a\<rparr>) = original_kept orig s"
  "original_kept orig (s\<lparr>isOldMgmtStyleInUse := b\<rparr>) = original_kept orig s"
  "original_kept orig (s\<lparr>isPaused := b\<rparr>) = original_kept orig s"
  "original_kept orig (s\<lparr>manualDNS := d\<rparr>) = original_kept orig s"
  "original_kept orig (s\<lparr>resolvers := r\<rparr>) = original_kept orig s"
  "original_kept orig (s\<lparr>rctl_localInterfaceIp := ip\<rparr>) = original_kept orig s"
  "original_kept orig (s\<lparr>rctl_done := b\<rparr>) = original_kept orig s"
  "original_kept orig (s\<lparr>rctl_watching := b\<rparr>) = original_kept orig s"
  "original_kept orig (s\<lparr>rconf_done := b\<rparr>) = original_kept orig s"
  "original_kept orig (s\<lparr>commands := c\<rparr>) = original_kept orig s"
  "original_kept orig (s\<lparr>told_firewall := t\<rparr>) = original_kept orig s"
  by (simp_all add: original_kept_def)

lemma rctl_keeps [dns_keeps]:
  "original_kept orig s \<Longrightarrow> original_kept orig (snd (shell_Exec env args s))"
  "original_kept orig s \<Longrightarrow> original_kept orig (snd (rctl_domain_and_route env n d r s))"
  "original_kept orig s \<Longrightarrow> original_kept orig (snd (rctl_implPause env ip s))"
  "original_kept orig s \<Longrightarrow> original_kept orig (snd (rctl_implResume env ip s))"
  "original_kept orig s \<Longrightarrow> original_kept orig (snd (rctl_applySetManual env cfg ip s))"
  "original_kept orig s \<Longrightarrow> original_kept orig (snd (rctl_implSetManual env cfg ip s))"
  "original_kept orig s \<Longrightarrow> original_kept orig (snd (rctl_implDeleteManual env ip s))"
  "original_kept orig s \<Longrightarrow> original_kept orig (rctl_changed env s)"
  by (simp_all add: shell_Exec_def rctl_domain_and_route_def rctl_implPause_def rctl_implResume_def
      rctl_applySetManual_def rctl_implSetManual_def rctl_implDeleteManual_def rctl_changed_def
      rctl_stopDnsChangeMonitor_def rctl_startDnsChangeMonitor_def Let_def case_prod_unfold
      split: option.split sum.split)

lemma backup_keeps [dns_keeps]:
  "original_kept orig s \<Longrightarrow> original_kept orig (snd (rconf_createBackup env False s))"
  "original_kept orig s \<Longrightarrow> rconf_watching s = None \<Longrightarrow> original_kept orig (snd (rconf_restoreBackup env s))"
  by (auto simp: rconf_createBackup_def rconf_restoreBackup_def original_kept_def split: option.split)

lemma kept_stopped [simp]:
  "original_kept orig s \<Longrightarrow> original_kept orig (s\<lparr>rconf_done := b, rconf_watching := None\<rparr>)"
  by (auto simp: original_kept_def)

text \<open>The file is only written once the original is saved.\<close>

lemma backup_done:
  assumes "original_kept orig s" "rconf_createBackup env False s = (Inr b, t)"
  shows "resolvBackupFile t = Some orig"
  using assms by (auto simp: rconf_createBackup_def original_kept_def split: if_splits option.splits)

lemma saveNewConfig_backup:
  "resolvBackupFile s = Some orig \<Longrightarrow> resolvBackupFile (snd (saveNewConfig env d s)) = Some orig"
  by (simp add: saveNewConfig_def rconf_createBackup_def Let_def case_prod_unfold split: option.split)

lemma rconf_keeps [dns_keeps]:
  assumes "original_kept orig s"
  shows "original_kept orig (snd (rconf_implDeleteManual env s))"
    and "original_kept orig (snd (rconf_implInitialize env s))"
    and "original_kept orig (snd (rconf_implPause env s))"
    and "original_kept orig (snd (rconf_implSetManual env d s))"
proof -
  show del: "original_kept orig (snd (rconf_implDeleteManual env s))" for env
    using assms by (simp add: rconf_implDeleteManual_def rconf_stopDNSChangeMonitoring_def backup_keeps)
  show "original_kept orig (snd (rconf_implInitialize env s))"
    using assms del by (simp add: rconf_implInitialize_def Let_def case_prod_unfold)
  show "original_kept orig (snd (rconf_implPause env s))"
    using assms by (simp add: rconf_implPause_def rconf_stopDNSChangeMonitoring_def backup_keeps)
  let ?s = "s\<lparr>rconf_done := True, rconf_watching := None\<rparr>"
  have k: "original_kept orig ?s" using assms by simp
  show "original_kept orig (snd (rconf_implSetManual env d s))"
  proof (cases "dns_IsEmpty d")
    case True
    have "original_kept orig (snd (rconf_implDeleteManual env ?s))"
      using assms by (simp add: rconf_implDeleteManual_def rconf_stopDNSChangeMonitoring_def backup_keeps)
    then show ?thesis using True by (simp add: rconf_implSetManual_def case_prod_unfold Let_def)
  next
    case False
    obtain created t where t: "rconf_createBackup env False ?s = (created, t)" by fastforce
    then have "original_kept orig t" using backup_keeps(1) [OF k, of env] by simp
    moreover have "original_kept orig (snd (saveNewConfig env d t))"
        "original_kept orig (snd (saveNewConfig env d t)\<lparr>rconf_watching := Some d\<rparr>)" if "created = Inr b" for b
      using saveNewConfig_backup [OF backup_done [OF k t [unfolded that]], of env d]
      by (simp_all add: original_kept_def)
    ultimately show ?thesis using False t
      by (cases created) (auto simp: rconf_implSetManual_def case_prod_unfold Let_def split: option.split)
  qed
qed

lemma f_impl_keeps [dns_keeps]:
  assumes "original_kept orig s"
  shows "original_kept orig (snd (f_implPause env ip s))"
    and "original_kept orig (snd (f_implResume env ip s))"
    and "original_kept orig (snd (f_implSetManual env d ip s))"
    and "original_kept orig (snd (f_implDeleteManual env ip s))"
    and "original_kept orig (snd (implInitialize env s))"
  using assms
  by (simp_all add: f_implPause_def f_implResume_def f_implSetManual_def f_implDeleteManual_def
      implInitialize_def rctl_keeps rconf_keeps split: option.split dns_style.split)

lemma impl_keeps [dns_keeps]:
  assumes "original_kept orig s"
  shows "original_kept orig (snd (implApplyUserSettings env s))"
    and "original_kept orig (snd (implPause env ip s))"
    and "original_kept orig (snd (implResume env d ip s))"
    and "original_kept orig (snd (implSetManual env d ip s))"
    and "original_kept orig (snd (implDeleteManual env ip s))"
    and "original_kept orig (snd (notifyFirewall env d s))"
  using assms
  by (simp_all add: implApplyUserSettings_def implPause_def implResume_def implSetManual_def implDeleteManual_def
      notifyFirewall_def ResolversTeardown_def forget_result_def f_impl_keeps Let_def case_prod_unfold
      split: option.split sum.split prod.split)

lemma interface_keeps [dns_keeps]:
  assumes "original_kept orig s"
  shows "original_kept orig (snd (dns_SetManual env d ip s))"
    and "original_kept orig (snd (dns_SetDefault env d ip s))"
    and "original_kept orig (snd (dns_DeleteManual env a ip s))"
proof -
  have n: "original_kept orig (snd (notifyFirewall env d t))" if "original_kept orig t" for d t
    using that by (rule impl_keeps)
  show m: "original_kept orig (snd (dns_SetManual env d ip s))"
    using impl_keeps(4) [OF assms, of env d ip] assms n
    by (auto simp: dns_SetManual_def split: prod.split sum.split)
  show "original_kept orig (snd (dns_SetDefault env d ip s))"
    using m by (simp add: dns_SetDefault_def)
  show "original_kept orig (snd (dns_DeleteManual env a ip s))"
    using impl_keeps(5) [OF assms, of env ip] n by (auto simp: dns_DeleteManual_def split: prod.split option.split)
qed

lemma step_keeps: "original_kept orig s \<Longrightarrow> original_kept orig (dns_step e s)"
proof (induction e s rule: dns_step.induct)
  case (9 env s)
  then show ?case
    using saveNewConfig_backup [of s orig env]
    by (auto simp: rconf_changed_def original_kept_def Let_def split: option.split)
qed (simp_all add: dns_keeps dns_Initialize_def ApplyUserSettings_def dns_Pause_def dns_Resume_def,
    auto simp: original_kept_def)

interpretation dns_files: safe_machine dns_step "original_kept orig" for orig
  by unfold_locales (rule step_keeps)

text \<open>
  C13: The user's \<^verbatim>\<open>/etc/resolv.conf\<close> is never lost: whatever the daemon does to the DNS, in any
  order, whatever fails on the way (renaming, opening, writing, syncing, commands), and whatever
  other programs write into the file meanwhile, its original content is in place or in the backup.
\<close>

theorem original_dns_never_lost:
  fixes s :: sys_dns and ops :: "(dns_env \<times> dns_op) list"
  assumes "resolvFile s = Some orig" "resolvBackupFile s = None" "rconf_watching s = None"
  defines "t \<equiv> fold dns_step ops s"
  shows "resolvBackupFile t = Some orig \<or> resolvBackupFile t = None \<and> resolvFile t = Some orig"
  using dns_files.run_inv [of orig s ops] assms by (auto simp: original_kept_def)

text \<open>
  After any such run, the end of a manual configuration (as at the end of every connection)
  puts the original file back, provided the file can be renamed and the DNS is managed by the
  file and not paused: the backup is gone, nothing watches the file any more and no resolver for
  encrypted DNS is left running.
\<close>

theorem delete_restores_original:
  fixes s :: sys_dns and ops :: "(dns_env \<times> dns_op) list" and env :: dns_env and dflt ip :: net_ip
  assumes "resolvFile s = Some orig" "resolvBackupFile s = None" "rconf_watching s = None"
  defines "t \<equiv> fold dns_step ops s"
  assumes "f_impl t = Some ResolvConf" "\<not> isPaused t" "de_rename env ''/etc/resolv.conf'' = None"
  defines "u \<equiv> snd (dns_DeleteManual env dflt ip t)"
  shows "resolvFile u = Some orig \<and> resolvBackupFile u = None \<and> rconf_watching u = None \<and> resolvers u = []
    \<and> dns_IsEmpty (manualDNS u)"
proof -
  have "original_kept orig t" unfolding t_def
    by (rule dns_files.run_inv) (use assms in \<open>simp add: original_kept_def\<close>)
  then show ?thesis
    using assms(5-7) unfolding u_def
    by (auto simp: original_kept_def dns_DeleteManual_def implDeleteManual_def f_implDeleteManual_def
        rconf_implDeleteManual_def rconf_stopDNSChangeMonitoring_def rconf_restoreBackup_def ResolversTeardown_def
        notifyFirewall_def Let_def split: option.split)
qed

subsection \<open>A pause and encrypted DNS\<close>

lemma local_listener_not_empty:
  "\<not> server_IsEmpty \<lparr>Address = ip_string (mk_IPv4 127 0 0 b), Encryption = e, Template = tm\<rparr>"
proof -
  have s: "ip_string (mk_IPv4 127 0 0 b) = ip_string [127, 0, 0, b]" by (simp add: ip_string_def to4_def mk_IPv4_def)
  have p: "parse_ip (ip_string [127, 0, 0, b]) = mk_IPv4 127 0 0 b" by (simp add: parse_ip_v4_string mk_IPv4_def)
  have "\<not> ip_equal (mk_IPv4 127 0 0 b) x" if "x \<in> {mk_IPv4 0 0 0 0, mk_IPv4 255 255 255 255, replicate 16 0}" for x
    using that by (auto simp: ip_equal_def mk_IPv4_def)
  moreover have "mk_IPv4 127 0 0 b \<noteq> []" by (simp add: mk_IPv4_def)
  ultimately show ?thesis using trim_v4_string [of "[127, 0, 0, b]"]
    by (simp add: server_IsEmpty_def s p server_Ip_def)
qed

lemma free_address_local:
  assumes "GetFreeLocalAddressForDNS env start = Inr ip"
  shows "\<exists>b. ip = mk_IPv4 127 0 0 b"
proof -
  have "\<exists>b. ip = mk_IPv4 127 0 0 b" if "free_loop env is = Some ip" for "is"
    using that by (induction "is") (auto simp: Let_def split: if_splits)
  then show ?thesis using assms by (auto simp: GetFreeLocalAddressForDNS_def Let_def split: if_splits option.splits)
qed

lemma setup_not_empty:
  assumes "setup_loop env nextIP svrs = Inr (ret, cfgs)" "nextIP = mk_IPv4 127 0 0 b"
    and "list_ex (\<lambda>srv. Encryption srv \<noteq> EncryptionNone) svrs"
  shows "\<exists>x \<in> set ret. \<not> server_IsEmpty x"
  using assms
proof (induction env nextIP svrs arbitrary: ret cfgs b rule: setup_loop.induct)
  case (2 env nextIP svr rest)
  show ?case
  proof (cases "Encryption svr = EncryptionNone")
    case True
    then show ?thesis using 2 by (auto split: sum.splits)
  next
    case False
    let ?ip = "case GetFreeLocalAddressForDNS env nextIP of Inl _ \<Rightarrow> nextIP | Inr ip \<Rightarrow> ip"
    obtain c where c: "?ip = mk_IPv4 127 0 0 c"
      using 2(4) free_address_local [of env nextIP] by (cases "GetFreeLocalAddressForDNS env nextIP") auto
    have "\<lparr>Address = ip_string ?ip, Encryption = EncryptionNone, Template = []\<rparr> \<in> set ret"
      using 2(3) False by (auto simp: Let_def split: if_splits sum.splits)
    then show ?thesis using local_listener_not_empty unfolding c by blast
  qed
qed simp

lemma ResolversSetup_not_empty:
  assumes "ResolversSetup env d running = (Inr confs, r)" "UseEncryption d"
  shows "\<not> dns_IsEmpty (noDns\<lparr>Servers := confs\<rparr>)"
proof -
  obtain cfgs where "setup_loop env (mk_IPv4 127 0 0 1) (Servers d) = Inr (confs, cfgs)"
    using assms(1) by (auto simp: ResolversSetup_def split: sum.splits prod.splits if_splits option.splits)
  moreover have "list_ex (\<lambda>srv. Encryption srv \<noteq> EncryptionNone) (Servers d)"
    using assms(2) by (auto simp: UseEncryption_def list_ex_iff)
  ultimately have "\<exists>x \<in> set confs. \<not> server_IsEmpty x" using setup_not_empty by blast
  then show ?thesis by (auto simp: dns_IsEmpty_iff)
qed

text \<open>What the two ways of management leave to their caller.\<close>

definition same_core :: "sys_dns \<Rightarrow> sys_dns \<Rightarrow> bool" where
  "same_core s t \<longleftrightarrow> f_impl t = f_impl s \<and> manualDNS t = manualDNS s \<and> isPaused t = isPaused s
     \<and> resolvers t = resolvers s"

lemma dcore_trans: "same_core s t \<Longrightarrow> same_core t u \<Longrightarrow> same_core s u"
  by (simp add: same_core_def)

lemma dcore_domain: "same_core s (snd (rctl_domain_and_route env n d r s))"
  by (simp add: rctl_domain_and_route_def shell_Exec_def same_core_def Let_def split: option.split)

lemma dcore_rctl_apply: "same_core s (snd (rctl_applySetManual env d ip s))"
proof -
  have "same_core s (snd (shell_Exec env a (snd (rctl_domain_and_route env n dm r s))))" for a n dm r
    using dcore_domain [of s env n dm r] by (simp add: shell_Exec_def same_core_def)
  then show ?thesis using dcore_domain
    by (auto simp: rctl_applySetManual_def case_prod_unfold Let_def same_core_def split: sum.split option.split)
qed

lemma dcore_save: "same_core s (snd (saveNewConfig env d s))"
  by (simp add: saveNewConfig_def rconf_createBackup_def same_core_def Let_def case_prod_unfold split: option.split)

lemma dcore_delete: "same_core s (snd (rconf_implDeleteManual env s))"
  by (simp add: rconf_implDeleteManual_def rconf_restoreBackup_def rconf_stopDNSChangeMonitoring_def
      same_core_def split: option.split)

lemma dcore_rconf_set: "same_core s (snd (rconf_implSetManual env d s))"
proof -
  let ?s = "s\<lparr>rconf_done := True, rconf_watching := None\<rparr>"
  have b: "same_core s (snd (rconf_createBackup env False ?s))"
    by (simp add: rconf_createBackup_def same_core_def split: option.split)
  have "same_core s (snd (rconf_implDeleteManual env ?s))" using dcore_delete [of ?s env] by (simp add: same_core_def)
  moreover have "same_core s (snd (saveNewConfig env d (snd (rconf_createBackup env False ?s))))"
    using dcore_trans [OF b dcore_save] .
  ultimately show ?thesis using b
    by (auto simp: rconf_implSetManual_def case_prod_unfold Let_def same_core_def split: sum.split option.split)
qed

lemma dcore_set: "same_core s (snd (f_implSetManual env d ip s))"
proof -
  let ?s = "(rctl_stopDnsChangeMonitor s)\<lparr>rctl_localInterfaceIp := ip\<rparr>"
  have "same_core s (snd (rctl_implSetManual env d ip s))"
    using dcore_rctl_apply [of ?s env d ip]
    by (auto simp: rctl_implSetManual_def case_prod_unfold Let_def same_core_def rctl_stopDnsChangeMonitor_def
        rctl_startDnsChangeMonitor_def split: sum.split)
  then show ?thesis using dcore_rconf_set by (simp add: f_implSetManual_def same_core_def split: option.split dns_style.split)
qed

lemma dcore_pause: "same_core s (snd (f_implPause env ip s))"
  using dcore_domain [of "rctl_stopDnsChangeMonitor s" env _ "''''" "''false''"]
  by (auto simp: f_implPause_def rctl_implPause_def rconf_implPause_def rconf_restoreBackup_def
      rconf_stopDNSChangeMonitoring_def rctl_stopDnsChangeMonitor_def same_core_def Let_def
      split: option.split dns_style.split sum.split)

lemma dcore_notify: "same_core s (snd (notifyFirewall env d s))"
  by (simp add: notifyFirewall_def same_core_def split: option.split)

lemma rconf_set_content:
  assumes "rconf_implSetManual env d s = (Inr x, t)" "\<not> dns_IsEmpty d"
  shows "resolvFile t = Some (resolv_content (de_arg0 env) d)"
  using assms
  by (auto simp: rconf_implSetManual_def saveNewConfig_def Let_def case_prod_unfold split: sum.splits option.splits)

lemma wrap_None [simp]: "wrapErrorIfFailed e = None \<longleftrightarrow> e = None"
  by (simp add: wrapErrorIfFailed_def split: option.split gerror.split)

lemma map_prod_snd: "map_prod f id p = (a, t) \<Longrightarrow> t = snd p"
  by (cases p) simp

text \<open>Applying the stored configuration when the pause ends.\<close>

lemma resume_applies:
  assumes "dns_Resume env dflt ip s = (None, t)" "\<not> dns_IsEmpty (manualDNS s)"
  shows "resolvers t = resolvers s"
    and "f_impl s = Some ResolvConf \<Longrightarrow> resolvFile t = Some (resolv_content (de_arg0 env) (manualDNS s))"
proof -
  have r: "forget_result (f_implSetManual env (manualDNS s) ip (s\<lparr>isPaused := False\<rparr>)) = (None, t)"
    using assms by (cases "forget_result (f_implSetManual env (manualDNS s) ip (s\<lparr>isPaused := False\<rparr>))")
      (simp add: dns_Resume_def implResume_def)
  then show "resolvers t = resolvers s"
    using dcore_set [of "s\<lparr>isPaused := False\<rparr>" env "manualDNS s" ip]
    by (auto simp: forget_result_def same_core_def)
  assume "f_impl s = Some ResolvConf"
  then obtain x where "rconf_implSetManual env (manualDNS s) (s\<lparr>isPaused := False\<rparr>) = (Inr x, t)"
    using r by (auto simp: forget_result_def f_implSetManual_def prod_eq_iff split: sum.splits)
  then show "resolvFile t = Some (resolv_content (de_arg0 env) (manualDNS s))"
    using rconf_set_content assms(2) by blast
qed

lemma set_succeeds:
  assumes "dns_SetManual env d ip s = (None, t)"
  shows "\<exists>x u. implSetManual env d ip s = (Inr x, u) \<and> t = snd (notifyFirewall env x u)"
proof -
  obtain r u where r: "implSetManual env d ip s = (r, u)" by fastforce
  show ?thesis
  proof (cases r)
    case (Inl e)
    then show ?thesis using assms r by (auto simp: dns_SetManual_def split: if_splits)
  next
    case (Inr x)
    then show ?thesis using assms r map_prod_snd
      by (cases "notifyFirewall env x u") (auto simp: dns_SetManual_def split: if_splits)
  qed
qed

lemma set_encrypted:
  assumes "dns_SetManual env d ip s = (None, t)" "UseEncryption d" "\<not> isPaused s"
  shows "\<exists>confs running. ResolversSetup (de_crypt env) d [] = (Inr confs, running)
    \<and> manualDNS t = noDns\<lparr>Servers := confs\<rparr> \<and> resolvers t = running \<and> f_impl t = f_impl s \<and> \<not> isPaused t
    \<and> \<not> dns_IsEmpty (manualDNS t)"
proof -
  obtain x u where u: "implSetManual env d ip s = (Inr x, u)" "t = snd (notifyFirewall env x u)"
    using set_succeeds [OF assms(1)] by blast
  obtain confs running where c: "ResolversSetup (de_crypt env) d [] = (Inr confs, running)"
    using u(1) assms(2,3)
    by (cases "ResolversSetup (de_crypt env) d []"; cases "fst (ResolversSetup (de_crypt env) d [])")
      (auto simp: implSetManual_def ResolversTeardown_def Let_def split: prod.splits sum.splits)
  let ?s = "s\<lparr>resolvers := running, manualDNS := noDns\<lparr>Servers := confs\<rparr>\<rparr>"
  have "u = snd (f_implSetManual env (noDns\<lparr>Servers := confs\<rparr>) ip ?s)"
    using u(1) assms(2,3) c
    by (auto simp: implSetManual_def ResolversTeardown_def Let_def split: prod.splits sum.splits)
  then have "same_core ?s u" using dcore_set by blast
  then have "same_core ?s t" using dcore_trans dcore_notify u(2) by blast
  then show ?thesis using c ResolversSetup_not_empty [OF c assms(2)] assms(3) by (simp add: same_core_def)
qed

text \<open>
  Encrypted DNS does not survive a pause (this is how OpenVPN connections are paused): the
  pause stops every dnscrypt-proxy, and the resumption sets the DNS of the system back to the
  local addresses they listened on without starting one. Nothing reports an error and no name
  is resolved any more.
\<close>

theorem resume_without_resolvers:
  fixes env1 env2 env3 :: dns_env and s s1 s2 s3 :: sys_dns
  assumes "dns_SetManual env1 d ip s = (None, s1)" "UseEncryption d" "\<not> isPaused s"
    and "dns_Pause env2 ip s1 = (e, s2)" "dns_Resume env3 dflt ip s2 = (None, s3)"
  shows "\<exists>confs. fst (ResolversSetup (de_crypt env1) d []) = Inr confs
    \<and> resolvers s3 = []
    \<and> (f_impl s = Some ResolvConf \<longrightarrow>
         resolvFile s3 = Some (resolv_content (de_arg0 env3) (noDns\<lparr>Servers := confs\<rparr>)))"
proof -
  obtain confs running where c: "ResolversSetup (de_crypt env1) d [] = (Inr confs, running)"
    "manualDNS s1 = noDns\<lparr>Servers := confs\<rparr>" "f_impl s1 = f_impl s" "\<not> dns_IsEmpty (manualDNS s1)"
    using set_encrypted [OF assms(1-3)] by blast
  have "same_core ((ResolversTeardown s1)\<lparr>isPaused := True\<rparr>) s2"
    using assms(4) dcore_pause by (auto simp: dns_Pause_def implPause_def prod_eq_iff)
  then have "manualDNS s2 = manualDNS s1" "f_impl s2 = f_impl s1" "resolvers s2 = []"
    by (simp_all add: same_core_def ResolversTeardown_def)
  then show ?thesis using resume_applies [OF assms(5)] c by simp
qed

text \<open>
  An encrypted DNS server chosen while the connection is paused is used without encryption
  after the resumption: the setting is only stored, and the resumption writes the address of the
  server itself into the DNS of the system.
\<close>

theorem encrypted_dns_set_while_paused_is_plain:
  fixes env1 env2 :: dns_env and s s1 s2 :: sys_dns
  assumes "isPaused s" "dns_SetManual env1 d ip s = (None, s1)" "UseEncryption d"
    and "f_impl s = Some ResolvConf" "dns_Resume env2 dflt ip s1 = (None, s2)"
  shows "resolvers s2 = [] \<and> resolvFile s2 = Some (resolv_content (de_arg0 env2) d)"
proof -
  have "same_core (ResolversTeardown (s\<lparr>manualDNS := d\<rparr>)) s1"
    using assms(1,2) dcore_notify
    by (auto simp: dns_SetManual_def implSetManual_def ResolversTeardown_def prod_eq_iff split: if_splits)
  then have "manualDNS s1 = d" "f_impl s1 = Some ResolvConf" "resolvers s1 = []"
    using assms(4) by (simp_all add: same_core_def ResolversTeardown_def)
  moreover have "\<not> dns_IsEmpty d" using assms(3) by (auto simp: UseEncryption_def dns_IsEmpty_iff list_ex_iff)
  ultimately show ?thesis using resume_applies [OF assms(5)] by simp
qed

subsection \<open>Evaluation on concrete computers\<close>

definition sample_crypt :: crypt_env where
  "sample_crypt = \<lparr>ce_url = (\<lambda>_. Inr \<lparr>url_Scheme = ''https'', url_Path = ''/q'', url_Hostname = ''one.one''\<rparr>),
     ce_listen = (\<lambda>_ _ _. True), ce_info = (''/p'', ''/t'', ''/c''),
     ce_template = Inr (''# server_names = []'' @ [LF] @ ''listen_addresses ='' @ [LF] @ ''[static]'' @ [LF]
       @ ''# [static.myserver]''),
     ce_write = (\<lambda>_ _. None), ce_start = (\<lambda>_. None)\<rparr>"

definition sample_dns_env :: dns_env where
  "sample_dns_env = \<lparr>de_crypt = sample_crypt, funcGetUserSettings = Some True,
     funcDnsChangeFirewallNotify = Some (\<lambda>_. None), ResolvectlBinPath = '''', de_interfaces = Inr [],
     de_exec = (\<lambda>_. None), de_status = '''', de_rename = (\<lambda>_. None), de_open = None, de_write = (0, None),
     de_sync = None, de_snap = None, de_arg0 = ''ivpn-service'', de_files = [''/etc/resolv.conf'']\<rparr>"

definition sample_dns :: sys_dns where
  "sample_dns = dns_initial\<lparr>f_impl := Some ResolvConf, isOldMgmtStyleInUse := True, resolvFile := Some ''orig''\<rparr>"

definition sample_doh :: DnsSettings where
  "sample_doh = noDns\<lparr>Servers := [\<lparr>Address = ''1.1.1.1'', Encryption = EncryptionDnsOverHttps, Template = ''https://one.one/q''\<rparr>]\<rparr>"

lemma sample_doh_encrypted: "UseEncryption sample_doh"
  by code_simp

lemma sample_doh_set: "fst (dns_SetManual sample_dns_env sample_doh [10, 0, 0, 2] sample_dns) = None"
  by code_simp

theorem original_dns_never_lost_witness:
  "let t = fold dns_step [(sample_dns_env, D_SetManual sample_doh [10, 0, 0, 2]), (sample_dns_env, D_other (Some ''x'')),
      (sample_dns_env\<lparr>de_open := Some ErrNotExist\<rparr>, D_rconf_changed)] sample_dns
   in resolvBackupFile t = Some ''orig'' \<or> resolvBackupFile t = None \<and> resolvFile t = Some ''orig''"
  unfolding Let_def by (rule original_dns_never_lost) (simp_all add: sample_dns_def dns_initial_def)

theorem delete_restores_original_witness:
  "resolvFile (snd (dns_DeleteManual sample_dns_env [] [10, 0, 0, 2]
     (fold dns_step [(sample_dns_env, D_SetManual sample_doh [10, 0, 0, 2])] sample_dns))) = Some ''orig''"
  by (rule delete_restores_original [THEN conjunct1]) code_simp+

theorem resume_without_resolvers_witness:
  "\<exists>s1 s2 s3. dns_SetManual sample_dns_env sample_doh [10, 0, 0, 2] sample_dns = (None, s1)
     \<and> dns_Pause sample_dns_env [10, 0, 0, 2] s1 = (None, s2) \<and> dns_Resume sample_dns_env noDns [10, 0, 0, 2] s2 = (None, s3)
     \<and> resolvers s1 \<noteq> [] \<and> resolvers s3 = []"
proof -
  let ?s1 = "snd (dns_SetManual sample_dns_env sample_doh [10, 0, 0, 2] sample_dns)"
  let ?s2 = "snd (dns_Pause sample_dns_env [10, 0, 0, 2] ?s1)"
  let ?s3 = "snd (dns_Resume sample_dns_env noDns [10, 0, 0, 2] ?s2)"
  have 1: "dns_SetManual sample_dns_env sample_doh [10, 0, 0, 2] sample_dns = (None, ?s1)"
    using sample_doh_set by (simp add: prod_eq_iff)
  have 2: "dns_Pause sample_dns_env [10, 0, 0, 2] ?s1 = (None, ?s2)"
    by (simp add: prod_eq_iff) code_simp
  have 3: "dns_Resume sample_dns_env noDns [10, 0, 0, 2] ?s2 = (None, ?s3)"
    by (simp add: prod_eq_iff) code_simp
  have "resolvers ?s1 \<noteq> []" by code_simp
  moreover have "\<not> isPaused sample_dns" by (simp add: sample_dns_def dns_initial_def)
  ultimately show ?thesis
    using resume_without_resolvers [OF 1 sample_doh_encrypted _ 2 3] 1 2 3 by blast
qed

theorem encrypted_dns_set_while_paused_is_plain_witness:
  "\<exists>s1 s2. dns_SetManual sample_dns_env sample_doh [10, 0, 0, 2] (sample_dns\<lparr>isPaused := True\<rparr>) = (None, s1)
     \<and> dns_Resume sample_dns_env noDns [10, 0, 0, 2] s1 = (None, s2)
     \<and> resolvFile s2 = Some (resolv_content ''ivpn-service'' sample_doh)"
proof -
  let ?s = "sample_dns\<lparr>isPaused := True\<rparr>"
  let ?s1 = "snd (dns_SetManual sample_dns_env sample_doh [10, 0, 0, 2] ?s)"
  let ?s2 = "snd (dns_Resume sample_dns_env noDns [10, 0, 0, 2] ?s1)"
  have 1: "dns_SetManual sample_dns_env sample_doh [10, 0, 0, 2] ?s = (None, ?s1)"
    by (simp add: prod_eq_iff) code_simp
  have 2: "dns_Resume sample_dns_env noDns [10, 0, 0, 2] ?s1 = (None, ?s2)"
    by (simp add: prod_eq_iff) code_simp
  have "f_impl ?s = Some ResolvConf" "isPaused ?s" by (simp_all add: sample_dns_def)
  then show ?thesis
    using encrypted_dns_set_while_paused_is_plain [OF _ 1 sample_doh_encrypted _ 2] 1 2
    by (auto simp: sample_dns_env_def)
qed

subsection \<open>What the watching goroutine of resolvectl notices\<close>

lemma matches_to_address: "CHR 0x0A \<notin> set a \<Longrightarrow> matches_to (rx_address a) (a @ s) s"
  by (induction a)
    (auto intro!: matches_to_Eps matches_to_Seq [OF matches_to_fold_char] matches_to_Seq [OF matches_to_Sym] simp: rx_any_def)

lemma matches_to_servers:
  assumes "\<forall>a \<in> set as. CHR 0x0A \<notin> set a"
  shows "matches_to (rx_servers as) (concat (map (\<lambda>a. a @ '' '') as) @ s) s"
  using assms
proof (induction as)
  case Nil
  then show ?case by (simp add: matches_to_Eps)
next
  case (Cons a as)
  let ?r = "concat (map (\<lambda>a. a @ '' '') as) @ s"
  have "matches_to (rx_server a) (a @ '' '' @ ?r) ?r"
    unfolding rx_server_def rx_blank_def rx_ws_def
    by (rule matches_to_Seq [OF matches_to_Star_done matches_to_Seq [OF matches_to_address]])
      (use Cons.prems matches_to_plus_Sym [of "'' ''" _ ?r] in simp_all)
  then show ?case using Cons by (auto intro: matches_to_Seq)
qed

text \<open>
  A DNS server that another program adds after the ones the daemon set is not noticed: as
  long as the status lists the expected servers first and the domain, the configuration counts
  as intact, whatever servers follow, and the watching goroutine restores nothing.
\<close>

theorem added_dns_server_unnoticed:
  fixes env :: dns_env and s :: sys_dns and added :: string
  assumes "InterfaceByIPAddr (de_interfaces env) (rctl_localInterfaceIp s) = Inr nif" "\<not> no_expected_dns s"
    and "\<forall>a \<in> set (map Address (Servers (manualDNS s))). CHR 0x0A \<notin> set a"
    and "de_status env = before @ '' DNS Servers:'' @ concat (map (\<lambda>a. a @ '' '') (map Address (Servers (manualDNS s))))
      @ added @ '' DNS Domain: ~.'' @ after"
  shows "rctl_configOk env s = Inr True \<and> rctl_changed env s = s\<lparr>rctl_watching := rctl_watching s \<and> de_files env \<noteq> []\<rparr>"
proof -
  let ?as = "map Address (Servers (manualDNS s))"
  have ws: "matches_to (rx_plus rx_ws) ('' '' @ t) t" for t
    unfolding rx_ws_def by (rule matches_to_plus_Sym) simp_all
  have "matches_to (regExpCurDns (manualDNS s))
      ('' '' @ ''DNS Servers:'' @ concat (map (\<lambda>a. a @ '' '') ?as) @ added @ '' DNS Domain: ~.'' @ after)
      (added @ '' DNS Domain: ~.'' @ after)"
    unfolding regExpCurDns_def
    by (rule matches_to_Seq [OF ws matches_to_Seq [OF matches_to_lit_fold matches_to_servers [OF assms(3)]]])
  then have 1: "rx_matches (regExpCurDns (manualDNS s)) (de_status env)"
    unfolding assms(4) using rx_matches_at by fastforce
  have "matches_to (Star rx_blank) ('' '' @ t) t" for t
    unfolding rx_blank_def by (rule matches_to_Star_Sym) simp
  moreover have "matches_to (rx_lit ''~.'') (''~.'' @ t) t" for t
    by (simp add: matches_to_def)
  ultimately have "matches_to regExpDnsDomain ('' '' @ ''DNS Domain:'' @ '' '' @ ''~.'' @ after) after"
    unfolding regExpDnsDomain_def by (intro matches_to_Seq [OF ws] matches_to_Seq [OF matches_to_lit_fold] matches_to_Seq)
  then have "rx_matches regExpDnsDomain ((before @ '' DNS Servers:'' @ concat (map (\<lambda>a. a @ '' '') ?as) @ added)
      @ '' '' @ ''DNS Domain:'' @ '' '' @ ''~.'' @ after)"
    by (rule rx_matches_at)
  then have 2: "rx_matches regExpDnsDomain (de_status env)" unfolding assms(4) by simp
  show ?thesis using assms(1,2) 1 2 by (simp add: rctl_configOk_def rctl_changed_def)
qed

definition wg_if :: net_if where
  "wg_if = \<lparr>if_name = ''wgivpn'', if_index = 5, if_up = True, if_loopback = False, if_addrs = [A_IPAddr [10, 0, 0, 2]]\<rparr>"

definition watched_dns :: sys_dns where
  "watched_dns = sample_dns\<lparr>f_impl := Some Resolvectl, rctl_localInterfaceIp := [10, 0, 0, 2], rctl_watching := True,
     manualDNS := DnsSettingsCreate [10, 0, 0, 1]\<rparr>"

theorem added_dns_server_unnoticed_witness:
  "rctl_configOk (sample_dns_env\<lparr>de_interfaces := Inr [wg_if],
     de_status := ''Link'' @ '' DNS Servers:'' @ ''10.0.0.1 '' @ ''8.8.8.8'' @ '' DNS Domain: ~.'' @ ''''\<rparr>) watched_dns = Inr True"
  by (rule added_dns_server_unnoticed [where nif = wg_if and added = "''8.8.8.8''" and before = "''Link''" and after = "''''",
        THEN conjunct1]) code_simp+

end
