(* ===== verification/Wg_Process_Proofs.thy ===== *)
theory Wg_Process_Proofs
  imports Wg_Process System_Dns_Proofs
begin

section \<open>Requests, states and DNS of a WireGuard connection\<close>

text \<open>
  Every request a goroutine makes of a running connection is answered; the states a connection
  reports follow an automaton; and whenever its tunnel is down the DNS of the user is back.
\<close>

subsection \<open>What the stretches of \<open>connect\<close> do to the requests\<close>

type_synonym req_core = "operationRequest option option \<times> operationRequest option \<times> nat \<times> (nat \<rightharpoonup> error) \<times> bool"

definition core :: "wg_object \<Rightarrow> req_core" where
  "core w = (resumeDisconnectChan w, lastOpRequest w, requests w, answers w, wg_isRunning w)"

definition answered :: "operationRequest \<Rightarrow> error \<Rightarrow> (nat \<rightharpoonup> error) \<Rightarrow> (nat \<rightharpoonup> error)" where
  "answered opr r a = (if a (fst opr) = None then a(fst opr \<mapsto> r) else a)"

definition left_core :: "req_core \<Rightarrow> req_core" where
  "left_core c = (case c of (chan, lst, n, a, run) \<Rightarrow>
     (case chan of
        Some (Some opr) \<Rightarrow>
          (Some None, lst, n,
           answered opr (if snd opr = Op_disconnect then None else Some (Err ''already disconnected'')) a, False)
      | _ \<Rightarrow> (chan, lst, n, a, False)))"

named_theorems wg_core "what an operation does to the requests"

lemma wcore_basic [wg_core]:
  "core (send_state st w) = core w" "wg_pc (send_state st w) = wg_pc w"
  "core (snd (on_sys f w)) = core w" "wg_pc (snd (on_sys f w)) = wg_pc w"
  "core (internalRestoreDNSFunc env w) = core w" "wg_pc (internalRestoreDNSFunc env w) = wg_pc w"
  "core (snd (internalDisconnectFunc env w)) = core w" "wg_pc (snd (internalDisconnectFunc env w)) = wg_pc w"
  "core (snd (generateAndSaveConfigFile env w)) = core w"
  "core (snd (wg_set_dns env w)) = core w"
  "core (notifyConnectedStat w) = core w" "core (notifyInitialisedStat w) = core w"
  "core (w\<lparr>wg_pc := pc\<rparr>) = core w" "core (w\<lparr>wg_quick := q\<rparr>) = core w" "core (w\<lparr>wg_isPaused := b\<rparr>) = core w"
  by (simp_all add: core_def send_state_def on_sys_def internalRestoreDNSFunc_def internalDisconnectFunc_def
      generateAndSaveConfigFile_def wg_set_dns_def notifyConnectedStat_def notifyInitialisedStat_def
      Let_def case_prod_unfold split: option.split sum.split)

lemma wcore_end [wg_core]: "core (wg_end env err w) = left_core (core w)" "wg_pc (wg_end env err w) = Returned err"
  by (auto simp: wg_end_def wg_return_def wg_leave_def core_def left_core_def send_state_def resultSet_def
      answered_def Let_def split: option.split)

lemma wcore_fail [wg_core]: "core (wg_fail env err w) = left_core (core w)" "wg_pc (wg_fail env err w) = Returned (Some err)"
  by (simp_all add: wg_fail_def wg_core)

lemma wcore_resultSet [wg_core]:
  "core (resultSet opr r w) = (case core w of (chan, lst, n, a, run) \<Rightarrow> (chan, lst, n, answered opr r a, run))"
  "wg_pc (resultSet opr r w) = wg_pc w"
  by (simp_all add: core_def resultSet_def answered_def)

definition ended :: "wg_object \<Rightarrow> wg_object \<Rightarrow> bool" where
  "ended w u \<longleftrightarrow> core u = left_core (core w) \<and> (\<exists>e. wg_pc u = Returned e)"

definition going_on :: "wg_object \<Rightarrow> wg_object \<Rightarrow> bool" where
  "going_on w u \<longleftrightarrow> core u = core w \<and> wg_pc u \<in> {Waiting_handshake, Connected_loop, Paused_loop}"

lemma wcore_bring_up: "ended w (bring_up env w) \<or> going_on w (bring_up env w)"
  by (auto simp: bring_up_def ended_def going_on_def wg_core Let_def case_prod_unfold split: option.split)

lemma wcore_loop_left: "ended w (wg_loop_left env r w) \<or> going_on w (wg_loop_left env r w)"
  using wcore_bring_up [of "(internalRestoreDNSFunc env w)\<lparr>wg_isPaused := False\<rparr>" env]
  by (auto simp: wg_loop_left_def ended_def going_on_def wg_core Let_def)

subsection \<open>The contract of the requests\<close>

definition running_pc :: "wg_pc \<Rightarrow> bool" where
  "running_pc pc \<longleftrightarrow> pc \<in> {Waiting_handshake, Connected_loop, Paused_loop}"

definition req_inv :: "wg_object \<Rightarrow> bool" where
  "req_inv w \<longleftrightarrow>
     (wg_isRunning w = running_pc (wg_pc w))
     \<and> (\<forall>i a. answers w i = Some a \<longrightarrow> i < requests w)
     \<and> (\<forall>opr. resumeDisconnectChan w = Some (Some opr) \<longrightarrow>
          lastOpRequest w = Some opr \<and> fst opr < requests w \<and> answers w (fst opr) = None \<and> wg_isRunning w)"

lemma req_invD:
  assumes "req_inv w" "resumeDisconnectChan w = Some (Some opr)"
  shows "lastOpRequest w = Some opr \<and> fst opr < requests w \<and> answers w (fst opr) = None \<and> wg_isRunning w"
  using assms unfolding req_inv_def by blast

text \<open>A request that was accepted: answered, or in the channel.\<close>

definition accepted :: "operationRequest \<Rightarrow> wg_object \<Rightarrow> bool" where
  "accepted opr w \<longleftrightarrow> fst opr < requests w \<and> (answers w (fst opr) \<noteq> None \<or> resumeDisconnectChan w = Some (Some opr))"

lemma ended_keeps:
  assumes "req_inv w" "ended w u"
  shows "req_inv u" "accepted opr w \<Longrightarrow> accepted opr u"
proof -
  have c: "core u = left_core (core w)" and "\<not> running_pc (wg_pc u)"
    using assms(2) by (auto simp: ended_def running_pc_def)
  then show "req_inv u" "accepted opr w \<Longrightarrow> accepted opr u"
    using assms(1)
    by (auto simp: req_inv_def accepted_def core_def left_core_def answered_def split: option.splits if_splits)
qed

lemma going_on_keeps:
  assumes "req_inv w" "wg_isRunning w" "going_on w u"
  shows "req_inv u" "accepted opr w \<Longrightarrow> accepted opr u"
  using assms by (auto simp: req_inv_def accepted_def core_def going_on_def running_pc_def)

lemma doOperation_keeps:
  assumes "req_inv w"
  shows "req_inv (snd (doOperation op w))" "accepted opr w \<Longrightarrow> accepted opr (snd (doOperation op w))"
  using assms
  by (auto simp: doOperation_def newOperationRequest_def req_inv_def accepted_def less_Suc_eq Let_def split: option.splits)

text \<open>The pointer \<open>lastOpRequest\<close> is not nil when it is read.\<close>

lemma doOperation_accepts:
  assumes "req_inv w" "doOperation op w = (Inr opr, u)"
  shows "accepted opr u" "snd opr = op" "wg_isRunning w"
  using assms
  by (auto simp: doOperation_def newOperationRequest_def req_inv_def accepted_def Let_def split: option.splits if_splits)

lemma wcore_same_keeps:
  assumes "req_inv w" "core u = core w" "wg_pc u = wg_pc w"
  shows "req_inv u" "accepted opr w \<Longrightarrow> accepted opr u"
  using assms by (auto simp: req_inv_def accepted_def core_def)

lemma stretch_keeps:
  assumes "req_inv w" "wg_isRunning w" "ended w u \<or> going_on w u"
  shows "req_inv u" "accepted opr w \<Longrightarrow> accepted opr u"
proof -
  have "req_inv u \<and> (accepted opr w \<longrightarrow> accepted opr u)"
    using assms(3)
  proof
    assume "ended w u"
    then show ?thesis using ended_keeps [OF assms(1)] by blast
  next
    assume "going_on w u"
    then show ?thesis using going_on_keeps [OF assms(1,2)] by blast
  qed
  then show "req_inv u" "accepted opr w \<Longrightarrow> accepted opr u" by simp_all
qed

text \<open>Taking a request: it leaves the channel and is answered, then \<open>connect\<close> goes on or ends.\<close>

definition answers_then :: "operationRequest \<Rightarrow> wg_object \<Rightarrow> wg_object \<Rightarrow> bool" where
  "answers_then opr v x \<longleftrightarrow>
     (\<exists>u r. core u = core (resultSet opr r v) \<and> wg_pc u = wg_pc v \<and> (ended u x \<or> going_on u x))"

lemma answers_thenI:
  "core u = core (resultSet opr r v) \<Longrightarrow> wg_pc u = wg_pc v \<Longrightarrow> ended u x \<or> going_on u x \<Longrightarrow> answers_then opr v x"
  unfolding answers_then_def by blast

lemma connected_answers:
  assumes "wg_pc v = Connected_loop"
  shows "answers_then opr v (wg_take_connected env opr v)"
proof -
  let ?d = "snd (internalDisconnectFunc env v)" and ?e = "fst (internalDisconnectFunc env v)"
  have d: "core (resultSet opr r ?d) = core (resultSet opr r v)" "wg_pc (resultSet opr r ?d) = wg_pc v"
      "core (resultSet opr r (?d\<lparr>wg_isPaused := b\<rparr>)) = core (resultSet opr r v)"
      "wg_pc (resultSet opr r (?d\<lparr>wg_isPaused := b\<rparr>)) = wg_pc v" for r b
    by (simp_all add: wg_core)
  have stay: "going_on (resultSet opr r ?d) (resultSet opr r ?d)" for r
    using d(2) [of r] assms by (simp add: going_on_def)
  have "answers_then opr v (resultSet opr r ?d)" for r
    using answers_thenI [OF d(1,2)] stay by blast
  moreover have "answers_then opr v (wg_loop_left env b (resultSet opr r ?d))" for b r
    using answers_thenI [OF d(1,2)] wcore_loop_left by blast
  moreover have "answers_then opr v ((internalRestoreDNSFunc env (resultSet opr r (?d\<lparr>wg_isPaused := b\<rparr>)))\<lparr>wg_pc := Paused_loop\<rparr>)" for r b
    using d(3,4) [of r b] by (intro answers_thenI [of "resultSet opr r (?d\<lparr>wg_isPaused := b\<rparr>)"]) (simp_all add: going_on_def wg_core)
  moreover have "answers_then opr v (resultSet opr r v)" for r
    using assms by (intro answers_thenI [of "resultSet opr r v"]) (simp_all add: going_on_def wg_core)
  ultimately show ?thesis
    by (cases "snd opr") (simp_all add: wg_take_connected_def case_prod_unfold Let_def)
qed

lemma paused_answers:
  assumes "running_pc (wg_pc v)"
  shows "answers_then opr v (wg_take_paused env opr v)"
proof -
  have "answers_then opr v (resultSet opr r v)" for r
    using assms by (intro answers_thenI [of "resultSet opr r v"]) (auto simp: going_on_def running_pc_def wg_core)
  moreover have "answers_then opr v (wg_loop_left env b (resultSet opr r (v\<lparr>wg_isPaused := False\<rparr>)))" for b r
    by (rule answers_thenI [OF _ _ wcore_loop_left]) (simp_all add: wg_core)
  ultimately show ?thesis by (simp add: wg_take_paused_def)
qed

lemma take_answers:
  assumes "req_inv w" "resumeDisconnectChan w = Some (Some opr)"
  shows "answers_then opr (w\<lparr>resumeDisconnectChan := Some None\<rparr>) (wg_take env w)"
proof -
  have "running_pc (wg_pc w)" using assms by (auto simp: req_inv_def)
  then show ?thesis
    using assms(2) connected_answers [of "w\<lparr>resumeDisconnectChan := Some None\<rparr>"]
      paused_answers [of "w\<lparr>resumeDisconnectChan := Some None\<rparr>"]
    by (simp add: wg_take_def Let_def)
qed

lemma take_keeps:
  assumes "req_inv w" "running_pc (wg_pc w)"
  shows "req_inv (wg_take env w)" "accepted opr w \<Longrightarrow> accepted opr (wg_take env w)"
    and "accepted opr w \<Longrightarrow> answers (wg_take env w) (fst opr) \<noteq> None"
proof -
  have "req_inv (wg_take env w) \<and> (accepted opr w \<longrightarrow> accepted opr (wg_take env w) \<and> answers (wg_take env w) (fst opr) \<noteq> None)"
  proof (cases "\<exists>o'. resumeDisconnectChan w = Some (Some o')")
    case False
    then have "wg_take env w = w" by (auto simp: wg_take_def split: option.split)
    moreover have "resumeDisconnectChan w \<noteq> Some (Some opr)" using False by blast
    ultimately show ?thesis using assms by (simp add: accepted_def)
  next
    case True
    then obtain o' where o': "resumeDisconnectChan w = Some (Some o')" by blast
    let ?v = "w\<lparr>resumeDisconnectChan := Some None\<rparr>"
    obtain u r where u: "core u = core (resultSet o' r ?v)" "wg_pc u = wg_pc w"
      "ended u (wg_take env w) \<or> going_on u (wg_take env w)"
      using take_answers [OF assms(1) o', of env] by (auto simp: answers_then_def)
    have run: "wg_isRunning u" using u(1) assms o'
      by (auto simp: core_def resultSet_def req_inv_def split: if_splits)
    have i: "req_inv u" using u assms(1) o'
      by (auto simp: req_inv_def core_def resultSet_def split: if_splits)
    have a: "accepted opr u \<and> answers u (fst opr) \<noteq> None" if "accepted opr w"
      using that u(1) o' by (auto simp: accepted_def core_def resultSet_def split: if_splits)
    have "answers (wg_take env w) (fst opr) \<noteq> None" if "accepted opr w"
    proof -
      have "resumeDisconnectChan u = Some None" using u(1) by (auto simp: core_def resultSet_def split: if_splits)
      then show ?thesis using a [OF that] u(3)
        by (auto simp: ended_def going_on_def core_def left_core_def)
    qed
    then show ?thesis using stretch_keeps [OF i run u(3)] a by blast
  qed
  then show "req_inv (wg_take env w)" "accepted opr w \<Longrightarrow> accepted opr (wg_take env w)"
    "accepted opr w \<Longrightarrow> answers (wg_take env w) (fst opr) \<noteq> None" by blast+
qed

lemma handshake_stretch:
  "wg_pc w = Waiting_handshake \<Longrightarrow> ended w (wg_handshake env w) \<or> going_on w (wg_handshake env w)"
  by (auto simp: wg_handshake_def ended_def going_on_def wg_core split: option.split)

lemma check_stretch:
  "wg_pc w = Connected_loop \<Longrightarrow> ended w (wg_interface_check env w) \<or> going_on w (wg_interface_check env w)"
  using wcore_loop_left [of w env False] by (auto simp: wg_interface_check_def going_on_def)

lemma dns_core [wg_core]:
  "core (snd (wg_SetManualDNS env d w)) = core w" "wg_pc (snd (wg_SetManualDNS env d w)) = wg_pc w"
  "core (snd (wg_ResetManualDNS env w)) = core w" "wg_pc (snd (wg_ResetManualDNS env w)) = wg_pc w"
  by (simp_all add: wg_SetManualDNS_def wg_ResetManualDNS_def Let_def wg_core) (simp_all add: core_def)

lemma Connect_keeps:
  assumes "req_inv w" "wg_pc w = Not_connecting"
  shows "req_inv (wg_Connect env w)" "accepted opr w \<Longrightarrow> accepted opr (wg_Connect env w)"
proof -
  let ?w = "send_state (NewStateInfo CONNECTING []) (w\<lparr>isDisconnected := False, isDisconnectRequested := False\<rparr>)"
  let ?v = "?w\<lparr>wg_isRunning := True, wg_pc := Waiting_handshake\<rparr>"
  have e: "resumeDisconnectChan w \<noteq> Some (Some x)" for x
    using req_invD [OF assms(1), of x] assms by (auto simp: req_inv_def running_pc_def)
  have i: "req_inv ?v" "accepted opr w \<Longrightarrow> accepted opr ?v" "wg_isRunning ?v"
    using assms e by (auto simp: req_inv_def running_pc_def accepted_def send_state_def)
  have b: "ended ?v (bring_up env (?w\<lparr>wg_isRunning := True\<rparr>)) \<or> going_on ?v (bring_up env (?w\<lparr>wg_isRunning := True\<rparr>))"
    using wcore_bring_up [of "?w\<lparr>wg_isRunning := True\<rparr>" env] by (simp add: ended_def going_on_def core_def)
  have r: "req_inv (wg_return (Some e) ?w)" "accepted opr w \<Longrightarrow> accepted opr (wg_return (Some e) ?w)" for e
    using assms e by (auto simp: req_inv_def running_pc_def accepted_def wg_return_def send_state_def)
  show "req_inv (wg_Connect env w)" "accepted opr w \<Longrightarrow> accepted opr (wg_Connect env w)"
    using stretch_keeps [OF i(1,3) b] i(2) r by (auto simp: wg_Connect_def Let_def split: option.split)
qed

lemma step_keeps_requests:
  assumes "req_inv w"
  shows "req_inv (wg_step e w)" "accepted opr w \<Longrightarrow> accepted opr (wg_step e w)"
proof -
  have run: "wg_isRunning w" if "running_pc (wg_pc w)" using that assms by (simp add: req_inv_def)
  have d: "req_inv (w\<lparr>isDisconnectRequested := True\<rparr>)" "accepted opr w \<Longrightarrow> accepted opr (w\<lparr>isDisconnectRequested := True\<rparr>)"
    using assms by (auto simp: req_inv_def accepted_def)
  have "req_inv (wg_step e w) \<and> (accepted opr w \<longrightarrow> accepted opr (wg_step e w))"
  proof (cases "(e, w)" rule: wg_step.cases)
    case (1 env w')
    then show ?thesis using Connect_keeps assms by auto
  next
    case (2 env w')
    then show ?thesis using stretch_keeps [OF assms run handshake_stretch] assms by (auto simp: running_pc_def)
  next
    case (3 env w')
    then show ?thesis using stretch_keeps [OF assms run check_stretch] assms by (auto simp: running_pc_def)
  next
    case (4 env w')
    then show ?thesis using take_keeps [OF assms] assms by (auto simp: running_pc_def)
  next
    case (5 env w')
    then show ?thesis using doOperation_keeps [OF d(1)] d(2) by (auto simp: wg_Disconnect_def)
  next
    case (6 env w')
    then show ?thesis using doOperation_keeps [OF assms] by (auto simp: wg_Pause_def)
  next
    case (7 env w')
    then show ?thesis using doOperation_keeps [OF assms] by (auto simp: wg_Resume_def)
  next
    case (8 env x w')
    then show ?thesis using wcore_same_keeps [OF assms dns_core(1,2)] by auto
  next
    case (9 env w')
    then show ?thesis using wcore_same_keeps [OF assms dns_core(3,4)] by auto
  qed
  then show "req_inv (wg_step e w)" "accepted opr w \<Longrightarrow> accepted opr (wg_step e w)" by simp_all
qed

interpretation wg_requests: safe_machine wg_step req_inv
  by unfold_locales (rule step_keeps_requests)

interpretation wg_accepted: safe_machine wg_step "\<lambda>w. req_inv w \<and> accepted opr w" for opr
  by unfold_locales (use step_keeps_requests in blast)

lemma wg_start_inv: "req_inv (wg_init env (wg_new cp d))"
  by (simp add: wg_init_def wg_new_def req_inv_def running_pc_def Let_def)

text \<open>
  C10: No request is forgotten: in every run of a connection, whatever other goroutines request and
  whatever fails, a pause, resumption or disconnection that was accepted is of the kind that was
  asked for, and at any later time it is answered or stands in the channel of the connection that
  still runs and that answers it with its next receive; once the connection returned it is answered.
\<close>

theorem wg_requests_answered:
  fixes cp :: wg_conn and d :: sys_dns and env0 env :: wg_env and es es' :: "(wg_env \<times> wg_event) list"
  defines "w \<equiv> fold wg_step es (wg_init env0 (wg_new cp d))"
  assumes "doOperation op w = (Inr opr, u)"
  defines "v \<equiv> fold wg_step es' u"
  shows "snd opr = op
    \<and> (answers v (fst opr) \<noteq> None \<or> resumeDisconnectChan v = Some (Some opr) \<and> running_pc (wg_pc v))
    \<and> (wg_pc v = Returned err \<longrightarrow> answers v (fst opr) \<noteq> None)
    \<and> (wg_pc v \<in> {Connected_loop, Paused_loop} \<longrightarrow> answers (wg_step (env, W_take) v) (fst opr) \<noteq> None)"
proof -
  have w: "req_inv w" unfolding w_def by (rule wg_requests.run_inv [OF wg_start_inv])
  have u: "req_inv u" "accepted opr u" "snd opr = op"
    using doOperation_keeps(1) [OF w, of op] doOperation_accepts [OF w assms(2)] assms(2) by auto
  have v: "req_inv v" "accepted opr v" unfolding v_def using wg_accepted.run_inv [of u opr es'] u by auto
  have "answers (wg_take env v) (fst opr) \<noteq> None" if "wg_pc v \<in> {Connected_loop, Paused_loop}"
    using take_keeps(3) [OF v(1) _ v(2), of env] that by (auto simp: running_pc_def)
  moreover have "answers v (fst opr) \<noteq> None \<or> resumeDisconnectChan v = Some (Some opr) \<and> running_pc (wg_pc v)"
    using v req_invD [OF v(1), of opr] by (auto simp: req_inv_def accepted_def)
  ultimately show ?thesis using u(3) by (auto simp: running_pc_def)
qed

definition sample_wg_env :: wg_env where
  "sample_wg_env = \<lparr>we_dns = sample_dns_env, we_freeUDPPort = Inr 7, we_writeFile = None, we_up = None,
     we_down = None, we_remove = None, we_wgctrl = None, we_device = Inr [1], we_interface = True\<rparr>"

definition sample_wg :: wg_conn where
  "sample_wg = (wg_CreateConnectionParams '''' 9 [1, 2, 3, 4] ''AAAA'' [10, 0, 0, 1] '''' 0)
     \<lparr>clientLocalIP := [10, 0, 0, 2], clientPrivateKey := ''BBBB''\<rparr>"

definition sample_wg_run :: wg_object where
  "sample_wg_run = fold wg_step [(sample_wg_env, W_Connect), (sample_wg_env, W_handshake)]
     (wg_init sample_wg_env (wg_new sample_wg sample_dns))"

theorem wg_requests_answered_witness:
  "\<exists>opr u. doOperation Op_pause sample_wg_run = (Inr opr, u)
     \<and> answers (wg_step (sample_wg_env, W_take) u) (fst opr) \<noteq> None"
proof -
  let ?r = "doOperation Op_pause sample_wg_run"
  have pc: "wg_pc (snd ?r) = Connected_loop" by code_simp
  have r: "?r = (Inr (0, Op_pause), snd ?r)" by (rule prod_eqI) (code_simp, simp)
  let ?u = "fold wg_step [] (snd ?r)"
  have "wg_pc ?u \<in> {Connected_loop, Paused_loop} \<longrightarrow>
      answers (wg_step (sample_wg_env, W_take) ?u) (fst (0 :: nat, Op_pause)) \<noteq> None"
    using wg_requests_answered [where es' = "[]" and env = sample_wg_env, OF r [unfolded sample_wg_run_def],
        folded sample_wg_run_def] by blast
  then have "answers (wg_step (sample_wg_env, W_take) (snd ?r)) (fst (0 :: nat, Op_pause)) \<noteq> None"
    by (simp only: fold_simps pc insert_iff simp_thms)
  then show ?thesis using r by blast
qed

end
