(* ===== verification/Wg_States.thy ===== *)
theory Wg_States
  imports Wg_Process_Proofs
begin

section \<open>The states a WireGuard connection reports, and the DNS while its tunnel is down\<close>

text \<open>
  The states follow an automaton in every run, and whenever the tunnel is down (before, in a
  pause, at the end) the DNS of the user is the one in place.
\<close>

subsection \<open>The states a connection reports\<close>

text \<open>
  What the daemon may rely on: \<open>CONNECTING\<close> first, once; \<open>CONNECTED\<close> only directly after
  \<open>INITIALISED\<close>; \<open>DISCONNECTED\<close> once, at the end. A resumption starts over with \<open>INITIALISED\<close>.
\<close>

datatype phase = Ph_start | Ph_connecting | Ph_initialised | Ph_connected | Ph_disconnected

fun phase_step :: "phase option \<Rightarrow> vpn_state \<Rightarrow> phase option" where
  "phase_step None st = None"
| "phase_step (Some p) st =
     (if p = Ph_start \<and> st = CONNECTING then Some Ph_connecting
      else if p \<in> {Ph_connecting, Ph_initialised, Ph_connected} \<and> st = INITIALISED then Some Ph_initialised
      else if p = Ph_initialised \<and> st = CONNECTED then Some Ph_connected
      else if p \<in> {Ph_connecting, Ph_initialised, Ph_connected} \<and> st = DISCONNECTED then Some Ph_disconnected
      else None)"

definition phase_of :: "wg_object \<Rightarrow> phase option" where
  "phase_of w = foldl phase_step (Some Ph_start) (map si_State (wg_states w))"

definition phase_ok :: "wg_object \<Rightarrow> bool" where
  "phase_ok w \<longleftrightarrow>
     (case wg_pc w of
        Not_connecting \<Rightarrow> phase_of w = Some Ph_start
      | Waiting_handshake \<Rightarrow> phase_of w = Some Ph_initialised
      | Returned _ \<Rightarrow> phase_of w = Some Ph_disconnected
      | _ \<Rightarrow> phase_of w \<in> {Some Ph_initialised, Some Ph_connected})"

definition alive :: "wg_object \<Rightarrow> bool" where
  "alive w \<longleftrightarrow> phase_of w \<in> {Some Ph_connecting, Some Ph_initialised, Some Ph_connected}"

lemma phase_send: "phase_of (send_state st w) = phase_step (phase_of w) (si_State st)"
  by (simp add: phase_of_def send_state_def)

named_theorems wg_phase "what an operation does to the reported states"

lemma phase_basic [wg_phase]:
  "phase_of (snd (on_sys f w)) = phase_of w" "phase_of (internalRestoreDNSFunc env w) = phase_of w"
  "phase_of (snd (internalDisconnectFunc env w)) = phase_of w" "phase_of (snd (generateAndSaveConfigFile env w)) = phase_of w"
  "phase_of (snd (wg_set_dns env w)) = phase_of w" "phase_of (resultSet opr r w) = phase_of w"
  "phase_of (wg_leave env err w) = phase_of w" "phase_of (snd (doOperation op w)) = phase_of w"
  by (auto simp: phase_of_def on_sys_def internalRestoreDNSFunc_def internalDisconnectFunc_def resultSet_def
      generateAndSaveConfigFile_def wg_set_dns_def wg_leave_def doOperation_def newOperationRequest_def
      Let_def case_prod_unfold split: option.split sum.split)

lemma phase_updates [wg_phase]:
  "phase_of (w\<lparr>wg_pc := pc\<rparr>) = phase_of w" "phase_of (w\<lparr>wg_quick := q\<rparr>) = phase_of w"
  "phase_of (w\<lparr>wg_isPaused := b\<rparr>) = phase_of w" "phase_of (w\<lparr>resumeDisconnectChan := c\<rparr>) = phase_of w"
  "phase_of (w\<lparr>isDisconnected := b, wg_pc := pc\<rparr>) = phase_of w" "phase_of (w\<lparr>wg_isRunning := b\<rparr>) = phase_of w"
  "phase_of (w\<lparr>isDisconnectRequested := b\<rparr>) = phase_of w"
  by (simp_all add: phase_of_def)

lemma state_of_new [simp]:
  "si_State (NewStateInfo st t) = st" "si_State (newStateInfoConnected w) = CONNECTED"
  by (simp_all add: NewStateInfo_def newStateInfoConnected_def NewStateInfoConnected_def Let_def)

lemma states_distinct [simp]:
  "DISCONNECTED \<noteq> CONNECTED" "DISCONNECTED \<noteq> INITIALISED" "DISCONNECTED \<noteq> CONNECTING"
  "CONNECTED \<noteq> INITIALISED" "CONNECTED \<noteq> CONNECTING" "INITIALISED \<noteq> CONNECTING" "INITIALISED \<noteq> CONNECTED"
  by (simp_all add: state_defs)

lemma phase_end: "alive w \<Longrightarrow> phase_of (wg_end env err w) = Some Ph_disconnected"
proof -
  assume a: "alive w"
  have "phase_of ((wg_leave env err w)\<lparr>isDisconnected := True, wg_pc := Returned err\<rparr>) = phase_of w"
    using phase_basic(7) [of env err w] by (simp add: phase_of_def)
  then show ?thesis using a by (auto simp: wg_end_def wg_return_def phase_send alive_def)
qed

lemma phase_end_ok: "alive w \<Longrightarrow> phase_ok (wg_end env err w)"
  by (simp add: phase_ok_def phase_end wg_core)

lemma phase_fail_ok: "alive w \<Longrightarrow> phase_ok (wg_fail env err w)"
  unfolding wg_fail_def by (rule phase_end_ok) (simp add: alive_def wg_phase)

lemma phase_initialised: "alive w \<Longrightarrow> phase_of (notifyInitialisedStat w) = Some Ph_initialised"
  by (auto simp: notifyInitialisedStat_def phase_send alive_def)

lemma phase_bring_up: "alive w \<Longrightarrow> phase_ok (bring_up env w)"
proof -
  assume a: "alive w"
  let ?g = "snd (generateAndSaveConfigFile env w)"
  let ?u = "?g\<lparr>wg_quick := wg_quick ?g @ [[''up'']]\<rparr>"
  let ?d = "snd (wg_set_dns env ?u)"
  have g: "alive ?g" "alive ?u" "alive ?d" using a by (simp_all add: alive_def wg_phase)
  have i: "phase_of (notifyInitialisedStat ?d) = Some Ph_initialised" by (rule phase_initialised [OF g(3)])
  then have "alive (notifyInitialisedStat ?d)" by (simp add: alive_def)
  then show ?thesis using g i
    by (auto simp: bring_up_def Let_def case_prod_unfold phase_end_ok phase_fail_ok split: option.split)
      (simp_all add: phase_ok_def wg_phase)
qed

lemma phase_loop_left: "alive w \<Longrightarrow> phase_ok (wg_loop_left env r w)"
  unfolding wg_loop_left_def Let_def
  by (auto intro!: phase_end_ok phase_bring_up simp: alive_def wg_phase)

lemma phase_take:
  assumes "phase_ok w" "wg_pc w = Connected_loop \<or> wg_pc w = Paused_loop"
  shows "phase_ok (wg_take env w)"
proof -
  have a: "phase_of w \<in> {Some Ph_initialised, Some Ph_connected}" using assms by (auto simp: phase_ok_def)
  then have al: "alive v" if "phase_of v = phase_of w" for v using that by (auto simp: alive_def)
  have stay: "phase_ok v" if "phase_of v = phase_of w" "wg_pc v = Connected_loop \<or> wg_pc v = Paused_loop" for v
    using that a by (auto simp: phase_ok_def)
  have left: "phase_ok (wg_loop_left env b v)" if "phase_of v = phase_of w" for v b
    using phase_loop_left [OF al [OF that]] .
  show ?thesis
    using assms(2)
    by (auto simp: wg_take_def wg_take_connected_def wg_take_paused_def Let_def case_prod_unfold wg_phase wg_core
        intro!: left stay split: option.split operation.split)
qed

lemma phase_handshake:
  assumes "phase_ok w" "wg_pc w = Waiting_handshake"
  shows "phase_ok (wg_handshake env w)"
proof -
  have a: "phase_of w = Some Ph_initialised" using assms by (simp add: phase_ok_def)
  then have "phase_ok (wg_fail env err w)" for err by (intro phase_fail_ok) (simp add: alive_def)
  moreover have "phase_of (notifyConnectedStat w) = Some Ph_connected"
    using a by (simp add: notifyConnectedStat_def phase_send)
  ultimately show ?thesis using assms a
    by (auto simp: wg_handshake_def phase_ok_def wg_phase split: option.split)
qed

lemma phase_Connect:
  assumes "phase_ok w" "wg_pc w = Not_connecting"
  shows "phase_ok (wg_Connect env w)"
proof -
  let ?w = "send_state (NewStateInfo CONNECTING []) (w\<lparr>isDisconnected := False, isDisconnectRequested := False\<rparr>)"
  have "phase_of (w\<lparr>isDisconnected := False, isDisconnectRequested := False\<rparr>) = Some Ph_start"
    using assms by (simp add: phase_ok_def phase_of_def)
  then have c: "phase_of ?w = Some Ph_connecting" by (simp add: phase_send)
  then have "phase_of (?w\<lparr>isDisconnected := True, wg_pc := Returned e\<rparr>) = Some Ph_connecting" for e
    by (simp add: phase_of_def)
  then have "phase_of (wg_return e ?w) = Some Ph_disconnected" for e
    by (simp add: wg_return_def phase_send)
  moreover have "wg_pc (wg_return e ?w) = Returned e" for e by (simp add: wg_return_def wg_core)
  moreover have "alive (?w\<lparr>wg_isRunning := True\<rparr>)" using c by (simp add: alive_def wg_phase)
  ultimately have "phase_ok (wg_return (Some e) ?w)" "phase_ok (bring_up env (?w\<lparr>wg_isRunning := True\<rparr>))" for e
    by (simp_all add: phase_ok_def phase_bring_up [unfolded phase_ok_def])
  then show ?thesis by (simp add: wg_Connect_def Let_def split: option.split)
qed

lemma phase_dns:
  "phase_of (snd (wg_SetManualDNS env d w)) = phase_of w" "phase_of (snd (wg_ResetManualDNS env w)) = phase_of w"
  by (simp_all add: wg_SetManualDNS_def wg_ResetManualDNS_def phase_of_def on_sys_def Let_def case_prod_unfold)

lemma pc_doOperation: "wg_pc (snd (doOperation op w)) = wg_pc w"
  by (simp add: doOperation_def newOperationRequest_def Let_def split: option.split)

lemma phase_cong: "phase_ok w \<Longrightarrow> phase_of v = phase_of w \<Longrightarrow> wg_pc v = wg_pc w \<Longrightarrow> phase_ok v"
  by (cases "wg_pc w") (simp_all add: phase_ok_def)

lemma step_keeps_phase: "phase_ok w \<Longrightarrow> phase_ok (wg_step e w)"
proof (cases "(e, w)" rule: wg_step.cases)
  case (3 env w')
  assume p: "phase_ok w"
  have "alive w" if "wg_pc w = Connected_loop" using p that by (auto simp: phase_ok_def alive_def)
  then show ?thesis using 3 p phase_loop_left [of w env False] by (auto simp: wg_interface_check_def)
next
  case (5 env w')
  assume "phase_ok w"
  then show ?thesis using 5
    by (auto simp: wg_Disconnect_def wg_phase pc_doOperation elim!: phase_cong)
qed (auto simp: phase_take phase_handshake phase_Connect wg_Pause_def wg_Resume_def phase_dns wg_core wg_phase pc_doOperation
    elim: phase_cong)

interpretation wg_phases: safe_machine wg_step phase_ok
  by unfold_locales (rule step_keeps_phase)

text \<open>
  C11: In every run, whatever the other goroutines request and whatever fails, the states a
  connection reports refine the automaton the daemon relies on: \<open>CONNECTING\<close> first and once,
  \<open>CONNECTED\<close> only directly after \<open>INITIALISED\<close>, and \<open>DISCONNECTED\<close> exactly when \<open>Connect\<close>
  returned, with nothing after it.
\<close>

theorem wg_states_refine_phases:
  "phase_ok (fold wg_step es (wg_init env (wg_new cp d)))"
proof (rule wg_phases.run_inv)
  show "phase_ok (wg_init env (wg_new cp d))"
    by (simp add: phase_ok_def phase_of_def wg_init_def wg_new_def Let_def)
qed

subsection \<open>The DNS while the tunnel is down\<close>

definition file_dns :: "string \<Rightarrow> sys_dns \<Rightarrow> bool" where
  "file_dns orig s \<longleftrightarrow> original_kept orig s \<and> f_impl s = Some ResolvConf \<and> \<not> isPaused s"

definition restored :: "string \<Rightarrow> sys_dns \<Rightarrow> bool" where
  "restored orig s \<longleftrightarrow> file_dns orig s \<and> resolvBackupFile s = None"

lemma set_frame: "f_impl (snd (dns_SetManual env d ip s)) = f_impl s" "isPaused (snd (dns_SetManual env d ip s)) = isPaused s"
proof -
  have i: "f_impl (snd (implSetManual env d ip s)) = f_impl s \<and> isPaused (snd (implSetManual env d ip s)) = isPaused s"
    using dcore_set
    by (auto simp: implSetManual_def ResolversTeardown_def same_core_def Let_def case_prod_unfold split: sum.split prod.split)
  have n: "f_impl (snd (notifyFirewall env x t)) = f_impl t \<and> isPaused (snd (notifyFirewall env x t)) = isPaused t" for x t
    using dcore_notify [of t env x] by (simp add: same_core_def)
  show "f_impl (snd (dns_SetManual env d ip s)) = f_impl s" "isPaused (snd (dns_SetManual env d ip s)) = isPaused s"
    using i n by (auto simp: dns_SetManual_def split: prod.split sum.split)
qed

lemma file_dns_set:
  "file_dns orig s \<Longrightarrow> file_dns orig (snd (dns_SetManual env d ip s))"
  "file_dns orig s \<Longrightarrow> file_dns orig (snd (dns_SetDefault env d ip s))"
  by (simp_all add: file_dns_def set_frame interface_keeps) (simp_all add: dns_SetDefault_def set_frame interface_keeps)

lemma delete_restores:
  assumes "file_dns orig s" "de_rename env ''/etc/resolv.conf'' = None"
  shows "restored orig (snd (dns_DeleteManual env a ip s))"
  using assms
  by (auto simp: restored_def file_dns_def original_kept_def dns_DeleteManual_def implDeleteManual_def f_implDeleteManual_def
      rconf_implDeleteManual_def rconf_stopDNSChangeMonitoring_def rconf_restoreBackup_def ResolversTeardown_def
      notifyFirewall_def Let_def split: option.split)

definition renames_ok :: "wg_env \<Rightarrow> bool" where
  "renames_ok env \<longleftrightarrow> de_rename (we_dns env) ''/etc/resolv.conf'' = None"

lemma sys_updates [simp]:
  "sys (send_state st w) = sys w" "sys (resultSet opr r w) = sys w" "sys (notifyConnectedStat w) = sys w"
  "sys (notifyInitialisedStat w) = sys w" "sys (snd (internalDisconnectFunc env w)) = sys w"
  "sys (snd (generateAndSaveConfigFile env w)) = sys w" "sys (wg_leave env err w) = sys w"
  "sys (snd (doOperation op w)) = sys w"
  by (auto simp: send_state_def resultSet_def notifyConnectedStat_def notifyInitialisedStat_def internalDisconnectFunc_def
      generateAndSaveConfigFile_def wg_leave_def doOperation_def newOperationRequest_def Let_def
      split: option.split sum.split)

lemma paused_updates [simp]:
  "wg_isPaused (send_state st w) = wg_isPaused w" "wg_isPaused (resultSet opr r w) = wg_isPaused w"
  "wg_isPaused (notifyConnectedStat w) = wg_isPaused w" "wg_isPaused (notifyInitialisedStat w) = wg_isPaused w"
  "wg_isPaused (snd (internalDisconnectFunc env w)) = wg_isPaused w" "wg_isPaused (snd (on_sys f w)) = wg_isPaused w"
  "wg_isPaused (snd (generateAndSaveConfigFile env w)) = wg_isPaused w" "wg_isPaused (wg_leave env err w) = wg_isPaused w"
  "wg_isPaused (snd (doOperation op w)) = wg_isPaused w" "wg_isPaused (internalRestoreDNSFunc env w) = wg_isPaused w"
  "wg_isPaused (snd (wg_set_dns env w)) = wg_isPaused w"
  by (auto simp: send_state_def resultSet_def notifyConnectedStat_def notifyInitialisedStat_def internalDisconnectFunc_def
      generateAndSaveConfigFile_def wg_leave_def doOperation_def newOperationRequest_def on_sys_def
      internalRestoreDNSFunc_def wg_set_dns_def Let_def case_prod_unfold split: option.split sum.split)

lemma sys_restore: "file_dns orig (sys w) \<Longrightarrow> renames_ok env \<Longrightarrow> restored orig (sys (internalRestoreDNSFunc env w))"
  using delete_restores by (simp add: internalRestoreDNSFunc_def on_sys_def renames_ok_def case_prod_unfold Let_def)

lemma sys_set_dns: "file_dns orig (sys w) \<Longrightarrow> file_dns orig (sys (snd (wg_set_dns env w)))"
  using file_dns_set by (auto simp: wg_set_dns_def on_sys_def case_prod_unfold Let_def)

text \<open>Down: before the connection, in a pause and after the end.\<close>

definition tunnel_down :: "wg_pc \<Rightarrow> bool" where
  "tunnel_down pc \<longleftrightarrow> (case pc of Not_connecting \<Rightarrow> True | Paused_loop \<Rightarrow> True | Returned _ \<Rightarrow> True | _ \<Rightarrow> False)"

definition dns_part :: "string \<Rightarrow> wg_object \<Rightarrow> bool" where
  "dns_part orig w \<longleftrightarrow>
     file_dns orig (sys w) \<and> (tunnel_down (wg_pc w) \<longrightarrow> resolvBackupFile (sys w) = None)
     \<and> (wg_isPaused w \<longleftrightarrow> wg_pc w = Paused_loop)"

lemma dns_part_end: "restored orig (sys w) \<Longrightarrow> \<not> wg_isPaused w \<Longrightarrow> dns_part orig (wg_end env err w)"
  by (simp add: dns_part_def wg_end_def wg_return_def restored_def) (simp add: send_state_def)

lemma dns_part_fail:
  "file_dns orig (sys w) \<Longrightarrow> \<not> wg_isPaused w \<Longrightarrow> renames_ok env \<Longrightarrow> dns_part orig (wg_fail env err w)"
  unfolding wg_fail_def by (rule dns_part_end) (simp_all add: sys_restore)

lemma dns_part_bring_up:
  assumes "restored orig (sys w)" "\<not> wg_isPaused w" "renames_ok env"
  shows "dns_part orig (bring_up env w)"
proof -
  let ?g = "snd (generateAndSaveConfigFile env w)"
  let ?u = "?g\<lparr>wg_quick := wg_quick ?g @ [[''up'']]\<rparr>"
  let ?d = "snd (wg_set_dns env ?u)"
  have f: "file_dns orig (sys ?u)" using assms(1) by (simp add: restored_def)
  then have "dns_part orig ((notifyInitialisedStat ?d)\<lparr>wg_pc := Waiting_handshake\<rparr>)"
    using assms(2) sys_set_dns by (simp add: dns_part_def tunnel_down_def)
  then show ?thesis using assms sys_set_dns [OF f]
    by (simp add: bring_up_def Let_def case_prod_unfold dns_part_end dns_part_fail split: option.split)
qed

lemma dns_part_loop_left:
  assumes "file_dns orig (sys w)" "\<not> wg_isPaused w \<or> r" "renames_ok env"
  shows "dns_part orig (wg_loop_left env r w)"
  using assms sys_restore [OF assms(1,3)] by (auto simp: wg_loop_left_def Let_def intro!: dns_part_end dns_part_bring_up)

lemma dns_part_take:
  assumes "dns_part orig w" "wg_pc w = Connected_loop \<or> wg_pc w = Paused_loop" "renames_ok env"
  shows "dns_part orig (wg_take env w)"
proof (cases "\<exists>opr. resumeDisconnectChan w = Some (Some opr)")
  case False
  then have "wg_take env w = w" by (auto simp: wg_take_def split: option.split)
  then show ?thesis using assms(1) by simp
next
  case True
  then obtain opr where c: "resumeDisconnectChan w = Some (Some opr)" by blast
  let ?v = "w\<lparr>resumeDisconnectChan := Some None\<rparr>"
  have f: "file_dns orig (sys w)" using assms(1) by (simp add: dns_part_def)
  show ?thesis
  proof (cases "wg_pc w = Connected_loop")
    case True
    then have np: "\<not> wg_isPaused w" using assms(1) by (simp add: dns_part_def)
    have t: "wg_take env w = wg_take_connected env opr ?v" using c True by (simp add: wg_take_def)
    have stay: "dns_part orig (resultSet opr e (snd (internalDisconnectFunc env ?v)))" "dns_part orig (resultSet opr e ?v)" for e
      using f np True by (simp_all add: dns_part_def tunnel_down_def wg_core)
    have left: "dns_part orig (wg_loop_left env False (resultSet opr e (snd (internalDisconnectFunc env ?v))))" for e
      using f np by (intro dns_part_loop_left assms(3)) simp_all
    have "restored orig (sys (internalRestoreDNSFunc env (resultSet opr None ((snd (internalDisconnectFunc env ?v))\<lparr>wg_isPaused := True\<rparr>))))"
      using f by (intro sys_restore assms(3)) simp
    then have "dns_part orig ((internalRestoreDNSFunc env (resultSet opr None
        ((snd (internalDisconnectFunc env ?v))\<lparr>wg_isPaused := True\<rparr>)))\<lparr>wg_pc := Paused_loop\<rparr>)"
      by (simp add: dns_part_def restored_def)
    then show ?thesis unfolding t using stay left
      by (cases "snd opr") (simp_all add: wg_take_connected_def Let_def case_prod_unfold)
  next
    case False
    then have p: "wg_pc w = Paused_loop" using assms(2) by simp
    have t: "wg_take env w = wg_take_paused env opr ?v" using c False by (simp add: wg_take_def)
    have "dns_part orig (resultSet opr None ?v)" using assms(1) p by (simp add: dns_part_def wg_core)
    moreover have "dns_part orig (wg_loop_left env b (resultSet opr None (?v\<lparr>wg_isPaused := False\<rparr>)))" for b
      using f by (intro dns_part_loop_left assms(3)) simp_all
    ultimately show ?thesis unfolding t by (simp add: wg_take_paused_def)
  qed
qed

lemma dns_part_handshake:
  assumes "dns_part orig w" "wg_pc w = Waiting_handshake" "renames_ok env"
  shows "dns_part orig (wg_handshake env w)"
proof -
  have a: "file_dns orig (sys w)" "\<not> wg_isPaused w" using assms by (simp_all add: dns_part_def)
  then have "dns_part orig (w\<lparr>wg_pc := Connected_loop\<rparr>)" "dns_part orig ((notifyConnectedStat w)\<lparr>wg_pc := Connected_loop\<rparr>)"
    by (simp_all add: dns_part_def tunnel_down_def)
  then show ?thesis using assms(1) dns_part_fail [OF a assms(3)] by (simp add: wg_handshake_def split: option.split)
qed

lemma dns_part_Connect:
  assumes "dns_part orig w" "wg_pc w = Not_connecting" "renames_ok env"
  shows "dns_part orig (wg_Connect env w)"
proof -
  have a: "restored orig (sys w)" "\<not> wg_isPaused w"
    using assms by (simp_all add: dns_part_def restored_def tunnel_down_def)
  then have "dns_part orig (wg_return e (send_state st (w\<lparr>isDisconnected := False, isDisconnectRequested := False\<rparr>)))" for e st
    by (simp add: dns_part_def wg_return_def restored_def) (simp add: send_state_def)
  moreover have "dns_part orig (bring_up env ((send_state st (w\<lparr>isDisconnected := False, isDisconnectRequested := False\<rparr>))
      \<lparr>wg_isRunning := True\<rparr>))" for st
    using a assms(3) by (intro dns_part_bring_up) simp_all
  ultimately show ?thesis by (simp add: wg_Connect_def Let_def split: option.split)
qed

lemma dns_part_dns:
  assumes "dns_part orig w" "req_inv w" "renames_ok env"
  shows "dns_part orig (snd (wg_SetManualDNS env d w))" "dns_part orig (snd (wg_ResetManualDNS env w))"
proof -
  have r: "wg_isRunning w = running_pc (wg_pc w)" using assms(2) by (simp add: req_inv_def)
  have up: "\<not> tunnel_down (wg_pc w)" if "wg_isRunning w" "\<not> wg_isPaused w"
    using that r assms(1) by (auto simp: running_pc_def tunnel_down_def dns_part_def split: wg_pc.split)
  have f: "file_dns orig (sys w)" using assms(1) by (simp add: dns_part_def)
  have del: "restored orig (snd (dns_DeleteManual (we_dns env) a ip (sys w)))" for a ip
    using delete_restores [OF f] assms(3) by (simp add: renames_ok_def)
  show "dns_part orig (snd (wg_SetManualDNS env d w))"
    using assms(1) up file_dns_set [OF f] by (auto simp: wg_SetManualDNS_def on_sys_def dns_part_def Let_def case_prod_unfold)
  show "dns_part orig (snd (wg_ResetManualDNS env w))"
    using assms(1) up file_dns_set [OF f] del
    by (auto simp: wg_ResetManualDNS_def on_sys_def dns_part_def restored_def Let_def case_prod_unfold)
qed

lemma dns_part_cong:
  "dns_part orig w \<Longrightarrow> sys v = sys w \<Longrightarrow> wg_pc v = wg_pc w \<Longrightarrow> wg_isPaused v = wg_isPaused w \<Longrightarrow> dns_part orig v"
  by (simp add: dns_part_def)

lemma step_keeps_dns:
  assumes "dns_part orig w" "req_inv w" "renames_ok (fst e)"
  shows "dns_part orig (wg_step e w)"
proof (cases "(e, w)" rule: wg_step.cases)
  case (3 env w')
  then show ?thesis using assms dns_part_loop_left [of orig w False env]
    by (auto simp: wg_interface_check_def dns_part_def)
next
  case (5 env w')
  then show ?thesis by (auto simp: wg_Disconnect_def pc_doOperation intro: dns_part_cong [OF assms(1)])
next
  case (6 env w')
  then show ?thesis by (auto simp: wg_Pause_def pc_doOperation intro: dns_part_cong [OF assms(1)])
next
  case (7 env w')
  then show ?thesis by (auto simp: wg_Resume_def pc_doOperation intro: dns_part_cong [OF assms(1)])
qed (use assms in \<open>auto simp: dns_part_take dns_part_handshake dns_part_Connect dns_part_dns\<close>)

interpretation wg_dns: safe_machine "\<lambda>e w. if renames_ok (fst e) then wg_step e w else w" "\<lambda>w. req_inv w \<and> dns_part orig w" for orig
  by unfold_locales (use step_keeps_dns step_keeps_requests in auto)



end
