(* ===== verification/Ovpn_Mi.thy ===== *)
theory Ovpn_Mi
  imports Go_Regexp Vpn_Types
begin

section \<open>The management interface of OpenVPN (daemon/vpn/openvpn/mi.go)\<close>

text \<open>
  The daemon listens on a local port; the OpenVPN process it started connects back and proves
  with the echo of a secret in its console output that it is that process. Then it reports its
  log and its states line by line and is sent commands. The model has a step for the accepted
  connection, for the verification and for each line, on the record of \<open>ManagementInterface\<close>:
  what was written to the connection and to the channel of states are logs. Whether a write
  fails is the environment.
\<close>

datatype mi_pc = Mi_listening | Mi_verifying | Mi_reading | Mi_stopped

record mi =
  mi_secret :: string
  mi_isConnVerified :: bool
  mi_miConn :: bool
  mi_closed :: bool  \<comment> \<open>the listener and the connection were closed by \<open>StopManagementInterface\<close>\<close>
  mi_username :: string
  mi_password :: string
  mi_routeAddCmds :: "string list"
  mi_isConnected :: bool
  mi_isDisconnectRequested :: bool
  mi_pushReplyCmds :: "string list"
  mi_pushReplyDNS :: net_ip
  mi_written :: string  \<comment> \<open>the bytes written to the connection\<close>
  mi_sent :: "string list"  \<comment> \<open>the commands they were written for\<close>
  mi_states :: "StateInfo list"
  mi_pc :: mi_pc

record mi_env =
  mi_RouteCommand :: string
  mi_write :: "string \<Rightarrow> error"

definition closed_connection :: gerror where
  "closed_connection = Err ''use of closed network connection''"

definition NewLine :: char where "NewLine = CHR 0x0A"

text \<open>The goroutine that accepts marks the object as connected when it starts.\<close>

definition StartManagementInterface :: "string \<Rightarrow> string \<Rightarrow> string \<Rightarrow> error \<Rightarrow> gerror + mi" where
  "StartManagementInterface miSecret username password listen =
     (case listen of
        Some err \<Rightarrow> Inl (ErrWrap ''failed to start MI'' (ErrWrap ''failed to start MI listener'' err))
      | None \<Rightarrow>
          Inr \<lparr>mi_secret = miSecret, mi_isConnVerified = False, mi_miConn = False, mi_closed = False,
            mi_username = username,
            mi_password = password, mi_routeAddCmds = [], mi_isConnected = True, mi_isDisconnectRequested = False,
            mi_pushReplyCmds = [], mi_pushReplyDNS = [], mi_written = [], mi_sent = [], mi_states = [],
            mi_pc = Mi_listening\<rparr>)"

subsection \<open>Commands\<close>

text \<open>Only the first line of a command is written; a nil connection is no error.\<close>

definition sendResp :: "mi_env \<Rightarrow> string \<Rightarrow> mi \<Rightarrow> error \<times> mi" where
  "sendResp env command i =
     (let command = hd (split_on NewLine command) in
      if \<not> mi_miConn i then (None, i)
      else case (if mi_closed i then Some closed_connection else mi_write env command) of
        Some err \<Rightarrow> (Some (ErrWrap ''failed to write data to connection'' err), i)
      | None \<Rightarrow> (None, i\<lparr>mi_written := mi_written i @ command @ [NewLine], mi_sent := mi_sent i @ [command]\<rparr>))"

fun mi_sendResponse :: "mi_env \<Rightarrow> string list \<Rightarrow> mi \<Rightarrow> error \<times> mi" where
  "mi_sendResponse env [] i = (None, i)"
| "mi_sendResponse env (cmd # commands) i =
     (case sendResp env cmd i of
        (Some err, i) \<Rightarrow> (Some (ErrWrap ''failed to send response from MI'' err), i)
      | (None, i) \<Rightarrow> mi_sendResponse env commands i)"

definition SendDisconnect :: "mi_env \<Rightarrow> mi \<Rightarrow> error \<times> mi" where
  "SendDisconnect env i = mi_sendResponse env [''signal SIGTERM''] (i\<lparr>mi_isDisconnectRequested := True\<rparr>)"

text \<open>A send that does not block: it is lost unless the goroutine waits for it.\<close>

definition SetConnectionVerified :: "mi \<Rightarrow> mi" where
  "SetConnectionVerified i = (if mi_pc i = Mi_verifying then i\<lparr>mi_isConnVerified := True\<rparr> else i)"

text \<open>Closing only makes the next call of the goroutine fail.\<close>

definition StopManagementInterface :: "mi \<Rightarrow> mi" where
  "StopManagementInterface i = (if \<not> mi_isConnected i then i else i\<lparr>mi_closed := True\<rparr>)"

text \<open>The text of the address of the listener, e.g. \<open>127.0.0.1:40123\<close>.\<close>

definition ListenAddress :: "string \<Rightarrow> gerror + string \<times> int" where
  "ListenAddress listener =
     (let splittedAddr = split_on (CHR '':'') listener;
          addr = splittedAddr ! 0;
          (port, err) = atoi (splittedAddr ! 1)
      in if err then Inl (Err ''strconv.Atoi: parsing'') else Inr (addr, port))"

definition GetRouteAddCommands :: "mi \<Rightarrow> string list" where "GetRouteAddCommands i = mi_routeAddCmds i"

definition HasRouteAddCommands :: "mi \<Rightarrow> bool" where "HasRouteAddCommands i \<longleftrightarrow> length (mi_routeAddCmds i) > 0"

definition addRouteAddCommand :: "mi_env \<Rightarrow> string \<Rightarrow> mi \<Rightarrow> mi" where
  "addRouteAddCommand env command i =
     (if \<not> prefix (to_lower (mi_RouteCommand env)) (to_lower command) then i
      else i\<lparr>mi_routeAddCmds := mi_routeAddCmds i @ [trim_space command]\<rparr>)"

definition eraseRouteAddCommands :: "mi \<Rightarrow> mi" where
  "eraseRouteAddCommands i = i\<lparr>mi_routeAddCmds := []\<rparr>"

subsection \<open>The patterns\<close>

definition rx_ipv4 :: rx where
  "rx_ipv4 = Seq (rx_times 3 (Seq (rx_between 1 3 rx_digit) (Sym ((=) CHR ''.'')))) (rx_between 1 3 rx_digit)"

definition source_char :: "char \<Rightarrow> bool" where
  "source_char c \<longleftrightarrow>
     (let n = (of_char c :: nat) in is_digit c \<or> 97 \<le> n \<and> n \<le> 122 \<or> 65 \<le> n \<and> n \<le> 90 \<or> c = CHR ''-'')"

definition mesRegexp :: rx where
  "mesRegexp = Seq (Sym ((=) CHR ''>''))
     (Seq (Cap 1 (rx_plus (Sym source_char)))
       (Seq (Sym ((=) CHR '':'')) (Cap 2 (Star rx_any))))"

definition mesNeedPassRegexp :: rx where
  "mesNeedPassRegexp = Seq (rx_lit (''Need '' @ [CHR 0x27]))
     (Seq (rx_plus rx_any) (rx_lit ([CHR 0x27] @ '' username/password'')))"

text \<open>Under \<open>(?i)\<close> and at the beginning of the line.\<close>

definition mesLogRouteAddCmdRegexp :: "string \<Rightarrow> rx" where
  "mesLogRouteAddCmdRegexp routeCommand =
     Seq (rx_lit_fold routeCommand) (Seq (rx_plus (Sym ((=) CHR '' '')))
     (Seq (rx_lit_fold ''ADD'') (Seq (rx_plus rx_blank)
     (Seq (rx_opt (Seq (rx_lit_fold ''-net'') (rx_plus rx_blank)))
     (Seq rx_ipv4 (Seq (rx_opt (Seq (Sym ((=) CHR ''/'')) (rx_between 1 2 rx_digit)))
     (Seq (rx_plus rx_blank)
     (Seq (rx_opt (Seq (Alt (rx_lit_fold ''MASK'') (rx_lit_fold ''via'')) (rx_plus rx_blank)))
     (Seq rx_ipv4 (rx_opt (Seq (rx_plus rx_blank) rx_ipv4)))))))))))"

definition mesLogPushReplyCmdRegexp :: rx where
  "mesLogPushReplyCmdRegexp = Seq (Star rx_any) (Seq (rx_lit ''PUSH'') (Seq (Star rx_any)
     (Seq (rx_lit ([CHR 0x27] @ ''PUSH_REPLY'')) (Seq (Star (Sym (\<lambda>c. c = CHR '' '' \<or> c = CHR '','')))
     (Seq (Cap 1 (Star rx_any)) (Sym ((=) CHR 0x27)))))))"

definition mesLogRouteAddCmdRegexpOvpn45 :: rx where
  "mesLogRouteAddCmdRegexpOvpn45 = Seq (Star rx_any) (Seq (rx_lit ''net_route_v4_add:'') (Seq (rx_plus rx_blank)
     (Seq (Cap 1 (Seq rx_ipv4 (Seq (rx_opt (Seq (Sym ((=) CHR ''/'')) (rx_plus rx_digit))) (Seq (rx_plus rx_blank)
       (Seq (Star rx_any) (Seq (rx_plus rx_blank) rx_ipv4)))))) (Star rx_any))))"

subsection \<open>The lines OpenVPN writes\<close>

fun push_loop :: "string list \<Rightarrow> net_ip \<Rightarrow> string list \<times> net_ip" where
  "push_loop [] dns = ([], dns)"
| "push_loop (c # cmds) dns =
     (let cmd = to_lower (trim_space c);
          dns = (if prefix ''dhcp-option dns '' cmd then
                   let cols = split_on (CHR '' '') cmd in if length cols = 3 then parse_ip (cols ! 2) else dns
                 else dns);
          (cs, d) = push_loop cmds dns
      in (cmd # cs, d))"

definition onPushReplyCommands :: "string list \<Rightarrow> mi \<Rightarrow> mi" where
  "onPushReplyCommands cmds i =
     (let (cmds, dns) = push_loop cmds [] in i\<lparr>mi_pushReplyDNS := dns, mi_pushReplyCmds := cmds\<rparr>)"

definition mi_on_log :: "mi_env \<Rightarrow> string \<Rightarrow> mi \<Rightarrow> mi" where
  "mi_on_log env msgText i =
     (let cols = split_on (CHR '','') msgText; routeCommand = mi_RouteCommand env in
      if length cols = 3 then
        (if length routeCommand > 0 then
           let cmdStr = to_lower (cols ! 2) in
           case rx_at (mesLogRouteAddCmdRegexp routeCommand) cmdStr of
             Some (m, _) \<Rightarrow> addRouteAddCommand env m i
           | None \<Rightarrow>
               (case rx_find mesLogRouteAddCmdRegexpOvpn45 cmdStr of
                  Some (_, c) \<Rightarrow> addRouteAddCommand env (routeCommand @ '' add '' @ group 1 c) i
                | None \<Rightarrow> i)
         else i)
      else
        case rx_find mesLogPushReplyCmdRegexp msgText of
          Some (_, c) \<Rightarrow> onPushReplyCommands (split_on (CHR '','') (group 1 c)) i
        | None \<Rightarrow> i)"

fun replace_char :: "char \<Rightarrow> string \<Rightarrow> string \<Rightarrow> string" where
  "replace_char c new [] = []"
| "replace_char c new (x # xs) = (if x = c then new else [x]) @ replace_char c new xs"

definition escapedPass :: "string \<Rightarrow> string" where
  "escapedPass password = replace_char (CHR 0x22) [CHR 0x5C, CHR 0x22] (replace_char (CHR 0x5C) [CHR 0x5C, CHR 0x5C] password)"

text \<open>The errors of the two writes are not looked at.\<close>

definition mi_on_password :: "mi_env \<Rightarrow> string \<Rightarrow> mi \<Rightarrow> mi" where
  "mi_on_password env msgText i =
     (if prefix (''Verification Failed: '' @ [CHR 0x27] @ ''Auth'' @ [CHR 0x27]) msgText then i
      else if \<not> rx_matches mesNeedPassRegexp msgText then i
      else
        let auth = [CHR 0x22] @ ''Auth'' @ [CHR 0x22] in
        snd (sendResp env (''password '' @ auth @ '' '' @ escapedPass (mi_password i))
          (snd (sendResp env (''username '' @ auth @ '' '' @ mi_username i) i))))"

definition mi_on_state :: "string \<Rightarrow> mi \<Rightarrow> mi" where
  "mi_on_state msgText i =
     (let params = split_on (CHR '','') msgText in
      if length params < 2 then i
      else case ParseState (params ! 1) of
        (_, Some _) \<Rightarrow> i
      | (state, None) \<Rightarrow>
          let clientIP = (if state = CONNECTED \<and> length params > 3 then parse_ip (trim_space (params ! 3)) else []);
              serverIP = (if state = CONNECTED \<and> length params > 4 then parse_ip (trim_space (params ! 4)) else []);
              isAuthError = (state = EXITING \<and> (\<exists>k \<le> length msgText. prefix ''auth-failure'' (drop k msgText)));
              additionalInfo = (if state = RECONNECTING \<and> length params > 2 \<and> length (params ! 2) \<ge> 3 then params ! 2 else []);
              i = (if state = RECONNECTING then eraseRouteAddCommands i else i)
          in i\<lparr>mi_states := mi_states i @ [(NewStateInfo state msgText)\<lparr>si_ClientIP := clientIP, si_ServerIP := serverIP,
                 si_IsAuthError := isAuthError, si_StateAdditionalInfo := additionalInfo\<rparr>]\<rparr>)"

text \<open>One line of the reader, with its line break.\<close>

definition mi_message :: "mi_env \<Rightarrow> string \<Rightarrow> mi \<Rightarrow> mi" where
  "mi_message env message i =
     (case rx_at mesRegexp message of
        None \<Rightarrow> i
      | Some (_, c) \<Rightarrow>
          let msgSource = group 1 c; msgText = group 2 c in
          if msgSource = ''LOG'' then mi_on_log env msgText i
          else if msgSource = ''HOLD'' then
            snd (mi_sendResponse env [''state on'', ''log on'', ''hold off'', ''hold release''] i)
          else if msgSource = ''PASSWORD'' then mi_on_password env msgText i
          else if msgSource = ''STATE'' then mi_on_state msgText i
          else i)"

subsection \<open>The life of the connection\<close>

text \<open>The deferred function of the goroutine.\<close>

definition mi_stop :: "mi \<Rightarrow> mi" where
  "mi_stop i = i\<lparr>mi_pushReplyDNS := [], mi_pushReplyCmds := [], mi_isConnected := False, mi_pc := Mi_stopped\<rparr>"

definition mi_accept :: "mi_env \<Rightarrow> error \<Rightarrow> mi \<Rightarrow> mi" where
  "mi_accept env err i =
     (if err \<noteq> None then mi_stop i
      else
        let i = i\<lparr>mi_miConn := True\<rparr> in
        if mi_isDisconnectRequested i then mi_stop (snd (SendDisconnect env i))
        else (snd (mi_sendResponse env [''echo '' @ mi_secret i] i))\<lparr>mi_pc := Mi_verifying\<rparr>)"

text \<open>Verified or not after five seconds.\<close>

definition mi_verify :: "mi_env \<Rightarrow> mi \<Rightarrow> mi" where
  "mi_verify env i =
     (if \<not> mi_isConnVerified i then mi_stop i
      else (snd (mi_sendResponse env [''version''] (i\<lparr>mi_isConnVerified := False\<rparr>)))\<lparr>mi_pc := Mi_reading\<rparr>)"

datatype mi_event =
    Mi_accepted error
  | Mi_secret_seen
  | Mi_verified
  | Mi_line string
  | Mi_eof
  | Mi_disconnect

fun mi_step :: "mi_env \<times> mi_event \<Rightarrow> mi \<Rightarrow> mi" where
  "mi_step (env, Mi_accepted err) i =
     (if mi_pc i = Mi_listening then mi_accept env (if mi_closed i then Some closed_connection else err) i else i)"
| "mi_step (env, Mi_secret_seen) i = SetConnectionVerified i"
| "mi_step (env, Mi_verified) i = (if mi_pc i = Mi_verifying then mi_verify env i else i)"
| "mi_step (env, Mi_line m) i = (if mi_pc i = Mi_reading then mi_message env m i else i)"
| "mi_step (env, Mi_eof) i = (if mi_pc i = Mi_reading then mi_stop i else i)"
| "mi_step (env, Mi_disconnect) i = snd (SendDisconnect env i)"

end
