(* ===== verification/Ovpn_Mi_Proofs.thy ===== *)
theory Ovpn_Mi_Proofs
  imports Ovpn_Mi
begin

section \<open>What the daemon tells OpenVPN, and what it learns from its log\<close>

text \<open>
  One invariant of the commands that are written (one line each, nothing but the echo of the
  secret before the verification) and one of the route commands that are remembered.
\<close>

subsection \<open>The commands\<close>

definition one_line :: "string \<Rightarrow> string" where "one_line s = hd (split_on NewLine s)"

definition same_login :: "mi \<Rightarrow> mi \<Rightarrow> bool" where
  "same_login i j \<longleftrightarrow> mi_secret j = mi_secret i \<and> mi_username j = mi_username i \<and> mi_password j = mi_password i"

definition public_commands :: "mi \<Rightarrow> string set" where
  "public_commands i = {one_line (''echo '' @ mi_secret i), ''signal SIGTERM''}"

definition private_commands :: "mi \<Rightarrow> string set" where
  "private_commands i = {''version'', ''state on'', ''log on'', ''hold off'', ''hold release'',
     one_line (''username '' @ [CHR 0x22] @ ''Auth'' @ [CHR 0x22] @ '' '' @ mi_username i),
     one_line (''password '' @ [CHR 0x22] @ ''Auth'' @ [CHR 0x22] @ '' '' @ escapedPass (mi_password i))}"

text \<open>\<open>seen\<close>: the secret was seen in the console while the connection waited for it.\<close>

definition allowed :: "mi \<Rightarrow> bool \<Rightarrow> string set" where
  "allowed i seen = public_commands i \<union> (if seen then private_commands i else {})"

definition talk_inv :: "mi \<Rightarrow> bool \<Rightarrow> mi \<Rightarrow> bool" where
  "talk_inv i0 seen i \<longleftrightarrow>
     same_login i0 i
     \<and> mi_written i = concat (map (\<lambda>c. c @ [NewLine]) (mi_sent i))
     \<and> (\<forall>c \<in> set (mi_sent i). NewLine \<notin> set c)
     \<and> set (mi_sent i) \<subseteq> allowed i0 seen
     \<and> (\<not> seen \<longrightarrow> \<not> mi_isConnVerified i \<and> mi_pc i \<noteq> Mi_reading)"

lemma allowed_mono: "allowed i seen \<subseteq> allowed i True"
  by (auto simp: allowed_def)

lemma one_line_no_break: "NewLine \<notin> set (one_line s)"
proof -
  have "hd (split_on NewLine s) \<in> set (split_on NewLine s)" by simp
  then show ?thesis unfolding one_line_def by (rule split_on_no_sep)
qed

lemma one_line_id: "NewLine \<notin> set s \<Longrightarrow> one_line s = s"
  by (simp add: one_line_def split_on_single)

lemma simple_commands:
  "one_line ''version'' = ''version''" "one_line ''state on'' = ''state on''" "one_line ''log on'' = ''log on''"
  "one_line ''hold off'' = ''hold off''" "one_line ''hold release'' = ''hold release''"
  "one_line ''signal SIGTERM'' = ''signal SIGTERM''"
  by (simp_all add: one_line_id NewLine_def)

lemma send_talk:
  assumes "talk_inv i0 seen i" "one_line c \<in> allowed i0 seen"
  shows "talk_inv i0 seen (snd (sendResp env c i))"
proof -
  have "sendResp env c i = (if \<not> mi_miConn i then (None, i) else case (if mi_closed i then Some closed_connection else mi_write env (one_line c)) of
        Some err \<Rightarrow> (Some (ErrWrap ''failed to write data to connection'' err), i)
      | None \<Rightarrow> (None, i\<lparr>mi_written := mi_written i @ one_line c @ [NewLine], mi_sent := mi_sent i @ [one_line c]\<rparr>))"
    unfolding sendResp_def one_line_def Let_def by (rule refl)
  then show ?thesis using assms one_line_no_break [of c]
    by (simp add: talk_inv_def same_login_def split: option.split)
qed

lemma send_all_talk:
  "talk_inv i0 seen i \<Longrightarrow> \<forall>c \<in> set cs. one_line c \<in> allowed i0 seen \<Longrightarrow> talk_inv i0 seen (snd (mi_sendResponse env cs i))"
proof (induction cs arbitrary: i)
  case (Cons c cs)
  obtain e j where j: "sendResp env c i = (e, j)" by fastforce
  then have "talk_inv i0 seen j" using send_talk [of i0 seen i c env] Cons.prems by simp
  then show ?case using Cons.IH Cons.prems j by (cases e) auto
qed simp

lemma talk_frame:
  assumes "talk_inv i0 seen i" "mi_written j = mi_written i" "mi_sent j = mi_sent i" "same_login i j"
    and "\<not> seen \<longrightarrow> \<not> mi_isConnVerified j \<and> mi_pc j \<noteq> Mi_reading"
  shows "talk_inv i0 seen j"
  using assms unfolding talk_inv_def same_login_def by metis

text \<open>What a line changes besides sending.\<close>

definition listens :: "mi \<Rightarrow> mi \<Rightarrow> bool" where
  "listens i j \<longleftrightarrow> mi_written j = mi_written i \<and> mi_sent j = mi_sent i \<and> same_login i j
     \<and> mi_isConnVerified j = mi_isConnVerified i \<and> mi_pc j = mi_pc i"

lemma listens_add: "listens i (addRouteAddCommand env c i)"
  by (simp add: addRouteAddCommand_def listens_def same_login_def)

lemma listens_push: "listens i (onPushReplyCommands cs i)"
  by (simp add: onPushReplyCommands_def listens_def same_login_def split: prod.split)

lemma listens_log: "listens i (mi_on_log env t i)"
proof -
  have "listens i i" by (simp add: listens_def same_login_def)
  then show ?thesis
    by (auto simp: mi_on_log_def Let_def listens_add listens_push split: option.split prod.split)
qed

lemma listens_state: "listens i (mi_on_state t i)"
  by (auto simp: mi_on_state_def listens_def same_login_def eraseRouteAddCommands_def Let_def split: prod.split option.split)

lemma listens_talk: "talk_inv i0 seen i \<Longrightarrow> listens i j \<Longrightarrow> talk_inv i0 seen j"
  by (rule talk_frame [of i0 seen i]) (simp_all add: listens_def talk_inv_def)

lemma password_talk:
  assumes "talk_inv i0 True i"
  shows "talk_inv i0 True (mi_on_password env t i)"
proof -
  let ?u = "''username '' @ [CHR 0x22] @ ''Auth'' @ [CHR 0x22] @ '' '' @ mi_username i"
  let ?p = "''password '' @ [CHR 0x22] @ ''Auth'' @ [CHR 0x22] @ '' '' @ escapedPass (mi_password i)"
  let ?i = "snd (sendResp env ?u i)"
  have "mi_username i = mi_username i0" "mi_password i = mi_password i0" using assms by (simp_all add: talk_inv_def same_login_def)
  then have a: "one_line ?u \<in> allowed i0 True" "one_line ?p \<in> allowed i0 True"
    by (simp_all only: allowed_def private_commands_def if_True insert_iff Un_iff simp_thms)
  have "talk_inv i0 True (snd (sendResp env ?p ?i))"
    using send_talk [OF send_talk [OF assms a(1)] a(2)] .
  then show ?thesis using assms by (simp add: mi_on_password_def Let_def)
qed

lemma hold_talk:
  "talk_inv i0 True i \<Longrightarrow> talk_inv i0 True (snd (mi_sendResponse env [''state on'', ''log on'', ''hold off'', ''hold release''] i))"
  by (rule send_all_talk, assumption)
    (simp only: list.set ball_simps simple_commands allowed_def private_commands_def if_True insert_iff Un_iff simp_thms)

lemma message_talk:
  assumes "talk_inv i0 True i"
  shows "talk_inv i0 True (mi_message env m i)"
  using assms hold_talk [OF assms] password_talk [OF assms] listens_talk [OF assms listens_log]
    listens_talk [OF assms listens_state]
  by (simp only: mi_message_def Let_def split: option.split prod.split if_split) simp

lemma disconnect_talk:
  assumes "talk_inv i0 seen i"
  shows "talk_inv i0 seen (snd (SendDisconnect env i))"
proof -
  have "talk_inv i0 seen (i\<lparr>mi_isDisconnectRequested := True\<rparr>)"
    by (rule talk_frame [OF assms]) (use assms in \<open>simp_all add: same_login_def talk_inv_def\<close>)
  then show ?thesis unfolding SendDisconnect_def
    by (rule send_all_talk) (simp add: allowed_def public_commands_def simple_commands)
qed

lemma stop_talk: "talk_inv i0 seen i \<Longrightarrow> talk_inv i0 seen (mi_stop i)"
  by (rule talk_frame [of i0 seen i]) (auto simp: mi_stop_def same_login_def talk_inv_def)

lemma accept_talk:
  assumes "talk_inv i0 seen i"
  shows "talk_inv i0 seen (mi_accept env err i)"
proof -
  have c: "talk_inv i0 seen (i\<lparr>mi_miConn := True\<rparr>)"
    by (rule talk_frame [OF assms]) (use assms in \<open>simp_all add: same_login_def talk_inv_def\<close>)
  let ?e = "snd (mi_sendResponse env [''echo '' @ mi_secret i] (i\<lparr>mi_miConn := True\<rparr>))"
  have "mi_secret i = mi_secret i0" using assms by (simp add: talk_inv_def same_login_def)
  then have "talk_inv i0 seen ?e"
    by (intro send_all_talk [OF c]) (simp add: allowed_def public_commands_def)
  then have "talk_inv i0 seen (?e\<lparr>mi_pc := Mi_verifying\<rparr>)"
    by (rule talk_frame) (use \<open>talk_inv i0 seen ?e\<close> in \<open>simp_all add: same_login_def talk_inv_def\<close>)
  then show ?thesis using assms disconnect_talk [OF c] by (simp add: mi_accept_def stop_talk Let_def)
qed

lemma verify_talk:
  assumes "talk_inv i0 seen i"
  shows "talk_inv i0 seen (mi_verify env i)"
proof (cases "mi_isConnVerified i")
  case True
  then have s: "seen" using assms by (simp add: talk_inv_def)
  have "talk_inv i0 True (i\<lparr>mi_isConnVerified := False\<rparr>)"
    using assms s by (simp add: talk_inv_def same_login_def)
  then have "talk_inv i0 True (snd (mi_sendResponse env [''version''] (i\<lparr>mi_isConnVerified := False\<rparr>)))"
    by (rule send_all_talk) (simp add: allowed_def private_commands_def simple_commands)
  then have "talk_inv i0 True ((snd (mi_sendResponse env [''version''] (i\<lparr>mi_isConnVerified := False\<rparr>)))\<lparr>mi_pc := Mi_reading\<rparr>)"
    by (rule talk_frame) (simp_all add: same_login_def)
  then show ?thesis using True s by (simp add: mi_verify_def)
qed (use assms in \<open>simp add: mi_verify_def stop_talk\<close>)

lemma talk_step:
  assumes "talk_inv i0 seen i"
  shows "talk_inv i0 (seen \<or> snd e = Mi_secret_seen) (mi_step e i)"
proof (cases "(e, i)" rule: mi_step.cases)
  case (2 env i')
  have "talk_inv i0 True (SetConnectionVerified i)"
    using assms allowed_mono [of i0 seen] by (auto simp: SetConnectionVerified_def talk_inv_def same_login_def)
  then show ?thesis using 2 by simp
next
  case (4 env m i')
  have "seen" if "mi_pc i = Mi_reading" using that assms by (auto simp: talk_inv_def)
  then show ?thesis using 4 assms message_talk [of i0 i env m] by (cases seen) auto
qed (use assms accept_talk verify_talk stop_talk disconnect_talk in auto)

lemma talk_run: "talk_inv i0 seen i \<Longrightarrow> talk_inv i0 (seen \<or> Mi_secret_seen \<in> snd ` set es) (fold mi_step es i)"
proof (induction es arbitrary: seen i)
  case (Cons e es)
  have "talk_inv i0 ((seen \<or> snd e = Mi_secret_seen) \<or> Mi_secret_seen \<in> snd ` set es) (fold mi_step es (mi_step e i))"
    using Cons.IH [OF talk_step [OF Cons.prems]] .
  moreover have "((seen \<or> snd e = Mi_secret_seen) \<or> Mi_secret_seen \<in> snd ` set es)
      = (seen \<or> Mi_secret_seen \<in> snd ` set (e # es))" by auto
  ultimately show ?case by simp
qed simp

lemma split_written: "\<forall>c \<in> set cs. NewLine \<notin> set c \<Longrightarrow> split_on NewLine (concat (map (\<lambda>c. c @ [NewLine]) cs)) = cs @ [[]]"
  by (induction cs) (simp_all add: split_on_append)

text \<open>
  C3: Whatever OpenVPN writes and whatever the name and the password of the user contain, the lines
  OpenVPN reads are exactly the commands of the daemon (no text can bring in a further command),
  each of them one of the fixed ones or the line with the name or the password; and until the
  secret appeared in the console of the process the daemon started, nothing but the echo of the
  secret and the signal to stop is written, so the credentials go to no other process.
\<close>

theorem mi_commands_exact:
  fixes i :: mi and es :: "(mi_env \<times> mi_event) list"
  assumes "StartManagementInterface secret username password None = Inr i"
  defines "j \<equiv> fold mi_step es i"
  shows "split_on NewLine (mi_written j) = mi_sent j @ [[]]
    \<and> set (mi_sent j) \<subseteq> public_commands i \<union> private_commands i
    \<and> (Mi_secret_seen \<notin> snd ` set es \<longrightarrow> set (mi_sent j) \<subseteq> public_commands i)"
proof -
  have "talk_inv i False i" using assms(1) by (auto simp: StartManagementInterface_def talk_inv_def same_login_def)
  then have t: "talk_inv i (Mi_secret_seen \<in> snd ` set es) j" unfolding j_def using talk_run by fastforce
  then have "split_on NewLine (mi_written j) = mi_sent j @ [[]]" using split_written by (simp add: talk_inv_def)
  then show ?thesis using t by (auto simp: talk_inv_def allowed_def split: if_splits)
qed

definition sample_mi_env :: mi_env where
  "sample_mi_env = \<lparr>mi_RouteCommand = ''/sbin/ip route'', mi_write = (\<lambda>_. None)\<rparr>"

text \<open>A name with a line break does not bring in a command of its own.\<close>

definition sample_login :: string where "sample_login = ''me'' @ [NewLine] @ ''kill x''"

definition sample_es :: "(mi_env \<times> mi_event) list" where
  "sample_es = map (Pair sample_mi_env) [Mi_accepted None, Mi_secret_seen, Mi_verified,
     Mi_line (''>PASSWORD:Need '' @ [CHR 0x27] @ ''Auth'' @ [CHR 0x27] @ '' username/password'')]"

theorem mi_commands_exact_witness:
  "\<exists>i. StartManagementInterface ''s'' sample_login ''p'' None = Inr i
    \<and> (let j = fold mi_step sample_es i in
       split_on NewLine (mi_written j) = mi_sent j @ [[]] \<and> set (mi_sent j) \<subseteq> public_commands i \<union> private_commands i
       \<and> mi_sent j = [''echo s'', ''version'', ''username '' @ [CHR 0x22] @ ''Auth'' @ [CHR 0x22] @ '' me'',
            ''password '' @ [CHR 0x22] @ ''Auth'' @ [CHR 0x22] @ '' p''])"
proof -
  obtain i where i: "StartManagementInterface ''s'' sample_login ''p'' None = Inr i"
    by (simp add: StartManagementInterface_def)
  have "(case StartManagementInterface ''s'' sample_login ''p'' None of Inl _ \<Rightarrow> [] | Inr i \<Rightarrow> mi_sent (fold mi_step sample_es i))
      = [''echo s'', ''version'', ''username '' @ [CHR 0x22] @ ''Auth'' @ [CHR 0x22] @ '' me'',
            ''password '' @ [CHR 0x22] @ ''Auth'' @ [CHR 0x22] @ '' p'']" by code_simp
  then show ?thesis using i mi_commands_exact [OF i, of sample_es] by (auto simp: Let_def)
qed

end
