(* ===== verification/Ovpn_Process.thy ===== *)
theory Ovpn_Process
  imports Ovpn_Config Ovpn_Mi System_Dns
begin

section \<open>An OpenVPN connection on Linux (openvpn.go, openvpn\_linux.go, obfsproxy.go)\<close>

text \<open>
  \<open>Connect\<close> starts obfsproxy and the listener of the management interface, writes the
  configuration, and waits for the OpenVPN process to end. Meanwhile a goroutine forwards the
  states the management interface reports, applying the DNS before it forwards \<open>CONNECTED\<close>, one
  watches obfsproxy, and other goroutines disconnect, pause, resume or change the DNS. Each of
  these is a step on the record of \<open>OpenVPN\<close>, over the management interface of Ovpn_Mi and the
  DNS of System_Dns. What was forwarded, the commands for the routes and the configuration file
  are kept in the record.
\<close>

datatype ov_pc = Ov_new | Ov_running | Ov_returned error

record ovpn =
  ov_logFile :: string
  ov_obfsProxyParams :: obfs_params
  ov_extraParameters :: string
  ov_connectParams :: ovpn_conn
  ov_mi :: "mi option"
  ov_obfsproxy :: "obfs_config option"
  ov_state :: vpn_state
  ov_clientIP :: net_ip
  ov_localPort :: int
  ov_isCanUseParamsV24 :: bool
  ov_manualDNS :: DnsSettings
  ov_isDisconnectRequested :: bool
  ov_isPaused :: bool
  ov_pc :: ov_pc
  ov_retErr :: error
  ov_taken :: nat  \<comment> \<open>number of states the forwarding goroutine took\<close>
  ov_forwarded :: "StateInfo list"
  ov_commands :: "string list list"
  ov_file :: "string option"
  ov_sys :: sys_dns

record ov_env =
  oe_dns :: dns_env
  oe_cfg :: ovpn_env
  oe_mi :: mi_env
  oe_obfs_start :: "gerror + int"
  oe_rnd1 :: "gerror + nat"
  oe_rnd2 :: "gerror + nat"
  oe_listen :: error
  oe_listener :: string
  oe_writeFile :: error
  oe_exec :: "string list \<Rightarrow> error"
  oe_binary_rights :: error
  oe_version_output :: string

definition NewOpenVpnObject ::
  "string \<Rightarrow> obfs_params \<Rightarrow> string \<Rightarrow> ovpn_conn \<Rightarrow> sys_dns \<Rightarrow> gerror + ovpn" where
  "NewOpenVpnObject logFile obfsproxy extraParameters cp d =
     (if length (o_username cp) = 0 \<or> length (o_password cp) = 0 then
        Inl (Err ''OpenVPN user credentials not defined'')
      else Inr \<lparr>ov_logFile = logFile, ov_obfsProxyParams = obfsproxy, ov_extraParameters = extraParameters,
        ov_connectParams = cp, ov_mi = None, ov_obfsproxy = None, ov_state = DISCONNECTED, ov_clientIP = [],
        ov_localPort = 0, ov_isCanUseParamsV24 = False, ov_manualDNS = noDns, ov_isDisconnectRequested = False,
        ov_isPaused = False, ov_pc = Ov_new, ov_retErr = None, ov_taken = 0, ov_forwarded = [],
        ov_commands = [], ov_file = None, ov_sys = d\<rparr>)"

subsection \<open>The version of the binary\<close>

definition rx_version :: rx where
  "rx_version = Seq (rx_lit_fold ''OpenVPN '')
     (Seq (Cap 1 (Star (Sym (\<lambda>c. is_digit c \<or> c = CHR ''.'')))) (Sym ((=) CHR '' '')))"

text \<open>Leading zeros are dropped; a part that is no number makes the result nil.\<close>

fun version_numbers :: "string list \<Rightarrow> int list \<Rightarrow> int list" where
  "version_numbers [] verNums = verNums"
| "version_numbers (num # nums) verNums =
     (let (n, err) = atoi num in
      if err then []
      else if length verNums = 0 \<and> n = 0 then version_numbers nums verNums
      else version_numbers nums (verNums @ [n]))"

definition GetOpenVPNVersion :: "string \<Rightarrow> int list" where
  "GetOpenVPNVersion out =
     (if length out = 0 then []
      else case rx_at rx_version out of
        None \<Rightarrow> []
      | Some (_, c) \<Rightarrow>
          let ver = group 1 c in
          if length ver = 0 then [] else version_numbers (split_on (CHR ''.'') ver) [])"

fun check_version :: "int list \<Rightarrow> int list \<Rightarrow> bool" where
  "check_version (m # minVer) (v # verNums) = (if v < m then False else check_version minVer verNums)"
| "check_version _ _ = True"

definition show_numbers :: "int list \<Rightarrow> string" where
  "show_numbers ns = [CHR 0x27] @ ''['' @ join_with '' '' (map show_int ns) @ '']'' @ [CHR 0x27]"

definition ov_implInit :: "ov_env \<Rightarrow> ovpn \<Rightarrow> error \<times> ovpn" where
  "ov_implInit env o' =
     (let o' = o'\<lparr>ov_isCanUseParamsV24 := True\<rparr> in
      case oe_binary_rights env of
        Some err \<Rightarrow> (Some (ErrWrap ''error checking OpenVPN binary file'' err), o')
      | None \<Rightarrow>
          let verNums = GetOpenVPNVersion (oe_version_output env) in
          if \<not> check_version [2, 3] verNums then (Some (Err (''OpenVPN version '' @ show_numbers verNums
              @ '' not supported (minimum required version '' @ show_numbers [2, 3] @ '')'')), o')
          else if length verNums \<ge> 2 \<and> verNums ! 0 = 2 \<and> verNums ! 1 < 4 then
            (None, o'\<lparr>ov_isCanUseParamsV24 := False\<rparr>)
          else (None, o'))"

subsection \<open>DNS\<close>

definition ov_on_sys :: "(sys_dns \<Rightarrow> error \<times> sys_dns) \<Rightarrow> ovpn \<Rightarrow> error \<times> ovpn" where
  "ov_on_sys f o' = (let (err, d) = f (ov_sys o') in (err, o'\<lparr>ov_sys := d\<rparr>))"

definition ovpn_DefaultDNS :: "ovpn \<Rightarrow> net_ip" where
  "ovpn_DefaultDNS o' =
     (case ov_mi o' of
        Some i \<Rightarrow> if mi_isConnected i \<and> ov_state o' \<noteq> DISCONNECTED \<and> ov_state o' \<noteq> EXITING
                  then mi_pushReplyDNS i else []
      | None \<Rightarrow> [])"

definition implOnConnected :: "ov_env \<Rightarrow> ovpn \<Rightarrow> error \<times> ovpn" where
  "implOnConnected env o' =
     (if \<not> dns_IsEmpty (ov_manualDNS o') then
        ov_on_sys (dns_SetManual (oe_dns env) (ov_manualDNS o') (ov_clientIP o')) o'
      else ov_on_sys (dns_SetDefault (oe_dns env) (DnsSettingsCreate (ovpn_DefaultDNS o')) (ov_clientIP o')) o')"

definition implOnPause :: "ov_env \<Rightarrow> ovpn \<Rightarrow> error \<times> ovpn" where
  "implOnPause env o' = ov_on_sys (dns_Pause (oe_dns env) (ov_clientIP o')) o'"

definition implOnResume :: "ov_env \<Rightarrow> ovpn \<Rightarrow> error \<times> ovpn" where
  "implOnResume env o' =
     ov_on_sys (dns_Resume (oe_dns env) (DnsSettingsCreate (ovpn_DefaultDNS o')) (ov_clientIP o')) o'"

definition implOnSetManualDNS :: "ov_env \<Rightarrow> DnsSettings \<Rightarrow> ovpn \<Rightarrow> error \<times> ovpn" where
  "implOnSetManualDNS env dnsCfg o' =
     (let o' = o'\<lparr>ov_manualDNS := dnsCfg\<rparr> in
      if ov_state o' \<noteq> CONNECTED then (None, o')
      else ov_on_sys (dns_SetManual (oe_dns env) (ov_manualDNS o') (ov_clientIP o')) o')"

definition implOnResetManualDNS :: "ov_env \<Rightarrow> ovpn \<Rightarrow> error \<times> ovpn" where
  "implOnResetManualDNS env o' =
     (let defaultDns = ovpn_DefaultDNS o'; o' = o'\<lparr>ov_manualDNS := noDns\<rparr> in
      if \<not> ov_isPaused o' \<and> defaultDns \<noteq> [] then
        ov_on_sys (dns_SetDefault (oe_dns env) (DnsSettingsCreate defaultDns) (ov_clientIP o')) o'
      else ov_on_sys (dns_DeleteManual (oe_dns env) defaultDns (ov_clientIP o')) o')"

definition implGetUpDownScriptArgs :: "ov_env \<Rightarrow> string" where
  "implGetUpDownScriptArgs env =
     (if length (ResolvectlBinPath (oe_dns env)) > 0 \<and> \<not> isNeedUseOldMgmtStyle (oe_dns env)
      then ''-use-resolvconf '' @ ResolvectlBinPath (oe_dns env) else [])"

subsection \<open>Connecting\<close>

definition ov_doDisconnect :: "ov_env \<Rightarrow> ovpn \<Rightarrow> error \<times> ovpn" where
  "ov_doDisconnect env o' =
     (let o' = o'\<lparr>ov_isDisconnectRequested := True\<rparr> in
      case ov_mi o' of
        None \<Rightarrow> (None, o')
      | Some i \<Rightarrow> (let (err, i) = SendDisconnect (oe_mi env) i in (err, o'\<lparr>ov_mi := Some i\<rparr>)))"

text \<open>The deferred function: the management interface and obfsproxy are stopped.\<close>

definition ov_return :: "error \<Rightarrow> ovpn \<Rightarrow> ovpn" where
  "ov_return err o' =
     o'\<lparr>ov_mi := map_option StopManagementInterface (ov_mi o'), ov_obfsproxy := None,
       ov_retErr := err, ov_pc := Ov_returned err\<rparr>"

definition MakeObfs4AuthFileContent :: "obfs_config \<Rightarrow> string \<Rightarrow> string" where
  "MakeObfs4AuthFileContent cfg cert =
     (if obfs_Version cfg \<noteq> OBFS4 then []
      else ''cert='' @ cert @ [CHR '';'', CHR 0x0A] @ ''iat-mode='' @ show_int (Obfs4Iat cfg))"

text \<open>The port obfsproxy listens on; a port that was not found is an error (the deferred function).\<close>

definition obfs_Start :: "gerror + int \<Rightarrow> gerror + int" where
  "obfs_Start started =
     (case started of
        Inl err \<Rightarrow> Inl (ErrWrap ''failed to start obfsproxy'' err)
      | Inr localPort \<Rightarrow> if localPort \<le> 0 then Inl (Err ''error starting obfsproxy'') else Inr localPort)"

definition ov_start_obfsproxy :: "ov_env \<Rightarrow> ovpn \<Rightarrow> error \<times> ovpn" where
  "ov_start_obfsproxy env o' =
     (let params = ov_obfsProxyParams o' in
      if \<not> IsObfsproxy (op_Config params) then (None, o')
      else case obfs_CheckConsistency params of
        Some err \<Rightarrow> (Some err, o')
      | None \<Rightarrow>
          let o' = o'\<lparr>ov_obfsproxy := Some (op_Config params)\<rparr> in
          case obfs_Start (oe_obfs_start env) of
            Inl err \<Rightarrow>
              (Some (Err (''unable to initialize OpenVPN (obfsproxy not started): '' @ error_text err)), o')
          | Inr obfsproxyPort \<Rightarrow>
              (None, o'\<lparr>ov_connectParams := (ov_connectParams o')\<lparr>o_tcp := True, o_proxyType := ''socks'',
                 o_proxyAddress := mk_IPv4 127 0 0 1, o_proxyPort := obfsproxyPort, o_proxyUsername := [],
                 o_proxyPassword := [], o_hostPort := op_RemotePort params,
                 o_proxyAuthFileData := MakeObfs4AuthFileContent (op_Config params) (op_Obfs4Key params)\<rparr>\<rparr>))"

definition upper_hex :: "nat \<Rightarrow> string" where
  "upper_hex n = map (\<lambda>c. if is_digit c then c else char_of ((of_char c :: nat) - 32)) (show_hex n)"

definition ov_miSecret :: "ov_env \<Rightarrow> gerror + string" where
  "ov_miSecret env =
     (case oe_rnd1 env of
        Inl err \<Rightarrow> Inl (ErrWrap ''failed to generate secret'' err)
      | Inr rnd1 \<Rightarrow>
          (case oe_rnd2 env of
             Inl err \<Rightarrow> Inl (ErrWrap ''failed to generete secret'' err)
           | Inr rnd2 \<Rightarrow> Inr (''[IVPN_SECRET_'' @ upper_hex rnd1 @ upper_hex rnd2 @ '']'')))"

definition WriteConfigFile :: "ov_env \<Rightarrow> string \<Rightarrow> int \<Rightarrow> ovpn \<Rightarrow> error \<times> ovpn" where
  "WriteConfigFile env miIP miPort o' =
     (case generateConfiguration (oe_cfg env) (ov_localPort o') miIP miPort (ov_logFile o') (ov_extraParameters o')
             (ov_isCanUseParamsV24 o') (implGetUpDownScriptArgs env) (ov_connectParams o') of
        Inl err \<Rightarrow> (Some (ErrWrap ''failed to generate openvpn configuration '' err), o')
      | Inr cfg \<Rightarrow>
          (case oe_writeFile env of
             Some err \<Rightarrow> (Some (ErrWrap ''failed to save OpenVPN configuration into a file'' err), o')
           | None \<Rightarrow> (None, o'\<lparr>ov_file := Some (join_with [CHR 0x0A] cfg)\<rparr>)))"

text \<open>From the start of the management interface to the start of the process.\<close>

definition ov_start_mi :: "ov_env \<Rightarrow> string \<Rightarrow> ovpn \<Rightarrow> ovpn" where
  "ov_start_mi env miSecret o' =
     (case StartManagementInterface miSecret (o_username (ov_connectParams o')) (o_password (ov_connectParams o'))
             (oe_listen env) of
        Inl err \<Rightarrow> ov_return (Some (ErrWrap ''failed to start MI'' err)) o'
      | Inr i \<Rightarrow>
          let o' = o'\<lparr>ov_mi := Some i\<rparr> in
          if ov_isDisconnectRequested o' then ov_return None o'
          else
            let o' = o'\<lparr>ov_localPort := 0\<rparr> in
            case ListenAddress (oe_listener env) of
              Inl err \<Rightarrow> ov_return (Some (ErrWrap ''failed to start MI listener'' err)) o'
            | Inr (miIP, miPort) \<Rightarrow>
                (case WriteConfigFile env miIP miPort o' of
                   (Some err, o') \<Rightarrow> ov_return (Some (ErrWrap ''failed to write configuration file'' err)) o'
                 | (None, o') \<Rightarrow> o'\<lparr>ov_pc := Ov_running\<rparr>))"

text \<open>An early return of a disconnected object leaves everything as it is.\<close>

definition ov_Connect :: "ov_env \<Rightarrow> ovpn \<Rightarrow> ovpn" where
  "ov_Connect env o' =
     (if ov_isDisconnectRequested o' then
        o'\<lparr>ov_pc := Ov_returned (Some (Err ''disconnection already requested for this OpenVPN object. To make a new connection, please, initialize new one''))\<rparr>
      else
        let o' = o'\<lparr>ov_retErr := None\<rparr> in
        if ov_mi o' \<noteq> None then
          ov_return (Some (Err ''unable to connect OpenVPN. Management interface already initialized'')) o'
        else case ov_start_obfsproxy env o' of
          (Some err, o') \<Rightarrow> ov_return (Some err) o'
        | (None, o') \<Rightarrow>
            (case ov_miSecret env of
               Inl err \<Rightarrow> ov_return (Some err) o'
             | Inr miSecret \<Rightarrow> ov_start_mi env miSecret o'))"

text \<open>The process ended.\<close>

definition ov_process_exit :: "error \<Rightarrow> ovpn \<Rightarrow> ovpn" where
  "ov_process_exit err o' =
     (case err of
        Some e \<Rightarrow>
          ov_return (Some (if length (ov_extraParameters o') > 0 then
              Err (''failed to start OpenVPN process: '' @ error_text e
                @ ''. Please, ensure that user-defined OpenVPN configuration parameters are correct'')
            else ErrWrap ''failed to start OpenVPN process'' e)) o'
      | None \<Rightarrow> ov_return (ov_retErr o') o')"

subsection \<open>Forwarding the states\<close>

definition connected_info :: "ovpn \<Rightarrow> StateInfo \<Rightarrow> StateInfo" where
  "connected_info o' st =
     (let st = st\<lparr>si_ExitHostname := o_exitHostname (ov_connectParams o'), si_ClientPort := ov_localPort o',
            si_ServerPort := o_hostPort (ov_connectParams o'), si_IsTCP := o_tcp (ov_connectParams o')\<rparr>
      in case ov_obfsproxy o' of
           None \<Rightarrow> st
         | Some cfg \<Rightarrow> st\<lparr>si_ServerIP := o_hostIP (ov_connectParams o'), si_Obfsproxy := cfg\<rparr>)"

definition ov_on_state :: "ov_env \<Rightarrow> StateInfo \<Rightarrow> ovpn \<Rightarrow> ovpn" where
  "ov_on_state env st o' =
     (let o' = o'\<lparr>ov_state := si_State st\<rparr> in
      if ov_state o' = CONNECTED then
        let o' = o'\<lparr>ov_clientIP := si_ClientIP st\<rparr>;
            st = connected_info o' st;
            (err, o') = implOnConnected env o';
            o' = o'\<lparr>ov_retErr := err\<rparr>
        in if err \<noteq> None then snd (ov_doDisconnect env o')
           else o'\<lparr>ov_forwarded := ov_forwarded o' @ [st\<lparr>si_State := INITIALISED\<rparr>, st]\<rparr>
      else o'\<lparr>ov_clientIP := [], ov_forwarded := ov_forwarded o' @ [st]\<rparr>)"

text \<open>The next state the management interface reported, if there is one.\<close>

definition ov_forward :: "ov_env \<Rightarrow> ovpn \<Rightarrow> ovpn" where
  "ov_forward env o' =
     (case ov_mi o' of
        None \<Rightarrow> o'
      | Some i \<Rightarrow>
          if ov_taken o' < length (mi_states i) then
            ov_on_state env (mi_states i ! ov_taken o') (o'\<lparr>ov_taken := ov_taken o' + 1\<rparr>)
          else o')"

definition ov_obfs_stopped :: "ov_env \<Rightarrow> ovpn \<Rightarrow> ovpn" where
  "ov_obfs_stopped env o' =
     (if ov_obfsproxy o' \<noteq> None \<and> \<not> ov_isDisconnectRequested o' then snd (ov_doDisconnect env o') else o')"

subsection \<open>Disconnecting, pausing and resuming\<close>

text \<open>\<open>Disconnect\<close> up to its wait for the end of \<open>Connect\<close>.\<close>

definition ov_Disconnect :: "ov_env \<Rightarrow> ovpn \<Rightarrow> error \<times> ovpn" where
  "ov_Disconnect env o' =
     (let (err, o') = ov_doDisconnect env o' in (map_option (ErrWrap ''disconnection error '') err, o'))"

definition ov_Disconnect_returns :: "error \<Rightarrow> ovpn \<Rightarrow> bool" where
  "ov_Disconnect_returns err o' \<longleftrightarrow> err \<noteq> None \<or> ov_pc o' \<noteq> Ov_running"

text \<open>\<open>strings.Replace\<close> for all occurrences of a text that is not empty.\<close>

function replace_all :: "string \<Rightarrow> string \<Rightarrow> string \<Rightarrow> string" where
  "replace_all old new s =
     (if old = [] \<or> s = [] then s
      else if prefix old s then new @ replace_all old new (drop (length old) s)
      else hd s # replace_all old new (tl s))"
  by pat_completeness auto
termination
  by (relation "measure (\<lambda>(_, _, s). length s)") (auto simp: prefix_def)

declare replace_all.simps [simp del]

text \<open>\<open>strings.SplitN\<close> at the first space.\<close>

definition split_first :: "string \<Rightarrow> (string \<times> string) option" where
  "split_first s =
     (if CHR '' '' \<notin> set s then None
      else Some (takeWhile (\<lambda>c. c \<noteq> CHR '' '') s, tl (dropWhile (\<lambda>c. c \<noteq> CHR '' '') s)))"

definition ov_shell_Exec :: "ov_env \<Rightarrow> string \<Rightarrow> string list \<Rightarrow> ovpn \<Rightarrow> error \<times> ovpn" where
  "ov_shell_Exec env name args o' = (oe_exec env (name # args), o'\<lparr>ov_commands := ov_commands o' @ [name # args]\<rparr>)"

fun pause_routes :: "ov_env \<Rightarrow> string list \<Rightarrow> error \<Rightarrow> ovpn \<Rightarrow> error \<times> ovpn" where
  "pause_routes env [] retErr o' = (retErr, o')"
| "pause_routes env (cmd # cmds) retErr o' =
     (let delCmd = replace_all ''add'' ''delete'' cmd in
      case split_first delCmd of
        None \<Rightarrow> pause_routes env cmds (Some (Err (''failed to parse route-change command: '' @ delCmd))) o'
      | Some (name, arguments) \<Rightarrow>
          (let (err, o') = ov_shell_Exec env name (split_on (CHR '' '') arguments) o' in
           pause_routes env cmds (if err \<noteq> None then err else retErr) o'))"

definition ov_Pause :: "ov_env \<Rightarrow> ovpn \<Rightarrow> error \<times> ovpn" where
  "ov_Pause env o' =
     (let o' = o'\<lparr>ov_isPaused := True\<rparr> in
      case ov_mi o' of
        None \<Rightarrow> (Some (Err ''OpenVPN MI is nil''), o')
      | Some i \<Rightarrow>
          (let routeAddCommands = GetRouteAddCommands i in
           if length routeAddCommands = 0 then (Some (Err ''OpenVPN: no route-add commands detected''), o')
           else
             let (retErr, o') = pause_routes env routeAddCommands None o' in
             if retErr \<noteq> None then (retErr, o') else implOnPause env o'))"

fun resume_routes :: "ov_env \<Rightarrow> string list \<Rightarrow> ovpn \<Rightarrow> ovpn" where
  "resume_routes env [] o' = o'"
| "resume_routes env (cmd # cmds) o' =
     (case split_first cmd of
        None \<Rightarrow> resume_routes env cmds o'
      | Some (name, arguments) \<Rightarrow>
          if ov_isDisconnectRequested o' \<or> \<not> (case ov_mi o' of Some i \<Rightarrow> HasRouteAddCommands i | None \<Rightarrow> False) then o'
          else resume_routes env cmds (snd (ov_shell_Exec env name (split_on (CHR '' '') arguments) o')))"

text \<open>\<open>Resume\<close> up to its wait; the deferred function replaces the result.\<close>

definition ov_resume_body :: "ov_env \<Rightarrow> ovpn \<Rightarrow> error \<times> ovpn" where
  "ov_resume_body env o' =
     (case ov_mi o' of
        None \<Rightarrow> (Some (Err ''OpenVPN MI is nil''), o')
      | Some i \<Rightarrow>
          (let routeAddCommands = GetRouteAddCommands i in
           if length routeAddCommands = 0 then (Some (Err ''OpenVPN: no route-add commands detected''), o')
           else (None, resume_routes env routeAddCommands o')))"

definition ov_Resume :: "ov_env \<Rightarrow> ovpn \<Rightarrow> error \<times> ovpn" where
  "ov_Resume env o' =
     (let (retErr, o') = ov_resume_body env o'; o' = o'\<lparr>ov_isPaused := False\<rparr>; (retErr, o') = implOnResume env o'
      in (retErr, o'))"

definition ov_Resume_returns :: "ovpn \<Rightarrow> bool" where
  "ov_Resume_returns o' \<longleftrightarrow> \<not> IsConnecting (ov_state o')"

subsection \<open>Runs\<close>

datatype ov_event =
    Ov_Connect
  | Ov_Mi mi_event
  | Ov_forward
  | Ov_obfs_stopped
  | Ov_exit error
  | Ov_Disconnect
  | Ov_Pause
  | Ov_Resume
  | Ov_SetManualDNS DnsSettings
  | Ov_ResetManualDNS

text \<open>
  The goroutines of a connection run while \<open>Connect\<close> does; that of the management interface can
  outlive it, and the console of the process ends with the process.
\<close>

fun ov_step :: "ov_env \<times> ov_event \<Rightarrow> ovpn \<Rightarrow> ovpn" where
  "ov_step (env, Ov_Connect) o' = (if ov_pc o' = Ov_running then o' else ov_Connect env o')"
| "ov_step (env, Ov_Mi e) o' =
     (if e = Mi_disconnect \<or> e = Mi_secret_seen \<and> ov_pc o' \<noteq> Ov_running then o'
      else o'\<lparr>ov_mi := map_option (mi_step (oe_mi env, e)) (ov_mi o')\<rparr>)"
| "ov_step (env, Ov_forward) o' = (if ov_pc o' = Ov_running then ov_forward env o' else o')"
| "ov_step (env, Ov_obfs_stopped) o' = (if ov_pc o' = Ov_running then ov_obfs_stopped env o' else o')"
| "ov_step (env, Ov_exit err) o' = (if ov_pc o' = Ov_running then ov_process_exit err o' else o')"
| "ov_step (env, Ov_Disconnect) o' = snd (ov_Disconnect env o')"
| "ov_step (env, Ov_Pause) o' = snd (ov_Pause env o')"
| "ov_step (env, Ov_Resume) o' = snd (ov_Resume env o')"
| "ov_step (env, Ov_SetManualDNS d) o' = snd (implOnSetManualDNS env d o')"
| "ov_step (env, Ov_ResetManualDNS) o' = snd (implOnResetManualDNS env o')"

end
