(* ===== verification/Ovpn_Routes.thy ===== *)
theory Ovpn_Routes
  imports Ovpn_Process System_Dns_Proofs
begin

section \<open>The route commands a pause undoes and a resumption repeats\<close>

text \<open>
  The commands come from the log of OpenVPN, which a server can influence. What is remembered
  always begins with the command of the platform, so a pause and a resumption run no other
  program; and for the routes OpenVPN logs they are inverse to each other on the routing table.
\<close>

subsection \<open>Trimming keeps what is visible\<close>

definition visible :: "char \<Rightarrow> bool" where
  "visible c \<longleftrightarrow> 33 \<le> (of_char c :: nat) \<and> (of_char c :: nat) \<le> 126"

lemma space_seqs_invisible: "p \<in> set space_seqs \<Longrightarrow> c \<in> set p \<Longrightarrow> \<not> visible c"
proof -
  have "list_all (list_all (\<lambda>c. \<not> visible c)) space_seqs" by code_simp
  then show "p \<in> set space_seqs \<Longrightarrow> c \<in> set p \<Longrightarrow> \<not> visible c" by (simp add: list_all_iff)
qed

lemma drop_seqs_visible:
  assumes "\<forall>p \<in> set ps. \<forall>c \<in> set p. \<not> visible c" "visible x"
  shows "\<exists>u'. drop_seqs ps (u @ x # v) = u' @ x # v \<and> suffix u' u"
proof (induction "length u" arbitrary: u rule: less_induct)
  case less
  show ?case
  proof (cases "find (\<lambda>p. p \<noteq> [] \<and> prefix p (u @ x # v)) ps")
    case None
    then have "drop_seqs ps (u @ x # v) = u @ x # v" by (subst drop_seqs.simps) simp
    then show ?thesis by blast
  next
    case (Some p)
    then have p: "p \<in> set ps" "p \<noteq> []" "prefix p (u @ x # v)" by (auto simp: find_Some_iff)
    have "prefix p u"
    proof (rule ccontr)
      assume "\<not> prefix p u"
      then obtain q where q: "p = u @ q" "q \<noteq> []" "prefix q (x # v)"
        using p(3) by (auto simp: prefix_append)
      then have "x \<in> set p" by (auto simp: prefix_Cons)
      then show False using assms p(1) by blast
    qed
    then obtain w where w: "u = p @ w" by (auto simp: prefix_def)
    have "drop_seqs ps (u @ x # v) = drop_seqs ps (w @ x # v)"
      using Some w by (subst drop_seqs.simps) simp
    moreover obtain u' where "drop_seqs ps (w @ x # v) = u' @ x # v" "suffix u' w"
      using less [of w] w p(2) by auto
    ultimately show ?thesis using w by (metis suffix_appendI)
  qed
qed

lemma trim_visible:
  assumes "visible (hd p)" "visible (last p)" "p \<noteq> []"
  shows "prefix p (trim_space (p @ t))"
proof -
  obtain x q where q: "p = x # q" using assms(3) by (cases p) auto
  have "drop_seqs space_seqs ([] @ x # (q @ t)) = [] @ x # (q @ t)"
    using drop_seqs_visible [of space_seqs x "[]" "q @ t"] space_seqs_invisible assms(1) q by auto
  then have 1: "drop_seqs space_seqs (p @ t) = p @ t" using q by simp
  have i: "\<forall>p \<in> set (map rev space_seqs). \<forall>c \<in> set p. \<not> visible c" using space_seqs_invisible by auto
  have r: "rev (p @ t) = rev t @ last p # rev (butlast p)"
    using assms(3) by (metis append_butlast_last_id rev.simps(2) rev_append rev_singleton_conv append_Cons append_Nil rev_rev_ident)
  obtain u where "drop_seqs (map rev space_seqs) (rev (p @ t)) = u @ last p # rev (butlast p)"
    unfolding r using drop_seqs_visible [OF i assms(2)] by blast
  then have "trim_space (p @ t) = butlast p @ [last p] @ rev u" unfolding trim_space_def 1 by simp
  then have "trim_space (p @ t) = p @ rev u" using assms(3) by (metis append_butlast_last_id append_assoc)
  then show ?thesis by simp
qed

subsection \<open>The form of the remembered commands\<close>

lemma lower_idem [simp]: "to_lower_char (to_lower_char c) = to_lower_char c"
  by (auto simp: to_lower_char_def)

lemma lower_ascii: "(of_char (to_lower_char c) :: nat) < 128 \<Longrightarrow> (of_char c :: nat) < 128"
  by (auto simp: to_lower_char_def split: if_splits)

lemma fold_char_run:
  assumes "(s', c') \<in> set (rx_run (rx_fold_char a) (s, c))"
    and "s \<noteq> [] \<and> (of_char (hd s) :: nat) < 128 \<or> to_lower_char a \<notin> {CHR ''s'', CHR ''k''}"
  shows "\<exists>x. s = x # s' \<and> to_lower_char x = to_lower_char a"
  using assms by (cases s) (auto simp: rx_fold_char_def Let_def rx_lit_run split: if_splits)

lemma fold_run:
  assumes "(s', c') \<in> set (rx_run (rx_lit_fold w) (s, c))"
    and "(\<exists>u v. s = u @ v \<and> length u = length w \<and> (\<forall>x \<in> set u. (of_char x :: nat) < 128))
      \<or> (\<forall>a \<in> set w. to_lower_char a \<notin> {CHR ''s'', CHR ''k''})"
  shows "\<exists>u. s = u @ s' \<and> map to_lower_char u = map to_lower_char w"
  using assms
proof (induction w arbitrary: s c)
  case (Cons a w)
  obtain s1 c1 where r: "(s1, c1) \<in> set (rx_run (rx_fold_char a) (s, c))"
    "(s', c') \<in> set (rx_run (rx_lit_fold w) (s1, c1))" using Cons.prems(1) by auto
  have "s \<noteq> [] \<and> (of_char (hd s) :: nat) < 128 \<or> to_lower_char a \<notin> {CHR ''s'', CHR ''k''}"
    using Cons.prems(2) by (auto simp: length_Suc_conv)
  from fold_char_run [OF r(1) this] obtain x where x: "s = x # s1" "to_lower_char x = to_lower_char a" by blast
  have "(\<exists>u v. s1 = u @ v \<and> length u = length w \<and> (\<forall>x \<in> set u. (of_char x :: nat) < 128))
      \<or> (\<forall>a \<in> set w. to_lower_char a \<notin> {CHR ''s'', CHR ''k''})"
    using Cons.prems(2) x(1) by (auto simp: length_Suc_conv)
  from Cons.IH [OF r(2) this] obtain u where "s1 = u @ s'" "map to_lower_char u = map to_lower_char w" by blast
  then have "s = (x # u) @ s' \<and> map to_lower_char (x # u) = map to_lower_char (a # w)" using x by simp
  then show ?case by blast
qed simp

lemma star_sym_run:
  "(s', c') \<in> set (rx_run (Star (Sym P)) (s, c)) \<Longrightarrow> \<exists>u. s = u @ s' \<and> list_all P u"
proof (induction s arbitrary: c)
  case Nil
  then show ?case using rx_run_star [OF Nil] by auto
next
  case (Cons x s)
  from rx_run_star [OF Cons.prems] show ?case
  proof
    assume "\<exists>y. y \<in> set (rx_run (Sym P) (x # s, c)) \<and> length (fst y) < length (x # s)
      \<and> (s', c') \<in> set (rx_run (Star (Sym P)) y)"
    then have "P x" "(s', c') \<in> set (rx_run (Star (Sym P)) (s, c))" by (auto split: if_splits)
    then obtain u where "s = u @ s'" "list_all P u" "P x" using Cons.IH [of c] by blast
    then have "x # s = (x # u) @ s' \<and> list_all P (x # u)" by simp
    then show ?thesis by blast
  qed auto
qed

definition ip_route_cmd :: string where "ip_route_cmd = ''/sbin/ip route''"

definition route_cmd :: "string \<Rightarrow> bool" where
  "route_cmd c \<longleftrightarrow> (\<exists>n t. c = ip_route_cmd @ replicate (Suc n) (CHR '' '') @ ''add'' @ t)"

lemma trim_route_cmd: "route_cmd c \<Longrightarrow> route_cmd (trim_space c)"
proof -
  assume "route_cmd c"
  then obtain n t where c: "c = (ip_route_cmd @ replicate (Suc n) (CHR '' '') @ ''add'') @ t" by (auto simp: route_cmd_def)
  have "prefix (ip_route_cmd @ replicate (Suc n) (CHR '' '') @ ''add'') (trim_space c)"
    unfolding c by (rule trim_visible) (simp_all add: ip_route_cmd_def visible_def)
  then show ?thesis by (auto simp: route_cmd_def prefix_def)
qed

lemma lower_equal: "map to_lower_char u = map to_lower_char w \<Longrightarrow> map to_lower_char u = u \<Longrightarrow> u = map to_lower_char w"
  by simp

lemma list_all_same: "list_all ((=) a) u \<Longrightarrow> u = replicate (length u) a"
  by (induction u) auto

lemma rx_run_Seq:
  "(s', c') \<in> set (rx_run (Seq a b) (s, c)) \<Longrightarrow>
     \<exists>s1 c1. (s1, c1) \<in> set (rx_run a (s, c)) \<and> (s', c') \<in> set (rx_run b (s1, c1))"
  by auto

text \<open>The first pattern, with the check of \<open>addRouteAddCommand\<close>.\<close>

lemma old_pattern_route_cmd:
  assumes "rx_at (mesLogRouteAddCmdRegexp ip_route_cmd) (to_lower x) = Some (m, c)"
    and "prefix (to_lower ip_route_cmd) (to_lower m)"
  shows "route_cmd m"
proof -
  define s where "s = to_lower x"
  have low: "map to_lower_char s = s" by (simp add: s_def to_lower_def)
  obtain s' where s': "s = m @ s'" "(s', c) \<in> set (rx_run (mesLogRouteAddCmdRegexp ip_route_cmd) (s, []))"
    using rx_at_split [OF assms(1)] unfolding s_def by blast
  obtain s1 c1 p1 where r1: "(s1, c1) \<in> set (rx_run (rx_lit_fold ip_route_cmd) (s, []))"
    and p1: "(s', c) \<in> set (rx_run (Seq (rx_plus (Sym ((=) CHR '' ''))) (Seq (rx_lit_fold ''ADD'') p1)) (s1, c1))"
    using rx_run_Seq [OF s'(2) [unfolded mesLogRouteAddCmdRegexp_def]] by blast
  obtain s3 c3 where r23: "(s3, c3) \<in> set (rx_run (rx_plus (Sym ((=) CHR '' ''))) (s1, c1))"
    and p3: "(s', c) \<in> set (rx_run (Seq (rx_lit_fold ''ADD'') p1) (s3, c3))" using rx_run_Seq [OF p1] by blast
  obtain s2 c2 where r2: "(s2, c2) \<in> set (rx_run (Sym ((=) CHR '' '')) (s1, c1))"
    and r3: "(s3, c3) \<in> set (rx_run (Star (Sym ((=) CHR '' ''))) (s2, c2))" using rx_run_Seq [OF r23] by blast
  obtain s4 c4 where r4: "(s4, c4) \<in> set (rx_run (rx_lit_fold ''ADD'') (s3, c3))"
    and p4: "(s', c) \<in> set (rx_run p1 (s4, c4))" using rx_run_Seq [OF p3] by blast
  obtain u v where uv: "m = u @ v" "map to_lower_char u = to_lower ip_route_cmd"
    using assms(2) by (auto simp: to_lower_def prefix_def map_eq_append_conv)
  have len: "length u = length ip_route_cmd" using uv(2) by (metis length_map to_lower_def)
  have ascii: "\<forall>a \<in> set u. (of_char a :: nat) < 128"
  proof -
    have "list_all (\<lambda>a. (of_char a :: nat) < 128) (to_lower ip_route_cmd)" by code_simp
    then have "\<forall>a \<in> set (to_lower ip_route_cmd). (of_char a :: nat) < 128" unfolding list_all_iff .
    then show ?thesis using uv(2) lower_ascii by (metis image_eqI list.set_map)
  qed
  have "s = u @ (v @ s')" using s'(1) uv(1) by simp
  with len ascii fold_run [OF r1] obtain w where
    w: "s = w @ s1" "map to_lower_char w = map to_lower_char ip_route_cmd" by blast
  obtain k where k: "s2 = replicate k (CHR '' '') @ s3"
    using star_sym_run [OF r3] list_all_same by metis
  have "list_all (\<lambda>a. to_lower_char a \<notin> {CHR ''s'', CHR ''k''}) ''ADD''" by code_simp
  then have "\<forall>a \<in> set ''ADD''. to_lower_char a \<notin> {CHR ''s'', CHR ''k''}" unfolding list_all_iff .
  with fold_run [OF r4] obtain d where d: "s3 = d @ s4" "map to_lower_char d = map to_lower_char ''ADD''" by blast
  have s1: "s1 = CHR '' '' # s2" using r2 by (auto split: list.splits if_splits)
  obtain e where e: "s4 = e @ s'" using rx_run_suffix [OF p4] unfolding suffix_def by blast
  have s: "s = w @ (CHR '' '' # replicate k (CHR '' '')) @ d @ s4" using w(1) s1 k d(1) by simp
  then have "map to_lower_char w = w" "map to_lower_char d = d" using low by auto
  moreover have "map to_lower_char ip_route_cmd = ip_route_cmd" "map to_lower_char ''ADD'' = ''add''" by code_simp+
  ultimately have "w = ip_route_cmd" "d = ''add''" using w(2) d(2) by metis+
  then have "m @ s' = (ip_route_cmd @ replicate (Suc k) (CHR '' '') @ ''add'' @ e) @ s'"
    using s s'(1) e by simp
  then have "m = ip_route_cmd @ replicate (Suc k) (CHR '' '') @ ''add'' @ e" by simp
  then show ?thesis by (auto simp: route_cmd_def)
qed

definition routes_ok :: "mi \<Rightarrow> bool" where
  "routes_ok i \<longleftrightarrow> (\<forall>c \<in> set (mi_routeAddCmds i). route_cmd c)"

lemma routes_other [simp]:
  "routes_ok (snd (sendResp env c i)) = routes_ok i" "routes_ok (snd (mi_sendResponse env cs i)) = routes_ok i"
  "routes_ok (onPushReplyCommands cs i) = routes_ok i" "routes_ok (mi_on_password env t i) = routes_ok i"
  "routes_ok (snd (SendDisconnect env i)) = routes_ok i" "routes_ok (StopManagementInterface i) = routes_ok i"
  "routes_ok (mi_stop i) = routes_ok i" "routes_ok (SetConnectionVerified i) = routes_ok i"
proof -
  show s: "routes_ok (snd (sendResp env c i)) = routes_ok i" for c i
    by (simp add: sendResp_def routes_ok_def Let_def split: option.split)
  show r: "routes_ok (snd (mi_sendResponse env cs i)) = routes_ok i" for cs i
  proof (induction cs arbitrary: i)
    case (Cons c cs)
    then show ?case using s [of c i] by (simp split: prod.split option.split) (metis snd_conv)
  qed simp
  show "routes_ok (onPushReplyCommands cs i) = routes_ok i"
    by (simp add: onPushReplyCommands_def routes_ok_def split: prod.split)
  show "routes_ok (mi_on_password env t i) = routes_ok i" by (simp add: mi_on_password_def Let_def s)
  show "routes_ok (snd (SendDisconnect env i)) = routes_ok i"
    unfolding SendDisconnect_def r by (simp add: routes_ok_def)
qed (simp_all add: StopManagementInterface_def mi_stop_def SetConnectionVerified_def routes_ok_def)

lemma routes_updates [simp]:
  "routes_ok (i\<lparr>mi_miConn := b\<rparr>) = routes_ok i" "routes_ok (i\<lparr>mi_pc := pc\<rparr>) = routes_ok i"
  "routes_ok (i\<lparr>mi_isConnVerified := b\<rparr>) = routes_ok i"
  by (simp_all add: routes_ok_def)

lemma routes_state: "routes_ok i \<Longrightarrow> routes_ok (mi_on_state t i)"
  by (auto simp: mi_on_state_def routes_ok_def eraseRouteAddCommands_def Let_def split: prod.split option.split)

lemma routes_log:
  assumes "routes_ok i" "mi_RouteCommand env = ip_route_cmd"
  shows "routes_ok (mi_on_log env t i)"
proof -
  let ?x = "split_on (CHR '','') t ! 2"
  have add: "routes_ok (addRouteAddCommand env c i)"
    if "prefix (to_lower ip_route_cmd) (to_lower c) \<Longrightarrow> route_cmd c" for c
    using that assms trim_route_cmd [of c] by (auto simp: addRouteAddCommand_def routes_ok_def)
  have old: "routes_ok (addRouteAddCommand env m i)"
    if "rx_at (mesLogRouteAddCmdRegexp ip_route_cmd) (to_lower ?x) = Some (m, c)" for m c
    by (rule add) (rule old_pattern_route_cmd [OF that])
  have "route_cmd (ip_route_cmd @ '' add '' @ g)" for g
    unfolding route_cmd_def by (rule exI [of _ 0], rule exI [of _ "'' '' @ g"]) simp
  then have new: "routes_ok (addRouteAddCommand env (ip_route_cmd @ '' add '' @ g) i)" for g by (rule add)
  show ?thesis using old new assms
    by (simp only: mi_on_log_def Let_def assms(2) routes_other split: option.split prod.split if_split) blast
qed

lemma routes_step:
  assumes "routes_ok i" "mi_RouteCommand (fst e) = ip_route_cmd"
  shows "routes_ok (mi_step e i)"
proof (cases "(e, i)" rule: mi_step.cases)
  case (1 env err i')
  then show ?thesis using assms by (simp add: mi_accept_def Let_def del: mi_sendResponse.simps)
next
  case (3 env i')
  then show ?thesis using assms by (simp add: mi_verify_def del: mi_sendResponse.simps)
next
  case (4 env m i')
  have "routes_ok (mi_message env m i)"
    using assms 4 routes_state [OF assms(1)] routes_log [OF assms(1), of env]
    by (simp add: mi_message_def Let_def del: mi_sendResponse.simps split: option.split)
  then show ?thesis using 4 assms by simp
qed (use assms in simp_all)

lemma routes_new: "StartManagementInterface s u p l = Inr i \<Longrightarrow> routes_ok i"
  by (auto simp: StartManagementInterface_def routes_ok_def split: option.splits)

subsection \<open>The commands a pause and a resumption run\<close>

lemma replace_all_skip:
  "CHR ''a'' \<notin> set p \<Longrightarrow> replace_all ''add'' new (p @ t) = p @ replace_all ''add'' new t"
proof (induction p)
  case (Cons x p)
  have "replace_all ''add'' new (x # (p @ t)) = x # replace_all ''add'' new (p @ t)"
    using Cons.prems by (subst replace_all.simps) simp
  then show ?case using Cons by simp
qed simp

lemma replace_all_add: "replace_all ''add'' new (''add'' @ t) = new @ replace_all ''add'' new t"
  by (subst replace_all.simps) simp

lemma split_first_cmd: "split_first (ip_route_cmd @ CHR '' '' # t) = Some (''/sbin/ip'', ''route'' @ CHR '' '' # t)"
  by (simp add: split_first_def ip_route_cmd_def)

lemma route_words: "split_on (CHR '' '') (''route'' @ CHR '' '' # t) = ''route'' # split_on (CHR '' '') t"
  by (rule split_on_append) simp

definition is_ip_route :: "string list \<Rightarrow> bool" where
  "is_ip_route c \<longleftrightarrow> (\<exists>args. c = ''/sbin/ip'' # ''route'' # args)"

lemma ip_route_split:
  "\<exists>a. split_first (ip_route_cmd @ CHR '' '' # t) = Some (''/sbin/ip'', a)
    \<and> is_ip_route (''/sbin/ip'' # split_on (CHR '' '') a)"
  by (rule exI, rule conjI, rule split_first_cmd) (unfold is_ip_route_def route_words, rule exI, rule refl)

lemma ip_route_delete:
  assumes "route_cmd c"
  shows "\<exists>a. split_first (replace_all ''add'' ''delete'' c) = Some (''/sbin/ip'', a)
    \<and> is_ip_route (''/sbin/ip'' # split_on (CHR '' '') a)"
proof -
  obtain n t where c: "c = ip_route_cmd @ CHR '' '' # replicate n (CHR '' '') @ ''add'' @ t"
    using assms by (auto simp: route_cmd_def)
  have a: "CHR ''a'' \<notin> set (ip_route_cmd @ CHR '' '' # replicate n (CHR '' ''))" by (simp add: ip_route_cmd_def)
  have "replace_all ''add'' ''delete'' c
      = ip_route_cmd @ CHR '' '' # (replicate n (CHR '' '') @ replace_all ''add'' ''delete'' (''add'' @ t))"
    using replace_all_skip [OF a, of "''delete''" "''add'' @ t"] unfolding c append_assoc append_Cons .
  then show ?thesis using ip_route_split by metis
qed

lemma ip_route_add:
  assumes "route_cmd c"
  shows "\<exists>a. split_first c = Some (''/sbin/ip'', a) \<and> is_ip_route (''/sbin/ip'' # split_on (CHR '' '') a)"
proof -
  obtain n t where "c = ip_route_cmd @ CHR '' '' # replicate n (CHR '' '') @ ''add'' @ t"
    using assms by (auto simp: route_cmd_def)
  then show ?thesis using ip_route_split by metis
qed

definition ov_routes_ok :: "ovpn \<Rightarrow> bool" where
  "ov_routes_ok o' \<longleftrightarrow> (\<forall>i. ov_mi o' = Some i \<longrightarrow> routes_ok i) \<and> (\<forall>c \<in> set (ov_commands o'). is_ip_route c)"

lemma exec_routes_ok:
  "ov_routes_ok o' \<Longrightarrow> is_ip_route (p # args) \<Longrightarrow> ov_routes_ok (snd (ov_shell_Exec env p args o'))"
  by (simp add: ov_shell_Exec_def ov_routes_ok_def)

lemma pause_routes_ok:
  "\<forall>c \<in> set cs. route_cmd c \<Longrightarrow> ov_routes_ok o' \<Longrightarrow> ov_routes_ok (snd (pause_routes env cs e o'))"
proof (induction cs arbitrary: e o')
  case (Cons c cs)
  from Cons.prems(1) have "route_cmd c" by simp
  from ip_route_delete [OF this] obtain a where a: "split_first (replace_all ''add'' ''delete'' c) = Some (''/sbin/ip'', a)"
    "is_ip_route (''/sbin/ip'' # split_on (CHR '' '') a)" by blast
  obtain e1 o1 where x: "ov_shell_Exec env ''/sbin/ip'' (split_on (CHR '' '') a) o' = (e1, o1)" by fastforce
  then have "ov_routes_ok o1" using exec_routes_ok [OF Cons.prems(2) a(2)] by (metis snd_conv)
  then show ?case using Cons.IH [of o1] Cons.prems(1) a(1) x by simp
qed simp

lemma resume_routes_ok:
  "\<forall>c \<in> set cs. route_cmd c \<Longrightarrow> ov_routes_ok o' \<Longrightarrow> ov_routes_ok (resume_routes env cs o')"
proof (induction cs arbitrary: o')
  case (Cons c cs)
  from Cons.prems(1) have "route_cmd c" by simp
  from ip_route_add [OF this] obtain a where a: "split_first c = Some (''/sbin/ip'', a)"
    "is_ip_route (''/sbin/ip'' # split_on (CHR '' '') a)" by blast
  then have "ov_routes_ok (snd (ov_shell_Exec env ''/sbin/ip'' (split_on (CHR '' '') a) o'))"
    using exec_routes_ok [OF Cons.prems(2)] by blast
  then show ?case using Cons.IH Cons.prems a(1) by simp
qed simp

lemma ov_on_sys_routes [simp]: "ov_routes_ok (snd (ov_on_sys f o')) = ov_routes_ok o'"
  by (simp add: ov_on_sys_def case_prod_unfold Let_def ov_routes_ok_def)

lemma ov_dns_routes [simp]:
  "ov_routes_ok (snd (implOnConnected env o')) = ov_routes_ok o'" "ov_routes_ok (snd (implOnPause env o')) = ov_routes_ok o'"
  "ov_routes_ok (snd (implOnResume env o')) = ov_routes_ok o'"
  "ov_routes_ok (snd (implOnSetManualDNS env d o')) = ov_routes_ok o'"
  "ov_routes_ok (snd (implOnResetManualDNS env o')) = ov_routes_ok o'"
  by (simp_all add: implOnConnected_def implOnPause_def implOnResume_def implOnSetManualDNS_def
      implOnResetManualDNS_def Let_def) (simp_all add: ov_routes_ok_def)

lemma ov_updates_routes [simp]:
  "ov_routes_ok (o'\<lparr>ov_isPaused := b\<rparr>) = ov_routes_ok o'" "ov_routes_ok (o'\<lparr>ov_pc := pc\<rparr>) = ov_routes_ok o'"
  "ov_routes_ok (o'\<lparr>ov_state := st\<rparr>) = ov_routes_ok o'" "ov_routes_ok (o'\<lparr>ov_taken := k\<rparr>) = ov_routes_ok o'"
  "ov_routes_ok (o'\<lparr>ov_clientIP := ip\<rparr>) = ov_routes_ok o'" "ov_routes_ok (o'\<lparr>ov_retErr := e\<rparr>) = ov_routes_ok o'"
  "ov_routes_ok (o'\<lparr>ov_forwarded := f\<rparr>) = ov_routes_ok o'" "ov_routes_ok (o'\<lparr>ov_localPort := n\<rparr>) = ov_routes_ok o'"
  "ov_routes_ok (o'\<lparr>ov_obfsproxy := c\<rparr>) = ov_routes_ok o'" "ov_routes_ok (o'\<lparr>ov_connectParams := cp\<rparr>) = ov_routes_ok o'"
  "ov_routes_ok (o'\<lparr>ov_isDisconnectRequested := b\<rparr>) = ov_routes_ok o'"
  "ov_routes_ok (o'\<lparr>ov_clientIP := ip, ov_forwarded := f\<rparr>) = ov_routes_ok o'"
  by (simp_all add: ov_routes_ok_def)

lemma ov_disconnect_routes:
  assumes "ov_routes_ok o'"
  shows "ov_routes_ok (snd (ov_doDisconnect env o'))"
proof (cases "ov_mi o'")
  case (Some i)
  have "routes_ok (snd (SendDisconnect (oe_mi env) i))" using assms Some by (simp add: ov_routes_ok_def)
  then show ?thesis using assms Some
    by (simp add: ov_doDisconnect_def Let_def case_prod_unfold) (simp add: ov_routes_ok_def)
qed (use assms in \<open>simp add: ov_doDisconnect_def Let_def\<close>)

lemma ov_return_routes: "ov_routes_ok o' \<Longrightarrow> ov_routes_ok (ov_return e o')"
  by (auto simp: ov_return_def ov_routes_ok_def)

lemma ov_obfs_routes: "ov_start_obfsproxy env o' = (e, o'') \<Longrightarrow> ov_routes_ok o'' = ov_routes_ok o' \<and> ov_mi o'' = ov_mi o'"
  by (auto simp: ov_start_obfsproxy_def Let_def split: if_splits option.splits sum.splits)

lemma ov_file_routes: "WriteConfigFile env a p o' = (e, o'') \<Longrightarrow> ov_routes_ok o'' = ov_routes_ok o'"
  by (auto simp: WriteConfigFile_def ov_routes_ok_def split: option.splits sum.splits)

lemma ov_start_routes:
  assumes "ov_routes_ok o'"
  shows "ov_routes_ok (ov_start_mi env s o')"
proof (cases "StartManagementInterface s (o_username (ov_connectParams o')) (o_password (ov_connectParams o')) (oe_listen env)")
  case (Inr i)
  have "ov_routes_ok (o'\<lparr>ov_mi := Some i\<rparr>)" "ov_routes_ok (o'\<lparr>ov_mi := Some i, ov_localPort := 0\<rparr>)"
    using assms routes_new [OF Inr] by (simp_all add: ov_routes_ok_def)
  then show ?thesis using Inr
    by (auto simp: ov_start_mi_def Let_def ov_return_routes dest: ov_file_routes split: sum.split prod.split option.split)
qed (use assms in \<open>simp add: ov_start_mi_def ov_return_routes\<close>)

lemma ov_connect_routes: "ov_routes_ok o' \<Longrightarrow> ov_routes_ok (ov_Connect env o')"
  by (auto simp: ov_Connect_def Let_def ov_return_routes ov_start_routes dest: ov_obfs_routes
      split: prod.split option.split sum.split)

lemma ov_state_routes:
  assumes "ov_routes_ok o'"
  shows "ov_routes_ok (ov_on_state env st o')"
proof -
  let ?o = "o'\<lparr>ov_state := si_State st, ov_clientIP := si_ClientIP st\<rparr>"
  have "ov_routes_ok ?o" using assms by (simp add: ov_routes_ok_def)
  then have "ov_routes_ok (snd (implOnConnected env ?o))" by simp
  then show ?thesis using assms
    by (auto simp: ov_on_state_def Let_def case_prod_unfold intro: ov_disconnect_routes)
qed

lemma ov_pause_routes: "ov_routes_ok o' \<Longrightarrow> ov_routes_ok (snd (ov_Pause env o'))"
  using pause_routes_ok [of _ "o'\<lparr>ov_isPaused := True\<rparr>" env None]
  by (auto simp: ov_Pause_def Let_def case_prod_unfold GetRouteAddCommands_def ov_routes_ok_def [of o'] routes_ok_def
      split: option.split)

lemma ov_resume_routes: "ov_routes_ok o' \<Longrightarrow> ov_routes_ok (snd (ov_Resume env o'))"
  using resume_routes_ok [of _ o' env]
  by (auto simp: ov_Resume_def ov_resume_body_def Let_def case_prod_unfold GetRouteAddCommands_def
      ov_routes_ok_def [of o'] routes_ok_def split: option.split)

lemma ov_step_routes:
  assumes "ov_routes_ok o'" "mi_RouteCommand (oe_mi (fst e)) = ip_route_cmd"
  shows "ov_routes_ok (ov_step e o')"
proof (cases "(e, o')" rule: ov_step.cases)
  case (2 env ev u)
  have "routes_ok (mi_step (oe_mi env, ev) i)" if "ov_mi o' = Some i" for i
    using routes_step [of i "(oe_mi env, ev)"] that assms 2 by (simp add: ov_routes_ok_def)
  then show ?thesis using assms(1) 2 by (auto simp: ov_routes_ok_def)
next
  case (3 env u)
  have "ov_routes_ok (ov_forward env o')"
    using assms(1) by (simp add: ov_forward_def ov_state_routes split: option.split)
  then show ?thesis using 3 assms(1) by simp
next
  case (4 env u)
  then show ?thesis using assms(1) by (simp add: ov_obfs_stopped_def ov_disconnect_routes)
next
  case (5 env err u)
  then show ?thesis using assms(1) by (simp add: ov_process_exit_def ov_return_routes split: option.split)
next
  case (6 env u)
  then show ?thesis using assms(1) by (simp add: ov_Disconnect_def case_prod_unfold Let_def ov_disconnect_routes)
qed (use assms(1) ov_connect_routes ov_pause_routes ov_resume_routes in simp_all)

lemma ov_run_routes:
  "ov_routes_ok o' \<Longrightarrow> \<forall>e \<in> set es. mi_RouteCommand (oe_mi (fst e)) = ip_route_cmd \<Longrightarrow>
    ov_routes_ok (fold ov_step es o')"
  by (induction es arbitrary: o') (simp_all add: ov_step_routes)

text \<open>
  C4: Whatever OpenVPN, and through its log the server, writes to the management interface, and
  in whatever order connections, pauses and resumptions happen, the only commands the daemon runs
  with its privileges for the routes of an OpenVPN connection are \<^verbatim>\<open>/sbin/ip route\<close> with arguments:
  no line of a log can choose another program or another object of it.
\<close>

theorem route_commands_confined:
  fixes o' :: ovpn and es :: "(ov_env \<times> ov_event) list"
  assumes "NewOpenVpnObject logFile obfsproxy extra cp d = Inr o'"
    and "\<forall>e \<in> set es. mi_RouteCommand (oe_mi (fst e)) = ''/sbin/ip route''"
  shows "\<forall>c \<in> set (ov_commands (fold ov_step es o')). \<exists>args. c = ''/sbin/ip'' # ''route'' # args"
proof -
  have "ov_routes_ok o'" using assms(1) by (auto simp: NewOpenVpnObject_def ov_routes_ok_def split: if_splits)
  moreover have "\<forall>e \<in> set es. mi_RouteCommand (oe_mi (fst e)) = ip_route_cmd"
    using assms(2) unfolding ip_route_cmd_def .
  ultimately have "ov_routes_ok (fold ov_step es o')" by (rule ov_run_routes)
  then show ?thesis unfolding ov_routes_ok_def is_ip_route_def by blast
qed

subsection \<open>A resumption undoes a pause\<close>

text \<open>What the kernel's routing table does with the commands: routes are named by their arguments.\<close>

fun ip_route :: "string list \<Rightarrow> string list set \<Rightarrow> string list set" where
  "ip_route (p # r # a # x) T =
     (if a = ''add'' then insert x T else if a = ''delete'' then T - {x} else T)"
| "ip_route _ T = T"

definition add_text :: "string \<Rightarrow> string" where "add_text t = ''/sbin/ip route add '' @ t"

definition route_with :: "string \<Rightarrow> string \<Rightarrow> string list" where
  "route_with a t = ''/sbin/ip'' # ''route'' # a # split_on (CHR '' '') t"

lemma replace_all_none: "CHR ''d'' \<notin> set t \<Longrightarrow> replace_all ''add'' new t = t"
proof (induction t)
  case (Cons x t)
  have n: "\<not> prefix ''add'' (x # t)"
  proof
    assume "prefix ''add'' (x # t)"
    then have "CHR ''d'' \<in> set (x # t)" using set_mono_prefix by fastforce
    then show False using Cons.prems by blast
  qed
  have "replace_all ''add'' new (x # t) = x # replace_all ''add'' new t"
    by (subst replace_all.simps) (simp only: n if_False list.distinct list.sel simp_thms)
  then show ?case using Cons by simp
qed (simp add: replace_all.simps)

lemma delete_text:
  assumes "CHR ''d'' \<notin> set t"
  shows "replace_all ''add'' ''delete'' (add_text t) = ip_route_cmd @ CHR '' '' # (''delete'' @ CHR '' '' # t)"
proof -
  have a: "CHR ''a'' \<notin> set (ip_route_cmd @ '' '')" by (simp add: ip_route_cmd_def)
  have t: "add_text t = (ip_route_cmd @ '' '') @ (''add'' @ CHR '' '' # t)" by (simp add: add_text_def ip_route_cmd_def)
  have d: "CHR ''d'' \<notin> set (CHR '' '' # t)" using assms by simp
  show ?thesis
    unfolding t replace_all_skip [OF a] replace_all_add replace_all_none [OF d] by simp
qed

lemma split_delete:
  assumes "CHR ''d'' \<notin> set t"
  shows "\<exists>a. split_first (replace_all ''add'' ''delete'' (add_text t)) = Some (''/sbin/ip'', a)
    \<and> ''/sbin/ip'' # split_on (CHR '' '') a = route_with ''delete'' t"
proof -
  have "split_on (CHR '' '') (''delete'' @ CHR '' '' # t) = ''delete'' # split_on (CHR '' '') t"
    by (rule split_on_append) simp
  then have "''/sbin/ip'' # split_on (CHR '' '') (''route'' @ CHR '' '' # ''delete'' @ CHR '' '' # t) = route_with ''delete'' t"
    unfolding route_with_def route_words by simp
  then show ?thesis unfolding delete_text [OF assms] split_first_cmd by blast
qed

lemma split_add:
  "\<exists>a. split_first (add_text t) = Some (''/sbin/ip'', a) \<and> ''/sbin/ip'' # split_on (CHR '' '') a = route_with ''add'' t"
proof -
  have t: "add_text t = ip_route_cmd @ CHR '' '' # (''add'' @ CHR '' '' # t)" by (simp add: add_text_def ip_route_cmd_def)
  have "split_on (CHR '' '') (''add'' @ CHR '' '' # t) = ''add'' # split_on (CHR '' '') t"
    by (rule split_on_append) simp
  then have "''/sbin/ip'' # split_on (CHR '' '') (''route'' @ CHR '' '' # ''add'' @ CHR '' '' # t) = route_with ''add'' t"
    unfolding route_with_def route_words by simp
  then show ?thesis unfolding t split_first_cmd by blast
qed

definition same_but_commands :: "ovpn \<Rightarrow> string list list \<Rightarrow> ovpn \<Rightarrow> bool" where
  "same_but_commands o' cs u \<longleftrightarrow> ov_commands u = ov_commands o' @ cs \<and> ov_mi u = ov_mi o'
     \<and> ov_isDisconnectRequested u = ov_isDisconnectRequested o'"

lemma same_refl: "same_but_commands o' [] o'"
  by (simp add: same_but_commands_def)

lemma same_trans: "same_but_commands o' cs u \<Longrightarrow> same_but_commands u ds v \<Longrightarrow> same_but_commands o' (cs @ ds) v"
  by (simp add: same_but_commands_def)

lemma same_exec: "same_but_commands o' [p # args] (snd (ov_shell_Exec env p args o'))"
  by (simp add: same_but_commands_def ov_shell_Exec_def)

lemma same_sys: "same_but_commands o' [] (snd (ov_on_sys f o'))"
  by (simp add: same_but_commands_def ov_on_sys_def case_prod_unfold Let_def)

lemma pause_routes_commands:
  "\<forall>t \<in> set ts. CHR ''d'' \<notin> set t \<Longrightarrow>
    same_but_commands o' (map (route_with ''delete'') ts) (snd (pause_routes env (map add_text ts) e o'))"
proof (induction ts arbitrary: e o')
  case (Cons t ts)
  from Cons.prems have d: "CHR ''d'' \<notin> set t" by simp
  from split_delete [OF d] obtain a where a:
    "split_first (replace_all ''add'' ''delete'' (add_text t)) = Some (''/sbin/ip'', a)"
    "''/sbin/ip'' # split_on (CHR '' '') a = route_with ''delete'' t" by blast
  obtain e1 o1 where x: "ov_shell_Exec env ''/sbin/ip'' (split_on (CHR '' '') a) o' = (e1, o1)" by fastforce
  then have "same_but_commands o' [route_with ''delete'' t] o1"
    using same_exec [of o' "''/sbin/ip''" "split_on (CHR '' '') a" env] a(2) by simp
  moreover have "same_but_commands o1 (map (route_with ''delete'') ts)
      (snd (pause_routes env (map add_text ts) (if e1 \<noteq> None then e1 else e) o1))" using Cons by simp
  ultimately have "same_but_commands o' ([route_with ''delete'' t] @ map (route_with ''delete'') ts)
      (snd (pause_routes env (map add_text ts) (if e1 \<noteq> None then e1 else e) o1))" by (rule same_trans)
  then show ?case using a(1) x by simp
qed (simp add: same_refl)

lemma resume_routes_commands:
  "ov_mi o' = Some i \<Longrightarrow> HasRouteAddCommands i \<Longrightarrow> \<not> ov_isDisconnectRequested o' \<Longrightarrow>
    same_but_commands o' (map (route_with ''add'') ts) (resume_routes env (map add_text ts) o')"
proof (induction ts arbitrary: o')
  case (Cons t ts)
  from split_add [of t] obtain a where a: "split_first (add_text t) = Some (''/sbin/ip'', a)"
    "''/sbin/ip'' # split_on (CHR '' '') a = route_with ''add'' t" by blast
  let ?o = "snd (ov_shell_Exec env ''/sbin/ip'' (split_on (CHR '' '') a) o')"
  have s: "same_but_commands o' [route_with ''add'' t] ?o"
    using same_exec [of o' "''/sbin/ip''" "split_on (CHR '' '') a" env] a(2) by simp
  then have "same_but_commands ?o (map (route_with ''add'') ts) (resume_routes env (map add_text ts) ?o)"
    using Cons by (simp add: same_but_commands_def)
  from same_trans [OF s this] show ?case using a(1) Cons.prems by simp
qed (simp add: same_refl)

lemma delete_all: "fold ip_route (map (route_with ''delete'') ts) T = T - set (map (split_on (CHR '' '')) ts)"
  by (induction ts arbitrary: T) (auto simp: route_with_def)

lemma add_all: "fold ip_route (map (route_with ''add'') ts) T = T \<union> set (map (split_on (CHR '' '')) ts)"
  by (induction ts arbitrary: T) (auto simp: route_with_def)

lemma pause_commands:
  assumes "ov_mi o' = Some i" "GetRouteAddCommands i = map add_text ts" "\<forall>t \<in> set ts. CHR ''d'' \<notin> set t"
  shows "same_but_commands o' (map (route_with ''delete'') ts) (snd (ov_Pause env o'))"
proof (cases "ts = []")
  case True
  then show ?thesis using assms by (simp add: ov_Pause_def Let_def same_but_commands_def)
next
  case False
  obtain e u where u: "pause_routes env (map add_text ts) None (o'\<lparr>ov_isPaused := True\<rparr>) = (e, u)" by fastforce
  have s: "same_but_commands o' (map (route_with ''delete'') ts) u"
    using pause_routes_commands [OF assms(3), of "o'\<lparr>ov_isPaused := True\<rparr>" env None] u
    by (simp add: same_but_commands_def)
  then have "same_but_commands o' (map (route_with ''delete'') ts) (snd (implOnPause env u))"
    using same_trans [OF s same_sys] by (simp add: implOnPause_def)
  moreover have "snd (ov_Pause env o') = (if e \<noteq> None then u else snd (implOnPause env u))"
    using assms(1,2) False u by (simp add: ov_Pause_def)
  ultimately show ?thesis using s by simp
qed

lemma resume_commands:
  assumes "ov_mi p = Some i" "GetRouteAddCommands i = map add_text ts" "\<not> ov_isDisconnectRequested p"
  shows "same_but_commands p (map (route_with ''add'') ts) (snd (ov_Resume env p))"
proof -
  have d: "same_but_commands u [] (snd (implOnResume env (u\<lparr>ov_isPaused := False\<rparr>)))" for u
    using same_sys [of "u\<lparr>ov_isPaused := False\<rparr>"] by (simp add: implOnResume_def same_but_commands_def)
  show ?thesis
  proof (cases "ts = []")
    case True
    then show ?thesis using assms d by (simp add: ov_Resume_def ov_resume_body_def case_prod_unfold Let_def)
  next
    case False
    then have "HasRouteAddCommands i" using assms(2) by (simp add: HasRouteAddCommands_def GetRouteAddCommands_def)
    from same_trans [OF resume_routes_commands [OF assms(1) this assms(3)] d] show ?thesis
      using assms False by (simp add: ov_Resume_def ov_resume_body_def case_prod_unfold Let_def)
  qed
qed


subsection \<open>Instances\<close>

definition sample_mi :: mi_env where
  "sample_mi = \<lparr>mi_RouteCommand = ''/sbin/ip route'', mi_write = (\<lambda>_. None)\<rparr>"

definition sample_cfg :: ovpn_env where
  "sample_cfg = \<lparr>OpenvpnProxyAuthFile = ''/a'', OpenvpnCaKeyFile = ''/c'', OpenvpnTaKeyFile = ''/t'', OpenvpnUpScript = [],
     OpenvpnDownScript = [], ca_exists = True, ta_exists = True, write_auth = (\<lambda>_. None), ovpn_gateway = Inr [],
     log_enabled = False\<rparr>"

definition sample_ov_env :: ov_env where
  "sample_ov_env = \<lparr>oe_dns = sample_dns_env, oe_cfg = sample_cfg, oe_mi = sample_mi, oe_obfs_start = Inr 0,
     oe_rnd1 = Inr 1, oe_rnd2 = Inr 2, oe_listen = None, oe_listener = ''127.0.0.1:9'', oe_writeFile = None,
     oe_exec = (\<lambda>_. None), oe_binary_rights = None, oe_version_output = ''OpenVPN 2.5.1 x''\<rparr>"

definition sample_conn :: ovpn_conn where
  "sample_conn = ovpn_SetCredentials ''u'' ''p''
     (ovpn_CreateConnectionParams [] False 9 [9, 9, 9, 9] [] [] 0 [] [])"

definition no_obfs :: obfs_params where
  "no_obfs = \<lparr>op_Config = \<lparr>obfs_Version = ObfsNone, Obfs4Iat = 0\<rparr>, op_RemotePort = 0, op_Obfs4Key = []\<rparr>"

definition sample_ov :: "sys_dns \<Rightarrow> ovpn" where
  "sample_ov d = (case NewOpenVpnObject [] no_obfs [] sample_conn d of Inr o' \<Rightarrow> o' | Inl _ \<Rightarrow> undefined)"

lemma sample_ov_new: "NewOpenVpnObject [] no_obfs [] sample_conn d = Inr (sample_ov d)"
  by (simp add: sample_ov_def NewOpenVpnObject_def sample_conn_def ovpn_SetCredentials_def)

text \<open>A connection up to its routes, then a pause.\<close>

definition connecting :: "mi_event list" where
  "connecting = [Mi_accepted None, Mi_secret_seen, Mi_verified,
     Mi_line (''>LOG:1,,/sbin/ip route add 1.2.3.4/32 via 5.6.7.8'' @ [CHR 0x0A])]"

definition sample_run :: "(ov_env \<times> ov_event) list" where
  "sample_run = map (Pair sample_ov_env) ([Ov_Connect] @ map Ov_Mi connecting @ [Ov_Pause])"

theorem route_commands_confined_witness:
  "let o' = fold ov_step sample_run (sample_ov sample_dns) in
     ov_commands o' = [[''/sbin/ip'', ''route'', ''delete'', ''1.2.3.4/32'', ''via'', ''5.6.7.8'']]
     \<and> (\<forall>c \<in> set (ov_commands o'). \<exists>args. c = ''/sbin/ip'' # ''route'' # args)"
proof -
  have "ov_commands (fold ov_step sample_run (sample_ov sample_dns))
      = [[''/sbin/ip'', ''route'', ''delete'', ''1.2.3.4/32'', ''via'', ''5.6.7.8'']]" by code_simp
  moreover have "\<forall>e \<in> set sample_run. mi_RouteCommand (oe_mi (fst e)) = ''/sbin/ip route''"
    unfolding sample_run_def by (simp add: sample_ov_env_def sample_mi_def)
  ultimately show ?thesis
    unfolding Let_def using route_commands_confined [OF sample_ov_new, of sample_run sample_dns] by blast
qed

definition sample_connected :: ovpn where
  "sample_connected = fold ov_step (map (Pair sample_ov_env) ([Ov_Connect] @ map Ov_Mi connecting)) (sample_ov sample_dns)"

definition sample_route :: "string list" where "sample_route = [''1.2.3.4/32'', ''via'', ''5.6.7.8'']"


end
