(* ===== verification/Ovpn_Proofs.thy ===== *)
theory Ovpn_Proofs
  imports Ovpn_Routes
begin

section \<open>DNS, states and the end of an OpenVPN connection\<close>

text \<open>
  Every step of a connection changes the DNS of the system by the operations of the package
  \<open>dns\<close> (a simulation), so what is known of all runs of those holds here. \<open>CONNECTED\<close> is
  reported only when the DNS was set. What a pause leaves behind when its connection ends.
\<close>

subsection \<open>The steps of a connection as operations on the DNS\<close>

fun dns_op_of :: "ov_event \<Rightarrow> dns_op \<Rightarrow> bool" where
  "dns_op_of e (D_SetManual d ip) = True"
| "dns_op_of e (D_SetDefault d ip) = True"
| "dns_op_of e (D_DeleteManual d ip) = True"
| "dns_op_of e (D_Pause ip) = (e = Ov_Pause)"
| "dns_op_of e (D_Resume d ip) = (e = Ov_Resume)"
| "dns_op_of e _ = False"

definition dns_simulated :: "ov_event \<Rightarrow> ovpn \<Rightarrow> ovpn \<Rightarrow> bool" where
  "dns_simulated e o' u \<longleftrightarrow>
     (\<exists>ops. ov_sys u = fold dns_step ops (ov_sys o') \<and> (\<forall>op \<in> snd ` set ops. dns_op_of e op))"

lemma simulated_same: "ov_sys u = ov_sys o' \<Longrightarrow> dns_simulated e o' u"
  unfolding dns_simulated_def by (rule exI [of _ "[]"]) simp

lemma simulated_on_sys:
  assumes "\<And>s. snd (f s) = dns_step (env, op) s" "dns_op_of e op" "ov_sys w = ov_sys o'"
  shows "dns_simulated e o' (snd (ov_on_sys f w))"
  unfolding dns_simulated_def
  by (rule exI [of _ "[(env, op)]"]) (use assms in \<open>simp add: ov_on_sys_def case_prod_unfold Let_def\<close>)

lemma sys_kept [simp]:
  "ov_sys (snd (ov_doDisconnect env o')) = ov_sys o'" "ov_sys (ov_return err o') = ov_sys o'"
  "ov_sys (snd (ov_start_obfsproxy env o')) = ov_sys o'" "ov_sys (snd (WriteConfigFile env a p o')) = ov_sys o'"
  by (simp_all add: ov_doDisconnect_def ov_return_def ov_start_obfsproxy_def WriteConfigFile_def Let_def
      case_prod_unfold split: option.split sum.split)

lemma sys_connect [simp]: "ov_sys (ov_Connect env o') = ov_sys o'"
proof -
  have f: "WriteConfigFile env a p v = (e, u) \<Longrightarrow> ov_sys u = ov_sys v" for a p v e u
    using sys_kept(4) [of env a p v] by simp
  have "ov_sys (ov_start_mi env s w) = ov_sys w" for s w
    by (auto simp: ov_start_mi_def Let_def dest: f split: sum.split prod.split option.split)
  moreover have "ov_start_obfsproxy env v = (e, u) \<Longrightarrow> ov_sys u = ov_sys v" for v e u
    using sys_kept(3) [of env v] by simp
  ultimately show ?thesis
    by (auto simp: ov_Connect_def Let_def split: sum.split prod.split option.split) fastforce?
qed

lemma sys_routes [simp]:
  "ov_sys (snd (pause_routes env cs e o')) = ov_sys o'" "ov_sys (resume_routes env cs o') = ov_sys o'"
proof -
  show "ov_sys (snd (pause_routes env cs e o')) = ov_sys o'"
    by (induction env cs e o' rule: pause_routes.induct)
      (auto simp: Let_def ov_shell_Exec_def split: option.split)
  show "ov_sys (resume_routes env cs o') = ov_sys o'"
    by (induction env cs o' rule: resume_routes.induct)
      (auto simp: ov_shell_Exec_def split: option.split)
qed

lemma connected_simulated: "dns_simulated e o' (snd (implOnConnected env w))" if "ov_sys w = ov_sys o'"
  unfolding implOnConnected_def using that
  by (auto intro: simulated_on_sys [where op = "D_SetManual _ _"] simulated_on_sys [where op = "D_SetDefault _ _"])

lemma simulated_sys: "dns_simulated e o' u \<Longrightarrow> ov_sys v = ov_sys u \<Longrightarrow> dns_simulated e o' v"
  by (simp add: dns_simulated_def)

lemma state_simulated: "ov_sys w = ov_sys o' \<Longrightarrow> dns_simulated e o' (ov_on_state env st w)"
proof -
  assume w: "ov_sys w = ov_sys o'"
  let ?w = "w\<lparr>ov_state := si_State st, ov_clientIP := si_ClientIP st\<rparr>"
  have "dns_simulated e o' (snd (implOnConnected env ?w))" by (rule connected_simulated) (simp add: w)
  moreover have "ov_sys (ov_on_state env st w) = ov_sys (snd (implOnConnected env ?w))" if "si_State st = CONNECTED"
    using that by (simp add: ov_on_state_def Let_def case_prod_unfold)
  moreover have "ov_sys (ov_on_state env st w) = ov_sys o'" if "si_State st \<noteq> CONNECTED"
    using that w by (simp add: ov_on_state_def Let_def)
  ultimately show ?thesis using simulated_sys simulated_same by metis
qed

lemma pause_simulated: "dns_simulated Ov_Pause o' (snd (ov_Pause env o'))"
proof -
  have p: "dns_simulated Ov_Pause o' (snd (implOnPause env w))" if "ov_sys w = ov_sys o'" for w
    unfolding implOnPause_def by (rule simulated_on_sys [where op = "D_Pause _"]) (simp_all add: that)
  show ?thesis
    unfolding ov_Pause_def Let_def case_prod_unfold
    by (simp add: p simulated_same split: option.split)
qed

lemma resume_simulated: "dns_simulated Ov_Resume o' (snd (ov_Resume env o'))"
proof -
  have b: "ov_sys (snd (ov_resume_body env o')) = ov_sys o'"
    by (simp add: ov_resume_body_def Let_def split: option.split)
  show ?thesis
    unfolding ov_Resume_def Let_def case_prod_unfold implOnResume_def prod.collapse
    by (rule simulated_on_sys [where op = "D_Resume _ _"]) (simp_all add: b)
qed

lemma reset_simulated: "dns_simulated e o' (snd (implOnResetManualDNS env o'))"
  unfolding implOnResetManualDNS_def Let_def
  by (auto intro: simulated_on_sys [where op = "D_SetDefault _ _"] simulated_on_sys [where op = "D_DeleteManual _ _"])

lemma set_simulated: "dns_simulated e o' (snd (implOnSetManualDNS env d o'))"
  unfolding implOnSetManualDNS_def Let_def
  by (auto intro: simulated_on_sys [where op = "D_SetManual _ _"] simulated_same)

lemma step_simulated: "dns_simulated (snd e) o' (ov_step e o')"
proof (cases "(e, o')" rule: ov_step.cases)
  case (3 env u)
  have "dns_simulated Ov_forward o' (ov_forward env o')"
    by (simp add: ov_forward_def state_simulated simulated_same split: option.split)
  then show ?thesis using 3 by (simp add: simulated_same)
next
  case (4 env u)
  then show ?thesis by (simp add: ov_obfs_stopped_def simulated_same)
next
  case (5 env err u)
  then show ?thesis by (simp add: ov_process_exit_def simulated_same split: option.split)
next
  case (6 env u)
  then show ?thesis by (simp add: ov_Disconnect_def case_prod_unfold Let_def simulated_same)
qed (use pause_simulated resume_simulated reset_simulated set_simulated in \<open>simp_all add: simulated_same\<close>)

lemma run_simulated:
  "\<exists>ops. ov_sys (fold ov_step es o') = fold dns_step ops (ov_sys o')
    \<and> (\<forall>op \<in> snd ` set ops. \<exists>e \<in> snd ` set es. dns_op_of e op)"
proof (induction es arbitrary: o')
  case (Cons e es)
  obtain ops1 where 1: "ov_sys (ov_step e o') = fold dns_step ops1 (ov_sys o')" "\<forall>op \<in> snd ` set ops1. dns_op_of (snd e) op"
    using step_simulated [of e o'] by (auto simp: dns_simulated_def)
  obtain ops2 where 2: "ov_sys (fold ov_step es (ov_step e o')) = fold dns_step ops2 (ov_sys (ov_step e o'))"
    "\<forall>op \<in> snd ` set ops2. \<exists>e \<in> snd ` set es. dns_op_of e op" using Cons.IH by blast
  have "ov_sys (fold ov_step (e # es) o') = fold dns_step (ops1 @ ops2) (ov_sys o')" using 1(1) 2(1) by simp
  moreover have "\<forall>op \<in> snd ` set (ops1 @ ops2). \<exists>e' \<in> snd ` set (e # es). dns_op_of e' op" using 1(2) 2(2) by auto
  ultimately show ?case by blast
qed (rule exI [of _ "[]"], simp)

subsection \<open>The DNS at the end\<close>

lemma reset_sys:
  assumes "ovpn_DefaultDNS o' = []"
  shows "ov_sys (snd (implOnResetManualDNS env o')) = snd (dns_DeleteManual (oe_dns env) [] (ov_clientIP o') (ov_sys o'))"
  using assms by (simp add: implOnResetManualDNS_def Let_def ov_on_sys_def case_prod_unfold)

lemma ov_delete_restores:
  assumes "original_kept orig t" "f_impl t = Some ResolvConf" "\<not> isPaused t" "de_rename env ''/etc/resolv.conf'' = None"
  shows "resolvFile (snd (dns_DeleteManual env dflt ip t)) = Some orig"
  using assms
  by (auto simp: original_kept_def dns_DeleteManual_def implDeleteManual_def f_implDeleteManual_def
      rconf_implDeleteManual_def rconf_stopDNSChangeMonitoring_def rconf_restoreBackup_def ResolversTeardown_def
      notifyFirewall_def Let_def split: option.split)

lemma no_default_dns:
  assumes "ov_state o' \<in> {DISCONNECTED, EXITING} \<or> (\<forall>i. ov_mi o' = Some i \<longrightarrow> \<not> mi_isConnected i)"
  shows "ovpn_DefaultDNS o' = []"
  using assms by (auto simp: ovpn_DefaultDNS_def split: option.split)


subsection \<open>A pause that outlives its connection\<close>

definition stuck :: "string option \<Rightarrow> sys_dns \<Rightarrow> bool" where
  "stuck file s \<longleftrightarrow> isPaused s \<and> f_impl s = Some ResolvConf \<and> resolvBackupFile s = None \<and> resolvFile s = file"

lemma stuck_notify: "stuck file s \<Longrightarrow> stuck file (snd (notifyFirewall env d s))"
  by (simp add: notifyFirewall_def stuck_def split: option.split)

lemma stuck_set: "stuck file s \<Longrightarrow> stuck file (snd (dns_SetManual env d ip s))"
proof -
  assume s: "stuck file s"
  let ?s = "s\<lparr>manualDNS := d, resolvers := []\<rparr>"
  have "stuck file ?s" using s by (simp add: stuck_def)
  moreover have "implSetManual env d ip s = (Inr d, ?s)"
    using s by (simp add: implSetManual_def ResolversTeardown_def stuck_def)
  ultimately show ?thesis using s stuck_notify by (simp add: dns_SetManual_def)
qed

lemma stuck_delete: "stuck file s \<Longrightarrow> stuck file (snd (dns_DeleteManual env a ip s))"
proof -
  assume s: "stuck file s"
  let ?s = "s\<lparr>manualDNS := noDns, resolvers := []\<rparr>"
  have "stuck file ?s" using s by (simp add: stuck_def)
  moreover have "implDeleteManual env ip s = (None, ?s)"
    using s by (simp add: implDeleteManual_def ResolversTeardown_def stuck_def)
  ultimately show ?thesis using stuck_notify by (simp add: dns_DeleteManual_def)
qed

lemma stuck_pause: "stuck file s \<Longrightarrow> stuck file (snd (dns_Pause env ip s))"
  by (simp add: dns_Pause_def implPause_def f_implPause_def rconf_implPause_def rconf_isBackupExists_def
      ResolversTeardown_def stuck_def)

lemma stuck_step:
  assumes "stuck file s" "dns_op_of e op" "e \<noteq> Ov_Resume"
  shows "stuck file (dns_step (env, op) s)"
  using assms by (cases op) (simp_all add: stuck_set stuck_delete stuck_pause dns_SetDefault_def)

lemma stuck_run:
  "stuck file s \<Longrightarrow> \<forall>op \<in> snd ` set ops. \<exists>e. dns_op_of e op \<and> e \<noteq> Ov_Resume \<Longrightarrow> stuck file (fold dns_step ops s)"
proof (induction ops arbitrary: s)
  case (Cons p ops)
  obtain env op where p: "p = (env, op)" by fastforce
  then obtain e where "dns_op_of e op" "e \<noteq> Ov_Resume" using Cons.prems(2) by auto
  from stuck_step [OF Cons.prems(1) this] have "stuck file (dns_step p s)" unfolding p .
  then show ?case using Cons by simp
qed simp

lemma connected_when_stuck:
  assumes "stuck file (ov_sys w)" "length (Servers (ov_manualDNS w)) \<le> 8"
    and "\<forall>f d. funcDnsChangeFirewallNotify (oe_dns env) = Some f \<longrightarrow> f d = None"
  shows "fst (implOnConnected env w) = None"
proof -
  have n: "fst (notifyFirewall (oe_dns env) d s) = None" for d s
    using assms(3) by (simp add: notifyFirewall_def split: option.split)
  have m: "fst (dns_SetManual (oe_dns env) d ip (ov_sys w)) = None" if "length (Servers d) \<le> 8" for d ip
    using assms(1) that n by (simp add: dns_SetManual_def implSetManual_def ResolversTeardown_def stuck_def)
  have "length (Servers (DnsSettingsCreate ip)) \<le> 8" for ip by (simp add: DnsSettingsCreate_def noDns_def)
  then show ?thesis using m assms(2)
    by (simp add: implOnConnected_def ov_on_sys_def dns_SetDefault_def case_prod_unfold Let_def)
qed


subsection \<open>The states a connection reports\<close>

lemma forwarded_kept [simp]:
  "ov_forwarded (snd (ov_on_sys f o')) = ov_forwarded o'"
  "ov_forwarded (snd (ov_doDisconnect env o')) = ov_forwarded o'" "ov_forwarded (ov_return err o') = ov_forwarded o'"
  "ov_forwarded (snd (ov_start_obfsproxy env o')) = ov_forwarded o'" "ov_forwarded (snd (WriteConfigFile env a p o')) = ov_forwarded o'"
  by (simp_all add: ov_on_sys_def ov_doDisconnect_def ov_return_def ov_start_obfsproxy_def WriteConfigFile_def Let_def
      case_prod_unfold split: option.split sum.split)

lemma forwarded_connect [simp]: "ov_forwarded (ov_Connect env o') = ov_forwarded o'"
proof -
  have f: "WriteConfigFile env a p v = (e, u) \<Longrightarrow> ov_forwarded u = ov_forwarded v" for a p v e u
    using forwarded_kept(5) [of env a p v] by simp
  have "ov_forwarded (ov_start_mi env s w) = ov_forwarded w" for s w
    by (auto simp: ov_start_mi_def Let_def dest: f split: sum.split prod.split option.split)
  moreover have "ov_start_obfsproxy env v = (e, u) \<Longrightarrow> ov_forwarded u = ov_forwarded v" for v e u
    using forwarded_kept(4) [of env v] by simp
  ultimately show ?thesis
    by (auto simp: ov_Connect_def Let_def split: sum.split prod.split option.split) fastforce?
qed

lemma forwarded_routes [simp]:
  "ov_forwarded (snd (pause_routes env cs e o')) = ov_forwarded o'" "ov_forwarded (resume_routes env cs o') = ov_forwarded o'"
proof -
  show "ov_forwarded (snd (pause_routes env cs e o')) = ov_forwarded o'"
    by (induction env cs e o' rule: pause_routes.induct) (auto simp: Let_def ov_shell_Exec_def split: option.split)
  show "ov_forwarded (resume_routes env cs o') = ov_forwarded o'"
    by (induction env cs o' rule: resume_routes.induct) (auto simp: ov_shell_Exec_def split: option.split)
qed

lemma forwarded_ops [simp]:
  "ov_forwarded (snd (ov_Pause env o')) = ov_forwarded o'" "ov_forwarded (snd (ov_Resume env o')) = ov_forwarded o'"
  "ov_forwarded (snd (implOnSetManualDNS env d o')) = ov_forwarded o'"
  "ov_forwarded (snd (implOnResetManualDNS env o')) = ov_forwarded o'"
  "ov_forwarded (snd (ov_Disconnect env o')) = ov_forwarded o'" "ov_forwarded (ov_obfs_stopped env o') = ov_forwarded o'"
  "ov_forwarded (ov_process_exit err o') = ov_forwarded o'"
  by (simp_all add: ov_Pause_def implOnPause_def ov_Resume_def ov_resume_body_def implOnResume_def implOnSetManualDNS_def
      implOnResetManualDNS_def ov_Disconnect_def ov_obfs_stopped_def ov_process_exit_def Let_def case_prod_unfold
      split: option.split)

lemma only_forward_reports: "snd e \<noteq> Ov_forward \<Longrightarrow> ov_forwarded (ov_step e o') = ov_forwarded o'"
  by (cases "(e, o')" rule: ov_step.cases) simp_all

text \<open>What a state does that is reported as \<open>CONNECTED\<close>.\<close>

lemma set_default_manual: "dns_SetDefault env d ip s = (None, t) \<Longrightarrow> dns_SetManual env d ip s = (None, t)"
  by (cases "dns_SetManual env d ip s") (simp add: dns_SetDefault_def)

definition connection_dns :: "ovpn \<Rightarrow> DnsSettings" where
  "connection_dns o' =
     (if \<not> dns_IsEmpty (ov_manualDNS o') then ov_manualDNS o' else DnsSettingsCreate (ovpn_DefaultDNS o'))"

lemma implOnConnected_sys:
  assumes "implOnConnected env w = (e, v)"
  shows "\<exists>d. v = w\<lparr>ov_sys := d\<rparr>
    \<and> (e = None \<longrightarrow> dns_SetManual (oe_dns env) (connection_dns w) (ov_clientIP w) (ov_sys w) = (None, d))"
  using assms set_default_manual
  by (auto simp: implOnConnected_def connection_dns_def ov_on_sys_def Let_def split: if_splits prod.splits)

lemma on_state_reports:
  assumes "st \<in> set (drop (length (ov_forwarded o')) (ov_forwarded (ov_on_state env x o')))" "si_State st = CONNECTED"
  defines "u \<equiv> ov_on_state env x o'"
  shows "ov_state u = CONNECTED \<and> ov_forwarded u = ov_forwarded o' @ [st\<lparr>si_State := INITIALISED\<rparr>, st]
    \<and> dns_SetManual (oe_dns env) (connection_dns u) (ov_clientIP u) (ov_sys o') = (None, ov_sys u)"
proof (cases "si_State x = CONNECTED")
  case True
  let ?w = "o'\<lparr>ov_state := si_State x, ov_clientIP := si_ClientIP x\<rparr>"
  obtain e v where v: "implOnConnected env ?w = (e, v)" by fastforce
  obtain d where d: "v = ?w\<lparr>ov_sys := d\<rparr>"
    "e = None \<longrightarrow> dns_SetManual (oe_dns env) (connection_dns ?w) (ov_clientIP ?w) (ov_sys ?w) = (None, d)"
    using implOnConnected_sys [OF v] by blast
  have fr: "ov_forwarded v = ov_forwarded o'" using d(1) by simp
  have u: "u = (if e \<noteq> None then snd (ov_doDisconnect env (v\<lparr>ov_retErr := e\<rparr>))
      else v\<lparr>ov_retErr := e, ov_forwarded := ov_forwarded v @ [(connected_info ?w x)\<lparr>si_State := INITIALISED\<rparr>, connected_info ?w x]\<rparr>)"
    using v True unfolding u_def by (simp add: ov_on_state_def Let_def)
  have e: "e = None"
  proof (rule ccontr)
    assume "e \<noteq> None"
    then have "ov_forwarded u = ov_forwarded o'" using u fr by simp
    then show False using assms(1) unfolding u_def by simp
  qed
  have "st = connected_info ?w x"
  proof -
    have "INITIALISED \<noteq> CONNECTED" by (simp add: state_defs)
    then show ?thesis using assms(1,2) u e fr unfolding u_def by auto
  qed
  moreover have "connection_dns u = connection_dns ?w" "ov_clientIP u = ov_clientIP ?w" "ov_sys u = d" "ov_state u = CONNECTED"
    using u e True unfolding d(1) by (simp_all add: connection_dns_def ovpn_DefaultDNS_def split: option.split)
  ultimately show ?thesis using u e fr d(2) by simp
next
  case False
  then show ?thesis using assms by (simp add: ov_on_state_def Let_def)
qed

text \<open>
  C5: OpenVPN connections report \<open>CONNECTED\<close> only when the DNS is in force: whatever step of a
  connection reports it, it follows its \<open>INITIALISED\<close> directly, and in that very step the DNS of
  the user, or without one the DNS the server pushed, was set for the address of the tunnel
  without an error. When that fails nothing is reported and OpenVPN is told to stop.
\<close>

theorem ovpn_connected_with_dns:
  fixes o' u :: ovpn and e :: "ov_env \<times> ov_event"
  defines "u \<equiv> ov_step e o'"
  assumes "st \<in> set (drop (length (ov_forwarded o')) (ov_forwarded u))" "si_State st = CONNECTED"
  shows "snd e = Ov_forward \<and> ov_state u = CONNECTED
    \<and> ov_forwarded u = ov_forwarded o' @ [st\<lparr>si_State := INITIALISED\<rparr>, st]
    \<and> dns_SetManual (oe_dns (fst e)) (connection_dns u) (ov_clientIP u) (ov_sys o') = (None, ov_sys u)"
proof -
  have f: "snd e = Ov_forward" using only_forward_reports [of e o'] assms by (metis drop_all empty_iff list.set(1) order_refl)
  obtain env where e: "e = (env, Ov_forward)" using f by (cases e) auto
  have "\<exists>x w. u = ov_on_state env x w \<and> ov_forwarded w = ov_forwarded o' \<and> ov_sys w = ov_sys o'"
  proof -
    have n: "u \<noteq> o'" using assms(2) by auto
    then have r: "u = ov_forward env o'" unfolding u_def e by (simp split: if_splits)
    with n obtain i where "ov_mi o' = Some i" by (cases "ov_mi o'") (simp_all add: ov_forward_def)
    with n r have "u = ov_on_state env (mi_states i ! ov_taken o') (o'\<lparr>ov_taken := ov_taken o' + 1\<rparr>)"
      by (simp add: ov_forward_def split: if_splits)
    then show ?thesis by fastforce
  qed
  then obtain x w where w: "u = ov_on_state env x w" "ov_forwarded w = ov_forwarded o'" "ov_sys w = ov_sys o'" by blast
  show ?thesis using on_state_reports [of st w env x] assms(2,3) w f e by simp
qed

subsection \<open>Resuming\<close>

text \<open>
  The result of \<open>Resume\<close> tells nothing about the routes: its deferred function replaces every
  error of the body (no management interface, or no route to restore) with the result of resuming
  the DNS, so a connection none of whose routes came back is reported as resumed.
\<close>

theorem ovpn_resume_hides_errors:
  assumes "fst (ov_resume_body env o') = Some err"
  shows "fst (ov_Resume env o')
      = fst (dns_Resume (oe_dns env) (DnsSettingsCreate (ovpn_DefaultDNS o')) (ov_clientIP o') (ov_sys o'))
    \<and> ov_commands (snd (ov_Resume env o')) = ov_commands o' \<and> \<not> ov_isPaused (snd (ov_Resume env o'))"
proof -
  have "snd (ov_resume_body env o') = o'"
    using assms by (auto simp: ov_resume_body_def Let_def split: option.splits if_splits)
  then show ?thesis
    by (simp add: ov_Resume_def implOnResume_def ov_on_sys_def ovpn_DefaultDNS_def Let_def case_prod_unfold
        split: option.split)
qed

text \<open>An object whose connection is over: its state does not change any more.\<close>

definition over :: "vpn_state \<Rightarrow> ovpn \<Rightarrow> bool" where
  "over s o' \<longleftrightarrow> ov_state o' = s \<and> ov_mi o' \<noteq> None \<and> (\<exists>r. ov_pc o' = Ov_returned r)"

lemma over_routes [simp]:
  "over s (snd (pause_routes env cs e o')) = over s o'" "over s (resume_routes env cs o') = over s o'"
proof -
  show "over s (snd (pause_routes env cs e o')) = over s o'"
    by (induction env cs e o' rule: pause_routes.induct) (auto simp: Let_def ov_shell_Exec_def over_def split: option.split)
  show "over s (resume_routes env cs o') = over s o'"
    by (induction env cs o' rule: resume_routes.induct) (auto simp: ov_shell_Exec_def over_def split: option.split)
qed

lemma over_on_sys [simp]: "over s (snd (ov_on_sys f o')) = over s o'"
  by (simp add: ov_on_sys_def case_prod_unfold Let_def over_def)

lemma over_updates [simp]:
  "over s (o'\<lparr>ov_isPaused := b\<rparr>) = over s o'" "over s (o'\<lparr>ov_manualDNS := d\<rparr>) = over s o'"
  by (simp_all add: over_def)

lemma over_return: "over s o' \<Longrightarrow> over s (ov_return e o')"
  by (auto simp: over_def ov_return_def)

lemma over_ops [simp]:
  "over s (snd (ov_Pause env o')) = over s o'" "over s (snd (ov_Resume env o')) = over s o'"
  "over s (snd (implOnSetManualDNS env d o')) = over s o'" "over s (snd (implOnResetManualDNS env o')) = over s o'"
  by (simp_all add: ov_Pause_def implOnPause_def ov_Resume_def ov_resume_body_def implOnResume_def
      implOnSetManualDNS_def implOnResetManualDNS_def Let_def case_prod_unfold split: option.split)

lemma over_step:
  assumes "over s o'"
  shows "over s (ov_step e o')"
proof (cases "(e, o')" rule: ov_step.cases)
  case (1 env u)
  then show ?thesis using assms by (auto simp: ov_Connect_def over_def ov_return_def)
next
  case (2 env ev u)
  then show ?thesis using assms by (auto simp: over_def)
next
  case (6 env u)
  then show ?thesis using assms by (auto simp: ov_Disconnect_def ov_doDisconnect_def over_def case_prod_unfold Let_def)
qed (use assms in \<open>auto simp: over_def [of s o'] simp del: over_ops\<close>, use assms in simp_all)

interpretation over_runs: safe_machine ov_step "over s" for s
  by unfold_locales (rule over_step)

text \<open>
  C18: A resumption may wait for ever. \<open>Resume\<close> returns only when the state of the object is not a
  connecting one; but once \<open>Connect\<close> returned, nothing changes that state again, whatever
  happens, and no further \<open>Connect\<close> of the object starts anything. So when OpenVPN is killed
  while it reconnects, a client that asked to resume gets no answer.
\<close>

theorem ovpn_resume_never_returns:
  fixes o' :: ovpn and es :: "(ov_env \<times> ov_event) list"
  assumes "ov_mi o' \<noteq> None" "ov_pc o' = Ov_returned r" "IsConnecting (ov_state o')"
  shows "\<not> ov_Resume_returns (fold ov_step es o') \<and> ov_pc (fold ov_step es o') \<noteq> Ov_running"
proof -
  have "over (ov_state o') o'" using assms by (simp add: over_def)
  then have "over (ov_state o') (fold ov_step es o')" by (rule over_runs.run_inv)
  then show ?thesis using assms(3) by (auto simp: over_def ov_Resume_returns_def)
qed

subsection \<open>Instances\<close>

definition plain_dns :: DnsSettings where
  "plain_dns = noDns\<lparr>Servers := [\<lparr>Address = ''1.1.1.1'', Encryption = EncryptionNone, Template = []\<rparr>]\<rparr>"

definition with_env :: "ov_event list \<Rightarrow> (ov_env \<times> ov_event) list" where
  "with_env es = map (Pair sample_ov_env) es"

definition to_line :: "string \<Rightarrow> (ov_env \<times> ov_event) list" where
  "to_line l = with_env [Ov_Connect, Ov_Mi (Mi_accepted None), Ov_Mi Mi_secret_seen, Ov_Mi Mi_verified,
     Ov_SetManualDNS plain_dns, Ov_Mi (Mi_line l)]"

definition connected_line :: string where "connected_line = ''>STATE:1,CONNECTED,SUCCESS,10.0.0.2,9.9.9.9''"

theorem ovpn_connected_with_dns_witness:
  "let o' = fold ov_step (to_line connected_line) (sample_ov sample_dns); u = ov_step (sample_ov_env, Ov_forward) o' in
     \<exists>st. si_State st = CONNECTED \<and> ov_forwarded u = ov_forwarded o' @ [st\<lparr>si_State := INITIALISED\<rparr>, st]
     \<and> dns_SetManual (oe_dns sample_ov_env) (connection_dns u) (ov_clientIP u) (ov_sys o') = (None, ov_sys u)"
proof -
  let ?o = "fold ov_step (to_line connected_line) (sample_ov sample_dns)"
  let ?u = "ov_step (sample_ov_env, Ov_forward) ?o"
  have "map si_State (drop (length (ov_forwarded ?o)) (ov_forwarded ?u)) = [INITIALISED, CONNECTED]" by code_simp
  then have "CONNECTED \<in> set (map si_State (drop (length (ov_forwarded ?o)) (ov_forwarded ?u)))" by simp
  then obtain st where "st \<in> set (drop (length (ov_forwarded ?o)) (ov_forwarded ?u))" "si_State st = CONNECTED"
    unfolding set_map by (metis imageE)
  from ovpn_connected_with_dns [OF this] this(2) show ?thesis unfolding Let_def fst_conv by blast
qed


theorem ovpn_resume_hides_errors_witness:
  "fst (ov_resume_body sample_ov_env (sample_ov sample_dns)) = Some (Err ''OpenVPN MI is nil'')
   \<and> fst (ov_Resume sample_ov_env (sample_ov sample_dns)) = None"
proof -
  have b: "fst (ov_resume_body sample_ov_env (sample_ov sample_dns)) = Some (Err ''OpenVPN MI is nil'')" by code_simp
  have "fst (dns_Resume (oe_dns sample_ov_env) (DnsSettingsCreate (ovpn_DefaultDNS (sample_ov sample_dns)))
      (ov_clientIP (sample_ov sample_dns)) (ov_sys (sample_ov sample_dns))) = None" by code_simp
  then show ?thesis using ovpn_resume_hides_errors [OF b] b by simp
qed

theorem ovpn_resume_never_returns_witness:
  "\<not> ov_Resume_returns (fold ov_step (with_env [Ov_Resume, Ov_Connect, Ov_Disconnect])
     (fold ov_step (to_line ''>STATE:1,RECONNECTING,x'' @ with_env [Ov_forward, Ov_exit None]) (sample_ov sample_dns)))"
proof -
  let ?o = "fold ov_step (to_line ''>STATE:1,RECONNECTING,x'' @ with_env [Ov_forward, Ov_exit None]) (sample_ov sample_dns)"
  have f: "(case ov_mi ?o of None \<Rightarrow> False | Some _ \<Rightarrow> True) \<and> ov_pc ?o = Ov_returned None \<and> IsConnecting (ov_state ?o)" by code_simp
  then have "ov_mi ?o \<noteq> None" by (auto split: option.splits)
  with f ovpn_resume_never_returns [of ?o None "with_env [Ov_Resume, Ov_Connect, Ov_Disconnect]"] show ?thesis by blast
qed

text \<open>OpenVPN ends during a pause, and the user connects again.\<close>

definition left_paused :: ovpn where
  "left_paused = fold ov_step (with_env [Ov_SetManualDNS plain_dns, Ov_Mi (Mi_line connected_line), Ov_forward,
     Ov_Pause, Ov_exit None, Ov_Mi Mi_eof, Ov_ResetManualDNS]) sample_connected"

lemma manual_kept:
  "ov_manualDNS (snd (implOnSetManualDNS env d o')) = d" "ov_manualDNS (ov_on_state env st o') = ov_manualDNS o'"
  by (simp_all add: implOnSetManualDNS_def ov_on_sys_def ov_on_state_def implOnConnected_def ov_doDisconnect_def
      case_prod_unfold Let_def split: option.split)


end
