(* ===== verification/Api_Client.thy ===== *)
theory Api_Client
  imports Servers
begin

section \<open>The API client and the updater of the list of servers
  (daemon/api, daemon/service/servers\_updater.go)\<close>

text \<open>
  The client asks the API host by its last good address, by its name, and by the alternate
  addresses of the list of servers, in this order, over TLS connections with pinned keys. The
  record \<open>api\<close> holds the addresses and a log of the requests; what a request is answered, and
  whether its body was read before it failed, is the environment, as are \<open>encoding/json\<close> and the
  file with the list of servers. An object read from JSON is represented by its text.
\<close>

subsection \<open>Requests\<close>

definition IPvAny :: int where "IPvAny = 0"
definition IPv4 :: int where "IPv4 = 1"
definition IPv6 :: int where "IPv6 = 2"

definition apiHost :: string where "apiHost = ''api.ivpn.net''"
definition updateHost :: string where "updateHost = ''repo.ivpn.net''"
definition defaultRequestTimeout :: duration where "defaultRequestTimeout = 10 * second"
definition defaultDialTimeout :: duration where "defaultDialTimeout = 5 * second"

record http_request =
  rq_method :: string
  rq_url :: string
  rq_contentType :: string
  rq_body :: string
  rq_timeout :: duration
  rq_dial :: duration

record http_response =
  rs_StatusCode :: int
  rs_Status :: string
  rs_Body :: "gerror + string"

record api =
  alternateIPsV4 :: "net_ip list"
  lastGoodAlternateIPv4 :: net_ip
  alternateIPsV6 :: "net_ip list"
  lastGoodAlternateIPv6 :: net_ip
  api_sent :: "http_request list"

datatype api_object =
    SessionNewRequest string string string bool string string string
  | SessionStatusRequest string
  | SessionDeleteRequest string
  | SessionWireGuardKeySetRequest string string string string

text \<open>\<open>ae_do n\<close>: what the request after \<open>n\<close> others is answered, and whether its body was read.\<close>

record api_env =
  IsConnectivityBlocked :: error
  ae_newRequest :: "string \<Rightarrow> error"
  ae_do :: "nat \<Rightarrow> http_request \<Rightarrow> (gerror + http_response) \<times> bool"
  ae_outboundIPv6 :: error
  GOARCH :: string
  ae_marshal :: "api_object \<Rightarrow> gerror + string"
  ae_apiError :: "string \<Rightarrow> gerror + int \<times> string"
  ae_unmarshal :: "string \<Rightarrow> error"
  ae_servers :: "string \<Rightarrow> gerror + ServersInfoResponse"

text \<open>\<open>path.Join\<close> of two elements, with the rules of \<open>path.Clean\<close> for a path that is not rooted.\<close>

fun clean_parts :: "string list \<Rightarrow> string list \<Rightarrow> string list" where
  "clean_parts [] out = out"
| "clean_parts (p # ps) out =
     (if p = [] \<or> p = ''.'' then clean_parts ps out
      else if p = ''..'' \<and> out \<noteq> [] \<and> last out \<noteq> ''..'' then clean_parts ps (butlast out)
      else clean_parts ps (out @ [p]))"

definition path_join :: "string \<Rightarrow> string \<Rightarrow> string" where
  "path_join host urlpath =
     (let out = clean_parts (split_on (CHR ''/'') host @ split_on (CHR ''/'') urlpath) []
      in if out = [] then ''.'' else join_with ''/'' out)"

definition getURL :: "string \<Rightarrow> string \<Rightarrow> string" where
  "getURL host urlpath = ''https://'' @ path_join host urlpath"

definition getURL_IPHost :: "net_ip \<Rightarrow> bool \<Rightarrow> string \<Rightarrow> string" where
  "getURL_IPHost ip isIPv6 urlpath =
     (if isIPv6 then ''https://'' @ path_join (''['' @ ip_string ip @ '']'') urlpath
      else ''https://'' @ path_join (ip_string ip) urlpath)"

subsection \<open>Pinned keys\<close>

definition findPinnedKey :: "string list \<Rightarrow> string \<Rightarrow> bool" where
  "findPinnedKey certHashes certBase64hash256 \<longleftrightarrow> list_ex (\<lambda>hash. hash = certBase64hash256) certHashes"

text \<open>
  The loop of the dialer over the certificates the server presented, each by the hash of its
  key or the error of its encoding.
\<close>

fun check_certs :: "string list \<Rightarrow> (gerror + string) list \<Rightarrow> error \<Rightarrow> error" where
  "check_certs certHashes [] lastErr =
     (case lastErr of
        Some e \<Rightarrow> Some (ErrWrap ''certificate check error: pinned certificate key not found'' e)
      | None \<Rightarrow> Some (Err ''certificate check error: pinned certificate key not found''))"
| "check_certs certHashes (Inl err # certs) lastErr = check_certs certHashes certs (Some err)"
| "check_certs certHashes (Inr hash # certs) lastErr =
     (if findPinnedKey certHashes hash then None else check_certs certHashes certs lastErr)"

text \<open>
  \<open>None\<close> for no dialer of its own: the standard one is used. Otherwise the error of a
  connection, from that of the handshake and the certificates presented.
\<close>

definition makeDialer :: "string list \<Rightarrow> (gerror + (gerror + string) list \<Rightarrow> error) option" where
  "makeDialer certHashes =
     (if length certHashes = 0 then None
      else Some (\<lambda>handshake. case handshake of
             Inl err \<Rightarrow> Some err
           | Inr peerCertificates \<Rightarrow> check_certs certHashes peerCertificates None))"

subsection \<open>The addresses of the API host\<close>

definition IsAlternateIPsInitialized :: "bool \<Rightarrow> api \<Rightarrow> bool" where
  "IsAlternateIPsInitialized v6 a \<longleftrightarrow>
     (if v6 then length (alternateIPsV6 a) > 0 else length (alternateIPsV4 a) > 0)"

definition GetLastGoodAlternateIP :: "bool \<Rightarrow> api \<Rightarrow> net_ip" where
  "GetLastGoodAlternateIP v6 a =
     (if v6 then (if to4 (lastGoodAlternateIPv6 a) \<noteq> [] then [] else lastGoodAlternateIPv6 a)
      else to4 (lastGoodAlternateIPv4 a))"

definition SetLastGoodAlternateIP :: "net_ip \<Rightarrow> api \<Rightarrow> api" where
  "SetLastGoodAlternateIP ip a =
     (if to4 ip = [] then a\<lparr>lastGoodAlternateIPv6 := ip\<rparr> else a\<lparr>lastGoodAlternateIPv4 := ip\<rparr>)"

definition getAlternateIPs :: "bool \<Rightarrow> api \<Rightarrow> net_ip list" where
  "getAlternateIPs v6 a = (if v6 then alternateIPsV6 a else alternateIPsV4 a)"

definition doSetAlternateIPs :: "bool \<Rightarrow> string list \<Rightarrow> api \<Rightarrow> api" where
  "doSetAlternateIPs v6 IPs a =
     (let lastGoodIP = GetLastGoodAlternateIP v6 a;
          ipList = filter (\<lambda>ip. ip \<noteq> []) (map parse_ip IPs);
          isLastIPExists = list_ex (\<lambda>ip. ip_equal ip lastGoodIP) ipList;
          a = (if \<not> isLastIPExists then
                 (if v6 then a\<lparr>lastGoodAlternateIPv6 := []\<rparr> else a\<lparr>lastGoodAlternateIPv4 := []\<rparr>)
               else a)
      in if v6 then a\<lparr>alternateIPsV6 := ipList\<rparr> else a\<lparr>alternateIPsV4 := ipList\<rparr>)"

definition SetAlternateIPs :: "string list \<Rightarrow> string list \<Rightarrow> api \<Rightarrow> api" where
  "SetAlternateIPs IPv4List IPv6List a = doSetAlternateIPs True IPv6List (doSetAlternateIPs False IPv4List a)"

subsection \<open>Requests to the API host\<close>

definition request_timeout :: "int \<Rightarrow> duration" where
  "request_timeout timeoutMs = (if timeoutMs > 0 then 1000000 * timeoutMs else defaultRequestTimeout)"

definition dial_timeout :: "int \<Rightarrow> int \<Rightarrow> duration" where
  "dial_timeout timeoutMs timeoutDialMs =
     (let timeoutDial = (if timeoutDialMs > 0 then 1000000 * timeoutDialMs else defaultDialTimeout)
      in if timeoutDial > request_timeout timeoutMs then 0 else timeoutDial)"

datatype api_attempt =
    At_refused gerror  \<comment> \<open>no request could be made\<close>
  | At_failed gerror string  \<comment> \<open>with what is left in the buffer of the body\<close>
  | At_answered http_response

definition newRequest :: "api_env \<Rightarrow> http_request \<Rightarrow> string \<Rightarrow> string \<Rightarrow> gerror + http_request" where
  "newRequest env rq url buffer =
     (case ae_newRequest env url of
        Some err \<Rightarrow> Inl err
      | None \<Rightarrow> Inr (rq\<lparr>rq_method := if length (rq_method rq) = 0 then ''GET'' else rq_method rq,
                       rq_url := url, rq_body := buffer\<rparr>))"

text \<open>A request with the shared buffer as its body; the transport reads it empty.\<close>

definition send_request :: "api_env \<Rightarrow> http_request \<Rightarrow> string \<Rightarrow> string \<Rightarrow> api \<Rightarrow> api_attempt \<times> api" where
  "send_request env rq url buffer a =
     (case newRequest env rq url buffer of
        Inl err \<Rightarrow> (At_refused err, a)
      | Inr req \<Rightarrow>
          let (r, isRead) = ae_do env (length (api_sent a)) req; a = a\<lparr>api_sent := api_sent a @ [req]\<rparr> in
          (case r of
             Inr resp \<Rightarrow> At_answered resp
           | Inl err \<Rightarrow> At_failed err (if isRead then [] else buffer), a))"

definition no_access :: "error \<Rightarrow> gerror" where
  "no_access firstErr =
     (case firstErr of
        Some e \<Rightarrow> ErrWrap ''unable to access IVPN API server'' e
      | None \<Rightarrow> Err ''unable to access IVPN API server: %!w(<nil>)'')"

fun try_alternates ::
  "api_env \<Rightarrow> http_request \<Rightarrow> bool \<Rightarrow> string \<Rightarrow> net_ip \<Rightarrow> net_ip list \<Rightarrow> error \<Rightarrow> string \<Rightarrow> api \<Rightarrow>
    (gerror + http_response) \<times> api" where
  "try_alternates env rq v6 urlPath lastGoodIP [] firstErr buffer a = (Inl (no_access firstErr), a)"
| "try_alternates env rq v6 urlPath lastGoodIP (ip # ips) firstErr buffer a =
     (if ip_equal ip lastGoodIP then try_alternates env rq v6 urlPath lastGoodIP ips firstErr buffer a
      else case send_request env rq (getURL_IPHost ip v6 urlPath) buffer a of
        (At_refused err, a) \<Rightarrow> (Inl err, a)
      | (At_failed err buffer, a) \<Rightarrow>
          try_alternates env rq v6 urlPath lastGoodIP ips (if firstErr = None then Some err else firstErr) buffer a
      | (At_answered resp, a) \<Rightarrow> (Inr resp, SetLastGoodAlternateIP ip a))"

definition try_dns ::
  "api_env \<Rightarrow> http_request \<Rightarrow> bool \<Rightarrow> bool \<Rightarrow> string \<Rightarrow> net_ip \<Rightarrow> string \<Rightarrow> api \<Rightarrow> (gerror + http_response) \<times> api" where
  "try_dns env rq v6 isCanUseDNS urlPath lastGoodIP buffer a =
     (let ips = getAlternateIPs v6 a in
      if \<not> isCanUseDNS then try_alternates env rq v6 urlPath lastGoodIP ips None buffer a
      else case send_request env rq (getURL apiHost urlPath) buffer a of
        (At_refused err, a) \<Rightarrow> (Inl err, a)
      | (At_failed err buffer, a) \<Rightarrow> try_alternates env rq v6 urlPath lastGoodIP ips (Some err) buffer a
      | (At_answered resp, a) \<Rightarrow> (Inr resp, a))"

definition request_data :: "api_env \<Rightarrow> api_object option \<Rightarrow> gerror + string" where
  "request_data env request = (case request of None \<Rightarrow> Inr [] | Some r \<Rightarrow> ae_marshal env r)"

definition doRequestAPIHost ::
  "api_env \<Rightarrow> int \<Rightarrow> bool \<Rightarrow> string \<Rightarrow> string \<Rightarrow> string \<Rightarrow> api_object option \<Rightarrow> int \<Rightarrow> int \<Rightarrow> api \<Rightarrow>
    (gerror + http_response) \<times> api" where
  "doRequestAPIHost env ipTypeRequired isCanUseDNS urlPath method contentType request timeoutMs timeoutDialMs a =
     (let v6 = (ipTypeRequired = IPv6);
          rq = \<lparr>rq_method = method, rq_url = [], rq_contentType = contentType, rq_body = [],
                rq_timeout = request_timeout timeoutMs, rq_dial = dial_timeout timeoutMs timeoutDialMs\<rparr>
      in case request_data env request of
           Inl err \<Rightarrow> (Inl err, a)
         | Inr buffer \<Rightarrow>
             let lastGoodIP = GetLastGoodAlternateIP v6 a in
             if lastGoodIP = [] then try_dns env rq v6 isCanUseDNS urlPath lastGoodIP buffer a
             else case send_request env rq (getURL_IPHost lastGoodIP v6 urlPath) buffer a of
               (At_refused err, a) \<Rightarrow> (Inl err, a)
             | (At_failed err buffer, a) \<Rightarrow> try_dns env rq v6 isCanUseDNS urlPath lastGoodIP buffer a
             | (At_answered resp, a) \<Rightarrow> (Inr resp, a))"

definition doRequestUpdateHost ::
  "api_env \<Rightarrow> string \<Rightarrow> string \<Rightarrow> string \<Rightarrow> api_object option \<Rightarrow> int \<Rightarrow> api \<Rightarrow> (gerror + http_response) \<times> api" where
  "doRequestUpdateHost env urlPath method contentType request timeoutMs a =
     (let rq = \<lparr>rq_method = method, rq_url = [], rq_contentType = contentType, rq_body = [],
                rq_timeout = request_timeout timeoutMs, rq_dial = 0\<rparr>
      in case request_data env request of
           Inl err \<Rightarrow> (Inl err, a)
         | Inr buffer \<Rightarrow>
             (case send_request env rq (getURL updateHost urlPath) buffer a of
                (At_refused err, a) \<Rightarrow> (Inl err, a)
              | (At_failed err _, a) \<Rightarrow> (Inl (ErrWrap ''unable to access IVPN repo server'' err), a)
              | (At_answered resp, a) \<Rightarrow> (Inr resp, a)))"

text \<open>IPv4 first; the test of the alternate addresses for IPv6 is always true.\<close>

definition doRequest ::
  "api_env \<Rightarrow> int \<Rightarrow> string \<Rightarrow> string \<Rightarrow> string \<Rightarrow> string \<Rightarrow> api_object option \<Rightarrow> int \<Rightarrow> int \<Rightarrow> api \<Rightarrow>
    (gerror + http_response) \<times> api" where
  "doRequest env ipTypeRequired host urlPath method contentType request timeoutMs timeoutDialMs a =
     (case IsConnectivityBlocked env of
        Some err \<Rightarrow> (Inl err, a)
      | None \<Rightarrow>
          if length host = 0 \<or> host = apiHost then
            (if ipTypeRequired \<noteq> IPvAny then
               doRequestAPIHost env ipTypeRequired False urlPath method contentType request timeoutMs timeoutDialMs a
             else
               let (r4, a) = doRequestAPIHost env IPv4 True urlPath method contentType request timeoutMs timeoutDialMs a in
               (case r4 of
                  Inr resp4 \<Rightarrow> (Inr resp4, a)
                | Inl err4 \<Rightarrow>
                    if ae_outboundIPv6 env = None \<and> length (getAlternateIPs True a) \<ge> 0 then
                      (let (r6, a) = doRequestAPIHost env IPv6 False urlPath method contentType request timeoutMs timeoutDialMs a
                       in (case r6 of Inr resp6 \<Rightarrow> Inr resp6 | Inl _ \<Rightarrow> Inl err4, a))
                    else (Inl err4, a)))
          else if host = updateHost then doRequestUpdateHost env urlPath method contentType request timeoutMs a
          else (Inl (Err ''unknown host type''), a))"

definition requestRaw ::
  "api_env \<Rightarrow> int \<Rightarrow> string \<Rightarrow> string \<Rightarrow> string \<Rightarrow> string \<Rightarrow> api_object option \<Rightarrow> int \<Rightarrow> int \<Rightarrow> api \<Rightarrow>
    (gerror + string) \<times> api" where
  "requestRaw env ipTypeRequired host urlPath method contentType request timeoutMs timeoutDialMs a =
     (let (r, a) = doRequest env ipTypeRequired host urlPath method contentType request timeoutMs timeoutDialMs a in
      (case r of
         Inl err \<Rightarrow> Inl (ErrWrap ''API request failed'' err)
       | Inr resp \<Rightarrow>
           (case rs_Body resp of
              Inl err \<Rightarrow> Inl (ErrWrap ''failed to read API HTTP response body'' err)
            | Inr body \<Rightarrow> Inr body), a))"

subsection \<open>The calls of the API (api.go)\<close>

definition serversPath :: string where "serversPath = ''v5/servers.json''"
definition apiPathPrefix :: string where "apiPathPrefix = ''v4''"
definition sessionNewPath :: string where "sessionNewPath = apiPathPrefix @ ''/session/new''"
definition sessionStatusPath :: string where "sessionStatusPath = apiPathPrefix @ ''/session/status''"
definition sessionDeletePath :: string where "sessionDeletePath = apiPathPrefix @ ''/session/delete''"
definition wgKeySetPath :: string where "wgKeySetPath = apiPathPrefix @ ''/session/wg/set''"
definition geoLookupPath :: string where "geoLookupPath = apiPathPrefix @ ''/geo-lookup''"

definition CodeSuccess :: int where "CodeSuccess = 200"
definition CodeSessionsLimitReached :: int where "CodeSessionsLimitReached = 602"

definition CreateAPIError :: "int \<Rightarrow> string \<Rightarrow> gerror" where
  "CreateAPIError errorCode message = Err (''API error: ['' @ show_int errorCode @ ''] '' @ message)"

definition deserialize_error :: "gerror \<Rightarrow> gerror" where
  "deserialize_error err = ErrWrap ''failed to deserialize API response'' err"

definition api_request ::
  "api_env \<Rightarrow> string \<Rightarrow> string \<Rightarrow> string \<Rightarrow> string \<Rightarrow> api_object option \<Rightarrow> int \<Rightarrow> int \<Rightarrow> api \<Rightarrow> (gerror + string) \<times> api" where
  "api_request env host urlPath method contentType request timeoutMs timeoutDialMs a =
     requestRaw env IPvAny host urlPath method contentType request timeoutMs timeoutDialMs a"

definition DownloadServersList :: "api_env \<Rightarrow> api \<Rightarrow> (gerror + ServersInfoResponse) \<times> api" where
  "DownloadServersList env a =
     (case api_request env [] serversPath ''GET'' [] None 0 0 a of
        (Inl err, a) \<Rightarrow> (Inl err, a)
      | (Inr body, a) \<Rightarrow>
          (case ae_servers env body of
             Inl err \<Rightarrow> (Inl (deserialize_error err), a)
           | Inr servers \<Rightarrow>
               (Inr servers, SetAlternateIPs (IPAddresses (APIInfo (Config servers)))
                  (IPv6Addresses (APIInfo (Config servers))) a)))"

text \<open>The response, the response of the session limit, the status, the raw text and the error.\<close>

type_synonym api_answer = "string option \<times> string option \<times> (int \<times> string) option \<times> string \<times> error"

definition apiSessionNew :: "api_env \<Rightarrow> api_object \<Rightarrow> api \<Rightarrow> api_answer \<times> api" where
  "apiSessionNew env request a =
     (case requestRaw env IPvAny [] sessionNewPath ''POST'' ''application/json'' (Some request) 0 0 a of
        (Inl err, a) \<Rightarrow> ((None, None, None, [], Some err), a)
      | (Inr data, a) \<Rightarrow>
          (case ae_apiError env data of
             Inl err \<Rightarrow> (None, None, None, data, Some (deserialize_error err))
           | Inr (status, message) \<Rightarrow>
               if status = CodeSuccess then
                 (case ae_unmarshal env data of
                    Some err \<Rightarrow> (None, None, None, data, Some (deserialize_error err))
                  | None \<Rightarrow> (Some data, None, Some (status, message), data, None))
               else if status = CodeSessionsLimitReached then
                 (case ae_unmarshal env data of
                    Some err \<Rightarrow> (None, None, None, data, Some (deserialize_error err))
                  | None \<Rightarrow> (None, Some data, Some (status, message), data, Some (CreateAPIError status message)))
               else (None, None, Some (status, message), data, Some (CreateAPIError status message)), a))"

definition apiSessionStatus ::
  "api_env \<Rightarrow> string \<Rightarrow> api \<Rightarrow> (string option \<times> (int \<times> string) option \<times> error) \<times> api" where
  "apiSessionStatus env session a =
     (case requestRaw env IPvAny [] sessionStatusPath ''POST'' ''application/json'' (Some (SessionStatusRequest session)) 0 0 a of
        (Inl err, a) \<Rightarrow> ((None, None, Some err), a)
      | (Inr data, a) \<Rightarrow>
          (case ae_apiError env data of
             Inl err \<Rightarrow> (None, None, Some (deserialize_error err))
           | Inr (status, message) \<Rightarrow>
               if status = CodeSuccess then
                 (case ae_unmarshal env data of
                    Some err \<Rightarrow> (None, None, Some (deserialize_error err))
                  | None \<Rightarrow> (Some data, Some (status, message), None))
               else (None, Some (status, message), Some (CreateAPIError status message)), a))"

definition apiSessionDelete :: "api_env \<Rightarrow> string \<Rightarrow> api \<Rightarrow> error \<times> api" where
  "apiSessionDelete env session a =
     (case api_request env [] sessionDeletePath ''POST'' ''application/json'' (Some (SessionDeleteRequest session)) 0 0 a of
        (Inl err, a) \<Rightarrow> (Some err, a)
      | (Inr data, a) \<Rightarrow>
          (case ae_apiError env data of
             Inl err \<Rightarrow> Some (deserialize_error err)
           | Inr (status, message) \<Rightarrow>
               if status \<noteq> CodeSuccess then Some (CreateAPIError status message) else None, a))"

definition apiWireGuardKeySet ::
  "api_env \<Rightarrow> string \<Rightarrow> string \<Rightarrow> string \<Rightarrow> string \<Rightarrow> api \<Rightarrow> (string \<times> error) \<times> api" where
  "apiWireGuardKeySet env session newPublicWgKey activePublicWgKey kemKeys a =
     (case api_request env [] wgKeySetPath ''POST'' ''application/json''
             (Some (SessionWireGuardKeySetRequest session newPublicWgKey activePublicWgKey kemKeys)) 0 0 a of
        (Inl err, a) \<Rightarrow> (([], Some err), a)
      | (Inr data, a) \<Rightarrow>
          (case ae_unmarshal env data of
             Some err \<Rightarrow> ([], Some (deserialize_error err))
           | None \<Rightarrow>
               (case ae_apiError env data of
                  Inl err \<Rightarrow> ([], Some (deserialize_error err))
                | Inr (status, message) \<Rightarrow>
                    if status \<noteq> CodeSuccess then (data, Some (CreateAPIError status message)) else (data, None)), a))"

text \<open>\<open>GeoLookup\<close> with no other lookup running; the text it deserialises is empty after an error.\<close>

definition geo_singleton :: "api_env \<Rightarrow> int \<Rightarrow> int \<Rightarrow> api \<Rightarrow> (gerror + string) \<times> api" where
  "geo_singleton env timeoutMs ipType a =
     (if ipType \<noteq> IPv4 \<and> ipType \<noteq> IPv6 then (Inl (Err ''geolookup request failed: IP version not defined''), a)
      else
        let (r, a) = requestRaw env ipType [] geoLookupPath ''GET'' [] None timeoutMs 0 a in
        (case ae_unmarshal env (case r of Inl _ \<Rightarrow> [] | Inr data \<Rightarrow> data) of
           Some err \<Rightarrow> Inl (deserialize_error err)
         | None \<Rightarrow> r, a))"

definition GeoLookup :: "api_env \<Rightarrow> int \<Rightarrow> int \<Rightarrow> api \<Rightarrow> (gerror + string) \<times> api" where
  "GeoLookup env timeoutMs ipTypeRequired a =
     (if ipTypeRequired \<noteq> IPvAny then geo_singleton env timeoutMs ipTypeRequired a
      else case geo_singleton env timeoutMs IPv4 a of
        (Inr data, a) \<Rightarrow> (Inr data, a)
      | (Inl _, a) \<Rightarrow> geo_singleton env timeoutMs IPv6 a)"

definition APIAliases :: "(string \<times> string \<times> string) list" where
  "APIAliases =
     [(''geo-lookup'', apiHost, geoLookupPath),
      (''updateInfo_Linux'', updateHost, ''/stable/_update_info/update.json''),
      (''updateSign_Linux'', updateHost, ''/stable/_update_info/update.json.sign.sha256.base64''),
      (''updateInfo_macOS'', updateHost, ''/macos/update.json''),
      (''updateSign_macOS'', updateHost, ''/macos/update.json.sign.sha256.base64''),
      (''updateInfo_Windows'', updateHost, ''/windows/update.json''),
      (''updateSign_Windows'', updateHost, ''/windows/update.json.sign.sha256.base64''),
      (''updateInfo_manual_Linux'', updateHost, ''/stable/_update_info/update_manual.json''),
      (''updateSign_manual_Linux'', updateHost, ''/stable/_update_info/update_manual.json.sign.sha256.base64''),
      (''updateInfo_manual_macOS'', updateHost, ''/macos/update_manual.json''),
      (''updateSign_manual_macOS'', updateHost, ''/macos/update_manual.json.sign.sha256.base64''),
      (''updateInfo_manual_Windows'', updateHost, ''/windows/update_manual.json''),
      (''updateSign_manual_Windows'', updateHost, ''/windows/update_manual.json.sign.sha256.base64''),
      (''updateInfo_beta_Linux'', updateHost, ''/stable/_update_info/update_beta.json''),
      (''updateSign_beta_Linux'', updateHost, ''/stable/_update_info/update_beta.json.sign.sha256.base64''),
      (''updateInfo_beta_macOS'', updateHost, ''/macos/update_beta.json''),
      (''updateSign_beta_macOS'', updateHost, ''/macos/update_beta.json.sign.sha256.base64''),
      (''updateInfo_beta_Windows'', updateHost, ''/windows/update_beta.json''),
      (''updateSign_beta_Windows'', updateHost, ''/windows/update_beta.json.sign.sha256.base64'')]"

text \<open>The architecture goes before the first dot of the path, unless that is its first character.\<close>

definition arch_path :: "string \<Rightarrow> string \<Rightarrow> string" where
  "arch_path arch path =
     (if arch = ''amd64'' then path
      else
        let stem = takeWhile (\<lambda>c. c \<noteq> CHR ''.'') path in
        if stem \<noteq> path \<and> stem \<noteq> [] then stem @ ''_'' @ arch @ drop (length stem) path else path)"

definition DoRequestByAlias :: "api_env \<Rightarrow> string \<Rightarrow> int \<Rightarrow> api \<Rightarrow> (gerror + string) \<times> api" where
  "DoRequestByAlias env apiAlias ipTypeRequired a =
     (if apiAlias = ''geo-lookup'' then
        (if ipTypeRequired \<noteq> IPv4 \<and> ipTypeRequired \<noteq> IPv6 then
           (Inl (Err ''geolookup request failed: IP version not defined''), a)
         else GeoLookup env 0 ipTypeRequired a)
      else case map_of APIAliases apiAlias of
        None \<Rightarrow> (Inl (Err ''unexpected request alias''), a)
      | Some (host, path) \<Rightarrow> requestRaw env ipTypeRequired host (arch_path (GOARCH env) path) [] [] None 0 0 a)"

subsection \<open>The updater of the list of servers\<close>

record updater =
  up_servers :: "ServersInfoResponse option"
  up_api :: api
  up_notify :: bool  \<comment> \<open>whether the channel, of one place, is full\<close>
  up_file :: "string option"

record updater_env =
  ue_api :: api_env
  ue_stat :: error
  ue_read :: error
  ue_unmarshal :: "string \<Rightarrow> gerror + ServersInfoResponse"
  ue_rights :: error
  ue_marshal :: "ServersInfoResponse \<Rightarrow> gerror + string"
  ue_write :: error

definition writeServersToCache :: "updater_env \<Rightarrow> ServersInfoResponse \<Rightarrow> updater \<Rightarrow> error \<times> updater" where
  "writeServersToCache env servers s =
     (case ue_marshal env servers of
        Inl err \<Rightarrow> (Some (ErrWrap ''failed to marshal servers into a cache'' err), s)
      | Inr data \<Rightarrow>
          if data = [] then (Some (Err ''failed to serialize servers''), s)
          else case ue_write env of Some err \<Rightarrow> (Some err, s) | None \<Rightarrow> (None, s\<lparr>up_file := Some data\<rparr>))"

definition updateServers :: "updater_env \<Rightarrow> updater \<Rightarrow> (gerror + ServersInfoResponse) \<times> updater" where
  "updateServers env s =
     (let (r, a) = DownloadServersList (ue_api env) (up_api s); s = s\<lparr>up_api := a\<rparr> in
      case r of
        Inl err \<Rightarrow> (Inl (ErrWrap ''failed to download servers list'' err), s)
      | Inr servers \<Rightarrow>
          if length (pi_OpenVPN (Ports (Config servers))) = 0 then
            (Inl (Err ''no ports info for OpenVPN in servers.json; skipping received data from backend''), s)
          else if length (pi_WireGuard (Ports (Config servers))) = 0 then
            (Inl (Err ''no ports info for WireGuard in servers.json; skipping received data from backend''), s)
          else
            let (_, s) = writeServersToCache env servers (s\<lparr>up_servers := Some servers\<rparr>)
            in (Inr servers, s\<lparr>up_notify := True\<rparr>))"

text \<open>The servers, the alternate addresses of the API, the error.\<close>

definition readServersFromCache ::
  "updater_env \<Rightarrow> updater \<Rightarrow> (ServersInfoResponse option \<times> string list \<times> string list \<times> error) \<times> updater" where
  "readServersFromCache env s =
     (let nothing = (\<lambda>t e. ((None, [], [], Some (ErrWrap t e)), s)) in
      case up_file s of
        None \<Rightarrow> nothing ''failed to read servers cache file'' ErrNotExist
      | Some data \<Rightarrow>
          if ue_stat env \<noteq> None then nothing ''failed to info about servers cache file'' (the (ue_stat env))
          else if ue_read env \<noteq> None then nothing ''failed to read servers cache file'' (the (ue_read env))
          else case ue_unmarshal env data of
            Inl err \<Rightarrow> nothing ''failed to unmarshal servers cache file'' err
          | Inr servers \<Rightarrow>
              let v4 = IPAddresses (APIInfo (Config servers)); v6 = IPv6Addresses (APIInfo (Config servers)) in
              case ue_rights env of
                Some err \<Rightarrow> ((None, v4, v6, Some (ErrWrap ''skip reading servers cache file'' err)), s\<lparr>up_file := None\<rparr>)
              | None \<Rightarrow> ((Some servers, v4, v6, None), s))"

definition GetServers :: "updater_env \<Rightarrow> updater \<Rightarrow> (gerror + ServersInfoResponse) \<times> updater" where
  "GetServers env s =
     (case up_servers s of
        Some servers \<Rightarrow> (Inr servers, s)
      | None \<Rightarrow>
          let ((servers, apiIPsV4, apiIPsV6, err), s) = readServersFromCache env s;
              s = (if err \<noteq> None \<and> \<not> IsAlternateIPsInitialized False (up_api s)
                      \<and> \<not> IsAlternateIPsInitialized True (up_api s)
                      \<and> (length apiIPsV4 > 0 \<or> length apiIPsV6 > 0)
                   then s\<lparr>up_api := SetAlternateIPs apiIPsV4 apiIPsV6 (up_api s)\<rparr> else s)
          in case (servers, err) of
               (Some svrs, None) \<Rightarrow> (Inr svrs, s\<lparr>up_servers := Some svrs\<rparr>)
             | _ \<Rightarrow> updateServers env s)"

definition GetServersForceUpdate :: "updater_env \<Rightarrow> updater \<Rightarrow> (gerror + ServersInfoResponse) \<times> updater" where
  "GetServersForceUpdate env s = updateServers env s"

definition CreateServersUpdater :: "updater_env \<Rightarrow> updater \<Rightarrow> updater" where
  "CreateServersUpdater env s =
     (case GetServers env s of
        (Inr servers, s) \<Rightarrow>
          s\<lparr>up_api := SetAlternateIPs (IPAddresses (APIInfo (Config servers)))
              (IPv6Addresses (APIInfo (Config servers))) (up_api s)\<rparr>
      | (Inl _, s) \<Rightarrow> s)"

text \<open>The rounds of the goroutine of \<open>StartUpdater\<close> with the pauses after them.\<close>

fun updater_rounds :: "bool \<Rightarrow> updater_env list \<Rightarrow> updater \<Rightarrow> duration list \<times> updater" where
  "updater_rounds isFirstIteration [] s = ([], s)"
| "updater_rounds isFirstIteration (env # envs) s =
     (let (r, s) = updateServers env s;
          updateDelay = (case r of Inl _ \<Rightarrow> if isFirstIteration then 5 * minute else hour | Inr _ \<Rightarrow> hour);
          (delays, s) = updater_rounds False envs s
      in (updateDelay # delays, s))"

subsection \<open>Geolookups at the same time\<close>

text \<open>
  One goroutine asks for all callers that come while it runs. Channels are numbered as they are
  made. A call is its locked part, the moment it reads the channel to wait on, and its return; the
  goroutine writes its result, then marks that it is over and closes the channel, without the lock.
  Closing a closed channel panics, and nothing recovers it.
\<close>

datatype geo_routine = Rt_asking | Rt_answered | Rt_marked | Rt_ended

datatype geo_caller = Ca_entered | Ca_waiting nat | Ca_returned "gerror + string"

record geolookup =
  geo_isRunning :: bool
  geo_done :: nat
  geo_made :: nat
  geo_closed :: "nat set"
  geo_result :: "gerror + string"
  geo_routines :: "geo_routine list"
  geo_callers :: "nat \<rightharpoonup> geo_caller"
  geo_crashed :: bool

definition geo_initial :: geolookup where
  "geo_initial = \<lparr>geo_isRunning = False, geo_done = 0, geo_made = 0, geo_closed = {}, geo_result = Inr [],
     geo_routines = [], geo_callers = Map.empty, geo_crashed = False\<rparr>"

datatype geo_event =
    Geo_call nat
  | Geo_wait nat
  | Geo_return nat
  | Geo_answer nat "gerror + string"
  | Geo_mark nat
  | Geo_close nat

definition at_phase :: "geolookup \<Rightarrow> nat \<Rightarrow> geo_routine \<Rightarrow> bool" where
  "at_phase g r p \<longleftrightarrow> r < length (geo_routines g) \<and> geo_routines g ! r = p"

fun geo_do :: "geo_event \<Rightarrow> geolookup \<Rightarrow> geolookup" where
  "geo_do (Geo_call c) g =
     (if geo_callers g c \<noteq> None then g
      else
        let g = g\<lparr>geo_callers := (geo_callers g)(c \<mapsto> Ca_entered)\<rparr> in
        if geo_isRunning g then g
        else g\<lparr>geo_isRunning := True, geo_done := geo_made g + 1, geo_made := geo_made g + 1,
               geo_routines := geo_routines g @ [Rt_asking]\<rparr>)"
| "geo_do (Geo_wait c) g =
     (if geo_callers g c = Some Ca_entered then g\<lparr>geo_callers := (geo_callers g)(c \<mapsto> Ca_waiting (geo_done g))\<rparr> else g)"
| "geo_do (Geo_return c) g =
     (case geo_callers g c of
        Some (Ca_waiting ch) \<Rightarrow>
          if ch \<in> geo_closed g then g\<lparr>geo_callers := (geo_callers g)(c \<mapsto> Ca_returned (geo_result g))\<rparr> else g
      | _ \<Rightarrow> g)"
| "geo_do (Geo_answer r x) g =
     (if at_phase g r Rt_asking then g\<lparr>geo_result := x, geo_routines := (geo_routines g)[r := Rt_answered]\<rparr> else g)"
| "geo_do (Geo_mark r) g =
     (if at_phase g r Rt_answered then g\<lparr>geo_isRunning := False, geo_routines := (geo_routines g)[r := Rt_marked]\<rparr> else g)"
| "geo_do (Geo_close r) g =
     (if at_phase g r Rt_marked then
        if geo_done g \<in> geo_closed g then g\<lparr>geo_crashed := True\<rparr>
        else g\<lparr>geo_closed := insert (geo_done g) (geo_closed g), geo_routines := (geo_routines g)[r := Rt_ended]\<rparr>
      else g)"

definition geo_step :: "geo_event \<Rightarrow> geolookup \<Rightarrow> geolookup" where
  "geo_step e g = (if geo_crashed g then g else geo_do e g)"

end
