(* ===== verification/Api_Proofs.thy ===== *)
theory Api_Proofs
  imports Api_Client
begin

section \<open>Falling back to other addresses, pinned keys, and geolookups that overlap\<close>

text \<open>
  In which order the addresses of the API host are asked and what each of them is sent; what the
  check of the pinned keys guarantees; what overlapping geolookups do.
\<close>

subsection \<open>The bodies of the requests\<close>

text \<open>
  \<open>sent_ok\<close>: the requests after the first \<open>n\<close>, their bodies, and what is left in the buffer.
\<close>

definition body_read :: "api_env \<Rightarrow> nat \<Rightarrow> http_request list \<Rightarrow> nat \<Rightarrow> bool" where
  "body_read env n reqs i \<longleftrightarrow> snd (ae_do env (n + i) (reqs ! i))"

definition bodies_ok :: "api_env \<Rightarrow> nat \<Rightarrow> string \<Rightarrow> http_request list \<Rightarrow> bool" where
  "bodies_ok env n data reqs \<longleftrightarrow>
     (\<forall>j < length reqs. rq_body (reqs ! j) = (if \<exists>i < j. body_read env n reqs i then [] else data))"

definition sent_ok :: "api_env \<Rightarrow> http_request list \<Rightarrow> string \<Rightarrow> api \<Rightarrow> string \<Rightarrow> bool" where
  "sent_ok env old data a buffer \<longleftrightarrow>
     (\<exists>reqs. api_sent a = old @ reqs \<and> bodies_ok env (length old) data reqs
       \<and> buffer = (if \<exists>i < length reqs. body_read env (length old) reqs i then [] else data))"

definition done_ok :: "api_env \<Rightarrow> http_request list \<Rightarrow> string \<Rightarrow> api \<Rightarrow> bool" where
  "done_ok env old data a \<longleftrightarrow> (\<exists>reqs. api_sent a = old @ reqs \<and> bodies_ok env (length old) data reqs)"

lemma sent_done: "sent_ok env old data a buffer \<Longrightarrow> done_ok env old data a"
  by (auto simp: sent_ok_def done_ok_def)

lemma body_read_append: "i < length reqs \<Longrightarrow> body_read env n (reqs @ xs) i = body_read env n reqs i"
  by (simp add: body_read_def nth_append)

lemma bodies_snoc:
  assumes "bodies_ok env n data reqs" "rq_body r = (if \<exists>i < length reqs. body_read env n reqs i then [] else data)"
  shows "bodies_ok env n data (reqs @ [r])"
  unfolding bodies_ok_def
proof (intro allI impI)
  fix j assume j: "j < length (reqs @ [r])"
  have "(\<exists>i < j. body_read env n (reqs @ [r]) i) = (\<exists>i < j. body_read env n reqs i)"
    using j body_read_append [of _ reqs env n "[r]"] by auto
  then show "rq_body ((reqs @ [r]) ! j) = (if \<exists>i < j. body_read env n (reqs @ [r]) i then [] else data)"
    using assms j by (cases "j = length reqs") (auto simp: bodies_ok_def nth_append)
qed

text \<open>What a request does, by its outcome.\<close>

lemma send_request_cases:
  assumes "sent_ok env old data a buffer" "send_request env rq url buffer a = (t, b)"
  shows "(case t of At_failed _ buffer' \<Rightarrow> sent_ok env old data b buffer' | _ \<Rightarrow> done_ok env old data b)"
proof (cases "newRequest env rq url buffer")
  case (Inl err)
  then show ?thesis using assms sent_done by (auto simp: send_request_def)
next
  case (Inr req)
  then have body: "rq_body req = buffer" by (auto simp: newRequest_def split: option.splits)
  obtain reqs where reqs: "api_sent a = old @ reqs" "bodies_ok env (length old) data reqs"
    "buffer = (if \<exists>i < length reqs. body_read env (length old) reqs i then [] else data)"
    using assms(1) by (auto simp: sent_ok_def)
  obtain r isRead where r: "ae_do env (length (api_sent a)) req = (r, isRead)" by fastforce
  have ok: "bodies_ok env (length old) data (reqs @ [req])" using bodies_snoc reqs(2,3) body by simp
  have b: "api_sent b = old @ (reqs @ [req])"
    using assms(2) Inr r reqs(1) by (auto simp: send_request_def)
  have "body_read env (length old) (reqs @ [req]) (length reqs) = isRead"
    using r reqs(1) by (simp add: body_read_def)
  then have "(\<exists>i < length (reqs @ [req]). body_read env (length old) (reqs @ [req]) i)
      = (isRead \<or> (\<exists>i < length reqs. body_read env (length old) reqs i))"
    using body_read_append [of _ reqs env "length old" "[req]"] by (auto simp: less_Suc_eq)
  then have "sent_ok env old data b (if isRead then [] else buffer)"
    unfolding sent_ok_def using ok b reqs(3) by (intro exI [of _ "reqs @ [req]"]) auto
  then show ?thesis using assms(2) Inr r sent_done
    by (auto simp: send_request_def split: sum.splits)
qed

lemma send_failed: "sent_ok env old data a buffer \<Longrightarrow> send_request env rq url buffer a = (At_failed e buffer', b) \<Longrightarrow>
    sent_ok env old data b buffer'"
  using send_request_cases by fastforce

lemma send_ended: "sent_ok env old data a buffer \<Longrightarrow> send_request env rq url buffer a = (t, b) \<Longrightarrow>
    (\<forall>e b'. t \<noteq> At_failed e b') \<Longrightarrow> done_ok env old data b"
  using send_request_cases by (cases t) fastforce+

lemma done_last_good [simp]: "done_ok env old data (SetLastGoodAlternateIP ip a) = done_ok env old data a"
  by (simp add: SetLastGoodAlternateIP_def done_ok_def)

lemma alternates_bodies:
  "sent_ok env old data a buffer \<Longrightarrow> done_ok env old data (snd (try_alternates env rq v6 p lg ips e buffer a))"
proof (induction ips arbitrary: e buffer a)
  case Nil
  then show ?case using sent_done by simp
next
  case (Cons ip ips)
  obtain t b where t: "send_request env rq (getURL_IPHost ip v6 p) buffer a = (t, b)" by fastforce
  show ?case
  proof (cases t)
    case (At_failed e' buffer')
    then show ?thesis using Cons t send_failed [OF Cons.prems, of rq "getURL_IPHost ip v6 p"] by simp
  qed (use Cons t send_ended [OF Cons.prems t] in auto)
qed

lemma dns_bodies:
  assumes "sent_ok env old data a buffer"
  shows "done_ok env old data (snd (try_dns env rq v6 dns p lg buffer a))"
proof -
  obtain t b where t: "send_request env rq (getURL apiHost p) buffer a = (t, b)" by fastforce
  show ?thesis
  proof (cases t)
    case (At_failed e' buffer')
    then show ?thesis using assms t send_failed [OF assms, of rq "getURL apiHost p"] alternates_bodies
      by (simp add: try_dns_def Let_def)
  qed (use assms t alternates_bodies send_ended [OF assms t] in \<open>auto simp: try_dns_def Let_def\<close>)
qed

text \<open>
  C20: The requests of one call share one buffer for their body: the first request carries the
  whole body, and so does each following one as long as no failed request had its body read; after
  that every further address is sent an empty body. So when the answer of one address does not
  come in time, the next address is asked to log in, or to set a key, with no data at all, and
  what it answers to that is taken as the answer.
\<close>

theorem api_fallback_bodies:
  fixes a a' :: api and ipType timeoutMs dialMs :: int and dns :: bool and urlPath verb contentType :: string
  assumes "request_data env request = Inr data"
  defines "a' \<equiv> snd (doRequestAPIHost env ipType dns urlPath verb contentType request timeoutMs dialMs a)"
  shows "\<exists>reqs. api_sent a' = api_sent a @ reqs
    \<and> (\<forall>j < length reqs. rq_body (reqs ! j)
         = (if \<exists>i < j. snd (ae_do env (length (api_sent a) + i) (reqs ! i)) then [] else data))"
proof -
  have s: "sent_ok env (api_sent a) data a data" unfolding sent_ok_def bodies_ok_def by (rule exI [of _ "[]"]) simp
  have "done_ok env (api_sent a) data a'"
  proof (cases "GetLastGoodAlternateIP (ipType = IPv6) a = []")
    case True
    then show ?thesis using assms(1) dns_bodies [OF s] unfolding a'_def by (simp add: doRequestAPIHost_def Let_def)
  next
    case False
    let ?rq = "\<lparr>rq_method = verb, rq_url = [], rq_contentType = contentType, rq_body = [],
                rq_timeout = request_timeout timeoutMs, rq_dial = dial_timeout timeoutMs dialMs\<rparr>"
    let ?url = "getURL_IPHost (GetLastGoodAlternateIP (ipType = IPv6) a) (ipType = IPv6) urlPath"
    obtain t b where t: "send_request env ?rq ?url data a = (t, b)" by fastforce
    show ?thesis
    proof (cases t)
      case (At_failed e buffer)
      then show ?thesis using assms(1) False t dns_bodies [OF send_failed [OF s]] unfolding a'_def
        by (simp add: doRequestAPIHost_def Let_def)
    qed (use assms(1) False t send_ended [OF s t] in \<open>auto simp: a'_def doRequestAPIHost_def Let_def\<close>)
  qed
  then show ?thesis by (auto simp: done_ok_def bodies_ok_def body_read_def)
qed

subsection \<open>The order of the addresses\<close>

text \<open>An environment in which a request is answered according to its address only.\<close>

definition answers_by_url :: "api_env \<Rightarrow> (string \<Rightarrow> gerror + http_response) \<Rightarrow> bool" where
  "answers_by_url env g \<longleftrightarrow> (\<forall>u. ae_newRequest env u = None) \<and> (\<forall>n rq. fst (ae_do env n rq) = g (rq_url rq))"

definition answers :: "(string \<Rightarrow> gerror + http_response) \<Rightarrow> string \<Rightarrow> bool" where
  "answers g u \<longleftrightarrow> (\<exists>r. g u = Inr r)"

definition alternate_urls :: "bool \<Rightarrow> string \<Rightarrow> net_ip \<Rightarrow> net_ip list \<Rightarrow> string list" where
  "alternate_urls v6 p lg ips = map (\<lambda>ip. getURL_IPHost ip v6 p) (filter (\<lambda>ip. \<not> ip_equal ip lg) ips)"

text \<open>The addresses in the order they are to be asked.\<close>

definition url_plan :: "int \<Rightarrow> bool \<Rightarrow> string \<Rightarrow> api \<Rightarrow> string list" where
  "url_plan ipType dns p a =
     (let v6 = (ipType = IPv6); lg = GetLastGoodAlternateIP v6 a in
      (if lg = [] then [] else [getURL_IPHost lg v6 p]) @ (if dns then [getURL apiHost p] else [])
      @ alternate_urls v6 p lg (getAlternateIPs v6 a))"

definition asked :: "(string \<Rightarrow> gerror + http_response) \<Rightarrow> string list \<Rightarrow> string list" where
  "asked g us = takeWhile (\<lambda>u. \<not> answers g u) us @ take 1 (dropWhile (\<lambda>u. \<not> answers g u) us)"

definition result_ok :: "(string \<Rightarrow> gerror + http_response) \<Rightarrow> string list \<Rightarrow> gerror + http_response \<Rightarrow> bool" where
  "result_ok g us r \<longleftrightarrow> (case find (answers g) us of Some u \<Rightarrow> r = g u | None \<Rightarrow> \<exists>e. r = Inl e)"

lemma asked_Cons: "asked g (u # us) = (if answers g u then [u] else u # asked g us)"
  by (simp add: asked_def)

lemma asked_Nil [simp]: "asked g [] = []"
  by (simp add: asked_def)

lemma send_by_url:
  assumes "answers_by_url env g"
  shows "\<exists>t b. send_request env rq url buffer a = (t, b) \<and> map rq_url (api_sent b) = map rq_url (api_sent a) @ [url]
    \<and> getAlternateIPs v6 b = getAlternateIPs v6 a
    \<and> (case t of At_answered r \<Rightarrow> g url = Inr r | At_failed _ _ \<Rightarrow> \<not> answers g url | At_refused _ \<Rightarrow> False)"
proof -
  let ?req = "rq\<lparr>rq_method := if length (rq_method rq) = 0 then ''GET'' else rq_method rq, rq_url := url, rq_body := buffer\<rparr>"
  have n: "newRequest env rq url buffer = Inr ?req" using assms by (simp add: newRequest_def answers_by_url_def)
  obtain r isRead where r: "ae_do env (length (api_sent a)) ?req = (r, isRead)" by fastforce
  have "fst (ae_do env (length (api_sent a)) ?req) = g url" using assms by (simp add: answers_by_url_def)
  then have g: "r = g url" using r by simp
  show ?thesis
    using n r unfolding g by (cases "g url") (simp_all add: send_request_def answers_def getAlternateIPs_def)
qed

lemma alternates_order:
  assumes "answers_by_url env g"
  shows "map rq_url (api_sent (snd (try_alternates env rq v6 p lg ips e buffer a)))
      = map rq_url (api_sent a) @ asked g (alternate_urls v6 p lg ips)
    \<and> result_ok g (alternate_urls v6 p lg ips) (fst (try_alternates env rq v6 p lg ips e buffer a))"
proof (induction ips arbitrary: e buffer a)
  case Nil
  then show ?case by (simp add: alternate_urls_def result_ok_def)
next
  case (Cons ip ips)
  let ?u = "getURL_IPHost ip v6 p"
  show ?case
  proof (cases "ip_equal ip lg")
    case True
    then show ?thesis using Cons by (simp add: alternate_urls_def)
  next
    case False
    then have urls: "alternate_urls v6 p lg (ip # ips) = ?u # alternate_urls v6 p lg ips" by (simp add: alternate_urls_def)
    obtain t b where t: "send_request env rq ?u buffer a = (t, b)" "map rq_url (api_sent b) = map rq_url (api_sent a) @ [?u]"
      "case t of At_answered r \<Rightarrow> g ?u = Inr r | At_failed _ _ \<Rightarrow> \<not> answers g ?u | At_refused _ \<Rightarrow> False"
      using send_by_url [OF assms, of rq ?u buffer a v6] by blast
    show ?thesis
    proof (cases t)
      case (At_refused e)
      then show ?thesis using t(3) by simp
    next
      case (At_failed e' buffer')
      then have "\<not> answers g ?u" using t(3) by simp
      then show ?thesis using Cons [of "if e = None then Some e' else e" buffer' b] t(1,2) False At_failed urls
        by (simp add: asked_Cons result_ok_def)
    next
      case (At_answered r)
      then have "g ?u = Inr r" using t(3) by simp
      then have "answers g ?u" by (simp add: answers_def)
      then show ?thesis using t(1,2) False At_answered urls \<open>g ?u = Inr r\<close>
        by (simp add: asked_Cons result_ok_def SetLastGoodAlternateIP_def)
    qed
  qed
qed

lemma dns_order:
  fixes a :: api and lg :: net_ip and v6 dns :: bool and p :: string
  assumes "answers_by_url env g"
  defines "us \<equiv> (if dns then [getURL apiHost p] else []) @ alternate_urls v6 p lg (getAlternateIPs v6 a)"
  shows "map rq_url (api_sent (snd (try_dns env rq v6 dns p lg buffer a))) = map rq_url (api_sent a) @ asked g us
    \<and> result_ok g us (fst (try_dns env rq v6 dns p lg buffer a))"
proof (cases dns)
  case False
  then show ?thesis using alternates_order [OF assms(1)] by (simp add: try_dns_def us_def)
next
  case True
  let ?u = "getURL apiHost p"
  obtain t b where t: "send_request env rq ?u buffer a = (t, b)" "map rq_url (api_sent b) = map rq_url (api_sent a) @ [?u]"
    "case t of At_answered r \<Rightarrow> g ?u = Inr r | At_failed _ _ \<Rightarrow> \<not> answers g ?u | At_refused _ \<Rightarrow> False"
    using send_by_url [OF assms(1), of rq ?u buffer a v6] by blast
  show ?thesis
  proof (cases t)
    case (At_refused e)
    then show ?thesis using t(3) by simp
  next
    case (At_failed e' buffer')
    then have n: "\<not> answers g ?u" using t(3) by simp
    show ?thesis using alternates_order [OF assms(1), of rq v6 p lg "getAlternateIPs v6 a" "Some e'" buffer' b] True At_failed t(1,2) n
      by (simp add: try_dns_def us_def asked_Cons result_ok_def Let_def)
  next
    case (At_answered r)
    then have y: "g ?u = Inr r" "answers g ?u" using t(3) by (simp_all add: answers_def)
    show ?thesis using True At_answered t(1,2) y
      by (simp add: try_dns_def us_def asked_Cons result_ok_def Let_def)
  qed
qed

text \<open>
  C19: A request reaches the API as long as one address answers: the last good address, then the
  name of the host (when it may be used), then the alternate addresses without the last good one
  are asked in this order, each once, up to the first that answers; its answer is the result, and
  only when none answers is there an error.
\<close>

theorem api_fallback_order:
  fixes a a' :: api and ipType timeoutMs dialMs :: int and dns :: bool and urlPath verb contentType :: string
  assumes "answers_by_url env g" "request_data env request = Inr data"
  defines "r \<equiv> doRequestAPIHost env ipType dns urlPath verb contentType request timeoutMs dialMs a"
    and "plan \<equiv> url_plan ipType dns urlPath a"
  shows "map rq_url (api_sent (snd r)) = map rq_url (api_sent a) @ asked g plan
    \<and> (case find (answers g) plan of Some u \<Rightarrow> fst r = g u | None \<Rightarrow> \<exists>err. fst r = Inl err)"
proof -
  let ?v6 = "ipType = IPv6"
  let ?lg = "GetLastGoodAlternateIP ?v6 a"
  let ?us = "(if dns then [getURL apiHost urlPath] else []) @ alternate_urls ?v6 urlPath ?lg (getAlternateIPs ?v6 a)"
  have "map rq_url (api_sent (snd r)) = map rq_url (api_sent a) @ asked g plan \<and> result_ok g plan (fst r)"
  proof (cases "?lg = []")
    case True
    have p: "plan = ?us" using True unfolding plan_def url_plan_def Let_def by simp
    show ?thesis unfolding p using assms(2) True dns_order [OF assms(1)] unfolding r_def
      by (simp add: doRequestAPIHost_def Let_def)
  next
    case False
    let ?u = "getURL_IPHost ?lg ?v6 urlPath"
    have p: "plan = ?u # ?us" using False unfolding plan_def url_plan_def Let_def by simp
    let ?rq = "\<lparr>rq_method = verb, rq_url = [], rq_contentType = contentType, rq_body = [],
                rq_timeout = request_timeout timeoutMs, rq_dial = dial_timeout timeoutMs dialMs\<rparr>"
    obtain t b where t: "send_request env ?rq ?u data a = (t, b)" "map rq_url (api_sent b) = map rq_url (api_sent a) @ [?u]"
      "getAlternateIPs ?v6 b = getAlternateIPs ?v6 a"
      "case t of At_answered r \<Rightarrow> g ?u = Inr r | At_failed _ _ \<Rightarrow> \<not> answers g ?u | At_refused _ \<Rightarrow> False"
      using send_by_url [OF assms(1), of ?rq ?u data a ?v6] by blast
    show ?thesis
    proof (cases t)
      case (At_refused e)
      then show ?thesis using t(4) by simp
    next
      case (At_failed e buffer)
      then have n: "\<not> answers g ?u" using t(4) by simp
      have r: "r = try_dns env ?rq ?v6 dns urlPath ?lg buffer b"
        using assms(2) False t(1) At_failed unfolding r_def by (simp add: doRequestAPIHost_def Let_def)
      show ?thesis using dns_order [OF assms(1), of ?rq ?v6 dns urlPath ?lg buffer b] n t(2,3) unfolding r p
        by (simp add: asked_Cons result_ok_def)
    next
      case (At_answered resp)
      then have y: "g ?u = Inr resp" "answers g ?u" using t(4) by (simp_all add: answers_def)
      have r: "r = (Inr resp, b)"
        using assms(2) False t(1) At_answered unfolding r_def by (simp add: doRequestAPIHost_def Let_def)
      show ?thesis using y t(2) unfolding r p by (simp add: asked_Cons result_ok_def)
    qed
  qed
  then show ?thesis unfolding result_ok_def .
qed

subsection \<open>Pinned keys\<close>

lemma check_certs_iff: "check_certs hashes certs e = None \<longleftrightarrow> (\<exists>h \<in> set hashes. Inr h \<in> set certs)"
  by (induction hashes certs e rule: check_certs.induct) (auto simp: findPinnedKey_def list_ex_iff split: option.split)

text \<open>
  The check of the pinned keys accepts a connection exactly when some certificate among those
  the server presented has a pinned key, wherever it stands. Only the first certificate is the
  server's own: a server with any certificate the system trusts passes the check by presenting a
  copy of the public certificate of IVPN after its own.
\<close>

theorem pinned_key_anywhere:
  assumes "makeDialer hashes = Some dialer"
  shows "(dialer (Inr certs) = None \<longleftrightarrow> (\<exists>h \<in> set hashes. Inr h \<in> set certs))
    \<and> (\<forall>own. \<forall>h \<in> set hashes. dialer (Inr [own, Inr h]) = None)"
  using assms by (auto simp: makeDialer_def check_certs_iff split: if_splits)

subsection \<open>Geolookups that overlap\<close>

lemma at_phase_set [simp]:
  "at_phase (g\<lparr>geo_routines := (geo_routines g)[r := p]\<rparr>) r q \<longleftrightarrow> r < length (geo_routines g) \<and> q = p"
  by (auto simp: at_phase_def)

text \<open>
  C25: Two geolookups can end the daemon: when a client asks just after a lookup marked its end and
  before it closed its channel, the first goroutine closes the channel of the second, which then
  closes it again, and the panic is not recovered. The callers of the first lookup wait for a
  channel that nobody closes any more.
\<close>

theorem overlapping_geolookups_crash:
  fixes g :: geolookup and r c w :: nat and x :: "gerror + string"
  assumes "\<not> geo_crashed g" "\<not> geo_isRunning g" "at_phase g r Rt_marked" "geo_callers g c = None"
    and "\<forall>ch \<in> geo_closed g. ch \<le> geo_made g" "geo_callers g w = Some (Ca_waiting (geo_done g))"
    and "geo_done g \<notin> geo_closed g" "geo_done g \<le> geo_made g"
  defines "r' \<equiv> length (geo_routines g)"
  defines "t \<equiv> fold geo_step [Geo_call c, Geo_close r, Geo_answer r' x, Geo_mark r', Geo_close r'] g"
  shows "geo_crashed t \<and> geo_callers t w = Some (Ca_waiting (geo_done g)) \<and> geo_done g \<notin> geo_closed t"
proof -
  have r: "r < length (geo_routines g)" "geo_routines g ! r = Rt_marked" using assms(3) by (simp_all add: at_phase_def)
  have n: "Suc (geo_made g) \<notin> geo_closed g" using assms(5) by fastforce
  define g1 where "g1 = g\<lparr>geo_callers := (geo_callers g)(c \<mapsto> Ca_entered), geo_isRunning := True,
    geo_done := Suc (geo_made g), geo_made := Suc (geo_made g), geo_routines := geo_routines g @ [Rt_asking]\<rparr>"
  have s1: "geo_step (Geo_call c) g = g1" using assms(1,2,4) by (simp add: geo_step_def g1_def Let_def)
  define g2 where "g2 = g1\<lparr>geo_closed := insert (Suc (geo_made g)) (geo_closed g),
    geo_routines := (geo_routines g @ [Rt_asking])[r := Rt_ended]\<rparr>"
  have s2: "geo_step (Geo_close r) g1 = g2"
    using assms(1) r n by (simp add: geo_step_def g1_def g2_def at_phase_def nth_append)
  have p: "at_phase g2 r' Rt_asking" using r by (simp add: g2_def g1_def at_phase_def r'_def nth_list_update)
  have wc: "w \<noteq> c" using assms(4,6) by auto
  have "geo_crashed (fold geo_step [Geo_answer r' x, Geo_mark r', Geo_close r'] g2)
     \<and> geo_callers (fold geo_step [Geo_answer r' x, Geo_mark r', Geo_close r'] g2) = geo_callers g2
     \<and> geo_closed (fold geo_step [Geo_answer r' x, Geo_mark r', Geo_close r'] g2) = geo_closed g2"
    using assms(1) p by (simp add: geo_step_def at_phase_def) (simp add: g2_def g1_def)
  moreover have "geo_callers g2 w = Some (Ca_waiting (geo_done g))" using assms(6) wc by (simp add: g2_def g1_def)
  moreover have "geo_done g \<notin> geo_closed g2" using assms(7,8) by (simp add: g2_def g1_def)
  ultimately show ?thesis using s1 s2 unfolding t_def by simp
qed

subsection \<open>The cached list of servers\<close>

lemma update_result:
  assumes "updateServers env s = (Inr svrs, t)"
  shows "(\<exists>body. ae_servers (ue_api env) body = Inr svrs) \<and> pi_OpenVPN (Ports (Config svrs)) \<noteq> []
    \<and> pi_WireGuard (Ports (Config svrs)) \<noteq> [] \<and> up_servers t = Some svrs"
  using assms
  by (auto simp: updateServers_def DownloadServersList_def writeServersToCache_def Let_def
      split: prod.splits sum.splits if_splits option.splits)


subsection \<open>Instances\<close>

definition sample_api :: api where
  "sample_api = \<lparr>alternateIPsV4 = [[9, 9, 9, 9], [8, 8, 8, 8]], lastGoodAlternateIPv4 = [], alternateIPsV6 = [],
     lastGoodAlternateIPv6 = [], api_sent = []\<rparr>"

text \<open>The name of the host times out after reading the request; the alternate addresses answer.\<close>

definition sample_answer :: http_response where
  "sample_answer = \<lparr>rs_StatusCode = 200, rs_Status = ''200 OK'', rs_Body = Inr ''{}''\<rparr>"

definition sample_api_env :: api_env where
  "sample_api_env = \<lparr>IsConnectivityBlocked = None, ae_newRequest = (\<lambda>_. None),
     ae_do = (\<lambda>n rq. (if prefix ''https://api'' (rq_url rq) then Inl (Err ''timeout'') else Inr sample_answer, True)),
     ae_outboundIPv6 = Some (Err ''none''), GOARCH = ''amd64'', ae_marshal = (\<lambda>_. Inr ''{data}''),
     ae_apiError = (\<lambda>_. Inr (200, [])), ae_unmarshal = (\<lambda>_. None), ae_servers = (\<lambda>_. Inl (Err ''no list''))\<rparr>"

definition sample_login_request :: "(gerror + http_response) \<times> api" where
  "sample_login_request = doRequestAPIHost sample_api_env IPv4 True sessionNewPath ''POST'' ''application/json''
     (Some (SessionStatusRequest ''s'')) 0 0 sample_api"

lemma sample_data: "request_data sample_api_env (Some (SessionStatusRequest ''s'')) = Inr ''{data}''"
  by (simp add: request_data_def sample_api_env_def)

theorem api_fallback_bodies_witness:
  "\<exists>reqs. api_sent (snd sample_login_request) = reqs \<and> map rq_body reqs = [''{data}'', []]
    \<and> rq_body (reqs ! 1) = (if \<exists>i < 1. snd (ae_do sample_api_env i (reqs ! i)) then [] else ''{data}'')"
proof -
  have b: "map rq_body (api_sent (snd sample_login_request)) = [''{data}'', []]" by code_simp
  have "length (map rq_body (api_sent (snd sample_login_request))) = 2" unfolding b by simp
  then have l: "length (api_sent (snd sample_login_request)) = 2" by simp
  have n: "api_sent sample_api = []" by (simp add: sample_api_def)
  have "\<exists>reqs. api_sent (snd sample_login_request) = reqs
    \<and> (\<forall>j < length reqs. rq_body (reqs ! j) = (if \<exists>i < j. snd (ae_do sample_api_env i (reqs ! i)) then [] else ''{data}''))"
    using api_fallback_bodies [where a = sample_api, OF sample_data, of IPv4 True sessionNewPath "''POST''" "''application/json''" 0 0]
    unfolding sample_login_request_def [symmetric] n append_Nil list.size add_0 .
  then obtain reqs where r: "api_sent (snd sample_login_request) = reqs"
    "\<forall>j < length reqs. rq_body (reqs ! j) = (if \<exists>i < j. snd (ae_do sample_api_env i (reqs ! i)) then [] else ''{data}'')"
    by (elim exE conjE)
  have "1 < length reqs" using l r(1) by simp
  from mp [OF spec [OF r(2), of 1] this] show ?thesis
    by (intro exI [of _ reqs] conjI) (use b r(1) in \<open>simp_all only:\<close>)
qed

theorem api_fallback_order_witness:
  "let g = (\<lambda>u. if prefix ''https://api'' u then Inl (Err ''timeout'') else Inr sample_answer) in
   answers_by_url sample_api_env g
   \<and> map rq_url (api_sent (snd sample_login_request)) = asked g (url_plan IPv4 True sessionNewPath sample_api)
   \<and> asked g (url_plan IPv4 True sessionNewPath sample_api)
       = [''https://api.ivpn.net/v4/session/new'', ''https://9.9.9.9/v4/session/new'']"
proof -
  let ?g = "\<lambda>u. if prefix ''https://api'' u then Inl (Err ''timeout'') else Inr sample_answer"
  have g: "answers_by_url sample_api_env ?g" by (simp add: answers_by_url_def sample_api_env_def)
  have u: "map rq_url (api_sent (snd sample_login_request))
      = [''https://api.ivpn.net/v4/session/new'', ''https://9.9.9.9/v4/session/new'']" by code_simp
  have "api_sent sample_api = []" by (simp add: sample_api_def)
  then have "map rq_url (api_sent (snd sample_login_request)) = asked ?g (url_plan IPv4 True sessionNewPath sample_api)"
    using api_fallback_order [where a = sample_api, OF g sample_data, of IPv4 True sessionNewPath "''POST''" "''application/json''" 0 0]
    unfolding sample_login_request_def by simp
  then show ?thesis unfolding Let_def using g u by metis
qed

theorem pinned_key_anywhere_witness:
  "\<exists>dialer. makeDialer [''ivpn''] = Some dialer \<and> dialer (Inr [Inr ''other'', Inr ''ivpn'']) = None
    \<and> dialer (Inr [Inr ''other'']) \<noteq> None"
proof -
  obtain d where d: "makeDialer [''ivpn''] = Some d" by (simp add: makeDialer_def)
  show ?thesis using pinned_key_anywhere [OF d, of "[Inr ''other'', Inr ''ivpn'']"] pinned_key_anywhere [OF d, of "[Inr ''other'']"] d
    by simp
qed

definition ending_lookup :: geolookup where
  "ending_lookup = fold geo_step [Geo_call 0, Geo_wait 0, Geo_answer 0 (Inr ''a''), Geo_mark 0] geo_initial"

theorem overlapping_geolookups_crash_witness:
  "geo_crashed (fold geo_step [Geo_call 0, Geo_wait 0, Geo_answer 0 (Inr ''a''), Geo_mark 0,
     Geo_call 1, Geo_close 0, Geo_answer 1 (Inr ''b''), Geo_mark 1, Geo_close 1] geo_initial)"
proof -
  have l: "length (geo_routines ending_lookup) = 1" by (simp add: ending_lookup_def geo_step_def geo_initial_def at_phase_def Let_def)
  have "geo_crashed (fold geo_step [Geo_call 1, Geo_close 0, Geo_answer (length (geo_routines ending_lookup)) (Inr ''b''),
      Geo_mark (length (geo_routines ending_lookup)), Geo_close (length (geo_routines ending_lookup))] ending_lookup)"
    by (rule conjunct1, rule overlapping_geolookups_crash [where w = 0])
      (simp_all add: ending_lookup_def geo_step_def geo_initial_def at_phase_def Let_def)
  then show ?thesis unfolding l by (simp add: ending_lookup_def)
qed

definition sample_servers :: ServersInfoResponse where
  "sample_servers = \<lparr>WireguardServers = [], OpenvpnServers = [], Config = \<lparr>Antitracker = \<lparr>at_Default = [], at_Hardcore = []\<rparr>,
     AntiTrackerPlus = [], APIInfo = \<lparr>IPAddresses = [''9.9.9.9''], IPv6Addresses = []\<rparr>,
     Ports = \<lparr>pi_OpenVPN = [], pi_WireGuard = [], Obfs3 = 0, Obfs4 = 0, Test = [],
       V2RayInfo = \<lparr>v2_ID = [], v2_OpenVPN = [], v2_WireGuard = []\<rparr>\<rparr>\<rparr>\<rparr>"

definition sample_updater :: updater where
  "sample_updater = \<lparr>up_servers = None, up_api = sample_api\<lparr>alternateIPsV4 := []\<rparr>, up_notify = False, up_file = Some ''x''\<rparr>"

definition sample_updater_env :: updater_env where
  "sample_updater_env = \<lparr>ue_api = sample_api_env, ue_stat = None, ue_read = None, ue_unmarshal = (\<lambda>_. Inr sample_servers),
     ue_rights = Some (Err ''world writable''), ue_marshal = (\<lambda>_. Inr ''x''), ue_write = None\<rparr>"


end
