(* ===== verification/Splittun_Proofs.thy ===== *)
theory Splittun_Proofs
  imports Splittun "HOL-Library.Multiset"
begin

section \<open>The processes of the split tunnel\<close>

text \<open>
  Which processes leave the split tunnel when one of them is removed, which processes count as the
  roots of the others, and the parent a process cannot choose by its name.
\<close>

subsection \<open>Descendants\<close>

definition parent_rel :: "(int \<times> RunningApp) list \<Rightarrow> (RunningApp \<times> RunningApp) set" where
  "parent_rel allPids = {(p, q). map_of allPids (ra_Ppid p) = Some q}"

definition marked_child :: "int \<Rightarrow> RunningApp \<Rightarrow> bool" where
  "marked_child parentPid p \<longleftrightarrow> ra_Ppid p = parentPid \<or> ra_ExtIvpnRootPid p > 0 \<and> ra_ExtIvpnRootPid p = parentPid"

text \<open>Numbers that never wrapped around: a parent is older, so it has a smaller number.\<close>

definition increasing_pids :: "(int \<times> RunningApp) list \<Rightarrow> bool" where
  "increasing_pids allPids \<longleftrightarrow> (\<forall>(pid, p) \<in> set allPids. ra_Ppid p < pid)"

lemma isChildOf_reaches:
  assumes "isChildOf p parentPid allPids"
  shows "\<exists>q. (p, q) \<in> (parent_rel allPids)\<^sup>* \<and> marked_child parentPid q"
  using assms
proof (induction p parentPid allPids rule: isChildOf.induct)
  case (1 p parentPid allPids)
  show ?case
  proof (cases "marked_child parentPid p")
    case True then show ?thesis by blast
  next
    case False
    then obtain q where q: "map_of allPids (ra_Ppid p) = Some q" "\<not> ra_Ppid p \<le> ra_Ppid q" "isChildOf q parentPid allPids"
      using 1(2) by (subst (asm) isChildOf.simps) (auto simp: marked_child_def split: option.splits if_splits)
    then obtain r where r: "(q, r) \<in> (parent_rel allPids)\<^sup>*" "marked_child parentPid r"
      using 1(1) False by (auto simp: marked_child_def)
    have "(p, q) \<in> parent_rel allPids" using q(1) by (simp add: parent_rel_def)
    with r show ?thesis by (meson converse_rtrancl_into_rtrancl)
  qed
qed

lemma isChildOf_marked: "marked_child parentPid p \<Longrightarrow> isChildOf p parentPid allPids"
  by (subst isChildOf.simps) (auto simp: marked_child_def)

lemma isChildOf_parent:
  assumes "isChildOf q parentPid allPids" "map_of allPids (ra_Ppid p) = Some q" "ra_Ppid q < ra_Ppid p"
  shows "isChildOf p parentPid allPids"
  using assms by (subst isChildOf.simps) simp

lemma reaches_isChildOf:
  assumes "increasing_pids allPids" "(p, q) \<in> (parent_rel allPids)\<^sup>*" "marked_child parentPid q"
  shows "isChildOf p parentPid allPids"
  using assms(2)
proof (induction rule: converse_rtrancl_induct)
  case base show ?case using assms(3) by (rule isChildOf_marked)
next
  case (step x y)
  then have xy: "map_of allPids (ra_Ppid x) = Some y" by (simp add: parent_rel_def)
  then have "ra_Ppid y < ra_Ppid x" using assms(1) map_of_SomeD[OF xy] by (fastforce simp: increasing_pids_def)
  with step(3) xy show ?case by (rule isChildOf_parent[rotated 2, rotated]) 
qed

lemma isChildOf_descendant:
  "increasing_pids allPids \<Longrightarrow>
     isChildOf p parentPid allPids \<longleftrightarrow> (\<exists>q. (p, q) \<in> (parent_rel allPids)\<^sup>* \<and> marked_child parentPid q)"
  using isChildOf_reaches reaches_isChildOf by meson

subsection \<open>What the removal runs\<close>

lemma remove_pids_calls:
  "st_calls (snd (remove_pids env pids e s)) = st_calls s @ map (\<lambda>pid. [''removepid'', show_int pid]) pids"
  by (induction pids arbitrary: e s) (simp_all add: st_Exec_def)

definition st_world :: "string \<Rightarrow> (int \<times> string) list \<Rightarrow> st_env" where
  "st_world pids stats = \<lparr>se_snap = False, stScriptPath = ''splittun.sh'', se_test = [], se_script = (\<lambda>_. None),
     se_stderr = [], se_listener = None, se_pids = Inr pids,
     se_stat = (\<lambda>pid. case map_of stats pid of Some line \<Rightarrow> Inr line | None \<Rightarrow> Inl (Err ''no file'')),
     se_exe = (\<lambda>_. []), se_cmdline = (\<lambda>_. Inr ''sh''), se_environ = (\<lambda>_. Inl (Err ''no file'')), se_order = id\<rparr>"

definition st_initial :: st_state where
  "st_initial = \<lparr>funcNotAvailableError = None, inverseModeNotAvailableError = None, st_isActive = True,
     addedRootProcesses = [], st_calls = []\<rparr>"

text \<open>A shell, its child and its grandchild, with growing numbers and with numbers that wrapped around.\<close>

definition st_family :: st_env where
  "st_family = st_world (''30'' @ [CHR 0x0A] @ ''31'' @ [CHR 0x0A] @ ''32'')
     [(30, ''30 (sh) S 1 30 30 0''), (31, ''31 (sh) S 30 30 30 0''), (32, ''32 (sh) S 31 30 30 0'')]"

definition st_wrapped :: st_env where
  "st_wrapped = st_world (''30'' @ [CHR 0x0A] @ ''21'' @ [CHR 0x0A] @ ''22'')
     [(30, ''30 (sh) S 1 30 30 0''), (21, ''21 (sh) S 30 30 30 0''), (22, ''22 (sh) S 21 30 30 0'')]"

definition st_app :: "int \<Rightarrow> int \<Rightarrow> RunningApp" where
  "st_app pid ppid = \<lparr>ra_Pid = pid, ra_Ppid = ppid, ra_Cmdline = ''sh'', ra_Exe = [], ra_ExtIvpnRootPid = 0,
     ra_ExtModifiedCmdLine = []\<rparr>"

lemma st_family_apps: "fst (implGetRunningApps st_family st_initial) = Inr [st_app 30 1, st_app 31 30, st_app 32 31]"
  by code_simp

lemma st_wrapped_apps: "fst (implGetRunningApps st_wrapped st_initial) = Inr [st_app 30 1, st_app 21 30, st_app 22 21]"
  by code_simp

definition descendants :: "RunningApp list \<Rightarrow> int \<Rightarrow> RunningApp set" where
  "descendants apps pid =
     {p \<in> set apps. \<exists>q. (p, q) \<in> (parent_rel (map (\<lambda>a. (ra_Pid a, a)) apps))\<^sup>* \<and> marked_child pid q}"

lemma implRemovePid_calls:
  assumes "0 < pid" "fst (implGetRunningApps env s) = Inr apps"
  shows "st_calls (snd (implRemovePid env pid s)) =
     st_calls (snd (implGetRunningApps env s)) @ map (\<lambda>q. [''removepid'', show_int q])
       (remdups (pid # map ra_Pid (filter (\<lambda>a. isChildOf a pid (map (\<lambda>a. (ra_Pid a, a)) apps)) apps)))"
  using assms by (auto simp: implRemovePid_def remove_pids_calls Let_def st_Exec_def split: prod.split)

lemma get_running_calls: "st_calls (snd (implGetRunningApps env s)) = st_calls s"
  by (auto simp: implGetRunningApps_def Let_def split: sum.split prod.split)

lemmas remove_calls = implRemovePid_calls get_running_calls


text \<open>
  after the numbers have wrapped around, a grandchild of the process whose parent has a number
  below that of the process stays in the split tunnel: its descent is only followed while the
  numbers grow.
\<close>

theorem wrapped_pid_stays:
  assumes pid: "0 < pid" and apps: "fst (implGetRunningApps env s) = Inr apps"
    and family: "c \<in> set apps" "g \<in> set apps" "distinct (map ra_Pid apps)"
      "ra_Ppid c = pid" "ra_Ppid g = ra_Pid c" "ra_Pid c < pid"
    and other: "ra_Pid g \<noteq> pid" "ra_ExtIvpnRootPid g \<noteq> pid"
  shows "g \<in> descendants apps pid
    \<and> (\<exists>pids. st_calls (snd (implRemovePid env pid s)) =
          st_calls s @ map (\<lambda>q. [''removepid'', show_int q]) pids \<and> ra_Pid g \<notin> set pids)"
proof -
  let ?all = "map (\<lambda>a. (ra_Pid a, a)) apps"
  have dist: "distinct (map fst ?all)" using family(3) by (simp add: comp_def)
  have c: "map_of ?all (ra_Ppid g) = Some c"
    using family(1,5) by (intro map_of_is_SomeI dist) auto
  have "(g, c) \<in> (parent_rel ?all)\<^sup>*" using c by (auto simp: parent_rel_def)
  then have desc: "g \<in> descendants apps pid" using family(2,4) by (auto simp: descendants_def marked_child_def)
  have "\<not> isChildOf g pid ?all"
    using c family(4-6) other(2) by (subst isChildOf.simps) auto
  then have "ra_Pid g \<notin> set (remdups (pid # map ra_Pid (filter (\<lambda>a. isChildOf a pid ?all) apps)))"
    using other(1) family(2,3) by (auto simp: distinct_map inj_on_def)
  with desc implRemovePid_calls[OF pid apps, unfolded get_running_calls] show ?thesis by blast
qed

theorem wrapped_pid_stays_witness:
  "st_app 22 21 \<in> descendants [st_app 30 1, st_app 21 30, st_app 22 21] 30
    \<and> (\<exists>pids. st_calls (snd (implRemovePid st_wrapped 30 st_initial)) =
          st_calls st_initial @ map (\<lambda>q. [''removepid'', show_int q]) pids \<and> ra_Pid (st_app 22 21) \<notin> set pids)"
  by (rule wrapped_pid_stays[OF _ st_wrapped_apps, where c = "st_app 21 30"]) (simp_all add: st_app_def)


subsection \<open>The roots\<close>

text \<open>The map of the processes: one entry per number, whose mark is a root.\<close>

definition procs_ok :: "int set \<Rightarrow> (int \<times> string) list \<Rightarrow> st_procs \<Rightarrow> bool" where
  "procs_ok K roots procs \<longleftrightarrow> distinct (map fst procs) \<and> fst ` set procs = K
    \<and> (\<forall>(k, p) \<in> set procs. ra_Pid p = k \<and> (ra_ExtIvpnRootPid p = 0 \<or> map_of roots (ra_ExtIvpnRootPid p) \<noteq> None))"

definition order_ok :: "st_env \<Rightarrow> bool" where
  "order_ok env \<longleftrightarrow> (\<forall>m. mset (se_order env m) = mset m)"

lemma update_subset: "set (AList.update k v m) \<subseteq> insert (k, v) (set m)"
  by (induction m) auto

lemma procs_ok_update:
  assumes "procs_ok K roots procs" "k \<in> K" "ra_Pid p = k"
    "ra_ExtIvpnRootPid p = 0 \<or> map_of roots (ra_ExtIvpnRootPid p) \<noteq> None"
  shows "procs_ok K roots (AList.update k p procs)"
proof -
  have "fst ` set (AList.update k p procs) = insert k (fst ` set procs)" by (simp add: AList.dom_update)
  moreover have "distinct (map fst (AList.update k p procs))"
    using assms(1) by (simp add: procs_ok_def AList.distinct_update)
  moreover have "ra_Pid q = i \<and> (ra_ExtIvpnRootPid q = 0 \<or> map_of roots (ra_ExtIvpnRootPid q) \<noteq> None)"
    if "(i, q) \<in> set (AList.update k p procs)" for i q
  proof -
    have "(i, q) = (k, p) \<or> (i, q) \<in> set procs" using that update_subset by fastforce
    then show ?thesis using assms(1,3,4) by (fastforce simp: procs_ok_def)
  qed
  ultimately show ?thesis using assms(1,2) by (auto simp: procs_ok_def)
qed

lemma procs_ok_lookup:
  assumes "procs_ok K roots procs" "k \<in> K"
  obtains p where "map_of procs k = Some p" "ra_Pid p = k"
    "ra_ExtIvpnRootPid p = 0 \<or> map_of roots (ra_ExtIvpnRootPid p) \<noteq> None"
proof -
  have "k \<in> fst ` set procs" using assms by (simp add: procs_ok_def)
  then obtain p where p: "map_of procs k = Some p" by (cases "map_of procs k") (auto simp: map_of_eq_None_iff)
  have "ra_Pid p = k \<and> (ra_ExtIvpnRootPid p = 0 \<or> map_of roots (ra_ExtIvpnRootPid p) \<noteq> None)"
    using map_of_SomeD[OF p] assms(1) by (fastforce simp: procs_ok_def)
  with p that show ?thesis by simp
qed

lemma procs_ok_grow:
  assumes "procs_ok K roots procs" "\<And>k. map_of roots k \<noteq> None \<Longrightarrow> map_of roots' k \<noteq> None"
  shows "procs_ok K roots' procs"
  using assms by (fastforce simp: procs_ok_def)

lemma getRootPid_known: "getRootPid roots p procs = (r, True) \<Longrightarrow> map_of roots r \<noteq> None"
proof (induction roots p procs rule: getRootPid.induct)
  case (1 roots p procs)
  then show ?case
    by (subst (asm) (2) getRootPid.simps) (auto split: if_splits option.splits)
qed

lemma mark_known_ok:
  assumes "procs_ok K roots procs" "k \<in> K"
  shows "procs_ok K roots (mark_known roots k procs)"
proof -
  obtain p where p: "map_of procs k = Some p" "ra_Pid p = k"
    "ra_ExtIvpnRootPid p = 0 \<or> map_of roots (ra_ExtIvpnRootPid p) \<noteq> None"
    using procs_ok_lookup[OF assms] .
  show ?thesis
    using assms p getRootPid_known[of roots p procs]
    by (auto simp: mark_known_def Let_def intro!: procs_ok_update split: prod.split)
qed

lemma mark_process_ok:
  assumes "procs_ok K roots procs" "k \<in> K" "snd ` set detached \<subseteq> K"
    "mark_process env roots k (procs, detached) = (procs', detached')"
  shows "procs_ok K roots procs' \<and> snd ` set detached' \<subseteq> K"
proof -
  obtain p where p: "map_of procs k = Some p" "ra_Pid p = k"
    "ra_ExtIvpnRootPid p = 0 \<or> map_of roots (ra_ExtIvpnRootPid p) \<noteq> None"
    using procs_ok_lookup[OF assms(1,2)] .
  have d: "b \<in> K" if "(a, b) \<in> set (AList.update e (ra_Pid p) detached)" for a b e
    using that update_subset[of e k detached] assms(2,3) p(2) by fastforce
  obtain r known where r: "getRootPid roots p procs = (r, known)" by fastforce
  have known: "known \<Longrightarrow> map_of roots r \<noteq> None" using getRootPid_known[of roots p procs r] r by simp
  have upd: "ra_Pid q = ra_Pid p \<Longrightarrow> ra_ExtIvpnRootPid q = 0 \<or> map_of roots (ra_ExtIvpnRootPid q) \<noteq> None
      \<Longrightarrow> procs_ok K roots (AList.update (ra_Pid p) q procs)" for q
    using procs_ok_update[OF assms(1,2), of q] p(2) by simp
  show ?thesis
    using assms(4) assms(3) p known
    by (auto simp: mark_process_def Let_def r split: prod.splits if_splits option.splits intro!: upd dest: d)
qed

lemma mark_processes_ok:
  assumes "procs_ok K roots procs" "set ks \<subseteq> K" "snd ` set detached \<subseteq> K"
    "fold (mark_process env roots) ks (procs, detached) = (procs', detached')"
  shows "procs_ok K roots procs' \<and> snd ` set detached' \<subseteq> K"
  using assms
proof (induction ks arbitrary: procs detached)
  case (Cons k ks)
  obtain procs1 detached1 where m: "mark_process env roots k (procs, detached) = (procs1, detached1)" by fastforce
  have "procs_ok K roots procs1 \<and> snd ` set detached1 \<subseteq> K"
    using mark_process_ok[OF Cons.prems(1) _ Cons.prems(3) m] Cons.prems(2) by simp
  then show ?case using Cons.IH[of procs1 detached1] Cons.prems(2,4) m by simp
qed simp

lemma mark_knowns_ok: "procs_ok K roots procs \<Longrightarrow> set ks \<subseteq> K \<Longrightarrow> procs_ok K roots (fold (mark_known roots) ks procs)"
  by (induction ks arbitrary: procs) (auto intro: mark_known_ok)

lemma adopt_detached_ok:
  assumes "procs_ok K roots procs" "fst ` set roots \<subseteq> K" "set order \<subseteq> K" "snd d \<in> K"
    "adopt_detached died order d (roots, procs) = (roots', procs')"
  shows "procs_ok K roots' procs' \<and> fst ` set roots' \<subseteq> K"
proof -
  obtain e pid where d: "d = (e, pid)" by fastforce
  obtain p where p: "map_of procs pid = Some p" "ra_Pid p = pid"
    using procs_ok_lookup[OF assms(1), of pid] assms(4) d by auto
  define roots1 where "roots1 = (case map_of died e of Some cmd \<Rightarrow> AList.update pid cmd roots | None \<Rightarrow> roots)"
  have r: "roots' = roots1" "procs' = fold (mark_known roots1) order procs"
    using assms(5) p by (auto simp: adopt_detached_def d roots1_def Let_def split: option.splits)
  have "procs_ok K roots1 procs"
    by (rule procs_ok_grow[OF assms(1)]) (auto simp: roots1_def AList.update_conv split: option.split)
  moreover have "fst ` set roots1 \<subseteq> K"
    using assms(2,4) d by (auto simp: roots1_def AList.dom_update split: option.split)
  ultimately show ?thesis using mark_knowns_ok assms(3) r by simp
qed

lemma adopt_all_ok:
  assumes "procs_ok K roots procs" "fst ` set roots \<subseteq> K" "set order \<subseteq> K" "snd ` set ds \<subseteq> K"
    "fold (adopt_detached died order) ds (roots, procs) = (roots', procs')"
  shows "procs_ok K roots' procs' \<and> fst ` set roots' \<subseteq> K"
  using assms
proof (induction ds arbitrary: roots procs)
  case (Cons d ds)
  obtain roots1 procs1 where m: "adopt_detached died order d (roots, procs) = (roots1, procs1)" by fastforce
  have "procs_ok K roots1 procs1 \<and> fst ` set roots1 \<subseteq> K"
    using adopt_detached_ok[OF Cons.prems(1,2,3) _ m] Cons.prems(4) by simp
  then show ?case using Cons.IH[of roots1 procs1] Cons.prems(3,4,5) m by simp
qed simp

lemma found_ok:
  assumes "order_ok env" "\<forall>p \<in> set found. ra_ExtIvpnRootPid p = 0"
  shows "\<exists>K. procs_ok K roots (se_order env (foldl (\<lambda>m p. AList.update (ra_Pid p) p m) [] found))"
proof -
  have "distinct (map fst m) \<Longrightarrow> \<forall>(k, p) \<in> set m. ra_Pid p = k \<and> ra_ExtIvpnRootPid p = 0 \<Longrightarrow>
      distinct (map fst (foldl (\<lambda>m p. AList.update (ra_Pid p) p m) m found)) \<and>
      (\<forall>(k, p) \<in> set (foldl (\<lambda>m p. AList.update (ra_Pid p) p m) m found). ra_Pid p = k \<and> ra_ExtIvpnRootPid p = 0)" for m
    using assms(2)
  proof (induction found arbitrary: m)
    case (Cons q found)
    have "\<forall>(k, p) \<in> set (AList.update (ra_Pid q) q m). ra_Pid p = k \<and> ra_ExtIvpnRootPid p = 0"
      using update_subset[of "ra_Pid q" q m] Cons.prems by fastforce
    then show ?case using Cons.IH[of "AList.update (ra_Pid q) q m"] Cons.prems by (simp add: AList.distinct_update)
  qed simp
  note all = this[of "[]", simplified]
  define m where "m = foldl (\<lambda>m p. AList.update (ra_Pid p) p m) [] found"
  have perm: "mset (se_order env m) = mset m" using assms(1) by (simp add: order_ok_def)
  then have "set (se_order env m) = set m" by (rule mset_eq_setD)
  moreover have "distinct (map fst (se_order env m)) = distinct (map fst m)"
    using perm by (intro mset_eq_imp_distinct_iff) simp
  ultimately show ?thesis using all unfolding procs_ok_def m_def[symmetric] by fastforce
qed

lemma read_process_unmarked: "read_process env l = Some p \<Longrightarrow> ra_ExtIvpnRootPid p = 0"
  by (auto simp: read_process_def Let_def split: if_splits sum.splits prod.splits)

text \<open>
  C23: whatever the files under \<^verbatim>\<open>/proc\<close> hold, when the list of the processes in the split tunnel has
  been read every remembered root is a process of that list, every process has one entry, and the
  process a process is said to belong to is a remembered root.
\<close>

theorem running_apps_rooted:
  assumes ord: "order_ok env" and run: "implGetRunningApps env s = (Inr apps, s')"
  shows "fst ` set (addedRootProcesses s') \<subseteq> ra_Pid ` set apps \<and> distinct (map ra_Pid apps)
    \<and> (\<forall>app \<in> set apps. ra_ExtIvpnRootPid app = 0 \<or> ra_ExtIvpnRootPid app \<in> fst ` set (addedRootProcesses s'))"
proof -
  obtain bytes where b: "se_pids env = Inr bytes" using run by (cases "se_pids env") (auto simp: implGetRunningApps_def)
  define found where "found = List.map_filter (read_process env) (split_on (CHR 0x0A) bytes)"
  define procs where "procs = se_order env (foldl (\<lambda>m p. AList.update (ra_Pid p) p m) [] found)"
  define died where "died = filter (\<lambda>(rootPid, _). map_of procs rootPid = None) (addedRootProcesses s)"
  define roots where "roots = filter (\<lambda>(rootPid, _). map_of procs rootPid \<noteq> None) (addedRootProcesses s)"
  have "\<forall>p \<in> set found. ra_ExtIvpnRootPid p = 0"
    using read_process_unmarked by (fastforce simp: found_def List.map_filter_def)
  then obtain K where K: "procs_ok K [] procs" using found_ok[OF ord] unfolding procs_def by blast
  obtain procs1 detached where m: "fold (mark_process env roots) (map fst procs) (procs, []) = (procs1, detached)"
    by fastforce
  obtain roots' procs' where a: "fold (adopt_detached died (map fst procs)) detached (roots, procs1) = (roots', procs')"
    by fastforce
  have keys: "set (map fst procs) \<subseteq> K" using K by (auto simp: procs_ok_def)
  have "procs_ok K roots procs" using procs_ok_grow[OF K] by simp
  then have "procs_ok K roots procs1 \<and> snd ` set detached \<subseteq> K"
    using mark_processes_ok[OF _ keys _ m] by simp
  moreover have "fst ` set roots \<subseteq> K"
  proof
    fix k assume "k \<in> fst ` set roots"
    then have "map_of procs k \<noteq> None" by (auto simp: roots_def)
    then have "k \<in> fst ` set procs" by (simp add: map_of_eq_None_iff del: not_None_eq)
    then show "k \<in> K" using K by (simp add: procs_ok_def)
  qed
  ultimately have fin: "procs_ok K roots' procs'" "fst ` set roots' \<subseteq> K"
    using adopt_all_ok[OF _ _ keys _ a] by blast+
  have "implGetRunningApps env s = (Inr (map (\<lambda>(_, value). case map_of roots' (ra_Pid value) of
        Some cmdLine \<Rightarrow> value\<lparr>ra_ExtModifiedCmdLine := cmdLine\<rparr> | None \<Rightarrow> value) procs'), s\<lparr>addedRootProcesses := roots'\<rparr>)"
    by (simp only: implGetRunningApps_def b sum.case Let_def found_def[symmetric] procs_def[symmetric]
        roots_def[symmetric] died_def[symmetric] m a prod.case)
  moreover define cmd where "cmd v = (case map_of roots' (ra_Pid v) of
      Some cmdLine \<Rightarrow> v\<lparr>ra_ExtModifiedCmdLine := cmdLine\<rparr> | None \<Rightarrow> v)" for v :: RunningApp
  ultimately have res: "apps = map (\<lambda>x. cmd (snd x)) procs'" "addedRootProcesses s' = roots'"
    using run by (simp_all add: case_prod_unfold)
  have same: "ra_Pid (cmd v) = ra_Pid v" "ra_ExtIvpnRootPid (cmd v) = ra_ExtIvpnRootPid v" for v
    by (simp_all add: cmd_def split: option.split)
  have pids: "map ra_Pid apps = map fst procs'"
    using fin(1) by (auto simp: res(1) same procs_ok_def)
  have dist: "distinct (map fst procs')" and keys: "fst ` set procs' = K" using fin(1) by (simp_all add: procs_ok_def)
  have "ra_Pid ` set apps = set (map ra_Pid apps)" by simp
  also have "\<dots> = K" using pids keys by simp
  finally have "fst ` set roots' \<subseteq> ra_Pid ` set apps" using fin(2) by simp
  moreover have "\<forall>app \<in> set apps. ra_ExtIvpnRootPid app = 0 \<or> ra_ExtIvpnRootPid app \<in> fst ` set roots'"
  proof
    fix app assume "app \<in> set apps"
    then obtain k v where kv: "(k, v) \<in> set procs'" "app = cmd v" by (auto simp: res(1))
    have "ra_ExtIvpnRootPid v = 0 \<or> map_of roots' (ra_ExtIvpnRootPid v) \<noteq> None"
      using bspec[OF conjunct2[OF conjunct2[OF fin(1)[unfolded procs_ok_def]]] kv(1)] by simp
    then show "ra_ExtIvpnRootPid app = 0 \<or> ra_ExtIvpnRootPid app \<in> fst ` set roots'"
      by (simp only: kv(2) same map_of_eq_None_iff) simp
  qed
  ultimately show ?thesis using dist pids res(2) by simp
qed

theorem running_apps_rooted_witness:
  "fst ` set (addedRootProcesses (snd (implGetRunningApps st_family st_initial))) \<subseteq>
      ra_Pid ` set [st_app 30 1, st_app 31 30, st_app 32 31]
    \<and> distinct (map ra_Pid [st_app 30 1, st_app 31 30, st_app 32 31])
    \<and> (ra_ExtIvpnRootPid (st_app 31 30) = 0 \<or>
         ra_ExtIvpnRootPid (st_app 31 30) \<in> fst ` set (addedRootProcesses (snd (implGetRunningApps st_family st_initial))))"
proof -
  have o: "order_ok st_family" by (simp add: order_ok_def st_family_def st_world_def)
  have r: "implGetRunningApps st_family st_initial =
      (Inr [st_app 30 1, st_app 31 30, st_app 32 31], snd (implGetRunningApps st_family st_initial))"
    using st_family_apps by (metis prod.collapse)
  from running_apps_rooted[OF o r] show ?thesis by (elim conjE) (intro conjI, assumption, assumption, erule bspec, simp)
qed

subsection \<open>The parent in \<^verbatim>\<open>/proc/PID/stat\<close>\<close>

text \<open>\<open>rx_first r p q\<close>: the preferred way to match at \<open>p\<close> goes on at \<open>q\<close>.\<close>

definition rx_first :: "rx \<Rightarrow> string \<times> captures \<Rightarrow> string \<times> captures \<Rightarrow> bool" where
  "rx_first r p q \<longleftrightarrow> (\<exists>zs. rx_run r p = q # zs)"

lemma rx_first_Seq: "rx_first a p q \<Longrightarrow> rx_first b q r \<Longrightarrow> rx_first (Seq a b) p r"
  by (cases p) (auto simp: rx_first_def)

lemma rx_first_lit: "rx_first (rx_lit w) (w @ s, c) (s, c)"
  by (simp add: rx_first_def rx_lit_run)

lemma rx_first_Sym: "P x \<Longrightarrow> rx_first (Sym P) (x # s, c) (s, c)"
  by (simp add: rx_first_def)

lemma rx_first_Star:
  assumes "list_all P u" "s = [] \<or> \<not> P (hd s)"
  shows "rx_first (Star (Sym P)) (u @ s, c) (s, c)"
  using assms
proof (induction u)
  case Nil then show ?case by (cases s) (auto simp: rx_first_def rx_run.simps(5))
next
  case (Cons x u) then show ?case by (auto simp: rx_first_def rx_run.simps(5)[of _ "x # _"])
qed

lemma rx_first_plus:
  "list_all P u \<Longrightarrow> u \<noteq> [] \<Longrightarrow> s = [] \<or> \<not> P (hd s) \<Longrightarrow> rx_first (rx_plus (Sym P)) (u @ s, c) (s, c)"
  by (cases u) (auto intro: rx_first_Seq rx_first_Sym rx_first_Star)

lemma rx_first_Cap:
  assumes "rx_first r (u @ s, c) (s, c)"
  shows "rx_first (Cap n r) (u @ s, c) (s, (n, u) # c)"
  using assms by (auto simp: rx_first_def)

text \<open>Greedy up to a mark: without a further mark it stops at the last one.\<close>

lemma rx_none_mark:
  "m \<notin> set u \<Longrightarrow> rx_run (Seq (Star (Sym P)) (rx_lit [m])) (u, c) = []"
proof (induction u)
  case Nil
  show ?case by (simp add: rx_run.simps(5)[of _ "[]"] rx_lit_run del: rx_lit.simps)
next
  case (Cons x u)
  then have "rx_run (Seq (Star (Sym P)) (rx_lit [m])) (u, c) = []" "m \<noteq> x" by auto
  then show ?case by (simp add: rx_run.simps(5)[of _ "x # u"] rx_lit_run del: rx_lit.simps)
qed

lemma rx_first_mark:
  assumes "list_all P u" "P m" "m \<notin> set s"
  shows "rx_first (Seq (Star (Sym P)) (rx_lit [m])) (u @ m # s, c) (s, c)"
  using assms(1)
proof (induction u)
  case Nil
  have "concat (map (rx_run (rx_lit [m])) (rx_run (Star (Sym P)) (s, c))) = []"
    using rx_none_mark[OF assms(3)] by (simp only: rx_run.simps(3))
  then show ?case using assms(2)
    by (simp add: rx_first_def rx_run.simps(5)[of _ "m # s"] rx_lit_run del: rx_lit.simps concat_eq_Nil_conv)
next
  case (Cons x u)
  then show ?case by (auto simp: rx_first_def rx_run.simps(5)[of _ "x # _"] simp del: rx_lit.simps)
qed

lemma regexpStat_first:
  assumes d: "list_all is_digit pid" "list_all is_digit ppid" "list_all is_digit pgrp" "list_all is_digit sid"
      "ppid \<noteq> []" "pgrp \<noteq> []" "sid \<noteq> []"
    and comm: "set comm \<inter> set [CHR 0x09, CHR 0x0A, CHR 0x0C, CHR 0x0D] = {}"
    and st: "st \<notin> set [CHR 0x09, CHR 0x0A, CHR 0x0C, CHR 0x0D, CHR '' '', CHR '')'']"
    and rest: "CHR '')'' \<notin> set rest" "rest = [] \<or> \<not> is_digit (hd rest)"
  shows "\<exists>m. rx_at regexpStat (pid @ '' '' @ (''('' @ comm @ '')'') @ '' '' @ st # '' '' @ ppid @ '' '' @ pgrp @ '' '' @ sid @ rest)
      = Some (m, [(5, sid), (4, pgrp), (3, ppid), (2, ''('' @ comm @ '')''), (1, pid)])"
proof -
  let ?q = "\<lambda>c. c \<notin> set [CHR 0x09, CHR 0x0A, CHR 0x0C, CHR 0x0D]"
  let ?t2 = "'' '' @ st # '' '' @ ppid @ '' '' @ pgrp @ '' '' @ sid @ rest"
  have nd: "\<not> is_digit (CHR '' '')" "\<not> is_digit (CHR '')'')" by (simp_all add: is_digit_def)
  have nop: "CHR '')'' \<notin> set u" if "list_all is_digit u" for u using that nd by (auto simp: list_all_iff)
  have t2: "CHR '')'' \<notin> set ?t2" using nop d(2-4) rest(1) st by auto
  have "rx_first (Seq (Star (Sym ?q)) (rx_lit '')'')) (comm @ CHR '')'' # ?t2, c) (?t2, c)" for c
    using comm t2 by (intro rx_first_mark) (auto simp: list_all_iff)
  then have name: "rx_first (Cap 2 (Seq (rx_lit ''('') (Seq (Star (Sym ?q)) (rx_lit '')''))))
      ((''('' @ comm @ '')'') @ ?t2, c) (?t2, (2, ''('' @ comm @ '')'') # c)" for c
    by (intro rx_first_Cap rx_first_Seq[of "rx_lit _"]) (use rx_first_lit[of "''(''"] in auto)
  have num: "rx_first (Cap n (rx_plus rx_digit)) (u @ s, c) (s, (n, u) # c)"
    if "list_all is_digit u" "u \<noteq> []" "s = [] \<or> \<not> is_digit (hd s)" for n u s c
    unfolding rx_digit_def using that by (intro rx_first_Cap rx_first_plus)
  have pidc: "rx_first (Cap 1 (Star rx_digit)) (pid @ '' '' @ s, c) ('' '' @ s, (1, pid) # c)" for s c
    unfolding rx_digit_def using d(1) nd by (intro rx_first_Cap rx_first_Star) auto
  have state: "rx_first rx_nonspace (st # s, c) (s, c)" for s c
    unfolding rx_nonspace_def using st by (intro rx_first_Sym) auto
  have "rx_first regexpStat (pid @ '' '' @ (''('' @ comm @ '')'') @ ?t2, [])
      (rest, [(5, sid), (4, pgrp), (3, ppid), (2, ''('' @ comm @ '')''), (1, pid)])"
    unfolding regexpStat_def
    using d nd rest(2)
    by (intro rx_first_Seq[OF pidc] rx_first_Seq[OF name] rx_first_Seq[OF rx_first_lit] rx_first_Seq[OF state]
        rx_first_Seq[OF num] num) auto
  then show ?thesis by (auto simp: rx_first_def rx_at_def)
qed



end
