(* ===== verification/Net_Change.thy ===== *)
theory Net_Change
  imports Netinfo
begin

section \<open>Detecting changes of the network (daemon/netchange, daemon/oshelpers/linux/netlink)\<close>

text \<open>
  The package netlink has one socket, one goroutine that reads it, and the channels of all who
  want to know that an address or a route changed. The detector of the daemon takes such a
  channel while a VPN connection lives and reports changes after a delay. Sockets and channels are
  numbered as they are made; every goroutine is a phase in the state, so that the interleavings of
  its pieces with the operations are the orders of a run.
\<close>

subsection \<open>The listener of the package netlink\<close>

text \<open>A goroutine is about to read the package variable, waits in the read of a socket, or ended.\<close>

datatype nl_routine = Nr_loop | Nr_reading nat | Nr_ended

record netlink =
  globalListener :: "nat option"
  globalEvtReceivers :: "nat list"
  nl_sockets :: nat
  nl_channels :: nat
  nl_full :: "nat set"  \<comment> \<open>the channels, of one place, that hold an event\<close>
  nl_closed :: "nat set"
  nl_routines :: "nl_routine list"
  nl_panic :: bool  \<comment> \<open>a closed channel was closed, or sent to\<close>

definition nl_initial :: netlink where
  "nl_initial = \<lparr>globalListener = None, globalEvtReceivers = [], nl_sockets = 0, nl_channels = 0, nl_full = {},
     nl_closed = {}, nl_routines = [], nl_panic = False\<rparr>"

definition close_channel :: "nat \<Rightarrow> netlink \<Rightarrow> netlink" where
  "close_channel c n = (if c \<in> nl_closed n then n\<lparr>nl_panic := True\<rparr> else n\<lparr>nl_closed := insert c (nl_closed n)\<rparr>)"

definition notify_channel :: "nat \<Rightarrow> netlink \<Rightarrow> netlink" where
  "notify_channel c n = (if c \<in> nl_closed n then n\<lparr>nl_panic := True\<rparr> else n\<lparr>nl_full := insert c (nl_full n)\<rparr>)"

definition RegisterLanChangeListener :: "error \<Rightarrow> netlink \<Rightarrow> (gerror + nat) \<times> netlink" where
  "RegisterLanChangeListener created n =
     (let receiver = nl_channels n; n = n\<lparr>nl_channels := receiver + 1\<rparr> in
      if globalListener n = None \<and> created \<noteq> None then
        (Inl (ErrWrap ''(LAN change monitor) Netlink listener initialization error'' (the created)), n)
      else
        let n = (if globalListener n = None then
                   n\<lparr>globalListener := Some (nl_sockets n), nl_sockets := nl_sockets n + 1,
                     nl_routines := nl_routines n @ [Nr_loop]\<rparr>
                 else n)
        in (Inr receiver, n\<lparr>globalEvtReceivers := globalEvtReceivers n @ [receiver]\<rparr>))"

definition UnregisterLanChangeListener :: "nat option \<Rightarrow> netlink \<Rightarrow> netlink" where
  "UnregisterLanChangeListener receiver n =
     (case receiver of
        None \<Rightarrow> n
      | Some r \<Rightarrow>
          let n = (if r \<in> set (globalEvtReceivers n)
                   then close_channel r (n\<lparr>globalEvtReceivers := remove1 r (globalEvtReceivers n)\<rparr>) else n)
          in if globalEvtReceivers n = [] \<and> globalListener n \<noteq> None then n\<lparr>globalListener := None\<rparr> else n)"

text \<open>
  The pieces of the goroutine. \<open>ReadMsgs\<close> of no listener panics, recovers and returns no messages and
  no error. A read may still return after its socket was closed, with a message or with an error.
\<close>

datatype nl_event = Nl_read nat | Nl_messages nat bool | Nl_error nat

definition nl_at :: "netlink \<Rightarrow> nat \<Rightarrow> (nl_routine \<Rightarrow> bool) \<Rightarrow> bool" where
  "nl_at n i P \<longleftrightarrow> i < length (nl_routines n) \<and> P (nl_routines n ! i)"

definition is_reading :: "nl_routine \<Rightarrow> bool" where
  "is_reading p \<longleftrightarrow> (case p of Nr_reading _ \<Rightarrow> True | _ \<Rightarrow> False)"

fun nl_do :: "nl_event \<Rightarrow> netlink \<Rightarrow> netlink" where
  "nl_do (Nl_read i) n =
     (if nl_at n i ((=) Nr_loop) then
        (case globalListener n of
           None \<Rightarrow> n
         | Some socket \<Rightarrow> n\<lparr>nl_routines := (nl_routines n)[i := Nr_reading socket]\<rparr>)
      else n)"
| "nl_do (Nl_messages i isChanged) n =
     (if nl_at n i is_reading then
        (if isChanged then fold notify_channel (globalEvtReceivers n) n else n)
          \<lparr>nl_routines := (nl_routines n)[i := Nr_loop]\<rparr>
      else n)"
| "nl_do (Nl_error i) n =
     (if nl_at n i is_reading then
        (fold close_channel (globalEvtReceivers n) (n\<lparr>globalListener := None\<rparr>))
          \<lparr>globalEvtReceivers := [], nl_routines := (nl_routines n)[i := Nr_ended]\<rparr>
      else n)"

subsection \<open>The detector\<close>

definition delayBeforeNotify :: duration where "delayBeforeNotify = 3 * second"

record RouteChangeMessage =
  interfaceLeakDetected :: bool
  newDefaultGateway :: net_ip

text \<open>
  The channel to the service, of one place, is nil, empty or holds a message. \<open>nd_starting\<close> are the
  goroutines that were started and have not begun, \<open>nd_readers\<close> the channels their loops read.
\<close>

record detector =
  timerNotifyAfterDelay :: bool  \<comment> \<open>whether the timer runs\<close>
  interfaceToProtect :: "net_if option"
  isInitialised :: bool
  isStarted :: bool
  onRoutesChangedChan :: "RouteChangeMessage option option"
  nd_receiver :: "nat option"
  nd_starting :: nat
  nd_readers :: "nat set"
  nd_netlink :: netlink

record nd_env =
  nv_outbound :: "net_ip \<Rightarrow> gerror + net_ip"
  nv_interfaces :: interfaces
  nv_listener :: error

definition nd_Create :: detector where
  "nd_Create = \<lparr>timerNotifyAfterDelay = False, interfaceToProtect = None, isInitialised = False, isStarted = False,
     onRoutesChangedChan = None, nd_receiver = None, nd_starting = 0, nd_readers = {}, nd_netlink = nl_initial\<rparr>"

definition getCurrentRoutingInterface :: "nd_env \<Rightarrow> net_ip \<Rightarrow> gerror + net_if" where
  "getCurrentRoutingInterface env destIP =
     (case nv_outbound env destIP of
        Inl err \<Rightarrow> Inl err
      | Inr outboundIP \<Rightarrow> InterfaceByIPAddr (nv_interfaces env) outboundIP)"

fun routing_loop :: "nd_env \<Rightarrow> net_if \<Rightarrow> net_ip list \<Rightarrow> error \<Rightarrow> bool \<times> error" where
  "routing_loop env infToProtect [] lastErr = (False, lastErr)"
| "routing_loop env infToProtect (testIP # testIPs) lastErr =
     (case getCurrentRoutingInterface env testIP of
        Inl err \<Rightarrow> routing_loop env infToProtect testIPs (Some err)
      | Inr currentInterface \<Rightarrow>
          if if_index currentInterface \<noteq> if_index infToProtect \<or> if_name currentInterface \<noteq> if_name infToProtect
          then (True, None)
          else routing_loop env infToProtect testIPs lastErr)"

definition nd_testIPs :: "net_ip list" where "nd_testIPs = [mk_IPv4 1 1 1 1, mk_IPv4 8 8 8 8]"

definition isRoutingChanged :: "nd_env \<Rightarrow> detector \<Rightarrow> bool \<times> error" where
  "isRoutingChanged env d =
     (case interfaceToProtect d of
        None \<Rightarrow> (False, Some (Err ''interface to protect is not configured''))
      | Some infToProtect \<Rightarrow> routing_loop env infToProtect nd_testIPs None)"

text \<open>A message for a full channel is dropped.\<close>

definition nd_send :: "RouteChangeMessage \<Rightarrow> detector \<Rightarrow> detector" where
  "nd_send msg d =
     (case onRoutesChangedChan d of
        None \<Rightarrow> d
      | Some None \<Rightarrow> d\<lparr>onRoutesChangedChan := Some (Some msg)\<rparr>
      | Some (Some _) \<Rightarrow> d)"

definition notifyRoutingChange :: "nd_env \<Rightarrow> detector \<Rightarrow> detector" where
  "notifyRoutingChange env d =
     (if onRoutesChangedChan d = None then d
      else if interfaceToProtect d \<noteq> None then
        (let (leak, err) = isRoutingChanged env d in
         if err \<noteq> None then d else nd_send \<lparr>interfaceLeakDetected = leak, newDefaultGateway = []\<rparr> d)
      else nd_send \<lparr>interfaceLeakDetected = False, newDefaultGateway = []\<rparr> d)"

definition notifyRoutingChangeWithDelay :: "detector \<Rightarrow> detector" where
  "notifyRoutingChangeWithDelay d = d\<lparr>timerNotifyAfterDelay := True\<rparr>"

definition nd_doStop :: "detector \<Rightarrow> detector" where
  "nd_doStop d =
     d\<lparr>nd_receiver := None, nd_netlink := UnregisterLanChangeListener (nd_receiver d) (nd_netlink d)\<rparr>"

definition nd_Stop :: "detector \<Rightarrow> detector" where
  "nd_Stop d = nd_doStop (d\<lparr>isStarted := False, timerNotifyAfterDelay := False\<rparr>)"

text \<open>\<open>Init\<close> is given a new channel.\<close>

definition nd_Init :: "net_if option \<Rightarrow> detector \<Rightarrow> detector" where
  "nd_Init currentDefaultInterface d =
     (nd_Stop d)\<lparr>onRoutesChangedChan := Some None, interfaceToProtect := currentDefaultInterface, isInitialised := True\<rparr>"

definition nd_UnInit :: "detector \<Rightarrow> detector" where
  "nd_UnInit d = nd_Stop (d\<lparr>isInitialised := False\<rparr>)"

definition nd_Start :: "detector \<Rightarrow> error \<times> detector" where
  "nd_Start d =
     (if \<not> isInitialised d then (Some (Err ''not initialised''), d)
      else if isStarted d then (None, d)
      else (None, d\<lparr>isStarted := True, nd_starting := nd_starting d + 1\<rparr>))"

text \<open>What a goroutine of \<open>doStart\<close> does before its loop.\<close>

definition nd_doStart :: "nd_env \<Rightarrow> detector \<Rightarrow> detector" where
  "nd_doStart env d =
     (if nd_receiver d \<noteq> None then d
      else case RegisterLanChangeListener (nv_listener env) (nd_netlink d) of
        (Inl _, n) \<Rightarrow> d\<lparr>nd_netlink := n\<rparr>
      | (Inr receiver, n) \<Rightarrow>
          d\<lparr>nd_netlink := n, nd_receiver := Some receiver, nd_readers := insert receiver (nd_readers d)\<rparr>)"

text \<open>
  One round of its loop: an event is taken out of the channel, an empty closed channel ends it.
  \<open>Nd_other\<close> is a registration by the split tunnel, which never gives its channel back.
\<close>

datatype nd_event =
    Nd_init "net_if option" | Nd_uninit | Nd_start | Nd_stop
  | Nd_begin nd_env
  | Nd_round nat
  | Nd_timer nd_env
  | Nd_taken
  | Nd_other nd_env
  | Nd_netlink nl_event

fun nd_step :: "nd_event \<Rightarrow> detector \<Rightarrow> detector" where
  "nd_step (Nd_init i) d = nd_Init i d"
| "nd_step Nd_uninit d = nd_UnInit d"
| "nd_step Nd_start d = snd (nd_Start d)"
| "nd_step Nd_stop d = nd_Stop d"
| "nd_step (Nd_begin env) d =
     (if nd_starting d = 0 then d else nd_doStart env (d\<lparr>nd_starting := nd_starting d - 1\<rparr>))"
| "nd_step (Nd_round r) d =
     (if r \<notin> nd_readers d then d
      else if r \<in> nl_full (nd_netlink d) then
        notifyRoutingChangeWithDelay (d\<lparr>nd_netlink := (nd_netlink d)\<lparr>nl_full := nl_full (nd_netlink d) - {r}\<rparr>\<rparr>)
      else if r \<in> nl_closed (nd_netlink d) then d\<lparr>nd_readers := nd_readers d - {r}\<rparr>
      else d)"
| "nd_step (Nd_timer env) d =
     (if timerNotifyAfterDelay d then notifyRoutingChange env (d\<lparr>timerNotifyAfterDelay := False\<rparr>) else d)"
| "nd_step Nd_taken d =
     (case onRoutesChangedChan d of None \<Rightarrow> d | Some _ \<Rightarrow> d\<lparr>onRoutesChangedChan := Some None\<rparr>)"
| "nd_step (Nd_other env) d =
     d\<lparr>nd_netlink := snd (RegisterLanChangeListener (nv_listener env) (nd_netlink d))\<rparr>"
| "nd_step (Nd_netlink e) d = d\<lparr>nd_netlink := nl_do e (nd_netlink d)\<rparr>"

end
