(* ===== verification/Net_Proofs.thy ===== *)
theory Net_Proofs
  imports Net_Change
begin

section \<open>Channels, listeners and the detector of changes\<close>

text \<open>
  The channels of the listeners over all runs, and two orders of events in which listening goes on
  although nobody wants it.
\<close>

subsection \<open>The channels\<close>

definition nl_inv :: "netlink \<Rightarrow> bool" where
  "nl_inv n \<longleftrightarrow> \<not> nl_panic n \<and> distinct (globalEvtReceivers n) \<and> set (globalEvtReceivers n) \<inter> nl_closed n = {}
    \<and> (\<forall>c \<in> set (globalEvtReceivers n) \<union> nl_closed n. c < nl_channels n)"

definition nd_inv :: "detector \<Rightarrow> bool" where
  "nd_inv d \<longleftrightarrow> nl_inv (nd_netlink d)
    \<and> (\<forall>r \<in> nd_readers d. r < nl_channels (nd_netlink d)
         \<and> (r \<in> set (globalEvtReceivers (nd_netlink d)) \<longrightarrow> nd_receiver d = Some r))"

lemma close_channels:
  "distinct cs \<Longrightarrow> set cs \<inter> nl_closed n = {} \<Longrightarrow> fold close_channel cs n = n\<lparr>nl_closed := set cs \<union> nl_closed n\<rparr>"
  by (induction cs arbitrary: n) (auto simp: close_channel_def)

lemma notify_channels:
  "set cs \<inter> nl_closed n = {} \<Longrightarrow> fold notify_channel cs n = n\<lparr>nl_full := set cs \<union> nl_full n\<rparr>"
  by (induction cs arbitrary: n) (auto simp: notify_channel_def)

lemma register_inv: "nl_inv n \<Longrightarrow> nl_inv (snd (RegisterLanChangeListener e n))"
  by (auto simp: nl_inv_def RegisterLanChangeListener_def Let_def less_Suc_eq)

lemma unregister_eq:
  assumes "nl_inv n"
  shows "UnregisterLanChangeListener (Some r) n =
    n\<lparr>globalEvtReceivers := remove1 r (globalEvtReceivers n),
      nl_closed := (if r \<in> set (globalEvtReceivers n) then insert r (nl_closed n) else nl_closed n),
      globalListener := (if remove1 r (globalEvtReceivers n) = [] then None else globalListener n)\<rparr>"
  using assms by (auto simp: UnregisterLanChangeListener_def nl_inv_def close_channel_def remove1_idem Let_def)

lemma unregister_inv: "nl_inv n \<Longrightarrow> nl_inv (UnregisterLanChangeListener r n)"
  by (cases r) (auto simp: unregister_eq nl_inv_def UnregisterLanChangeListener_def[of None] dest: notin_set_remove1)

lemma nl_do_inv: "nl_inv n \<Longrightarrow> nl_inv (nl_do e n)"
  by (cases e) (auto simp: nl_inv_def notify_channels close_channels split: option.split)

lemma nl_do_keeps:
  "nl_inv n \<Longrightarrow> nl_channels (nl_do e n) = nl_channels n \<and> set (globalEvtReceivers (nl_do e n)) \<subseteq> set (globalEvtReceivers n)"
  by (cases e) (auto simp: nl_inv_def notify_channels close_channels split: option.split)

lemma doStop_inv: "nd_inv d \<Longrightarrow> nd_inv (nd_doStop d)"
  by (cases "nd_receiver d")
    (auto simp: nd_inv_def nd_doStop_def unregister_inv unregister_eq UnregisterLanChangeListener_def[of None]
      simp del: not_None_eq simp: nl_inv_def dest: notin_set_remove1)

lemma nd_inv_fields:
  "nd_inv (d\<lparr>isStarted := a\<rparr>) = nd_inv d"
  "nd_inv (d\<lparr>interfaceToProtect := t\<rparr>) = nd_inv d"
  "nd_inv (d\<lparr>onRoutesChangedChan := c\<rparr>) = nd_inv d"
  "nd_inv (d\<lparr>isInitialised := i\<rparr>) = nd_inv d"
  "nd_inv (d\<lparr>timerNotifyAfterDelay := b\<rparr>) = nd_inv d"
  "nd_inv (d\<lparr>nd_starting := m\<rparr>) = nd_inv d"
  by (simp_all add: nd_inv_def)

lemma stop_inv: "nd_inv d \<Longrightarrow> nd_inv (nd_Stop d)"
  by (simp add: nd_Stop_def doStop_inv nd_inv_fields)

lemma nd_send_inv: "nd_inv (nd_send m d) = nd_inv d"
  by (simp add: nd_send_def nd_inv_fields split: option.split)

lemma notify_inv: "nd_inv (notifyRoutingChange env d) = nd_inv d"
  by (simp add: notifyRoutingChange_def nd_send_inv split: prod.split)

lemma doStart_inv: "nd_inv d \<Longrightarrow> nd_inv (nd_doStart env d)"
  using register_inv[of "nd_netlink d" "nv_listener env"]
  by (auto simp: nd_inv_def nd_doStart_def RegisterLanChangeListener_def Let_def)

lemma other_inv: "nd_inv d \<Longrightarrow> nd_inv (d\<lparr>nd_netlink := snd (RegisterLanChangeListener e (nd_netlink d))\<rparr>)"
  using register_inv[of "nd_netlink d" e]
  by (auto simp: nd_inv_def RegisterLanChangeListener_def Let_def)

lemma netlink_inv: "nd_inv d \<Longrightarrow> nd_inv (d\<lparr>nd_netlink := nl_do e (nd_netlink d)\<rparr>)"
  using nl_do_inv[of "nd_netlink d" e] nl_do_keeps[of "nd_netlink d" e] by (auto simp: nd_inv_def)

lemma round_inv: "nd_inv d \<Longrightarrow> nd_inv (nd_step (Nd_round r) d)"
  by (auto simp: nd_inv_def nl_inv_def notifyRoutingChangeWithDelay_def)

lemma nd_step_inv: "nd_inv d \<Longrightarrow> nd_inv (nd_step e d)"
  by (cases e)
    (auto simp: nd_Init_def nd_UnInit_def nd_Start_def stop_inv nd_inv_fields doStart_inv notify_inv
      other_inv netlink_inv simp del: nd_step.simps(6) intro: round_inv split: option.split)

interpretation net_detector: safe_machine nd_step nd_inv
  by unfold_locales (rule nd_step_inv)

lemma Create_inv: "nd_inv nd_Create"
  by (simp add: nd_inv_def nl_inv_def nd_Create_def nl_initial_def)

text \<open>
  C27: whatever the order of starts, stops, events and failures of the socket, no channel of a
  listener is closed twice or sent to after it was closed, none is registered twice, and of the
  channels whose loops still run only the current one of the detector is registered.
\<close>

theorem listener_channels_sound:
  "\<not> nl_panic (nd_netlink (fold nd_step es nd_Create))
    \<and> distinct (globalEvtReceivers (nd_netlink (fold nd_step es nd_Create)))
    \<and> nd_readers (fold nd_step es nd_Create) \<inter> set (globalEvtReceivers (nd_netlink (fold nd_step es nd_Create)))
        \<subseteq> set_option (nd_receiver (fold nd_step es nd_Create))"
  using net_detector.run_inv[OF Create_inv, of es] by (auto simp: nd_inv_def nl_inv_def)

subsection \<open>A goroutine without a listener\<close>

definition nl_idle :: "nat \<Rightarrow> netlink \<Rightarrow> bool" where
  "nl_idle i n \<longleftrightarrow> globalListener n = None \<and> nl_at n i ((=) Nr_loop)"

text \<open>Nobody registers.\<close>

definition no_registration :: "nd_event \<Rightarrow> bool" where
  "no_registration e \<longleftrightarrow> (case e of Nd_begin _ \<Rightarrow> False | Nd_other _ \<Rightarrow> False | _ \<Rightarrow> True)"

lemma fold_close_frame:
  "nl_routines (fold close_channel cs n) = nl_routines n \<and> globalListener (fold close_channel cs n) = globalListener n"
  by (induction cs arbitrary: n) (auto simp: close_channel_def)

lemma fold_notify_frame:
  "nl_routines (fold notify_channel cs n) = nl_routines n \<and> globalListener (fold notify_channel cs n) = globalListener n"
  by (induction cs arbitrary: n) (auto simp: notify_channel_def)

lemma nl_do_idle: "nl_idle i n \<Longrightarrow> nl_idle i (nl_do e n)"
  by (cases e) (auto simp: nl_idle_def nl_at_def is_reading_def fold_close_frame fold_notify_frame nth_list_update)

lemma unregister_idle: "nl_idle i n \<Longrightarrow> nl_idle i (UnregisterLanChangeListener r n)"
  by (auto simp: nl_idle_def nl_at_def UnregisterLanChangeListener_def close_channel_def Let_def split: option.split)

lemma stop_netlink: "nd_netlink (nd_Stop d) = UnregisterLanChangeListener (nd_receiver d) (nd_netlink d)"
  by (simp add: nd_Stop_def nd_doStop_def)

lemma notify_netlink: "nd_netlink (notifyRoutingChange env d) = nd_netlink d"
  by (simp add: notifyRoutingChange_def nd_send_def split: prod.split option.split)

lemma idle_full: "nl_idle i (n\<lparr>nl_full := f\<rparr>) = nl_idle i n"
  by (simp add: nl_idle_def nl_at_def)

lemma step_idle: "no_registration e \<Longrightarrow> nl_idle i (nd_netlink d) \<Longrightarrow> nl_idle i (nd_netlink (nd_step e d))"
  by (cases e)
    (auto simp: no_registration_def nd_Init_def nd_UnInit_def nd_Start_def stop_netlink notify_netlink
      unregister_idle nl_do_idle notifyRoutingChangeWithDelay_def idle_full split: option.split)

lemma run_idle: "list_all no_registration es \<Longrightarrow> nl_idle i (nd_netlink d) \<Longrightarrow> nl_idle i (nd_netlink (fold nd_step es d))"
  by (induction es arbitrary: d) (auto simp: step_idle)

lemma idle_read: "nl_idle i n \<Longrightarrow> nl_do (Nl_read i) n = n"
  by (simp add: nl_idle_def)

text \<open>
  C26: when the detector stops and was the last listener, the goroutine that reads the socket never
  ends: after its read has returned it calls \<open>ReadMsgs\<close> of no listener over and over, which neither
  waits nor fails, for as long as nobody registers again.
\<close>

theorem idle_listener_spins:
  fixes d :: detector and es :: "nd_event list" and i r :: nat and changed :: bool
  assumes last: "globalEvtReceivers (nd_netlink d) = [r]" "nd_receiver d = Some r"
    and reading: "nl_at (nd_netlink d) i is_reading" and quiet: "list_all no_registration es"
  defines "d' \<equiv> fold nd_step es (nd_step (Nd_netlink (Nl_messages i changed)) (nd_step Nd_stop d))"
  shows "nl_at (nd_netlink d') i ((=) Nr_loop) \<and> nd_step (Nd_netlink (Nl_read i)) d' = d'"
proof -
  have "globalListener (UnregisterLanChangeListener (Some r) (nd_netlink d)) = None"
    "nl_routines (UnregisterLanChangeListener (Some r) (nd_netlink d)) = nl_routines (nd_netlink d)"
    using last(1) by (simp_all add: UnregisterLanChangeListener_def close_channel_def Let_def)
  then have "nl_idle i (nd_netlink (nd_step (Nd_netlink (Nl_messages i changed)) (nd_step Nd_stop d)))"
    using reading last(2)
    by (simp add: nl_idle_def nl_at_def stop_netlink fold_notify_frame)
  then have "nl_idle i (nd_netlink d')" unfolding d'_def using quiet by (intro run_idle)
  then show ?thesis using idle_read by (simp add: nl_idle_def)
qed

subsection \<open>A start that comes after the stop\<close>

lemma doStart_registers:
  assumes "nd_receiver d = None" "nv_listener env = None"
  shows "\<exists>r. nd_receiver (nd_doStart env d) = Some r \<and> r \<in> set (globalEvtReceivers (nd_netlink (nd_doStart env d)))
    \<and> r \<in> nd_readers (nd_doStart env d) \<and> isStarted (nd_doStart env d) = isStarted d"
  using assms by (simp add: nd_doStart_def RegisterLanChangeListener_def Let_def)

lemma change_arms_timer:
  assumes inv: "nd_inv d" and r: "r \<in> set (globalEvtReceivers (nd_netlink d))" "r \<in> nd_readers d"
    and reading: "nl_at (nd_netlink d) i is_reading"
  shows "timerNotifyAfterDelay (fold nd_step [Nd_netlink (Nl_messages i True), Nd_round r] d)"
proof -
  have "nl_full (fold notify_channel (globalEvtReceivers (nd_netlink d)) (nd_netlink d)) =
      set (globalEvtReceivers (nd_netlink d)) \<union> nl_full (nd_netlink d)"
    using notify_channels inv unfolding nd_inv_def nl_inv_def by simp
  then have full: "r \<in> nl_full (nl_do (Nl_messages i True) (nd_netlink d))" using r(1) reading by simp
  define d1 where "d1 = nd_step (Nd_netlink (Nl_messages i True)) d"
  have "r \<in> nl_full (nd_netlink d1)" "r \<in> nd_readers d1" using full r(2) by (simp_all add: d1_def del: nl_do.simps)
  then have "timerNotifyAfterDelay (nd_step (Nd_round r) d1)" by (simp add: notifyRoutingChangeWithDelay_def)
  then show ?thesis by (simp only: fold_simps d1_def)
qed

text \<open>
  when the detector is stopped before the goroutine of its start has begun, it goes on listening:
  it is not started, but its channel is registered and the next change of the network starts the
  timer of a notification.
\<close>

theorem late_start_listens:
  fixes es :: "nd_event list" and env :: nd_env
  defines "d \<equiv> fold nd_step es nd_Create"
  defines "d' \<equiv> fold nd_step [Nd_start, Nd_stop, Nd_begin env] d"
  assumes init: "isInitialised d" "\<not> isStarted d" "nd_receiver d = None" and ok: "nv_listener env = None"
  shows "\<not> isStarted d' \<and> (\<exists>r. nd_receiver d' = Some r \<and> r \<in> set (globalEvtReceivers (nd_netlink d'))
    \<and> (\<forall>i. nl_at (nd_netlink d') i is_reading \<longrightarrow>
         timerNotifyAfterDelay (fold nd_step [Nd_netlink (Nl_messages i True), Nd_round r] d')))"
proof -
  have inv: "nd_inv d'" "nd_inv d" unfolding d'_def d_def
    using net_detector.run_inv[OF net_detector.run_inv[OF Create_inv, of es]] net_detector.run_inv[OF Create_inv, of es] by blast+
  define d2 where "d2 = nd_Stop (snd (nd_Start d))"
  have d2: "nd_starting d2 \<noteq> 0" "nd_receiver d2 = None" "\<not> isStarted d2"
    unfolding d2_def using init(1,2) by (simp_all add: nd_Start_def nd_Stop_def nd_doStop_def)
  have "d' = nd_doStart env (d2\<lparr>nd_starting := nd_starting d2 - 1\<rparr>)"
    unfolding d'_def d2_def[symmetric] fold_simps nd_step.simps using d2(1) by (simp only: if_False)
  then obtain r where r: "nd_receiver d' = Some r" "r \<in> set (globalEvtReceivers (nd_netlink d'))" "r \<in> nd_readers d'" "\<not> isStarted d'"
    using doStart_registers[of "d2\<lparr>nd_starting := nd_starting d2 - 1\<rparr>" env] d2(2,3) ok by auto
  have "timerNotifyAfterDelay (fold nd_step [Nd_netlink (Nl_messages i True), Nd_round r] d')"
    if "nl_at (nd_netlink d') i is_reading" for i
    using change_arms_timer[OF inv(1) r(2,3) that] .
  with r show ?thesis by blast
qed

subsection \<open>Witnesses\<close>

definition sample_nd_env :: nd_env where
  "sample_nd_env = \<lparr>nv_outbound = (\<lambda>_. Inl (Err ''no route'')), nv_interfaces = Inr [], nv_listener = None\<rparr>"

definition sample_listening :: detector where
  "sample_listening = fold nd_step [Nd_init None, Nd_start, Nd_begin sample_nd_env, Nd_netlink (Nl_read 0)] nd_Create"

theorem idle_listener_spins_witness:
  "nl_at (nd_netlink (nd_step (Nd_netlink (Nl_messages 0 True)) (nd_step Nd_stop sample_listening))) 0 ((=) Nr_loop)
    \<and> nd_step (Nd_netlink (Nl_read 0)) (nd_step (Nd_netlink (Nl_messages 0 True)) (nd_step Nd_stop sample_listening))
      = nd_step (Nd_netlink (Nl_messages 0 True)) (nd_step Nd_stop sample_listening)"
proof -
  have "globalEvtReceivers (nd_netlink sample_listening) = [0]" "nd_receiver sample_listening = Some 0"
    "nl_at (nd_netlink sample_listening) 0 is_reading" by code_simp+
  moreover have "list_all no_registration []" by simp
  ultimately show ?thesis using idle_listener_spins[of sample_listening 0 0 "[]" True] by (simp only: fold_simps)
qed

theorem late_start_listens_witness:
  "\<exists>r. nd_receiver (fold nd_step [Nd_start, Nd_stop, Nd_begin sample_nd_env] (fold nd_step [Nd_init None] nd_Create)) = Some r"
proof -
  have "isInitialised (fold nd_step [Nd_init None] nd_Create)" "\<not> isStarted (fold nd_step [Nd_init None] nd_Create)"
    "nd_receiver (fold nd_step [Nd_init None] nd_Create) = None" "nv_listener sample_nd_env = None" by code_simp+
  from late_start_listens[OF this] show ?thesis by (elim conjE exE) (rule exI)
qed

end
