(* ===== verification/Service_Conntest.thy ===== *)
theory Service_Conntest
  imports Servers
begin

section \<open>Testing which ports are accessible (daemon/service/service\_conntest.go)\<close>

text \<open>
  A call that comes while a test runs waits for it and takes its result when both are about the
  same ports. The tests are numbered as they begin; a call is the moment it looks for a running
  test, the moment it gets the lock, and the end of its own test.
\<close>

subsection \<open>One test\<close>

text \<open>\<open>cn_reached\<close> are the answers of the echo server, \<open>cn_order\<close> the order in which they come.\<close>

record conntest_env =
  cn_servers :: "gerror + ServersInfoResponse"
  cn_servers_again :: "gerror + ServersInfoResponse"
  cn_reached :: "string \<Rightarrow> PortInfo \<Rightarrow> error"
  cn_order :: "PortInfo list \<Rightarrow> PortInfo list"

type_synonym ports_result = "PortInfo list \<times> error"

definition tcp_port :: "int \<Rightarrow> PortInfo" where
  "tcp_port p = \<lparr>port_Type = ''TCP'', port_Port = p, port_Range = \<lparr>range_Min = 0, range_Max = 0\<rparr>\<rparr>"

definition add_all_ports :: "PortInfo list \<Rightarrow> PortInfo list \<Rightarrow> PortInfo list" where
  "add_all_ports pts allPorts = foldl (\<lambda>m p. if port_Port p = 0 then m else List.insert p m) allPorts pts"

definition check_ports :: "conntest_env \<Rightarrow> string \<Rightarrow> PortInfo list \<Rightarrow> ports_result" where
  "check_ports env echo allPorts =
     (if length allPorts = 0 then ([], None)
      else (cn_order env (filter (\<lambda>p. cn_reached env echo p = None) allPorts), None))"

definition doDetectAccessiblePorts :: "conntest_env \<Rightarrow> PortInfo list \<Rightarrow> ports_result" where
  "doDetectAccessiblePorts env portsToTest =
     (case cn_servers env of
        Inl err \<Rightarrow> ([], Some err)
      | Inr serversInfo \<Rightarrow>
          (case Test (Ports (Config serversInfo)) of
            [] \<Rightarrow> ([], None)
          | remoteEchoServerIP # _ \<Rightarrow>
              if length remoteEchoServerIP = 0 then ([], None)
              else if length portsToTest > 0 then check_ports env remoteEchoServerIP (add_all_ports portsToTest [])
              else (case cn_servers_again env of
                Inl err \<Rightarrow> ([], Some err)
              | Inr svrs \<Rightarrow>
                  let ports = Ports (Config svrs);
                      allPorts = add_all_ports (pi_OpenVPN ports) (add_all_ports (pi_WireGuard ports) []);
                      allPorts = List.insert (tcp_port (Obfs4 ports)) (List.insert (tcp_port (Obfs3 ports)) allPorts)
                  in check_ports env remoteEchoServerIP allPorts)))"

definition isPortsEquals :: "PortInfo list \<Rightarrow> PortInfo list \<Rightarrow> bool" where
  "isPortsEquals a b = (if length a \<noteq> length b then False else list_all (\<lambda>p. p \<in> set a) b)"

subsection \<open>Calls at the same time\<close>

record connTestResult =
  ct_tested :: "PortInfo list"
  ct_result :: "ports_result option"  \<comment> \<open>once the test is over\<close>

datatype ct_call = Ct_waiting "PortInfo list" "nat option" | Ct_testing "PortInfo list" nat | Ct_returned "PortInfo list" nat

record connTest =
  ct_tests :: "connTestResult list"
  ct_running :: "nat option"
  ct_locker :: "nat option"  \<comment> \<open>the call that holds the lock\<close>
  ct_calls :: "nat \<rightharpoonup> ct_call"

definition ct_initial :: connTest where
  "ct_initial = \<lparr>ct_tests = [], ct_running = None, ct_locker = None, ct_calls = Map.empty\<rparr>"

datatype ct_event = Ct_call nat "PortInfo list" | Ct_lock nat | Ct_done nat conntest_env

definition ct_reuses :: "connTest \<Rightarrow> PortInfo list \<Rightarrow> nat option \<Rightarrow> nat option" where
  "ct_reuses s ports runningTest =
     (case runningTest of
        None \<Rightarrow> None
      | Some t \<Rightarrow> if isPortsEquals ports (ct_tested (ct_tests s ! t)) then Some t else None)"

text \<open>The result of a call is that of the test named when it returns.\<close>

fun DetectAccessiblePorts :: "ct_event \<Rightarrow> connTest \<Rightarrow> connTest" where
  "DetectAccessiblePorts (Ct_call c portsToTest) s =
     (if ct_calls s c \<noteq> None then s
      else s\<lparr>ct_calls := (ct_calls s)(c \<mapsto> Ct_waiting portsToTest (ct_running s))\<rparr>)"
| "DetectAccessiblePorts (Ct_lock c) s =
     (case ct_calls s c of
        Some (Ct_waiting ports runningTest) \<Rightarrow>
          if ct_locker s \<noteq> None then s
          else (case ct_reuses s ports runningTest of
            Some t \<Rightarrow> s\<lparr>ct_calls := (ct_calls s)(c \<mapsto> Ct_returned ports t)\<rparr>
          | None \<Rightarrow>
              s\<lparr>ct_calls := (ct_calls s)(c \<mapsto> Ct_testing ports (length (ct_tests s))),
                ct_running := Some (length (ct_tests s)), ct_locker := Some c,
                ct_tests := ct_tests s @ [\<lparr>ct_tested = ports, ct_result = None\<rparr>]\<rparr>)
      | _ \<Rightarrow> s)"
| "DetectAccessiblePorts (Ct_done c env) s =
     (case ct_calls s c of
        Some (Ct_testing ports t) \<Rightarrow>
          s\<lparr>ct_tests := (ct_tests s)[t := (ct_tests s ! t)\<lparr>ct_result := Some (doDetectAccessiblePorts env ports)\<rparr>],
            ct_calls := (ct_calls s)(c \<mapsto> Ct_returned ports t), ct_running := None, ct_locker := None\<rparr>
      | _ \<Rightarrow> s)"

subsection \<open>What a call is answered\<close>

definition ct_inv :: "connTest \<Rightarrow> bool" where
  "ct_inv s \<longleftrightarrow>
     (\<forall>t. ct_running s = Some t \<longrightarrow> t < length (ct_tests s))
   \<and> (\<forall>c ports t. ct_calls s c = Some (Ct_waiting ports (Some t)) \<longrightarrow> t < length (ct_tests s))
   \<and> (\<forall>c ports t. ct_calls s c = Some (Ct_testing ports t) \<longrightarrow>
        t < length (ct_tests s) \<and> ct_tested (ct_tests s ! t) = ports \<and> ct_locker s = Some c \<and> ct_running s = Some t)
   \<and> (\<forall>t < length (ct_tests s). ct_result (ct_tests s ! t) = None \<longrightarrow> ct_locker s \<noteq> None \<and> ct_running s = Some t)
   \<and> (\<forall>c ports t. ct_calls s c = Some (Ct_returned ports t) \<longrightarrow>
        t < length (ct_tests s) \<and> isPortsEquals ports (ct_tested (ct_tests s ! t)) \<and> ct_result (ct_tests s ! t) \<noteq> None)"

lemma isPortsEquals_refl: "isPortsEquals ports ports"
  by (simp add: isPortsEquals_def list_all_iff)

lemma ct_invD:
  assumes "ct_inv s"
  shows ct_runningD: "ct_running s = Some t \<Longrightarrow> t < length (ct_tests s)"
    and ct_waitingD: "ct_calls s c = Some (Ct_waiting ports (Some t)) \<Longrightarrow> t < length (ct_tests s)"
    and ct_testingD: "ct_calls s c = Some (Ct_testing ports t) \<Longrightarrow> t < length (ct_tests s)
      \<and> ct_tested (ct_tests s ! t) = ports \<and> ct_locker s = Some c \<and> ct_running s = Some t"
    and ct_unfinishedD: "t < length (ct_tests s) \<Longrightarrow> ct_result (ct_tests s ! t) = None \<Longrightarrow>
      ct_locker s \<noteq> None \<and> ct_running s = Some t"
    and ct_returnedD: "ct_calls s c = Some (Ct_returned ports t) \<Longrightarrow> t < length (ct_tests s)
      \<and> isPortsEquals ports (ct_tested (ct_tests s ! t)) \<and> ct_result (ct_tests s ! t) \<noteq> None"
  using assms unfolding ct_inv_def by blast+

lemma ct_invI:
  assumes "\<And>t. ct_running s = Some t \<Longrightarrow> t < length (ct_tests s)"
    and "\<And>c ports t. ct_calls s c = Some (Ct_waiting ports (Some t)) \<Longrightarrow> t < length (ct_tests s)"
    and "\<And>c ports t. ct_calls s c = Some (Ct_testing ports t) \<Longrightarrow> t < length (ct_tests s)
      \<and> ct_tested (ct_tests s ! t) = ports \<and> ct_locker s = Some c \<and> ct_running s = Some t"
    and "\<And>t. t < length (ct_tests s) \<Longrightarrow> ct_result (ct_tests s ! t) = None \<Longrightarrow> ct_locker s \<noteq> None \<and> ct_running s = Some t"
    and "\<And>c ports t. ct_calls s c = Some (Ct_returned ports t) \<Longrightarrow> t < length (ct_tests s)
      \<and> isPortsEquals ports (ct_tested (ct_tests s ! t)) \<and> ct_result (ct_tests s ! t) \<noteq> None"
  shows "ct_inv s"
  unfolding ct_inv_def using assms by blast

text \<open>Changing the entry of one call.\<close>

lemma call_update_inv:
  assumes "ct_inv s" "\<forall>ports t. ct_calls s c \<noteq> Some (Ct_testing ports t)"
    and "case x of Ct_waiting _ (Some t) \<Rightarrow> t < length (ct_tests s) | Ct_waiting _ None \<Rightarrow> True | Ct_testing _ _ \<Rightarrow> False
      | Ct_returned ports t \<Rightarrow> t < length (ct_tests s) \<and> isPortsEquals ports (ct_tested (ct_tests s ! t))
          \<and> ct_result (ct_tests s ! t) \<noteq> None"
  shows "ct_inv (s\<lparr>ct_calls := (ct_calls s)(c \<mapsto> x)\<rparr>)"
proof (rule ct_invI, goal_cases)
  case (1 t) then show ?case using ct_runningD[OF assms(1), of t] by simp
next
  case (2 c' ports t) then show ?case
    using ct_waitingD[OF assms(1), of c' ports t] assms(3) by (simp split: if_splits)
next
  case (3 c' ports t) then show ?case
    using ct_testingD[OF assms(1), of c' ports t] assms(3) by (simp split: if_splits)
next
  case (4 t) then show ?case using ct_unfinishedD[OF assms(1), of t] by simp
next
  case (5 c' ports t) then show ?case
    using ct_returnedD[OF assms(1), of c' ports t] assms(3) by (simp split: if_splits)
qed

lemma call_inv: "ct_inv s \<Longrightarrow> ct_inv (DetectAccessiblePorts (Ct_call c ports) s)"
  by (cases "ct_running s") (auto intro!: call_update_inv dest: ct_runningD)

lemma lock_inv:
  assumes inv: "ct_inv s"
  shows "ct_inv (DetectAccessiblePorts (Ct_lock c) s)"
proof (cases "\<exists>ports runningTest. ct_calls s c = Some (Ct_waiting ports runningTest) \<and> ct_locker s = None")
  case False
  then have "DetectAccessiblePorts (Ct_lock c) s = s" by (auto split: option.split ct_call.split)
  then show ?thesis using inv by simp
next
  case True
  then obtain ports runningTest where w: "ct_calls s c = Some (Ct_waiting ports runningTest)" "ct_locker s = None" by blast
  have finished: "ct_result (ct_tests s ! t) \<noteq> None" if "t < length (ct_tests s)" for t
    using ct_unfinishedD[OF inv that] w(2) by blast
  have none: "ct_calls s x \<noteq> Some (Ct_testing ps t)" for x ps t using ct_testingD[OF inv] w(2) by fastforce
  show ?thesis
  proof (cases "ct_reuses s ports runningTest")
    case None
    let ?new = "\<lparr>ct_tested = ports, ct_result = None\<rparr>"
    let ?s = "s\<lparr>ct_calls := (ct_calls s)(c \<mapsto> Ct_testing ports (length (ct_tests s))),
      ct_running := Some (length (ct_tests s)), ct_locker := Some c, ct_tests := ct_tests s @ [?new]\<rparr>"
    have "ct_inv ?s"
    proof (rule ct_invI, goal_cases)
      case (2 x ps t) then show ?case using ct_waitingD[OF inv, of x ps t] by (auto split: if_splits)
    next
      case (3 x ps t) then show ?case using none by (auto split: if_splits)
    next
      case (4 t) then show ?case using finished[of t] by (auto simp: nth_append less_Suc_eq split: if_splits)
    next
      case (5 x ps t) then show ?case using ct_returnedD[OF inv, of x ps t] by (auto simp: nth_append split: if_splits)
    qed simp
    then show ?thesis using w None by simp
  next
    case (Some t)
    have reuse: "isPortsEquals ports (ct_tested (ct_tests s ! t))" "runningTest = Some t"
      using Some by (auto simp: ct_reuses_def split: option.splits if_splits)
    have "t < length (ct_tests s)" using ct_waitingD[OF inv] w(1) reuse(2) by blast
    then have "ct_inv (s\<lparr>ct_calls := (ct_calls s)(c \<mapsto> Ct_returned ports t)\<rparr>)"
      using reuse finished none by (intro call_update_inv inv) auto
    then show ?thesis using w Some by simp
  qed
qed

lemma done_inv:
  assumes inv: "ct_inv s"
  shows "ct_inv (DetectAccessiblePorts (Ct_done c env) s)"
proof (cases "\<exists>ports t. ct_calls s c = Some (Ct_testing ports t)")
  case False
  then have "DetectAccessiblePorts (Ct_done c env) s = s" by (auto split: option.split ct_call.split)
  then show ?thesis using inv by simp
next
  case True
  then obtain ports t where t: "ct_calls s c = Some (Ct_testing ports t)" by blast
  note facts = ct_testingD[OF inv t]
  let ?s = "s\<lparr>ct_tests := (ct_tests s)[t := (ct_tests s ! t)\<lparr>ct_result := Some (doDetectAccessiblePorts env ports)\<rparr>],
    ct_calls := (ct_calls s)(c \<mapsto> Ct_returned ports t), ct_running := None, ct_locker := None\<rparr>"
  have "ct_inv ?s"
  proof (rule ct_invI, goal_cases)
    case (2 x ps u) then show ?case using ct_waitingD[OF inv, of x ps u] by (auto split: if_splits)
  next
    case (3 x ps u) then show ?case using ct_testingD[OF inv, of x ps u] facts by (auto split: if_splits)
  next
    case (4 u) then show ?case using ct_unfinishedD[OF inv, of u] facts by (cases "u = t") auto
  next
    case (5 x ps u)
    then show ?case using ct_returnedD[OF inv, of x ps u] facts isPortsEquals_refl
      by (auto simp: nth_list_update split: if_splits)
  qed simp
  then show ?thesis using t by simp
qed

interpretation conntest: safe_machine DetectAccessiblePorts ct_inv
proof
  fix s e assume "ct_inv s"
  then show "ct_inv (DetectAccessiblePorts e s)" by (cases e) (use call_inv lock_inv done_inv in blast)+
qed

lemma initial_inv: "ct_inv ct_initial"
  by (simp add: ct_inv_def ct_initial_def)

lemma isPortsEquals_set:
  assumes "isPortsEquals a b" "distinct b"
  shows "set a = set b"
proof -
  have "set b \<subseteq> set a" "length a = length b"
    using assms(1) by (auto simp: isPortsEquals_def list_all_iff split: if_splits)
  moreover have "card (set a) \<le> card (set b)" using assms(2) \<open>length a = length b\<close> by (metis card_length distinct_card)
  ultimately show ?thesis by (metis List.finite_set card_seteq)
qed

text \<open>Nobody asks for a port twice in one call.\<close>

definition asks_once :: "ct_event \<Rightarrow> bool" where
  "asks_once e \<longleftrightarrow> (case e of Ct_call _ ports \<Rightarrow> distinct ports | _ \<Rightarrow> True)"

definition tests_once :: "connTest \<Rightarrow> bool" where
  "tests_once s \<longleftrightarrow> (\<forall>r \<in> set (ct_tests s). distinct (ct_tested r))
    \<and> (\<forall>c ports t. ct_calls s c = Some (Ct_waiting ports t) \<longrightarrow> distinct ports)"

lemma step_tests_once:
  assumes inv: "ct_inv s" and ask: "asks_once e" and once: "tests_once s"
  shows "tests_once (DetectAccessiblePorts e s)"
proof (cases e)
  case (Ct_call c ports)
  then show ?thesis using ask once by (auto simp: tests_once_def asks_once_def)
next
  case (Ct_lock c)
  then show ?thesis using once by (auto simp: tests_once_def split: option.split ct_call.split)
next
  case (Ct_done c env)
  have "distinct (ct_tested r)"
    if t: "ct_calls s c = Some (Ct_testing ports t)"
      and r: "r \<in> set ((ct_tests s)[t := (ct_tests s ! t)\<lparr>ct_result := x\<rparr>])" for ports t r x
  proof -
    have "ct_tests s ! t \<in> set (ct_tests s)" using ct_testingD[OF inv t] by simp
    moreover have "r \<in> insert ((ct_tests s ! t)\<lparr>ct_result := x\<rparr>) (set (ct_tests s))"
      using r set_update_subset_insert by fast
    ultimately show ?thesis using once by (auto simp: tests_once_def)
  qed
  then show ?thesis using Ct_done once by (auto simp: tests_once_def split: option.split ct_call.split)
qed

lemma run_tests_once:
  "list_all asks_once es \<Longrightarrow> ct_inv s \<Longrightarrow> tests_once s \<Longrightarrow> tests_once (fold DetectAccessiblePorts es s)"
  by (induction es arbitrary: s) (auto intro: step_tests_once conntest.step_inv)

text \<open>
  C28: however calls overlap, each call that returned was answered by a test that is over and, when
  no call names a port twice, was about exactly the ports the call asked for.
\<close>

theorem conntest_answers_ports:
  assumes once: "list_all asks_once es"
    and call: "ct_calls (fold DetectAccessiblePorts es ct_initial) c = Some (Ct_returned ports t)"
  shows "\<exists>test. ct_tests (fold DetectAccessiblePorts es ct_initial) ! t = test
    \<and> ct_result test \<noteq> None \<and> set (ct_tested test) = set ports"
proof -
  define s where "s = fold DetectAccessiblePorts es ct_initial"
  have inv: "ct_inv s" unfolding s_def using conntest.run_inv[OF initial_inv] .
  note t = ct_returnedD[OF inv call[folded s_def]]
  have "tests_once s" unfolding s_def using run_tests_once[OF once initial_inv] by (simp add: tests_once_def ct_initial_def)
  then have "distinct (ct_tested (ct_tests s ! t))" using t by (simp add: tests_once_def)
  then show ?thesis using isPortsEquals_set t unfolding s_def[symmetric] by blast
qed

text \<open>
  A test of one port named twice counts as a test of two ports, so the answer to the call for the
  two leaves out the second although it was never tested.
\<close>

theorem duplicate_ports_untested: "p \<noteq> q \<Longrightarrow> isPortsEquals [p, q] [p, p] \<and> \<not> isPortsEquals [p, p] [p, q]"
  by (simp add: isPortsEquals_def)

theorem duplicate_ports_untested_witness:
  "isPortsEquals [tcp_port 1, tcp_port 2] [tcp_port 1, tcp_port 1] \<and> \<not> isPortsEquals [tcp_port 1, tcp_port 1] [tcp_port 1, tcp_port 2]"
  by (rule duplicate_ports_untested) (simp add: tcp_port_def)

definition sample_conntest_env :: conntest_env where
  "sample_conntest_env = \<lparr>cn_servers = Inl (Err ''no servers''), cn_servers_again = Inl (Err ''no servers''),
     cn_reached = (\<lambda>_ _. None), cn_order = id\<rparr>"

text \<open>Two calls for the same two ports in different orders share one test.\<close>

definition sample_calls :: "ct_event list" where
  "sample_calls = [Ct_call 1 [tcp_port 1, tcp_port 2], Ct_lock 1, Ct_call 2 [tcp_port 2, tcp_port 1],
     Ct_done 1 sample_conntest_env, Ct_lock 2]"

theorem conntest_answers_ports_witness:
  "\<exists>test. ct_tests (fold DetectAccessiblePorts sample_calls ct_initial) ! 0 = test
    \<and> ct_result test \<noteq> None \<and> set (ct_tested test) = set [tcp_port 2, tcp_port 1]"
proof (rule conntest_answers_ports)
  show "list_all asks_once sample_calls" by code_simp
  show "ct_calls (fold DetectAccessiblePorts sample_calls ct_initial) 2 = Some (Ct_returned [tcp_port 2, tcp_port 1] 0)"
    by code_simp
qed

end
