(* ===== verification/Spec2Isabelle.thy ===== *)
theory Spec2Isabelle
  imports Eaa Firewall_Dns V2Ray_Wrapper Preferences_Proofs Wg_Config Ovpn_Config Service_Pause
    Start_Proofs Ping_Proofs Protocol_Access Protocol_Dns Wg_States Ovpn_Mi_Proofs Ovpn_Proofs
    Api_Proofs Splittun_Proofs Net_Proofs Service_Conntest
begin

text \<open>
  The IVPN daemon (daemon/), the privileged service behind the IVPN desktop client, as a
  verification library of its decision logic, for the Linux build where a package is
  platform specific.

  Parts and theories.
  \<^item> Prelude: Go errors, times, shared list facts, the contract \<open>safe_machine\<close> of a
    component whose operations keep an invariant. Go_Strings, Go_Net: the functions of the
    Go packages \<open>strings\<close>, \<open>strconv\<close>, \<open>unicode\<close> and \<open>net\<close> the daemon uses.
  \<^item> Eaa (daemon/protocol/eaa/eaa.go, daemon/helpers/file.go): the password that guards
    privileged requests; protection from guessing, changing and removing the secret.
  \<^item> Dns_Settings (daemon/service/dns/dns_settings.go): DNS server configurations.
  \<^item> Netinfo (daemon/netinfo/netinfo.go): local address ranges, searches over interfaces.
  \<^item> Firewall, Firewall_Sync, Firewall_Dns (daemon/service/firewall: firewall.go,
    firewall_linux.go, helpers.go): the kill switch. The package variables are the record
    \<open>fw\<close>, which ends with the log of the commands given to firewall.sh. The refinement
    replays the log on an abstract script (\<open>sc_run\<close>, \<open>dns_rules\<close>).
  \<^item> Servers (daemon/api/types/servers.go), Vpn_Types (daemon/vpn/types.go,
    daemon/obfsproxy, the transport type of daemon/v2r/v2ray.go), Connection
    (daemon/service/types/connection.go), V2Ray_Config (daemon/v2r/config.go): data of the
    servers and of a connection, and the choice of its hosts.
  \<^item> Preferences, Preferences_Proofs (daemon/service/preferences): the stored state, the
    conversions from older versions, saving over a temporary file and its crash safety.
  \<^item> Wg_Config (daemon/vpn/wireguard: wireguard.go, daemon/helpers/base64.go) and
    Ovpn_Config (daemon/vpn/openvpn/config.go): the configuration files given to wg-quick
    and openvpn, what a value can put into them, the lines of the user.
  \<^item> The DNS of the system (daemon/service/dns): Dns_Stamps (dnscryptproxy/dnsstamps.go), Dns_Crypt
    (the configuration of dnscrypt-proxy and resolvers.go), Go_Regexp (Go's \<open>regexp\<close> as an ordered
    backtracking search), System_Dns (dns.go, dns\_linux.go, resolvectl and
    \<^verbatim>\<open>/etc/resolv.conf\<close>) over the record \<open>sys_dns\<close> of the package variables and the two files;
    System_Dns_Proofs: the original file is never lost, what a pause does to encrypted DNS.
  \<^item> Wg_Process (daemon/vpn/wireguard: wireguard.go, wireguard\_linux.go, wgctrl.go): a running
    WireGuard connection over that DNS, its requests and its channel as a step machine
    (\<open>wg_step\<close>); Wg_Process_Proofs: every accepted request is answered; Wg_States: the states
    it reports refine an automaton, and the user's DNS is in place while the tunnel is down.
  \<^item> OpenVPN (daemon/vpn/openvpn): Ovpn_Mi (mi.go), the management interface over which the daemon
    talks to the process, with a step per connection event and line (\<open>mi_step\<close>); Ovpn_Process
    (openvpn.go, openvpn\_linux.go, daemon/obfsproxy), a connection over that interface and the DNS of
    the system (\<open>ov_step\<close>). Ovpn_Mi_Proofs: the commands OpenVPN reads; Ovpn_Routes: the route
    commands a pause and a resumption run; Ovpn_Proofs: its steps simulated by operations on the
    DNS, what \<open>CONNECTED\<close> means, what a pause leaves behind.
  \<^item> Api_Client (daemon/api: api.go, api\_internal.go, daemon/service/servers\_updater.go): the requests
    to the API over the addresses of its host (the record \<open>api\<close>, with a log of the requests), the
    pinned keys, the updater of the list of servers over its cache file (\<open>updater\<close>), and the
    geolookups that share one request as a machine of their steps (\<open>geo_step\<close>). Api_Proofs: which
    addresses are asked in which order and with which body, when a cached list is used, how two
    geolookups end the daemon.
  \<^item> Splittun (daemon/splittun: splittun.go, splittun\_linux.go): the driver of the split tunnel over the
    package variables (\<open>st_state\<close>, with a log of the calls of splittun.sh) and the list of the processes
    in it. Splittun_Proofs: a removal takes exactly the descendants, roots and marks of the list, the
    parent read from \<^verbatim>\<open>/proc\<close> cannot be forged by the name of a process.
  \<^item> Net_Change (daemon/netchange: net\_change\_detector.go, net\_change\_detector\_linux.go,
    daemon/oshelpers/linux/netlink): the listener for changes of addresses and routes with its
    goroutine and channels (\<open>netlink\<close>) and the detector that reports them (\<open>detector\<close>), as one machine
    (\<open>nd_step\<close>). Net_Proofs: its channels over all runs, orders in which listening does not end.
  \<^item> Service_Conntest (daemon/service/service\_conntest.go): the test of the accessible ports and the
    calls that share one (\<open>ct_event\<close>).
  \<^item> V2Ray_Wrapper (daemon/v2r: v2ray.go, helper.go, v2ray\_linux.go): the V2Ray client
    process and the route to its server, which is refined to a set of routes.
  \<^item> The service (daemon/service), over the record \<open>svc\<close> of Service_State, which is the
    struct \<open>Service\<close> with the firewall it drives: Service_Dns (service\_dns.go),
    Service_Ops (kill switch, split tunnel, preferences), Service_Session (pause and
    resume, login, logout, the status of the session), Wg_Keys (wgkeys/manager.go),
    Service_Connect, Service_Keep and Service_Start (service\_connect.go: the pieces of
    \<open>connect\<close>, the loop that keeps a connection, \<open>Connect\<close> itself), Service_Ping
    (service\_ping.go), Service_Auto (service\_autoconnect.go, service\_wifi.go),
    Service_Init (the start of the service).
  \<^item> Service_Frames and Service_Machine: every operation of the service as a step
    (\<open>svc_op\<close>, \<open>svc_step\<close>) and the invariant of all runs that keeps the kill switch and
    the inverse split tunnel apart; Service_Pause, Start_Proofs, Ping_Proofs: properties of
    pausing, of starting a connection and of the order in which servers are pinged.
  \<^item> The protocol of the clients (daemon/protocol), over the record \<open>proto\<close> of Protocol_State, the
    struct \<open>Protocol\<close> with the service and the EAA file it drives and a log of the messages it
    sends: Protocol_Events (helpers.go, protocol\_handlers.go, the registration of a
    connection request), Protocol_Clients (protocol\_private.go, daemon/interoperability, the end
    of a connection, the processor of connection requests), Protocol_Requests
    (\<open>processRequest\<close> with one \<open>handle_\<close> function per case, \<open>processClient\<close>).
    Protocol_Machine makes the whole daemon a machine (\<open>daemon_op\<close>, \<open>daemon_step\<close>): readers of
    connections, goroutines of requests, of authenticated clients and of the service, the
    processor. Protocol_Proofs: the invariant of all its runs, the secret of the port, the
    account ID; Protocol_Access: what runs without the password cannot do; Protocol_Rounds:
    connection requests and their cancellation; Protocol_Dns: the DNS a client manages.

  Conventions. A Go string is a list of 8-bit characters, a nil slice or map is the empty
  one, an \<open>error\<close> is an option of \<open>gerror\<close>, a function with several results gives a tuple,
  and a method that changes its receiver or package variables gives the new state last,
  on every return path. Go's \<open>int\<close> is \<open>int\<close>, with the bounds of 64 bits where text is
  converted. Mutexes serialise the operations, so a concurrent execution is a sequence of
  operations (\<open>fw_op\<close>, \<open>fw_step\<close>); the background check of a persistent firewall is an
  operation of that sequence, one round at a time, and \<open>ensurePersistant\<close> is a fixed
  number of rounds, so that no fuel is needed. The service has no lock of its own: an
  operation is one step, and each goroutine, callback and deferred call is an operation or a
  piece of one (\<open>connect_begin\<close>, \<open>on_vpn_state\<close>, \<open>connect_end\<close>, \<open>session_answer\<close>, the rounds of
  the session checker, of the key rotation and of a pause), so that the interleavings are
  the orders of a run, but not those within a piece. The handlers of the protocol that the
  service calls during an operation handle its events in their order when it is done
  (\<open>on_svc\<close>); a connection is the pieces \<open>D_Take\<close>, \<open>D_Service\<close>, \<open>D_End\<close>, or \<open>D_Round\<close> as one step. A
  panic that is not recovered is the result \<open>None\<close> and stops the daemon (\<open>d_crashed\<close>). Calls that leave the modelled code are
  appended to a log (\<open>sv_log\<close>, \<open>v2_cmds\<close>, \<open>cmds\<close>). Loops end by their structure or have a
  termination proof: the login and key loops drop the KEM after one round,
  \<open>keep_loop\<close> follows the list of the attempts the world makes. Logging has no effect in the
  model.

  What the world does is an argument: the outcome of each operating-system call and clock
  reading (\<open>eaa_os\<close>), of each script command and the order of map iteration (\<open>fw_env\<close>), of the
  calls of the service and its clock (\<open>svc_env\<close>, \<open>login_env\<close>, \<open>keys_env\<close>, \<open>conn_env\<close>, \<open>ping_env\<close>,
  \<open>auto_env\<close>), of the V2Ray process (\<open>v2_env\<close>), of resolvectl, the files and dnscrypt-proxy (\<open>dns_env\<close>,
  \<open>crypt_env\<close>), of wg-quick and the kernel (\<open>wg_env\<close>), of the OpenVPN process, its socket and the
  routing table (\<open>ov_env\<close>, \<open>mi_env\<close>), of the servers of the API and the cache file (\<open>api_env\<close>,
  \<open>updater_env\<close>), of splittun.sh and \<^verbatim>\<open>/proc\<close> (\<open>st_env\<close>), of the interfaces, routes and the
  echo server (\<open>nd_env\<close>, \<open>conntest_env\<close>), of the parts of the daemon that are not modelled (\<open>proto_env\<close>), random numbers,
  \<open>encoding/json\<close> (\<open>pref_env\<close>, \<open>json_env\<close>), \<open>url.Parse\<close>. Hypotheses on them
  (\<open>script_ok\<close>, \<open>status_ok\<close>, \<open>adds_ok\<close>, \<open>rnd_ok\<close>, the JSON premises of Preferences_Proofs) state documented
  behaviour and are met by the instances the witnesses use.

  Not modelled: the other platforms; the processes the daemon starts (OpenVPN, obfsproxy, V2Ray);
  the key encapsulation, which calls a helper; network and system calls; the user interfaces.
\<close>

end
